(* ===== verification/Prelude.thy ===== *)
theory Prelude
  imports Main "HOL-Library.State_Monad"
begin

text \<open>
  Shared vocabulary of the development: Go strings and maps, the state monad that threads the
  sequence of calls a piece of code has made, and a small logic of what a computation may append
  to that sequence.

  \<^item> A Go \<open>string\<close> is its list of bytes (\<open>string\<close>, a \<open>char list\<close>); \<open>HasPrefix\<close>, \<open>HasSuffix\<close> and
    \<open>TrimPrefix\<close> are the functions of package \<open>strings\<close> the source uses.
  \<^item> A Go \<open>map[string]T\<close> is \<open>'v gomap\<close>: \<open>None\<close> is the nil map, \<open>Some f\<close> a map with the entries of
    \<open>f\<close>. Reading a nil map gives the zero value, writing to it panics: \<open>map_put\<close> returns \<open>None\<close> then.
  \<^item> \<open>'a go\<close> is the outcome of a Go call that may also panic.
\<close>

named_theorems run_simps \<open>equations that run a computation on a trace\<close>
named_theorems appends_intros \<open>computations that only append to the trace\<close>

subsection \<open>Outcomes\<close>

datatype ('e, 'a) go = Ret 'a | Fail 'e | Panic

definition go_of_sum :: "'e + 'a \<Rightarrow> ('e, 'a) go" where
  "go_of_sum r = (case r of Inl e \<Rightarrow> Fail e | Inr a \<Rightarrow> Ret a)"

lemma go_of_sum_simps [simp]:
  "go_of_sum (Inl e) = Fail e" "go_of_sum (Inr a) = Ret a"
  by (simp_all add: go_of_sum_def)

lemma go_of_sum_no_panic [simp]: "go_of_sum r \<noteq> Panic"
  by (cases r) simp_all

subsection \<open>Strings\<close>

fun HasPrefix :: "string \<Rightarrow> string \<Rightarrow> bool" where
  "HasPrefix s [] = True"
| "HasPrefix [] (p # ps) = False"
| "HasPrefix (c # s) (p # ps) = (c = p \<and> HasPrefix s ps)"

definition HasSuffix :: "string \<Rightarrow> string \<Rightarrow> bool" where
  "HasSuffix s suffix = HasPrefix (rev s) (rev suffix)"

definition TrimPrefix :: "string \<Rightarrow> string \<Rightarrow> string" where
  "TrimPrefix s prefix = (if HasPrefix s prefix then drop (length prefix) s else s)"

lemma HasPrefix_iff: "HasPrefix s p \<longleftrightarrow> (\<exists>t. s = p @ t)"
  by (induction s p rule: HasPrefix.induct) auto

lemma HasPrefix_append [simp]: "HasPrefix (p @ t) p"
  by (auto simp: HasPrefix_iff)

lemma HasPrefix_self [simp]: "HasPrefix s s"
  by (simp add: HasPrefix_iff)

lemma HasSuffix_iff: "HasSuffix s u \<longleftrightarrow> (\<exists>t. s = t @ u)"
  by (metis HasPrefix_iff HasSuffix_def rev_append rev_rev_ident)

lemma TrimPrefix_append [simp]: "TrimPrefix (p @ t) p = t"
  by (simp add: TrimPrefix_def)

lemma HasPrefix_single: "HasPrefix s [c] \<longleftrightarrow> (s \<noteq> [] \<and> hd s = c)"
  by (cases s) auto

lemma HasSuffix_single: "HasSuffix s [c] \<longleftrightarrow> (s \<noteq> [] \<and> last s = c)"
  by (cases s rule: rev_cases) (auto simp: HasSuffix_def)

subsection \<open>Maps\<close>

type_synonym 'v gomap = "(string \<rightharpoonup> 'v) option"

definition map_lookup :: "'v gomap \<Rightarrow> string \<Rightarrow> 'v option" where
  "map_lookup m k = (case m of None \<Rightarrow> None | Some f \<Rightarrow> f k)"

definition map_str :: "string gomap \<Rightarrow> string \<Rightarrow> string" where
  "map_str m k = (case map_lookup m k of None \<Rightarrow> [] | Some v \<Rightarrow> v)"

definition map_has :: "'v gomap \<Rightarrow> string \<Rightarrow> bool" where
  "map_has m k = (map_lookup m k \<noteq> None)"

definition map_put :: "'v gomap \<Rightarrow> string \<Rightarrow> 'v \<Rightarrow> 'v gomap option" where
  "map_put m k v = (case m of None \<Rightarrow> None | Some f \<Rightarrow> Some (Some (f(k \<mapsto> v))))"

definition make_map :: "(string \<times> 'v) list \<Rightarrow> 'v gomap" where
  "make_map kvs = Some (map_of kvs)"

lemma map_lookup_simps [simp]:
  "map_lookup None k = None" "map_lookup (Some f) k = f k"
  by (simp_all add: map_lookup_def)

lemma map_str_simps [simp]:
  "map_str None k = []" "map_str (Some f) k = (case f k of None \<Rightarrow> [] | Some v \<Rightarrow> v)"
  by (simp_all add: map_str_def)

lemma map_put_simps [simp]:
  "map_put None k v = None" "map_put (Some f) k v = Some (Some (f(k \<mapsto> v)))"
  by (simp_all add: map_put_def)

lemma map_lookup_make [simp]: "map_lookup (make_map kvs) k = map_of kvs k"
  by (simp add: make_map_def)

subsection \<open>Computations over a trace\<close>

text \<open>
  A computation of type \<open>('t list, 'a) state\<close> returns a value and the trace it leaves. \<open>perform\<close>
  makes one call: the answer may depend on everything that happened before. The computations
  of the model only ever append to the trace; \<open>appends\<close> states it and \<open>emits\<close> bounds what is
  appended.
\<close>

abbreviation ret :: "'a \<Rightarrow> ('s, 'a) state" where
  "ret \<equiv> State_Monad.return"

definition perform :: "('t list \<Rightarrow> 'a) \<Rightarrow> 't \<Rightarrow> ('t list, 'a) state" where
  "perform answer c = State (\<lambda>t. (answer t, t @ [c]))"

lemma run_perform [simp, run_simps]: "run_state (perform answer c) t = (answer t, t @ [c])"
  by (simp add: perform_def)

text \<open>\<open>observe f\<close>: a library call that is not logged, whose answer may still depend on the moment (random bytes, a
  salt, the clock of a library).\<close>

definition observe :: "('t list \<Rightarrow> 'a) \<Rightarrow> ('t list, 'a) state" where
  "observe f = State (\<lambda>t. (f t, t))"

lemma run_observe [simp, run_simps]: "run_state (observe f) t = (f t, t)"
  by (simp add: observe_def)

definition emits :: "('t \<Rightarrow> bool) \<Rightarrow> ('t list, 'a) state \<Rightarrow> bool" where
  "emits P m = (\<forall>t. \<exists>new. snd (run_state m t) = t @ new \<and> (\<forall>c \<in> set new. P c))"

abbreviation appends :: "('t list, 'a) state \<Rightarrow> bool" where
  "appends m \<equiv> emits (\<lambda>_. True) m"

lemma emitsD:
  assumes "emits P m" and "run_state m t = (a, t')"
  obtains new where "t' = t @ new" "\<forall>c \<in> set new. P c"
  using assms unfolding emits_def by (metis snd_conv)

lemma emits_mono: "emits P m \<Longrightarrow> (\<And>c. P c \<Longrightarrow> Q c) \<Longrightarrow> emits Q m"
  unfolding emits_def by blast

lemma emits_ret [simp, intro, appends_intros]: "emits P (ret a)"
  by (simp add: emits_def)

lemma emits_perform [intro, appends_intros]: "P c \<Longrightarrow> emits P (perform answer c)"
  by (simp add: emits_def)

lemma emits_observe [simp, intro, appends_intros]: "emits P (observe f)"
  by (simp add: emits_def)

lemma emits_bind_result:
  assumes "emits P m" and "\<And>a t t'. run_state m t = (a, t') \<Longrightarrow> emits P (f a)"
  shows "emits P (State_Monad.bind m f)"
  unfolding emits_def
proof (rule allI)
  fix t
  obtain a t' where m: "run_state m t = (a, t')" by fastforce
  obtain new where new: "t' = t @ new" "\<forall>c \<in> set new. P c"
    using emitsD [OF assms(1) m] .
  obtain b t'' where f: "run_state (f a) t' = (b, t'')" by fastforce
  obtain new' where new': "t'' = t' @ new'" "\<forall>c \<in> set new'. P c"
    using emitsD [OF assms(2) [OF m] f] .
  show "\<exists>n. snd (run_state (State_Monad.bind m f) t) = t @ n \<and> (\<forall>c \<in> set n. P c)"
    using m f new new' by (intro exI [of _ "new @ new'"]) auto
qed

lemma emits_bind [intro, appends_intros]:
  "emits P m \<Longrightarrow> (\<And>a. emits P (f a)) \<Longrightarrow> emits P (State_Monad.bind m f)"
  by (rule emits_bind_result)

lemma emits_if [intro, appends_intros]:
  "(b \<Longrightarrow> emits P m) \<Longrightarrow> (\<not> b \<Longrightarrow> emits P n) \<Longrightarrow> emits P (if b then m else n)"
  by simp

lemma emits_case_sum [intro, appends_intros]:
  "(\<And>e. emits P (f e)) \<Longrightarrow> (\<And>a. emits P (g a)) \<Longrightarrow> emits P (case r of Inl e \<Rightarrow> f e | Inr a \<Rightarrow> g a)"
  by (cases r) simp_all

lemma emits_case_option [intro, appends_intros]:
  "emits P m \<Longrightarrow> (\<And>a. emits P (g a)) \<Longrightarrow> emits P (case r of None \<Rightarrow> m | Some a \<Rightarrow> g a)"
  by (cases r) simp_all

lemma emits_case_go [intro, appends_intros]:
  "(\<And>a. emits P (f a)) \<Longrightarrow> (\<And>e. emits P (g e)) \<Longrightarrow> emits P m \<Longrightarrow>
   emits P (case r of Ret a \<Rightarrow> f a | Fail e \<Rightarrow> g e | Panic \<Rightarrow> m)"
  by (cases r) simp_all

lemma emits_case_bool [intro, appends_intros]:
  "(b \<Longrightarrow> emits P m) \<Longrightarrow> (\<not> b \<Longrightarrow> emits P n) \<Longrightarrow> emits P (case b of True \<Rightarrow> m | False \<Rightarrow> n)"
  by (cases b) simp_all

lemma emits_case_prod [intro, appends_intros]:
  "(\<And>a b. emits P (f a b)) \<Longrightarrow> emits P (case r of (a, b) \<Rightarrow> f a b)"
  by (cases r) simp_all

lemma emits_Let [intro, appends_intros]: "emits P (f x) \<Longrightarrow> emits P (Let x f)"
  by simp

text \<open>
  \<open>go_bind\<close> sequences two Go calls the way the source does: an error of the first is returned at
  once (\<open>if err != nil { return err }\<close>) and a panic unwinds.
\<close>

definition go_bind ::
  "('s, ('e, 'a) go) state \<Rightarrow> ('a \<Rightarrow> ('s, ('e, 'b) go) state) \<Rightarrow> ('s, ('e, 'b) go) state"
where
  "go_bind m f = do {
     r \<leftarrow> m;
     case r of Ret a \<Rightarrow> f a | Fail e \<Rightarrow> ret (Fail e) | Panic \<Rightarrow> ret Panic
   }"

text \<open>The same for functions that make no calls, and the logger \<open>*slog.Logger\<close> by the attributes it adds.\<close>

definition go_then :: "('e, 'a) go \<Rightarrow> ('a \<Rightarrow> ('e, 'b) go) \<Rightarrow> ('e, 'b) go" where
  "go_then r f = (case r of Ret a \<Rightarrow> f a | Fail e \<Rightarrow> Fail e | Panic \<Rightarrow> Panic)"

lemma go_then_simps [simp]:
  "go_then (Ret a) f = f a" "go_then (Fail e) f = Fail e" "go_then Panic f = Panic"
  by (simp_all add: go_then_def)

type_synonym slog = "(string \<times> string) list"

lemma emits_go_bind_result:
  assumes "emits P m" and "\<And>a t t'. run_state m t = (Ret a, t') \<Longrightarrow> emits P (f a)"
  shows "emits P (go_bind m f)"
  unfolding go_bind_def
proof (rule emits_bind_result [OF assms(1)])
  fix r t t'
  assume "run_state m t = (r, t')"
  with assms(2) show "emits P (case r of Ret a \<Rightarrow> f a | Fail e \<Rightarrow> ret (Fail e) | Panic \<Rightarrow> ret Panic)"
    by (cases r) auto
qed

lemma emits_go_bind [intro, appends_intros]:
  "emits P m \<Longrightarrow> (\<And>a. emits P (f a)) \<Longrightarrow> emits P (go_bind m f)"
  by (rule emits_go_bind_result)

lemma run_go_bind_Ret:
  "run_state m t = (Ret a, t') \<Longrightarrow> run_state (go_bind m f) t = run_state (f a) t'"
  by (simp add: go_bind_def)

lemma run_go_bind_Fail:
  "run_state m t = (Fail e, t') \<Longrightarrow> run_state (go_bind m f) t = (Fail e, t')"
  by (simp add: go_bind_def)

lemma run_go_bind_Panic:
  "run_state m t = (Panic, t') \<Longrightarrow> run_state (go_bind m f) t = (Panic, t')"
  by (simp add: go_bind_def)

lemma run_go_bind:
  "run_state (go_bind m f) t =
     (case run_state m t of (Ret a, t') \<Rightarrow> run_state (f a) t' | (Fail e, t') \<Rightarrow> (Fail e, t') | (Panic, t') \<Rightarrow> (Panic, t'))"
  by (simp add: go_bind_def split: prod.splits go.splits)

lemma go_bind_ret [simp]:
  "go_bind (ret (Ret a)) f = f a" "go_bind (ret (Fail e)) f = ret (Fail e)" "go_bind (ret Panic) f = ret Panic"
  by (simp_all add: go_bind_def)

subsection \<open>Calls and what came before them\<close>

text \<open>
  \<open>calls_ok J t m\<close>: run from the trace \<open>t\<close>, the computation \<open>m\<close> only appends, and every call it adds satisfies \<open>J\<close> together
  with everything that came before it. With \<open>emits\<close> a call is judged on its own; here it may need a reason in the past.
\<close>

named_theorems calls_ok_intros \<open>rules for computations whose calls are justified by what came before\<close>

definition calls_ok :: "('t list \<Rightarrow> 't \<Rightarrow> bool) \<Rightarrow> 't list \<Rightarrow> ('t list, 'a) state \<Rightarrow> bool" where
  "calls_ok J t m =
     (\<exists>new. snd (run_state m t) = t @ new \<and> (\<forall>pre c post. new = pre @ c # post \<longrightarrow> J (t @ pre) c))"

lemma calls_okI:
  assumes "snd (run_state m t) = t @ new" and "\<And>pre c post. new = pre @ c # post \<Longrightarrow> J (t @ pre) c"
  shows "calls_ok J t m"
  using assms unfolding calls_ok_def by blast

lemma calls_okD:
  assumes "calls_ok J t m" and "run_state m t = (r, t @ pre @ c # post)"
  shows "J (t @ pre) c"
  using assms unfolding calls_ok_def by auto

lemma calls_ok_emits:
  assumes "emits P m" and "\<And>new c. P c \<Longrightarrow> J (t @ new) c"
  shows "calls_ok J t m"
proof -
  obtain new where "snd (run_state m t) = t @ new" "\<forall>c \<in> set new. P c"
    using assms(1) unfolding emits_def by blast
  then show ?thesis using assms(2) by (intro calls_okI [of m t new]) auto
qed

lemma calls_ok_bind:
  assumes "calls_ok J t m" and "\<And>a t'. run_state m t = (a, t') \<Longrightarrow> calls_ok J t' (f a)"
  shows "calls_ok J t (State_Monad.bind m f)"
proof -
  obtain a t' where m: "run_state m t = (a, t')" by fastforce
  obtain new where new: "t' = t @ new" "\<And>pre c post. new = pre @ c # post \<Longrightarrow> J (t @ pre) c"
    using assms(1) m unfolding calls_ok_def by auto
  obtain new' where new': "snd (run_state (f a) t') = t' @ new'"
    "\<And>pre c post. new' = pre @ c # post \<Longrightarrow> J (t' @ pre) c"
    using assms(2) [OF m] unfolding calls_ok_def by auto
  show ?thesis
  proof (rule calls_okI)
    show "snd (run_state (State_Monad.bind m f) t) = t @ new @ new'"
      using m new(1) new'(1) by simp
    fix pre c post
    assume eq: "new @ new' = pre @ c # post"
    show "J (t @ pre) c"
    proof (cases "\<exists>ys. new = pre @ c # ys")
      case True
      with new(2) show ?thesis by blast
    next
      case False
      with eq obtain zs where "pre = new @ zs" "new' = zs @ c # post"
        by (auto simp: append_eq_append_conv2 Cons_eq_append_conv append_eq_Cons_conv)
      with new'(2) new(1) show ?thesis by simp
    qed
  qed
qed

lemma calls_ok_ret [simp, intro, calls_ok_intros]: "calls_ok J t (ret a)"
  by (rule calls_okI [where new = "[]"]) simp_all

lemma calls_ok_perform [calls_ok_intros]: "J t c \<Longrightarrow> calls_ok J t (perform answer c)"
  by (rule calls_okI [where new = "[c]"]) (simp_all add: Cons_eq_append_conv)

lemma calls_ok_observe [simp, calls_ok_intros]: "calls_ok J t (observe f)"
  by (rule calls_okI [where new = "[]"]) simp_all

lemma calls_ok_go_bind:
  assumes "calls_ok J t m" and "\<And>a t'. run_state m t = (Ret a, t') \<Longrightarrow> calls_ok J t' (f a)"
  shows "calls_ok J t (go_bind m f)"
  unfolding go_bind_def
proof (rule calls_ok_bind [OF assms(1)])
  fix r t'
  assume "run_state m t = (r, t')"
  with assms(2) show "calls_ok J t' (case r of Ret a \<Rightarrow> f a | Fail e \<Rightarrow> ret (Fail e) | Panic \<Rightarrow> ret Panic)"
    by (cases r) simp_all
qed

text \<open>The same with an invariant of result and trace, which the second computation may rely on.\<close>

lemma calls_ok_go_bind_inv:
  assumes "calls_ok J t m" and "\<And>a t'. run_state m t = (Ret a, t') \<Longrightarrow> Q a t'"
    and "\<And>a new. Q a (t @ new) \<Longrightarrow> calls_ok J (t @ new) (f a)"
  shows "calls_ok J t (go_bind m f)"
proof (rule calls_ok_go_bind [OF assms(1)])
  fix a t'
  assume run: "run_state m t = (Ret a, t')"
  then obtain new where "t' = t @ new" using assms(1) by (auto simp: calls_ok_def)
  with assms(2) [OF run] assms(3) show "calls_ok J t' (f a)" by simp
qed

lemma calls_ok_if [calls_ok_intros]:
  "(b \<Longrightarrow> calls_ok J t m) \<Longrightarrow> (\<not> b \<Longrightarrow> calls_ok J t n) \<Longrightarrow> calls_ok J t (if b then m else n)"
  by simp

lemma calls_ok_case_sum [calls_ok_intros]:
  "(\<And>e. r = Inl e \<Longrightarrow> calls_ok J t (f e)) \<Longrightarrow> (\<And>a. r = Inr a \<Longrightarrow> calls_ok J t (g a)) \<Longrightarrow>
   calls_ok J t (case r of Inl e \<Rightarrow> f e | Inr a \<Rightarrow> g a)"
  by (cases r) simp_all

lemma calls_ok_case_option [calls_ok_intros]:
  "(r = None \<Longrightarrow> calls_ok J t m) \<Longrightarrow> (\<And>a. r = Some a \<Longrightarrow> calls_ok J t (g a)) \<Longrightarrow>
   calls_ok J t (case r of None \<Rightarrow> m | Some a \<Rightarrow> g a)"
  by (cases r) simp_all

lemma calls_ok_case_go [calls_ok_intros]:
  "(\<And>a. r = Ret a \<Longrightarrow> calls_ok J t (f a)) \<Longrightarrow> (\<And>e. r = Fail e \<Longrightarrow> calls_ok J t (g e)) \<Longrightarrow> (r = Panic \<Longrightarrow> calls_ok J t m) \<Longrightarrow>
   calls_ok J t (case r of Ret a \<Rightarrow> f a | Fail e \<Rightarrow> g e | Panic \<Rightarrow> m)"
  by (cases r) simp_all

lemma calls_ok_case_list [calls_ok_intros]:
  "(xs = [] \<Longrightarrow> calls_ok J t m) \<Longrightarrow> (\<And>y ys. xs = y # ys \<Longrightarrow> calls_ok J t (g y ys)) \<Longrightarrow>
   calls_ok J t (case xs of [] \<Rightarrow> m | y # ys \<Rightarrow> g y ys)"
  by (cases xs) simp_all

lemma emits_case_list [intro, appends_intros]:
  "emits P m \<Longrightarrow> (\<And>y ys. emits P (g y ys)) \<Longrightarrow> emits P (case xs of [] \<Rightarrow> m | y # ys \<Rightarrow> g y ys)"
  by (cases xs) simp_all

end
