(* ===== verification/Kube_Types.thy ===== *)
theory Kube_Types
  imports Prelude
begin

text \<open>
  The Kubernetes data the source stores, reads and writes: object metadata, conditions,
  references, role-based access-control objects and the authentication configuration of the API
  server. These are plain data of libraries the source imports, so nothing here maps to a line of
  the repository; only the shapes matter. Times are nanoseconds since Go's zero time and
  durations are nanoseconds. A slice is a list where the source never tells nil from empty, and
  a list option where it does.
\<close>

type_synonym gotime = int
type_synonym duration = int

record owner_ref =
  or_api_version :: string
  or_kind :: string
  or_name :: string
  or_uid :: string
  or_controller :: "bool option"
  or_block_owner_deletion :: "bool option"

record object_meta =
  om_name :: string
  om_generate_name :: string
  om_namespace :: string
  om_uid :: string
  om_labels :: "string gomap"
  om_annotations :: "string gomap"
  om_owner_references :: "owner_ref list"
  om_finalizers :: "string list"
  om_creation :: gotime
  om_deletion :: "gotime option"

definition empty_meta :: object_meta where
  "empty_meta = \<lparr>om_name = [], om_generate_name = [], om_namespace = [], om_uid = [],
     om_labels = None, om_annotations = None, om_owner_references = [], om_finalizers = [],
     om_creation = 0, om_deletion = None\<rparr>"

record condition =
  c_type :: string
  c_status :: string
  c_reason :: string
  c_message :: string
  c_transition :: gotime

record typed_local_ref =
  tl_api_group :: "string option"
  tl_kind :: string
  tl_name :: string

record typed_ref =
  tr_api_group :: "string option"
  tr_kind :: string
  tr_name :: string
  tr_namespace :: "string option"

record object_key =
  ok_namespace :: string
  ok_name :: string

text \<open>\<open>resource.Quantity\<close> is opaque to the source: it parses, prints and compares it with library
  functions only.\<close>

datatype quantity = Quantity string

record config_map =
  cfg_meta :: object_meta
  cfg_data :: "string gomap"

text \<open>The data of a secret are bytes; the value of a key is a string of them.\<close>

record secret =
  sec_meta :: object_meta
  sec_type :: string
  sec_data :: "string gomap"

record namespace =
  nsp_meta :: object_meta

record secret_ref =
  scr_name :: string
  scr_namespace :: string

record node_system_info =
  si_machine_id :: string
  si_system_uuid :: string
  si_boot_id :: string
  si_kernel_version :: string
  si_os_image :: string
  si_container_runtime_version :: string
  si_kubelet_version :: string
  si_operating_system :: string
  si_architecture :: string

subsection \<open>Role-based access control (\<open>k8s.io/api/rbac/v1\<close>)\<close>

record policy_rule =
  pr_verbs :: "string list"
  pr_api_groups :: "string list"
  pr_resources :: "string list"
  pr_resource_names :: "string list"

record rbac_subject =
  rs_kind :: string
  rs_api_group :: string
  rs_name :: string

record role_ref =
  rr_api_group :: string
  rr_kind :: string
  rr_name :: string

text \<open>A \<open>LabelSelector\<close> with match labels only, and an aggregation rule as a list of them.\<close>

record cluster_role =
  cr_meta :: object_meta
  cr_rules :: "policy_rule list"
  cr_aggregation :: "string gomap list option"

record cluster_role_binding =
  crb_meta :: object_meta
  crb_subjects :: "rbac_subject list"
  crb_role_ref :: role_ref

record rbac_role =
  ro_meta :: object_meta
  ro_rules :: "policy_rule list"

record role_binding =
  rb_meta :: object_meta
  rb_subjects :: "rbac_subject list"
  rb_role_ref :: role_ref

subsection \<open>Access review (\<open>k8s.io/api/authorization/v1\<close>)\<close>

record resource_attributes =
  ra_namespace :: string
  ra_verb :: string
  ra_group :: string
  ra_version :: string
  ra_resource :: string
  ra_name :: string

record access_review =
  sar_user :: string
  sar_groups :: "string list"
  sar_attributes :: resource_attributes

subsection \<open>Authentication configuration (\<open>k8s.io/apiserver/pkg/apis/apiserver/v1beta1\<close>)\<close>

record av_issuer =
  ai_url :: string
  ai_discovery_url :: "string option"
  ai_certificate_authority :: string
  ai_audiences :: "string list option"
  ai_audience_match_policy :: string
  ai_egress_selector_type :: string

record av_claim_validation_rule =
  av_claim :: string
  av_required_value :: string
  av_expression :: string
  av_message :: string

record av_prefixed_claim_or_expression =
  ap_claim :: string
  ap_prefix :: "string option"
  ap_expression :: string

record av_claim_or_expression =
  ac_claim :: string
  ac_expression :: string

record av_extra_mapping =
  ae_key :: string
  ae_value_expression :: string

record av_user_validation_rule =
  au_expression :: string
  au_message :: string

record av_claim_mappings =
  am_username :: av_prefixed_claim_or_expression
  am_groups :: av_prefixed_claim_or_expression
  am_uid :: av_claim_or_expression
  am_extra :: "av_extra_mapping list option"

record av_jwt_authenticator =
  aj_issuer :: av_issuer
  aj_claim_validation_rules :: "av_claim_validation_rule list option"
  aj_claim_mappings :: av_claim_mappings
  aj_user_validation_rules :: "av_user_validation_rule list option"

record av_anonymous_condition =
  aa_path :: string

record av_anonymous_config =
  aa_enabled :: bool
  aa_conditions :: "av_anonymous_condition list option"

record av_authentication_configuration =
  aac_kind :: string
  aac_api_version :: string
  aac_jwt :: "av_jwt_authenticator list option"
  aac_anonymous :: "av_anonymous_config option"

end
