(* ===== verification/Api_Types.thy ===== *)
theory Api_Types
  imports Kube_Types "HOL-Library.Word"
begin

text \<open>
  The custom resources of \<open>api/v1alpha3\<close>: one record per struct, with the struct's fields in the
  struct's order, the string constants of \<open>const_types.go\<close>, and the two Go interfaces the resources
  implement, \<open>Expirable\<close> (\<open>GetExpiration\<close>) and \<open>Conditionable\<close> (\<open>GetConditions\<close>, \<open>SetConditions\<close>), as
  locales interpreted on every resource that has the methods. An \<open>int32\<close> whose value is converted
  or compared is a \<open>32 word\<close>.
\<close>

subsection \<open>Constants\<close>

named_theorems api_consts \<open>definitions of the string constants\<close>

definition GroupVersion_Group :: string where [api_consts]:
  "GroupVersion_Group = ''dockyards.io''"

definition GroupVersion_String :: string where [api_consts]:
  "GroupVersion_String = ''dockyards.io/v1alpha3''"

definition LabelOrganizationName :: string where [api_consts]:
  "LabelOrganizationName = ''dockyards.io/organization-name''"

definition LabelClusterName :: string where [api_consts]:
  "LabelClusterName = ''dockyards.io/cluster-name''"

definition LabelNodePoolName :: string where [api_consts]:
  "LabelNodePoolName = ''dockyards.io/node-pool-name''"

definition LabelNodeName :: string where [api_consts]:
  "LabelNodeName = ''dockyards.io/node-name''"

definition LabelDeploymentName :: string where [api_consts]:
  "LabelDeploymentName = ''dockyards.io/deployment-name''"

definition LabelHelmDeploymentName :: string where [api_consts]:
  "LabelHelmDeploymentName = ''dockyards.io/helm-deployment-name''"

definition LabelContainerImageDeployment :: string where [api_consts]:
  "LabelContainerImageDeployment = ''dockyards.io/helm-deployment-name''"

definition LabelKustomizeDeploymentName :: string where [api_consts]:
  "LabelKustomizeDeploymentName = ''dockyards.io/container-image-deployment-name''"

definition LabelWorkloadName :: string where [api_consts]:
  "LabelWorkloadName = ''dockyards.io/workload-name''"

definition LabelUserName :: string where [api_consts]:
  "LabelUserName = ''dockyards.io/user-name''"

definition LabelMemberName :: string where [api_consts]:
  "LabelMemberName = ''dockyards.io/member-name''"

definition LabelRoleName :: string where [api_consts]:
  "LabelRoleName = ''dockyards.io/role-name''"

definition AnnotationDefaultTemplate :: string where [api_consts]:
  "AnnotationDefaultTemplate = ''dockyards.io/is-default-template''"

definition AnnotationVoucherCode :: string where [api_consts]:
  "AnnotationVoucherCode = ''dockyards.io/voucher-code''"

definition AnnotationDefaultRelease :: string where [api_consts]:
  "AnnotationDefaultRelease = ''dockyards.io/is-default-release''"

definition LabelCredentialTemplateName :: string where [api_consts]:
  "LabelCredentialTemplateName = ''dockyards.io/credential-template-name''"

definition LabelWorkloadTemplateName :: string where [api_consts]:
  "LabelWorkloadTemplateName = ''dockyards.io/workload-template-name''"

definition LabelProviderName :: string where [api_consts]:
  "LabelProviderName = ''dockyards.io/provider-name''"

definition ProvenienceUser :: string where [api_consts]: "ProvenienceUser = ''User''"

definition SecretTypeCredential :: string where [api_consts]:
  "SecretTypeCredential = ''dockyards.io/credential''"

definition ProviderPrefixDockyards :: string where [api_consts]:
  "ProviderPrefixDockyards = ''dockyards://''"

definition RequestTypeAccount :: string where [api_consts]: "RequestTypeAccount = ''Account''"

definition VerificationReasonVerified :: string where [api_consts]:
  "VerificationReasonVerified = ''Verified''"

definition VerificationReasonNotVerified :: string where [api_consts]:
  "VerificationReasonNotVerified = ''NotVerified''"

definition ReadyCondition :: string where [api_consts]:
  "ReadyCondition = ''Ready''"

definition ReadyReason :: string where [api_consts]:
  "ReadyReason = ''Ready''"

definition VerifiedCondition :: string where [api_consts]:
  "VerifiedCondition = ''Verified''"

definition RoleBindingsReadyCondition :: string where [api_consts]:
  "RoleBindingsReadyCondition = ''RoleBindingsReady''"

definition RoleBindingReconcileFailedReason :: string where [api_consts]:
  "RoleBindingReconcileFailedReason = ''RoleBindingsReconcileFailed''"

definition ClusterUpgradesReadyCondition :: string where [api_consts]:
  "ClusterUpgradesReadyCondition = ''ClusterUpgradesReady''"

definition ClusterUpgradesReconcileFailedReason :: string where [api_consts]:
  "ClusterUpgradesReconcileFailedReason = ''ClusterUpgradesReconcileFailed''"

definition WaitingForDefaultReleaseReason :: string where [api_consts]:
  "WaitingForDefaultReleaseReason = ''WaitingForDefaultRelease''"

definition WorkloadInventoryReadyCondition :: string where [api_consts]:
  "WorkloadInventoryReadyCondition = ''WorkloadInventoryReady''"

definition MemberAuthorizationReadyCondition :: string where [api_consts]:
  "MemberAuthorizationReadyCondition = ''MemberAuthorizationReady''"

definition MemberAuthorizationInternalErrorReason :: string where [api_consts]:
  "MemberAuthorizationInternalErrorReason = ''MemberAuthorizationInternalError''"

definition UserAuthorizationReadyCondition :: string where [api_consts]:
  "UserAuthorizationReadyCondition = ''UserAuthorizationReady''"

definition UserAuthorizationInternalErrorReason :: string where [api_consts]:
  "UserAuthorizationInternalErrorReason = ''UserAuthorizationInternalError''"

definition OrganizationKind :: string where [api_consts]: "OrganizationKind = ''Organization''"
definition ClusterKind :: string where [api_consts]: "ClusterKind = ''Cluster''"
definition NodePoolKind :: string where [api_consts]: "NodePoolKind = ''NodePool''"
definition MemberKind :: string where [api_consts]: "MemberKind = ''Member''"
definition UserKind :: string where [api_consts]: "UserKind = ''User''"
definition InvitationKind :: string where [api_consts]: "InvitationKind = ''Invitation''"
definition WorkloadKind :: string where [api_consts]: "WorkloadKind = ''Workload''"
definition WorkloadTemplateKind :: string where [api_consts]: "WorkloadTemplateKind = ''WorkloadTemplate''"
definition DeploymentKind :: string where [api_consts]: "DeploymentKind = ''Deployment''"

definition HelmDeploymentKind :: string where [api_consts]:
  "HelmDeploymentKind = ''HelmDeployment''"

definition KustomizeDeploymentKind :: string where [api_consts]:
  "KustomizeDeploymentKind = ''KustomizeDeployment''"

definition ContainerImageDeploymentKind :: string where [api_consts]:
  "ContainerImageDeploymentKind = ''ContainerImageDeployment''"

definition RoleSuperUser :: string where [api_consts]: "RoleSuperUser = ''SuperUser''"
definition RoleUser :: string where [api_consts]: "RoleUser = ''User''"
definition RoleReader :: string where [api_consts]: "RoleReader = ''Reader''"

definition StorageResourceTypeHostPath :: string where [api_consts]:
  "StorageResourceTypeHostPath = ''HostPath''"

definition ReleaseTypeKubernetes :: string where [api_consts]:
  "ReleaseTypeKubernetes = ''KubernetesReleases''"

lemma label_distinct [simp]:
  "LabelOrganizationName \<noteq> LabelRoleName" "LabelRoleName \<noteq> LabelOrganizationName"
  "LabelOrganizationName \<noteq> LabelUserName" "LabelUserName \<noteq> LabelOrganizationName"
  "LabelRoleName \<noteq> LabelUserName" "LabelUserName \<noteq> LabelRoleName"
  "LabelOrganizationName \<noteq> LabelClusterName" "LabelClusterName \<noteq> LabelOrganizationName"
  "LabelOrganizationName \<noteq> LabelNodePoolName" "LabelNodePoolName \<noteq> LabelOrganizationName"
  "LabelClusterName \<noteq> LabelNodePoolName" "LabelNodePoolName \<noteq> LabelClusterName"
  by (simp_all add: api_consts)

lemma role_distinct [simp]:
  "RoleReader \<noteq> RoleUser" "RoleUser \<noteq> RoleReader"
  "RoleReader \<noteq> RoleSuperUser" "RoleSuperUser \<noteq> RoleReader"
  "RoleUser \<noteq> RoleSuperUser" "RoleSuperUser \<noteq> RoleUser"
  by (simp_all add: api_consts)

subsection \<open>Cluster\<close>

record cluster_upgrade =
  cu_to :: string

record cluster_api_endpoint =
  ae_host :: string
  ae_port :: "32 word"

definition ClusterAPIEndpoint_IsValid :: "cluster_api_endpoint \<Rightarrow> bool" where
  "ClusterAPIEndpoint_IsValid e = (ae_host e \<noteq> [] \<and> ae_port e \<noteq> 0)"

record patch =
  pt_raw :: string

record cluster_talos_options =
  ct_shared :: "patch list"
  ct_control_plane :: "patch list"
  ct_worker :: "patch list"

definition ClusterTalosOptions_IsZero :: "cluster_talos_options \<Rightarrow> bool" where
  "ClusterTalosOptions_IsZero v =
     (if length (ct_shared v) \<noteq> 0 then False
      else if length (ct_control_plane v) \<noteq> 0 then False
      else if length (ct_worker v) \<noteq> 0 then False
      else True)"

record cluster_kubevirt_options =
  ck_talos :: cluster_talos_options

definition ClusterKubevirtOptions_IsZero :: "cluster_kubevirt_options \<Rightarrow> bool" where
  "ClusterKubevirtOptions_IsZero v = (if \<not> ClusterTalosOptions_IsZero (ck_talos v) then False else True)"

record cluster_advanced_options =
  ca_kubevirt :: cluster_kubevirt_options

definition ClusterAdvancedOptions_IsZero :: "cluster_advanced_options \<Rightarrow> bool" where
  "ClusterAdvancedOptions_IsZero v =
     (if \<not> ClusterKubevirtOptions_IsZero (ca_kubevirt v) then False else True)"

record cluster_spec =
  cs_version :: string
  cs_no_default_ingress_provider :: bool
  cs_upgrades :: "cluster_upgrade list"
  cs_block_deletion :: bool
  cs_allocate_internal_ip :: bool
  cs_ip_pool_ref :: "typed_local_ref option"
  cs_duration :: "duration option"
  cs_no_default_network_plugin :: bool
  cs_pod_subnets :: "string list"
  cs_service_subnets :: "string list"
  cs_authentication_config :: "av_authentication_configuration option"
  cs_advanced :: cluster_advanced_options

record cluster_status =
  cst_conditions :: "condition list"
  cst_cluster_service_id :: string
  cst_version :: string
  cst_dns_zones :: "string list"
  cst_api_endpoint :: cluster_api_endpoint
  cst_expiration :: "gotime option"

record cluster =
  cluster_meta :: object_meta
  cluster_spec :: cluster_spec
  cluster_status :: cluster_status

definition Cluster_GetConditions :: "cluster \<Rightarrow> condition list" where
  "Cluster_GetConditions c = cst_conditions (cluster_status c)"

definition Cluster_SetConditions :: "cluster \<Rightarrow> condition list \<Rightarrow> cluster" where
  "Cluster_SetConditions c cs = c\<lparr>cluster_status := (cluster_status c)\<lparr>cst_conditions := cs\<rparr>\<rparr>"

definition Cluster_GetExpiration :: "cluster \<Rightarrow> gotime option" where
  "Cluster_GetExpiration c =
     (case cs_duration (cluster_spec c) of
        None \<Rightarrow> None
      | Some d \<Rightarrow> Some (om_creation (cluster_meta c) + d))"

subsection \<open>Node pools and cluster templates\<close>

record storage_resource =
  sr_name :: string
  sr_type :: string
  sr_quantity :: quantity

record node_pool_security =
  nps_enable_app_armor :: bool

record node_pool_spec =
  np_replicas :: "32 word option"
  np_control_plane :: bool
  np_load_balancer :: bool
  np_dedicated_role :: bool
  np_resources :: "quantity gomap"
  np_storage :: bool
  np_storage_resources :: "storage_resource list option"
  np_release_ref :: "typed_ref option"
  np_security :: node_pool_security
  np_node_labels :: "string gomap"

record node_pool_status =
  npst_conditions :: "condition list"
  npst_cluster_service_id :: string
  npst_resources :: "quantity gomap"

record node_pool =
  node_pool_meta :: object_meta
  node_pool_spec :: node_pool_spec
  node_pool_status :: node_pool_status

definition NodePool_GetConditions :: "node_pool \<Rightarrow> condition list" where
  "NodePool_GetConditions p = npst_conditions (node_pool_status p)"

definition NodePool_SetConditions :: "node_pool \<Rightarrow> condition list \<Rightarrow> node_pool" where
  "NodePool_SetConditions p cs =
     p\<lparr>node_pool_status := (node_pool_status p)\<lparr>npst_conditions := cs\<rparr>\<rparr>"

record node_spec =
  nd_provider_id :: "string option"

record node_status =
  ndst_cluster_service_id :: string
  ndst_conditions :: "condition list"
  ndst_resources :: "quantity gomap"
  ndst_cloud_service_id :: string
  ndst_system_info :: "node_system_info option"

record node =
  node_meta :: object_meta
  node_spec :: node_spec
  node_status :: node_status

definition Node_GetConditions :: "node \<Rightarrow> condition list" where
  "Node_GetConditions n = ndst_conditions (node_status n)"

definition Node_SetConditions :: "node \<Rightarrow> condition list \<Rightarrow> node" where
  "Node_SetConditions n cs = n\<lparr>node_status := (node_status n)\<lparr>ndst_conditions := cs\<rparr>\<rparr>"

record node_pool_template =
  npt_meta :: object_meta
  npt_spec :: node_pool_spec

record cluster_template =
  cluster_template_meta :: object_meta
  ctm_node_pool_templates :: "node_pool_template list"

subsection \<open>Organizations, members, users, invitations\<close>

record organization_member_ref =
  omr_ref :: typed_local_ref
  omr_role :: string
  omr_uid :: string

record organization_spec =
  os_display_name :: string
  os_member_refs :: "organization_member_ref list"
  os_project_ref :: "typed_ref option"
  os_credential_ref :: "typed_ref option"
  os_skip_auto_assign :: bool
  os_duration :: "duration option"
  os_namespace_ref :: "string option"
  os_provider_id :: "string option"

record organization_status =
  ost_conditions :: "condition list"
  ost_expiration :: "gotime option"
  ost_namespace_ref :: "string option"
  ost_resource_quotas :: "quantity gomap"

record organization =
  organization_meta :: object_meta
  organization_spec :: organization_spec
  organization_status :: organization_status

definition Organization_GetConditions :: "organization \<Rightarrow> condition list" where
  "Organization_GetConditions v = ost_conditions (organization_status v)"

definition Organization_SetConditions :: "organization \<Rightarrow> condition list \<Rightarrow> organization" where
  "Organization_SetConditions v cs =
     v\<lparr>organization_status := (organization_status v)\<lparr>ost_conditions := cs\<rparr>\<rparr>"

definition Organization_GetExpiration :: "organization \<Rightarrow> gotime option" where
  "Organization_GetExpiration v =
     (case os_duration (organization_spec v) of
        None \<Rightarrow> None
      | Some d \<Rightarrow> Some (om_creation (organization_meta v) + d))"

record member_spec =
  ms_role :: string
  ms_user_ref :: typed_local_ref

record member_status =
  mst_conditions :: "condition list"
  mst_display_name :: "string option"
  mst_email :: "string option"

record member =
  member_meta :: object_meta
  member_spec :: member_spec
  member_status :: member_status

definition Member_GetConditions :: "member \<Rightarrow> condition list" where
  "Member_GetConditions m = mst_conditions (member_status m)"

definition Member_SetConditions :: "member \<Rightarrow> condition list \<Rightarrow> member" where
  "Member_SetConditions m cs = m\<lparr>member_status := (member_status m)\<lparr>mst_conditions := cs\<rparr>\<rparr>"

record user_spec =
  us_email :: string
  us_display_name :: string
  us_password :: string
  us_phone :: string
  us_duration :: "duration option"
  us_provider_id :: string

record user_status =
  ust_conditions :: "condition list"
  ust_expiration :: "gotime option"

record user =
  user_meta :: object_meta
  user_spec :: user_spec
  user_status :: user_status

definition User_GetConditions :: "user \<Rightarrow> condition list" where
  "User_GetConditions u = ust_conditions (user_status u)"

definition User_SetConditions :: "user \<Rightarrow> condition list \<Rightarrow> user" where
  "User_SetConditions u cs = u\<lparr>user_status := (user_status u)\<lparr>ust_conditions := cs\<rparr>\<rparr>"

definition User_GetExpiration :: "user \<Rightarrow> gotime option" where
  "User_GetExpiration u =
     (case us_duration (user_spec u) of
        None \<Rightarrow> None
      | Some d \<Rightarrow> Some (om_creation (user_meta u) + d))"

record invitation_spec =
  is_duration :: "duration option"
  is_email :: string
  is_role :: string
  is_sender_ref :: "typed_ref option"

record invitation_status =
  ist_expiration :: "gotime option"

record invitation =
  invitation_meta :: object_meta
  invitation_spec :: invitation_spec
  invitation_status :: invitation_status

definition Invitation_GetExpiration :: "invitation \<Rightarrow> gotime option" where
  "Invitation_GetExpiration i =
     (case is_duration (invitation_spec i) of
        None \<Rightarrow> None
      | Some d \<Rightarrow> Some (om_creation (invitation_meta i) + d))"

record organization_voucher_spec =
  ovs_code :: string
  ovs_pool_ref :: "typed_ref option"

record organization_voucher_status =
  ovst_redeemed :: bool

record organization_voucher =
  organization_voucher_meta :: object_meta
  organization_voucher_spec :: organization_voucher_spec
  organization_voucher_status :: organization_voucher_status

subsection \<open>Verification requests, identity providers, credential templates\<close>

record verification_request_spec =
  vrs_code :: string
  vrs_subject :: string
  vrs_body_html :: string
  vrs_body_text :: string
  vrs_user_ref :: typed_local_ref
  vrs_duration :: "duration option"

record verification_request_status =
  vrst_provider_id :: string
  vrst_expiration :: "gotime option"
  vrst_conditions :: "condition list"

record verification_request =
  verification_request_meta :: object_meta
  verification_request_spec :: verification_request_spec
  verification_request_status :: verification_request_status

definition VerificationRequest_GetConditions :: "verification_request \<Rightarrow> condition list" where
  "VerificationRequest_GetConditions r = vrst_conditions (verification_request_status r)"

definition VerificationRequest_SetConditions :: "verification_request \<Rightarrow> condition list \<Rightarrow> verification_request" where
  "VerificationRequest_SetConditions r cs =
     r\<lparr>verification_request_status := (verification_request_status r)\<lparr>vrst_conditions := cs\<rparr>\<rparr>"

definition VerificationRequest_GetExpiration :: "verification_request \<Rightarrow> gotime option" where
  "VerificationRequest_GetExpiration r =
     (case vrs_duration (verification_request_spec r) of
        None \<Rightarrow> None
      | Some d \<Rightarrow> Some (om_creation (verification_request_meta r) + d))"

record identity_provider_spec =
  ips_display_name :: "string option"
  ips_oidc_config_ref :: "secret_ref option"

record identity_provider =
  identity_provider_meta :: object_meta
  identity_provider_spec :: identity_provider_spec

record credential_option =
  co_default :: string
  co_display_name :: string
  co_key :: string
  co_plaintext :: bool
  co_type :: string

record credential_template_spec =
  cts_options :: "credential_option list option"

record credential_template =
  credential_template_meta :: object_meta
  credential_template_spec :: credential_template_spec

subsection \<open>DNS zones and workload inventories\<close>

record dns_zone =
  dns_zone_meta :: object_meta
  dzs_name :: string
  dzst_conditions :: "condition list"

definition DNSZone_GetConditions :: "dns_zone \<Rightarrow> condition list" where
  "DNSZone_GetConditions z = dzst_conditions z"

definition DNSZone_SetConditions :: "dns_zone \<Rightarrow> condition list \<Rightarrow> dns_zone" where
  "DNSZone_SetConditions z cs = z\<lparr>dzst_conditions := cs\<rparr>"

text \<open>Of the selector of an inventory only the labels to match are read.\<close>

record workload_inventory =
  workload_inventory_meta :: object_meta
  wis_match_labels :: "string gomap"
  wis_urls :: "string list"

subsection \<open>Features, releases, workloads, deployments\<close>

record feature =
  feature_meta :: object_meta

record release_spec =
  rls_type :: string
  rls_ranges :: "string list"

record release_status =
  rlst_latest_version :: string
  rlst_versions :: "string list"
  rlst_latest_url :: "string option"

record release =
  release_meta :: object_meta
  release_spec :: release_spec
  release_status :: release_status

record workload_reference =
  wr_ref :: typed_ref
  wr_parent :: "typed_local_ref option"
  wr_urls :: "string list"

record workload_spec =
  ws_cluster_component :: bool
  ws_target_namespace :: string
  ws_workload_template_input :: "string option"
  ws_input :: "string option"
  ws_workload_template_ref :: "typed_ref option"
  ws_provenience :: string

record workload_status =
  wst_conditions :: "condition list"
  wst_dependency_refs :: "typed_local_ref list"
  wst_urls :: "string list"
  wst_references :: "workload_reference list"

record workload =
  workload_meta :: object_meta
  workload_spec :: workload_spec
  workload_status :: workload_status

definition Workload_GetConditions :: "workload \<Rightarrow> condition list" where
  "Workload_GetConditions w = wst_conditions (workload_status w)"

definition Workload_SetConditions :: "workload \<Rightarrow> condition list \<Rightarrow> workload" where
  "Workload_SetConditions w cs = w\<lparr>workload_status := (workload_status w)\<lparr>wst_conditions := cs\<rparr>\<rparr>"

record deployment_spec =
  ds_target_namespace :: string
  ds_deployment_refs :: "typed_local_ref list"
  ds_cluster_component :: bool
  ds_deployment_template_ref :: "typed_ref option"
  ds_deployment_template_input :: "string option"
  ds_provenience :: string

record deployment_status =
  dst_conditions :: "condition list"
  dst_urls :: "string list"

record deployment =
  deployment_meta :: object_meta
  deployment_spec :: deployment_spec
  deployment_status :: deployment_status

record helm_deployment_spec =
  hds_chart :: string
  hds_repository :: string
  hds_version :: string
  hds_values :: "string option"
  hds_skip_namespace :: bool

record helm_deployment =
  helm_deployment_meta :: object_meta
  helm_deployment_spec :: helm_deployment_spec
  hdst_conditions :: "condition list"

record kustomize_deployment =
  kustomize_deployment_meta :: object_meta
  kds_kustomize :: "string gomap"
  kdst_conditions :: "condition list"
  kdst_repository_url :: string

record container_image_deployment =
  container_image_deployment_meta :: object_meta
  cds_credential_ref :: "string option"
  cds_image :: string
  cds_port :: "32 word"
  cdst_conditions :: "condition list"
  cdst_repository_url :: string

subsection \<open>The interface \<open>Expirable\<close>\<close>

text \<open>
  \<open>HasExpired\<close> and the reconcilers use a resource only through \<open>GetExpiration\<close>. The law every
  resource keeps: the expiration is the creation time plus the duration of the spec, and a
  resource without a duration has none.
\<close>

locale expirable =
  fixes get_expiration :: "'o \<Rightarrow> gotime option"
    and creation :: "'o \<Rightarrow> gotime"
    and duration :: "'o \<Rightarrow> duration option"
  assumes expiration_law: "get_expiration v = map_option (\<lambda>d. creation v + d) (duration v)"
begin

lemma no_duration: "get_expiration v = None \<longleftrightarrow> duration v = None"
  by (simp add: expiration_law)

lemma expiration_after_creation:
  "get_expiration v = Some e \<Longrightarrow> duration v = Some d \<Longrightarrow> 0 \<le> d \<Longrightarrow> creation v \<le> e"
  by (simp add: expiration_law)

lemma same_expiration:
  "creation v = creation w \<Longrightarrow> duration v = duration w \<Longrightarrow> get_expiration v = get_expiration w"
  by (simp add: expiration_law)

end

interpretation cluster_expiry: expirable Cluster_GetExpiration
  "\<lambda>c. om_creation (cluster_meta c)" "\<lambda>c. cs_duration (cluster_spec c)"
  by unfold_locales (simp add: Cluster_GetExpiration_def split: option.split)

interpretation organization_expiry: expirable Organization_GetExpiration
  "\<lambda>v. om_creation (organization_meta v)" "\<lambda>v. os_duration (organization_spec v)"
  by unfold_locales (simp add: Organization_GetExpiration_def split: option.split)

interpretation user_expiry: expirable User_GetExpiration
  "\<lambda>u. om_creation (user_meta u)" "\<lambda>u. us_duration (user_spec u)"
  by unfold_locales (simp add: User_GetExpiration_def split: option.split)

interpretation invitation_expiry: expirable Invitation_GetExpiration
  "\<lambda>i. om_creation (invitation_meta i)" "\<lambda>i. is_duration (invitation_spec i)"
  by unfold_locales (simp add: Invitation_GetExpiration_def split: option.split)

interpretation verification_request_expiry: expirable VerificationRequest_GetExpiration
  "\<lambda>r. om_creation (verification_request_meta r)" "\<lambda>r. vrs_duration (verification_request_spec r)"
  by unfold_locales (simp add: VerificationRequest_GetExpiration_def split: option.split)

subsection \<open>The interface \<open>Conditionable\<close>\<close>

locale conditionable =
  fixes get_conditions :: "'o \<Rightarrow> condition list"
    and set_conditions :: "'o \<Rightarrow> condition list \<Rightarrow> 'o"
  assumes get_set: "get_conditions (set_conditions v cs) = cs"
    and set_get: "set_conditions v (get_conditions v) = v"
    and set_set: "set_conditions (set_conditions v cs) cs' = set_conditions v cs'"
begin

text \<open>A function of the condition list alone cannot see any other field of the resource.\<close>

lemma observe_set: "f (get_conditions (set_conditions v cs)) = f cs"
  by (simp add: get_set)

lemma set_inject: "set_conditions v cs = set_conditions v cs' \<longleftrightarrow> cs = cs'"
  by (metis get_set)

end

interpretation cluster_conditions: conditionable Cluster_GetConditions Cluster_SetConditions
  by unfold_locales (simp_all add: Cluster_GetConditions_def Cluster_SetConditions_def)

interpretation node_pool_conditions: conditionable NodePool_GetConditions NodePool_SetConditions
  by unfold_locales (simp_all add: NodePool_GetConditions_def NodePool_SetConditions_def)

interpretation organization_conditions:
  conditionable Organization_GetConditions Organization_SetConditions
  by unfold_locales (simp_all add: Organization_GetConditions_def Organization_SetConditions_def)

interpretation member_conditions: conditionable Member_GetConditions Member_SetConditions
  by unfold_locales (simp_all add: Member_GetConditions_def Member_SetConditions_def)

interpretation user_conditions: conditionable User_GetConditions User_SetConditions
  by unfold_locales (simp_all add: User_GetConditions_def User_SetConditions_def)

interpretation node_conditions: conditionable Node_GetConditions Node_SetConditions
  by unfold_locales (simp_all add: Node_GetConditions_def Node_SetConditions_def)

interpretation verification_request_conditions:
  conditionable VerificationRequest_GetConditions VerificationRequest_SetConditions
  by unfold_locales (simp_all add: VerificationRequest_GetConditions_def VerificationRequest_SetConditions_def)

interpretation dns_zone_conditions: conditionable DNSZone_GetConditions DNSZone_SetConditions
  by unfold_locales (simp_all add: DNSZone_GetConditions_def DNSZone_SetConditions_def)

interpretation workload_conditions: conditionable Workload_GetConditions Workload_SetConditions
  by unfold_locales (simp_all add: Workload_GetConditions_def Workload_SetConditions_def)

subsection \<open>Zero values\<close>

definition zero_cluster_spec :: cluster_spec where
  "zero_cluster_spec = \<lparr>cs_version = [], cs_no_default_ingress_provider = False, cs_upgrades = [],
     cs_block_deletion = False, cs_allocate_internal_ip = False, cs_ip_pool_ref = None,
     cs_duration = None, cs_no_default_network_plugin = False, cs_pod_subnets = [],
     cs_service_subnets = [], cs_authentication_config = None,
     cs_advanced = \<lparr>ca_kubevirt = \<lparr>ck_talos = \<lparr>ct_shared = [], ct_control_plane = [], ct_worker = []\<rparr>\<rparr>\<rparr>\<rparr>"

definition zero_cluster :: cluster where
  "zero_cluster = \<lparr>cluster_meta = empty_meta, cluster_spec = zero_cluster_spec,
     cluster_status = \<lparr>cst_conditions = [], cst_cluster_service_id = [], cst_version = [],
       cst_dns_zones = [], cst_api_endpoint = \<lparr>ae_host = [], ae_port = 0\<rparr>, cst_expiration = None\<rparr>\<rparr>"

definition zero_node_pool_spec :: node_pool_spec where
  "zero_node_pool_spec = \<lparr>np_replicas = None, np_control_plane = False, np_load_balancer = False,
     np_dedicated_role = False, np_resources = None, np_storage = False, np_storage_resources = None,
     np_release_ref = None, np_security = \<lparr>nps_enable_app_armor = False\<rparr>, np_node_labels = None\<rparr>"

definition zero_node_pool :: node_pool where
  "zero_node_pool = \<lparr>node_pool_meta = empty_meta, node_pool_spec = zero_node_pool_spec,
     node_pool_status = \<lparr>npst_conditions = [], npst_cluster_service_id = [], npst_resources = None\<rparr>\<rparr>"

definition zero_node :: node where
  "zero_node = \<lparr>node_meta = empty_meta, node_spec = \<lparr>nd_provider_id = None\<rparr>,
     node_status = \<lparr>ndst_cluster_service_id = [], ndst_conditions = [], ndst_resources = None,
       ndst_cloud_service_id = [], ndst_system_info = None\<rparr>\<rparr>"

definition zero_organization :: organization where
  "zero_organization = \<lparr>organization_meta = empty_meta,
     organization_spec = \<lparr>os_display_name = [], os_member_refs = [], os_project_ref = None,
       os_credential_ref = None, os_skip_auto_assign = False, os_duration = None,
       os_namespace_ref = None, os_provider_id = None\<rparr>,
     organization_status = \<lparr>ost_conditions = [], ost_expiration = None, ost_namespace_ref = None,
       ost_resource_quotas = None\<rparr>\<rparr>"

definition zero_member :: member where
  "zero_member = \<lparr>member_meta = empty_meta,
     member_spec = \<lparr>ms_role = [], ms_user_ref = \<lparr>tl_api_group = None, tl_kind = [], tl_name = []\<rparr>\<rparr>,
     member_status = \<lparr>mst_conditions = [], mst_display_name = None, mst_email = None\<rparr>\<rparr>"

definition zero_user :: user where
  "zero_user = \<lparr>user_meta = empty_meta,
     user_spec = \<lparr>us_email = [], us_display_name = [], us_password = [], us_phone = [],
       us_duration = None, us_provider_id = []\<rparr>,
     user_status = \<lparr>ust_conditions = [], ust_expiration = None\<rparr>\<rparr>"

definition zero_invitation :: invitation where
  "zero_invitation = \<lparr>invitation_meta = empty_meta,
     invitation_spec = \<lparr>is_duration = None, is_email = [], is_role = [], is_sender_ref = None\<rparr>,
     invitation_status = \<lparr>ist_expiration = None\<rparr>\<rparr>"

definition zero_verification_request :: verification_request where
  "zero_verification_request = \<lparr>verification_request_meta = empty_meta,
     verification_request_spec = \<lparr>vrs_code = [], vrs_subject = [], vrs_body_html = [], vrs_body_text = [],
       vrs_user_ref = \<lparr>tl_api_group = None, tl_kind = [], tl_name = []\<rparr>, vrs_duration = None\<rparr>,
     verification_request_status = \<lparr>vrst_provider_id = [], vrst_expiration = None, vrst_conditions = []\<rparr>\<rparr>"

definition zero_workload :: workload where
  "zero_workload = \<lparr>workload_meta = empty_meta,
     workload_spec = \<lparr>ws_cluster_component = False, ws_target_namespace = [], ws_workload_template_input = None,
       ws_input = None, ws_workload_template_ref = None, ws_provenience = []\<rparr>,
     workload_status = \<lparr>wst_conditions = [], wst_dependency_refs = [], wst_urls = [], wst_references = []\<rparr>\<rparr>"

lemmas zero_defs = zero_verification_request_def zero_workload_def zero_cluster_spec_def zero_cluster_def zero_node_pool_spec_def zero_node_pool_def zero_node_def
  zero_organization_def zero_member_def zero_user_def zero_invitation_def empty_meta_def

end
