(* ===== verification/Client.thy ===== *)
theory Client
  imports Api_Types
begin

text \<open>
  The boundary to the Kubernetes API server. Errors are values of type \<open>goerr\<close>; a value and an
  error come back as \<open>goerr + 'a\<close>. The API server is not part of the repository: it is a record
  \<open>server\<close> of functions, one per verb of controller-runtime's client, and each of them is handed
  the sequence of all earlier calls, so it can stand for any server state, any history and any
  other client acting in between. Every theorem quantifies over it. A call the code makes is
  logged as a \<open>call\<close>; the state of a computation is the list of these.

  Resources travel as \<open>kobject\<close>, the union of the types the code handles. A \<open>'o resource_type\<close>
  ties one Go type to its constructor; the locale \<open>resource_interface\<close> states what that tie promises and is
  interpreted for every type.
\<close>

named_theorems resource_simps \<open>the resource types and their decoding, written out\<close>

subsection \<open>Errors\<close>

text \<open>
  The classification of \<open>k8s.io/apimachinery/pkg/api/errors\<close>. The predicates \<open>IsNotFound\<close> and so on
  find a \<open>*StatusError\<close> through wrapping (\<open>errors.As\<close>); the type assertion \<open>err.(*StatusError)\<close> in
  the handlers does not.
\<close>

datatype reason = NotFound | Conflict | AlreadyExists | Invalid | Unauthorized | Forbidden
  | InternalError | BadRequest | OtherReason string

datatype path_elem = Child string | Index nat

text \<open>\<open>BadStruct\<close> is an offending value that is neither a string nor a number; its printed form is not
  modelled.\<close>

datatype bad_value = BadString string | BadInt int | BadStruct

datatype field_error =
    FieldRequired "path_elem list" string
  | FieldInvalid "path_elem list" bad_value string
  | FieldForbidden "path_elem list" string
  | FieldDuplicate "path_elem list" bad_value
  | FieldTypeInvalid "path_elem list" bad_value string

datatype goerr =
    StatusErr reason "field_error list option" string
  | Wrapped string goerr
  | Plain string

fun has_reason :: "reason \<Rightarrow> goerr \<Rightarrow> bool" where
  "has_reason r (StatusErr r' d m) = (r = r')"
| "has_reason r (Wrapped s e) = has_reason r e"
| "has_reason r (Plain s) = False"

definition err_is :: "reason \<Rightarrow> goerr option \<Rightarrow> bool" where
  "err_is r err = (case err of None \<Rightarrow> False | Some e \<Rightarrow> has_reason r e)"

definition ignore :: "reason \<Rightarrow> goerr option \<Rightarrow> goerr option" where
  "ignore r err = (if err_is r err then None else err)"

definition error_of :: "goerr + 'a \<Rightarrow> goerr option" where
  "error_of r = (case r of Inl e \<Rightarrow> Some e | Inr a \<Rightarrow> None)"

lemma err_is_simps [simp]: "err_is r None = False" "err_is r (Some e) = has_reason r e"
  by (simp_all add: err_is_def)

lemma error_of_simps [simp]: "error_of (Inl e) = Some e" "error_of (Inr a) = None"
  by (simp_all add: error_of_def)

lemma has_reason_unique: "has_reason r e \<Longrightarrow> has_reason r' e \<Longrightarrow> r = r'"
  by (induction e) auto

lemma ignore_None_iff: "ignore r err = None \<longleftrightarrow> err = None \<or> err_is r err"
  by (simp add: ignore_def)

subsection \<open>Objects, kinds and calls\<close>

datatype kobject =
    KOrganization organization
  | KCluster cluster
  | KNodePool node_pool
  | KClusterTemplate cluster_template
  | KMember member
  | KUser user
  | KInvitation invitation
  | KFeature feature
  | KRelease release
  | KWorkload workload
  | KDeployment deployment
  | KHelmDeployment helm_deployment
  | KKustomizeDeployment kustomize_deployment
  | KContainerImageDeployment container_image_deployment
  | KClusterRole cluster_role
  | KClusterRoleBinding cluster_role_binding
  | KRole rbac_role
  | KRoleBinding role_binding
  | KNode node
  | KConfigMap config_map
  | KVerificationRequest verification_request
  | KIdentityProvider identity_provider
  | KDNSZone dns_zone
  | KWorkloadInventory workload_inventory
  | KOrganizationVoucher organization_voucher
  | KCredentialTemplate credential_template
  | KSecret secret
  | KNamespace namespace

datatype kind = AOrganization | ACluster | ANodePool | AClusterTemplate | AMember | AUser
  | AInvitation | AFeature | ARelease | AWorkload | ADeployment | AHelmDeployment
  | AKustomizeDeployment | AContainerImageDeployment
  | AClusterRole | AClusterRoleBinding | ARole | ARoleBinding | ANode | AConfigMap
  | AVerificationRequest | AIdentityProvider | ADNSZone | AWorkloadInventory | AOrganizationVoucher | ACredentialTemplate | ASecret | ANamespace

fun kind_of :: "kobject \<Rightarrow> kind" where
  "kind_of (KOrganization x) = AOrganization"
| "kind_of (KCluster x) = ACluster"
| "kind_of (KNodePool x) = ANodePool"
| "kind_of (KClusterTemplate x) = AClusterTemplate"
| "kind_of (KMember x) = AMember"
| "kind_of (KUser x) = AUser"
| "kind_of (KInvitation x) = AInvitation"
| "kind_of (KFeature x) = AFeature"
| "kind_of (KRelease x) = ARelease"
| "kind_of (KWorkload x) = AWorkload"
| "kind_of (KDeployment x) = ADeployment"
| "kind_of (KHelmDeployment x) = AHelmDeployment"
| "kind_of (KKustomizeDeployment x) = AKustomizeDeployment"
| "kind_of (KContainerImageDeployment x) = AContainerImageDeployment"
| "kind_of (KClusterRole x) = AClusterRole"
| "kind_of (KClusterRoleBinding x) = AClusterRoleBinding"
| "kind_of (KRole x) = ARole"
| "kind_of (KRoleBinding x) = ARoleBinding"
| "kind_of (KNode x) = ANode"
| "kind_of (KConfigMap x) = AConfigMap"
| "kind_of (KVerificationRequest x) = AVerificationRequest"
| "kind_of (KIdentityProvider x) = AIdentityProvider"
| "kind_of (KDNSZone x) = ADNSZone"
| "kind_of (KWorkloadInventory x) = AWorkloadInventory"
| "kind_of (KOrganizationVoucher x) = AOrganizationVoucher"
| "kind_of (KCredentialTemplate x) = ACredentialTemplate"
| "kind_of (KSecret x) = ASecret"
| "kind_of (KNamespace x) = ANamespace"

fun meta_of :: "kobject \<Rightarrow> object_meta" where
  "meta_of (KOrganization x) = organization_meta x"
| "meta_of (KCluster x) = cluster_meta x"
| "meta_of (KNodePool x) = node_pool_meta x"
| "meta_of (KClusterTemplate x) = cluster_template_meta x"
| "meta_of (KMember x) = member_meta x"
| "meta_of (KUser x) = user_meta x"
| "meta_of (KInvitation x) = invitation_meta x"
| "meta_of (KFeature x) = feature_meta x"
| "meta_of (KRelease x) = release_meta x"
| "meta_of (KWorkload x) = workload_meta x"
| "meta_of (KDeployment x) = deployment_meta x"
| "meta_of (KHelmDeployment x) = helm_deployment_meta x"
| "meta_of (KKustomizeDeployment x) = kustomize_deployment_meta x"
| "meta_of (KContainerImageDeployment x) = container_image_deployment_meta x"
| "meta_of (KClusterRole x) = cr_meta x"
| "meta_of (KClusterRoleBinding x) = crb_meta x"
| "meta_of (KRole x) = ro_meta x"
| "meta_of (KRoleBinding x) = rb_meta x"
| "meta_of (KNode x) = node_meta x"
| "meta_of (KConfigMap x) = cfg_meta x"
| "meta_of (KVerificationRequest x) = verification_request_meta x"
| "meta_of (KIdentityProvider x) = identity_provider_meta x"
| "meta_of (KDNSZone x) = dns_zone_meta x"
| "meta_of (KWorkloadInventory x) = workload_inventory_meta x"
| "meta_of (KOrganizationVoucher x) = organization_voucher_meta x"
| "meta_of (KCredentialTemplate x) = credential_template_meta x"
| "meta_of (KSecret x) = sec_meta x"
| "meta_of (KNamespace x) = nsp_meta x"

definition key_of :: "kobject \<Rightarrow> object_key" where
  "key_of k = \<lparr>ok_namespace = om_namespace (meta_of k), ok_name = om_name (meta_of k)\<rparr>"

text \<open>\<open>apierrors.NewInvalid\<close> and \<open>apierrors.NewForbidden\<close>; of the message only the object's name is kept.\<close>

definition NewInvalid :: "string \<Rightarrow> field_error list \<Rightarrow> goerr" where
  "NewInvalid name errs = StatusErr Invalid (Some errs) name"

definition NewForbidden :: "string \<Rightarrow> goerr" where
  "NewForbidden name = StatusErr Forbidden (Some []) name"

lemma NewInvalid_reason [simp]: "has_reason r (NewInvalid n es) = (r = Invalid)"
  by (simp add: NewInvalid_def)

lemma NewForbidden_reason [simp]: "has_reason r (NewForbidden n) = (r = Forbidden)"
  by (simp add: NewForbidden_def)

text \<open>Options of \<open>List\<close>: a namespace (empty for all), label and field equalities.\<close>

record list_opts =
  lo_namespace :: string
  lo_labels :: "(string \<times> string) list"
  lo_fields :: "(string \<times> string) list"

definition list_all_opts :: list_opts where
  "list_all_opts = \<lparr>lo_namespace = [], lo_labels = [], lo_fields = []\<rparr>"

definition in_namespace :: "string \<Rightarrow> list_opts" where
  "in_namespace ns = \<lparr>lo_namespace = ns, lo_labels = [], lo_fields = []\<rparr>"

text \<open>
  \<open>CNewHelper\<close> and \<open>CHelper\<close> are \<open>patch.NewHelper\<close> and \<open>Helper.Patch\<close> of fluxcd's runtime package, which store
  the difference between an object when the helper was made and when it is applied.
  \<open>CFetch\<close> and \<open>CCommit\<close> are the two halves of \<open>controllerutil.CreateOrPatch\<close>: reading the object
  that is there, and creating or patching it after the callback has set the desired state.
\<close>

datatype call =
    CGet kind object_key
  | CList kind list_opts
  | CCreate kobject
  | CDelete kobject
  | CPatch kobject kobject
  | CStatusPatch kobject kobject
  | CFetch kobject
  | CCommit kobject kobject
  | CReview access_review
  | CNow
  | CNewHelper kobject
  | CHelper kobject kobject

type_synonym trace = "call list"

fun is_write :: "call \<Rightarrow> bool" where
  "is_write (CCreate k) = True"
| "is_write (CDelete k) = True"
| "is_write (CPatch k k') = True"
| "is_write (CStatusPatch k k') = True"
| "is_write (CCommit k k') = True"
| "is_write (CGet k n) = False"
| "is_write (CList k l) = False"
| "is_write (CFetch k) = False"
| "is_write (CReview r) = False"
| "is_write CNow = False"
| "is_write (CNewHelper k) = False"
| "is_write (CHelper k k') = True"

text \<open>A piece of a trace without writes.\<close>

definition read_only :: "trace \<Rightarrow> bool" where
  "read_only calls = list_all (\<lambda>c. \<not> is_write c) calls"

record server =
  sv_get :: "trace \<Rightarrow> kind \<Rightarrow> object_key \<Rightarrow> goerr + kobject"
  sv_list :: "trace \<Rightarrow> kind \<Rightarrow> list_opts \<Rightarrow> goerr + kobject list"
  sv_create :: "trace \<Rightarrow> kobject \<Rightarrow> goerr + kobject"
  sv_delete :: "trace \<Rightarrow> kobject \<Rightarrow> goerr option"
  sv_patch :: "trace \<Rightarrow> kobject \<Rightarrow> kobject \<Rightarrow> goerr + kobject"
  sv_status_patch :: "trace \<Rightarrow> kobject \<Rightarrow> kobject \<Rightarrow> goerr + kobject"
  sv_fetch :: "trace \<Rightarrow> kobject \<Rightarrow> goerr + kobject"
  sv_commit :: "trace \<Rightarrow> kobject \<Rightarrow> kobject \<Rightarrow> goerr + kobject"
  sv_review :: "trace \<Rightarrow> access_review \<Rightarrow> goerr + bool"
  sv_now :: "trace \<Rightarrow> gotime"
  sv_new_helper :: "trace \<Rightarrow> kobject \<Rightarrow> goerr option"
  sv_helper :: "trace \<Rightarrow> kobject \<Rightarrow> kobject \<Rightarrow> goerr option"

text \<open>A server on which nothing exists and every write is accepted, for concrete runs.\<close>

definition empty_server :: server where
  "empty_server = \<lparr>
     sv_get = (\<lambda>t k n. Inl (StatusErr NotFound None ''not found'')),
     sv_list = (\<lambda>t k l. Inr []),
     sv_create = (\<lambda>t k. Inr k),
     sv_delete = (\<lambda>t k. None),
     sv_patch = (\<lambda>t k k'. Inr k'),
     sv_status_patch = (\<lambda>t k k'. Inr k'),
     sv_fetch = (\<lambda>t k. Inr k),
     sv_commit = (\<lambda>t k k'. Inr k'),
     sv_review = (\<lambda>t r. Inr True),
     sv_now = (\<lambda>t. 0),
     sv_new_helper = (\<lambda>t k. None),
     sv_helper = (\<lambda>t k k'. None)\<rparr>"

subsection \<open>Typed access\<close>

record 'o resource_type =
  rk_kind :: kind
  rk_wrap :: "'o \<Rightarrow> kobject"
  rk_unwrap :: "kobject \<Rightarrow> 'o option"

definition decode_error :: goerr where
  "decode_error = Plain ''object of another type''"

definition decode :: "'o resource_type \<Rightarrow> goerr + kobject \<Rightarrow> goerr + 'o" where
  "decode R r =
     (case r of
        Inl e \<Rightarrow> Inl e
      | Inr k \<Rightarrow> (case rk_unwrap R k of None \<Rightarrow> Inl decode_error | Some v \<Rightarrow> Inr v))"

definition decode_list :: "'o resource_type \<Rightarrow> goerr + kobject list \<Rightarrow> goerr + 'o list" where
  "decode_list R r =
     (case r of
        Inl e \<Rightarrow> Inl e
      | Inr ks \<Rightarrow> (case those (map (rk_unwrap R) ks) of None \<Rightarrow> Inl decode_error | Some vs \<Rightarrow> Inr vs))"

definition k_get :: "'o resource_type \<Rightarrow> server \<Rightarrow> object_key \<Rightarrow> (trace, goerr + 'o) state" where
  "k_get R S key = do {
     r \<leftarrow> perform (\<lambda>t. sv_get S t (rk_kind R) key) (CGet (rk_kind R) key);
     ret (decode R r)
   }"

definition k_list :: "'o resource_type \<Rightarrow> server \<Rightarrow> list_opts \<Rightarrow> (trace, goerr + 'o list) state" where
  "k_list R S opts = do {
     r \<leftarrow> perform (\<lambda>t. sv_list S t (rk_kind R) opts) (CList (rk_kind R) opts);
     ret (decode_list R r)
   }"

definition k_create :: "'o resource_type \<Rightarrow> server \<Rightarrow> 'o \<Rightarrow> (trace, goerr + 'o) state" where
  "k_create R S v = do {
     r \<leftarrow> perform (\<lambda>t. sv_create S t (rk_wrap R v)) (CCreate (rk_wrap R v));
     ret (decode R r)
   }"

definition k_delete :: "'o resource_type \<Rightarrow> server \<Rightarrow> 'o \<Rightarrow> (trace, goerr option) state" where
  "k_delete R S v = perform (\<lambda>t. sv_delete S t (rk_wrap R v)) (CDelete (rk_wrap R v))"

definition k_patch :: "'o resource_type \<Rightarrow> server \<Rightarrow> 'o \<Rightarrow> 'o \<Rightarrow> (trace, goerr + 'o) state" where
  "k_patch R S old v = do {
     r \<leftarrow> perform (\<lambda>t. sv_patch S t (rk_wrap R old) (rk_wrap R v)) (CPatch (rk_wrap R old) (rk_wrap R v));
     ret (decode R r)
   }"

definition k_status_patch :: "'o resource_type \<Rightarrow> server \<Rightarrow> 'o \<Rightarrow> 'o \<Rightarrow> (trace, goerr + 'o) state" where
  "k_status_patch R S old v = do {
     r \<leftarrow> perform (\<lambda>t. sv_status_patch S t (rk_wrap R old) (rk_wrap R v)) (CStatusPatch (rk_wrap R old) (rk_wrap R v));
     ret (decode R r)
   }"

definition k_new_helper :: "'o resource_type \<Rightarrow> server \<Rightarrow> 'o \<Rightarrow> (trace, goerr option) state" where
  "k_new_helper R S v = perform (\<lambda>t. sv_new_helper S t (rk_wrap R v)) (CNewHelper (rk_wrap R v))"

definition k_helper_patch :: "'o resource_type \<Rightarrow> server \<Rightarrow> 'o \<Rightarrow> 'o \<Rightarrow> (trace, goerr option) state" where
  "k_helper_patch R S before v =
     perform (\<lambda>t. sv_helper S t (rk_wrap R before) (rk_wrap R v)) (CHelper (rk_wrap R before) (rk_wrap R v))"

definition k_review :: "server \<Rightarrow> access_review \<Rightarrow> (trace, goerr + bool) state" where
  "k_review S review = perform (\<lambda>t. sv_review S t review) (CReview review)"

definition k_now :: "server \<Rightarrow> (trace, gotime) state" where
  "k_now S = perform (sv_now S) CNow"

text \<open>
  \<open>controllerutil.CreateOrPatch(ctx, c, &v, f)\<close>: the object that exists (or \<open>v\<close> itself) is handed to
  the callback, which returns it with the desired state set; the result is written unless the
  callback fails. A callback may make calls of its own and may panic (\<open>Panic\<close>).
\<close>

definition create_or_patch ::
  "'o resource_type \<Rightarrow> server \<Rightarrow> 'o \<Rightarrow> ('o \<Rightarrow> (trace, (goerr, 'o) go) state) \<Rightarrow> (trace, (goerr, 'o) go) state"
where
  "create_or_patch R S v mutate = do {
     r \<leftarrow> perform (\<lambda>t. sv_fetch S t (rk_wrap R v)) (CFetch (rk_wrap R v));
     case decode R r of
       Inl e \<Rightarrow> ret (Fail e)
     | Inr current \<Rightarrow> do {
         m \<leftarrow> mutate current;
         case m of
           Ret desired \<Rightarrow> do {
             w \<leftarrow> perform (\<lambda>t. sv_commit S t (rk_wrap R current) (rk_wrap R desired))
                        (CCommit (rk_wrap R current) (rk_wrap R desired));
             ret (go_of_sum (decode R w))
           }
         | Fail e \<Rightarrow> ret (Fail e)
         | Panic \<Rightarrow> ret Panic
       }
   }"

text \<open>A client call whose error the caller returns at once.\<close>

definition try_call :: "(trace, goerr + 'a) state \<Rightarrow> (trace, (goerr, 'a) go) state" where
  "try_call m = do { r \<leftarrow> m; ret (go_of_sum r) }"

definition try_delete :: "(trace, goerr option) state \<Rightarrow> (trace, (goerr, unit) go) state" where
  "try_delete m = do { r \<leftarrow> m; ret (case r of None \<Rightarrow> Ret () | Some e \<Rightarrow> Fail e) }"

subsection \<open>The resource types\<close>

definition R_organization :: "organization resource_type" where
  "R_organization = \<lparr>rk_kind = AOrganization, rk_wrap = KOrganization,
     rk_unwrap = (\<lambda>k. case k of KOrganization x \<Rightarrow> Some x | _ \<Rightarrow> None)\<rparr>"

definition R_cluster :: "cluster resource_type" where
  "R_cluster = \<lparr>rk_kind = ACluster, rk_wrap = KCluster,
     rk_unwrap = (\<lambda>k. case k of KCluster x \<Rightarrow> Some x | _ \<Rightarrow> None)\<rparr>"

definition R_node_pool :: "node_pool resource_type" where
  "R_node_pool = \<lparr>rk_kind = ANodePool, rk_wrap = KNodePool,
     rk_unwrap = (\<lambda>k. case k of KNodePool x \<Rightarrow> Some x | _ \<Rightarrow> None)\<rparr>"

definition R_cluster_template :: "cluster_template resource_type" where
  "R_cluster_template = \<lparr>rk_kind = AClusterTemplate, rk_wrap = KClusterTemplate,
     rk_unwrap = (\<lambda>k. case k of KClusterTemplate x \<Rightarrow> Some x | _ \<Rightarrow> None)\<rparr>"

definition R_member :: "member resource_type" where
  "R_member = \<lparr>rk_kind = AMember, rk_wrap = KMember,
     rk_unwrap = (\<lambda>k. case k of KMember x \<Rightarrow> Some x | _ \<Rightarrow> None)\<rparr>"

definition R_user :: "user resource_type" where
  "R_user = \<lparr>rk_kind = AUser, rk_wrap = KUser,
     rk_unwrap = (\<lambda>k. case k of KUser x \<Rightarrow> Some x | _ \<Rightarrow> None)\<rparr>"

definition R_invitation :: "invitation resource_type" where
  "R_invitation = \<lparr>rk_kind = AInvitation, rk_wrap = KInvitation,
     rk_unwrap = (\<lambda>k. case k of KInvitation x \<Rightarrow> Some x | _ \<Rightarrow> None)\<rparr>"

definition R_feature :: "feature resource_type" where
  "R_feature = \<lparr>rk_kind = AFeature, rk_wrap = KFeature,
     rk_unwrap = (\<lambda>k. case k of KFeature x \<Rightarrow> Some x | _ \<Rightarrow> None)\<rparr>"

definition R_release :: "release resource_type" where
  "R_release = \<lparr>rk_kind = ARelease, rk_wrap = KRelease,
     rk_unwrap = (\<lambda>k. case k of KRelease x \<Rightarrow> Some x | _ \<Rightarrow> None)\<rparr>"

definition R_workload :: "workload resource_type" where
  "R_workload = \<lparr>rk_kind = AWorkload, rk_wrap = KWorkload,
     rk_unwrap = (\<lambda>k. case k of KWorkload x \<Rightarrow> Some x | _ \<Rightarrow> None)\<rparr>"

definition R_deployment :: "deployment resource_type" where
  "R_deployment = \<lparr>rk_kind = ADeployment, rk_wrap = KDeployment,
     rk_unwrap = (\<lambda>k. case k of KDeployment x \<Rightarrow> Some x | _ \<Rightarrow> None)\<rparr>"

definition R_helm_deployment :: "helm_deployment resource_type" where
  "R_helm_deployment = \<lparr>rk_kind = AHelmDeployment, rk_wrap = KHelmDeployment,
     rk_unwrap = (\<lambda>k. case k of KHelmDeployment x \<Rightarrow> Some x | _ \<Rightarrow> None)\<rparr>"

definition R_kustomize_deployment :: "kustomize_deployment resource_type" where
  "R_kustomize_deployment = \<lparr>rk_kind = AKustomizeDeployment, rk_wrap = KKustomizeDeployment,
     rk_unwrap = (\<lambda>k. case k of KKustomizeDeployment x \<Rightarrow> Some x | _ \<Rightarrow> None)\<rparr>"

definition R_container_image_deployment :: "container_image_deployment resource_type" where
  "R_container_image_deployment = \<lparr>rk_kind = AContainerImageDeployment, rk_wrap = KContainerImageDeployment,
     rk_unwrap = (\<lambda>k. case k of KContainerImageDeployment x \<Rightarrow> Some x | _ \<Rightarrow> None)\<rparr>"

definition R_cluster_role :: "cluster_role resource_type" where
  "R_cluster_role = \<lparr>rk_kind = AClusterRole, rk_wrap = KClusterRole,
     rk_unwrap = (\<lambda>k. case k of KClusterRole x \<Rightarrow> Some x | _ \<Rightarrow> None)\<rparr>"

definition R_cluster_role_binding :: "cluster_role_binding resource_type" where
  "R_cluster_role_binding = \<lparr>rk_kind = AClusterRoleBinding, rk_wrap = KClusterRoleBinding,
     rk_unwrap = (\<lambda>k. case k of KClusterRoleBinding x \<Rightarrow> Some x | _ \<Rightarrow> None)\<rparr>"

definition R_rbac_role :: "rbac_role resource_type" where
  "R_rbac_role = \<lparr>rk_kind = ARole, rk_wrap = KRole,
     rk_unwrap = (\<lambda>k. case k of KRole x \<Rightarrow> Some x | _ \<Rightarrow> None)\<rparr>"

definition R_role_binding :: "role_binding resource_type" where
  "R_role_binding = \<lparr>rk_kind = ARoleBinding, rk_wrap = KRoleBinding,
     rk_unwrap = (\<lambda>k. case k of KRoleBinding x \<Rightarrow> Some x | _ \<Rightarrow> None)\<rparr>"

definition R_node :: "node resource_type" where
  "R_node = \<lparr>rk_kind = ANode, rk_wrap = KNode,
     rk_unwrap = (\<lambda>k. case k of KNode x \<Rightarrow> Some x | _ \<Rightarrow> None)\<rparr>"

definition R_config_map :: "config_map resource_type" where
  "R_config_map = \<lparr>rk_kind = AConfigMap, rk_wrap = KConfigMap,
     rk_unwrap = (\<lambda>k. case k of KConfigMap x \<Rightarrow> Some x | _ \<Rightarrow> None)\<rparr>"

definition R_verification_request :: "verification_request resource_type" where
  "R_verification_request = \<lparr>rk_kind = AVerificationRequest, rk_wrap = KVerificationRequest,
     rk_unwrap = (\<lambda>k. case k of KVerificationRequest x \<Rightarrow> Some x | _ \<Rightarrow> None)\<rparr>"

definition R_identity_provider :: "identity_provider resource_type" where
  "R_identity_provider = \<lparr>rk_kind = AIdentityProvider, rk_wrap = KIdentityProvider,
     rk_unwrap = (\<lambda>k. case k of KIdentityProvider x \<Rightarrow> Some x | _ \<Rightarrow> None)\<rparr>"

definition R_dns_zone :: "dns_zone resource_type" where
  "R_dns_zone = \<lparr>rk_kind = ADNSZone, rk_wrap = KDNSZone,
     rk_unwrap = (\<lambda>k. case k of KDNSZone x \<Rightarrow> Some x | _ \<Rightarrow> None)\<rparr>"

definition R_workload_inventory :: "workload_inventory resource_type" where
  "R_workload_inventory = \<lparr>rk_kind = AWorkloadInventory, rk_wrap = KWorkloadInventory,
     rk_unwrap = (\<lambda>k. case k of KWorkloadInventory x \<Rightarrow> Some x | _ \<Rightarrow> None)\<rparr>"

definition R_organization_voucher :: "organization_voucher resource_type" where
  "R_organization_voucher = \<lparr>rk_kind = AOrganizationVoucher, rk_wrap = KOrganizationVoucher,
     rk_unwrap = (\<lambda>k. case k of KOrganizationVoucher x \<Rightarrow> Some x | _ \<Rightarrow> None)\<rparr>"

definition R_credential_template :: "credential_template resource_type" where
  "R_credential_template = \<lparr>rk_kind = ACredentialTemplate, rk_wrap = KCredentialTemplate,
     rk_unwrap = (\<lambda>k. case k of KCredentialTemplate x \<Rightarrow> Some x | _ \<Rightarrow> None)\<rparr>"

definition R_secret :: "secret resource_type" where
  "R_secret = \<lparr>rk_kind = ASecret, rk_wrap = KSecret,
     rk_unwrap = (\<lambda>k. case k of KSecret x \<Rightarrow> Some x | _ \<Rightarrow> None)\<rparr>"

definition R_namespace :: "namespace resource_type" where
  "R_namespace = \<lparr>rk_kind = ANamespace, rk_wrap = KNamespace,
     rk_unwrap = (\<lambda>k. case k of KNamespace x \<Rightarrow> Some x | _ \<Rightarrow> None)\<rparr>"

text \<open>
  A cooperative server finds under a key an object of that kind and key (the one handed in, when
  there is none yet) and accepts every write of \<open>CreateOrPatch\<close>. Nothing is assumed of what the
  existing object contains. \<open>existing\<close> is the object it finds.
\<close>

definition cooperative :: "server \<Rightarrow> bool" where
  "cooperative S =
     ((\<forall>t k. \<exists>k'. sv_fetch S t k = Inr k' \<and> kind_of k' = kind_of k \<and> key_of k' = key_of k)
      \<and> (\<forall>t k k'. sv_commit S t k k' = Inr k'))"

definition existing :: "'o resource_type \<Rightarrow> server \<Rightarrow> trace \<Rightarrow> 'o \<Rightarrow> 'o" where
  "existing R S t v = projr (decode R (sv_fetch S t (rk_wrap R v)))"

lemma empty_server_cooperative: "cooperative empty_server"
  by (simp add: cooperative_def empty_server_def)

text \<open>
  A server that answers lists from the objects \<open>objs\<close>, as the API server documents it: an empty
  namespace selects all of them, and every label requirement must hold. Lists by field are left open.
\<close>

definition selected :: "list_opts \<Rightarrow> kobject \<Rightarrow> bool" where
  "selected opts x =
     ((lo_namespace opts = [] \<or> om_namespace (meta_of x) = lo_namespace opts)
      \<and> list_all (\<lambda>(k, v). map_lookup (om_labels (meta_of x)) k = Some v) (lo_labels opts))"

definition lists_from :: "server \<Rightarrow> kobject list \<Rightarrow> bool" where
  "lists_from S objs =
     (\<forall>t kd opts. lo_fields opts = [] \<longrightarrow>
        sv_list S t kd opts = Inr (filter (\<lambda>x. kind_of x = kd \<and> selected opts x) objs))"

text \<open>What every typed operation relies on: wrapping and reading back are inverse, and the kind of a
  wrapped value is the one the operation asks for.\<close>

locale resource_interface =
  fixes R :: "'o resource_type"
  assumes unwrap_wrap [simp]: "rk_unwrap R (rk_wrap R v) = Some v"
    and unwrap_SomeD: "rk_unwrap R k = Some v \<Longrightarrow> k = rk_wrap R v"
    and kind_wrap [simp]: "kind_of (rk_wrap R v) = rk_kind R"
    and kind_onto: "kind_of k = rk_kind R \<Longrightarrow> \<exists>v. k = rk_wrap R v"
begin

lemma wrap_inject: "rk_wrap R v = rk_wrap R w \<longleftrightarrow> v = w"
  by (metis unwrap_wrap option.inject)

lemma decode_Inr_iff: "decode R r = Inr v \<longleftrightarrow> r = Inr (rk_wrap R v)"
  by (auto simp: decode_def split: sum.splits option.splits dest: unwrap_SomeD)

lemma decode_wrapped [simp]: "decode R (Inr (rk_wrap R v)) = Inr v"
  by (simp add: decode_def)

lemma those_unwrap: "those (map (rk_unwrap R) ks) = Some vs \<Longrightarrow> ks = map (rk_wrap R) vs"
proof (induction ks arbitrary: vs)
  case (Cons k ks)
  then show ?case by (auto split: option.splits dest: unwrap_SomeD)
qed simp

lemma decode_list_Inr_iff: "decode_list R r = Inr vs \<longleftrightarrow> r = Inr (map (rk_wrap R) vs)"
proof -
  have "those (map (rk_unwrap R) (map (rk_wrap R) vs)) = Some vs"
    by (induction vs) auto
  then show ?thesis
    by (auto simp: decode_list_def split: sum.splits option.splits dest: those_unwrap)
qed

text \<open>A list is the objects of the kind that are selected.\<close>

lemma unwrap_kind: "kind_of k = rk_kind R \<longleftrightarrow> rk_unwrap R k \<noteq> None"
  by (metis kind_onto kind_wrap option.exhaust option.simps(3) unwrap_SomeD unwrap_wrap)

lemma list_of_objects:
  assumes "lists_from S objs" "lo_fields opts = []"
  shows "decode_list R (sv_list S t (rk_kind R) opts) =
           Inr (List.map_filter (rk_unwrap R) (filter (selected opts) objs))"
proof -
  have "those (map (rk_unwrap R) (filter (\<lambda>x. kind_of x = rk_kind R \<and> selected opts x) xs))
      = Some (List.map_filter (rk_unwrap R) (filter (selected opts) xs))" for xs
  proof (induction xs)
    case (Cons x xs)
    then show ?case by (cases "rk_unwrap R x") (auto simp: unwrap_kind map_filter_simps)
  qed (simp add: map_filter_simps)
  with assms show ?thesis by (simp add: decode_list_def lists_from_def)
qed

text \<open>A committed object is always one the callback produced.\<close>

lemma create_or_patch_emits:
  assumes "P (CFetch (rk_wrap R v))"
    and "\<And>w. emits P (mutate w)"
    and "\<And>w t x t'. run_state (mutate w) t = (Ret x, t') \<Longrightarrow> P (CCommit (rk_wrap R w) (rk_wrap R x))"
  shows "emits P (create_or_patch R S v mutate)"
proof -
  have "emits P (case m of
           Ret desired \<Rightarrow> State_Monad.bind (perform (\<lambda>t. sv_commit S t (rk_wrap R w) (rk_wrap R desired))
                            (CCommit (rk_wrap R w) (rk_wrap R desired))) (\<lambda>w. ret (go_of_sum (decode R w)))
         | Fail e \<Rightarrow> ret (Fail e) | Panic \<Rightarrow> ret Panic)"
    if "run_state (mutate w) t = (m, t')" for w t m t'
    using assms(3) that by (cases m) (auto intro!: appends_intros)
  then show ?thesis
    unfolding create_or_patch_def
    by (intro emits_bind emits_perform emits_case_sum emits_ret emits_bind_result [OF assms(2)] assms(1))
qed

text \<open>On a cooperative server \<open>CreateOrPatch\<close> runs the callback on the object found under the key and
  stores what it returns.\<close>

lemma existing_wrapped:
  assumes "cooperative S"
  shows "decode R (sv_fetch S t (rk_wrap R v)) = Inr (existing R S t v)"
    and "key_of (rk_wrap R (existing R S t v)) = key_of (rk_wrap R v)"
proof -
  obtain k where k: "sv_fetch S t (rk_wrap R v) = Inr k" "kind_of k = rk_kind R"
    "key_of k = key_of (rk_wrap R v)"
    using assms kind_wrap unfolding cooperative_def by metis
  obtain w where "k = rk_wrap R w" using kind_onto [OF k(2)] by blast
  with k show "decode R (sv_fetch S t (rk_wrap R v)) = Inr (existing R S t v)"
    and "key_of (rk_wrap R (existing R S t v)) = key_of (rk_wrap R v)"
    by (simp_all add: existing_def)
qed

lemma run_create_or_patch:
  assumes "cooperative S"
    and "run_state (mutate (existing R S t v)) (t @ [CFetch (rk_wrap R v)]) = (Ret w, t')"
  shows "run_state (create_or_patch R S v mutate) t =
           (Ret w, t' @ [CCommit (rk_wrap R (existing R S t v)) (rk_wrap R w)])"
  using assms existing_wrapped(1) [OF assms(1)]
  by (simp add: create_or_patch_def cooperative_def)

lemma run_create_or_patch_pure:
  assumes "cooperative S"
  shows "run_state (create_or_patch R S v (\<lambda>x. ret (Ret (f x)))) t =
           (Ret (f (existing R S t v)),
            t @ [CFetch (rk_wrap R v),
                 CCommit (rk_wrap R (existing R S t v)) (rk_wrap R (f (existing R S t v)))])"
  using run_create_or_patch [OF assms] by simp

lemma run_create_or_patch_panic:
  assumes "cooperative S"
    and "run_state (mutate (existing R S t v)) (t @ [CFetch (rk_wrap R v)]) = (Panic, t')"
  shows "run_state (create_or_patch R S v mutate) t = (Panic, t')"
  using assms existing_wrapped(1) [OF assms(1)] by (simp add: create_or_patch_def)

end

interpretation organization_resource: resource_interface R_organization
  by unfold_locales (auto simp: R_organization_def elim: kind_of.elims split: kobject.splits)

interpretation cluster_resource: resource_interface R_cluster
  by unfold_locales (auto simp: R_cluster_def elim: kind_of.elims split: kobject.splits)

interpretation node_pool_resource: resource_interface R_node_pool
  by unfold_locales (auto simp: R_node_pool_def elim: kind_of.elims split: kobject.splits)

interpretation cluster_template_resource: resource_interface R_cluster_template
  by unfold_locales (auto simp: R_cluster_template_def elim: kind_of.elims split: kobject.splits)

interpretation member_resource: resource_interface R_member
  by unfold_locales (auto simp: R_member_def elim: kind_of.elims split: kobject.splits)

interpretation user_resource: resource_interface R_user
  by unfold_locales (auto simp: R_user_def elim: kind_of.elims split: kobject.splits)

interpretation invitation_resource: resource_interface R_invitation
  by unfold_locales (auto simp: R_invitation_def elim: kind_of.elims split: kobject.splits)

interpretation feature_resource: resource_interface R_feature
  by unfold_locales (auto simp: R_feature_def elim: kind_of.elims split: kobject.splits)

interpretation release_resource: resource_interface R_release
  by unfold_locales (auto simp: R_release_def elim: kind_of.elims split: kobject.splits)

interpretation workload_resource: resource_interface R_workload
  by unfold_locales (auto simp: R_workload_def elim: kind_of.elims split: kobject.splits)

interpretation deployment_resource: resource_interface R_deployment
  by unfold_locales (auto simp: R_deployment_def elim: kind_of.elims split: kobject.splits)

interpretation helm_deployment_resource: resource_interface R_helm_deployment
  by unfold_locales (auto simp: R_helm_deployment_def elim: kind_of.elims split: kobject.splits)

interpretation kustomize_deployment_resource: resource_interface R_kustomize_deployment
  by unfold_locales (auto simp: R_kustomize_deployment_def elim: kind_of.elims split: kobject.splits)

interpretation container_image_deployment_resource: resource_interface R_container_image_deployment
  by unfold_locales (auto simp: R_container_image_deployment_def elim: kind_of.elims split: kobject.splits)

interpretation cluster_role_resource: resource_interface R_cluster_role
  by unfold_locales (auto simp: R_cluster_role_def elim: kind_of.elims split: kobject.splits)

interpretation cluster_role_binding_resource: resource_interface R_cluster_role_binding
  by unfold_locales (auto simp: R_cluster_role_binding_def elim: kind_of.elims split: kobject.splits)

interpretation rbac_role_resource: resource_interface R_rbac_role
  by unfold_locales (auto simp: R_rbac_role_def elim: kind_of.elims split: kobject.splits)

interpretation role_binding_resource: resource_interface R_role_binding
  by unfold_locales (auto simp: R_role_binding_def elim: kind_of.elims split: kobject.splits)

interpretation node_resource: resource_interface R_node
  by unfold_locales (auto simp: R_node_def elim: kind_of.elims split: kobject.splits)

interpretation config_map_resource: resource_interface R_config_map
  by unfold_locales (auto simp: R_config_map_def elim: kind_of.elims split: kobject.splits)

interpretation verification_request_resource: resource_interface R_verification_request
  by unfold_locales (auto simp: R_verification_request_def elim: kind_of.elims split: kobject.splits)

interpretation identity_provider_resource: resource_interface R_identity_provider
  by unfold_locales (auto simp: R_identity_provider_def elim: kind_of.elims split: kobject.splits)

interpretation dns_zone_resource: resource_interface R_dns_zone
  by unfold_locales (auto simp: R_dns_zone_def elim: kind_of.elims split: kobject.splits)

interpretation workload_inventory_resource: resource_interface R_workload_inventory
  by unfold_locales (auto simp: R_workload_inventory_def elim: kind_of.elims split: kobject.splits)

interpretation organization_voucher_resource: resource_interface R_organization_voucher
  by unfold_locales (auto simp: R_organization_voucher_def elim: kind_of.elims split: kobject.splits)

interpretation credential_template_resource: resource_interface R_credential_template
  by unfold_locales (auto simp: R_credential_template_def elim: kind_of.elims split: kobject.splits)

interpretation secret_resource: resource_interface R_secret
  by unfold_locales (auto simp: R_secret_def elim: kind_of.elims split: kobject.splits)

interpretation namespace_resource: resource_interface R_namespace
  by unfold_locales (auto simp: R_namespace_def elim: kind_of.elims split: kobject.splits)

lemmas resource_defs = R_organization_def R_cluster_def R_node_pool_def R_cluster_template_def R_member_def R_user_def R_invitation_def R_feature_def R_release_def R_workload_def R_deployment_def R_helm_deployment_def R_kustomize_deployment_def R_container_image_deployment_def R_cluster_role_def R_cluster_role_binding_def R_rbac_role_def R_role_binding_def R_node_def R_config_map_def R_verification_request_def R_identity_provider_def R_dns_zone_def R_workload_inventory_def R_organization_voucher_def R_credential_template_def R_secret_def R_namespace_def

subsection \<open>The resource types, written out\<close>

lemma R_organization_simps [resource_simps]:
  "rk_kind R_organization = AOrganization" "rk_wrap R_organization = KOrganization" "decode R_organization (Inr (KOrganization v)) = Inr v"
  "(decode R_organization r = Inr v) = (r = Inr (KOrganization v))" "decode R_organization (Inl e) = Inl e"
  "(decode_list R_organization l = Inr vs) = (l = Inr (map KOrganization vs))"
  "decode_list R_organization (Inl e) = Inl e" "decode_list R_organization (Inr (map KOrganization vs)) = Inr vs" "decode_list R_organization (Inr []) = Inr []"
  using organization_resource.decode_Inr_iff [of r v] organization_resource.decode_list_Inr_iff [of l vs]
    organization_resource.decode_list_Inr_iff [of "Inr (map KOrganization vs)" vs]
  by (simp_all add: R_organization_def decode_def decode_list_def)

lemma R_cluster_simps [resource_simps]:
  "rk_kind R_cluster = ACluster" "rk_wrap R_cluster = KCluster" "decode R_cluster (Inr (KCluster v)) = Inr v"
  "(decode R_cluster r = Inr v) = (r = Inr (KCluster v))" "decode R_cluster (Inl e) = Inl e"
  "(decode_list R_cluster l = Inr vs) = (l = Inr (map KCluster vs))"
  "decode_list R_cluster (Inl e) = Inl e" "decode_list R_cluster (Inr (map KCluster vs)) = Inr vs" "decode_list R_cluster (Inr []) = Inr []"
  using cluster_resource.decode_Inr_iff [of r v] cluster_resource.decode_list_Inr_iff [of l vs]
    cluster_resource.decode_list_Inr_iff [of "Inr (map KCluster vs)" vs]
  by (simp_all add: R_cluster_def decode_def decode_list_def)

lemma R_node_pool_simps [resource_simps]:
  "rk_kind R_node_pool = ANodePool" "rk_wrap R_node_pool = KNodePool" "decode R_node_pool (Inr (KNodePool v)) = Inr v"
  "(decode R_node_pool r = Inr v) = (r = Inr (KNodePool v))" "decode R_node_pool (Inl e) = Inl e"
  "(decode_list R_node_pool l = Inr vs) = (l = Inr (map KNodePool vs))"
  "decode_list R_node_pool (Inl e) = Inl e" "decode_list R_node_pool (Inr (map KNodePool vs)) = Inr vs" "decode_list R_node_pool (Inr []) = Inr []"
  using node_pool_resource.decode_Inr_iff [of r v] node_pool_resource.decode_list_Inr_iff [of l vs]
    node_pool_resource.decode_list_Inr_iff [of "Inr (map KNodePool vs)" vs]
  by (simp_all add: R_node_pool_def decode_def decode_list_def)

lemma R_cluster_template_simps [resource_simps]:
  "rk_kind R_cluster_template = AClusterTemplate" "rk_wrap R_cluster_template = KClusterTemplate" "decode R_cluster_template (Inr (KClusterTemplate v)) = Inr v"
  "(decode R_cluster_template r = Inr v) = (r = Inr (KClusterTemplate v))" "decode R_cluster_template (Inl e) = Inl e"
  "(decode_list R_cluster_template l = Inr vs) = (l = Inr (map KClusterTemplate vs))"
  "decode_list R_cluster_template (Inl e) = Inl e" "decode_list R_cluster_template (Inr (map KClusterTemplate vs)) = Inr vs" "decode_list R_cluster_template (Inr []) = Inr []"
  using cluster_template_resource.decode_Inr_iff [of r v] cluster_template_resource.decode_list_Inr_iff [of l vs]
    cluster_template_resource.decode_list_Inr_iff [of "Inr (map KClusterTemplate vs)" vs]
  by (simp_all add: R_cluster_template_def decode_def decode_list_def)

lemma R_member_simps [resource_simps]:
  "rk_kind R_member = AMember" "rk_wrap R_member = KMember" "decode R_member (Inr (KMember v)) = Inr v"
  "(decode R_member r = Inr v) = (r = Inr (KMember v))" "decode R_member (Inl e) = Inl e"
  "(decode_list R_member l = Inr vs) = (l = Inr (map KMember vs))"
  "decode_list R_member (Inl e) = Inl e" "decode_list R_member (Inr (map KMember vs)) = Inr vs" "decode_list R_member (Inr []) = Inr []"
  using member_resource.decode_Inr_iff [of r v] member_resource.decode_list_Inr_iff [of l vs]
    member_resource.decode_list_Inr_iff [of "Inr (map KMember vs)" vs]
  by (simp_all add: R_member_def decode_def decode_list_def)

lemma R_user_simps [resource_simps]:
  "rk_kind R_user = AUser" "rk_wrap R_user = KUser" "decode R_user (Inr (KUser v)) = Inr v"
  "(decode R_user r = Inr v) = (r = Inr (KUser v))" "decode R_user (Inl e) = Inl e"
  "(decode_list R_user l = Inr vs) = (l = Inr (map KUser vs))"
  "decode_list R_user (Inl e) = Inl e" "decode_list R_user (Inr (map KUser vs)) = Inr vs" "decode_list R_user (Inr []) = Inr []"
  using user_resource.decode_Inr_iff [of r v] user_resource.decode_list_Inr_iff [of l vs]
    user_resource.decode_list_Inr_iff [of "Inr (map KUser vs)" vs]
  by (simp_all add: R_user_def decode_def decode_list_def)

lemma R_invitation_simps [resource_simps]:
  "rk_kind R_invitation = AInvitation" "rk_wrap R_invitation = KInvitation" "decode R_invitation (Inr (KInvitation v)) = Inr v"
  "(decode R_invitation r = Inr v) = (r = Inr (KInvitation v))" "decode R_invitation (Inl e) = Inl e"
  "(decode_list R_invitation l = Inr vs) = (l = Inr (map KInvitation vs))"
  "decode_list R_invitation (Inl e) = Inl e" "decode_list R_invitation (Inr (map KInvitation vs)) = Inr vs" "decode_list R_invitation (Inr []) = Inr []"
  using invitation_resource.decode_Inr_iff [of r v] invitation_resource.decode_list_Inr_iff [of l vs]
    invitation_resource.decode_list_Inr_iff [of "Inr (map KInvitation vs)" vs]
  by (simp_all add: R_invitation_def decode_def decode_list_def)

lemma R_feature_simps [resource_simps]:
  "rk_kind R_feature = AFeature" "rk_wrap R_feature = KFeature" "decode R_feature (Inr (KFeature v)) = Inr v"
  "(decode R_feature r = Inr v) = (r = Inr (KFeature v))" "decode R_feature (Inl e) = Inl e"
  "(decode_list R_feature l = Inr vs) = (l = Inr (map KFeature vs))"
  "decode_list R_feature (Inl e) = Inl e" "decode_list R_feature (Inr (map KFeature vs)) = Inr vs" "decode_list R_feature (Inr []) = Inr []"
  using feature_resource.decode_Inr_iff [of r v] feature_resource.decode_list_Inr_iff [of l vs]
    feature_resource.decode_list_Inr_iff [of "Inr (map KFeature vs)" vs]
  by (simp_all add: R_feature_def decode_def decode_list_def)

lemma R_release_simps [resource_simps]:
  "rk_kind R_release = ARelease" "rk_wrap R_release = KRelease" "decode R_release (Inr (KRelease v)) = Inr v"
  "(decode R_release r = Inr v) = (r = Inr (KRelease v))" "decode R_release (Inl e) = Inl e"
  "(decode_list R_release l = Inr vs) = (l = Inr (map KRelease vs))"
  "decode_list R_release (Inl e) = Inl e" "decode_list R_release (Inr (map KRelease vs)) = Inr vs" "decode_list R_release (Inr []) = Inr []"
  using release_resource.decode_Inr_iff [of r v] release_resource.decode_list_Inr_iff [of l vs]
    release_resource.decode_list_Inr_iff [of "Inr (map KRelease vs)" vs]
  by (simp_all add: R_release_def decode_def decode_list_def)

lemma R_workload_simps [resource_simps]:
  "rk_kind R_workload = AWorkload" "rk_wrap R_workload = KWorkload" "decode R_workload (Inr (KWorkload v)) = Inr v"
  "(decode R_workload r = Inr v) = (r = Inr (KWorkload v))" "decode R_workload (Inl e) = Inl e"
  "(decode_list R_workload l = Inr vs) = (l = Inr (map KWorkload vs))"
  "decode_list R_workload (Inl e) = Inl e" "decode_list R_workload (Inr (map KWorkload vs)) = Inr vs" "decode_list R_workload (Inr []) = Inr []"
  using workload_resource.decode_Inr_iff [of r v] workload_resource.decode_list_Inr_iff [of l vs]
    workload_resource.decode_list_Inr_iff [of "Inr (map KWorkload vs)" vs]
  by (simp_all add: R_workload_def decode_def decode_list_def)

lemma R_deployment_simps [resource_simps]:
  "rk_kind R_deployment = ADeployment" "rk_wrap R_deployment = KDeployment" "decode R_deployment (Inr (KDeployment v)) = Inr v"
  "(decode R_deployment r = Inr v) = (r = Inr (KDeployment v))" "decode R_deployment (Inl e) = Inl e"
  "(decode_list R_deployment l = Inr vs) = (l = Inr (map KDeployment vs))"
  "decode_list R_deployment (Inl e) = Inl e" "decode_list R_deployment (Inr (map KDeployment vs)) = Inr vs" "decode_list R_deployment (Inr []) = Inr []"
  using deployment_resource.decode_Inr_iff [of r v] deployment_resource.decode_list_Inr_iff [of l vs]
    deployment_resource.decode_list_Inr_iff [of "Inr (map KDeployment vs)" vs]
  by (simp_all add: R_deployment_def decode_def decode_list_def)

lemma R_helm_deployment_simps [resource_simps]:
  "rk_kind R_helm_deployment = AHelmDeployment" "rk_wrap R_helm_deployment = KHelmDeployment" "decode R_helm_deployment (Inr (KHelmDeployment v)) = Inr v"
  "(decode R_helm_deployment r = Inr v) = (r = Inr (KHelmDeployment v))" "decode R_helm_deployment (Inl e) = Inl e"
  "(decode_list R_helm_deployment l = Inr vs) = (l = Inr (map KHelmDeployment vs))"
  "decode_list R_helm_deployment (Inl e) = Inl e" "decode_list R_helm_deployment (Inr (map KHelmDeployment vs)) = Inr vs" "decode_list R_helm_deployment (Inr []) = Inr []"
  using helm_deployment_resource.decode_Inr_iff [of r v] helm_deployment_resource.decode_list_Inr_iff [of l vs]
    helm_deployment_resource.decode_list_Inr_iff [of "Inr (map KHelmDeployment vs)" vs]
  by (simp_all add: R_helm_deployment_def decode_def decode_list_def)

lemma R_kustomize_deployment_simps [resource_simps]:
  "rk_kind R_kustomize_deployment = AKustomizeDeployment" "rk_wrap R_kustomize_deployment = KKustomizeDeployment" "decode R_kustomize_deployment (Inr (KKustomizeDeployment v)) = Inr v"
  "(decode R_kustomize_deployment r = Inr v) = (r = Inr (KKustomizeDeployment v))" "decode R_kustomize_deployment (Inl e) = Inl e"
  "(decode_list R_kustomize_deployment l = Inr vs) = (l = Inr (map KKustomizeDeployment vs))"
  "decode_list R_kustomize_deployment (Inl e) = Inl e" "decode_list R_kustomize_deployment (Inr (map KKustomizeDeployment vs)) = Inr vs" "decode_list R_kustomize_deployment (Inr []) = Inr []"
  using kustomize_deployment_resource.decode_Inr_iff [of r v] kustomize_deployment_resource.decode_list_Inr_iff [of l vs]
    kustomize_deployment_resource.decode_list_Inr_iff [of "Inr (map KKustomizeDeployment vs)" vs]
  by (simp_all add: R_kustomize_deployment_def decode_def decode_list_def)

lemma R_container_image_deployment_simps [resource_simps]:
  "rk_kind R_container_image_deployment = AContainerImageDeployment" "rk_wrap R_container_image_deployment = KContainerImageDeployment" "decode R_container_image_deployment (Inr (KContainerImageDeployment v)) = Inr v"
  "(decode R_container_image_deployment r = Inr v) = (r = Inr (KContainerImageDeployment v))" "decode R_container_image_deployment (Inl e) = Inl e"
  "(decode_list R_container_image_deployment l = Inr vs) = (l = Inr (map KContainerImageDeployment vs))"
  "decode_list R_container_image_deployment (Inl e) = Inl e" "decode_list R_container_image_deployment (Inr (map KContainerImageDeployment vs)) = Inr vs" "decode_list R_container_image_deployment (Inr []) = Inr []"
  using container_image_deployment_resource.decode_Inr_iff [of r v] container_image_deployment_resource.decode_list_Inr_iff [of l vs]
    container_image_deployment_resource.decode_list_Inr_iff [of "Inr (map KContainerImageDeployment vs)" vs]
  by (simp_all add: R_container_image_deployment_def decode_def decode_list_def)

lemma R_cluster_role_simps [resource_simps]:
  "rk_kind R_cluster_role = AClusterRole" "rk_wrap R_cluster_role = KClusterRole" "decode R_cluster_role (Inr (KClusterRole v)) = Inr v"
  "(decode R_cluster_role r = Inr v) = (r = Inr (KClusterRole v))" "decode R_cluster_role (Inl e) = Inl e"
  "(decode_list R_cluster_role l = Inr vs) = (l = Inr (map KClusterRole vs))"
  "decode_list R_cluster_role (Inl e) = Inl e" "decode_list R_cluster_role (Inr (map KClusterRole vs)) = Inr vs" "decode_list R_cluster_role (Inr []) = Inr []"
  using cluster_role_resource.decode_Inr_iff [of r v] cluster_role_resource.decode_list_Inr_iff [of l vs]
    cluster_role_resource.decode_list_Inr_iff [of "Inr (map KClusterRole vs)" vs]
  by (simp_all add: R_cluster_role_def decode_def decode_list_def)

lemma R_cluster_role_binding_simps [resource_simps]:
  "rk_kind R_cluster_role_binding = AClusterRoleBinding" "rk_wrap R_cluster_role_binding = KClusterRoleBinding" "decode R_cluster_role_binding (Inr (KClusterRoleBinding v)) = Inr v"
  "(decode R_cluster_role_binding r = Inr v) = (r = Inr (KClusterRoleBinding v))" "decode R_cluster_role_binding (Inl e) = Inl e"
  "(decode_list R_cluster_role_binding l = Inr vs) = (l = Inr (map KClusterRoleBinding vs))"
  "decode_list R_cluster_role_binding (Inl e) = Inl e" "decode_list R_cluster_role_binding (Inr (map KClusterRoleBinding vs)) = Inr vs" "decode_list R_cluster_role_binding (Inr []) = Inr []"
  using cluster_role_binding_resource.decode_Inr_iff [of r v] cluster_role_binding_resource.decode_list_Inr_iff [of l vs]
    cluster_role_binding_resource.decode_list_Inr_iff [of "Inr (map KClusterRoleBinding vs)" vs]
  by (simp_all add: R_cluster_role_binding_def decode_def decode_list_def)

lemma R_rbac_role_simps [resource_simps]:
  "rk_kind R_rbac_role = ARole" "rk_wrap R_rbac_role = KRole" "decode R_rbac_role (Inr (KRole v)) = Inr v"
  "(decode R_rbac_role r = Inr v) = (r = Inr (KRole v))" "decode R_rbac_role (Inl e) = Inl e"
  "(decode_list R_rbac_role l = Inr vs) = (l = Inr (map KRole vs))"
  "decode_list R_rbac_role (Inl e) = Inl e" "decode_list R_rbac_role (Inr (map KRole vs)) = Inr vs" "decode_list R_rbac_role (Inr []) = Inr []"
  using rbac_role_resource.decode_Inr_iff [of r v] rbac_role_resource.decode_list_Inr_iff [of l vs]
    rbac_role_resource.decode_list_Inr_iff [of "Inr (map KRole vs)" vs]
  by (simp_all add: R_rbac_role_def decode_def decode_list_def)

lemma R_role_binding_simps [resource_simps]:
  "rk_kind R_role_binding = ARoleBinding" "rk_wrap R_role_binding = KRoleBinding" "decode R_role_binding (Inr (KRoleBinding v)) = Inr v"
  "(decode R_role_binding r = Inr v) = (r = Inr (KRoleBinding v))" "decode R_role_binding (Inl e) = Inl e"
  "(decode_list R_role_binding l = Inr vs) = (l = Inr (map KRoleBinding vs))"
  "decode_list R_role_binding (Inl e) = Inl e" "decode_list R_role_binding (Inr (map KRoleBinding vs)) = Inr vs" "decode_list R_role_binding (Inr []) = Inr []"
  using role_binding_resource.decode_Inr_iff [of r v] role_binding_resource.decode_list_Inr_iff [of l vs]
    role_binding_resource.decode_list_Inr_iff [of "Inr (map KRoleBinding vs)" vs]
  by (simp_all add: R_role_binding_def decode_def decode_list_def)

lemma R_node_simps [resource_simps]:
  "rk_kind R_node = ANode" "rk_wrap R_node = KNode" "decode R_node (Inr (KNode v)) = Inr v"
  "(decode R_node r = Inr v) = (r = Inr (KNode v))" "decode R_node (Inl e) = Inl e"
  "(decode_list R_node l = Inr vs) = (l = Inr (map KNode vs))"
  "decode_list R_node (Inl e) = Inl e" "decode_list R_node (Inr (map KNode vs)) = Inr vs" "decode_list R_node (Inr []) = Inr []"
  using node_resource.decode_Inr_iff [of r v] node_resource.decode_list_Inr_iff [of l vs]
    node_resource.decode_list_Inr_iff [of "Inr (map KNode vs)" vs]
  by (simp_all add: R_node_def decode_def decode_list_def)

lemma R_config_map_simps [resource_simps]:
  "rk_kind R_config_map = AConfigMap" "rk_wrap R_config_map = KConfigMap" "decode R_config_map (Inr (KConfigMap v)) = Inr v"
  "(decode R_config_map r = Inr v) = (r = Inr (KConfigMap v))" "decode R_config_map (Inl e) = Inl e"
  "(decode_list R_config_map l = Inr vs) = (l = Inr (map KConfigMap vs))"
  "decode_list R_config_map (Inl e) = Inl e" "decode_list R_config_map (Inr (map KConfigMap vs)) = Inr vs" "decode_list R_config_map (Inr []) = Inr []"
  using config_map_resource.decode_Inr_iff [of r v] config_map_resource.decode_list_Inr_iff [of l vs]
    config_map_resource.decode_list_Inr_iff [of "Inr (map KConfigMap vs)" vs]
  by (simp_all add: R_config_map_def decode_def decode_list_def)

lemma R_verification_request_simps [resource_simps]:
  "rk_kind R_verification_request = AVerificationRequest" "rk_wrap R_verification_request = KVerificationRequest" "decode R_verification_request (Inr (KVerificationRequest v)) = Inr v"
  "(decode R_verification_request r = Inr v) = (r = Inr (KVerificationRequest v))" "decode R_verification_request (Inl e) = Inl e"
  "(decode_list R_verification_request l = Inr vs) = (l = Inr (map KVerificationRequest vs))"
  "decode_list R_verification_request (Inl e) = Inl e" "decode_list R_verification_request (Inr (map KVerificationRequest vs)) = Inr vs" "decode_list R_verification_request (Inr []) = Inr []"
  using verification_request_resource.decode_Inr_iff [of r v] verification_request_resource.decode_list_Inr_iff [of l vs]
    verification_request_resource.decode_list_Inr_iff [of "Inr (map KVerificationRequest vs)" vs]
  by (simp_all add: R_verification_request_def decode_def decode_list_def)

lemma R_identity_provider_simps [resource_simps]:
  "rk_kind R_identity_provider = AIdentityProvider" "rk_wrap R_identity_provider = KIdentityProvider" "decode R_identity_provider (Inr (KIdentityProvider v)) = Inr v"
  "(decode R_identity_provider r = Inr v) = (r = Inr (KIdentityProvider v))" "decode R_identity_provider (Inl e) = Inl e"
  "(decode_list R_identity_provider l = Inr vs) = (l = Inr (map KIdentityProvider vs))"
  "decode_list R_identity_provider (Inl e) = Inl e" "decode_list R_identity_provider (Inr (map KIdentityProvider vs)) = Inr vs" "decode_list R_identity_provider (Inr []) = Inr []"
  using identity_provider_resource.decode_Inr_iff [of r v] identity_provider_resource.decode_list_Inr_iff [of l vs]
    identity_provider_resource.decode_list_Inr_iff [of "Inr (map KIdentityProvider vs)" vs]
  by (simp_all add: R_identity_provider_def decode_def decode_list_def)

lemma R_dns_zone_simps [resource_simps]:
  "rk_kind R_dns_zone = ADNSZone" "rk_wrap R_dns_zone = KDNSZone" "decode R_dns_zone (Inr (KDNSZone v)) = Inr v"
  "(decode R_dns_zone r = Inr v) = (r = Inr (KDNSZone v))" "decode R_dns_zone (Inl e) = Inl e"
  "(decode_list R_dns_zone l = Inr vs) = (l = Inr (map KDNSZone vs))"
  "decode_list R_dns_zone (Inl e) = Inl e" "decode_list R_dns_zone (Inr (map KDNSZone vs)) = Inr vs" "decode_list R_dns_zone (Inr []) = Inr []"
  using dns_zone_resource.decode_Inr_iff [of r v] dns_zone_resource.decode_list_Inr_iff [of l vs]
    dns_zone_resource.decode_list_Inr_iff [of "Inr (map KDNSZone vs)" vs]
  by (simp_all add: R_dns_zone_def decode_def decode_list_def)

lemma R_workload_inventory_simps [resource_simps]:
  "rk_kind R_workload_inventory = AWorkloadInventory" "rk_wrap R_workload_inventory = KWorkloadInventory" "decode R_workload_inventory (Inr (KWorkloadInventory v)) = Inr v"
  "(decode R_workload_inventory r = Inr v) = (r = Inr (KWorkloadInventory v))" "decode R_workload_inventory (Inl e) = Inl e"
  "(decode_list R_workload_inventory l = Inr vs) = (l = Inr (map KWorkloadInventory vs))"
  "decode_list R_workload_inventory (Inl e) = Inl e" "decode_list R_workload_inventory (Inr (map KWorkloadInventory vs)) = Inr vs" "decode_list R_workload_inventory (Inr []) = Inr []"
  using workload_inventory_resource.decode_Inr_iff [of r v] workload_inventory_resource.decode_list_Inr_iff [of l vs]
    workload_inventory_resource.decode_list_Inr_iff [of "Inr (map KWorkloadInventory vs)" vs]
  by (simp_all add: R_workload_inventory_def decode_def decode_list_def)

lemma R_organization_voucher_simps [resource_simps]:
  "rk_kind R_organization_voucher = AOrganizationVoucher" "rk_wrap R_organization_voucher = KOrganizationVoucher" "decode R_organization_voucher (Inr (KOrganizationVoucher v)) = Inr v"
  "(decode R_organization_voucher r = Inr v) = (r = Inr (KOrganizationVoucher v))" "decode R_organization_voucher (Inl e) = Inl e"
  "(decode_list R_organization_voucher l = Inr vs) = (l = Inr (map KOrganizationVoucher vs))"
  "decode_list R_organization_voucher (Inl e) = Inl e" "decode_list R_organization_voucher (Inr (map KOrganizationVoucher vs)) = Inr vs" "decode_list R_organization_voucher (Inr []) = Inr []"
  using organization_voucher_resource.decode_Inr_iff [of r v] organization_voucher_resource.decode_list_Inr_iff [of l vs]
    organization_voucher_resource.decode_list_Inr_iff [of "Inr (map KOrganizationVoucher vs)" vs]
  by (simp_all add: R_organization_voucher_def decode_def decode_list_def)

lemma R_credential_template_simps [resource_simps]:
  "rk_kind R_credential_template = ACredentialTemplate" "rk_wrap R_credential_template = KCredentialTemplate" "decode R_credential_template (Inr (KCredentialTemplate v)) = Inr v"
  "(decode R_credential_template r = Inr v) = (r = Inr (KCredentialTemplate v))" "decode R_credential_template (Inl e) = Inl e"
  "(decode_list R_credential_template l = Inr vs) = (l = Inr (map KCredentialTemplate vs))"
  "decode_list R_credential_template (Inl e) = Inl e" "decode_list R_credential_template (Inr (map KCredentialTemplate vs)) = Inr vs" "decode_list R_credential_template (Inr []) = Inr []"
  using credential_template_resource.decode_Inr_iff [of r v] credential_template_resource.decode_list_Inr_iff [of l vs]
    credential_template_resource.decode_list_Inr_iff [of "Inr (map KCredentialTemplate vs)" vs]
  by (simp_all add: R_credential_template_def decode_def decode_list_def)

lemma R_secret_simps [resource_simps]:
  "rk_kind R_secret = ASecret" "rk_wrap R_secret = KSecret" "decode R_secret (Inr (KSecret v)) = Inr v"
  "(decode R_secret r = Inr v) = (r = Inr (KSecret v))" "decode R_secret (Inl e) = Inl e"
  "(decode_list R_secret l = Inr vs) = (l = Inr (map KSecret vs))"
  "decode_list R_secret (Inl e) = Inl e" "decode_list R_secret (Inr (map KSecret vs)) = Inr vs" "decode_list R_secret (Inr []) = Inr []"
  using secret_resource.decode_Inr_iff [of r v] secret_resource.decode_list_Inr_iff [of l vs]
    secret_resource.decode_list_Inr_iff [of "Inr (map KSecret vs)" vs]
  by (simp_all add: R_secret_def decode_def decode_list_def)

lemma R_namespace_simps [resource_simps]:
  "rk_kind R_namespace = ANamespace" "rk_wrap R_namespace = KNamespace" "decode R_namespace (Inr (KNamespace v)) = Inr v"
  "(decode R_namespace r = Inr v) = (r = Inr (KNamespace v))" "decode R_namespace (Inl e) = Inl e"
  "(decode_list R_namespace l = Inr vs) = (l = Inr (map KNamespace vs))"
  "decode_list R_namespace (Inl e) = Inl e" "decode_list R_namespace (Inr (map KNamespace vs)) = Inr vs" "decode_list R_namespace (Inr []) = Inr []"
  using namespace_resource.decode_Inr_iff [of r v] namespace_resource.decode_list_Inr_iff [of l vs]
    namespace_resource.decode_list_Inr_iff [of "Inr (map KNamespace vs)" vs]
  by (simp_all add: R_namespace_def decode_def decode_list_def)

subsection \<open>What the operations call\<close>

lemma k_get_emits [appends_intros, intro]: "P (CGet (rk_kind R) key) \<Longrightarrow> emits P (k_get R S key)"
  unfolding k_get_def by (intro appends_intros)

lemma k_list_emits [appends_intros, intro]: "P (CList (rk_kind R) opts) \<Longrightarrow> emits P (k_list R S opts)"
  unfolding k_list_def by (intro appends_intros)

lemma k_create_emits [appends_intros, intro]: "P (CCreate (rk_wrap R v)) \<Longrightarrow> emits P (k_create R S v)"
  unfolding k_create_def by (intro appends_intros)

lemma k_delete_emits [appends_intros, intro]: "P (CDelete (rk_wrap R v)) \<Longrightarrow> emits P (k_delete R S v)"
  unfolding k_delete_def by (intro appends_intros)

lemma k_patch_emits [appends_intros, intro]:
  "P (CPatch (rk_wrap R old) (rk_wrap R v)) \<Longrightarrow> emits P (k_patch R S old v)"
  unfolding k_patch_def by (intro appends_intros)

lemma k_status_patch_emits [appends_intros, intro]:
  "P (CStatusPatch (rk_wrap R old) (rk_wrap R v)) \<Longrightarrow> emits P (k_status_patch R S old v)"
  unfolding k_status_patch_def by (intro appends_intros)

lemma k_new_helper_emits [appends_intros, intro]: "P (CNewHelper (rk_wrap R v)) \<Longrightarrow> emits P (k_new_helper R S v)"
  unfolding k_new_helper_def by (intro appends_intros)

lemma k_helper_patch_emits [appends_intros, intro]:
  "P (CHelper (rk_wrap R before) (rk_wrap R v)) \<Longrightarrow> emits P (k_helper_patch R S before v)"
  unfolding k_helper_patch_def by (intro appends_intros)

lemma k_review_emits [appends_intros, intro]: "P (CReview review) \<Longrightarrow> emits P (k_review S review)"
  unfolding k_review_def by (intro appends_intros)

lemma k_now_emits [appends_intros, intro]: "P CNow \<Longrightarrow> emits P (k_now S)"
  unfolding k_now_def by (intro appends_intros)

lemma try_call_emits [appends_intros, intro]: "emits P m \<Longrightarrow> emits P (try_call m)"
  unfolding try_call_def by (intro appends_intros)

lemma try_delete_emits [appends_intros, intro]: "emits P m \<Longrightarrow> emits P (try_delete m)"
  unfolding try_delete_def by (intro appends_intros)

lemma run_try_call [run_simps]:
  "run_state (try_call m) t = (go_of_sum (fst (run_state m t)), snd (run_state m t))"
  by (simp add: try_call_def case_prod_unfold)

lemma try_call_Ret: "run_state (try_call m) t = (Ret a, t') \<longleftrightarrow> run_state m t = (Inr a, t')"
  by (cases "run_state m t"; cases "fst (run_state m t)") (auto simp: run_simps)

lemma run_try_delete [run_simps]:
  "run_state (try_delete m) t =
     ((case fst (run_state m t) of None \<Rightarrow> Ret () | Some e \<Rightarrow> Fail e), snd (run_state m t))"
  by (simp add: try_delete_def case_prod_unfold)

lemma run_k_create [run_simps]:
  "run_state (k_create R S v) t = (decode R (sv_create S t (rk_wrap R v)), t @ [CCreate (rk_wrap R v)])"
  by (simp add: k_create_def)

lemma run_k_delete [run_simps]:
  "run_state (k_delete R S v) t = (sv_delete S t (rk_wrap R v), t @ [CDelete (rk_wrap R v)])"
  by (simp add: k_delete_def)

lemma run_k_patch [run_simps]:
  "run_state (k_patch R S old v) t =
     (decode R (sv_patch S t (rk_wrap R old) (rk_wrap R v)), t @ [CPatch (rk_wrap R old) (rk_wrap R v)])"
  by (simp add: k_patch_def)

lemma run_k_status_patch [run_simps]:
  "run_state (k_status_patch R S old v) t =
     (decode R (sv_status_patch S t (rk_wrap R old) (rk_wrap R v)), t @ [CStatusPatch (rk_wrap R old) (rk_wrap R v)])"
  by (simp add: k_status_patch_def)

lemma run_k_new_helper [run_simps]:
  "run_state (k_new_helper R S v) t = (sv_new_helper S t (rk_wrap R v), t @ [CNewHelper (rk_wrap R v)])"
  by (simp add: k_new_helper_def)

lemma run_k_helper_patch [run_simps]:
  "run_state (k_helper_patch R S before v) t =
     (sv_helper S t (rk_wrap R before) (rk_wrap R v), t @ [CHelper (rk_wrap R before) (rk_wrap R v)])"
  by (simp add: k_helper_patch_def)

lemma run_k_get [run_simps]:
  "run_state (k_get R S key) t = (decode R (sv_get S t (rk_kind R) key), t @ [CGet (rk_kind R) key])"
  by (simp add: k_get_def)

lemma run_k_list [run_simps]:
  "run_state (k_list R S opts) t =
     (decode_list R (sv_list S t (rk_kind R) opts), t @ [CList (rk_kind R) opts])"
  by (simp add: k_list_def)

lemma run_k_review [run_simps]:
  "run_state (k_review S review) t = (sv_review S t review, t @ [CReview review])"
  by (simp add: k_review_def)

lemma run_k_now [run_simps]: "run_state (k_now S) t = (sv_now S t, t @ [CNow])"
  by (simp add: k_now_def)

lemma run_create_or_patch_any:
  "run_state (create_or_patch R S v mutate) t =
     (case decode R (sv_fetch S t (rk_wrap R v)) of
        Inl e \<Rightarrow> (Fail e, t @ [CFetch (rk_wrap R v)])
      | Inr current \<Rightarrow>
          (case run_state (mutate current) (t @ [CFetch (rk_wrap R v)]) of
             (Ret desired, t') \<Rightarrow>
               (go_of_sum (decode R (sv_commit S t' (rk_wrap R current) (rk_wrap R desired))),
                t' @ [CCommit (rk_wrap R current) (rk_wrap R desired)])
           | (Fail e, t') \<Rightarrow> (Fail e, t')
           | (Panic, t') \<Rightarrow> (Panic, t')))"
  by (simp add: create_or_patch_def split: sum.split prod.split go.split)

lemma read_only_simps [simp]:
  "read_only []" "read_only (c # cs) = (\<not> is_write c \<and> read_only cs)" "read_only (cs @ ds) = (read_only cs \<and> read_only ds)"
  by (simp_all add: read_only_def)

subsection \<open>Calls justified by earlier ones\<close>

lemma calls_ok_client [calls_ok_intros]:
  "J t (CGet (rk_kind R) key) \<Longrightarrow> calls_ok J t (k_get R S key)"
  "J t (CList (rk_kind R) opts) \<Longrightarrow> calls_ok J t (k_list R S opts)"
  "J t (CCreate (rk_wrap R v)) \<Longrightarrow> calls_ok J t (k_create R S v)"
  "J t (CDelete (rk_wrap R v)) \<Longrightarrow> calls_ok J t (k_delete R S v)"
  "J t (CPatch (rk_wrap R u) (rk_wrap R v)) \<Longrightarrow> calls_ok J t (k_patch R S u v)"
  "J t (CStatusPatch (rk_wrap R u) (rk_wrap R v)) \<Longrightarrow> calls_ok J t (k_status_patch R S u v)"
  "J t (CNewHelper (rk_wrap R v)) \<Longrightarrow> calls_ok J t (k_new_helper R S v)"
  "J t (CHelper (rk_wrap R u) (rk_wrap R v)) \<Longrightarrow> calls_ok J t (k_helper_patch R S u v)"
  "J t (CReview review) \<Longrightarrow> calls_ok J t (k_review S review)"
  "J t CNow \<Longrightarrow> calls_ok J t (k_now S)"
  by (rule calls_okI [where new = "[_]"], simp add: run_simps, simp add: Cons_eq_append_conv)+

lemma calls_ok_try [calls_ok_intros]:
  "calls_ok J t m \<Longrightarrow> calls_ok J t (try_call m)"
  "calls_ok J t d \<Longrightarrow> calls_ok J t (try_delete d)"
  by (simp_all add: calls_ok_def run_simps)

lemma calls_ok_create_or_patch:
  assumes "J t (CFetch (rk_wrap R v))"
    and "\<And>current t'. decode R (sv_fetch S t (rk_wrap R v)) = Inr current \<Longrightarrow> t' = t @ [CFetch (rk_wrap R v)] \<Longrightarrow> calls_ok J t' (mutate current)"
    and "\<And>current desired t'. decode R (sv_fetch S t (rk_wrap R v)) = Inr current \<Longrightarrow>
      run_state (mutate current) (t @ [CFetch (rk_wrap R v)]) = (Ret desired, t') \<Longrightarrow>
      J t' (CCommit (rk_wrap R current) (rk_wrap R desired))"
  shows "calls_ok J t (create_or_patch R S v mutate)"
  unfolding create_or_patch_def
  by (intro calls_ok_bind calls_ok_intros assms(1)) (auto intro!: assms(2,3) calls_ok_perform)

end
