(* ===== verification/Apiutil.thy ===== *)
theory Apiutil
  imports Client
begin

text \<open>
  \<open>api/apiutil/apiutil.go\<close>: looking up owners through labels and owner references, the searches
  for features, releases, templates and organizations, the access review every handler asks for,
  the error filters, expiration and readiness, and the list of workload references.

  Library functions the file calls are fields of \<open>api_lib\<close>: \<open>schema.ParseGroupVersion\<close>,
  \<open>TypedObjectReference.String\<close> and \<open>meta.IsStatusConditionTrue\<close>.
\<close>

record api_lib =
  lib_parse_group_version :: "string \<Rightarrow> goerr + string \<times> string"
  lib_ref_string :: "typed_ref \<Rightarrow> string"
  lib_is_status_condition_true :: "condition list \<Rightarrow> string \<Rightarrow> bool"

subsection \<open>Owners\<close>

fun find_owner_loop :: "api_lib \<Rightarrow> string \<Rightarrow> owner_ref list \<Rightarrow> goerr + owner_ref option" where
  "find_owner_loop L kind [] = Inr None"
| "find_owner_loop L kind (r # rs) =
     (if or_kind r \<noteq> kind then find_owner_loop L kind rs
      else (case lib_parse_group_version L (or_api_version r) of
              Inl e \<Rightarrow> Inl e
            | Inr (gr, version) \<Rightarrow>
                if gr = GroupVersion_Group then Inr (Some r) else find_owner_loop L kind rs))"

definition FindOwnerReference :: "api_lib \<Rightarrow> object_meta \<Rightarrow> string \<Rightarrow> goerr + owner_ref" where
  "FindOwnerReference L m kind =
     (case find_owner_loop L kind (om_owner_references m) of
        Inl e \<Rightarrow> Inl e
      | Inr (Some r) \<Rightarrow> Inr r
      | Inr None \<Rightarrow> Inl (StatusErr NotFound (Some []) (''could not find owner for '' @ om_name m)))"

definition getOwnerSlow ::
  "'o resource_type \<Rightarrow> string \<Rightarrow> api_lib \<Rightarrow> server \<Rightarrow> object_meta \<Rightarrow> (trace, goerr + 'o) state"
where
  "getOwnerSlow R kind L S m =
     (case FindOwnerReference L m kind of
        Inl e \<Rightarrow> ret (Inl e)
      | Inr r \<Rightarrow> k_get R S \<lparr>ok_namespace = [], ok_name = or_name r\<rparr>)"

definition getOwner ::
  "'o resource_type \<Rightarrow> string \<Rightarrow> string \<Rightarrow> api_lib \<Rightarrow> server \<Rightarrow> object_meta \<Rightarrow> (trace, goerr + 'o) state"
where
  "getOwner R kind owner_label L S m =
     (let owner_name = map_str (om_labels m) owner_label in
      if owner_name = [] then getOwnerSlow R kind L S m
      else do {
        r \<leftarrow> k_get R S \<lparr>ok_namespace = om_namespace m, ok_name = owner_name\<rparr>;
        case r of
          Inl e \<Rightarrow> getOwnerSlow R kind L S m
        | Inr owner \<Rightarrow> ret (Inr owner)
      })"

definition GetOwnerOrganization :: "api_lib \<Rightarrow> server \<Rightarrow> object_meta \<Rightarrow> (trace, goerr + organization) state" where
  "GetOwnerOrganization = getOwner R_organization OrganizationKind LabelOrganizationName"

definition GetOwnerCluster :: "api_lib \<Rightarrow> server \<Rightarrow> object_meta \<Rightarrow> (trace, goerr + cluster) state" where
  "GetOwnerCluster = getOwner R_cluster ClusterKind LabelClusterName"

definition GetOwnerNodePool :: "api_lib \<Rightarrow> server \<Rightarrow> object_meta \<Rightarrow> (trace, goerr + node_pool) state" where
  "GetOwnerNodePool = getOwner R_node_pool NodePoolKind LabelNodePoolName"

definition GetOwnerDeployment :: "api_lib \<Rightarrow> server \<Rightarrow> object_meta \<Rightarrow> (trace, goerr + deployment) state" where
  "GetOwnerDeployment = getOwner R_deployment DeploymentKind LabelDeploymentName"

definition GetOwnerHelmDeployment ::
  "api_lib \<Rightarrow> server \<Rightarrow> object_meta \<Rightarrow> (trace, goerr + helm_deployment) state"
where
  "GetOwnerHelmDeployment = getOwner R_helm_deployment HelmDeploymentKind LabelHelmDeploymentName"

definition GetOwnerKustomizeDeployment ::
  "api_lib \<Rightarrow> server \<Rightarrow> object_meta \<Rightarrow> (trace, goerr + kustomize_deployment) state"
where
  "GetOwnerKustomizeDeployment =
     getOwner R_kustomize_deployment KustomizeDeploymentKind LabelKustomizeDeploymentName"

definition GetOwnerContainerImageDeployment ::
  "api_lib \<Rightarrow> server \<Rightarrow> object_meta \<Rightarrow> (trace, goerr + container_image_deployment) state"
where
  "GetOwnerContainerImageDeployment =
     getOwner R_container_image_deployment ContainerImageDeploymentKind LabelContainerImageDeployment"

definition GetOwnerWorkload :: "api_lib \<Rightarrow> server \<Rightarrow> object_meta \<Rightarrow> (trace, goerr + workload) state" where
  "GetOwnerWorkload = getOwner R_workload WorkloadKind LabelWorkloadName"

subsection \<open>Searches\<close>

fun feature_loop :: "string \<Rightarrow> feature list \<Rightarrow> bool" where
  "feature_loop n [] = False"
| "feature_loop n (f # fs) = (if om_name (feature_meta f) = n then True else feature_loop n fs)"

definition IsFeatureEnabled :: "server \<Rightarrow> string \<Rightarrow> string \<Rightarrow> (trace, goerr + bool) state" where
  "IsFeatureEnabled S feature_name ns = do {
     r \<leftarrow> k_list R_feature S (in_namespace ns);
     case r of
       Inl e \<Rightarrow> ret (Inl e)
     | Inr features \<Rightarrow> ret (Inr (feature_loop feature_name features))
   }"

fun namespace_organization_loop :: "string \<Rightarrow> organization list \<Rightarrow> organization option" where
  "namespace_organization_loop ns [] = None"
| "namespace_organization_loop ns (v # vs) =
     (case os_namespace_ref (organization_spec v) of
        None \<Rightarrow> namespace_organization_loop ns vs
      | Some ref \<Rightarrow> if ref = ns then Some v else namespace_organization_loop ns vs)"

definition GetNamespaceOrganization ::
  "server \<Rightarrow> string \<Rightarrow> (trace, goerr + organization option) state"
where
  "GetNamespaceOrganization S ns = do {
     r \<leftarrow> k_list R_organization S list_all_opts;
     case r of
       Inl e \<Rightarrow> ret (Inl e)
     | Inr organizations \<Rightarrow> ret (Inr (namespace_organization_loop ns organizations))
   }"

fun organization_by_ref_loop :: "string \<Rightarrow> organization list \<Rightarrow> organization option" where
  "organization_by_ref_loop ns [] = None"
| "organization_by_ref_loop ns (v # vs) =
     (if os_namespace_ref (organization_spec v) = None then organization_by_ref_loop ns vs
      else if os_namespace_ref (organization_spec v) \<noteq> Some ns then organization_by_ref_loop ns vs
      else Some v)"

definition GetOrganizationByNamespaceRef ::
  "server \<Rightarrow> string \<Rightarrow> (trace, goerr + organization) state"
where
  "GetOrganizationByNamespaceRef S ns = do {
     r \<leftarrow> k_list R_organization S list_all_opts;
     case r of
       Inl e \<Rightarrow> ret (Inl e)
     | Inr organizations \<Rightarrow>
         (case organization_by_ref_loop ns organizations of
            Some v \<Rightarrow> ret (Inr v)
          | None \<Rightarrow> ret (Inl (StatusErr NotFound (Some [])
                                (''could not find organization referencing namespace '' @ ns))))
   }"

fun default_release_loop :: "string \<Rightarrow> release list \<Rightarrow> release option" where
  "default_release_loop ty [] = None"
| "default_release_loop ty (r # rs) =
     (if rls_type (release_spec r) \<noteq> ty then default_release_loop ty rs
      else if map_has (om_annotations (release_meta r)) AnnotationDefaultRelease then Some r
      else default_release_loop ty rs)"

definition GetDefaultRelease :: "server \<Rightarrow> string \<Rightarrow> (trace, goerr + release option) state" where
  "GetDefaultRelease S ty = do {
     r \<leftarrow> k_list R_release S list_all_opts;
     case r of
       Inl e \<Rightarrow> ret (Inl e)
     | Inr releases \<Rightarrow> ret (Inr (default_release_loop ty releases))
   }"

fun default_template_loop :: "cluster_template list \<Rightarrow> cluster_template option" where
  "default_template_loop [] = None"
| "default_template_loop (t # ts) =
     (if map_has (om_annotations (cluster_template_meta t)) AnnotationDefaultTemplate then Some t
      else default_template_loop ts)"

definition GetDefaultClusterTemplate :: "server \<Rightarrow> (trace, goerr + cluster_template option) state" where
  "GetDefaultClusterTemplate S = do {
     r \<leftarrow> k_list R_cluster_template S list_all_opts;
     case r of
       Inl e \<Rightarrow> ret (Inl e)
     | Inr templates \<Rightarrow> ret (Inr (default_template_loop templates))
   }"

subsection \<open>Access review, errors, expiration, readiness\<close>

definition IsSubjectAllowed ::
  "server \<Rightarrow> string \<Rightarrow> resource_attributes \<Rightarrow> (trace, goerr + bool) state"
where
  "IsSubjectAllowed S subject attributes = do {
     r \<leftarrow> k_review S \<lparr>sar_user = subject, sar_groups = [''dockyards:authenticated''],
                      sar_attributes = attributes\<rparr>;
     case r of
       Inl e \<Rightarrow> ret (Inl e)
     | Inr allowed \<Rightarrow> ret (Inr allowed)
   }"

definition IgnoreConflict :: "goerr option \<Rightarrow> goerr option" where
  "IgnoreConflict err = (if err_is Conflict err then None else err)"

definition IgnoreForbidden :: "goerr option \<Rightarrow> goerr option" where
  "IgnoreForbidden err = (if err_is Forbidden err then None else err)"

definition IgnoreInternalError :: "goerr option \<Rightarrow> goerr option" where
  "IgnoreInternalError err = (if err_is InternalError err then None else err)"

definition IgnoreIsInvalid :: "goerr option \<Rightarrow> goerr option" where
  "IgnoreIsInvalid err = (if err_is Invalid err then None else err)"

definition IgnoreClientError :: "goerr option \<Rightarrow> goerr option" where
  "IgnoreClientError err =
     (if err_is Invalid err then None
      else if err_is Conflict err then None
      else if err_is AlreadyExists err then None
      else err)"

definition HasExpired :: "server \<Rightarrow> gotime option \<Rightarrow> (trace, bool) state" where
  "HasExpired S expiration =
     (case expiration of
        None \<Rightarrow> ret False
      | Some e \<Rightarrow> do {
          now \<leftarrow> k_now S;
          if now > e then ret True else ret False
        })"

definition IsReady :: "api_lib \<Rightarrow> condition list \<Rightarrow> bool" where
  "IsReady L conditions = lib_is_status_condition_true L conditions ReadyCondition"

subsection \<open>Workload references\<close>

text \<open>\<open>FindWorkloadReference\<close> returns a pointer into the slice: the index of the element.\<close>

fun FindWorkloadReference :: "api_lib \<Rightarrow> workload_reference list \<Rightarrow> workload_reference \<Rightarrow> nat option" where
  "FindWorkloadReference L [] r = None"
| "FindWorkloadReference L (x # xs) r =
     (if lib_ref_string L (wr_ref x) \<noteq> lib_ref_string L (wr_ref r)
      then map_option Suc (FindWorkloadReference L xs r)
      else Some 0)"

fun compare_strings :: "string \<Rightarrow> string \<Rightarrow> int" where
  "compare_strings [] [] = 0"
| "compare_strings [] (d # ds) = -1"
| "compare_strings (c # cs) [] = 1"
| "compare_strings (c # cs) (d # ds) =
     (if (of_char c :: nat) < of_char d then -1
      else if (of_char d :: nat) < of_char c then 1
      else compare_strings cs ds)"

fun slices_Compare :: "string list \<Rightarrow> string list \<Rightarrow> int" where
  "slices_Compare [] [] = 0"
| "slices_Compare [] (y # ys) = -1"
| "slices_Compare (x # xs) [] = 1"
| "slices_Compare (x # xs) (y # ys) =
     (if compare_strings x y \<noteq> 0 then compare_strings x y else slices_Compare xs ys)"

definition SetWorkloadReference ::
  "api_lib \<Rightarrow> workload_reference list \<Rightarrow> workload_reference \<Rightarrow> workload_reference list \<times> bool"
where
  "SetWorkloadReference L refs new =
     (case FindWorkloadReference L refs new of
        None \<Rightarrow> (refs @ [new], True)
      | Some i \<Rightarrow>
          if slices_Compare (wr_urls (refs ! i)) (wr_urls new) \<noteq> 0
          then (refs[i := (refs ! i)\<lparr>wr_urls := wr_urls new\<rparr>], True)
          else (refs, False))"


subsection \<open>Loops that return the first match\<close>

text \<open>
  The searches are loops that return as soon as an element satisfies a test. A loop with these two
  equations finds exactly what \<open>find\<close> does; the laws are discharged for every search of the file.
\<close>

lemma first_split_Cons:
  assumes "P x" and "\<not> Q x"
  shows "(\<exists>pre post. x # xs = pre @ y # post \<and> Q y \<and> list_all P pre) \<longleftrightarrow>
         (\<exists>pre post. xs = pre @ y # post \<and> Q y \<and> list_all P pre)" (is "?L \<longleftrightarrow> ?R")
proof
  assume ?L
  with assms show ?R by (auto simp: Cons_eq_append_conv)
next
  assume ?R
  then obtain pre post where "xs = pre @ y # post" "Q y" "list_all P pre" by blast
  with assms show ?L by (intro exI [of _ "x # pre"] exI [of _ post]) simp
qed

locale first_match =
  fixes loop :: "'a list \<Rightarrow> 'a option" and test :: "'a \<Rightarrow> bool"
  assumes loop_Nil: "loop [] = None"
    and loop_Cons: "loop (x # xs) = (if test x then Some x else loop xs)"
begin

lemma loop_find: "loop xs = find test xs"
  by (induction xs) (simp_all add: loop_Nil loop_Cons)

lemma loop_Some_iff:
  "loop xs = Some x \<longleftrightarrow>
     (\<exists>pre post. xs = pre @ x # post \<and> test x \<and> list_all (\<lambda>y. \<not> test y) pre)"
proof (induction xs)
  case (Cons y ys)
  show ?case
  proof (cases "test y")
    case True
    then show ?thesis by (auto simp: loop_Cons Cons_eq_append_conv)
  next
    case False
    then show ?thesis
      using first_split_Cons [of "\<lambda>y. \<not> test y" y test ys x] Cons.IH by (simp add: loop_Cons)
  qed
qed (simp add: loop_Nil)

lemma loop_None_iff: "loop xs = None \<longleftrightarrow> filter test xs = []"
  by (induction xs) (simp_all add: loop_Nil loop_Cons)

lemma loop_sound: "loop xs = Some x \<Longrightarrow> x \<in> set xs \<and> test x"
  by (auto simp: loop_Some_iff)

end

definition is_default_release :: "string \<Rightarrow> release \<Rightarrow> bool" where
  "is_default_release ty r =
     (rls_type (release_spec r) = ty \<and> map_has (om_annotations (release_meta r)) AnnotationDefaultRelease)"

definition references_namespace :: "string \<Rightarrow> organization \<Rightarrow> bool" where
  "references_namespace ns v = (os_namespace_ref (organization_spec v) = Some ns)"

interpretation namespace_search: first_match "namespace_organization_loop ns" "references_namespace ns"
  for ns by unfold_locales (auto simp: references_namespace_def split: option.split)

interpretation by_ref_search: first_match "organization_by_ref_loop ns" "references_namespace ns"
  for ns by unfold_locales (auto simp: references_namespace_def)

interpretation release_search: first_match "default_release_loop ty" "is_default_release ty"
  for ty by unfold_locales (auto simp: is_default_release_def)

interpretation template_search: first_match default_template_loop
  "\<lambda>t. map_has (om_annotations (cluster_template_meta t)) AnnotationDefaultTemplate"
  by unfold_locales auto

lemma feature_loop_iff: "feature_loop n fs \<longleftrightarrow> n \<in> (\<lambda>f. om_name (feature_meta f)) ` set fs"
  by (induction fs) auto

subsection \<open>Lemmas on owners\<close>

definition owned_by_reference :: "api_lib \<Rightarrow> string \<Rightarrow> owner_ref \<Rightarrow> bool" where
  "owned_by_reference L kind r =
     (or_kind r = kind \<and>
      (case lib_parse_group_version L (or_api_version r) of
         Inl e \<Rightarrow> False | Inr (g, v) \<Rightarrow> g = GroupVersion_Group))"

definition skipped_reference :: "api_lib \<Rightarrow> string \<Rightarrow> owner_ref \<Rightarrow> bool" where
  "skipped_reference L kind r =
     (or_kind r \<noteq> kind \<or>
      (case lib_parse_group_version L (or_api_version r) of
         Inl e \<Rightarrow> False | Inr (g, v) \<Rightarrow> g \<noteq> GroupVersion_Group))"

lemma find_owner_loop_Some_iff:
  "find_owner_loop L kind rs = Inr (Some r) \<longleftrightarrow>
     (\<exists>pre post. rs = pre @ r # post \<and> owned_by_reference L kind r
                 \<and> list_all (skipped_reference L kind) pre)"
proof (induction rs)
  case (Cons x rs)
  show ?case
  proof (cases "skipped_reference L kind x")
    case True
    then have "\<not> owned_by_reference L kind x"
      and "find_owner_loop L kind (x # rs) = find_owner_loop L kind rs"
      by (auto simp: skipped_reference_def owned_by_reference_def split: sum.splits)
    then show ?thesis
      using first_split_Cons [of "skipped_reference L kind" x "owned_by_reference L kind" rs r] True Cons.IH
      by simp
  next
    case False
    then show ?thesis
      by (auto simp: Cons_eq_append_conv skipped_reference_def owned_by_reference_def split: sum.splits)
  qed
qed simp

lemma getOwnerSlow_emits [appends_intros]:
  "(\<And>key. P (CGet (rk_kind R) key)) \<Longrightarrow> emits P (getOwnerSlow R kind L S m)"
  unfolding getOwnerSlow_def by (intro appends_intros)

lemma getOwner_emits [appends_intros]:
  "(\<And>key. P (CGet (rk_kind R) key)) \<Longrightarrow> emits P (getOwner R kind label L S m)"
  unfolding getOwner_def by (intro appends_intros)

lemma run_getOwnerSlow [run_simps]:
  "run_state (getOwnerSlow R kind L S m) t =
     (case FindOwnerReference L m kind of
        Inl e \<Rightarrow> (Inl e, t)
      | Inr r \<Rightarrow> (decode R (sv_get S t (rk_kind R) \<lparr>ok_namespace = [], ok_name = or_name r\<rparr>),
                  t @ [CGet (rk_kind R) \<lparr>ok_namespace = [], ok_name = or_name r\<rparr>]))"
  by (simp add: getOwnerSlow_def run_k_get split: sum.split)

lemma run_getOwner_labelled:
  assumes "map_str (om_labels m) owner_label = n" and "n \<noteq> []"
    and "decode R (sv_get S t (rk_kind R) \<lparr>ok_namespace = om_namespace m, ok_name = n\<rparr>) = Inr v"
  shows "run_state (getOwner R kind owner_label L S m) t =
           (Inr v, t @ [CGet (rk_kind R) \<lparr>ok_namespace = om_namespace m, ok_name = n\<rparr>])"
  using assms by (simp add: getOwner_def run_k_get)

lemma run_getOwner_unlabelled:
  assumes "map_str (om_labels m) owner_label = []"
  shows "getOwner R kind owner_label L S m = getOwnerSlow R kind L S m"
  using assms by (simp add: getOwner_def)

lemma run_IsSubjectAllowed [run_simps]:
  "run_state (IsSubjectAllowed S subject attributes) t =
     (sv_review S t \<lparr>sar_user = subject, sar_groups = [''dockyards:authenticated''], sar_attributes = attributes\<rparr>,
      t @ [CReview \<lparr>sar_user = subject, sar_groups = [''dockyards:authenticated''], sar_attributes = attributes\<rparr>])"
  by (simp add: IsSubjectAllowed_def run_k_review split: sum.split)

lemma IsSubjectAllowed_emits [appends_intros]:
  assumes "P (CReview \<lparr>sar_user = subject, sar_groups = [''dockyards:authenticated''], sar_attributes = attributes\<rparr>)"
  shows "emits P (IsSubjectAllowed S subject attributes)"
  unfolding IsSubjectAllowed_def using assms by (intro appends_intros)

lemma HasExpired_emits [appends_intros]: "P CNow \<Longrightarrow> emits P (HasExpired S e)"
  unfolding HasExpired_def by (intro appends_intros)

lemma run_HasExpired [run_simps]:
  "run_state (HasExpired S expiration) t =
     (case expiration of None \<Rightarrow> (False, t) | Some e \<Rightarrow> (e < sv_now S t, t @ [CNow]))"
  by (simp add: HasExpired_def run_k_now split: option.split)

lemma IgnoreClientError_None_iff:
  "IgnoreClientError err = None \<longleftrightarrow>
     err = None \<or> err_is Invalid err \<or> err_is Conflict err \<or> err_is AlreadyExists err"
  by (auto simp: IgnoreClientError_def)

lemma IgnoreClientError_Some: "IgnoreClientError err = Some e \<Longrightarrow> err = Some e"
  by (auto simp: IgnoreClientError_def split: if_splits)

context expirable
begin

lemma has_expired_iff:
  "fst (run_state (HasExpired S (get_expiration v)) t) \<longleftrightarrow>
     (\<exists>d. duration v = Some d \<and> creation v + d < sv_now S t)"
  by (auto simp: run_HasExpired expiration_law split: option.splits)

lemma no_duration_never_expires:
  "duration v = None \<Longrightarrow> run_state (HasExpired S (get_expiration v)) t = (False, t)"
  by (simp add: run_HasExpired expiration_law)

end

subsection \<open>Lemmas on workload references\<close>

lemma compare_strings_zero [simp]: "compare_strings a b = 0 \<longleftrightarrow> a = b"
  by (induction a b rule: compare_strings.induct) (auto simp: nat_neq_iff)

lemma slices_Compare_zero [simp]: "slices_Compare xs ys = 0 \<longleftrightarrow> xs = ys"
  by (induction xs ys rule: slices_Compare.induct) auto

definition ref_key :: "api_lib \<Rightarrow> workload_reference \<Rightarrow> string" where
  "ref_key L r = lib_ref_string L (wr_ref r)"

text \<open>The list read as a finite map from printed references to URLs.\<close>

definition ref_urls :: "api_lib \<Rightarrow> workload_reference list \<Rightarrow> string \<rightharpoonup> string list" where
  "ref_urls L refs = map_of (map (\<lambda>r. (ref_key L r, wr_urls r)) refs)"

lemma FindWorkloadReference_None:
  "FindWorkloadReference L refs r = None \<longleftrightarrow> ref_key L r \<notin> ref_key L ` set refs"
  by (induction refs) (auto simp: ref_key_def)

lemma FindWorkloadReference_Some:
  assumes "FindWorkloadReference L refs r = Some i"
  shows "i < length refs \<and> ref_key L (refs ! i) = ref_key L r \<and>
         ref_urls L refs (ref_key L r) = Some (wr_urls (refs ! i))"
  using assms
proof (induction refs arbitrary: i)
  case (Cons x xs)
  then show ?case
    by (cases i) (auto simp: ref_key_def ref_urls_def split: if_splits)
qed simp

lemma ref_urls_append_new:
  "FindWorkloadReference L refs new = None \<Longrightarrow>
   ref_urls L (refs @ [new]) = (ref_urls L refs)(ref_key L new \<mapsto> wr_urls new)"
  by (induction refs) (auto simp: ref_urls_def ref_key_def fun_upd_twist split: if_splits)

lemma ref_urls_update:
  assumes "FindWorkloadReference L refs new = Some i"
  shows "ref_urls L (refs[i := (refs ! i)\<lparr>wr_urls := u\<rparr>]) = (ref_urls L refs)(ref_key L new \<mapsto> u)"
  using assms
proof (induction refs arbitrary: i)
  case (Cons x xs)
  then show ?case
    by (cases i) (auto simp: ref_key_def ref_urls_def fun_upd_twist split: if_splits)
qed simp

lemma ref_keys_update:
  "map (ref_key L) (refs[i := (refs ! i)\<lparr>wr_urls := u\<rparr>]) = map (ref_key L) refs"
proof (cases "i < length refs")
  case True
  then show ?thesis
    by (intro nth_equalityI) (auto simp: nth_list_update ref_key_def)
qed (simp add: list_update_beyond)

lemma FindWorkloadReference_complete:
  "FindWorkloadReference L refs r = None \<Longrightarrow> ref_urls L refs (ref_key L r) = None"
  by (auto simp: FindWorkloadReference_None ref_urls_def map_of_eq_None_iff)

subsection \<open>Properties\<close>

text \<open>\<open>FindOwnerReference\<close> returns the first owner reference of the requested kind whose API
  version belongs to the group \<open>dockyards.io\<close>: every earlier reference is of another kind or parses
  to another group (an earlier reference of the kind that does not parse stops the search with its
  error instead).\<close>

theorem FindOwnerReference_first:
  "FindOwnerReference L m kind = Inr r \<longleftrightarrow>
     (\<exists>pre post. om_owner_references m = pre @ r # post \<and> owned_by_reference L kind r
                 \<and> list_all (skipped_reference L kind) pre)"
proof -
  have "FindOwnerReference L m kind = Inr r \<longleftrightarrow>
          find_owner_loop L kind (om_owner_references m) = Inr (Some r)"
    by (simp add: FindOwnerReference_def split: sum.split option.split)
  then show ?thesis by (simp only: find_owner_loop_Some_iff)
qed

text \<open>The owner lookup of a namespaced kind through an owner reference asks the server for the
  empty namespace. On a server where no cluster is found there, which is every server that keeps
  clusters in namespaces, \<open>GetOwnerCluster\<close> fails for every object without the cluster label, with
  or without a correct owner reference.\<close>

theorem GetOwnerCluster_needs_label:
  assumes "\<And>t n. \<exists>e. sv_get S t ACluster \<lparr>ok_namespace = [], ok_name = n\<rparr> = Inl e"
    and "map_str (om_labels m) LabelClusterName = []"
  shows "\<exists>e. fst (run_state (GetOwnerCluster L S m) t) = Inl e"
proof -
  have kind: "rk_kind R_cluster = ACluster" by (simp add: R_cluster_def)
  show ?thesis
  proof (cases "FindOwnerReference L m ClusterKind")
    case (Inl e)
    with assms(2) show ?thesis
      by (simp add: GetOwnerCluster_def run_getOwner_unlabelled run_getOwnerSlow)
  next
    case (Inr r)
    moreover obtain e where "sv_get S t ACluster \<lparr>ok_namespace = [], ok_name = or_name r\<rparr> = Inl e"
      using assms(1) by blast
    ultimately show ?thesis
      using assms(2) kind by (simp add: GetOwnerCluster_def run_getOwner_unlabelled run_getOwnerSlow decode_def)
  qed
qed

definition namespaced_server :: server where
  "namespaced_server = empty_server\<lparr>sv_get := \<lambda>t k key.
     if k = ACluster \<and> ok_namespace key \<noteq> [] then Inr (KCluster zero_cluster)
     else Inl (StatusErr NotFound None ''not found'')\<rparr>"

definition plain_lib :: api_lib where
  "plain_lib = \<lparr>lib_parse_group_version = (\<lambda>s. Inr (''dockyards.io'', ''v1alpha3'')),
     lib_ref_string = tr_name,
     lib_is_status_condition_true = (\<lambda>cs ty. list_ex (\<lambda>c. c_type c = ty \<and> c_status c = ''True'') cs)\<rparr>"

definition owned_meta :: object_meta where
  "owned_meta = empty_meta\<lparr>om_namespace := ''ns'', om_owner_references := [\<lparr>
     or_api_version = ''dockyards.io/v1alpha3'', or_kind = ''Cluster'', or_name = ''c'', or_uid = ''u'',
     or_controller = None, or_block_owner_deletion = None\<rparr>]\<rparr>"

lemma GetOwnerCluster_needs_label_witness:
  "(\<exists>e. fst (run_state (GetOwnerCluster plain_lib namespaced_server owned_meta) []) = Inl e)
   \<and> fst (run_state (GetOwnerCluster plain_lib namespaced_server
        (owned_meta\<lparr>om_labels := make_map [(LabelClusterName, ''c'')]\<rparr>)) []) = Inr zero_cluster"
proof
  show "\<exists>e. fst (run_state (GetOwnerCluster plain_lib namespaced_server owned_meta) []) = Inl e"
    by (rule GetOwnerCluster_needs_label)
       (simp_all add: namespaced_server_def owned_meta_def empty_meta_def)
  show "fst (run_state (GetOwnerCluster plain_lib namespaced_server
        (owned_meta\<lparr>om_labels := make_map [(LabelClusterName, ''c'')]\<rparr>)) []) = Inr zero_cluster"
    by (simp add: GetOwnerCluster_def getOwner_def run_k_get decode_def R_cluster_def make_map_def Let_def
        namespaced_server_def owned_meta_def empty_meta_def)
qed

text \<open>C33 \<open>SetWorkloadReference\<close> refines a map update: read as a map from printed references to URLs,
  the list afterwards is the old map with the new reference's URLs stored under its printed form,
  and no other entry changes.\<close>

theorem SetWorkloadReference_refines_update:
  "ref_urls L (fst (SetWorkloadReference L refs new)) = (ref_urls L refs)(ref_key L new \<mapsto> wr_urls new)"
proof (cases "FindWorkloadReference L refs new")
  case None
  then show ?thesis
    by (simp add: SetWorkloadReference_def ref_urls_append_new)
next
  case (Some i)
  show ?thesis
  proof (cases "wr_urls (refs ! i) = wr_urls new")
    case True
    with FindWorkloadReference_Some [OF Some]
    have "ref_urls L refs (ref_key L new) = Some (wr_urls new)" by simp
    then have "(ref_urls L refs)(ref_key L new \<mapsto> wr_urls new) = ref_urls L refs"
      by (rule map_upd_triv)
    with True Some show ?thesis by (simp add: SetWorkloadReference_def)
  next
    case False
    with Some show ?thesis by (simp add: SetWorkloadReference_def ref_urls_update)
  qed
qed

text \<open>\<open>SetWorkloadReference\<close> reports a change exactly when the stored URLs of the reference were
  not already the new ones, leaves the list untouched otherwise, never stores two entries for one
  printed reference, and reports no change when it is applied a second time.\<close>

theorem SetWorkloadReference_change_report:
  "(snd (SetWorkloadReference L refs new) \<longleftrightarrow> ref_urls L refs (ref_key L new) \<noteq> Some (wr_urls new))
   \<and> (snd (SetWorkloadReference L refs new) \<or> fst (SetWorkloadReference L refs new) = refs)
   \<and> distinct (map (ref_key L) (fst (SetWorkloadReference L refs new))) = distinct (map (ref_key L) refs)
   \<and> SetWorkloadReference L (fst (SetWorkloadReference L refs new)) new
       = (fst (SetWorkloadReference L refs new), False)"
proof -
  have changed: "snd (SetWorkloadReference L xs new) \<longleftrightarrow> ref_urls L xs (ref_key L new) \<noteq> Some (wr_urls new)"
    for xs
  proof (cases "FindWorkloadReference L xs new")
    case None
    then show ?thesis
      by (simp add: SetWorkloadReference_def FindWorkloadReference_complete)
  next
    case (Some i)
    with FindWorkloadReference_Some [OF Some] show ?thesis
      by (simp add: SetWorkloadReference_def)
  qed
  have kept: "snd (SetWorkloadReference L xs new) \<or> fst (SetWorkloadReference L xs new) = xs" for xs
    by (simp add: SetWorkloadReference_def split: option.split)
  have upd: "ref_urls L (fst (SetWorkloadReference L refs new)) (ref_key L new) = Some (wr_urls new)"
  proof (cases "FindWorkloadReference L refs new")
    case None
    then show ?thesis
      by (simp add: SetWorkloadReference_def ref_urls_append_new)
  next
    case (Some i)
    then show ?thesis
      using FindWorkloadReference_Some [OF Some] ref_urls_update [OF Some, of "wr_urls new"]
      by (simp add: SetWorkloadReference_def)
  qed
  have dist: "distinct (map (ref_key L) (fst (SetWorkloadReference L refs new))) = distinct (map (ref_key L) refs)"
    by (auto simp: SetWorkloadReference_def ref_keys_update FindWorkloadReference_None split: option.split)
  have again: "SetWorkloadReference L (fst (SetWorkloadReference L refs new)) new
                 = (fst (SetWorkloadReference L refs new), False)"
    using changed [of "fst (SetWorkloadReference L refs new)"] kept upd by (metis prod.collapse)
  show ?thesis
    using changed [of refs] kept [of refs] dist again by simp
qed

text \<open>The two lookups of an organization by its namespace agree: \<open>GetOrganizationByNamespaceRef\<close>
  finds exactly the organization \<open>GetNamespaceOrganization\<close> returns and reports NotFound exactly
  where that returns nil; list errors pass through both.\<close>

theorem organization_lookups_agree:
  "fst (run_state (GetOrganizationByNamespaceRef S ns) t) =
     (case fst (run_state (GetNamespaceOrganization S ns) t) of
        Inl e \<Rightarrow> Inl e
      | Inr (Some v) \<Rightarrow> Inr v
      | Inr None \<Rightarrow> Inl (StatusErr NotFound (Some []) (''could not find organization referencing namespace '' @ ns)))
   \<and> snd (run_state (GetOrganizationByNamespaceRef S ns) t) = snd (run_state (GetNamespaceOrganization S ns) t)"
  by (simp add: GetOrganizationByNamespaceRef_def GetNamespaceOrganization_def run_k_list
      namespace_search.loop_find by_ref_search.loop_find split: sum.split option.split)

text \<open>A cluster, organization, user or invitation counts as expired exactly when it has a duration
  and the server's clock is past its creation time plus that duration.\<close>

theorem resources_expire_after_duration:
  "(fst (run_state (HasExpired S (Cluster_GetExpiration c)) t) \<longleftrightarrow>
      (\<exists>d. cs_duration (cluster_spec c) = Some d \<and> om_creation (cluster_meta c) + d < sv_now S t))
   \<and> (fst (run_state (HasExpired S (Organization_GetExpiration v)) t) \<longleftrightarrow>
      (\<exists>d. os_duration (organization_spec v) = Some d \<and> om_creation (organization_meta v) + d < sv_now S t))
   \<and> (fst (run_state (HasExpired S (User_GetExpiration u)) t) \<longleftrightarrow>
      (\<exists>d. us_duration (user_spec u) = Some d \<and> om_creation (user_meta u) + d < sv_now S t))
   \<and> (fst (run_state (HasExpired S (Invitation_GetExpiration i)) t) \<longleftrightarrow>
      (\<exists>d. is_duration (invitation_spec i) = Some d \<and> om_creation (invitation_meta i) + d < sv_now S t))"
  by (intro conjI cluster_expiry.has_expired_iff organization_expiry.has_expired_iff
      user_expiry.has_expired_iff invitation_expiry.has_expired_iff)

end
