(* ===== verification/Authorization.thy ===== *)
theory Authorization
  imports Apiutil
begin

text \<open>
  \<open>pkg/authorization/authorization.go\<close>: the roles and bindings the backend keeps for the cluster as
  a whole, for an organization, for a member and for a user. Every object is written through
  \<open>CreateOrPatch\<close>; the callback of each call is a definition of its own, named after the function
  and the object it sets. The second half of the file gives the written objects their meaning (the
  documented evaluation of RBAC rules) and states what a member, an organization and a user end up
  being allowed to do.
\<close>

subsection \<open>Constants and shared parts\<close>

definition AggregateRoleName :: string where
  "AggregateRoleName = ''dockyards:authenticated''"

definition LabelAuthenticatedAggregateRole :: string where
  "LabelAuthenticatedAggregateRole = ''rbac.dockyards.io/aggregate-to-authenticated''"

definition rbac_GroupName :: string where
  "rbac_GroupName = ''rbac.authorization.k8s.io''"

definition organization_owner :: "organization \<Rightarrow> owner_ref" where
  "organization_owner v = \<lparr>or_api_version = GroupVersion_String, or_kind = OrganizationKind,
     or_name = om_name (organization_meta v), or_uid = om_uid (organization_meta v),
     or_controller = None, or_block_owner_deletion = None\<rparr>"

definition member_owner :: "member \<Rightarrow> owner_ref" where
  "member_owner m = \<lparr>or_api_version = GroupVersion_String, or_kind = MemberKind,
     or_name = om_name (member_meta m), or_uid = om_uid (member_meta m),
     or_controller = None, or_block_owner_deletion = None\<rparr>"

definition user_subject :: "string \<Rightarrow> rbac_subject" where
  "user_subject n = \<lparr>rs_kind = ''User'', rs_api_group = rbac_GroupName, rs_name = n\<rparr>"

definition named_cluster_role :: "string \<Rightarrow> cluster_role" where
  "named_cluster_role n = \<lparr>cr_meta = empty_meta\<lparr>om_name := n\<rparr>, cr_rules = [], cr_aggregation = None\<rparr>"

definition zero_role_ref :: role_ref where
  "zero_role_ref = \<lparr>rr_api_group = [], rr_kind = [], rr_name = []\<rparr>"

definition named_cluster_role_binding :: "string \<Rightarrow> cluster_role_binding" where
  "named_cluster_role_binding n =
     \<lparr>crb_meta = empty_meta\<lparr>om_name := n\<rparr>, crb_subjects = [], crb_role_ref = zero_role_ref\<rparr>"

definition named_role :: "string \<Rightarrow> string \<Rightarrow> rbac_role" where
  "named_role n ns = \<lparr>ro_meta = empty_meta\<lparr>om_name := n, om_namespace := ns\<rparr>, ro_rules = []\<rparr>"

definition named_role_binding :: "string \<Rightarrow> string \<Rightarrow> role_binding" where
  "named_role_binding n ns =
     \<lparr>rb_meta = empty_meta\<lparr>om_name := n, om_namespace := ns\<rparr>, rb_subjects = [], rb_role_ref = zero_role_ref\<rparr>"

subsection \<open>Organizations\<close>

text \<open>The names of an organization's roles and bindings: \<open>dockyards:<organization>:<suffix>\<close>.\<close>

definition organization_role_name :: "organization \<Rightarrow> string \<Rightarrow> string" where
  "organization_role_name v suffix = ''dockyards:'' @ om_name (organization_meta v) @ suffix"

definition organization_role_mutate ::
  "organization \<Rightarrow> string list \<Rightarrow> string \<Rightarrow> cluster_role \<Rightarrow> (trace, (goerr, cluster_role) go) state"
where
  "organization_role_mutate v verbs resource r = ret (Ret (r\<lparr>
     cr_meta := (cr_meta r)\<lparr>
       om_labels := make_map [(LabelOrganizationName, om_name (organization_meta v))],
       om_owner_references := [organization_owner v]\<rparr>,
     cr_rules := [\<lparr>pr_verbs = verbs, pr_api_groups = [GroupVersion_Group], pr_resources = [resource],
                   pr_resource_names = [om_name (organization_meta v)]\<rparr>]\<rparr>))"

fun super_user_subjects_loop :: "member list \<Rightarrow> rbac_subject list \<Rightarrow> rbac_subject list" where
  "super_user_subjects_loop [] subjects = subjects"
| "super_user_subjects_loop (m # ms) subjects =
     (if ms_role (member_spec m) \<noteq> RoleSuperUser then super_user_subjects_loop ms subjects
      else super_user_subjects_loop ms (subjects @ [user_subject (tl_name (ms_user_ref (member_spec m)))]))"

definition super_user_binding_mutate ::
  "server \<Rightarrow> organization \<Rightarrow> string \<Rightarrow> cluster_role_binding \<Rightarrow> (trace, (goerr, cluster_role_binding) go) state"
where
  "super_user_binding_mutate S v role_name b =
     (let labels = (if om_labels (crb_meta b) = None then make_map [] else om_labels (crb_meta b)) in
      case map_put labels LabelOrganizationName (om_name (organization_meta v)) of
        None \<Rightarrow> ret Panic
      | Some labels' \<Rightarrow>
          (let b' = b\<lparr>crb_meta := (crb_meta b)\<lparr>om_owner_references := [organization_owner v], om_labels := labels'\<rparr>,
                      crb_role_ref := \<lparr>rr_api_group = [], rr_kind = ''ClusterRole'', rr_name = role_name\<rparr>\<rparr> in
           case os_namespace_ref (organization_spec v) of
             None \<Rightarrow> ret Panic
           | Some ns \<Rightarrow> do {
               l \<leftarrow> k_list R_member S (in_namespace ns);
               case l of
                 Inl e \<Rightarrow> ret (Fail e)
               | Inr members \<Rightarrow> ret (Ret (b'\<lparr>crb_subjects := super_user_subjects_loop members []\<rparr>))
             }))"

definition ReconcileOrganizationSuperUserClusterRole ::
  "server \<Rightarrow> organization \<Rightarrow> (trace, (goerr, unit) go) state"
where
  "ReconcileOrganizationSuperUserClusterRole S v =
     go_bind (create_or_patch R_cluster_role S (named_cluster_role (organization_role_name v '':super-user''))
                (organization_role_mutate v [''delete'', ''patch'', ''update''] ''organizations''))
       (\<lambda>role. go_bind
         (create_or_patch R_cluster_role_binding S
            (named_cluster_role_binding (organization_role_name v '':super-users''))
            (super_user_binding_mutate S v (om_name (cr_meta role))))
         (\<lambda>_. ret (Ret ())))"

definition reader_binding_mutate ::
  "server \<Rightarrow> organization \<Rightarrow> string \<Rightarrow> cluster_role_binding \<Rightarrow> (trace, (goerr, cluster_role_binding) go) state"
where
  "reader_binding_mutate S v role_name b =
     (let b' = b\<lparr>crb_meta := (crb_meta b)\<lparr>
                   om_labels := make_map [(LabelOrganizationName, om_name (organization_meta v))],
                   om_owner_references := [organization_owner v]\<rparr>,
                 crb_role_ref := \<lparr>rr_api_group = [], rr_kind = ''ClusterRole'', rr_name = role_name\<rparr>\<rparr> in
      case os_namespace_ref (organization_spec v) of
        None \<Rightarrow> ret Panic
      | Some ns \<Rightarrow> do {
          l \<leftarrow> k_list R_member S (in_namespace ns);
          case l of
            Inl e \<Rightarrow> ret (Fail e)
          | Inr members \<Rightarrow>
              ret (Ret (b'\<lparr>crb_subjects :=
                map (\<lambda>m. user_subject (tl_name (ms_user_ref (member_spec m)))) members\<rparr>))
        })"

definition ReconcileOrganizationReaderClusterRole ::
  "server \<Rightarrow> organization \<Rightarrow> (trace, (goerr, unit) go) state"
where
  "ReconcileOrganizationReaderClusterRole S v =
     go_bind (create_or_patch R_cluster_role S (named_cluster_role (organization_role_name v '':reader''))
                (organization_role_mutate v [''get'', ''list'', ''watch''] ''organizations''))
       (\<lambda>role. go_bind
         (create_or_patch R_cluster_role_binding S
            (named_cluster_role_binding (organization_role_name v '':readers''))
            (reader_binding_mutate S v (om_name (cr_meta role))))
         (\<lambda>_. ret (Ret ())))"

definition other_binding_mutate ::
  "organization \<Rightarrow> string \<Rightarrow> cluster_role_binding \<Rightarrow> (trace, (goerr, cluster_role_binding) go) state"
where
  "other_binding_mutate v role_name b = ret (Ret (b\<lparr>
     crb_meta := (crb_meta b)\<lparr>
       om_labels := make_map [(LabelOrganizationName, om_name (organization_meta v))],
       om_owner_references := [organization_owner v]\<rparr>,
     crb_role_ref := \<lparr>rr_api_group = [], rr_kind = ''ClusterRole'', rr_name = role_name\<rparr>,
     crb_subjects := [\<lparr>rs_kind = ''Group'', rs_api_group = rbac_GroupName, rs_name = ''dockyards:authenticated''\<rparr>]\<rparr>))"

definition ReconcileOtherUserClusterRoleAndBindings ::
  "server \<Rightarrow> organization \<Rightarrow> (trace, (goerr, unit) go) state"
where
  "ReconcileOtherUserClusterRoleAndBindings S v =
     go_bind (create_or_patch R_cluster_role S (named_cluster_role (organization_role_name v '':other''))
                (organization_role_mutate v [''delete'', ''patch''] ''invitations''))
       (\<lambda>role. go_bind
         (create_or_patch R_cluster_role_binding S
            (named_cluster_role_binding (organization_role_name v '':others''))
            (other_binding_mutate v (om_name (cr_meta role))))
         (\<lambda>_. ret (Ret ())))"

definition ReconcileOrganizationAuthorization ::
  "server \<Rightarrow> organization \<Rightarrow> (trace, (goerr, unit) go) state"
where
  "ReconcileOrganizationAuthorization S v =
     go_bind (ReconcileOrganizationSuperUserClusterRole S v) (\<lambda>_.
     go_bind (ReconcileOrganizationReaderClusterRole S v) (\<lambda>_.
     go_bind (ReconcileOtherUserClusterRoleAndBindings S v) (\<lambda>_.
     ret (Ret ()))))"

subsection \<open>The cluster-wide roles\<close>

definition aggregate_mutate :: "cluster_role \<Rightarrow> (trace, (goerr, cluster_role) go) state" where
  "aggregate_mutate r =
     ret (Ret (r\<lparr>cr_aggregation := Some [make_map [(LabelAuthenticatedAggregateRole, ''true'')]]\<rparr>))"

definition reader_rules :: "policy_rule list" where
  "reader_rules = [\<lparr>pr_verbs = [''get'', ''list'', ''watch''], pr_api_groups = [GroupVersion_Group],
     pr_resources = [''clusters'', ''dnszones'', ''invitations'', ''members'', ''nodepools'', ''nodes'', ''workloads''],
     pr_resource_names = []\<rparr>]"

definition user_rules :: "policy_rule list" where
  "user_rules = [\<lparr>pr_verbs = [''create'', ''delete'', ''patch'', ''update''], pr_api_groups = [GroupVersion_Group],
     pr_resources = [''clusters'', ''nodepools'', ''nodes'', ''workloads''],
     pr_resource_names = []\<rparr>]"

definition super_user_rules :: "policy_rule list" where
  "super_user_rules =
     [\<lparr>pr_verbs = [''create'', ''delete''], pr_api_groups = [GroupVersion_Group],
       pr_resources = [''invitations''], pr_resource_names = []\<rparr>,
      \<lparr>pr_verbs = [''delete'', ''patch'', ''update''], pr_api_groups = [GroupVersion_Group],
       pr_resources = [''members''], pr_resource_names = []\<rparr>]"

definition rules_mutate ::
  "policy_rule list \<Rightarrow> cluster_role \<Rightarrow> (trace, (goerr, cluster_role) go) state"
where
  "rules_mutate rules r = ret (Ret (r\<lparr>cr_rules := rules\<rparr>))"

definition ReconcileClusterAuthorization :: "server \<Rightarrow> (trace, (goerr, unit) go) state" where
  "ReconcileClusterAuthorization S =
     go_bind (create_or_patch R_cluster_role S (named_cluster_role AggregateRoleName) aggregate_mutate) (\<lambda>_.
     go_bind (create_or_patch R_cluster_role S (named_cluster_role ''dockyards:reader'')
                (rules_mutate reader_rules)) (\<lambda>_.
     go_bind (create_or_patch R_cluster_role S (named_cluster_role ''dockyards:user'')
                (rules_mutate user_rules)) (\<lambda>_.
     go_bind (create_or_patch R_cluster_role S (named_cluster_role ''dockyards:super-user'')
                (rules_mutate super_user_rules)) (\<lambda>_.
     ret (Ret ())))))"

subsection \<open>Members\<close>

definition member_labels :: "member \<Rightarrow> object_meta \<Rightarrow> object_meta" where
  "member_labels m meta = meta\<lparr>
     om_labels := make_map [(LabelMemberName, om_name (member_meta m))],
     om_owner_references := [member_owner m]\<rparr>"

definition self_role_mutate :: "member \<Rightarrow> rbac_role \<Rightarrow> (trace, (goerr, rbac_role) go) state" where
  "self_role_mutate m r = ret (Ret (r\<lparr>
     ro_meta := member_labels m (ro_meta r),
     ro_rules := [\<lparr>pr_verbs = [''delete''], pr_api_groups = [GroupVersion_Group], pr_resources = [''members''],
                   pr_resource_names = [''@me'', om_name (member_meta m)]\<rparr>]\<rparr>))"

definition member_binding_mutate ::
  "member \<Rightarrow> string \<Rightarrow> string \<Rightarrow> role_binding \<Rightarrow> (trace, (goerr, role_binding) go) state"
where
  "member_binding_mutate m ref_kind ref_name b = ret (Ret (b\<lparr>
     rb_meta := member_labels m (rb_meta b),
     rb_role_ref := \<lparr>rr_api_group = rbac_GroupName, rr_kind = ref_kind, rr_name = ref_name\<rparr>,
     rb_subjects := [user_subject (tl_name (ms_user_ref (member_spec m)))]\<rparr>))"

definition reconcile_member_binding ::
  "server \<Rightarrow> member \<Rightarrow> string \<Rightarrow> string \<Rightarrow> string \<Rightarrow> (trace, (goerr, role_binding) go) state"
where
  "reconcile_member_binding S m suffix ref_kind ref_name =
     create_or_patch R_role_binding S
       (named_role_binding (om_name (member_meta m) @ suffix) (om_namespace (member_meta m)))
       (member_binding_mutate m ref_kind ref_name)"

definition ReconcileMemberAuthorization :: "server \<Rightarrow> member \<Rightarrow> (trace, (goerr, unit) go) state" where
  "ReconcileMemberAuthorization S m =
     go_bind (create_or_patch R_rbac_role S
                (named_role (om_name (member_meta m) @ '':self'') (om_namespace (member_meta m)))
                (self_role_mutate m)) (\<lambda>role.
     go_bind (reconcile_member_binding S m '':self'' ''Role'' (om_name (ro_meta role))) (\<lambda>_.
     go_bind (reconcile_member_binding S m '':reader'' ''ClusterRole'' ''dockyards:reader'') (\<lambda>_.
     if ms_role (member_spec m) = RoleReader then ret (Ret ())
     else go_bind (reconcile_member_binding S m '':user'' ''ClusterRole'' ''dockyards:user'') (\<lambda>_.
     if ms_role (member_spec m) = RoleUser then ret (Ret ())
     else go_bind (reconcile_member_binding S m '':super-user'' ''ClusterRole'' ''dockyards:super-user'') (\<lambda>_.
     ret (Ret ()))))))"

subsection \<open>Users\<close>

definition user_role_mutate :: "user \<Rightarrow> cluster_role \<Rightarrow> (trace, (goerr, cluster_role) go) state" where
  "user_role_mutate u r = ret (Ret (r\<lparr>
     cr_meta := (cr_meta r)\<lparr>om_labels := make_map [(LabelUserName, om_name (user_meta u))]\<rparr>,
     cr_rules := [\<lparr>pr_verbs = [''delete'', ''get'', ''patch'', ''update''], pr_api_groups = [GroupVersion_Group],
                   pr_resources = [''users''], pr_resource_names = [om_name (user_meta u)]\<rparr>]\<rparr>))"

definition user_binding_mutate ::
  "user \<Rightarrow> string \<Rightarrow> cluster_role_binding \<Rightarrow> (trace, (goerr, cluster_role_binding) go) state"
where
  "user_binding_mutate u role_name b = ret (Ret (b\<lparr>
     crb_meta := (crb_meta b)\<lparr>om_labels := make_map [(LabelUserName, om_name (user_meta u))]\<rparr>,
     crb_subjects := [user_subject (om_name (user_meta u))],
     crb_role_ref := \<lparr>rr_api_group = rbac_GroupName, rr_kind = ''ClusterRole'', rr_name = role_name\<rparr>\<rparr>))"

definition ReconcileUserAuthorization :: "server \<Rightarrow> user \<Rightarrow> (trace, (goerr, unit) go) state" where
  "ReconcileUserAuthorization S u =
     go_bind (create_or_patch R_cluster_role S (named_cluster_role (''dockyards:user:'' @ om_name (user_meta u)))
                (user_role_mutate u)) (\<lambda>role.
     go_bind (create_or_patch R_cluster_role_binding S
                (named_cluster_role_binding (''dockyards:user:'' @ om_name (user_meta u)))
                (user_binding_mutate u (om_name (cr_meta role)))) (\<lambda>_.
     ret (Ret ())))"

subsection \<open>What the written objects mean\<close>

text \<open>
  RBAC as Kubernetes documents it: a rule allows a request when verb, API group and resource are
  listed and the rule names no resource or the requested one; a binding gives its subjects the
  rules of the role it refers to. The rules of a cluster role are those last written under its
  name in a sequence of calls.
\<close>

definition rule_allows :: "string \<Rightarrow> string \<Rightarrow> string \<Rightarrow> policy_rule \<Rightarrow> bool" where
  "rule_allows verb res name r =
     (verb \<in> set (pr_verbs r) \<and> GroupVersion_Group \<in> set (pr_api_groups r) \<and> res \<in> set (pr_resources r)
      \<and> (pr_resource_names r = [] \<or> name \<in> set (pr_resource_names r)))"

definition role_step :: "string \<Rightarrow> policy_rule list \<Rightarrow> call \<Rightarrow> policy_rule list" where
  "role_step n acc c =
     (case c of
        CCommit old new \<Rightarrow>
          (case new of
             KClusterRole r \<Rightarrow> if om_name (cr_meta r) = n then cr_rules r else acc
           | _ \<Rightarrow> acc)
      | _ \<Rightarrow> acc)"

definition role_rules :: "trace \<Rightarrow> string \<Rightarrow> policy_rule list" where
  "role_rules t n = foldl (role_step n) [] t"

text \<open>The same for a role of one namespace.\<close>

definition ns_role_step :: "string \<Rightarrow> string \<Rightarrow> policy_rule list \<Rightarrow> call \<Rightarrow> policy_rule list" where
  "ns_role_step ns n acc c =
     (case c of
        CCommit old new \<Rightarrow>
          (case new of
             KRole r \<Rightarrow> if om_namespace (ro_meta r) = ns \<and> om_name (ro_meta r) = n then ro_rules r else acc
           | _ \<Rightarrow> acc)
      | _ \<Rightarrow> acc)"

definition ns_role_rules :: "trace \<Rightarrow> string \<Rightarrow> string \<Rightarrow> policy_rule list" where
  "ns_role_rules t ns n = foldl (ns_role_step ns n) [] t"

text \<open>The role bindings that exist after a sequence of calls: the last one written under each key, less
  the deleted ones.\<close>

definition binding_key :: "role_binding \<Rightarrow> string \<times> string" where
  "binding_key b = (om_namespace (rb_meta b), om_name (rb_meta b))"

definition drop_binding :: "role_binding list \<Rightarrow> role_binding \<Rightarrow> role_binding list" where
  "drop_binding acc b = filter (\<lambda>x. binding_key x \<noteq> binding_key b) acc"

definition binding_step :: "role_binding list \<Rightarrow> call \<Rightarrow> role_binding list" where
  "binding_step acc c =
     (case c of
        CCommit old new \<Rightarrow> (case new of KRoleBinding b \<Rightarrow> b # drop_binding acc b | _ \<Rightarrow> acc)
      | CDelete k \<Rightarrow> (case k of KRoleBinding b \<Rightarrow> drop_binding acc b | _ \<Rightarrow> acc)
      | _ \<Rightarrow> acc)"

definition role_bindings :: "trace \<Rightarrow> role_binding list" where
  "role_bindings t = foldl binding_step [] t"

definition bound_rules :: "trace \<Rightarrow> string \<Rightarrow> string \<Rightarrow> role_binding \<Rightarrow> policy_rule list" where
  "bound_rules t ns user b =
     (if om_namespace (rb_meta b) = ns \<and> user_subject user \<in> set (rb_subjects b)
      then (if rr_kind (rb_role_ref b) = ''ClusterRole'' then role_rules t (rr_name (rb_role_ref b))
            else if rr_kind (rb_role_ref b) = ''Role'' then ns_role_rules t ns (rr_name (rb_role_ref b))
            else [])
      else [])"

definition namespace_allows :: "trace \<Rightarrow> string \<Rightarrow> string \<Rightarrow> string \<Rightarrow> string \<Rightarrow> string \<Rightarrow> bool" where
  "namespace_allows t ns user verb res name =
     list_ex (rule_allows verb res name) (concat (map (bound_rules t ns user) (role_bindings t)))"

text \<open>The same for cluster role bindings.\<close>

definition cluster_binding_step :: "cluster_role_binding list \<Rightarrow> call \<Rightarrow> cluster_role_binding list" where
  "cluster_binding_step acc c =
     (case c of
        CCommit old new \<Rightarrow>
          (case new of
             KClusterRoleBinding b \<Rightarrow> b # filter (\<lambda>x. om_name (crb_meta x) \<noteq> om_name (crb_meta b)) acc
           | _ \<Rightarrow> acc)
      | CDelete k \<Rightarrow>
          (case k of
             KClusterRoleBinding b \<Rightarrow> filter (\<lambda>x. om_name (crb_meta x) \<noteq> om_name (crb_meta b)) acc
           | _ \<Rightarrow> acc)
      | _ \<Rightarrow> acc)"

definition cluster_role_bindings :: "trace \<Rightarrow> cluster_role_binding list" where
  "cluster_role_bindings t = foldl cluster_binding_step [] t"

definition cluster_bound_rules :: "trace \<Rightarrow> rbac_subject \<Rightarrow> cluster_role_binding \<Rightarrow> policy_rule list" where
  "cluster_bound_rules t subject b =
     (if subject \<in> set (crb_subjects b) then role_rules t (rr_name (crb_role_ref b)) else [])"

definition cluster_allows :: "trace \<Rightarrow> rbac_subject \<Rightarrow> string \<Rightarrow> string \<Rightarrow> string \<Rightarrow> bool" where
  "cluster_allows t subject verb res name =
     list_ex (rule_allows verb res name)
       (concat (map (cluster_bound_rules t subject) (cluster_role_bindings t)))"

lemma role_rules_Nil [simp]: "role_rules [] n = []"
  by (simp add: role_rules_def)

lemma role_rules_snoc [simp]: "role_rules (t @ [c]) n = role_step n (role_rules t n) c"
  by (simp add: role_rules_def)

lemma role_rules_append:
  "role_rules (t @ c # cs) n = role_rules ((t @ [c]) @ cs) n"
  by simp

lemma role_step_simps [simp]:
  "role_step n acc (CFetch k) = acc"
  "role_step n acc (CList kd l) = acc"
  "role_step n acc (CCommit old (KClusterRole r)) = (if om_name (cr_meta r) = n then cr_rules r else acc)"
  "role_step n acc (CCommit old (KClusterRoleBinding b)) = acc"
  "role_step n acc (CCommit old (KRole ro)) = acc"
  "role_step n acc (CCommit old (KRoleBinding rb)) = acc"
  by (simp_all add: role_step_def)

lemma ns_role_step_simps [simp]:
  "ns_role_step ns n acc (CFetch k) = acc"
  "ns_role_step ns n acc (CCommit old (KRole r)) =
     (if om_namespace (ro_meta r) = ns \<and> om_name (ro_meta r) = n then ro_rules r else acc)"
  "ns_role_step ns n acc (CCommit old (KRoleBinding rb)) = acc"
  by (simp_all add: ns_role_step_def)

lemma binding_step_simps [simp]:
  "binding_step acc (CFetch k) = acc"
  "binding_step acc (CCommit old (KClusterRole r)) = acc"
  "binding_step acc (CCommit old (KRole ro)) = acc"
  "binding_step acc (CCommit old (KRoleBinding b)) = b # drop_binding acc b"
  by (simp_all add: binding_step_def)

lemma cluster_binding_step_simps [simp]:
  "cluster_binding_step acc (CFetch k) = acc"
  "cluster_binding_step acc (CList kd l) = acc"
  "cluster_binding_step acc (CCommit old (KClusterRole r)) = acc"
  "cluster_binding_step acc (CCommit old (KClusterRoleBinding b)) =
     b # filter (\<lambda>x. om_name (crb_meta x) \<noteq> om_name (crb_meta b)) acc"
  by (simp_all add: cluster_binding_step_def)

lemma user_subject_inject [simp]: "user_subject a = user_subject b \<longleftrightarrow> a = b"
  by (simp add: user_subject_def)

subsection \<open>Existing objects keep their names\<close>

lemma existing_cluster_role_name [simp]:
  "cooperative S \<Longrightarrow> om_name (cr_meta (existing R_cluster_role S t (named_cluster_role n))) = n"
  using cluster_role_resource.existing_wrapped(2) [of S t "named_cluster_role n"]
  by (simp add: key_of_def R_cluster_role_def named_cluster_role_def)

lemma existing_cluster_role_binding_name [simp]:
  "cooperative S \<Longrightarrow>
     om_name (crb_meta (existing R_cluster_role_binding S t (named_cluster_role_binding n))) = n"
  using cluster_role_binding_resource.existing_wrapped(2) [of S t "named_cluster_role_binding n"]
  by (simp add: key_of_def R_cluster_role_binding_def named_cluster_role_binding_def)

lemma existing_role_name [simp]:
  assumes "cooperative S"
  shows "om_name (ro_meta (existing R_rbac_role S t (named_role n ns))) = n"
    and "om_namespace (ro_meta (existing R_rbac_role S t (named_role n ns))) = ns"
  using rbac_role_resource.existing_wrapped(2) [OF assms, of t "named_role n ns"]
  by (simp_all add: key_of_def R_rbac_role_def named_role_def)

lemma existing_role_binding_key [simp]:
  assumes "cooperative S"
  shows "om_name (rb_meta (existing R_role_binding S t (named_role_binding n ns))) = n"
    and "om_namespace (rb_meta (existing R_role_binding S t (named_role_binding n ns))) = ns"
  using role_binding_resource.existing_wrapped(2) [OF assms, of t "named_role_binding n ns"]
  by (simp_all add: key_of_def R_role_binding_def named_role_binding_def)

subsection \<open>One written object at a time\<close>

lemma run_rules_mutate:
  assumes "cooperative S"
  shows "\<exists>old new. run_state (create_or_patch R_cluster_role S (named_cluster_role n) (rules_mutate rules)) t =
           (Ret new, t @ [CFetch (KClusterRole (named_cluster_role n)), CCommit (KClusterRole old) (KClusterRole new)])
         \<and> om_name (cr_meta new) = n \<and> cr_rules new = rules"
  using cluster_role_resource.run_create_or_patch_pure
      [OF assms, of "named_cluster_role n" "\<lambda>r. r\<lparr>cr_rules := rules\<rparr>" t] assms
  by (auto simp: rules_mutate_def [abs_def] R_cluster_role_def [THEN arg_cong, of rk_wrap])

lemma run_aggregate_mutate:
  assumes "cooperative S"
  shows "\<exists>old new. run_state (create_or_patch R_cluster_role S (named_cluster_role n) aggregate_mutate) t =
           (Ret new, t @ [CFetch (KClusterRole (named_cluster_role n)), CCommit (KClusterRole old) (KClusterRole new)])
         \<and> om_name (cr_meta new) = n
         \<and> cr_aggregation new = Some [make_map [(LabelAuthenticatedAggregateRole, ''true'')]]"
  using cluster_role_resource.run_create_or_patch_pure
      [OF assms, of "named_cluster_role n"
        "\<lambda>r. r\<lparr>cr_aggregation := Some [make_map [(LabelAuthenticatedAggregateRole, ''true'')]]\<rparr>" t] assms
  by (auto simp: aggregate_mutate_def [abs_def] R_cluster_role_def [THEN arg_cong, of rk_wrap])

lemma run_organization_role_mutate:
  assumes "cooperative S"
  shows "\<exists>old new. run_state (create_or_patch R_cluster_role S (named_cluster_role n)
             (organization_role_mutate v verbs res)) t =
           (Ret new, t @ [CFetch (KClusterRole (named_cluster_role n)), CCommit (KClusterRole old) (KClusterRole new)])
         \<and> om_name (cr_meta new) = n
         \<and> cr_rules new = [\<lparr>pr_verbs = verbs, pr_api_groups = [GroupVersion_Group], pr_resources = [res],
                            pr_resource_names = [om_name (organization_meta v)]\<rparr>]"
  using cluster_role_resource.run_create_or_patch_pure
      [OF assms, of "named_cluster_role n"
        "\<lambda>r. r\<lparr>cr_meta := (cr_meta r)\<lparr>
              om_labels := make_map [(LabelOrganizationName, om_name (organization_meta v))],
              om_owner_references := [organization_owner v]\<rparr>,
            cr_rules := [\<lparr>pr_verbs = verbs, pr_api_groups = [GroupVersion_Group], pr_resources = [res],
                          pr_resource_names = [om_name (organization_meta v)]\<rparr>]\<rparr>" t] assms
  by (auto simp: organization_role_mutate_def [abs_def] R_cluster_role_def [THEN arg_cong, of rk_wrap])

text \<open>A member may always leave: the rules of its own role.\<close>

definition self_rules :: "member \<Rightarrow> policy_rule list" where
  "self_rules m = [\<lparr>pr_verbs = [''delete''], pr_api_groups = [GroupVersion_Group], pr_resources = [''members''],
                    pr_resource_names = [''@me'', om_name (member_meta m)]\<rparr>]"

lemma run_self_role:
  assumes "cooperative S"
  shows "\<exists>old new. run_state (create_or_patch R_rbac_role S (named_role n ns) (self_role_mutate m)) t =
           (Ret new, t @ [CFetch (KRole (named_role n ns)), CCommit (KRole old) (KRole new)])
         \<and> om_name (ro_meta new) = n \<and> om_namespace (ro_meta new) = ns \<and> ro_rules new = self_rules m"
  using rbac_role_resource.run_create_or_patch_pure
      [OF assms, of "named_role n ns"
        "\<lambda>r. r\<lparr>ro_meta := member_labels m (ro_meta r),
            ro_rules := self_rules m\<rparr>" t] assms
  by (auto simp: self_rules_def self_role_mutate_def [abs_def] member_labels_def R_rbac_role_def [THEN arg_cong, of rk_wrap])

lemma run_member_binding:
  assumes "cooperative S"
  shows "\<exists>old new. run_state (reconcile_member_binding S m suffix k n) t =
           (Ret new, t @ [CFetch (KRoleBinding (named_role_binding (om_name (member_meta m) @ suffix) (om_namespace (member_meta m)))),
                          CCommit (KRoleBinding old) (KRoleBinding new)])
         \<and> om_name (rb_meta new) = om_name (member_meta m) @ suffix
         \<and> om_namespace (rb_meta new) = om_namespace (member_meta m)
         \<and> rb_role_ref new = \<lparr>rr_api_group = rbac_GroupName, rr_kind = k, rr_name = n\<rparr>
         \<and> rb_subjects new = [user_subject (tl_name (ms_user_ref (member_spec m)))]"
  using role_binding_resource.run_create_or_patch_pure
      [OF assms, of "named_role_binding (om_name (member_meta m) @ suffix) (om_namespace (member_meta m))"
        "\<lambda>b. b\<lparr>rb_meta := member_labels m (rb_meta b),
            rb_role_ref := \<lparr>rr_api_group = rbac_GroupName, rr_kind = k, rr_name = n\<rparr>,
            rb_subjects := [user_subject (tl_name (ms_user_ref (member_spec m)))]\<rparr>" t] assms
  by (auto simp: reconcile_member_binding_def member_binding_mutate_def [abs_def] member_labels_def
      R_role_binding_def [THEN arg_cong, of rk_wrap])

subsection \<open>Access levels\<close>

text \<open>The three roles of a member as an order; the code treats every other role string like
  \<open>SuperUser\<close>.\<close>

datatype access_level = ReaderLevel | UserLevel | SuperUserLevel

fun level_rank :: "access_level \<Rightarrow> nat" where
  "level_rank ReaderLevel = 0"
| "level_rank UserLevel = 1"
| "level_rank SuperUserLevel = 2"

lemma level_rank_inject: "level_rank a = level_rank b \<Longrightarrow> a = b"
  by (cases a; cases b) auto

instantiation access_level :: linorder
begin

definition less_eq_access_level :: "access_level \<Rightarrow> access_level \<Rightarrow> bool" where
  "less_eq_access_level a b = (level_rank a \<le> level_rank b)"

definition less_access_level :: "access_level \<Rightarrow> access_level \<Rightarrow> bool" where
  "less_access_level a b = (level_rank a < level_rank b)"

instance
  by standard (auto simp: less_eq_access_level_def less_access_level_def level_rank_inject)

end

definition level_of_role :: "string \<Rightarrow> access_level" where
  "level_of_role role =
     (if role = RoleReader then ReaderLevel else if role = RoleUser then UserLevel else SuperUserLevel)"

text \<open>What each level is meant to permit in the organization's namespace.\<close>

function permitted :: "access_level \<Rightarrow> string \<Rightarrow> string \<Rightarrow> bool" where
  "permitted ReaderLevel verb res =
     (verb \<in> {''get'', ''list'', ''watch''} \<and>
      res \<in> {''clusters'', ''dnszones'', ''invitations'', ''members'', ''nodepools'', ''nodes'', ''workloads''})"
| "permitted UserLevel verb res =
     (permitted ReaderLevel verb res \<or>
      verb \<in> {''create'', ''delete'', ''patch'', ''update''} \<and>
      res \<in> {''clusters'', ''nodepools'', ''nodes'', ''workloads''})"
| "permitted SuperUserLevel verb res =
     (permitted UserLevel verb res
      \<or> verb \<in> {''create'', ''delete''} \<and> res = ''invitations''
      \<or> verb \<in> {''delete'', ''patch'', ''update''} \<and> res = ''members'')"
  by pat_completeness auto

termination
  by (relation "measure (\<lambda>(l, _, _). level_rank l)") auto

lemma permitted_mono: "a \<le> b \<Longrightarrow> permitted a verb res \<Longrightarrow> permitted b verb res"
  by (cases a; cases b) (auto simp: less_eq_access_level_def)

subsection \<open>Members\<close>

lemma run_cluster_authorization:
  assumes "cooperative S"
  shows "\<exists>o1 n1 o2 n2 o3 n3 o4 n4.
           run_state (ReconcileClusterAuthorization S) t =
             (Ret (), t @ [CFetch (KClusterRole (named_cluster_role AggregateRoleName)),
                           CCommit (KClusterRole o1) (KClusterRole n1),
                           CFetch (KClusterRole (named_cluster_role ''dockyards:reader'')),
                           CCommit (KClusterRole o2) (KClusterRole n2),
                           CFetch (KClusterRole (named_cluster_role ''dockyards:user'')),
                           CCommit (KClusterRole o3) (KClusterRole n3),
                           CFetch (KClusterRole (named_cluster_role ''dockyards:super-user'')),
                           CCommit (KClusterRole o4) (KClusterRole n4)])
           \<and> om_name (cr_meta n1) = AggregateRoleName
           \<and> om_name (cr_meta n2) = ''dockyards:reader'' \<and> cr_rules n2 = reader_rules
           \<and> om_name (cr_meta n3) = ''dockyards:user'' \<and> cr_rules n3 = user_rules
           \<and> om_name (cr_meta n4) = ''dockyards:super-user'' \<and> cr_rules n4 = super_user_rules"
proof -
  let ?w = "\<lambda>n. CFetch (KClusterRole (named_cluster_role n))"
  obtain o1 n1 where 1: "run_state (create_or_patch R_cluster_role S (named_cluster_role AggregateRoleName) aggregate_mutate) t
      = (Ret n1, t @ [?w AggregateRoleName, CCommit (KClusterRole o1) (KClusterRole n1)])"
    "om_name (cr_meta n1) = AggregateRoleName"
    using run_aggregate_mutate [OF assms] by blast
  let ?t1 = "t @ [?w AggregateRoleName, CCommit (KClusterRole o1) (KClusterRole n1)]"
  obtain o2 n2 where 2: "run_state (create_or_patch R_cluster_role S (named_cluster_role ''dockyards:reader'') (rules_mutate reader_rules)) ?t1
      = (Ret n2, ?t1 @ [?w ''dockyards:reader'', CCommit (KClusterRole o2) (KClusterRole n2)])"
    "om_name (cr_meta n2) = ''dockyards:reader''" "cr_rules n2 = reader_rules"
    using run_rules_mutate [OF assms] by blast
  let ?t2 = "?t1 @ [?w ''dockyards:reader'', CCommit (KClusterRole o2) (KClusterRole n2)]"
  obtain o3 n3 where 3: "run_state (create_or_patch R_cluster_role S (named_cluster_role ''dockyards:user'') (rules_mutate user_rules)) ?t2
      = (Ret n3, ?t2 @ [?w ''dockyards:user'', CCommit (KClusterRole o3) (KClusterRole n3)])"
    "om_name (cr_meta n3) = ''dockyards:user''" "cr_rules n3 = user_rules"
    using run_rules_mutate [OF assms] by blast
  let ?t3 = "?t2 @ [?w ''dockyards:user'', CCommit (KClusterRole o3) (KClusterRole n3)]"
  obtain o4 n4 where 4: "run_state (create_or_patch R_cluster_role S (named_cluster_role ''dockyards:super-user'') (rules_mutate super_user_rules)) ?t3
      = (Ret n4, ?t3 @ [?w ''dockyards:super-user'', CCommit (KClusterRole o4) (KClusterRole n4)])"
    "om_name (cr_meta n4) = ''dockyards:super-user''" "cr_rules n4 = super_user_rules"
    using run_rules_mutate [OF assms] by blast
  note runs = run_go_bind_Ret [OF 1(1)] run_go_bind_Ret [OF 2(1)] run_go_bind_Ret [OF 3(1)] run_go_bind_Ret [OF 4(1)]
  have "run_state (ReconcileClusterAuthorization S) t =
          (Ret (), ?t3 @ [?w ''dockyards:super-user'', CCommit (KClusterRole o4) (KClusterRole n4)])"
    unfolding ReconcileClusterAuthorization_def by (simp only: runs) simp
  with 1(2) 2(2,3) 3(2,3) 4(2,3) show ?thesis by auto
qed

text \<open>What matters of it later: the three roles hold their rules and no binding was written.\<close>

lemma cluster_authorization_roles:
  assumes "cooperative S"
  defines "t \<equiv> snd (run_state (ReconcileClusterAuthorization S) [])"
  shows "role_bindings t = []" "role_rules t ''dockyards:reader'' = reader_rules"
    "role_rules t ''dockyards:user'' = user_rules" "role_rules t ''dockyards:super-user'' = super_user_rules"
  using run_cluster_authorization [OF assms(1), of "[]"]
  by (auto simp: t_def role_bindings_def role_rules_def AggregateRoleName_def)

abbreviation member_user :: "member \<Rightarrow> string" where
  "member_user m \<equiv> tl_name (ms_user_ref (member_spec m))"

abbreviation member_namespace :: "member \<Rightarrow> string" where
  "member_namespace m \<equiv> om_namespace (member_meta m)"

abbreviation self_name :: "member \<Rightarrow> string" where
  "self_name m \<equiv> om_name (member_meta m) @ '':self''"

text \<open>
  The bindings of one member, abstractly: a list of (suffix, kind, role) in the order of
  \<open>role_bindings\<close>. Writing one replaces the entry of its suffix. \<open>bindings_match\<close> relates the
  abstract list to the objects, and every step of \<open>ReconcileMemberAuthorization\<close> is simulated by
  \<open>put_spec\<close>.
\<close>

type_synonym binding_spec = "string \<times> string \<times> string"

definition put_spec :: "binding_spec list \<Rightarrow> binding_spec \<Rightarrow> binding_spec list" where
  "put_spec acc sp = sp # filter (\<lambda>x. fst x \<noteq> fst sp) acc"

fun binding_matches :: "member \<Rightarrow> binding_spec \<Rightarrow> role_binding \<Rightarrow> bool" where
  "binding_matches m (suffix, k, n) b =
     (binding_key b = (member_namespace m, om_name (member_meta m) @ suffix)
      \<and> rr_kind (rb_role_ref b) = k \<and> rr_name (rb_role_ref b) = n
      \<and> rb_subjects b = [user_subject (member_user m)])"

abbreviation bindings_match :: "member \<Rightarrow> binding_spec list \<Rightarrow> role_binding list \<Rightarrow> bool" where
  "bindings_match m \<equiv> list_all2 (binding_matches m)"

definition member_specs :: "member \<Rightarrow> access_level \<Rightarrow> binding_spec list" where
  "member_specs m level =
     [('':self'', ''Role'', self_name m), ('':reader'', ''ClusterRole'', ''dockyards:reader'')]
     @ (if UserLevel \<le> level then [('':user'', ''ClusterRole'', ''dockyards:user'')] else [])
     @ (if SuperUserLevel \<le> level then [('':super-user'', ''ClusterRole'', ''dockyards:super-user'')] else [])"

text \<open>\<open>simulates m new self sps\<close>: the calls \<open>new\<close> change no cluster role, act on the bindings of \<open>m\<close> as
  writing \<open>sps\<close> one after the other, and leave its own role with the rules \<open>self\<close> (\<open>None\<close>: untouched).\<close>

definition simulates :: "member \<Rightarrow> trace \<Rightarrow> policy_rule list option \<Rightarrow> binding_spec list \<Rightarrow> bool" where
  "simulates m new self sps =
     ((\<forall>n acc. foldl (role_step n) acc new = acc)
      \<and> (\<forall>acc. foldl (ns_role_step (member_namespace m) (self_name m)) acc new = (case self of None \<Rightarrow> acc | Some rs \<Rightarrow> rs))
      \<and> (\<forall>accS acc. bindings_match m accS acc \<longrightarrow>
           bindings_match m (foldl put_spec accS sps) (foldl binding_step acc new)))"

lemma simulates_append:
  "simulates m a self ps \<Longrightarrow> simulates m b None qs \<Longrightarrow> simulates m (a @ b) self (ps @ qs)"
  by (simp add: simulates_def)

lemma bindings_match_put:
  assumes "binding_matches m sp b" and "bindings_match m accS acc"
  shows "bindings_match m (put_spec accS sp) (b # drop_binding acc b)"
proof -
  have "bindings_match m (filter (\<lambda>x. fst x \<noteq> fst sp) accS) (drop_binding acc b)"
    using assms(2)
  proof (induction accS acc rule: list_all2_induct)
    case (Cons x xs y ys)
    then show ?case
      using assms(1) by (cases x; cases sp) (auto simp: drop_binding_def)
  qed (simp add: drop_binding_def)
  with assms(1) show ?thesis by (simp add: put_spec_def)
qed

lemma binding_step_simulates:
  assumes "cooperative S"
  shows "\<exists>b new. run_state (reconcile_member_binding S m suffix k n) t = (Ret b, t @ new)
           \<and> simulates m new None [(suffix, k, n)]"
proof -
  obtain old b where run: "run_state (reconcile_member_binding S m suffix k n) t = (Ret b, t @
      [CFetch (KRoleBinding (named_role_binding (om_name (member_meta m) @ suffix) (member_namespace m))),
       CCommit (KRoleBinding old) (KRoleBinding b)])" and "binding_matches m (suffix, k, n) b"
    using run_member_binding [OF assms, of m suffix k n t] by (auto simp: binding_key_def)
  then show ?thesis using bindings_match_put by (auto simp: simulates_def)
qed

lemma self_role_simulates:
  assumes "cooperative S"
  shows "\<exists>r new. run_state (create_or_patch R_rbac_role S (named_role (self_name m) (member_namespace m)) (self_role_mutate m)) t
             = (Ret r, t @ new)
           \<and> om_name (ro_meta r) = self_name m \<and> simulates m new (Some (self_rules m)) []"
  using run_self_role [OF assms, of "self_name m" "member_namespace m" m t] by (auto simp: simulates_def)

lemma run_member_authorization:
  assumes "cooperative S"
  shows "\<exists>new. run_state (ReconcileMemberAuthorization S m) t = (Ret (), t @ new)
               \<and> simulates m new (Some (self_rules m)) (member_specs m (level_of_role (ms_role (member_spec m))))"
proof -
  let ?role = "ms_role (member_spec m)"
  obtain r a1 where 1: "run_state (create_or_patch R_rbac_role S
        (named_role (om_name (member_meta m) @ '':self'') (member_namespace m)) (self_role_mutate m)) t = (Ret r, t @ a1)"
    and name: "om_name (ro_meta r) = self_name m" and A1: "simulates m a1 (Some (self_rules m)) []" using self_role_simulates [OF assms] by blast
  obtain b2 a2 where 2: "run_state (reconcile_member_binding S m '':self'' ''Role'' (self_name m)) (t @ a1)
        = (Ret b2, (t @ a1) @ a2)" and A2: "simulates m a2 None [('':self'', ''Role'', self_name m)]"
    using binding_step_simulates [OF assms] by blast
  obtain b3 a3 where 3: "run_state (reconcile_member_binding S m '':reader'' ''ClusterRole'' ''dockyards:reader'') ((t @ a1) @ a2)
        = (Ret b3, ((t @ a1) @ a2) @ a3)" and A3: "simulates m a3 None [('':reader'', ''ClusterRole'', ''dockyards:reader'')]"
    using binding_step_simulates [OF assms] by blast
  obtain b4 a4 where 4: "run_state (reconcile_member_binding S m '':user'' ''ClusterRole'' ''dockyards:user'') (((t @ a1) @ a2) @ a3)
        = (Ret b4, (((t @ a1) @ a2) @ a3) @ a4)" and A4: "simulates m a4 None [('':user'', ''ClusterRole'', ''dockyards:user'')]"
    using binding_step_simulates [OF assms] by blast
  obtain b5 a5 where 5: "run_state (reconcile_member_binding S m '':super-user'' ''ClusterRole'' ''dockyards:super-user'') ((((t @ a1) @ a2) @ a3) @ a4)
        = (Ret b5, ((((t @ a1) @ a2) @ a3) @ a4) @ a5)" and A5: "simulates m a5 None [('':super-user'', ''ClusterRole'', ''dockyards:super-user'')]"
    using binding_step_simulates [OF assms] by blast
  note runs = run_go_bind_Ret [OF 1] run_go_bind_Ret [OF 2] run_go_bind_Ret [OF 3] run_go_bind_Ret [OF 4] run_go_bind_Ret [OF 5]
  note A = simulates_append [OF simulates_append [OF A1 A2] A3]
  note defs = ReconcileMemberAuthorization_def member_specs_def level_of_role_def less_eq_access_level_def
  consider "?role = RoleReader" | "?role = RoleUser" | "?role \<noteq> RoleReader" "?role \<noteq> RoleUser" by blast
  then show ?thesis
  proof cases
    case 1
    then show ?thesis using A
      by (intro exI [of _ "a1 @ a2 @ a3"]) (simp add: defs name runs [simplified])
  next
    case 2
    then show ?thesis using simulates_append [OF A A4]
      by (intro exI [of _ "a1 @ a2 @ a3 @ a4"]) (simp add: defs name runs [simplified])
  next
    case 3
    then show ?thesis using simulates_append [OF simulates_append [OF A A4] A5]
      by (intro exI [of _ "a1 @ a2 @ a3 @ a4 @ a5"]) (simp add: defs name runs [simplified])
  qed
qed

text \<open>The rules the abstract bindings lead to.\<close>

fun spec_rules :: "trace \<Rightarrow> string \<Rightarrow> binding_spec \<Rightarrow> policy_rule list" where
  "spec_rules t ns (suffix, k, n) =
     (if k = ''ClusterRole'' then role_rules t n else if k = ''Role'' then ns_role_rules t ns n else [])"

lemma matching_rules:
  assumes "bindings_match m accS acc"
  shows "concat (map (bound_rules t (member_namespace m) (member_user m)) acc)
           = concat (map (spec_rules t (member_namespace m)) accS)"
  using assms
proof (induction accS acc rule: list_all2_induct)
  case (Cons x xs y ys)
  then show ?case by (cases x) (auto simp: bound_rules_def binding_key_def)
qed simp

definition level_roles :: "trace \<Rightarrow> bool" where
  "level_roles t =
     (role_rules t ''dockyards:reader'' = reader_rules \<and> role_rules t ''dockyards:user'' = user_rules
      \<and> role_rules t ''dockyards:super-user'' = super_user_rules)"

lemma member_reconcile_effect:
  assumes "cooperative S" and "level_roles t" and "bindings_match m accS (role_bindings t)"
  obtains t' where "run_state (ReconcileMemberAuthorization S m) t = (Ret (), t')"
    and "level_roles t'" and "ns_role_rules t' (member_namespace m) (self_name m) = self_rules m"
    and "bindings_match m (foldl put_spec accS (member_specs m (level_of_role (ms_role (member_spec m))))) (role_bindings t')"
proof -
  obtain new where "run_state (ReconcileMemberAuthorization S m) t = (Ret (), t @ new)"
    and "simulates m new (Some (self_rules m)) (member_specs m (level_of_role (ms_role (member_spec m))))"
    using run_member_authorization [OF assms(1)] by blast
  with assms(2,3) that [of "t @ new"] show thesis
    by (auto simp: simulates_def level_roles_def role_rules_def ns_role_rules_def role_bindings_def)
qed

lemma namespace_allows_specs:
  assumes "bindings_match m sps (role_bindings t)"
  shows "namespace_allows t (member_namespace m) (member_user m) verb res name =
           list_ex (rule_allows verb res name) (concat (map (spec_rules t (member_namespace m)) sps))"
  unfolding namespace_allows_def using matching_rules [OF assms] by simp

text \<open>What a member may do besides what its level permits.\<close>

definition may_leave :: "member \<Rightarrow> string \<Rightarrow> string \<Rightarrow> string \<Rightarrow> bool" where
  "may_leave m verb res name =
     (verb = ''delete'' \<and> res = ''members'' \<and> (name = ''@me'' \<or> name = om_name (member_meta m)))"

lemma self_rules_allow: "list_ex (rule_allows verb res name) (self_rules m) = may_leave m verb res name"
  by (auto simp: self_rules_def rule_allows_def may_leave_def)

lemma permitted_rules:
  "permitted ReaderLevel verb res = list_ex (rule_allows verb res name) reader_rules"
  "permitted UserLevel verb res =
     (list_ex (rule_allows verb res name) reader_rules \<or> list_ex (rule_allows verb res name) user_rules)"
  "permitted SuperUserLevel verb res =
     (list_ex (rule_allows verb res name) reader_rules \<or> list_ex (rule_allows verb res name) user_rules
      \<or> list_ex (rule_allows verb res name) super_user_rules)"
  by (auto simp: reader_rules_def user_rules_def super_user_rules_def rule_allows_def)

text \<open>What the abstract bindings of one or two reconciliations permit.\<close>

lemmas specs_defs = member_specs_def put_spec_def level_roles_def less_eq_access_level_def max_def

lemma level_specs_permit:
  assumes "level_roles t" and "ns_role_rules t ns (self_name m) = self_rules m"
  shows "list_ex (rule_allows verb res name) (concat (map (spec_rules t ns) (foldl put_spec [] (member_specs m l))))
           = (permitted l verb res \<or> may_leave m verb res name)"
  using assms
  by (cases l) (simp_all add: specs_defs permitted_rules [where name = name] self_rules_allow disj_ac del: permitted.simps)

lemma two_levels_specs_permit:
  assumes "level_roles t" and "ns_role_rules t ns (self_name m') = self_rules m'"
  shows "list_ex (rule_allows verb res name)
           (concat (map (spec_rules t ns)
             (foldl put_spec (foldl put_spec [] (member_specs m l)) (member_specs m' l'))))
           = (permitted (max l l') verb res \<or> may_leave m' verb res name)"
  using assms
  by (cases l; cases l')
     (simp_all add: specs_defs permitted_rules [where name = name] self_rules_allow disj_ac del: permitted.simps)

lemma binding_matches_same:
  "om_name (member_meta m') = om_name (member_meta m) \<Longrightarrow> member_namespace m' = member_namespace m \<Longrightarrow>
   member_user m' = member_user m \<Longrightarrow> binding_matches m' = binding_matches m"
  by (intro ext) (auto simp: fun_eq_iff elim!: binding_matches.elims)

subsection \<open>Properties of member and user authorization\<close>

text \<open>The outcome and trace of reconciling the cluster-wide roles and then one member.\<close>

definition member_reconciled :: "server \<Rightarrow> member \<Rightarrow> (goerr, unit) go \<times> trace" where
  "member_reconciled S m =
     run_state (ReconcileMemberAuthorization S m) (snd (run_state (ReconcileClusterAuthorization S) []))"

lemma member_reconciled_allows:
  assumes "cooperative S"
  shows "fst (member_reconciled S m) = Ret ()"
    and "namespace_allows (snd (member_reconciled S m)) (member_namespace m) (member_user m) verb res name =
           (permitted (level_of_role (ms_role (member_spec m))) verb res \<or> may_leave m verb res name)"
proof -
  let ?t = "snd (run_state (ReconcileClusterAuthorization S) [])"
  have roles: "level_roles ?t" and none: "bindings_match m [] (role_bindings ?t)"
    using cluster_authorization_roles [OF assms] by (simp_all add: level_roles_def)
  obtain t' where "run_state (ReconcileMemberAuthorization S m) ?t = (Ret (), t')" "level_roles t'"
    "ns_role_rules t' (member_namespace m) (self_name m) = self_rules m"
    "bindings_match m (foldl put_spec [] (member_specs m (level_of_role (ms_role (member_spec m))))) (role_bindings t')"
    using member_reconcile_effect [OF assms roles none] .
  then show "fst (member_reconciled S m) = Ret ()"
    and "namespace_allows (snd (member_reconciled S m)) (member_namespace m) (member_user m) verb res name =
           (permitted (level_of_role (ms_role (member_spec m))) verb res \<or> may_leave m verb res name)"
    by (simp_all add: member_reconciled_def namespace_allows_specs level_specs_permit)
qed

text \<open>C1 Once the cluster-wide roles and a member have been reconciled, the member's user is allowed in
  the organization's namespace exactly what the member's role is meant to permit: reading for
  every role, changing clusters, node pools, nodes and workloads from \<open>User\<close> up, managing
  invitations and members for \<open>SuperUser\<close> only; and every member may delete its own membership. This
  holds whatever the written objects contained before; bindings of other origin are not counted.\<close>

theorem member_access_is_permitted:
  assumes "cooperative S"
  shows "let t = snd (run_state (ReconcileClusterAuthorization S) []);
             r = run_state (ReconcileMemberAuthorization S m) t
         in fst r = Ret () \<and>
            namespace_allows (snd r) (member_namespace m) (member_user m) verb res name
              = (permitted (level_of_role (ms_role (member_spec m))) verb res \<or> may_leave m verb res name)"
  using member_reconciled_allows [OF assms] by (simp add: member_reconciled_def Let_def)

lemma member_access_is_permitted_witness:
  "namespace_allows
     (snd (run_state (ReconcileMemberAuthorization empty_server
             (zero_member\<lparr>member_spec := (member_spec zero_member)\<lparr>ms_role := RoleUser\<rparr>\<rparr>))
           (snd (run_state (ReconcileClusterAuthorization empty_server) []))))
     [] [] ''delete'' ''clusters'' ''c1''
   \<and> \<not> namespace_allows
     (snd (run_state (ReconcileMemberAuthorization empty_server
             (zero_member\<lparr>member_spec := (member_spec zero_member)\<lparr>ms_role := RoleUser\<rparr>\<rparr>))
           (snd (run_state (ReconcileClusterAuthorization empty_server) []))))
     [] [] ''delete'' ''members'' ''m1''"
  using member_access_is_permitted
      [OF empty_server_cooperative, of "zero_member\<lparr>member_spec := (member_spec zero_member)\<lparr>ms_role := RoleUser\<rparr>\<rparr>"
        "''delete''" "''clusters''" "''c1''"]
    member_access_is_permitted
      [OF empty_server_cooperative, of "zero_member\<lparr>member_spec := (member_spec zero_member)\<lparr>ms_role := RoleUser\<rparr>\<rparr>"
        "''delete''" "''members''" "''m1''"]
  by (simp add: Let_def zero_member_def empty_meta_def level_of_role_def may_leave_def)

text \<open>C37 Reconciling a member a second time, after its role has changed, leaves the user with the higher
  of the two levels: promotion takes effect and demotion does not, because the bindings of the
  higher role are never removed.\<close>

theorem member_demotion_keeps_access:
  assumes "cooperative S"
    and "om_name (member_meta m') = om_name (member_meta m)"
    and "member_namespace m' = member_namespace m" and "member_user m' = member_user m"
  shows "let t = snd (run_state (ReconcileClusterAuthorization S) []);
             t1 = snd (run_state (ReconcileMemberAuthorization S m) t);
             t2 = snd (run_state (ReconcileMemberAuthorization S m') t1)
         in namespace_allows t2 (member_namespace m') (member_user m') verb res name
              = (permitted (max (level_of_role (ms_role (member_spec m))) (level_of_role (ms_role (member_spec m')))) verb res
                \<or> may_leave m' verb res name)"
proof -
  let ?t = "snd (run_state (ReconcileClusterAuthorization S) [])"
  have roles: "level_roles ?t" and none: "bindings_match m [] (role_bindings ?t)"
    using cluster_authorization_roles [OF assms(1)] by (simp_all add: level_roles_def)
  obtain t1 where t1: "run_state (ReconcileMemberAuthorization S m) ?t = (Ret (), t1)" "level_roles t1"
    "ns_role_rules t1 (member_namespace m) (self_name m) = self_rules m"
    "bindings_match m (foldl put_spec [] (member_specs m (level_of_role (ms_role (member_spec m))))) (role_bindings t1)"
    using member_reconcile_effect [OF assms(1) roles none] .
  have same: "binding_matches m' = binding_matches m" using assms(2-4) by (rule binding_matches_same)
  obtain t2 where t2: "run_state (ReconcileMemberAuthorization S m') t1 = (Ret (), t2)" "level_roles t2"
    "ns_role_rules t2 (member_namespace m') (self_name m') = self_rules m'"
    "bindings_match m' (foldl put_spec (foldl put_spec [] (member_specs m (level_of_role (ms_role (member_spec m)))))
       (member_specs m' (level_of_role (ms_role (member_spec m'))))) (role_bindings t2)"
    using member_reconcile_effect [OF assms(1) t1(2), of m'] t1(4) same by metis
  then show ?thesis
    using t1(1) by (simp add: Let_def namespace_allows_specs two_levels_specs_permit)
qed

lemma member_demotion_keeps_access_witness:
  "let su = zero_member\<lparr>member_spec := (member_spec zero_member)\<lparr>ms_role := RoleSuperUser\<rparr>\<rparr>;
       rd = zero_member\<lparr>member_spec := (member_spec zero_member)\<lparr>ms_role := RoleReader\<rparr>\<rparr>;
       t = snd (run_state (ReconcileClusterAuthorization empty_server) []);
       t1 = snd (run_state (ReconcileMemberAuthorization empty_server su) t);
       t2 = snd (run_state (ReconcileMemberAuthorization empty_server rd) t1)
   in namespace_allows t2 [] [] ''delete'' ''members'' ''m1''"
  using member_demotion_keeps_access
      [OF empty_server_cooperative,
        of "zero_member\<lparr>member_spec := (member_spec zero_member)\<lparr>ms_role := RoleReader\<rparr>\<rparr>"
           "zero_member\<lparr>member_spec := (member_spec zero_member)\<lparr>ms_role := RoleSuperUser\<rparr>\<rparr>"
           "''delete''" "''members''" "''m1''"]
  by (simp add: Let_def zero_member_def empty_meta_def level_of_role_def may_leave_def max_def less_eq_access_level_def)

text \<open>The calls reconciling a member may make, whatever the server answers: reading and writing the
  member's own role and bindings. Every written binding has the member's user as its only subject and
  refers to a role of at most the member's level.\<close>

definition level_role_names :: "access_level \<Rightarrow> string list" where
  "level_role_names level =
     [''dockyards:reader'']
     @ (if UserLevel \<le> level then [''dockyards:user''] else [])
     @ (if SuperUserLevel \<le> level then [''dockyards:super-user''] else [])"

definition confined_binding :: "member \<Rightarrow> role_binding \<Rightarrow> bool" where
  "confined_binding m b =
     (rb_subjects b = [user_subject (member_user m)]
      \<and> (rr_kind (rb_role_ref b) = ''Role''
         \<or> rr_kind (rb_role_ref b) = ''ClusterRole''
           \<and> rr_name (rb_role_ref b) \<in> set (level_role_names (level_of_role (ms_role (member_spec m))))))"

definition member_call :: "member \<Rightarrow> call \<Rightarrow> bool" where
  "member_call m c =
     (case c of
        CFetch k \<Rightarrow> key_of k \<in> (\<lambda>suffix. \<lparr>ok_namespace = member_namespace m, ok_name = om_name (member_meta m) @ suffix\<rparr>)
                               ` {'':self'', '':reader'', '':user'', '':super-user''}
      | CCommit old new \<Rightarrow>
          (case new of
             KRole r \<Rightarrow> ro_rules r = self_rules m
           | KRoleBinding b \<Rightarrow> confined_binding m b
           | _ \<Rightarrow> False)
      | _ \<Rightarrow> False)"

lemma reconcile_member_binding_confined:
  assumes "suffix \<in> {'':self'', '':reader'', '':user'', '':super-user''}"
    and "k = ''Role'' \<or> k = ''ClusterRole'' \<and> n \<in> set (level_role_names (level_of_role (ms_role (member_spec m))))"
  shows "emits (member_call m) (reconcile_member_binding S m suffix k n)"
  unfolding reconcile_member_binding_def
proof (rule role_binding_resource.create_or_patch_emits)
  show "member_call m (CFetch (rk_wrap R_role_binding
          (named_role_binding (om_name (member_meta m) @ suffix) (member_namespace m))))"
    using assms(1) by (auto simp: member_call_def R_role_binding_def key_of_def named_role_binding_def)
next
  fix w t x t'
  assume "run_state (member_binding_mutate m k n w) t = (Ret x, t')"
  then show "member_call m (CCommit (rk_wrap R_role_binding w) (rk_wrap R_role_binding x))"
    using assms(2) by (auto simp: member_binding_mutate_def member_call_def R_role_binding_def confined_binding_def)
qed (auto simp: member_binding_mutate_def)

lemma self_role_confined:
  "emits (member_call m) (create_or_patch R_rbac_role S
     (named_role (om_name (member_meta m) @ '':self'') (member_namespace m)) (self_role_mutate m))"
  by (rule rbac_role_resource.create_or_patch_emits)
     (auto simp: member_call_def self_rules_def R_rbac_role_def key_of_def named_role_def self_role_mutate_def)


subsection \<open>Properties of organization authorization\<close>

lemma run_super_user_binding:
  assumes "cooperative S" and "os_namespace_ref (organization_spec v) = Some ns"
    and "\<And>t. sv_list S t AMember (in_namespace ns) = Inr (map KMember ms)"
  shows "\<exists>old new. run_state (create_or_patch R_cluster_role_binding S (named_cluster_role_binding n)
             (super_user_binding_mutate S v role)) t =
           (Ret new, t @ [CFetch (KClusterRoleBinding (named_cluster_role_binding n)), CList AMember (in_namespace ns),
                          CCommit (KClusterRoleBinding old) (KClusterRoleBinding new)])
         \<and> om_name (crb_meta new) = n \<and> rr_name (crb_role_ref new) = role
         \<and> crb_subjects new = super_user_subjects_loop ms []"
proof -
  have kind: "rk_kind R_member = AMember" and wrap: "rk_wrap R_cluster_role_binding = KClusterRoleBinding"
    and "map (rk_wrap R_member) ms = map KMember ms"
    by (simp_all add: R_member_def R_cluster_role_binding_def)
  then have list: "decode_list R_member (sv_list S t (rk_kind R_member) (in_namespace ns)) = Inr ms" for t
    using assms(3) by (simp add: member_resource.decode_list_Inr_iff)
  let ?b = "existing R_cluster_role_binding S t (named_cluster_role_binding n)"
  obtain w where "run_state (super_user_binding_mutate S v role ?b) (t @ [CFetch (KClusterRoleBinding (named_cluster_role_binding n))])
      = (Ret w, t @ [CFetch (KClusterRoleBinding (named_cluster_role_binding n)), CList AMember (in_namespace ns)])"
    and "om_name (crb_meta w) = n" "rr_name (crb_role_ref w) = role" "crb_subjects w = super_user_subjects_loop ms []"
    using assms(1,2) list kind
    by (cases "om_labels (crb_meta ?b)")
       (auto simp: super_user_binding_mutate_def Let_def run_k_list make_map_def)
  then show ?thesis
    using cluster_role_binding_resource.run_create_or_patch [OF assms(1), of "super_user_binding_mutate S v role"] wrap
    by fastforce
qed

lemma run_reader_binding:
  assumes "cooperative S" and "os_namespace_ref (organization_spec v) = Some ns"
    and "\<And>t. sv_list S t AMember (in_namespace ns) = Inr (map KMember ms)"
  shows "\<exists>old new. run_state (create_or_patch R_cluster_role_binding S (named_cluster_role_binding n)
             (reader_binding_mutate S v role)) t =
           (Ret new, t @ [CFetch (KClusterRoleBinding (named_cluster_role_binding n)), CList AMember (in_namespace ns),
                          CCommit (KClusterRoleBinding old) (KClusterRoleBinding new)])
         \<and> om_name (crb_meta new) = n \<and> rr_name (crb_role_ref new) = role
         \<and> crb_subjects new = map (\<lambda>m. user_subject (member_user m)) ms"
proof -
  have kind: "rk_kind R_member = AMember" and wrap: "rk_wrap R_cluster_role_binding = KClusterRoleBinding"
    and "map (rk_wrap R_member) ms = map KMember ms"
    by (simp_all add: R_member_def R_cluster_role_binding_def)
  then have list: "decode_list R_member (sv_list S t (rk_kind R_member) (in_namespace ns)) = Inr ms" for t
    using assms(3) by (simp add: member_resource.decode_list_Inr_iff)
  let ?b = "existing R_cluster_role_binding S t (named_cluster_role_binding n)"
  obtain w where "run_state (reader_binding_mutate S v role ?b) (t @ [CFetch (KClusterRoleBinding (named_cluster_role_binding n))])
      = (Ret w, t @ [CFetch (KClusterRoleBinding (named_cluster_role_binding n)), CList AMember (in_namespace ns)])"
    and "om_name (crb_meta w) = n" "rr_name (crb_role_ref w) = role"
    "crb_subjects w = map (\<lambda>m. user_subject (member_user m)) ms"
    using assms(1,2) list kind by (auto simp: reader_binding_mutate_def Let_def run_k_list)
  then show ?thesis
    using cluster_role_binding_resource.run_create_or_patch [OF assms(1), of "reader_binding_mutate S v role"] wrap
    by fastforce
qed

lemma run_other_binding:
  assumes "cooperative S"
  shows "\<exists>old new. run_state (create_or_patch R_cluster_role_binding S (named_cluster_role_binding n)
             (other_binding_mutate v role)) t =
           (Ret new, t @ [CFetch (KClusterRoleBinding (named_cluster_role_binding n)),
                          CCommit (KClusterRoleBinding old) (KClusterRoleBinding new)])
         \<and> om_name (crb_meta new) = n \<and> rr_name (crb_role_ref new) = role
         \<and> crb_subjects new = [\<lparr>rs_kind = ''Group'', rs_api_group = rbac_GroupName, rs_name = ''dockyards:authenticated''\<rparr>]"
proof -
  have wrap: "rk_wrap R_cluster_role_binding = KClusterRoleBinding" by (simp add: R_cluster_role_binding_def)
  show ?thesis
    using cluster_role_binding_resource.run_create_or_patch [OF assms, of "other_binding_mutate v role"] wrap assms
    by (fastforce simp: other_binding_mutate_def)
qed

text \<open>The writes of one of the three functions: a cluster role and the binding that refers to it.\<close>

definition role_and_binding ::
  "organization \<Rightarrow> string list \<Rightarrow> string \<Rightarrow> string \<Rightarrow> string \<Rightarrow> rbac_subject list \<Rightarrow> trace \<Rightarrow> bool"
where
  "role_and_binding v verbs res role_suffix binding_suffix subjects new =
     ((\<forall>n acc. foldl (role_step n) acc new =
         (if n = organization_role_name v role_suffix
          then [\<lparr>pr_verbs = verbs, pr_api_groups = [GroupVersion_Group], pr_resources = [res],
                 pr_resource_names = [om_name (organization_meta v)]\<rparr>] else acc))
      \<and> (\<forall>acc. \<exists>b. foldl cluster_binding_step acc new =
           b # filter (\<lambda>x. om_name (crb_meta x) \<noteq> organization_role_name v binding_suffix) acc
         \<and> om_name (crb_meta b) = organization_role_name v binding_suffix
         \<and> rr_name (crb_role_ref b) = organization_role_name v role_suffix \<and> crb_subjects b = subjects))"

definition binding_written ::
  "organization \<Rightarrow> string \<Rightarrow> rbac_subject list \<Rightarrow> string \<Rightarrow> cluster_role_binding \<Rightarrow> trace \<Rightarrow> bool"
where
  "binding_written v binding_suffix subjects role b new =
     ((\<forall>n acc. foldl (role_step n) acc new = acc)
      \<and> (\<forall>acc. foldl cluster_binding_step acc new =
           b # filter (\<lambda>x. om_name (crb_meta x) \<noteq> organization_role_name v binding_suffix) acc)
      \<and> om_name (crb_meta b) = organization_role_name v binding_suffix
      \<and> rr_name (crb_role_ref b) = role \<and> crb_subjects b = subjects)"

lemma role_then_binding:
  assumes "cooperative S"
    and "\<And>t role. \<exists>b new. run_state (create_or_patch R_cluster_role_binding S
           (named_cluster_role_binding (organization_role_name v binding_suffix)) (mutate role)) t = (Ret b, t @ new)
         \<and> binding_written v binding_suffix subjects role b new"
  shows "\<exists>new. run_state
           (go_bind (create_or_patch R_cluster_role S (named_cluster_role (organization_role_name v role_suffix))
                      (organization_role_mutate v verbs res))
             (\<lambda>role. go_bind (create_or_patch R_cluster_role_binding S
                (named_cluster_role_binding (organization_role_name v binding_suffix)) (mutate (om_name (cr_meta role))))
               (\<lambda>_. ret (Ret ())))) t = (Ret (), t @ new)
         \<and> role_and_binding v verbs res role_suffix binding_suffix subjects new"
proof -
  obtain o1 n1 where 1: "run_state (create_or_patch R_cluster_role S
       (named_cluster_role (organization_role_name v role_suffix)) (organization_role_mutate v verbs res)) t
     = (Ret n1, t @ [CFetch (KClusterRole (named_cluster_role (organization_role_name v role_suffix))),
                     CCommit (KClusterRole o1) (KClusterRole n1)])"
    and n1: "om_name (cr_meta n1) = organization_role_name v role_suffix"
    "cr_rules n1 = [\<lparr>pr_verbs = verbs, pr_api_groups = [GroupVersion_Group], pr_resources = [res],
       pr_resource_names = [om_name (organization_meta v)]\<rparr>]"
    using run_organization_role_mutate [OF assms(1)] by blast
  show ?thesis
    unfolding run_go_bind_Ret [OF 1]
    using assms(2) [of "om_name (cr_meta n1)"
        "t @ [CFetch (KClusterRole (named_cluster_role (organization_role_name v role_suffix))),
              CCommit (KClusterRole o1) (KClusterRole n1)]"] n1
    by (fastforce simp: run_go_bind_Ret role_and_binding_def binding_written_def)
qed

lemma super_user_writes:
  assumes "cooperative S" and "os_namespace_ref (organization_spec v) = Some ns"
    and "\<And>t. sv_list S t AMember (in_namespace ns) = Inr (map KMember ms)"
  shows "\<exists>new. run_state (ReconcileOrganizationSuperUserClusterRole S v) t = (Ret (), t @ new)
           \<and> role_and_binding v [''delete'', ''patch'', ''update''] ''organizations'' '':super-user'' '':super-users''
               (super_user_subjects_loop ms []) new"
  unfolding ReconcileOrganizationSuperUserClusterRole_def
  by (rule role_then_binding [OF assms(1)])
     (use run_super_user_binding [OF assms] in \<open>fastforce simp: binding_written_def\<close>)

lemma reader_writes:
  assumes "cooperative S" and "os_namespace_ref (organization_spec v) = Some ns"
    and "\<And>t. sv_list S t AMember (in_namespace ns) = Inr (map KMember ms)"
  shows "\<exists>new. run_state (ReconcileOrganizationReaderClusterRole S v) t = (Ret (), t @ new)
           \<and> role_and_binding v [''get'', ''list'', ''watch''] ''organizations'' '':reader'' '':readers''
               (map (\<lambda>m. user_subject (member_user m)) ms) new"
  unfolding ReconcileOrganizationReaderClusterRole_def
  by (rule role_then_binding [OF assms(1)])
     (use run_reader_binding [OF assms] in \<open>fastforce simp: binding_written_def\<close>)

lemma other_writes:
  assumes "cooperative S"
  shows "\<exists>new. run_state (ReconcileOtherUserClusterRoleAndBindings S v) t = (Ret (), t @ new)
           \<and> role_and_binding v [''delete'', ''patch''] ''invitations'' '':other'' '':others''
               [\<lparr>rs_kind = ''Group'', rs_api_group = rbac_GroupName, rs_name = ''dockyards:authenticated''\<rparr>] new"
  unfolding ReconcileOtherUserClusterRoleAndBindings_def
  by (rule role_then_binding [OF assms])
     (use run_other_binding [OF assms] in \<open>fastforce simp: binding_written_def\<close>)

lemma organization_role_name_inject [simp]:
  "organization_role_name v a = organization_role_name v b \<longleftrightarrow> a = b"
  by (simp add: organization_role_name_def)

lemma super_user_subjects:
  "super_user_subjects_loop ms acc =
     acc @ map (\<lambda>m. user_subject (member_user m)) (filter (\<lambda>m. ms_role (member_spec m) = RoleSuperUser) ms)"
  by (induction ms acc rule: super_user_subjects_loop.induct) auto

lemma role_and_binding_binding:
  assumes "role_and_binding v verbs res role_suffix binding_suffix subjects new"
  obtains b where "foldl cluster_binding_step acc new =
           b # filter (\<lambda>x. om_name (crb_meta x) \<noteq> organization_role_name v binding_suffix) acc"
    and "om_name (crb_meta b) = organization_role_name v binding_suffix"
    and "rr_name (crb_role_ref b) = organization_role_name v role_suffix" and "crb_subjects b = subjects"
  using assms unfolding role_and_binding_def by blast

text \<open>All three together: the roles and bindings an organization ends up with.\<close>

lemma run_organization_authorization:
  assumes "cooperative S" and "os_namespace_ref (organization_spec v) = Some ns"
    and "\<And>t. sv_list S t AMember (in_namespace ns) = Inr (map KMember ms)"
  obtains t b1 b2 b3 where "run_state (ReconcileOrganizationAuthorization S v) [] = (Ret (), t)"
    and "cluster_role_bindings t = [b3, b2, b1]"
    and "crb_subjects b1 = super_user_subjects_loop ms []"
    and "crb_subjects b2 = map (\<lambda>m. user_subject (member_user m)) ms"
    and "crb_subjects b3 = [\<lparr>rs_kind = ''Group'', rs_api_group = rbac_GroupName, rs_name = ''dockyards:authenticated''\<rparr>]"
    and "role_rules t (rr_name (crb_role_ref b1)) = [\<lparr>pr_verbs = [''delete'', ''patch'', ''update''],
           pr_api_groups = [GroupVersion_Group], pr_resources = [''organizations''],
           pr_resource_names = [om_name (organization_meta v)]\<rparr>]"
    and "role_rules t (rr_name (crb_role_ref b2)) = [\<lparr>pr_verbs = [''get'', ''list'', ''watch''],
           pr_api_groups = [GroupVersion_Group], pr_resources = [''organizations''],
           pr_resource_names = [om_name (organization_meta v)]\<rparr>]"
    and "role_rules t (rr_name (crb_role_ref b3)) = [\<lparr>pr_verbs = [''delete'', ''patch''],
           pr_api_groups = [GroupVersion_Group], pr_resources = [''invitations''],
           pr_resource_names = [om_name (organization_meta v)]\<rparr>]"
proof -
  obtain w1 where 1: "run_state (ReconcileOrganizationSuperUserClusterRole S v) [] = (Ret (), w1)"
    and r1: "role_and_binding v [''delete'', ''patch'', ''update''] ''organizations'' '':super-user'' '':super-users''
               (super_user_subjects_loop ms []) w1"
    using super_user_writes [OF assms, of "[]"] by auto
  obtain w2 where 2: "run_state (ReconcileOrganizationReaderClusterRole S v) w1 = (Ret (), w1 @ w2)"
    and r2: "role_and_binding v [''get'', ''list'', ''watch''] ''organizations'' '':reader'' '':readers''
               (map (\<lambda>m. user_subject (member_user m)) ms) w2"
    using reader_writes [OF assms] by blast
  obtain w3 where 3: "run_state (ReconcileOtherUserClusterRoleAndBindings S v) (w1 @ w2) = (Ret (), (w1 @ w2) @ w3)"
    and r3: "role_and_binding v [''delete'', ''patch''] ''invitations'' '':other'' '':others''
               [\<lparr>rs_kind = ''Group'', rs_api_group = rbac_GroupName, rs_name = ''dockyards:authenticated''\<rparr>] w3"
    using other_writes [OF assms(1)] by blast
  obtain b1 where b1: "foldl cluster_binding_step [] w1 = [b1]" "om_name (crb_meta b1) = organization_role_name v '':super-users''"
    "rr_name (crb_role_ref b1) = organization_role_name v '':super-user''" "crb_subjects b1 = super_user_subjects_loop ms []"
    by (rule role_and_binding_binding [OF r1, of "[]"]) simp
  obtain b2 where b2: "foldl cluster_binding_step [b1] w2 = [b2, b1]" "om_name (crb_meta b2) = organization_role_name v '':readers''"
    "rr_name (crb_role_ref b2) = organization_role_name v '':reader''" "crb_subjects b2 = map (\<lambda>m. user_subject (member_user m)) ms"
    by (rule role_and_binding_binding [OF r2, of "[b1]"]) (simp add: b1(2))
  obtain b3 where b3: "foldl cluster_binding_step [b2, b1] w3 = [b3, b2, b1]"
    "rr_name (crb_role_ref b3) = organization_role_name v '':other''"
    "crb_subjects b3 = [\<lparr>rs_kind = ''Group'', rs_api_group = rbac_GroupName, rs_name = ''dockyards:authenticated''\<rparr>]"
    by (rule role_and_binding_binding [OF r3, of "[b2, b1]"]) (simp add: b1(2) b2(2))
  have "run_state (ReconcileOrganizationAuthorization S v) [] = (Ret (), w1 @ w2 @ w3)"
    by (simp add: ReconcileOrganizationAuthorization_def run_go_bind_Ret [OF 1] run_go_bind_Ret [OF 2] run_go_bind_Ret [OF 3])
  moreover have "cluster_role_bindings (w1 @ w2 @ w3) = [b3, b2, b1]"
    by (simp add: cluster_role_bindings_def b1(1) b2(1) b3(1))
  ultimately show thesis
    using that [of "w1 @ w2 @ w3" b3 b2 b1] b1(3,4) b2(3,4) b3(2,3) r1 r2 r3
    by (simp add: role_rules_def role_and_binding_def)
qed

text \<open>C14 Once an organization with a namespace has been reconciled, a user may read it exactly when some
  member in that namespace refers to the user, and may delete, patch or update it exactly when such a
  member has the role \<open>SuperUser\<close>; nothing else is allowed to a user by name through the
  organization's bindings.\<close>

theorem organization_access:
  assumes "cooperative S" and "os_namespace_ref (organization_spec v) = Some ns"
    and "\<And>t. sv_list S t AMember (in_namespace ns) = Inr (map KMember ms)"
  shows "let r = run_state (ReconcileOrganizationAuthorization S v) []
         in fst r = Ret () \<and>
            cluster_allows (snd r) (user_subject u) verb res name
              = (res = ''organizations'' \<and> name = om_name (organization_meta v) \<and>
                 (verb \<in> {''get'', ''list'', ''watch''} \<and> u \<in> set (map member_user ms)
                  \<or> verb \<in> {''delete'', ''patch'', ''update''}
                    \<and> u \<in> set (map member_user (filter (\<lambda>m. ms_role (member_spec m) = RoleSuperUser) ms))))"
proof -
  obtain t b1 b2 b3 where run: "run_state (ReconcileOrganizationAuthorization S v) [] = (Ret (), t)"
    and b: "cluster_role_bindings t = [b3, b2, b1]"
    and s: "crb_subjects b1 = super_user_subjects_loop ms []"
    "crb_subjects b2 = map (\<lambda>m. user_subject (member_user m)) ms"
    "crb_subjects b3 = [\<lparr>rs_kind = ''Group'', rs_api_group = rbac_GroupName, rs_name = ''dockyards:authenticated''\<rparr>]"
    and r: "role_rules t (rr_name (crb_role_ref b1)) = [\<lparr>pr_verbs = [''delete'', ''patch'', ''update''],
           pr_api_groups = [GroupVersion_Group], pr_resources = [''organizations''],
           pr_resource_names = [om_name (organization_meta v)]\<rparr>]"
    "role_rules t (rr_name (crb_role_ref b2)) = [\<lparr>pr_verbs = [''get'', ''list'', ''watch''],
           pr_api_groups = [GroupVersion_Group], pr_resources = [''organizations''],
           pr_resource_names = [om_name (organization_meta v)]\<rparr>]"
    by (rule run_organization_authorization [OF assms])
  have sub: "user_subject u \<in> set (crb_subjects b1) \<longleftrightarrow>
               u \<in> set (map member_user (filter (\<lambda>m. ms_role (member_spec m) = RoleSuperUser) ms))"
    "user_subject u \<in> set (crb_subjects b2) \<longleftrightarrow> u \<in> set (map member_user ms)"
    "user_subject u \<notin> set (crb_subjects b3)"
    using s by (auto simp: super_user_subjects user_subject_def)
  have "cluster_allows t (user_subject u) verb res name =
          (res = ''organizations'' \<and> name = om_name (organization_meta v) \<and>
           (verb \<in> {''get'', ''list'', ''watch''} \<and> user_subject u \<in> set (crb_subjects b2)
            \<or> verb \<in> {''delete'', ''patch'', ''update''} \<and> user_subject u \<in> set (crb_subjects b1)))"
    using sub(3) by (simp add: cluster_allows_def b cluster_bound_rules_def r rule_allows_def) argo
  then show ?thesis by (simp only: Let_def run sub(1,2) fst_conv snd_conv simp_thms)
qed

definition one_member_server :: server where
  "one_member_server = empty_server\<lparr>sv_list := \<lambda>t k opts. Inr (map KMember
     [zero_member\<lparr>member_spec := \<lparr>ms_role = RoleSuperUser,
        ms_user_ref = \<lparr>tl_api_group = None, tl_kind = ''User'', tl_name = ''alice''\<rparr>\<rparr>\<rparr>])\<rparr>"

lemma one_member_server_cooperative: "cooperative one_member_server"
  by (simp add: cooperative_def one_member_server_def empty_server_def)

lemma organization_access_witness:
  "let v = zero_organization\<lparr>organization_meta := empty_meta\<lparr>om_name := ''o''\<rparr>,
             organization_spec := (organization_spec zero_organization)\<lparr>os_namespace_ref := Some ''ns''\<rparr>\<rparr>;
       t = snd (run_state (ReconcileOrganizationAuthorization one_member_server v) [])
   in cluster_allows t (user_subject ''alice'') ''delete'' ''organizations'' ''o''"
  using organization_access [OF one_member_server_cooperative,
      of "zero_organization\<lparr>organization_meta := empty_meta\<lparr>om_name := ''o''\<rparr>,
             organization_spec := (organization_spec zero_organization)\<lparr>os_namespace_ref := Some ''ns''\<rparr>\<rparr>" "''ns''"
         "[zero_member\<lparr>member_spec := \<lparr>ms_role = RoleSuperUser,
            ms_user_ref = \<lparr>tl_api_group = None, tl_kind = ''User'', tl_name = ''alice''\<rparr>\<rparr>\<rparr>]"
         "''alice''" "''delete''" "''organizations''" "''o''"]
  by (simp add: Let_def one_member_server_def)

text \<open>Reconciling an organization whose namespace reference is still nil panics (the code dereferences
  the reference inside the second callback), after the super-user cluster role has been written and
  before anything is bound to it.\<close>

theorem organization_without_namespace_panics:
  assumes "cooperative S" and "os_namespace_ref (organization_spec v) = None"
  shows "\<exists>t. run_state (ReconcileOrganizationAuthorization S v) [] = (Panic, t)
           \<and> role_rules t (organization_role_name v '':super-user'') \<noteq> []
           \<and> cluster_role_bindings t = []"
proof -
  obtain o1 n1 where 1: "run_state (create_or_patch R_cluster_role S
       (named_cluster_role (organization_role_name v '':super-user''))
       (organization_role_mutate v [''delete'', ''patch'', ''update''] ''organizations'')) []
     = (Ret n1, [CFetch (KClusterRole (named_cluster_role (organization_role_name v '':super-user''))),
                 CCommit (KClusterRole o1) (KClusterRole n1)])"
    and n1: "om_name (cr_meta n1) = organization_role_name v '':super-user''" "cr_rules n1 \<noteq> []"
    using run_organization_role_mutate [OF assms(1), where t = "[]"] by fastforce
  let ?t = "[CFetch (KClusterRole (named_cluster_role (organization_role_name v '':super-user''))),
             CCommit (KClusterRole o1) (KClusterRole n1)]"
  let ?b = "named_cluster_role_binding (organization_role_name v '':super-users'')"
  have "run_state (super_user_binding_mutate S v n b) t = (Panic, t)" for n b t
    using assms(2) by (cases "om_labels (crb_meta b)") (auto simp: super_user_binding_mutate_def Let_def make_map_def)
  then have "run_state (create_or_patch R_cluster_role_binding S ?b
               (super_user_binding_mutate S v (om_name (cr_meta n1)))) ?t
             = (Panic, ?t @ [CFetch (rk_wrap R_cluster_role_binding ?b)])"
    by (rule cluster_role_binding_resource.run_create_or_patch_panic [OF assms(1)])
  moreover have "rk_wrap R_cluster_role_binding = KClusterRoleBinding"
    by (simp add: R_cluster_role_binding_def)
  ultimately have "run_state (ReconcileOrganizationAuthorization S v) [] = (Panic, ?t @ [CFetch (KClusterRoleBinding ?b)])"
    by (simp add: ReconcileOrganizationAuthorization_def ReconcileOrganizationSuperUserClusterRole_def
        run_go_bind_Panic run_go_bind_Ret [OF 1])
  then show ?thesis using n1 by (auto simp: role_rules_def cluster_role_bindings_def)
qed

lemma organization_without_namespace_panics_witness:
  "\<exists>t. run_state (ReconcileOrganizationAuthorization empty_server zero_organization) [] = (Panic, t)"
  using organization_without_namespace_panics [OF empty_server_cooperative, of zero_organization]
  by (auto simp: zero_organization_def)

end
