(* ===== verification/Auth_Config.thy ===== *)
theory Auth_Config
  imports Client
begin

text \<open>
  The conversions between the HTTP API's types and the stored cluster specification in
  \<open>internal/api/v1/handlers/clusters.go\<close>: the authentication configuration of a cluster's API server
  and the advanced options, in both directions, with the validation errors the parsers collect.

  A pointer is an option; a pointer to a slice is an option of a list option, since the code tells a
  nil pointer, a nil slice and an empty slice apart. The list of validation errors is threaded
  through (\<open>errs\<close>); \<open>None\<close> is the nil pointer, for which \<open>add\<close> does nothing. JSON and YAML coding are
  library functions (\<open>patch_lib\<close>).
\<close>

subsection \<open>The API's types\<close>

datatype json = JNull | JBool bool | JNum int | JString string | JArray "json list" | JObject "(string \<times> json) list"

type_synonym patch_map = "(string \<times> json) list"

record t_prefixed_claim_or_expression =
  tp_claim :: "string option"
  tp_expression :: "string option"
  tp_prefix :: "string option"

record t_claim_or_expression =
  tc_claim :: "string option"
  tc_expression :: "string option"

record t_extra_mapping =
  te_key :: string
  te_value_expression :: string

record t_claim_mappings =
  tm_extra :: "t_extra_mapping list option option"
  tm_groups :: "t_prefixed_claim_or_expression option"
  tm_uid :: "t_claim_or_expression option"
  tm_username :: t_prefixed_claim_or_expression

record t_claim_validation_rule =
  tv_claim :: "string option"
  tv_expression :: "string option"
  tv_message :: "string option"
  tv_required_value :: "string option"

record t_user_validation_rule =
  tu_expression :: string
  tu_message :: "string option"

record t_issuer =
  ti_audience_match_policy :: "string option"
  ti_audiences :: "string list option"
  ti_certificate_authority :: "string option"
  ti_discovery_url :: "string option"
  ti_egress_selector_type :: "string option"
  ti_url :: string

record t_jwt_authenticator =
  tj_claim_mappings :: t_claim_mappings
  tj_claim_validation_rules :: "t_claim_validation_rule list option option"
  tj_issuer :: t_issuer
  tj_user_validation_rules :: "t_user_validation_rule list option option"

record t_anonymous_condition =
  ta_path :: "string option"

record t_anonymous_config =
  ta_conditions :: "t_anonymous_condition list option option"
  ta_enabled :: "bool option"

record t_authentication_configuration =
  t_anonymous :: "t_anonymous_config option"
  t_jwt :: "t_jwt_authenticator list option"

record t_talos_options =
  tt_shared :: "patch_map list option option"
  tt_control_plane :: "patch_map list option option"
  tt_worker :: "patch_map list option option"

record t_kubevirt_options =
  tk_talos :: "t_talos_options option"

record t_advanced_options =
  tad_kubevirt :: "t_kubevirt_options option"

record patch_lib =
  lib_json_marshal :: "patch_map \<Rightarrow> goerr + string"
  lib_json_unmarshal :: "string \<Rightarrow> goerr + patch_map"
  lib_yaml_unmarshal :: "string \<Rightarrow> goerr + patch_map"

subsection \<open>Helpers\<close>

type_synonym errs = "field_error list option"
type_synonym field_path = "path_elem list"

definition add :: "errs \<Rightarrow> field_error \<Rightarrow> errs" where
  "add errs e = (case errs of None \<Rightarrow> None | Some es \<Rightarrow> Some (es @ [e]))"

definition deref :: "'a \<Rightarrow> 'a option \<Rightarrow> 'a" where
  "deref zero value = (case value of None \<Rightarrow> zero | Some v \<Rightarrow> v)"

fun popcount_loop :: "nat \<Rightarrow> string list \<Rightarrow> nat" where
  "popcount_loop c [] = c"
| "popcount_loop c (e # es) = (if e = [] then popcount_loop c es else popcount_loop (c + 1) es)"

definition popcount :: "string list \<Rightarrow> nat" where
  "popcount v = popcount_loop 0 v"

definition toString :: "string \<Rightarrow> string option" where
  "toString value = (if value = [] then None else Some value)"

definition clone :: "string option \<Rightarrow> string option" where
  "clone value = (case value of None \<Rightarrow> None | Some v \<Rightarrow> Some v)"

definition zero_prefixed :: t_prefixed_claim_or_expression where
  "zero_prefixed = \<lparr>tp_claim = None, tp_expression = None, tp_prefix = None\<rparr>"

definition zero_claim_or_expression :: t_claim_or_expression where
  "zero_claim_or_expression = \<lparr>tc_claim = None, tc_expression = None\<rparr>"

lemma deref_simps [simp]: "deref z None = z" "deref z (Some v) = v"
  by (simp_all add: deref_def)

lemma deref_toString [simp]: "deref [] (toString s) = s"
  by (simp add: toString_def)

lemma clone_id [simp]: "clone v = v"
  by (simp add: clone_def split: option.split)

lemma popcount_loop_add: "popcount_loop c v = c + popcount_loop 0 v"
proof (induction v arbitrary: c)
  case (Cons e v)
  show ?case
    using Cons.IH [of c] Cons.IH [of "c + 1"] Cons.IH [of 1] by simp
qed simp

lemma popcount_filter: "popcount v = length (filter (\<lambda>e. e \<noteq> []) v)"
  unfolding popcount_def
proof (induction v)
  case (Cons e v)
  then show ?case using popcount_loop_add [of 1 v] by simp
qed simp

subsection \<open>Parsing: claims\<close>

definition parsePrefixedClaimOrExpression ::
  "t_prefixed_claim_or_expression \<Rightarrow> field_path \<Rightarrow> errs \<Rightarrow> av_prefixed_claim_or_expression \<times> errs"
where
  "parsePrefixedClaimOrExpression value path errs =
     (let claim = deref [] (tp_claim value);
          expression = deref [] (tp_expression value);
          prefix = tp_prefix value;
          errs = (if popcount [claim, expression] > 1
                  then add errs (FieldInvalid path BadStruct ''.Claim and .Expression are mutually exclusive'')
                  else errs);
          errs = (if claim \<noteq> [] \<and> prefix = None
                  then add errs (FieldInvalid path BadStruct
                         ''If .Claim is set, .Prefix must be set (can be the empty string)'')
                  else errs)
      in (\<lparr>ap_claim = deref [] (tp_claim value), ap_prefix = tp_prefix value,
           ap_expression = deref [] (tp_expression value)\<rparr>, errs))"

definition parseClaimOrExpression ::
  "t_claim_or_expression \<Rightarrow> field_path \<Rightarrow> errs \<Rightarrow> av_claim_or_expression \<times> errs"
where
  "parseClaimOrExpression value path errs =
     (let claim = deref [] (tc_claim value);
          expression = deref [] (tc_expression value);
          errs = (if popcount [claim, expression] > 1
                  then add errs (FieldInvalid path BadStruct ''.Claim and .Expression are mutually exclusive'')
                  else errs)
      in (\<lparr>ac_claim = deref [] (tc_claim value), ac_expression = deref [] (tc_expression value)\<rparr>, errs))"

text \<open>The loop of \<open>parseExtraMapping\<close> ranges over the freshly made \<open>result\<close>, not over the request:
  the elements it reads are the zero values of the result. \<open>ascii_lower\<close> is \<open>strings.ToLower\<close> on ASCII
  bytes; the only key the loop ever sees is the empty string.\<close>

definition ascii_lower :: "char \<Rightarrow> char" where
  "ascii_lower c =
     (let n = (of_char c :: nat) in if 65 \<le> n \<and> n \<le> 90 then char_of (n + 32) else c)"

fun extra_loop ::
  "field_path \<Rightarrow> nat \<Rightarrow> string set \<Rightarrow> av_extra_mapping list \<Rightarrow> errs \<Rightarrow> av_extra_mapping list \<times> errs"
where
  "extra_loop path i seen [] errs = ([], errs)"
| "extra_loop path i seen (e # es) errs =
     (let p = path @ [Index i];
          errs = (if ae_key e \<noteq> map ascii_lower (ae_key e)
                  then add errs (FieldInvalid (p @ [Child ''key'']) (BadString (ae_key e)) ''must be lowercase'')
                  else errs);
          errs = (if ae_key e \<in> seen
                  then add errs (FieldDuplicate (p @ [Child ''key'']) (BadString (ae_key e)))
                  else errs);
          r = \<lparr>ae_key = ae_key e, ae_value_expression = ae_value_expression e\<rparr>;
          rest = extra_loop path (i + 1) (insert (ae_key e) seen) es errs
      in (r # fst rest, snd rest))"

definition parseExtraMapping ::
  "t_extra_mapping list option option \<Rightarrow> field_path \<Rightarrow> errs \<Rightarrow> av_extra_mapping list option \<times> errs"
where
  "parseExtraMapping value path errs =
     (case value of
        None \<Rightarrow> (None, errs)
      | Some None \<Rightarrow> (None, errs)
      | Some (Some v) \<Rightarrow>
          (let result = replicate (length v) \<lparr>ae_key = [], ae_value_expression = []\<rparr>;
               r = extra_loop path 0 {} result errs
           in (Some (fst r), snd r)))"

definition parseClaimMappings ::
  "t_claim_mappings \<Rightarrow> field_path \<Rightarrow> errs \<Rightarrow> av_claim_mappings \<times> errs"
where
  "parseClaimMappings value path errs =
     (let (username, errs) = parsePrefixedClaimOrExpression (tm_username value) (path @ [Child ''username'']) errs;
          (groups, errs) = parsePrefixedClaimOrExpression (deref zero_prefixed (tm_groups value)) (path @ [Child ''groups'']) errs;
          (uid, errs) = parseClaimOrExpression (deref zero_claim_or_expression (tm_uid value)) (path @ [Child ''uid'']) errs;
          (extra, errs) = parseExtraMapping (tm_extra value) (path @ [Child ''extra'']) errs
      in (\<lparr>am_username = username, am_groups = groups, am_uid = uid, am_extra = extra\<rparr>, errs))"

text \<open>\<open>expression\<close> is read from \<open>RequiredValue\<close>, as in the source.\<close>

definition claim_rule_errors ::
  "string \<Rightarrow> string \<Rightarrow> string \<Rightarrow> string \<Rightarrow> field_path \<Rightarrow> errs \<Rightarrow> errs"
where
  "claim_rule_errors claim requiredValue expression message p errs =
     (let errs = (if popcount [claim, expression, message] > 1
                  then add errs (FieldInvalid p BadStruct ''.Claim, .Expression and .Message are mutually exclusive'') else errs);
          errs = (if popcount [expression, claim, requiredValue] > 1
                  then add errs (FieldInvalid p BadStruct ''.Expression, .Claim and .RequiredValue are mutually exclusive'') else errs);
          errs = (if popcount [message, claim, requiredValue] > 1
                  then add errs (FieldInvalid p BadStruct ''.Message, .Claim and .RequiredValue are mutually exclusive'') else errs);
          errs = (if popcount [requiredValue, expression, message] > 1
                  then add errs (FieldInvalid p BadStruct ''.RequiredValue, .Expression and .Message are mutually exclusive'') else errs)
      in if requiredValue = [] \<and> claim \<noteq> []
         then add errs (FieldInvalid p BadStruct ''If .Claim is set and .RequiredValue is not set, the claim must be present with a value set to the empty string'')
         else errs)"

fun claim_rules_loop ::
  "field_path \<Rightarrow> nat \<Rightarrow> t_claim_validation_rule list \<Rightarrow> errs \<Rightarrow> av_claim_validation_rule list \<times> errs"
where
  "claim_rules_loop path i [] errs = ([], errs)"
| "claim_rules_loop path i (e # es) errs =
     (let p = path @ [Index i];
          claim = deref [] (tv_claim e);
          requiredValue = deref [] (tv_required_value e);
          expression = deref [] (tv_required_value e);
          message = deref [] (tv_message e);
          errs = claim_rule_errors claim requiredValue expression message p errs;
          r = \<lparr>av_claim = claim, av_required_value = requiredValue, av_expression = expression, av_message = message\<rparr>;
          rest = claim_rules_loop path (i + 1) es errs
      in (r # fst rest, snd rest))"

definition parseClaimValidationRules ::
  "t_claim_validation_rule list option option \<Rightarrow> field_path \<Rightarrow> errs \<Rightarrow> av_claim_validation_rule list option \<times> errs"
where
  "parseClaimValidationRules value path errs =
     (case value of
        None \<Rightarrow> (None, errs)
      | Some None \<Rightarrow> (None, errs)
      | Some (Some v) \<Rightarrow> (let r = claim_rules_loop path 0 v errs in (Some (fst r), snd r)))"

definition parseUserValidationRules ::
  "t_user_validation_rule list option option \<Rightarrow> field_path \<Rightarrow> errs \<Rightarrow> av_user_validation_rule list option \<times> errs"
where
  "parseUserValidationRules value path errs =
     (case value of
        None \<Rightarrow> (None, errs)
      | Some None \<Rightarrow> (None, errs)
      | Some (Some v) \<Rightarrow>
          (Some (map (\<lambda>e. \<lparr>au_expression = tu_expression e, au_message = deref [] (tu_message e)\<rparr>) v), errs))"

subsection \<open>Parsing: issuer and authenticators\<close>

definition parseAudienceMatchPolicy :: "string option \<Rightarrow> field_path \<Rightarrow> errs \<Rightarrow> string \<times> errs" where
  "parseAudienceMatchPolicy value path errs = (case value of None \<Rightarrow> ([], errs) | Some v \<Rightarrow> (v, errs))"

definition parseEgressSelectorType :: "string option \<Rightarrow> field_path \<Rightarrow> errs \<Rightarrow> string \<times> errs" where
  "parseEgressSelectorType value path errs = (case value of None \<Rightarrow> ([], errs) | Some v \<Rightarrow> (v, errs))"

fun audiences_loop :: "field_path \<Rightarrow> nat \<Rightarrow> string list \<Rightarrow> errs \<Rightarrow> errs" where
  "audiences_loop path i [] errs = errs"
| "audiences_loop path i (e # es) errs =
     audiences_loop path (i + 1) es
       (if e = [] then add errs (FieldRequired (path @ [Child ''audiences'', Index i]) []) else errs)"

definition parseIssuer :: "t_issuer \<Rightarrow> field_path \<Rightarrow> errs \<Rightarrow> av_issuer \<times> errs" where
  "parseIssuer value path errs =
     (let errs = (case ti_discovery_url value of
                    None \<Rightarrow> errs
                  | Some d \<Rightarrow>
                      if ti_url value = d
                      then add errs (FieldInvalid (path @ [Child ''discovery_url'']) (BadString (ti_url value))
                             ''must be different from .URL'')
                      else errs);
          errs = audiences_loop path 0 (deref [] (ti_audiences value)) errs;
          (policy, errs) = parseAudienceMatchPolicy (ti_audience_match_policy value) (path @ [Child ''audience_match_policy'']) errs;
          (egress, errs) = parseEgressSelectorType (ti_egress_selector_type value) (path @ [Child ''egress_selector_type'']) errs
      in (\<lparr>ai_url = ti_url value, ai_discovery_url = ti_discovery_url value,
           ai_certificate_authority = deref [] (ti_certificate_authority value),
           ai_audiences = ti_audiences value, ai_audience_match_policy = policy,
           ai_egress_selector_type = egress\<rparr>, errs))"

fun jwt_loop ::
  "field_path \<Rightarrow> nat \<Rightarrow> string set \<Rightarrow> t_jwt_authenticator list \<Rightarrow> errs \<Rightarrow> av_jwt_authenticator list \<times> errs"
where
  "jwt_loop path i urls [] errs = ([], errs)"
| "jwt_loop path i urls (e # es) errs =
     (let p = path @ [Index i];
          errs = (if ti_url (tj_issuer e) \<in> urls
                  then add errs (FieldDuplicate (p @ [Child ''issuer'', Child ''url'']) (BadString (ti_url (tj_issuer e))))
                  else errs);
          (issuer, errs) = parseIssuer (tj_issuer e) (p @ [Child ''issuer'']) errs;
          (rules, errs) = parseClaimValidationRules (tj_claim_validation_rules e) (p @ [Child ''claim_validation_rules'']) errs;
          (mappings, errs) = parseClaimMappings (tj_claim_mappings e) (p @ [Child ''claim_mappings'']) errs;
          (user_rules, errs) = parseUserValidationRules (tj_user_validation_rules e) (p @ [Child ''user_validation_rules'']) errs;
          r = \<lparr>aj_issuer = issuer, aj_claim_validation_rules = rules, aj_claim_mappings = mappings,
               aj_user_validation_rules = user_rules\<rparr>;
          rest = jwt_loop path (i + 1) (insert (ti_url (tj_issuer e)) urls) es errs
      in (r # fst rest, snd rest))"

definition parseJWTAuthenticator ::
  "t_jwt_authenticator list option \<Rightarrow> field_path \<Rightarrow> errs \<Rightarrow> av_jwt_authenticator list option \<times> errs"
where
  "parseJWTAuthenticator value path errs =
     (case value of
        None \<Rightarrow> (None, errs)
      | Some v \<Rightarrow> (let r = jwt_loop path 0 {} v errs in (Some (fst r), snd r)))"

definition parseAnonymousAuthCondition ::
  "t_anonymous_condition list option option \<Rightarrow> field_path \<Rightarrow> errs \<Rightarrow> av_anonymous_condition list option \<times> errs"
where
  "parseAnonymousAuthCondition value path errs =
     (case value of
        None \<Rightarrow> (None, errs)
      | Some None \<Rightarrow> (None, errs)
      | Some (Some v) \<Rightarrow> (Some (map (\<lambda>e. \<lparr>aa_path = deref [] (ta_path e)\<rparr>) v), errs))"

definition parseAnonymousAuthConfig ::
  "t_anonymous_config option \<Rightarrow> field_path \<Rightarrow> errs \<Rightarrow> av_anonymous_config option \<times> errs"
where
  "parseAnonymousAuthConfig value path errs =
     (case value of
        None \<Rightarrow> (None, errs)
      | Some v \<Rightarrow>
          (let (conditions, errs) = parseAnonymousAuthCondition (ta_conditions v) (path @ [Child ''conditions'']) errs
           in (Some \<lparr>aa_enabled = deref False (ta_enabled v), aa_conditions = conditions\<rparr>, errs)))"

definition parseAuthenticationConfiguration ::
  "t_authentication_configuration option \<Rightarrow> field_path \<Rightarrow> errs \<Rightarrow> av_authentication_configuration option \<times> errs"
where
  "parseAuthenticationConfiguration value path errs =
     (case value of
        None \<Rightarrow> (None, errs)
      | Some v \<Rightarrow>
          (let (jwt, errs) = parseJWTAuthenticator (t_jwt v) (path @ [Child ''jwt'']) errs;
               (anonymous, errs) = parseAnonymousAuthConfig (t_anonymous v) (path @ [Child ''anonymous'']) errs
           in (Some \<lparr>aac_kind = ''AuthenticationConfiguration'', aac_api_version = ''apiserver.config.k8s.io/v1'',
                     aac_jwt = jwt, aac_anonymous = anonymous\<rparr>, errs)))"

subsection \<open>Parsing: advanced options\<close>

fun patches_loop :: "patch_lib \<Rightarrow> field_path \<Rightarrow> nat \<Rightarrow> patch_map list \<Rightarrow> errs \<Rightarrow> patch list \<times> errs" where
  "patches_loop L path i [] errs = ([], errs)"
| "patches_loop L path i (value # vs) errs =
     (case lib_json_marshal L value of
        Inl e \<Rightarrow> patches_loop L path (i + 1) vs
                   (add errs (FieldTypeInvalid (path @ [Index i]) BadStruct ''this value could not be encoded to JSON''))
      | Inr data \<Rightarrow> (let rest = patches_loop L path (i + 1) vs errs in (\<lparr>pt_raw = data\<rparr> # fst rest, snd rest)))"

definition parsePatches :: "patch_lib \<Rightarrow> patch_map list option option \<Rightarrow> field_path \<Rightarrow> errs \<Rightarrow> patch list \<times> errs" where
  "parsePatches L input path errs =
     (case input of
        None \<Rightarrow> ([], errs)
      | Some None \<Rightarrow> ([], errs)
      | Some (Some v) \<Rightarrow> patches_loop L path 0 v errs)"

definition parseTalosOptions ::
  "patch_lib \<Rightarrow> t_talos_options option \<Rightarrow> field_path \<Rightarrow> errs \<Rightarrow> cluster_talos_options \<times> errs"
where
  "parseTalosOptions L value path errs =
     (case value of
        None \<Rightarrow> (\<lparr>ct_shared = [], ct_control_plane = [], ct_worker = []\<rparr>, errs)
      | Some v \<Rightarrow>
          (let (shared, errs) = parsePatches L (tt_shared v) (path @ [Child ''additional_shared_config_patches'']) errs;
               (control, errs) = parsePatches L (tt_control_plane v) (path @ [Child ''additional_control_plane_config_patches'']) errs;
               (worker, errs) = parsePatches L (tt_worker v) (path @ [Child ''additional_worker_config_patches'']) errs
           in (\<lparr>ct_shared = shared, ct_control_plane = control, ct_worker = worker\<rparr>, errs)))"

definition parseKubevirtConfig ::
  "patch_lib \<Rightarrow> t_kubevirt_options option \<Rightarrow> field_path \<Rightarrow> errs \<Rightarrow> cluster_kubevirt_options \<times> errs"
where
  "parseKubevirtConfig L value path errs =
     (case value of
        None \<Rightarrow> (\<lparr>ck_talos = \<lparr>ct_shared = [], ct_control_plane = [], ct_worker = []\<rparr>\<rparr>, errs)
      | Some v \<Rightarrow>
          (let (talos, errs) = parseTalosOptions L (tk_talos v) (path @ [Child ''talos'']) errs
           in (\<lparr>ck_talos = talos\<rparr>, errs)))"

definition parseAdvancedOptions ::
  "patch_lib \<Rightarrow> t_advanced_options option \<Rightarrow> field_path \<Rightarrow> errs \<Rightarrow> cluster_advanced_options \<times> errs"
where
  "parseAdvancedOptions L value path errs =
     (case value of
        None \<Rightarrow> (\<lparr>ca_kubevirt = \<lparr>ck_talos = \<lparr>ct_shared = [], ct_control_plane = [], ct_worker = []\<rparr>\<rparr>\<rparr>, errs)
      | Some v \<Rightarrow>
          (let (kubevirt, errs) = parseKubevirtConfig L (tad_kubevirt v) (path @ [Child ''kubevirt'']) errs
           in (\<lparr>ca_kubevirt = kubevirt\<rparr>, errs)))"

subsection \<open>Rendering\<close>

definition toPrefixedClaimOrExpression ::
  "av_prefixed_claim_or_expression \<Rightarrow> t_prefixed_claim_or_expression option"
where
  "toPrefixedClaimOrExpression value =
     (if value = \<lparr>ap_claim = [], ap_prefix = None, ap_expression = []\<rparr> then None
      else Some \<lparr>tp_claim = toString (ap_claim value), tp_expression = toString (ap_expression value),
                 tp_prefix = clone (ap_prefix value)\<rparr>)"

definition toClaimOrExpression :: "av_claim_or_expression \<Rightarrow> t_claim_or_expression option" where
  "toClaimOrExpression value =
     (if value = \<lparr>ac_claim = [], ac_expression = []\<rparr> then None
      else Some \<lparr>tc_claim = toString (ac_claim value), tc_expression = toString (ac_expression value)\<rparr>)"

text \<open>Both loops below range over the freshly made result.\<close>

definition toExtraMapping :: "av_extra_mapping list option \<Rightarrow> t_extra_mapping list option option" where
  "toExtraMapping value =
     (case value of
        None \<Rightarrow> None
      | Some v \<Rightarrow>
          (let result = replicate (length v) \<lparr>te_key = [], te_value_expression = []\<rparr>
           in Some (Some (map (\<lambda>e. \<lparr>te_key = te_key e, te_value_expression = te_value_expression e\<rparr>) result))))"

definition toUserValidationRules ::
  "av_user_validation_rule list option \<Rightarrow> t_user_validation_rule list option option"
where
  "toUserValidationRules value =
     (case value of
        None \<Rightarrow> None
      | Some v \<Rightarrow>
          (let result = replicate (length v) \<lparr>tu_expression = [], tu_message = None\<rparr>
           in Some (Some (map (\<lambda>e. \<lparr>tu_expression = tu_expression e, tu_message = clone (tu_message e)\<rparr>) result))))"

definition toClaimMappings :: "av_claim_mappings \<Rightarrow> t_claim_mappings" where
  "toClaimMappings value =
     \<lparr>tm_extra = toExtraMapping (am_extra value),
      tm_groups = toPrefixedClaimOrExpression (am_groups value),
      tm_uid = toClaimOrExpression (am_uid value),
      tm_username = deref zero_prefixed (toPrefixedClaimOrExpression (am_username value))\<rparr>"

definition toClaimValidationRules ::
  "av_claim_validation_rule list option \<Rightarrow> t_claim_validation_rule list option option"
where
  "toClaimValidationRules value =
     (case value of
        None \<Rightarrow> None
      | Some v \<Rightarrow> Some (Some (map (\<lambda>e. \<lparr>tv_claim = toString (av_claim e), tv_expression = toString (av_expression e),
                                tv_message = toString (av_message e), tv_required_value = toString (av_required_value e)\<rparr>) v)))"

definition toIssuer :: "av_issuer \<Rightarrow> t_issuer" where
  "toIssuer value =
     \<lparr>ti_audience_match_policy = toString (ai_audience_match_policy value), ti_audiences = ai_audiences value,
      ti_certificate_authority = toString (ai_certificate_authority value),
      ti_discovery_url = ai_discovery_url value,
      ti_egress_selector_type = toString (ai_egress_selector_type value), ti_url = ai_url value\<rparr>"

definition toJwtAuthenticator :: "av_jwt_authenticator list option \<Rightarrow> t_jwt_authenticator list option" where
  "toJwtAuthenticator value =
     (case value of
        None \<Rightarrow> None
      | Some v \<Rightarrow> Some (map (\<lambda>e. \<lparr>tj_claim_mappings = toClaimMappings (aj_claim_mappings e),
                        tj_claim_validation_rules = toClaimValidationRules (aj_claim_validation_rules e),
                        tj_issuer = toIssuer (aj_issuer e),
                        tj_user_validation_rules = toUserValidationRules (aj_user_validation_rules e)\<rparr>) v))"

definition toAnonymousAuthConditions ::
  "av_anonymous_condition list option \<Rightarrow> t_anonymous_condition list option option"
where
  "toAnonymousAuthConditions value =
     (case value of None \<Rightarrow> None | Some v \<Rightarrow> Some (Some (map (\<lambda>e. \<lparr>ta_path = toString (aa_path e)\<rparr>) v)))"

definition toAnonymousAuthConfig :: "av_anonymous_config option \<Rightarrow> t_anonymous_config option" where
  "toAnonymousAuthConfig value =
     (case value of
        None \<Rightarrow> None
      | Some v \<Rightarrow> Some \<lparr>ta_conditions = toAnonymousAuthConditions (aa_conditions v), ta_enabled = Some (aa_enabled v)\<rparr>)"

definition toAuthenticationConfiguration ::
  "av_authentication_configuration option \<Rightarrow> t_authentication_configuration option"
where
  "toAuthenticationConfiguration value =
     (case value of
        None \<Rightarrow> None
      | Some v \<Rightarrow> Some \<lparr>t_anonymous = toAnonymousAuthConfig (aac_anonymous v), t_jwt = toJwtAuthenticator (aac_jwt v)\<rparr>)"

fun to_patches_loop :: "patch_lib \<Rightarrow> patch list \<Rightarrow> patch_map list" where
  "to_patches_loop L [] = []"
| "to_patches_loop L (v # vs) =
     (case lib_json_unmarshal L (pt_raw v) of
        Inr patch \<Rightarrow> patch # to_patches_loop L vs
      | Inl e \<Rightarrow>
          (case lib_yaml_unmarshal L (pt_raw v) of
             Inr patch \<Rightarrow> patch # to_patches_loop L vs
           | Inl e' \<Rightarrow> to_patches_loop L vs))"

definition toPatches :: "patch_lib \<Rightarrow> patch list \<Rightarrow> patch_map list option option" where
  "toPatches L value = (if length value = 0 then None else Some (Some (to_patches_loop L value)))"

definition toClusterTalosOptions :: "patch_lib \<Rightarrow> cluster_talos_options \<Rightarrow> t_talos_options option" where
  "toClusterTalosOptions L value =
     (if ClusterTalosOptions_IsZero value then None
      else Some \<lparr>tt_shared = toPatches L (ct_shared value), tt_control_plane = toPatches L (ct_control_plane value),
                 tt_worker = toPatches L (ct_worker value)\<rparr>)"

definition toClusterKubevirtOptions :: "patch_lib \<Rightarrow> cluster_kubevirt_options \<Rightarrow> t_kubevirt_options option" where
  "toClusterKubevirtOptions L value =
     (if ClusterKubevirtOptions_IsZero value then None
      else Some \<lparr>tk_talos = toClusterTalosOptions L (ck_talos value)\<rparr>)"

definition toClusterAdvancedOptions :: "patch_lib \<Rightarrow> cluster_advanced_options \<Rightarrow> t_advanced_options option" where
  "toClusterAdvancedOptions L value =
     (if ClusterAdvancedOptions_IsZero value then None
      else Some \<lparr>tad_kubevirt = toClusterKubevirtOptions L (ca_kubevirt value)\<rparr>)"

subsection \<open>Parsers only collect errors\<close>

text \<open>
  Every parser computes its result from the request alone and appends its errors to those collected
  before. The locale states this law and is interpreted for the parsers; what follows from it is
  that a nil error list changes nothing, that no error is ever lost, and that the request is
  accepted exactly when the parser adds nothing.
\<close>

definition add_all :: "errs \<Rightarrow> field_error list \<Rightarrow> errs" where
  "add_all errs new = map_option (\<lambda>es. es @ new) errs"

definition collects :: "(errs \<Rightarrow> 'b \<times> errs) \<Rightarrow> bool" where
  "collects g = (\<exists>x new. \<forall>errs. g errs = (x, add_all errs new))"

lemma add_all_Nil [simp]: "add_all errs [] = errs"
  by (cases errs) (simp_all add: add_all_def)

lemma add_all_add_all [simp]: "add_all (add_all errs a) b = add_all errs (a @ b)"
  by (cases errs) (simp_all add: add_all_def)

lemma add_is_add_all: "add errs e = add_all errs [e]"
  by (cases errs) (simp_all add: add_def add_all_def)

definition only_adds :: "(errs \<Rightarrow> errs) \<Rightarrow> bool" where
  "only_adds f = (\<exists>new. \<forall>errs. f errs = add_all errs new)"

named_theorems collecting \<open>rules that show a parser collects\<close>

lemma only_adds_id [collecting]: "only_adds (\<lambda>errs. errs)"
  unfolding only_adds_def by (intro exI [of _ "[]"]) simp

lemma only_adds_add [collecting]: "only_adds (\<lambda>errs. add errs e)"
  unfolding only_adds_def by (intro exI [of _ "[e]"]) (simp add: add_is_add_all)

lemma only_adds_if [collecting]: "only_adds f \<Longrightarrow> only_adds g \<Longrightarrow> only_adds (\<lambda>errs. if b then f errs else g errs)"
  by (cases b) simp_all

lemma only_adds_case_option [collecting]:
  "only_adds f \<Longrightarrow> (\<And>x. only_adds (g x)) \<Longrightarrow> only_adds (\<lambda>errs. case v of None \<Rightarrow> f errs | Some x \<Rightarrow> g x errs)"
  by (cases v) simp_all

lemma only_adds_comp:
  assumes "only_adds f" and "only_adds g"
  shows "only_adds (\<lambda>errs. g (f errs))"
proof -
  obtain a b where "\<And>errs. f errs = add_all errs a" "\<And>errs. g errs = add_all errs b"
    using assms unfolding only_adds_def by blast
  then show ?thesis unfolding only_adds_def by (intro exI [of _ "a @ b"]) simp
qed

lemma only_adds_Let [collecting]: "only_adds f \<Longrightarrow> only_adds g \<Longrightarrow> only_adds (\<lambda>errs. Let (f errs) g)"
  unfolding Let_def by (rule only_adds_comp)

lemma collects_pure [collecting]: "collects (\<lambda>errs. (x, errs))"
  unfolding collects_def by (intro exI [of _ x] exI [of _ "[]"]) simp

lemma collects_const_Let [collecting]: "collects (g c) \<Longrightarrow> collects (\<lambda>errs. Let c (\<lambda>x. g x errs))"
  by simp

lemma collects_after:
  assumes "only_adds f" and "collects g"
  shows "collects (\<lambda>errs. g (f errs))"
proof -
  obtain a where f: "\<And>errs. f errs = add_all errs a" using assms(1) unfolding only_adds_def by blast
  obtain y b where g: "\<And>errs. g errs = (y, add_all errs b)" using assms(2) unfolding collects_def by blast
  show ?thesis unfolding collects_def by (intro exI [of _ y] exI [of _ "a @ b"]) (simp add: f g)
qed

lemma collects_Let [collecting]: "only_adds f \<Longrightarrow> collects g \<Longrightarrow> collects (\<lambda>errs. Let (f errs) g)"
  unfolding Let_def by (rule collects_after)

lemma collects_pair:
  assumes "collects g" and "\<And>x. collects (h x)"
  shows "collects (\<lambda>errs. case g errs of (x, errs') \<Rightarrow> h x errs')"
proof -
  obtain x a where g: "\<And>errs. g errs = (x, add_all errs a)" using assms(1) unfolding collects_def by blast
  obtain y b where h: "\<And>errs. h x errs = (y, add_all errs b)" using assms(2) [of x] unfolding collects_def by blast
  show ?thesis unfolding collects_def by (intro exI [of _ y] exI [of _ "a @ b"]) (simp add: g h)
qed

lemma collects_Let_pair [collecting]:
  "collects g \<Longrightarrow> (\<And>x. collects (h x)) \<Longrightarrow> collects (\<lambda>errs. Let (g errs) (\<lambda>(x, errs'). h x errs'))"
  unfolding Let_def by (rule collects_pair)

lemma collects_Let_result [collecting]:
  assumes "collects g"
  shows "collects (\<lambda>errs. Let (g errs) (\<lambda>r. (f (fst r), snd r)))"
proof -
  obtain x a where g: "\<And>errs. g errs = (x, add_all errs a)" using assms unfolding collects_def by blast
  show ?thesis unfolding collects_def by (intro exI [of _ "f x"] exI [of _ a]) (simp add: g)
qed

lemma collects_case_option [collecting]:
  "collects f \<Longrightarrow> (\<And>x. collects (g x)) \<Longrightarrow> collects (\<lambda>errs. case v of None \<Rightarrow> f errs | Some x \<Rightarrow> g x errs)"
  by (cases v) simp_all

lemma collects_case_sum [collecting]:
  "(\<And>x. collects (f x)) \<Longrightarrow> (\<And>x. collects (g x)) \<Longrightarrow> collects (\<lambda>errs. case v of Inl x \<Rightarrow> f x errs | Inr x \<Rightarrow> g x errs)"
  by (cases v) simp_all

locale parser =
  fixes parse :: "'a \<Rightarrow> field_path \<Rightarrow> errs \<Rightarrow> 'b \<times> errs"
  assumes collecting: "collects (parse v p)"
begin

definition errors :: "'a \<Rightarrow> field_path \<Rightarrow> field_error list" where
  "errors v p = (case snd (parse v p (Some [])) of None \<Rightarrow> [] | Some es \<Rightarrow> es)"

lemma parse_eq: "parse v p errs = (fst (parse v p None), add_all errs (errors v p))"
  using collecting [of v p] unfolding collects_def errors_def by (auto simp: add_all_def)

lemma value_independent: "fst (parse v p errs) = fst (parse v p errs')"
  using parse_eq [of v p errs] parse_eq [of v p errs'] by simp

lemma nil_errors: "snd (parse v p None) = None"
  using parse_eq [of v p None] by (metis add_all_def option.map(1) snd_conv)

lemma errors_appended: "snd (parse v p (Some es)) = Some (es @ errors v p)"
  using parse_eq [of v p "Some es"] by (simp add: add_all_def)

end

interpretation prefixed_parser: parser parsePrefixedClaimOrExpression
  by unfold_locales (unfold parsePrefixedClaimOrExpression_def, intro collecting)

interpretation claim_parser: parser parseClaimOrExpression
  by unfold_locales (unfold parseClaimOrExpression_def, intro collecting)

lemma extra_loop_collects [collecting]: "collects (extra_loop path i seen es)"
proof (induction es arbitrary: i seen)
  case Nil
  show ?case by (subst extra_loop.simps(1) [abs_def]) (intro collecting)
next
  case (Cons e es)
  show ?case by (subst extra_loop.simps(2) [abs_def]) (intro collecting Cons.IH)
qed

interpretation extra_parser: parser parseExtraMapping
  by unfold_locales (unfold parseExtraMapping_def, intro collecting)

declare prefixed_parser.collecting [collecting] claim_parser.collecting [collecting]
  extra_parser.collecting [collecting]

interpretation mappings_parser: parser parseClaimMappings
  by unfold_locales (unfold parseClaimMappings_def, intro collecting)

lemma claim_rule_errors_only_adds [collecting]:
  "only_adds (claim_rule_errors claim required expression message p)"
  unfolding claim_rule_errors_def by (intro collecting)

lemma claim_rules_loop_collects [collecting]: "collects (claim_rules_loop path i es)"
proof (induction es arbitrary: i)
  case Nil
  show ?case by (subst claim_rules_loop.simps(1) [abs_def]) (intro collecting)
next
  case (Cons e es)
  show ?case by (subst claim_rules_loop.simps(2) [abs_def]) (intro collecting Cons.IH)
qed

interpretation claim_rules_parser: parser parseClaimValidationRules
  by unfold_locales (unfold parseClaimValidationRules_def, intro collecting)

interpretation user_rules_parser: parser parseUserValidationRules
  by unfold_locales (unfold parseUserValidationRules_def, intro collecting)

lemma audiences_loop_only_adds [collecting]: "only_adds (audiences_loop path i es)"
proof (induction es arbitrary: i)
  case Nil
  show ?case by (subst audiences_loop.simps(1) [abs_def]) (intro collecting)
next
  case (Cons e es)
  show ?case
    by (subst audiences_loop.simps(2) [abs_def]) (intro only_adds_comp [OF _ Cons.IH] collecting)
qed

interpretation policy_parser: parser parseAudienceMatchPolicy
  by unfold_locales (unfold parseAudienceMatchPolicy_def, intro collecting)

interpretation egress_parser: parser parseEgressSelectorType
  by unfold_locales (unfold parseEgressSelectorType_def, intro collecting)

declare policy_parser.collecting [collecting] egress_parser.collecting [collecting]

interpretation issuer_parser: parser parseIssuer
  by unfold_locales (unfold parseIssuer_def, intro collecting)

declare mappings_parser.collecting [collecting] claim_rules_parser.collecting [collecting]
  user_rules_parser.collecting [collecting] issuer_parser.collecting [collecting]

lemma jwt_loop_collects [collecting]: "collects (jwt_loop path i urls es)"
proof (induction es arbitrary: i urls)
  case Nil
  show ?case by (subst jwt_loop.simps(1) [abs_def]) (intro collecting)
next
  case (Cons e es)
  show ?case by (subst jwt_loop.simps(2) [abs_def]) (intro collecting Cons.IH)
qed

interpretation jwt_parser: parser parseJWTAuthenticator
  by unfold_locales (unfold parseJWTAuthenticator_def, intro collecting)

interpretation conditions_parser: parser parseAnonymousAuthCondition
  by unfold_locales (unfold parseAnonymousAuthCondition_def, intro collecting)

declare conditions_parser.collecting [collecting]

interpretation anonymous_parser: parser parseAnonymousAuthConfig
  by unfold_locales (unfold parseAnonymousAuthConfig_def, intro collecting)

declare jwt_parser.collecting [collecting] anonymous_parser.collecting [collecting]

interpretation configuration_parser: parser parseAuthenticationConfiguration
  by unfold_locales (unfold parseAuthenticationConfiguration_def, intro collecting)

lemma patches_loop_collects [collecting]: "collects (patches_loop L path i vs)"
proof (induction vs arbitrary: i)
  case Nil
  show ?case by (subst patches_loop.simps(1) [abs_def]) (intro collecting)
next
  case (Cons v vs)
  show ?case
    by (subst patches_loop.simps(2) [abs_def]) (intro collects_after [OF _ Cons.IH] collecting Cons.IH)
qed

interpretation patches_parser: parser "parsePatches L" for L
  by unfold_locales (unfold parsePatches_def, intro collecting)

declare patches_parser.collecting [collecting]

interpretation talos_parser: parser "parseTalosOptions L" for L
  by unfold_locales (unfold parseTalosOptions_def, intro collecting)

declare talos_parser.collecting [collecting]

interpretation kubevirt_parser: parser "parseKubevirtConfig L" for L
  by unfold_locales (unfold parseKubevirtConfig_def, intro collecting)

declare kubevirt_parser.collecting [collecting]

interpretation advanced_parser: parser "parseAdvancedOptions L" for L
  by unfold_locales (unfold parseAdvancedOptions_def, intro collecting)

subsection \<open>Lemmas on the loops\<close>

lemma claim_rule_errors_accept:
  "claim_rule_errors claim required required message p (Some []) = Some [] \<longleftrightarrow> claim = [] \<and> required = []"
  by (simp add: claim_rule_errors_def Let_def popcount_filter add_def split: option.splits)

lemma only_adds_Some_NilD:
  assumes "only_adds f" and "f (Some es) = Some []"
  shows "es = [] \<and> f (Some []) = Some []"
proof -
  obtain new where new: "\<And>errs. f errs = add_all errs new" using assms(1) unfolding only_adds_def by blast
  from assms(2) have "es = []" "new = []" by (simp_all add: new add_all_def)
  then show ?thesis by (simp add: new)
qed

lemma collects_Some_NilD:
  assumes "collects g" and "snd (g (Some es)) = Some []"
  shows "es = [] \<and> snd (g (Some [])) = Some []"
proof -
  obtain x new where new: "\<And>errs. g errs = (x, add_all errs new)" using assms(1) unfolding collects_def by blast
  from assms(2) have "es = []" "new = []" by (simp_all add: new add_all_def)
  then show ?thesis by (simp add: new)
qed

lemma claim_rules_loop_accept:
  "snd (claim_rules_loop path i es (Some [])) = Some [] \<longleftrightarrow>
     list_all (\<lambda>e. deref [] (tv_claim e) = [] \<and> deref [] (tv_required_value e) = []) es"
proof (induction es arbitrary: i)
  case (Cons e es)
  let ?c = "deref [] (tv_claim e)" and ?r = "deref [] (tv_required_value e)"
  let ?errs = "claim_rule_errors ?c ?r ?r (deref [] (tv_message e)) (path @ [Index i]) (Some [])"
  obtain new where new: "?errs = Some new"
    using claim_rule_errors_only_adds [of ?c ?r ?r "deref [] (tv_message e)" "path @ [Index i]"]
    by (auto simp: only_adds_def add_all_def)
  show ?case
  proof (cases "?c = [] \<and> ?r = []")
    case True
    then have "?errs = Some []" using claim_rule_errors_accept by metis
    with True Cons.IH show ?thesis by (simp add: Let_def)
  next
    case False
    then have "new \<noteq> []" using new claim_rule_errors_accept by (metis option.inject)
    then have "snd (claim_rules_loop path (i + 1) es (Some new)) \<noteq> Some []"
      using collects_Some_NilD [OF claim_rules_loop_collects] by blast
    with False new show ?thesis by (auto simp: Let_def)
  qed
qed simp

lemma claim_rules_loop_value:
  "fst (claim_rules_loop path i es errs) =
     map (\<lambda>e. \<lparr>av_claim = deref [] (tv_claim e), av_required_value = deref [] (tv_required_value e),
              av_expression = deref [] (tv_required_value e), av_message = deref [] (tv_message e)\<rparr>) es"
  by (induction es arbitrary: i errs) (simp_all add: Let_def)

lemma extra_loop_value: "fst (extra_loop path i seen es errs) = es"
  by (induction es arbitrary: i seen errs) (simp_all add: Let_def)

lemma extra_loop_blank_errors:
  "[] \<in> seen \<Longrightarrow>
   snd (extra_loop path i seen (replicate n \<lparr>ae_key = [], ae_value_expression = []\<rparr>) errs) =
     add_all errs (map (\<lambda>j. FieldDuplicate (path @ [Index j, Child ''key'']) (BadString [])) [i..<i + n])"
proof (induction n arbitrary: i errs)
  case (Suc n)
  have split: "[i..<i + Suc n] = i # [Suc i..<Suc i + n]" by (simp add: upt_rec)
  have seen: "insert [] seen = seen" using Suc.prems by auto
  show ?case
    unfolding split
    by (simp add: Let_def seen Suc.prems Suc.IH [OF Suc.prems] add_is_add_all del: upt_Suc)
qed simp

text \<open>Rendering a value and parsing it again.\<close>

lemma prefixed_round_trip:
  "fst (parsePrefixedClaimOrExpression (deref zero_prefixed (toPrefixedClaimOrExpression w)) p errs) = w"
  by (simp add: parsePrefixedClaimOrExpression_def toPrefixedClaimOrExpression_def Let_def zero_prefixed_def)

lemma claim_round_trip:
  "fst (parseClaimOrExpression (deref zero_claim_or_expression (toClaimOrExpression w)) p errs) = w"
  by (simp add: parseClaimOrExpression_def toClaimOrExpression_def Let_def zero_claim_or_expression_def)

lemma issuer_round_trip: "fst (parseIssuer (toIssuer w) p errs) = w"
  by (simp add: parseIssuer_def toIssuer_def Let_def parseAudienceMatchPolicy_def parseEgressSelectorType_def
      toString_def)

lemma anonymous_round_trip: "fst (parseAnonymousAuthConfig (toAnonymousAuthConfig w) p errs) = w"
proof -
  have "map (\<lambda>x. \<lparr>aa_path = aa_path x\<rparr>) es = es" for es
    by (induction es) auto
  then show ?thesis
    by (cases w) (auto simp: parseAnonymousAuthConfig_def toAnonymousAuthConfig_def Let_def
        parseAnonymousAuthCondition_def toAnonymousAuthConditions_def comp_def split: option.split)
qed

text \<open>What the three faulty loops preserve.\<close>

definition blank_extra :: "av_claim_mappings \<Rightarrow> bool" where
  "blank_extra m =
     (case am_extra m of
        None \<Rightarrow> True
      | Some es \<Rightarrow> list_all (\<lambda>e. e = \<lparr>ae_key = [], ae_value_expression = []\<rparr>) es)"

definition blank_user_rules :: "av_jwt_authenticator \<Rightarrow> bool" where
  "blank_user_rules j =
     (case aj_user_validation_rules j of
        None \<Rightarrow> True
      | Some es \<Rightarrow> list_all (\<lambda>e. e = \<lparr>au_expression = [], au_message = []\<rparr>) es)"

definition expression_is_required_value :: "av_jwt_authenticator \<Rightarrow> bool" where
  "expression_is_required_value j =
     (case aj_claim_validation_rules j of
        None \<Rightarrow> True
      | Some es \<Rightarrow> list_all (\<lambda>e. av_expression e = av_required_value e) es)"

definition survives :: "av_jwt_authenticator \<Rightarrow> bool" where
  "survives j = (blank_extra (aj_claim_mappings j) \<and> blank_user_rules j \<and> expression_is_required_value j)"

lemma replicate_eq_iff: "replicate (length es) x = es \<longleftrightarrow> list_all (\<lambda>e. e = x) es"
  by (induction es) auto

lemma map_id_iff: "map f es = es \<longleftrightarrow> list_all (\<lambda>e. f e = e) es"
  by (induction es) auto

lemma extra_round_trip_iff:
  "fst (parseExtraMapping (toExtraMapping w) p errs) = w \<longleftrightarrow>
     (case w of None \<Rightarrow> True | Some es \<Rightarrow> list_all (\<lambda>e. e = \<lparr>ae_key = [], ae_value_expression = []\<rparr>) es)"
  by (cases w) (simp_all add: parseExtraMapping_def toExtraMapping_def Let_def extra_loop_value replicate_eq_iff)

lemma user_rules_round_trip_iff:
  "fst (parseUserValidationRules (toUserValidationRules w) p errs) = w \<longleftrightarrow>
     (case w of None \<Rightarrow> True | Some es \<Rightarrow> list_all (\<lambda>e. e = \<lparr>au_expression = [], au_message = []\<rparr>) es)"
  by (cases w) (simp_all add: parseUserValidationRules_def toUserValidationRules_def Let_def replicate_eq_iff)

lemma claim_rules_round_trip_iff:
  "fst (parseClaimValidationRules (toClaimValidationRules w) p errs) = w \<longleftrightarrow>
     (case w of None \<Rightarrow> True | Some es \<Rightarrow> list_all (\<lambda>e. av_expression e = av_required_value e) es)"
proof (cases w)
  case (Some es)
  have "map (\<lambda>e. \<lparr>av_claim = av_claim e, av_required_value = av_required_value e,
                 av_expression = av_required_value e, av_message = av_message e\<rparr>) es = es \<longleftrightarrow>
        list_all (\<lambda>e. av_expression e = av_required_value e) es"
  proof (unfold map_id_iff, rule arg_cong [where f = "\<lambda>P. list_all P es"], rule ext)
    fix e :: av_claim_validation_rule
    show "(\<lparr>av_claim = av_claim e, av_required_value = av_required_value e,
            av_expression = av_required_value e, av_message = av_message e\<rparr> = e)
          = (av_expression e = av_required_value e)"
      by (cases e) auto
  qed
  with Some show ?thesis
    by (simp add: parseClaimValidationRules_def toClaimValidationRules_def Let_def claim_rules_loop_value comp_def)
qed (simp add: parseClaimValidationRules_def toClaimValidationRules_def)

lemma mappings_round_trip_iff:
  "fst (parseClaimMappings (toClaimMappings w) p errs) = w \<longleftrightarrow> blank_extra w"
  using extra_round_trip_iff [of "am_extra w"]
  by (cases w)
     (simp add: parseClaimMappings_def toClaimMappings_def Let_def case_prod_unfold prefixed_round_trip
      claim_round_trip blank_extra_def)

lemma jwt_loop_round_trip_iff:
  "fst (jwt_loop p i urls (map (\<lambda>e. \<lparr>tj_claim_mappings = toClaimMappings (aj_claim_mappings e),
            tj_claim_validation_rules = toClaimValidationRules (aj_claim_validation_rules e),
            tj_issuer = toIssuer (aj_issuer e),
            tj_user_validation_rules = toUserValidationRules (aj_user_validation_rules e)\<rparr>) js) errs) = js
   \<longleftrightarrow> list_all survives js"
proof (induction js arbitrary: i urls errs)
  case (Cons j js)
  have "\<lparr>aj_issuer = aj_issuer j, aj_claim_validation_rules = r, aj_claim_mappings = m, aj_user_validation_rules = u\<rparr> = j
        \<longleftrightarrow> r = aj_claim_validation_rules j \<and> m = aj_claim_mappings j \<and> u = aj_user_validation_rules j" for r m u
    by (cases j) auto
  then show ?case
    by (simp add: Let_def case_prod_unfold issuer_round_trip mappings_round_trip_iff claim_rules_round_trip_iff
        user_rules_round_trip_iff Cons.IH survives_def blank_user_rules_def expression_is_required_value_def conj_ac)
qed simp

subsection \<open>Properties\<close>

text \<open>C32 A list of claim validation rules is accepted exactly when no rule has a claim or a required
  value, and the expression stored for a rule is its required value: since the parser reads the
  expression from \<open>RequiredValue\<close>, every rule a user can get accepted is stored without claim,
  required value and expression, and the documented ways to validate a claim are all rejected or
  dropped.\<close>

theorem claim_validation_rules_accepted_iff:
  "(snd (parseClaimValidationRules (Some (Some es)) path (Some [])) = Some [] \<longleftrightarrow>
      list_all (\<lambda>e. deref [] (tv_claim e) = [] \<and> deref [] (tv_required_value e) = []) es)
   \<and> fst (parseClaimValidationRules (Some (Some es)) path errs) =
       Some (map (\<lambda>e. \<lparr>av_claim = deref [] (tv_claim e), av_required_value = deref [] (tv_required_value e),
                      av_expression = deref [] (tv_required_value e), av_message = deref [] (tv_message e)\<rparr>) es)"
  by (simp add: parseClaimValidationRules_def Let_def claim_rules_loop_accept claim_rules_loop_value)

text \<open>Parsing extra claim mappings keeps only their number: the stored mappings are all blank,
  whatever keys and expressions the request has, and from the second one on each is reported as a
  duplicate of the empty key, so a request with two or more mappings is rejected.\<close>

theorem extra_mappings_lost:
  "fst (parseExtraMapping (Some (Some es)) path errs) =
     Some (replicate (length es) \<lparr>ae_key = [], ae_value_expression = []\<rparr>)
   \<and> snd (parseExtraMapping (Some (Some es)) path (Some old)) =
     Some (old @ map (\<lambda>j. FieldDuplicate (path @ [Index j, Child ''key'']) (BadString [])) [1..<length es])"
proof -
  have "snd (extra_loop path 0 {} (replicate (length es) \<lparr>ae_key = [], ae_value_expression = []\<rparr>) (Some old)) =
        Some (old @ map (\<lambda>j. FieldDuplicate (path @ [Index j, Child ''key'']) (BadString [])) [1..<length es])"
  proof (cases "length es")
    case (Suc n)
    then show ?thesis
      using extra_loop_blank_errors [of "{[]}" path 1 n "Some old"] by (simp add: Let_def add_all_def)
  qed simp
  then show ?thesis by (simp add: parseExtraMapping_def Let_def extra_loop_value)
qed


text \<open>Validation never loses an error and never depends on what was collected before: parsing a
  configuration appends a list of errors that is determined by the request alone, and its result is
  the same for every error list handed in, the nil pointer included.\<close>

theorem configuration_errors_appended:
  "\<exists>new. \<forall>old. snd (parseAuthenticationConfiguration v path (Some old)) = Some (old @ new)
        \<and> snd (parseAuthenticationConfiguration v path None) = None
        \<and> fst (parseAuthenticationConfiguration v path (Some old)) = fst (parseAuthenticationConfiguration v path None)"
  using configuration_parser.errors_appended [of v path] configuration_parser.nil_errors [of v path]
    configuration_parser.value_independent [of v path _ None]
  by blast

lemma patches_round_trip:
  assumes "list_all (\<lambda>x. \<exists>m. lib_json_unmarshal L (pt_raw x) = Inr m \<and> lib_json_marshal L m = Inr (pt_raw x)) ps"
  shows "parsePatches L (toPatches L ps) path errs = (ps, errs)"
proof -
  have "patches_loop L path i (to_patches_loop L ps) errs = (ps, errs)" for i
    using assms by (induction ps arbitrary: i) auto
  then show ?thesis by (cases ps) (simp_all add: parsePatches_def toPatches_def)
qed

text \<open>Advanced options survive being read and written back: when every stored patch is JSON that
  decodes and encodes to the same bytes, rendering the options and parsing them again gives the same
  options and no error, whichever of them are empty.\<close>

theorem advanced_options_round_trip:
  assumes "list_all (\<lambda>x. \<exists>m. lib_json_unmarshal L (pt_raw x) = Inr m \<and> lib_json_marshal L m = Inr (pt_raw x))
             (ct_shared (ck_talos (ca_kubevirt w)) @ ct_control_plane (ck_talos (ca_kubevirt w))
              @ ct_worker (ck_talos (ca_kubevirt w)))"
  shows "parseAdvancedOptions L (toClusterAdvancedOptions L w) path errs = (w, errs)"
proof -
  let ?t = "ck_talos (ca_kubevirt w)"
  have zero: "ClusterTalosOptions_IsZero ?t \<longleftrightarrow> ?t = \<lparr>ct_shared = [], ct_control_plane = [], ct_worker = []\<rparr>"
    by (cases ?t) (simp add: ClusterTalosOptions_IsZero_def)
  have wrap: "\<lparr>ca_kubevirt = \<lparr>ck_talos = ?t\<rparr>\<rparr> = w"
    by simp
  show ?thesis
  proof (cases "ClusterTalosOptions_IsZero ?t")
    case True
    with zero wrap show ?thesis
      by (simp add: parseAdvancedOptions_def toClusterAdvancedOptions_def ClusterAdvancedOptions_IsZero_def
          ClusterKubevirtOptions_IsZero_def)
  next
    case False
    with assms show ?thesis
      by (simp add: parseAdvancedOptions_def toClusterAdvancedOptions_def ClusterAdvancedOptions_IsZero_def
          ClusterKubevirtOptions_IsZero_def parseKubevirtConfig_def toClusterKubevirtOptions_def
          parseTalosOptions_def toClusterTalosOptions_def patches_round_trip)
  qed
qed

definition object_patch_lib :: patch_lib where
  "object_patch_lib = \<lparr>
     lib_json_marshal = (\<lambda>m. if m = [] then Inr ''{}'' else Inl (Plain ''unsupported'')),
     lib_json_unmarshal = (\<lambda>s. if s = ''{}'' then Inr [] else Inl (Plain ''syntax'')),
     lib_yaml_unmarshal = (\<lambda>s. Inl (Plain ''syntax''))\<rparr>"

lemma advanced_options_round_trip_witness:
  "let w = \<lparr>ca_kubevirt = \<lparr>ck_talos = \<lparr>ct_shared = [\<lparr>pt_raw = ''{}''\<rparr>], ct_control_plane = [], ct_worker = []\<rparr>\<rparr>\<rparr>
   in parseAdvancedOptions object_patch_lib (toClusterAdvancedOptions object_patch_lib w) [] (Some []) = (w, Some [])"
  using advanced_options_round_trip [of object_patch_lib
      "\<lparr>ca_kubevirt = \<lparr>ck_talos = \<lparr>ct_shared = [\<lparr>pt_raw = ''{}''\<rparr>], ct_control_plane = [], ct_worker = []\<rparr>\<rparr>\<rparr>" "[]" "Some []"]
  by (simp add: Let_def object_patch_lib_def)

end
