(* ===== verification/Names.thy ===== *)
theory Names
  imports Prelude "HOL-Library.Char_ord"
begin

text \<open>
  \<open>pkg/util/name/name.go\<close>: the check of a resource name, with the detail message of every rejection.
  The code looks at runes; a byte outside ASCII belongs to a rune that is rejected, so checking bytes
  gives the same verdict. \<open>object_name\<close> is the pattern \<open>#_objectName\<close> of
  \<open>internal/api/v1/middleware/validate_json.cue\<close>, \<open>^[a-z0-9]([-a-z0-9]*[a-z0-9])?$\<close>.
\<close>

definition detailEmptyName :: string where
  "detailEmptyName = ''name must not be empty''"

definition detailLongName :: string where
  "detailLongName = ''name must not contain more than 63 characters''"

definition detailDashPrefix :: string where
  "detailDashPrefix = ''name must not begin with a dash character''"

definition detailDashSuffix :: string where
  "detailDashSuffix = ''name must not end with a dash character''"

definition detailInvalidCharacters :: string where
  "detailInvalidCharacters =
     ''name must contain only lowercase alphanumeric characters and the '' @ [CHR 0x27] @ ''-'' @ [CHR 0x27] @ '' character''"

definition isInvalid :: "char \<Rightarrow> bool" where
  "isInvalid r =
     (if r = CHR ''-'' then False
      else if CHR ''0'' \<le> r \<and> r \<le> CHR ''9'' then False
      else if CHR ''a'' \<le> r \<and> r \<le> CHR ''z'' then False
      else True)"

fun IndexFunc :: "string \<Rightarrow> (char \<Rightarrow> bool) \<Rightarrow> int" where
  "IndexFunc [] f = -1"
| "IndexFunc (c # s) f =
     (if f c then 0 else (let i = IndexFunc s f in if i = -1 then -1 else i + 1))"

definition IsValidName :: "string \<Rightarrow> string \<times> bool" where
  "IsValidName name =
     (if length name = 0 then (detailEmptyName, False)
      else if length name > 63 then (detailLongName, False)
      else if HasPrefix name ''-'' then (detailDashPrefix, False)
      else if HasSuffix name ''-'' then (detailDashSuffix, False)
      else if IndexFunc name isInvalid \<noteq> -1 then (detailInvalidCharacters, False)
      else ([], True))"

lemma IndexFunc_ge: "IndexFunc s f \<ge> -1"
  by (induction s) (auto simp: Let_def)

lemma IndexFunc_none: "IndexFunc s f = -1 \<longleftrightarrow> list_all (\<lambda>c. \<not> f c) s"
proof (induction s)
  case (Cons c s)
  then show ?case using IndexFunc_ge [of s f] by (auto simp: Let_def)
qed simp

text \<open>The character classes of the pattern and the pattern itself.\<close>

definition alphanumeric :: "char \<Rightarrow> bool" where
  "alphanumeric c = (c \<noteq> CHR ''-'' \<and> \<not> isInvalid c)"

inductive object_name :: "string \<Rightarrow> bool" where
  one: "alphanumeric c \<Longrightarrow> object_name [c]"
| many: "alphanumeric c \<Longrightarrow> list_all (\<lambda>x. \<not> isInvalid x) mid \<Longrightarrow> alphanumeric d \<Longrightarrow> object_name (c # mid @ [d])"

inductive_cases object_name_NilE: "object_name []"
inductive_simps object_name_simps: "object_name n"

lemma object_name_iff:
  "object_name n \<longleftrightarrow> n \<noteq> [] \<and> hd n \<noteq> CHR ''-'' \<and> last n \<noteq> CHR ''-'' \<and> list_all (\<lambda>x. \<not> isInvalid x) n"
proof
  assume "object_name n"
  then show "n \<noteq> [] \<and> hd n \<noteq> CHR ''-'' \<and> last n \<noteq> CHR ''-'' \<and> list_all (\<lambda>x. \<not> isInvalid x) n"
    by cases (auto simp: alphanumeric_def)
next
  assume n: "n \<noteq> [] \<and> hd n \<noteq> CHR ''-'' \<and> last n \<noteq> CHR ''-'' \<and> list_all (\<lambda>x. \<not> isInvalid x) n"
  show "object_name n"
  proof (cases "tl n = []")
    case True
    with n show ?thesis
      by (cases n) (auto simp: alphanumeric_def intro: object_name.one)
  next
    case False
    with n obtain c mid d where "n = c # mid @ [d]"
      by (metis append_butlast_last_id list.collapse)
    with n show ?thesis
      by (auto simp: alphanumeric_def intro: object_name.many)
  qed
qed

lemma IsValidName_spec: "snd (IsValidName n) \<longleftrightarrow> length n \<le> 63 \<and> object_name n"
  unfolding object_name_iff
  by (auto simp: IsValidName_def HasPrefix_single HasSuffix_single IndexFunc_none)

text \<open>\<open>IsValidName\<close> accepts exactly the names of at most 63 bytes that match the pattern the JSON
  schema requires of an object name, and it gives a detail message exactly when it rejects.\<close>

theorem IsValidName_iff_object_name:
  "(snd (IsValidName n) \<longleftrightarrow> length n \<le> 63 \<and> object_name n)
   \<and> (fst (IsValidName n) = [] \<longleftrightarrow> snd (IsValidName n))"
  unfolding IsValidName_spec [symmetric]
  by (auto simp: IsValidName_def detailEmptyName_def
      detailLongName_def detailDashPrefix_def detailDashSuffix_def detailInvalidCharacters_def)

end
