(* ===== verification/Bubblebabble.thy ===== *)
theory Bubblebabble
  imports Client "HOL-Library.Signed_Division"
begin

text \<open>
  \<open>pkg/util/bubblebabble/bubblebabble.go\<close>: the bubble babble encoder, which writes into a buffer of
  computed size, and the generator of random passwords. The encoder is modelled with its buffer and
  its two indices: reading or writing out of range is a panic (\<open>None\<close>). The specification is the
  encoder without a buffer; the theorems say the buffer is filled exactly and never overrun, and that
  the encoding can be decoded.
\<close>

unbundle bit_operations_syntax

definition vowels :: string where
  "vowels = ''aeiouy''"

definition consonants :: string where
  "consonants = ''bcdfghklmnprstvzx''"

definition byte_at :: "'a list \<Rightarrow> nat \<Rightarrow> 'a option" where
  "byte_at xs i = (if i < length xs then Some (xs ! i) else None)"

record babble_state =
  bs_buf :: string
  bs_out :: nat

definition write_byte :: "char \<Rightarrow> babble_state \<Rightarrow> babble_state option" where
  "write_byte b s =
     (if bs_out s < length (bs_buf s)
      then Some (s\<lparr>bs_buf := (bs_buf s)[bs_out s := b], bs_out := bs_out s + 1\<rparr>)
      else None)"

definition write_from :: "string \<Rightarrow> nat \<Rightarrow> babble_state \<Rightarrow> babble_state option" where
  "write_from table i s = (case byte_at table i of None \<Rightarrow> None | Some b \<Rightarrow> write_byte b s)"

function babble_loop :: "nat list \<Rightarrow> nat \<Rightarrow> nat \<Rightarrow> babble_state \<Rightarrow> babble_state option" where
  "babble_loop digest i seed s =
     (if i \<ge> length digest then do {
        s \<leftarrow> write_from vowels (seed mod length vowels) s;
        s \<leftarrow> write_byte (CHR ''x'') s;
        write_from vowels (seed div length vowels) s
      }
      else do {
        byte1 \<leftarrow> byte_at digest i;
        s \<leftarrow> write_from vowels (((drop_bit 6 byte1 AND 3) + seed) mod length vowels) s;
        s \<leftarrow> write_from consonants (drop_bit 2 byte1 AND 15) s;
        s \<leftarrow> write_from vowels (((byte1 AND 3) + seed div 6) mod length vowels) s;
        if i + 1 \<ge> length digest then Some s
        else do {
          byte2 \<leftarrow> byte_at digest (i + 1);
          s \<leftarrow> write_from consonants (drop_bit 4 byte2 AND 15) s;
          s \<leftarrow> write_byte (CHR ''-'') s;
          s \<leftarrow> write_from consonants (drop_bit 0 byte2 AND 15) s;
          babble_loop digest (i + 2) ((seed * 5 + byte1 * 7 + byte2) mod 36) s
        }
      })"
  by pat_completeness auto

termination
  by (relation "measure (\<lambda>(digest, i, _, _). length digest - i)") auto

declare babble_loop.simps [simp del]

definition BubbleBabble :: "string \<Rightarrow> string option" where
  "BubbleBabble input =
     (let digest = map of_char input;
          digestLen = length digest;
          s = \<lparr>bs_buf = replicate ((digestLen OR 1) * 3 + 2) (char_of (0 :: nat)), bs_out = 0\<rparr>
      in do {
        s \<leftarrow> write_byte (CHR ''x'') s;
        s \<leftarrow> babble_loop digest 0 1 s;
        s \<leftarrow> write_byte (CHR ''x'') s;
        Some (bs_buf s)
      })"

text \<open>A Go \<open>int\<close> has 64 bits; \<open>wrap64\<close> reduces a result to it. Division and remainder truncate.\<close>

definition wrap64 :: "int \<Rightarrow> int" where
  "wrap64 x = (x + 2 ^ 63) mod 2 ^ 64 - 2 ^ 63"

text \<open>\<open>rand.Read\<close> fills a buffer of the given length and returns how many bytes it read, or fails; it
  is a parameter.\<close>

definition RandomWithEntropyOfAtLeast ::
  "(nat \<Rightarrow> goerr + string \<times> int) \<Rightarrow> int \<Rightarrow> (goerr, string) go"
where
  "RandomWithEntropyOfAtLeast rand_read minimumBits =
     (let bits = (if minimumBits smod 8 \<noteq> 0 then wrap64 (minimumBits + (8 - minimumBits smod 8)) else minimumBits);
          byteCount = bits sdiv 8
      in if byteCount < 0 then Panic
         else (case rand_read (nat byteCount) of
                 Inl e \<Rightarrow> Fail e
               | Inr (bytes, c) \<Rightarrow>
                   if c \<noteq> byteCount then Fail (Plain ''insufficient entropy'')
                   else (case BubbleBabble bytes of None \<Rightarrow> Panic | Some s \<Rightarrow> Ret s)))"

subsection \<open>The encoder without a buffer\<close>

fun babble :: "nat \<Rightarrow> nat list \<Rightarrow> string" where
  "babble seed [] = [vowels ! (seed mod 6), CHR ''x'', vowels ! (seed div 6)]"
| "babble seed [b] =
     [vowels ! ((b div 64 mod 4 + seed) mod 6), consonants ! (b div 4 mod 16), vowels ! ((b mod 4 + seed div 6) mod 6)]"
| "babble seed (b # c # bs) =
     [vowels ! ((b div 64 mod 4 + seed) mod 6), consonants ! (b div 4 mod 16), vowels ! ((b mod 4 + seed div 6) mod 6),
      consonants ! (c div 16 mod 16), CHR ''-'', consonants ! (c mod 16)]
     @ babble ((seed * 5 + b * 7 + c) mod 36) bs"

text \<open>\<open>filled ws k\<close>: the buffer holds \<open>ws\<close> and \<open>k\<close> bytes are left.\<close>

definition filled :: "string \<Rightarrow> nat \<Rightarrow> babble_state" where
  "filled ws k = \<lparr>bs_buf = ws @ replicate k (char_of (0 :: nat)), bs_out = length ws\<rparr>"

lemma write_filled: "0 < k \<Longrightarrow> write_byte b (filled ws k) = Some (filled (ws @ [b]) (k - 1))"
  by (cases k) (simp_all add: write_byte_def filled_def list_update_append)

lemma write_from_filled:
  "i < length table \<Longrightarrow> 0 < k \<Longrightarrow> write_from table i (filled ws k) = Some (filled (ws @ [table ! i]) (k - 1))"
  by (simp add: write_from_def byte_at_def write_filled)

lemma and_3: "(n :: nat) AND 3 = n mod 4"
  using take_bit_eq_mask [of 2 n] by (simp add: take_bit_eq_mod mask_eq_exp_minus_1)

lemma and_15: "(n :: nat) AND 15 = n mod 16"
  using take_bit_eq_mask [of 4 n] by (simp add: take_bit_eq_mod mask_eq_exp_minus_1)

lemmas babble_bits = and_3 and_15 drop_bit_eq_div

lemma length_tables [simp]: "length vowels = 6" "length consonants = 17"
  by (simp_all add: vowels_def consonants_def)

lemma length_babble: "length (babble seed bs) = 3 * (if even (length bs) then length bs + 1 else length bs)"
  by (induction seed bs rule: babble.induct) auto

lemma odd_or_one: "(n :: nat) OR 1 = (if even n then n + 1 else n)"
  using or_one_eq [of n] by simp

lemma drop_Cons_nth: "drop i xs = b # ys \<Longrightarrow> i < length xs \<and> xs ! i = b \<and> drop (Suc i) xs = ys"
  by (metis Cons_nth_drop_Suc drop_eq_Nil2 list.distinct(1) list.inject not_le)

text \<open>One turn of the loop on a byte pair.\<close>

lemma babble_turn:
  assumes "drop i digest = b # c # bs" and "seed < 36" and "6 \<le> k"
  shows "babble_loop digest i seed (filled ws k) =
           babble_loop digest (i + 2) ((seed * 5 + b * 7 + c) mod 36)
             (filled (ws @ take 6 (babble seed (b # c # bs))) (k - 6))"
proof -
  have i: "i < length digest" "digest ! i = b" "Suc i < length digest" "digest ! Suc i = c"
    using drop_Cons_nth [OF assms(1)] drop_Cons_nth [of "Suc i" digest c bs] by auto
  have k: "k - Suc (Suc (Suc (Suc (Suc (Suc 0))))) = k - 6" by simp
  show ?thesis
    using i assms(2,3) by (subst babble_loop.simps) (simp add: write_filled write_from_filled byte_at_def babble_bits k)
qed

lemma babble_loop_filled:
  assumes "seed < 36" and "length (babble seed (drop i digest)) \<le> k"
  shows "babble_loop digest i seed (filled ws k) =
           Some (filled (ws @ babble seed (drop i digest)) (k - length (babble seed (drop i digest))))"
  using assms
proof (induction "length digest - i" arbitrary: i seed ws k rule: less_induct)
  case less
  have sd: "seed div 6 < 6" using less.prems(1) by simp
  consider "drop i digest = []" | b where "drop i digest = [b]" | b c bs where "drop i digest = b # c # bs"
    by (metis list.exhaust)
  then show ?case
  proof cases
    case 1
    then have "length digest \<le> i" by simp
    with 1 sd less.prems(2) show ?thesis
      by (subst babble_loop.simps) (simp add: write_filled write_from_filled)
  next
    case (2 b)
    then have i: "i < length digest" "digest ! i = b" "length digest \<le> Suc i"
      using drop_Cons_nth [OF 2] by auto
    with 2 less.prems(2) show ?thesis
      by (subst babble_loop.simps) (simp add: write_filled write_from_filled byte_at_def babble_bits)
  next
    case (3 b c bs)
    let ?seed = "(seed * 5 + b * 7 + c) mod 36"
    have drop: "drop (i + 2) digest = bs" and i: "i < length digest"
      using drop_Cons_nth [OF 3] drop_Cons_nth [of "Suc i" digest c bs] by auto
    have k: "6 \<le> k" "length (babble ?seed bs) \<le> k - 6" using 3 less.prems(2) by simp_all
    have "babble_loop digest (i + 2) ?seed (filled (ws @ take 6 (babble seed (b # c # bs))) (k - 6)) =
            Some (filled ((ws @ take 6 (babble seed (b # c # bs))) @ babble ?seed bs) (k - 6 - length (babble ?seed bs)))"
      using less.hyps [of "i + 2" ?seed "k - 6"] k(2) i drop by simp
    moreover have "take 6 (babble seed (b # c # bs)) @ babble ?seed bs = babble seed (b # c # bs)"
      and "k - 6 - length (babble ?seed bs) = k - length (babble seed (b # c # bs))"
      by simp_all
    ultimately show ?thesis
      using babble_turn [OF 3 less.prems(1) k(1)] 3 by (simp only: append_assoc)
  qed
qed

subsection \<open>The decoder\<close>

fun index_of :: "char \<Rightarrow> string \<Rightarrow> nat" where
  "index_of c [] = 0"
| "index_of c (d # ds) = (if c = d then 0 else Suc (index_of c ds))"

lemma index_of_nth: "distinct ds \<Longrightarrow> i < length ds \<Longrightarrow> index_of (ds ! i) ds = i"
proof (induction ds arbitrary: i)
  case (Cons d ds)
  then show ?case by (cases i) auto
qed simp

lemma distinct_tables: "distinct vowels" "distinct consonants"
  by (simp_all add: vowels_def consonants_def)

lemma vowel_index [simp]: "i < 6 \<Longrightarrow> index_of (vowels ! i) vowels = i"
  by (simp add: index_of_nth distinct_tables)

lemma consonant_index [simp]: "i < 17 \<Longrightarrow> index_of (consonants ! i) consonants = i"
  by (simp add: index_of_nth distinct_tables)

lemma mod_16_less [simp]: "(n :: nat) mod 16 < 17"
  using mod_less_divisor [of 16 n] by linarith

lemma consonant_not_x: "i < 16 \<Longrightarrow> consonants ! i \<noteq> CHR ''x''"
proof
  assume "i < 16" and "consonants ! i = CHR ''x''"
  moreover have "CHR ''x'' = consonants ! 16" by (simp add: consonants_def)
  ultimately show False
    using nth_eq_iff_index_eq [OF distinct_tables(2), of i 16] by simp
qed

text \<open>Undoing the shift of a vowel by the seed, and one byte from its three characters.\<close>

definition unshift :: "nat \<Rightarrow> char \<Rightarrow> nat" where
  "unshift shift v = (index_of v vowels + 6 - shift mod 6) mod 6"

definition byte_of :: "nat \<Rightarrow> char \<Rightarrow> char \<Rightarrow> char \<Rightarrow> nat" where
  "byte_of seed v1 c v2 = unshift seed v1 * 64 + index_of c consonants * 4 + unshift (seed div 6) v2"

fun unbabble :: "nat \<Rightarrow> string \<Rightarrow> nat list option" where
  "unbabble seed [v1, c, v2] = Some (if c = CHR ''x'' then [] else [byte_of seed v1 c v2])"
| "unbabble seed (v1 # c # v2 # d # e # f # rest) =
     (let b1 = byte_of seed v1 c v2;
          b2 = index_of d consonants * 16 + index_of f consonants
      in map_option (\<lambda>bs. b1 # b2 # bs) (unbabble ((seed * 5 + b1 * 7 + b2) mod 36) rest))"
| "unbabble seed s = None"

lemma unshift_vowel:
  assumes "n < 4"
  shows "unshift shift (vowels ! ((n + shift) mod 6)) = n"
proof -
  define m where "m = shift mod 6"
  have m: "m < 6" "(n + shift) mod 6 = (n + m) mod 6" by (simp_all add: m_def mod_add_right_eq)
  have "((n + m) mod 6 + 6 - m) mod 6 = n"
  proof (cases "n + m < 6")
    case True
    with assms show ?thesis by simp
  next
    case False
    with assms m(1) have "(n + m) mod 6 = n + m - 6" by (simp add: mod_if)
    with False assms m(1) show ?thesis by simp
  qed
  with m show ?thesis by (simp add: unshift_def m_def)
qed

lemma byte_split: "(b :: nat) div 64 * 64 + b div 4 mod 16 * 4 + b mod 4 = b"
proof -
  have "b div 64 = b div 4 div 16" using div_mult2_eq [of b 4 16] by simp
  moreover have "b div 4 = b div 4 div 16 * 16 + b div 4 mod 16" by (rule div_mult_mod_eq [symmetric])
  moreover have "b = b div 4 * 4 + b mod 4" by (rule div_mult_mod_eq [symmetric])
  ultimately show ?thesis by linarith
qed

lemma byte_of_babble:
  assumes "b < 256"
  shows "byte_of seed (vowels ! ((b div 64 + seed) mod 6)) (consonants ! (b div 4 mod 16))
           (vowels ! ((b mod 4 + seed div 6) mod 6)) = b"
proof -
  have "b div 64 < 4" "b mod 4 < 4" using assms by (simp_all add: div_less_iff_less_mult)
  then show ?thesis using byte_split [of b] by (simp add: byte_of_def unshift_vowel)
qed

lemma byte_of_babble_mod:
  assumes "b < 256"
  shows "byte_of seed (vowels ! ((b div 64 mod 4 + seed) mod 6)) (consonants ! (b div 4 mod 16))
           (vowels ! ((b mod 4 + seed div 6) mod 6)) = b"
proof -
  have "b div 64 mod 4 = b div 64" using assms by (simp add: div_less_iff_less_mult)
  with byte_of_babble [OF assms] show ?thesis by simp
qed

lemma unbabble_babble: "list_all (\<lambda>b. b < 256) bs \<Longrightarrow> unbabble seed (babble seed bs) = Some bs"
proof (induction seed bs rule: babble.induct)
  case (2 seed b)
  then show ?case using consonant_not_x [of "b div 4 mod 16"] by (simp add: byte_of_babble)
next
  case (3 seed b c bs)
  from 3(2) have bc: "b < 256" "c < 256" "list_all (\<lambda>b. b < 256) bs" by simp_all
  have "c div 16 < 16" using bc(2) by (simp add: div_less_iff_less_mult)
  then have c: "c div 16 mod 16 * 16 + c mod 16 = c" by simp
  have ih: "unbabble ((seed * 5 + b * 7 + c) mod 36) (babble ((seed * 5 + b * 7 + c) mod 36) bs) = Some bs"
    using 3(1) bc(3) by simp
  show ?case
    by (simp add: Let_def byte_of_babble [OF bc(1)] byte_of_babble_mod [OF bc(1)] c ih)
qed simp

subsection \<open>Properties\<close>

lemma digest_bytes: "list_all (\<lambda>b. b < 256) (map of_char input :: nat list)"
  by (induction input) simp_all

lemma BubbleBabble_run:
  "BubbleBabble input = Some (''x'' @ babble 1 (map of_char input) @ ''x'')"
  "length (babble 1 (map of_char input :: nat list)) = (length input OR 1) * 3"
proof -
  let ?d = "map of_char input :: nat list" and ?n = "(length input OR 1) * 3 + 2"
  show len: "length (babble 1 ?d) = (length input OR 1) * 3"
    by (simp only: length_babble length_map odd_or_one mult.commute)
  have start: "\<lparr>bs_buf = replicate ?n (char_of (0 :: nat)), bs_out = 0\<rparr> = filled [] ?n"
    by (simp add: filled_def)
  have loop: "babble_loop ?d 0 1 (filled ''x'' (?n - 1)) = Some (filled (''x'' @ babble 1 ?d) 1)"
    by (subst babble_loop_filled) (simp_all only: len drop_0, simp_all)
  have "BubbleBabble input = Some (bs_buf (filled ((''x'' @ babble 1 ?d) @ ''x'') 0))"
    unfolding BubbleBabble_def Let_def length_map start
    using write_filled [of ?n "CHR ''x''" "[]"] write_filled [of 1 "CHR ''x''" "''x'' @ babble 1 ?d"] loop
    by simp
  then show "BubbleBabble input = Some (''x'' @ babble 1 ?d @ ''x'')" by (simp add: filled_def)
qed

text \<open>\<open>BubbleBabble\<close> never reads or writes out of range, and the buffer it allocates,
  \<open>(len | 1) * 3 + 2\<close> bytes, is filled exactly: the result is \<open>x\<close>, the encoding of the input, \<open>x\<close>, with
  no byte left over.\<close>

theorem BubbleBabble_fills_buffer:
  "BubbleBabble input = Some (''x'' @ babble 1 (map of_char input) @ ''x'')
   \<and> length (''x'' @ babble 1 (map of_char input :: nat list) @ ''x'') = (length input OR 1) * 3 + 2"
  using BubbleBabble_run [of input] by simp

text \<open>C9 The encoding can be undone: a decoder that follows the seed recovers the input from the result of
  \<open>BubbleBabble\<close>, so different inputs (different random reset and verification codes) have different
  encodings.\<close>

theorem BubbleBabble_decodable:
  "map_option (\<lambda>s. unbabble 1 (butlast (tl s))) (BubbleBabble input) = Some (Some (map of_char input))
   \<and> inj BubbleBabble"
proof
  have decode: "map_option (\<lambda>s. unbabble 1 (butlast (tl s))) (BubbleBabble i) = Some (Some (map of_char i))" for i
    by (simp add: BubbleBabble_run(1) butlast_append unbabble_babble [OF digest_bytes])
  then show "map_option (\<lambda>s. unbabble 1 (butlast (tl s))) (BubbleBabble input) = Some (Some (map of_char input))" .
  show "inj BubbleBabble"
  proof (rule injI)
    fix a b
    assume "BubbleBabble a = BubbleBabble b"
    then have "(map of_char a :: nat list) = map of_char b"
      using decode [of a] decode [of b] by (metis option.inject)
    then show "a = b" by (simp add: inj_map_eq_map inj_on_def)
  qed
qed

text \<open>For a non-negative number of bits that does not overflow, \<open>RandomWithEntropyOfAtLeast\<close> draws the
  smallest number of whole bytes with at least that many bits and returns their encoding; it neither
  panics nor fails when the system's random source fills the buffer it is given.\<close>

theorem RandomWithEntropyOfAtLeast_enough:
  assumes "0 \<le> bits" and "bits < 2 ^ 63 - 8"
    and "\<And>n. \<exists>bytes. rand_read n = Inr (bytes, int n) \<and> length bytes = n"
  shows "\<exists>bytes s. RandomWithEntropyOfAtLeast rand_read bits = Ret s \<and> BubbleBabble bytes = Some s
           \<and> bits \<le> 8 * int (length bytes) \<and> 8 * int (length bytes) < bits + 8"
proof -
  let ?m = "bits smod 8"
  have m: "?m = bits mod 8" using assms(1) by (auto simp: signed_modulo_int_def sgn_if)
  define r where "r = (if ?m \<noteq> 0 then wrap64 (bits + (8 - ?m)) else bits)"
  have r: "r = (if bits mod 8 \<noteq> 0 then bits + (8 - bits mod 8) else bits)"
    using assms(1,2) pos_mod_bound [of 8 bits] pos_mod_sign [of 8 bits]
    by (auto simp: r_def m wrap64_def)
  have "bits + (8 - bits mod 8) = (bits div 8 + 1) * 8"
    using div_mult_mod_eq [of bits 8] by (simp add: algebra_simps)
  then have "(bits + (8 - bits mod 8)) mod 8 = 0" by (metis mod_mult_self2_is_0)
  then have ge: "bits \<le> r" "r < bits + 8" "r mod 8 = 0" "0 \<le> r"
    using r assms(1) pos_mod_bound [of 8 bits] pos_mod_sign [of 8 bits] by (auto split: if_splits)
  then have k: "r sdiv 8 = r div 8" "0 \<le> r div 8" "8 * (r div 8) = r"
    by (auto simp: signed_divide_int_def sgn_if)
  obtain bytes where b: "rand_read (nat (r div 8)) = Inr (bytes, r div 8)" "int (length bytes) = r div 8"
    using assms(3) [of "nat (r div 8)"] k(2) by force
  have "RandomWithEntropyOfAtLeast rand_read bits = Ret (''x'' @ babble 1 (map of_char bytes) @ ''x'')"
    using k b by (simp add: RandomWithEntropyOfAtLeast_def Let_def r_def [symmetric] BubbleBabble_run(1))
  with b k ge BubbleBabble_run(1) show ?thesis by (intro exI conjI) auto
qed

lemma RandomWithEntropyOfAtLeast_enough_witness:
  "\<exists>bytes s. RandomWithEntropyOfAtLeast (\<lambda>n. Inr (replicate n (CHR ''a''), int n)) 32 = Ret s
     \<and> BubbleBabble bytes = Some s \<and> (32 :: int) \<le> 8 * int (length bytes) \<and> 8 * int (length bytes) < 32 + (8 :: int)"
  by (rule RandomWithEntropyOfAtLeast_enough) simp_all

end
