(* ===== verification/Indexes.thy ===== *)
theory Indexes
  imports Client
begin

text \<open>
  The field indexes of \<open>api/v1alpha3/index\<close>. The API server cannot list custom resources by an arbitrary field: the
  manager's cache answers such a list from an index, a function from an object to the values it is found under, that
  \<open>IndexField\<close> registers for one kind and one field. The index functions are modelled on \<open>kobject\<close>, with a
  nil result as the empty list; a failed type assertion panics. \<open>IndexField\<close> is a parameter that may fail, and the
  registrations made so far are the state.
\<close>

definition EmailField :: string where "EmailField = ''.spec.email''"
definition MemberReferencesField :: string where "MemberReferencesField = ''.spec.memberRefs.name''"
definition OwnerReferencesField :: string where "OwnerReferencesField = ''.metadata.ownerReferences''"
definition SecretTypeField :: string where "SecretTypeField = ''.type''"
definition UIDField :: string where "UIDField = ''.metadata.uid''"
definition CredentialReferenceField :: string where "CredentialReferenceField = ''.spec.credentialRef''"
definition CodeField :: string where "CodeField = ''.spec.code''"
definition WorkloadTemplateReferenceField :: string where "WorkloadTemplateReferenceField = ''.spec.workloadTemplateRef''"
definition SelectorField :: string where "SelectorField = ''.spec.selector''"
definition ProviderIDField :: string where "ProviderIDField = ''.spec.providerID''"

lemmas field_defs = EmailField_def MemberReferencesField_def OwnerReferencesField_def SecretTypeField_def UIDField_def
  CredentialReferenceField_def CodeField_def WorkloadTemplateReferenceField_def SelectorField_def ProviderIDField_def

definition matching_field :: "string \<Rightarrow> string \<Rightarrow> string \<Rightarrow> list_opts" where
  "matching_field f v ns = \<lparr>lo_namespace = ns, lo_labels = [], lo_fields = [(f, v)]\<rparr>"

subsection \<open>Index functions\<close>

type_synonym index_fn = "kobject \<Rightarrow> (goerr, string list) go"

definition ByProviderID :: index_fn where
  "ByProviderID obj = (case obj of KUser user \<Rightarrow> Ret [us_provider_id (user_spec user)] | _ \<Rightarrow> Ret [])"

definition byMemberReferences :: index_fn where
  "byMemberReferences obj =
     (case obj of
        KOrganization organization \<Rightarrow> Ret (map (\<lambda>r. tl_name (omr_ref r)) (os_member_refs (organization_spec organization)))
      | _ \<Rightarrow> Ret [])"

definition ByOwnerReferences :: index_fn where
  "ByOwnerReferences obj = Ret (map or_uid (om_owner_references (meta_of obj)))"

definition byUID :: index_fn where
  "byUID obj = Ret [om_uid (meta_of obj)]"

definition byEmail :: index_fn where
  "byEmail obj =
     (case obj of
        KUser t \<Rightarrow> Ret [us_email (user_spec t)]
      | KInvitation t \<Rightarrow> Ret [is_email (invitation_spec t)]
      | _ \<Rightarrow> Ret [])"

definition BySecretType :: index_fn where
  "BySecretType obj = (case obj of KSecret secret \<Rightarrow> Ret [sec_type secret] | _ \<Rightarrow> Panic)"

definition TypedObjectRef :: "typed_ref \<Rightarrow> string" where
  "TypedObjectRef ref =
     (case tr_namespace ref of None \<Rightarrow> tr_kind ref @ tr_name ref | Some ns \<Rightarrow> ns @ tr_kind ref @ tr_name ref)"

definition ByCredentialRef :: index_fn where
  "ByCredentialRef obj =
     (case obj of
        KOrganization organization \<Rightarrow>
          (case os_credential_ref (organization_spec organization) of
             None \<Rightarrow> Ret []
           | Some ref \<Rightarrow> Ret [TypedObjectRef ref])
      | _ \<Rightarrow> Ret [])"

definition byCode :: index_fn where
  "byCode obj =
     (case obj of
        KOrganizationVoucher t \<Rightarrow> Ret [ovs_code (organization_voucher_spec t)]
      | KVerificationRequest t \<Rightarrow> Ret [vrs_code (verification_request_spec t)]
      | _ \<Rightarrow> Ret [])"

definition ByWorkloadTemplateReference :: index_fn where
  "ByWorkloadTemplateReference obj =
     (case obj of
        KWorkload workload \<Rightarrow>
          (case ws_workload_template_ref (workload_spec workload) of
             None \<Rightarrow> Ret []
           | Some ref \<Rightarrow> Ret [TypedObjectRef ref])
      | _ \<Rightarrow> Ret [])"

text \<open>
  \<open>MatchLabelsSummary\<close> ranges over a map, in an order the run-time chooses anew each time: the argument is the list of the
  entries in that order, and \<open>order\<close> is what the run-time chooses.
\<close>

fun labels_loop :: "(string \<times> string) list \<Rightarrow> string \<Rightarrow> string" where
  "labels_loop [] s = s"
| "labels_loop ((k, v) # kvs) s = labels_loop kvs (s @ k @ v)"

definition MatchLabelsSummary :: "(string \<times> string) list \<Rightarrow> string" where
  "MatchLabelsSummary labels = labels_loop labels []"

definition bySelector :: "(string gomap \<Rightarrow> (string \<times> string) list) \<Rightarrow> index_fn" where
  "bySelector order obj =
     (case obj of
        KWorkloadInventory workloadInventory \<Rightarrow> Ret [MatchLabelsSummary (order (wis_match_labels workloadInventory))]
      | _ \<Rightarrow> Ret [])"

subsection \<open>Registration\<close>

record registration =
  rg_kind :: kind
  rg_field :: string
  rg_values :: index_fn

type_synonym indexer = "registration list \<Rightarrow> registration \<Rightarrow> goerr option"

definition IndexField :: "indexer \<Rightarrow> kind \<Rightarrow> string \<Rightarrow> index_fn \<Rightarrow> (registration list, goerr option) state" where
  "IndexField M k f g =
     perform (\<lambda>t. M t \<lparr>rg_kind = k, rg_field = f, rg_values = g\<rparr>) \<lparr>rg_kind = k, rg_field = f, rg_values = g\<rparr>"

text \<open>\<open>if err != nil { return err }\<close> before the next call.\<close>

definition err_then :: "('s, goerr option) state \<Rightarrow> ('s, goerr option) state \<Rightarrow> ('s, goerr option) state" where
  "err_then m n = do { err \<leftarrow> m; case err of None \<Rightarrow> n | Some e \<Rightarrow> ret (Some e) }"

fun index_loop :: "indexer \<Rightarrow> string \<Rightarrow> index_fn \<Rightarrow> kind list \<Rightarrow> (registration list, goerr option) state" where
  "index_loop M f g [] = ret None"
| "index_loop M f g (k # ks) = err_then (IndexField M k f g) (index_loop M f g ks)"

definition ByMemberReferences :: "indexer \<Rightarrow> (registration list, goerr option) state" where
  "ByMemberReferences M = err_then (IndexField M AOrganization MemberReferencesField byMemberReferences) (ret None)"

definition ByUID :: "indexer \<Rightarrow> (registration list, goerr option) state" where
  "ByUID M = index_loop M UIDField byUID [ACluster, ANode, ANodePool, AOrganization, AUser, AWorkload]"

definition ByEmail :: "indexer \<Rightarrow> (registration list, goerr option) state" where
  "ByEmail M = err_then (IndexField M AUser EmailField byEmail) (
     err_then (IndexField M AInvitation EmailField byEmail) (ret None))"

definition ByCode :: "indexer \<Rightarrow> (registration list, goerr option) state" where
  "ByCode M = err_then (IndexField M AOrganizationVoucher CodeField byCode) (
     err_then (IndexField M AVerificationRequest CodeField byCode) (ret None))"

definition BySelector ::
  "(string gomap \<Rightarrow> (string \<times> string) list) \<Rightarrow> indexer \<Rightarrow> (registration list, goerr option) state"
where
  "BySelector order M = err_then (IndexField M AWorkloadInventory SelectorField (bySelector order)) (ret None)"

definition AddDefaultIndexes :: "indexer \<Rightarrow> (registration list, goerr option) state" where
  "AddDefaultIndexes M =
     err_then (ByEmail M) (
     err_then (ByUID M) (
     err_then (ByMemberReferences M) (
     err_then (ByCode M) (
     err_then (IndexField M AUser ProviderIDField ByProviderID) (
     err_then (index_loop M OwnerReferencesField ByOwnerReferences [ANodePool, ANode, ACluster]) (
     err_then (IndexField M ASecret SecretTypeField BySecretType) (
     ret None)))))))"

subsection \<open>What the registered indexes answer\<close>

text \<open>The index registered for a kind and a field; the first one counts, a second is refused by the cache.\<close>

definition registered :: "registration list \<Rightarrow> kind \<Rightarrow> string \<Rightarrow> index_fn option" where
  "registered regs k f = map_of (map (\<lambda>r. ((rg_kind r, rg_field r), rg_values r)) regs) (k, f)"

text \<open>The registrations of a manager that accepts them all.\<close>

definition default_registrations :: "registration list" where
  "default_registrations = snd (run_state (AddDefaultIndexes (\<lambda>t r. None)) [])"

definition default_index :: "kind \<Rightarrow> string \<Rightarrow> index_fn option" where
  "default_index = registered default_registrations"

text \<open>A list is answered by the indexes when every field it names has one.\<close>

fun indexed_call :: "call \<Rightarrow> bool" where
  "indexed_call (CList k opts) = list_all (\<lambda>(f, v). default_index k f \<noteq> None) (lo_fields opts)"
| "indexed_call c = True"

definition field_matches :: "kobject \<Rightarrow> string \<times> string \<Rightarrow> bool" where
  "field_matches x fv =
     (case default_index (kind_of x) (fst fv) of
        None \<Rightarrow> False
      | Some g \<Rightarrow> (case g x of Ret vs \<Rightarrow> snd fv \<in> set vs | Fail e \<Rightarrow> False | Panic \<Rightarrow> False))"

text \<open>A server that answers a list made after \<open>t\<close> from the objects \<open>objs\<close> and the registered indexes.\<close>

definition indexes_at :: "server \<Rightarrow> trace \<Rightarrow> kobject list \<Rightarrow> bool" where
  "indexes_at S t objs =
     (\<forall>k opts. indexed_call (CList k opts) \<longrightarrow>
        sv_list S t k opts =
          Inr (filter (\<lambda>x. kind_of x = k \<and> selected opts x \<and> list_all (field_matches x) (lo_fields opts)) objs))"

definition answering :: "(trace \<Rightarrow> kobject list) \<Rightarrow> trace \<Rightarrow> kind \<Rightarrow> list_opts \<Rightarrow> goerr + kobject list" where
  "answering objects t k opts =
     Inr (filter (\<lambda>x. kind_of x = k \<and> selected opts x \<and> list_all (field_matches x) (lo_fields opts)) (objects t))"

lemma indexes_at_answering: "sv_list S = answering objects \<Longrightarrow> indexes_at S t (objects t)"
  by (simp add: indexes_at_def answering_def)

lemma run_err_then [run_simps]:
  "run_state (err_then m n) t =
     (case run_state m t of (None, t') \<Rightarrow> run_state n t' | (Some e, t') \<Rightarrow> (Some e, t'))"
  by (simp add: err_then_def split: prod.splits option.splits)

lemma run_IndexField [run_simps]:
  "run_state (IndexField M k f g) t =
     (M t \<lparr>rg_kind = k, rg_field = f, rg_values = g\<rparr>, t @ [\<lparr>rg_kind = k, rg_field = f, rg_values = g\<rparr>])"
  by (simp add: IndexField_def)

lemmas index_defs = AddDefaultIndexes_def ByEmail_def ByUID_def ByMemberReferences_def ByCode_def

lemma default_registrations:
  "map (\<lambda>r. (rg_kind r, rg_field r)) default_registrations =
     [(AUser, EmailField), (AInvitation, EmailField), (ACluster, UIDField), (ANode, UIDField), (ANodePool, UIDField),
      (AOrganization, UIDField), (AUser, UIDField), (AWorkload, UIDField), (AOrganization, MemberReferencesField),
      (AOrganizationVoucher, CodeField), (AVerificationRequest, CodeField), (AUser, ProviderIDField),
      (ANodePool, OwnerReferencesField), (ANode, OwnerReferencesField), (ACluster, OwnerReferencesField),
      (ASecret, SecretTypeField)]"
  by (simp add: default_registrations_def index_defs run_simps)

lemma default_index_simps [simp]:
  "default_index AUser EmailField = Some byEmail" "default_index AInvitation EmailField = Some byEmail"
  "default_index AOrganization MemberReferencesField = Some byMemberReferences"
  "default_index AOrganizationVoucher CodeField = Some byCode" "default_index AVerificationRequest CodeField = Some byCode"
  "default_index AUser ProviderIDField = Some ByProviderID"
  "default_index ACluster OwnerReferencesField = Some ByOwnerReferences"
  "default_index ASecret SecretTypeField = Some BySecretType"
  by (simp_all add: default_index_def default_registrations_def registered_def index_defs run_simps field_defs)

lemma field_matches_simps [simp]:
  "field_matches (KUser u) (EmailField, v) = (us_email (user_spec u) = v)"
  "field_matches (KUser u) (ProviderIDField, v) = (us_provider_id (user_spec u) = v)"
  "field_matches (KInvitation i) (EmailField, v) = (is_email (invitation_spec i) = v)"
  "field_matches (KVerificationRequest r) (CodeField, v) = (vrs_code (verification_request_spec r) = v)"
  "field_matches (KOrganizationVoucher o') (CodeField, v) = (ovs_code (organization_voucher_spec o') = v)"
  "field_matches (KCluster c) (OwnerReferencesField, v) = (v \<in> or_uid ` set (om_owner_references (cluster_meta c)))"
  by (auto simp: field_matches_def byEmail_def ByProviderID_def byCode_def ByOwnerReferences_def)

context resource_interface begin

lemma list_indexed:
  assumes "indexes_at S t objs" and "indexed_call (CList (rk_kind R) opts)"
  shows "decode_list R (sv_list S t (rk_kind R) opts) =
     Inr (filter (\<lambda>v. selected opts (rk_wrap R v) \<and> list_all (field_matches (rk_wrap R v)) (lo_fields opts))
       (List.map_filter (rk_unwrap R) objs))"
proof -
  have "those (map (rk_unwrap R) (filter (\<lambda>x. kind_of x = rk_kind R \<and> P x) xs))
      = Some (filter (\<lambda>v. P (rk_wrap R v)) (List.map_filter (rk_unwrap R) xs))" for P xs
  proof (induction xs)
    case (Cons x xs)
    then show ?case by (cases "rk_unwrap R x") (auto simp: unwrap_kind map_filter_simps dest: unwrap_SomeD)
  qed (simp add: map_filter_simps)
  with assms show ?thesis by (simp add: decode_list_def indexes_at_def)
qed

end

lemma selected_all [simp]: "selected \<lparr>lo_namespace = [], lo_labels = [], lo_fields = fs\<rparr> x"
  by (simp add: selected_def)

text \<open>The reference: the registrations one after the other, until one is refused.\<close>

fun register_all :: "indexer \<Rightarrow> registration list \<Rightarrow> (registration list, goerr option) state" where
  "register_all M [] = ret None"
| "register_all M (r # rs) = err_then (perform (\<lambda>t. M t r) r) (register_all M rs)"

lemma err_then_assoc: "err_then (err_then m n) q = err_then m (err_then n q)"
  by (rule state.expand) (auto simp: run_err_then fun_eq_iff split: prod.splits option.splits)

lemma err_then_None [simp]: "err_then (ret None) n = n"
  by (rule state.expand) (simp add: run_err_then fun_eq_iff)

lemma AddDefaultIndexes_register_all: "AddDefaultIndexes M = register_all M default_registrations"
  by (simp add: default_registrations_def index_defs run_simps IndexField_def err_then_assoc)

text \<open>\<open>AddDefaultIndexes\<close> makes the default registrations one after the other and stops at the first that the manager
  refuses. No kind and field are registered twice, and no registered index function can panic on an object of its kind,
  although the one for secrets has an unchecked type assertion.\<close>

theorem default_indexes_registered:
  "AddDefaultIndexes M = register_all M default_registrations
     \<and> distinct (map (\<lambda>r. (rg_kind r, rg_field r)) default_registrations)
     \<and> list_all (\<lambda>r. if kind_of x = rg_kind r then rg_values r x \<noteq> Panic else True) default_registrations"
proof (intro conjI)
  show "distinct (map (\<lambda>r. (rg_kind r, rg_field r)) default_registrations)"
    by (simp add: default_registrations field_defs)
  have "BySecretType x \<noteq> Panic" if "kind_of x = ASecret"
    using that by (cases x) (simp_all add: BySecretType_def)
  then show "list_all (\<lambda>r. if kind_of x = rg_kind r then rg_values r x \<noteq> Panic else True) default_registrations"
    by (auto simp: default_registrations_def index_defs run_simps byEmail_def byUID_def byMemberReferences_def byCode_def
        ByProviderID_def ByOwnerReferences_def split: kobject.splits)
qed (rule AddDefaultIndexes_register_all)

subsection \<open>The keys of object references\<close>

text \<open>Object names have no capital letters, and the name of a kind starts with one: then the key of a
  reference determines its namespace and its name.\<close>

definition capital :: "char \<Rightarrow> bool" where
  "capital c = (65 \<le> (of_char c :: nat) \<and> (of_char c :: nat) \<le> 90)"

definition namespace_or_empty :: "typed_ref \<Rightarrow> string" where
  "namespace_or_empty r = (case tr_namespace r of None \<Rightarrow> [] | Some ns \<Rightarrow> ns)"

lemma TypedObjectRef_key: "TypedObjectRef r = namespace_or_empty r @ tr_kind r @ tr_name r"
  by (simp add: TypedObjectRef_def namespace_or_empty_def split: option.split)

lemma takeWhile_to_kind:
  assumes "list_all (\<lambda>c. \<not> capital c) ns" "capital k"
  shows "takeWhile (\<lambda>c. \<not> capital c) (ns @ k # rest) = ns"
  using assms by (induction ns) simp_all

text \<open>Two references to objects of one kind have the same index key only when they name the same object, if names and
  namespaces have no capital letters and the kind starts with one; a reference without a namespace and one with the empty
  namespace are the same key.\<close>

theorem reference_keys_unique:
  assumes "tr_kind a = tr_kind b" and "tr_kind a = k # ks" and "capital k"
    and "list_all (\<lambda>c. \<not> capital c) (namespace_or_empty a)" and "list_all (\<lambda>c. \<not> capital c) (namespace_or_empty b)"
  shows "TypedObjectRef a = TypedObjectRef b \<longleftrightarrow> namespace_or_empty a = namespace_or_empty b \<and> tr_name a = tr_name b"
proof
  assume same: "TypedObjectRef a = TypedObjectRef b"
  then have eq: "namespace_or_empty a @ k # ks @ tr_name a = namespace_or_empty b @ k # ks @ tr_name b"
    using assms(1,2) by (metis TypedObjectRef_key append_Cons)
  from arg_cong [OF eq, of "takeWhile (\<lambda>c. \<not> capital c)"]
  have "namespace_or_empty a = namespace_or_empty b"
    by (simp add: takeWhile_to_kind assms)
  with eq show "namespace_or_empty a = namespace_or_empty b \<and> tr_name a = tr_name b" by simp
next
  assume "namespace_or_empty a = namespace_or_empty b \<and> tr_name a = tr_name b"
  with assms(1) show "TypedObjectRef a = TypedObjectRef b" by (simp add: TypedObjectRef_key)
qed

lemma reference_keys_unique_witness:
  "TypedObjectRef \<lparr>tr_api_group = None, tr_kind = ''WorkloadTemplate'', tr_name = ''b'', tr_namespace = Some ''a''\<rparr>
   \<noteq> TypedObjectRef \<lparr>tr_api_group = None, tr_kind = ''WorkloadTemplate'', tr_name = ''ab'', tr_namespace = None\<rparr>"
  using reference_keys_unique [of "\<lparr>tr_api_group = None, tr_kind = ''WorkloadTemplate'', tr_name = ''b'', tr_namespace = Some ''a''\<rparr>"
    "\<lparr>tr_api_group = None, tr_kind = ''WorkloadTemplate'', tr_name = ''ab'', tr_namespace = None\<rparr>" "CHR ''W''" "''orkloadTemplate''"]
  by (simp add: namespace_or_empty_def capital_def)

text \<open>The summary of a selector depends on the order in which the run-time walks the map, so two evaluations on one
  object need not give the same key.\<close>

lemma summary_depends_on_order:
  "map_of [(''a'', ''1''), (''b'', ''2'')] = map_of [(''b'', ''2''), (''a'', ''1'')]"
  "MatchLabelsSummary [(''a'', ''1''), (''b'', ''2'')] \<noteq> MatchLabelsSummary [(''b'', ''2''), (''a'', ''1'')]"
  by (auto simp: MatchLabelsSummary_def)

end
