(* ===== verification/Prefixes.thy ===== *)
theory Prefixes
  imports Main "HOL-Library.Word"
begin

text \<open>
  The part of Go's \<open>net/netip\<close> the cluster webhook relies on: prefixes over 32-bit and 128-bit addresses
  and \<open>Prefix.Overlaps\<close>, with the library's order of tests. The theorem of the file says what the
  webhook needs of it: two valid prefixes overlap exactly when some address belongs to both.
\<close>

datatype ip = V4 "32 word" | V6 "128 word"

text \<open>\<open>netip.Prefix{}\<close>, the zero value, is the invalid prefix; a valid one has at most as many bits as its
  address.\<close>

datatype prefix = InvalidPrefix | Prefix ip nat

fun address_bits :: "ip \<Rightarrow> nat" where
  "address_bits (V4 a) = 32"
| "address_bits (V6 a) = 128"

fun Is4 :: "ip \<Rightarrow> bool" where
  "Is4 (V4 a) = True"
| "Is4 (V6 a) = False"

fun Prefix_IsValid :: "prefix \<Rightarrow> bool" where
  "Prefix_IsValid InvalidPrefix = False"
| "Prefix_IsValid (Prefix a n) = (n \<le> address_bits a)"

text \<open>\<open>Addr.Prefix(b)\<close>: the address with all but its first \<open>b\<close> bits cleared.\<close>

fun Addr_Prefix :: "ip \<Rightarrow> nat \<Rightarrow> ip" where
  "Addr_Prefix (V4 a) b = V4 (push_bit (32 - b) (drop_bit (32 - b) a))"
| "Addr_Prefix (V6 a) b = V6 (push_bit (128 - b) (drop_bit (128 - b) a))"

fun Overlaps :: "prefix \<Rightarrow> prefix \<Rightarrow> bool" where
  "Overlaps (Prefix a n) (Prefix b m) =
     (if \<not> Prefix_IsValid (Prefix a n) \<or> \<not> Prefix_IsValid (Prefix b m) then False
      else if Prefix a n = Prefix b m then True
      else if Is4 a \<noteq> Is4 b then False
      else (let minBits = (if n < m then n else m) in
            if minBits = 0 then True
            else Addr_Prefix a minBits = Addr_Prefix b minBits))"
| "Overlaps p q = False"

text \<open>The addresses of a prefix: those of its family that agree with it on its bits.\<close>

fun contains :: "prefix \<Rightarrow> ip \<Rightarrow> bool" where
  "contains (Prefix (V4 a) n) (V4 x) = (n \<le> 32 \<and> drop_bit (32 - n) x = drop_bit (32 - n) a)"
| "contains (Prefix (V6 a) n) (V6 x) = (n \<le> 128 \<and> drop_bit (128 - n) x = drop_bit (128 - n) a)"
| "contains p x = False"

lemma drop_push_drop: "drop_bit k (push_bit k (drop_bit k a)) = drop_bit k (a :: 'a :: len word)"
  by (rule bit_word_eqI) (auto simp: bit_simps dest: bit_imp_le_length)

lemma masked_eq_iff:
  "push_bit k (drop_bit k a) = push_bit k (drop_bit k b) \<longleftrightarrow> drop_bit k a = drop_bit k (b :: 'a :: len word)"
  by (metis drop_push_drop)

text \<open>Agreeing on the shorter prefix is having a common extension.\<close>

lemma common_extension:
  fixes a b :: "'a :: len word"
  assumes "j \<le> k"
  shows "(\<exists>x. drop_bit k x = drop_bit k a \<and> drop_bit j x = drop_bit j b) \<longleftrightarrow> drop_bit k a = drop_bit k b"
proof
  assume "\<exists>x. drop_bit k x = drop_bit k a \<and> drop_bit j x = drop_bit j b"
  then obtain x where x: "drop_bit k x = drop_bit k a" "drop_bit j x = drop_bit j b" by blast
  have "drop_bit k y = drop_bit (k - j) (drop_bit j y)" for y :: "'a word"
    using assms by (simp add: drop_bit_drop_bit)
  with x show "drop_bit k a = drop_bit k b" by metis
next
  assume "drop_bit k a = drop_bit k b"
  then show "\<exists>x. drop_bit k x = drop_bit k a \<and> drop_bit j x = drop_bit j b"
    by (intro exI [of _ b]) simp
qed

lemma common_extension_width:
  fixes a b :: "'a :: len word"
  assumes "n \<le> w" and "m \<le> w"
  shows "(\<exists>x. drop_bit (w - n) x = drop_bit (w - n) a \<and> drop_bit (w - m) x = drop_bit (w - m) b)
         \<longleftrightarrow> drop_bit (w - min n m) a = drop_bit (w - min n m) b"
proof (cases "n \<le> m")
  case True
  then show ?thesis using common_extension [of "w - m" "w - n" a b] by (simp add: min_def)
next
  case False
  then have "(\<exists>x. drop_bit (w - m) x = drop_bit (w - m) b \<and> drop_bit (w - n) x = drop_bit (w - n) a)
             \<longleftrightarrow> drop_bit (w - m) b = drop_bit (w - m) a"
    using common_extension [of "w - n" "w - m" b a] by simp
  with False show ?thesis by (auto simp: min_def)
qed

lemma drop_all_bits: "drop_bit LENGTH('a) (a :: 'a :: len word) = 0"
  by (rule bit_word_eqI) (auto simp: bit_simps dest: bit_imp_le_length)

lemma overlap_test:
  fixes a b :: "'a :: len word"
  assumes "LENGTH('a) = w" and "n \<le> w" and "m \<le> w"
  shows "(let minBits = (if n < m then n else m) in
          if minBits = 0 then True else push_bit (w - minBits) (drop_bit (w - minBits) a)
                                        = push_bit (w - minBits) (drop_bit (w - minBits) b))
         \<longleftrightarrow> (\<exists>x. drop_bit (w - n) x = drop_bit (w - n) a \<and> drop_bit (w - m) x = drop_bit (w - m) b)"
proof -
  have "(if n < m then n else m) = min n m" by (simp add: min_def)
  moreover have "min n m = 0 \<Longrightarrow> drop_bit (w - min n m) a = drop_bit (w - min n m) b"
    using drop_all_bits [of a] drop_all_bits [of b] assms(1) by simp
  ultimately show ?thesis
    unfolding common_extension_width [OF assms(2,3)] Let_def masked_eq_iff by auto
qed

lemma ex_ip: "(\<exists>x. P x) \<longleftrightarrow> (\<exists>a. P (V4 a)) \<or> (\<exists>a. P (V6 a))"
  by (metis ip.exhaust)

lemma Overlaps_iff_common_address: "Overlaps p q \<longleftrightarrow> (\<exists>x. contains p x \<and> contains q x)"
proof (cases p; cases q)
  fix a n b m
  assume p: "p = Prefix a n" and q: "q = Prefix b m"
  show ?thesis
  proof (cases a; cases b)
    fix a' b'
    assume ab: "a = V4 a'" "b = V4 b'"
    have "(\<exists>x. contains p x \<and> contains q x) \<longleftrightarrow> n \<le> 32 \<and> m \<le> 32 \<and>
            (\<exists>x. drop_bit (32 - n) x = drop_bit (32 - n) a' \<and> drop_bit (32 - m) x = drop_bit (32 - m) b')"
      unfolding p q ab ex_ip by auto
    moreover have "Overlaps p q \<longleftrightarrow> n \<le> 32 \<and> m \<le> 32 \<and>
            (\<exists>x. drop_bit (32 - n) x = drop_bit (32 - n) a' \<and> drop_bit (32 - m) x = drop_bit (32 - m) b')"
      using overlap_test [of 32 n m a' b'] by (auto simp: p q ab Let_def)
    ultimately show ?thesis by blast
  next
    fix a' b'
    assume ab: "a = V6 a'" "b = V6 b'"
    have "(\<exists>x. contains p x \<and> contains q x) \<longleftrightarrow> n \<le> 128 \<and> m \<le> 128 \<and>
            (\<exists>x. drop_bit (128 - n) x = drop_bit (128 - n) a' \<and> drop_bit (128 - m) x = drop_bit (128 - m) b')"
      unfolding p q ab ex_ip by auto
    moreover have "Overlaps p q \<longleftrightarrow> n \<le> 128 \<and> m \<le> 128 \<and>
            (\<exists>x. drop_bit (128 - n) x = drop_bit (128 - n) a' \<and> drop_bit (128 - m) x = drop_bit (128 - m) b')"
      using overlap_test [of 128 n m a' b'] by (auto simp: p q ab Let_def)
    ultimately show ?thesis by blast
  qed (auto simp: p q elim: contains.elims)
qed (auto elim: contains.elims)

end
