(* ===== verification/Webhooks.thy ===== *)
theory Webhooks
  imports Apiutil Indexes Names Prefixes
begin

text \<open>
  The admission webhooks of \<open>internal/webhooks\<close>: defaulting and validation of clusters, node pools,
  members, users, invitations and organizations. A webhook that lists objects runs over the trace;
  one that does not is a plain function. An admission error is \<open>Some\<close> error, warnings are a list.

  Library functions the webhooks call are fields of \<open>webhook_lib\<close>: \<open>netip.ParsePrefix\<close>,
  \<open>Prefix.String\<close>, \<open>mail.ParseAddress\<close> (the address part) and \<open>cmp.Equal\<close> on the two resource fields.
\<close>

record webhook_lib =
  lib_api :: api_lib
  lib_parse_prefix :: "string \<Rightarrow> prefix option"
  lib_prefix_string :: "prefix \<Rightarrow> string"
  lib_parse_address :: "string \<Rightarrow> string option"
  lib_equal_resources :: "quantity gomap \<Rightarrow> quantity gomap \<Rightarrow> bool"
  lib_equal_storage :: "storage_resource list option \<Rightarrow> storage_resource list option \<Rightarrow> bool"

type_synonym warnings = "string list"

subsection \<open>Clusters\<close>

definition DockyardsCluster_Default :: "server \<Rightarrow> cluster \<Rightarrow> (trace, (goerr, cluster) go) state" where
  "DockyardsCluster_Default S c =
     (if cs_version (cluster_spec c) = [] then do {
        r \<leftarrow> GetDefaultRelease S ReleaseTypeKubernetes;
        case r of
          Inl e \<Rightarrow> ret (Fail e)
        | Inr None \<Rightarrow>
            ret (Fail (NewInvalid (om_name (cluster_meta c))
              [FieldRequired [Child ''spec'', Child ''version''] ''must be set when no default release exists'']))
        | Inr (Some release) \<Rightarrow>
            if rlst_latest_version (release_status release) = [] then
              ret (Fail (NewInvalid (om_name (cluster_meta c))
                [FieldRequired [Child ''spec'', Child ''version''] ''must be set when default release has no latest version'']))
            else ret (Ret (c\<lparr>cluster_spec := (cluster_spec c)\<lparr>cs_version := rlst_latest_version (release_status release)\<rparr>\<rparr>))
      }
      else ret (Ret c))"

fun cluster_owner_loop :: "api_lib \<Rightarrow> owner_ref list \<Rightarrow> bool \<Rightarrow> goerr + bool" where
  "cluster_owner_loop L [] hasOrganizationOwner = Inr hasOrganizationOwner"
| "cluster_owner_loop L (r # rs) hasOrganizationOwner =
     (if or_kind r \<noteq> OrganizationKind then cluster_owner_loop L rs hasOrganizationOwner
      else (case lib_parse_group_version L (or_api_version r) of
              Inl e \<Rightarrow> Inl e
            | Inr (gr, v) \<Rightarrow>
                if gr \<noteq> GroupVersion_Group then cluster_owner_loop L rs hasOrganizationOwner
                else cluster_owner_loop L rs True))"

fun overlap_loop ::
  "webhook_lib \<Rightarrow> path_elem list \<Rightarrow> string \<Rightarrow> prefix \<Rightarrow> prefix list \<Rightarrow> field_error list \<Rightarrow> field_error list"
where
  "overlap_loop L path subnet newPrefix [] errorList = errorList"
| "overlap_loop L path subnet newPrefix (p # ps) errorList =
     overlap_loop L path subnet newPrefix ps
       (if Overlaps newPrefix p
        then errorList @ [FieldInvalid path (BadString subnet) (''subnet overlaps with prefix '' @ lib_prefix_string L p)]
        else errorList)"

fun subnet_loop ::
  "webhook_lib \<Rightarrow> string \<Rightarrow> string \<Rightarrow> nat \<Rightarrow> string list \<Rightarrow> prefix list \<Rightarrow> field_error list \<Rightarrow> prefix list \<times> field_error list"
where
  "subnet_loop L fld detail i [] prefixes errorList = (prefixes, errorList)"
| "subnet_loop L fld detail i (subnet # subnets) prefixes errorList =
     (let path = [Child ''spec'', Child fld, Index i];
          newPrefix = (case lib_parse_prefix L subnet of None \<Rightarrow> InvalidPrefix | Some p \<Rightarrow> p);
          errorList = (if lib_parse_prefix L subnet = None
                       then errorList @ [FieldInvalid path (BadString subnet) detail] else errorList);
          errorList = overlap_loop L path subnet newPrefix prefixes errorList
      in subnet_loop L fld detail (i + 1) subnets (prefixes @ [newPrefix]) errorList)"

definition DockyardsCluster_validate :: "webhook_lib \<Rightarrow> cluster \<Rightarrow> goerr option" where
  "DockyardsCluster_validate L c =
     (case cluster_owner_loop (lib_api L) (om_owner_references (cluster_meta c)) False of
        Inl e \<Rightarrow> Some e
      | Inr hasOrganizationOwner \<Rightarrow>
          if \<not> hasOrganizationOwner then
            Some (NewInvalid (om_name (cluster_meta c))
              [FieldRequired [Child ''metadata'', Child ''ownerReferences''] ''must have organization owner reference''])
          else
            (let (prefixes, errorList) =
                   subnet_loop L ''podSubnets'' ''unable to parse pod subnet as prefix'' 0
                     (cs_pod_subnets (cluster_spec c)) [] [];
                 (prefixes, errorList) =
                   subnet_loop L ''serviceSubnets'' ''unable to parse service subnet as prefix'' 0
                     (cs_service_subnets (cluster_spec c)) prefixes errorList
             in if length errorList = 0 then None
                else Some (NewInvalid (om_name (cluster_meta c)) errorList)))"

definition DockyardsCluster_ValidateCreate :: "webhook_lib \<Rightarrow> cluster \<Rightarrow> warnings \<times> goerr option" where
  "DockyardsCluster_ValidateCreate L c = ([], DockyardsCluster_validate L c)"

definition DockyardsCluster_ValidateUpdate ::
  "webhook_lib \<Rightarrow> cluster \<Rightarrow> cluster \<Rightarrow> warnings \<times> goerr option"
where
  "DockyardsCluster_ValidateUpdate L old new =
     (if cs_allocate_internal_ip (cluster_spec new) \<noteq> cs_allocate_internal_ip (cluster_spec old) then
        ([], Some (NewInvalid (om_name (cluster_meta new))
                [FieldInvalid [Child ''spec'', Child ''allocateInternalIP''] BadStruct ''field is immutable'']))
      else ([], DockyardsCluster_validate L new))"

definition DockyardsCluster_ValidateDelete ::
  "server \<Rightarrow> cluster \<Rightarrow> (trace, warnings \<times> goerr option) state"
where
  "DockyardsCluster_ValidateDelete S c = do {
     expired \<leftarrow> HasExpired S (Cluster_GetExpiration c);
     if expired then ret ([], None)
     else if cs_block_deletion (cluster_spec c) then
       ret ([], Some (NewInvalid (om_name (cluster_meta c))
                  [FieldForbidden [Child ''spec'', Child ''blockDeletion''] ''deletion is blocked'']))
     else ret ([], None)
   }"

subsection \<open>Node pools\<close>

definition FeatureStorageRole :: string where "FeatureStorageRole = ''storage-role''"
definition FeatureLoadBalancerRole :: string where "FeatureLoadBalancerRole = ''load-balancer-role''"
definition FeatureImmutableResources :: string where "FeatureImmutableResources = ''immutable-resources''"

definition FeatureImmutableStorageResources :: string where
  "FeatureImmutableStorageResources = ''immutable-storage-resources''"

definition FeatureStorageResourceTypeHostPath :: string where
  "FeatureStorageResourceTypeHostPath = ''storage-resource-type-host-path''"

definition FeatureOrganizationAutoAssign :: string where
  "FeatureOrganizationAutoAssign = ''organization-auto-assign''"

text \<open>The loop over the storage resources: \<open>names\<close> are the names seen so far; an invalid name goes on with
  the next resource, a duplicate ends the loop.\<close>

fun storage_loop :: "bool \<Rightarrow> nat \<Rightarrow> string set \<Rightarrow> storage_resource list \<Rightarrow> field_error list \<Rightarrow> field_error list" where
  "storage_loop hostPathEnabled i names [] errorList = errorList"
| "storage_loop hostPathEnabled i names (r # rs) errorList =
     (let path = [Child ''spec'', Child ''storageResources''];
          errorList = (if sr_type r = StorageResourceTypeHostPath \<and> \<not> hostPathEnabled
                       then errorList @ [FieldInvalid (path @ [Index i, Child ''type'']) (BadString (sr_type r)) ''feature is not enabled'']
                       else errorList)
      in if \<not> snd (IsValidName (sr_name r))
         then storage_loop hostPathEnabled (i + 1) names rs
                (errorList @ [FieldInvalid (path @ [Index i, Child ''name'']) (BadString (sr_name r)) ''not a valid name''])
         else if sr_name r \<in> names
         then errorList @ [FieldDuplicate (path @ [Child ''name'']) (BadString (sr_name r))]
         else storage_loop hostPathEnabled (i + 1) (insert (sr_name r) names) rs errorList)"

definition nodePoolLabels :: "string list" where
  "nodePoolLabels = [LabelOrganizationName, LabelClusterName]"

fun label_loop :: "string gomap \<Rightarrow> string list \<Rightarrow> field_error list \<Rightarrow> field_error list" where
  "label_loop labels [] errorList = errorList"
| "label_loop labels (l # ls) errorList =
     label_loop labels ls
       (if map_str labels l = []
        then errorList @ [FieldInvalid [Child ''metadata'', Child ''labels''] BadStruct
                            (''missing value for label '' @ [CHR 0x27] @ l @ [CHR 0x27])]
        else errorList)"

text \<open>The errors of \<open>validate\<close> in the order of the code, once the five feature queries are answered.\<close>

definition node_pool_errors ::
  "webhook_lib \<Rightarrow> bool \<Rightarrow> bool \<Rightarrow> bool \<Rightarrow> bool \<Rightarrow> bool \<Rightarrow> node_pool option \<Rightarrow> node_pool \<Rightarrow> field_error list"
where
  "node_pool_errors L storageRole loadBalancerRole immutableResources immutableStorage hostPath old new =
     (let spec = node_pool_spec new;
          errs = [];
          errs = (if np_storage spec \<and> \<not> storageRole
                  then errs @ [FieldInvalid [Child ''spec'', Child ''storage''] BadStruct ''feature is not enabled''] else errs);
          errs = (if np_storage_resources spec \<noteq> None \<and> \<not> storageRole
                  then errs @ [FieldInvalid [Child ''spec'', Child ''storageResources''] BadStruct ''feature is not enabled''] else errs);
          errs = (if np_load_balancer spec \<and> \<not> loadBalancerRole
                  then errs @ [FieldInvalid [Child ''spec'', Child ''loadBalancer''] BadStruct ''feature is not enabled''] else errs);
          errs = (case old of
                    None \<Rightarrow> errs
                  | Some o' \<Rightarrow>
                      if immutableResources then
                        (let errs = (if \<not> lib_equal_resources L (np_resources (node_pool_spec o')) (np_resources spec)
                                     then errs @ [FieldForbidden [Child ''spec'', Child ''resources''] ''immutable-resources feature is enabled''] else errs)
                         in if \<not> lib_equal_storage L (np_storage_resources (node_pool_spec o')) (np_storage_resources spec)
                            then errs @ [FieldForbidden [Child ''spec'', Child ''storageResources''] ''immutable-resources feature is enabled''] else errs)
                      else errs);
          errs = (case old of
                    None \<Rightarrow> errs
                  | Some o' \<Rightarrow>
                      if immutableStorage \<and> \<not> lib_equal_storage L (np_storage_resources (node_pool_spec o')) (np_storage_resources spec)
                      then errs @ [FieldForbidden [Child ''spec'', Child ''storageResources''] ''immutable-storage-resources feature is enabled'']
                      else errs);
          errs = storage_loop hostPath 0 {} (case np_storage_resources spec of None \<Rightarrow> [] | Some rs \<Rightarrow> rs) errs;
          errs = (if np_control_plane spec \<and> np_replicas spec = Some 0
                  then errs @ [FieldInvalid [Child ''spec'', Child ''replicas''] (BadInt 0) ''must be at least 1 for control plane''] else errs)
      in label_loop (om_labels (node_pool_meta new)) nodePoolLabels errs)"

definition DockyardsNodePool_validate ::
  "webhook_lib \<Rightarrow> server \<Rightarrow> node_pool option \<Rightarrow> node_pool \<Rightarrow> (trace, goerr option) state"
where
  "DockyardsNodePool_validate L S old new = do {
     storageRole \<leftarrow> IsFeatureEnabled S FeatureStorageRole [];
     case storageRole of Inl e \<Rightarrow> ret (Some e) | Inr storageRole \<Rightarrow> do {
     loadBalancerRole \<leftarrow> IsFeatureEnabled S FeatureLoadBalancerRole [];
     case loadBalancerRole of Inl e \<Rightarrow> ret (Some e) | Inr loadBalancerRole \<Rightarrow> do {
     immutableResources \<leftarrow> IsFeatureEnabled S FeatureImmutableResources [];
     case immutableResources of Inl e \<Rightarrow> ret (Some e) | Inr immutableResources \<Rightarrow> do {
     immutableStorage \<leftarrow> IsFeatureEnabled S FeatureImmutableStorageResources [];
     case immutableStorage of Inl e \<Rightarrow> ret (Some e) | Inr immutableStorage \<Rightarrow> do {
     hostPath \<leftarrow> IsFeatureEnabled S FeatureStorageResourceTypeHostPath [];
     case hostPath of Inl e \<Rightarrow> ret (Some e) | Inr hostPath \<Rightarrow>
       (let errorList = node_pool_errors L storageRole loadBalancerRole immutableResources immutableStorage hostPath old new
        in if length errorList > 0 then ret (Some (NewInvalid (om_name (node_pool_meta new)) errorList))
           else ret None)
     }}}}}"

definition DockyardsNodePool_ValidateCreate ::
  "webhook_lib \<Rightarrow> server \<Rightarrow> node_pool \<Rightarrow> (trace, warnings \<times> goerr option) state"
where
  "DockyardsNodePool_ValidateCreate L S new = do { e \<leftarrow> DockyardsNodePool_validate L S None new; ret ([], e) }"

definition DockyardsNodePool_ValidateUpdate ::
  "webhook_lib \<Rightarrow> server \<Rightarrow> node_pool \<Rightarrow> node_pool \<Rightarrow> (trace, warnings \<times> goerr option) state"
where
  "DockyardsNodePool_ValidateUpdate L S old new = do { e \<leftarrow> DockyardsNodePool_validate L S (Some old) new; ret ([], e) }"

subsection \<open>Members\<close>

text \<open>Writing a label into a nil map panics (\<open>map_put\<close> is \<open>None\<close>).\<close>

definition put_label :: "string \<Rightarrow> string \<Rightarrow> object_meta \<Rightarrow> object_meta option" where
  "put_label k v m = map_option (\<lambda>labels. m\<lparr>om_labels := labels\<rparr>) (map_put (om_labels m) k v)"

definition with_labels :: "object_meta \<Rightarrow> object_meta" where
  "with_labels m = (if om_labels m = None then m\<lparr>om_labels := make_map []\<rparr> else m)"

definition DockyardsMember_Default :: "server \<Rightarrow> member \<Rightarrow> (trace, (goerr, member) go) state" where
  "DockyardsMember_Default S m = do {
     r \<leftarrow> GetOrganizationByNamespaceRef S (om_namespace (member_meta m));
     case r of
       Inl e \<Rightarrow> ret (Fail e)
     | Inr organization \<Rightarrow>
         (case Option.bind (put_label LabelOrganizationName (om_name (organization_meta organization)) (with_labels (member_meta m)))
                 (\<lambda>meta. Option.bind (put_label LabelRoleName (ms_role (member_spec m)) meta)
                   (\<lambda>meta. put_label LabelUserName (tl_name (ms_user_ref (member_spec m))) meta)) of
            None \<Rightarrow> ret Panic
          | Some meta \<Rightarrow> ret (Ret (m\<lparr>member_meta := meta\<rparr>)))
   }"

definition label_warning :: "string \<Rightarrow> string \<Rightarrow> string" where
  "label_warning label path =
     ''label '' @ [CHR 0x27] @ label @ [CHR 0x27] @ '' should match the role defined in '' @ [CHR 0x27] @ path @ [CHR 0x27]"

definition check_label ::
  "string \<Rightarrow> string \<Rightarrow> string \<Rightarrow> object_meta \<Rightarrow> warnings \<Rightarrow> (object_meta \<times> warnings) option"
where
  "check_label label v path meta ws =
     (if map_str (om_labels meta) label \<noteq> v
      then map_option (\<lambda>meta'. (meta', ws @ [label_warning label path])) (put_label label v meta)
      else Some (meta, ws))"

definition member_errors :: "member \<Rightarrow> field_error list" where
  "member_errors m =
     (let errs = [];
          errs = (if tl_name (ms_user_ref (member_spec m)) = []
                  then errs @ [FieldInvalid [Child ''spec'', Child ''userRef'', Child ''name''] BadStruct ''userRef must not be empty''] else errs)
      in if tl_kind (ms_user_ref (member_spec m)) = []
         then errs @ [FieldInvalid [Child ''spec'', Child ''userRef'', Child ''kind''] BadStruct ''invalid userRef kind, expected User'']
         else errs)"

definition DockyardsMember_validate :: "member \<Rightarrow> (goerr, warnings) go" where
  "DockyardsMember_validate m =
     (let errorList = member_errors m in
      case check_label LabelRoleName (ms_role (member_spec m)) ''spec.role'' (member_meta m) [] of
        None \<Rightarrow> Panic
      | Some (meta, ws) \<Rightarrow>
          (case check_label LabelUserName (tl_name (ms_user_ref (member_spec m))) ''spec.userRef.name'' meta ws of
             None \<Rightarrow> Panic
           | Some (meta, ws) \<Rightarrow>
               if length errorList > 0 then Fail (NewInvalid (om_name (member_meta m)) errorList)
               else Ret ws))"

definition DockyardsMember_ValidateCreate :: "member \<Rightarrow> (goerr, warnings) go" where
  "DockyardsMember_ValidateCreate m = DockyardsMember_validate m"

definition DockyardsMember_ValidateUpdate :: "member \<Rightarrow> member \<Rightarrow> (goerr, warnings) go" where
  "DockyardsMember_ValidateUpdate old new =
     (let errs = (if ms_user_ref (member_spec old) \<noteq> ms_user_ref (member_spec new)
                  then [FieldInvalid [Child ''spec'', Child ''userRef''] BadStruct ''field is immutable''] else [])
      in if length errs > 0 then Fail (NewInvalid (om_name (member_meta new)) errs)
         else DockyardsMember_validate new)"

subsection \<open>Users\<close>

fun other_user_loop :: "user \<Rightarrow> user list \<Rightarrow> bool" where
  "other_user_loop u [] = False"
| "other_user_loop u (x # xs) = (if om_uid (user_meta x) = om_uid (user_meta u) then other_user_loop u xs else True)"

fun allowed_domain_loop :: "string \<Rightarrow> string list \<Rightarrow> bool" where
  "allowed_domain_loop address [] = False"
| "allowed_domain_loop address (d # ds) = (if HasSuffix address d then True else allowed_domain_loop address ds)"

definition DockyardsUser_validate ::
  "webhook_lib \<Rightarrow> string list option \<Rightarrow> server \<Rightarrow> user \<Rightarrow> (trace, goerr option) state"
where
  "DockyardsUser_validate L allowedDomains S u =
     (case lib_parse_address L (us_email (user_spec u)) of
        None \<Rightarrow> ret (Some (NewInvalid (om_name (user_meta u))
                  [FieldInvalid [Child ''spec'', Child ''email''] (BadString (us_email (user_spec u))) ''address is invalid'']))
      | Some address \<Rightarrow> do {
          r \<leftarrow> k_list R_user S (matching_field EmailField (us_email (user_spec u)) []);
          case r of
            Inl e \<Rightarrow> ret (Some e)
          | Inr users \<Rightarrow>
              if other_user_loop u users then ret (Some (NewForbidden (om_name (user_meta u))))
              else (case allowedDomains of
                      None \<Rightarrow> ret None
                    | Some domains \<Rightarrow>
                        if map_has (om_annotations (user_meta u)) AnnotationVoucherCode then ret None
                        else if allowed_domain_loop address domains then ret None
                        else ret (Some (NewForbidden (om_name (user_meta u)))))
        })"

definition DockyardsUser_ValidateCreate ::
  "webhook_lib \<Rightarrow> string list option \<Rightarrow> server \<Rightarrow> user \<Rightarrow> (trace, warnings \<times> goerr option) state"
where
  "DockyardsUser_ValidateCreate L domains S u = do { e \<leftarrow> DockyardsUser_validate L domains S u; ret ([], e) }"

definition DockyardsUser_ValidateUpdate ::
  "webhook_lib \<Rightarrow> string list option \<Rightarrow> server \<Rightarrow> user \<Rightarrow> user \<Rightarrow> (trace, warnings \<times> goerr option) state"
where
  "DockyardsUser_ValidateUpdate L domains S old new = do { e \<leftarrow> DockyardsUser_validate L domains S new; ret ([], e) }"

subsection \<open>Invitations\<close>

definition invitation_error :: "invitation \<Rightarrow> string \<Rightarrow> goerr" where
  "invitation_error i detail = NewInvalid (om_name (invitation_meta i))
     [FieldInvalid [Child ''spec'', Child ''email''] (BadString (is_email (invitation_spec i))) detail]"

fun member_ref_loop :: "string \<Rightarrow> organization_member_ref list \<Rightarrow> bool" where
  "member_ref_loop n [] = False"
| "member_ref_loop n (r # rs) = (if tl_name (omr_ref r) \<noteq> n then member_ref_loop n rs else True)"

fun already_member_loop :: "string \<Rightarrow> string \<Rightarrow> organization list \<Rightarrow> bool" where
  "already_member_loop ns n [] = False"
| "already_member_loop ns n (v # vs) =
     (case os_namespace_ref (organization_spec v) of
        None \<Rightarrow> already_member_loop ns n vs
      | Some ref \<Rightarrow>
          if ref \<noteq> ns then already_member_loop ns n vs
          else if member_ref_loop n (os_member_refs (organization_spec v)) then True
          else already_member_loop ns n vs)"

definition DockyardsInvitation_validate ::
  "webhook_lib \<Rightarrow> server \<Rightarrow> invitation \<Rightarrow> (trace, warnings \<times> goerr option) state"
where
  "DockyardsInvitation_validate L S i =
     (case lib_parse_address L (is_email (invitation_spec i)) of
        None \<Rightarrow> ret ([], Some (invitation_error i ''unable to parse as address''))
      | Some address \<Rightarrow> do {
          r \<leftarrow> k_list R_invitation S (matching_field EmailField (is_email (invitation_spec i)) (om_namespace (invitation_meta i)));
          case r of
            Inl e \<Rightarrow> ret ([], Some e)
          | Inr invitations \<Rightarrow>
              if length invitations \<noteq> 0 then ret ([], Some (invitation_error i ''address already invited''))
              else do {
                r \<leftarrow> k_list R_user S (matching_field EmailField (is_email (invitation_spec i)) []);
                case r of
                  Inl e \<Rightarrow> ret ([], Some e)
                | Inr [] \<Rightarrow> ret ([], None)
                | Inr (existingUser # _) \<Rightarrow> do {
                    r \<leftarrow> k_list R_organization S (matching_field MemberReferencesField (om_name (user_meta existingUser)) []);
                    case r of
                      Inl e \<Rightarrow> ret ([], Some e)
                    | Inr organizations \<Rightarrow>
                        if already_member_loop (om_namespace (invitation_meta i)) (om_name (user_meta existingUser)) organizations
                        then ret ([], Some (invitation_error i ''user already member''))
                        else ret ([], None)
                  }
              }
        })"

definition DockyardsInvitation_ValidateCreate ::
  "webhook_lib \<Rightarrow> server \<Rightarrow> invitation \<Rightarrow> (trace, warnings \<times> goerr option) state"
where
  "DockyardsInvitation_ValidateCreate L S i = DockyardsInvitation_validate L S i"

definition invitationImmutableSpecFields :: "(path_elem list \<times> (invitation_spec \<Rightarrow> string)) list" where
  "invitationImmutableSpecFields =
     [([Child ''spec'', Child ''email''], is_email), ([Child ''spec'', Child ''role''], is_role)]"

fun immutable_loop ::
  "(path_elem list \<times> (invitation_spec \<Rightarrow> string)) list \<Rightarrow> invitation_spec \<Rightarrow> invitation_spec \<Rightarrow> field_error list \<Rightarrow> field_error list"
where
  "immutable_loop [] old new errs = errs"
| "immutable_loop ((path, get) # fs) old new errs =
     immutable_loop fs old new
       (if get old \<noteq> get new then errs @ [FieldInvalid path (BadString (get new)) ''field is immutable''] else errs)"

definition DockyardsInvitation_ValidateUpdate ::
  "webhook_lib \<Rightarrow> server \<Rightarrow> invitation \<Rightarrow> invitation \<Rightarrow> (trace, warnings \<times> goerr option) state"
where
  "DockyardsInvitation_ValidateUpdate L S old new =
     (let errs = immutable_loop invitationImmutableSpecFields (invitation_spec old) (invitation_spec new) [] in
      if length errs > 0 then ret ([], Some (NewInvalid (om_name (invitation_meta new)) errs))
      else DockyardsInvitation_validate L S new)"

subsection \<open>Organizations\<close>

definition DockyardsOrganization_Default :: "organization \<Rightarrow> (goerr, organization) go" where
  "DockyardsOrganization_Default v =
     (case put_label LabelOrganizationName (om_name (organization_meta v)) (with_labels (organization_meta v)) of
        None \<Rightarrow> Panic
      | Some meta \<Rightarrow> Ret (v\<lparr>organization_meta := meta\<rparr>))"

definition DockyardsOrganization_validate ::
  "server \<Rightarrow> organization \<Rightarrow> (trace, warnings \<times> goerr option) state"
where
  "DockyardsOrganization_validate S v = do {
     r \<leftarrow> IsFeatureEnabled S FeatureOrganizationAutoAssign [];
     case r of
       Inl e \<Rightarrow> ret ([], Some e)
     | Inr organizationAutoAssignEnabled \<Rightarrow>
         (let errorList = (if \<not> os_skip_auto_assign (organization_spec v) \<and> \<not> organizationAutoAssignEnabled
                           then [FieldInvalid [Child ''spec'', Child ''skipAutoAssign''] BadStruct ''feature is not enabled''] else []);
              ws = (if length (os_member_refs (organization_spec v)) > 0
                    then [''spec.memberRefs is deprecated and will be removed in a future release; please migrate to using Member type instead.''] else [])
          in if length errorList > 0 then ret (ws, Some (NewInvalid (om_name (organization_meta v)) errorList))
             else ret (ws, None))
   }"

definition DockyardsOrganization_ValidateCreate ::
  "server \<Rightarrow> organization \<Rightarrow> (trace, warnings \<times> goerr option) state"
where
  "DockyardsOrganization_ValidateCreate S v = DockyardsOrganization_validate S v"

definition DockyardsOrganization_ValidateUpdate ::
  "server \<Rightarrow> organization \<Rightarrow> organization \<Rightarrow> (trace, warnings \<times> goerr option) state"
where
  "DockyardsOrganization_ValidateUpdate S old v = DockyardsOrganization_validate S v"

subsection \<open>Lemmas on clusters\<close>

definition reference_parses :: "api_lib \<Rightarrow> owner_ref \<Rightarrow> bool" where
  "reference_parses L r =
     (or_kind r \<noteq> OrganizationKind \<or> (\<exists>gv. lib_parse_group_version L (or_api_version r) = Inr gv))"

lemma cluster_owner_loop_iff:
  "cluster_owner_loop L rs has = Inr True \<longleftrightarrow>
     list_all (reference_parses L) rs \<and> (has \<or> list_ex (owned_by_reference L OrganizationKind) rs)"
  by (induction rs arbitrary: has)
     (auto simp: reference_parses_def owned_by_reference_def split: sum.splits)

definition parsed :: "webhook_lib \<Rightarrow> string list \<Rightarrow> prefix list" where
  "parsed L ss = map (\<lambda>s. case lib_parse_prefix L s of None \<Rightarrow> InvalidPrefix | Some p \<Rightarrow> p) ss"

abbreviation disjoint :: "prefix \<Rightarrow> prefix \<Rightarrow> bool" where
  "disjoint p q \<equiv> \<not> (\<exists>a. contains p a \<and> contains q a)"

lemma overlap_loop_Nil_iff:
  "overlap_loop L path subnet q ps errs = [] \<longleftrightarrow> errs = [] \<and> list_all (\<lambda>p. disjoint p q) ps"
proof (induction ps arbitrary: errs)
  case (Cons p ps)
  then show ?case by (auto simp: Overlaps_iff_common_address)
qed simp

lemma subnet_loop_prefixes: "fst (subnet_loop L fld detail i ss ps errs) = ps @ parsed L ss"
  by (induction ss arbitrary: i ps errs) (simp_all add: Let_def parsed_def)

lemma subnet_loop_mono: "snd (subnet_loop L fld detail i ss ps errs) = [] \<Longrightarrow> errs = []"
proof (induction ss arbitrary: i ps errs)
  case (Cons s ss)
  then show ?case
    by (auto simp: Let_def overlap_loop_Nil_iff dest!: Cons.IH split: if_splits)
qed simp

lemma subnet_loop_Nil_iff:
  assumes "sorted_wrt disjoint ps"
  shows "snd (subnet_loop L fld detail i ss ps errs) = [] \<longleftrightarrow>
           errs = [] \<and> list_all (\<lambda>s. lib_parse_prefix L s \<noteq> None) ss \<and> sorted_wrt disjoint (ps @ parsed L ss)"
  using assms
proof (induction ss arbitrary: i ps errs)
  case Nil
  then show ?case by (simp add: parsed_def)
next
  case (Cons s ss)
  let ?q = "case lib_parse_prefix L s of None \<Rightarrow> InvalidPrefix | Some p \<Rightarrow> p"
  let ?errs = "overlap_loop L [Child ''spec'', Child fld, Index i] s ?q ps
      (if lib_parse_prefix L s = None
       then errs @ [FieldInvalid [Child ''spec'', Child fld, Index i] (BadString s) detail] else errs)"
  have step: "subnet_loop L fld detail i (s # ss) ps errs = subnet_loop L fld detail (i + 1) ss (ps @ [?q]) ?errs"
    by (simp add: Let_def)
  have errs: "?errs = [] \<longleftrightarrow> errs = [] \<and> lib_parse_prefix L s \<noteq> None \<and> list_all (\<lambda>p. disjoint p ?q) ps"
    by (simp add: overlap_loop_Nil_iff)
  have append: "(ps @ [?q]) @ parsed L ss = ps @ parsed L (s # ss)"
    by (simp add: parsed_def)
  show ?case
  proof (cases "list_all (\<lambda>p. disjoint p ?q) ps")
    case True
    then have sorted: "sorted_wrt disjoint (ps @ [?q])"
      using Cons.prems by (simp add: sorted_wrt_append list_all_iff)
    show ?thesis
      unfolding step Cons.IH [OF sorted] append errs using True by auto
  next
    case False
    then have "\<not> sorted_wrt disjoint (ps @ parsed L (s # ss))"
      by (auto simp: sorted_wrt_append list_all_iff parsed_def)
    moreover have "?errs \<noteq> []" using False errs by blast
    ultimately show ?thesis unfolding step using subnet_loop_mono by blast
  qed
qed

subsection \<open>The interface of an immutable field\<close>

text \<open>
  A validating webhook guards a field when it accepts an update only if the field is unchanged.
  Whatever sequence of accepted updates follows, the field keeps its first value. The locale is
  interpreted for every immutable field of the webhooks.
\<close>

locale immutable_field =
  fixes accepted :: "'o \<Rightarrow> 'o \<Rightarrow> bool" and get :: "'o \<Rightarrow> 'f"
  assumes unchanged: "accepted old new \<Longrightarrow> get new = get old"
begin

lemma never_changes: "accepted\<^sup>*\<^sup>* old new \<Longrightarrow> get new = get old"
  by (induction rule: rtranclp_induct) (auto dest: unchanged)

end

definition cluster_update_accepted :: "webhook_lib \<Rightarrow> cluster \<Rightarrow> cluster \<Rightarrow> bool" where
  "cluster_update_accepted L old new = (snd (DockyardsCluster_ValidateUpdate L old new) = None)"

definition member_update_accepted :: "member \<Rightarrow> member \<Rightarrow> bool" where
  "member_update_accepted old new = (\<exists>ws. DockyardsMember_ValidateUpdate old new = Ret ws)"

definition invitation_update_accepted :: "webhook_lib \<Rightarrow> invitation \<Rightarrow> invitation \<Rightarrow> bool" where
  "invitation_update_accepted L old new =
     (\<exists>S t. snd (fst (run_state (DockyardsInvitation_ValidateUpdate L S old new) t)) = None)"

interpretation cluster_internal_ip: immutable_field "cluster_update_accepted L"
  "\<lambda>c. cs_allocate_internal_ip (cluster_spec c)" for L
  by unfold_locales (auto simp: cluster_update_accepted_def DockyardsCluster_ValidateUpdate_def split: if_splits)

interpretation member_user_ref: immutable_field member_update_accepted "\<lambda>m. ms_user_ref (member_spec m)"
  by unfold_locales (auto simp: member_update_accepted_def DockyardsMember_ValidateUpdate_def Let_def split: if_splits)

interpretation invitation_email_role: immutable_field "invitation_update_accepted L"
  "\<lambda>i. (is_email (invitation_spec i), is_role (invitation_spec i))" for L
  by unfold_locales
     (auto simp: invitation_update_accepted_def DockyardsInvitation_ValidateUpdate_def Let_def
        invitationImmutableSpecFields_def split: if_splits)

subsection \<open>Lemmas on features, labels and searches\<close>

text \<open>A server whose list of features does not change.\<close>

definition features_are :: "server \<Rightarrow> feature list \<Rightarrow> bool" where
  "features_are S fs = (\<forall>t. sv_list S t AFeature (in_namespace []) = Inr (map KFeature fs))"

definition enabled :: "feature list \<Rightarrow> string \<Rightarrow> bool" where
  "enabled fs n = (n \<in> set (map (\<lambda>f. om_name (feature_meta f)) fs))"

lemma run_IsFeatureEnabled:
  assumes "features_are S fs"
  shows "run_state (IsFeatureEnabled S n []) t = (Inr (enabled fs n), t @ [CList AFeature (in_namespace [])])"
proof -
  have "rk_kind R_feature = AFeature" "map KFeature fs = map (rk_wrap R_feature) fs"
    by (simp_all add: R_feature_def)
  then have "decode_list R_feature (sv_list S t (rk_kind R_feature) (in_namespace [])) = Inr fs"
    using assms by (simp add: features_are_def feature_resource.decode_list_Inr_iff)
  then show ?thesis
    using \<open>rk_kind R_feature = AFeature\<close>
    by (simp add: IsFeatureEnabled_def run_k_list feature_loop_iff enabled_def)
qed

lemma storage_loop_Nil_iff:
  "storage_loop hostPath i names rs errs = [] \<longleftrightarrow>
     errs = [] \<and> list_all (\<lambda>r. sr_type r = StorageResourceTypeHostPath \<longrightarrow> hostPath) rs
     \<and> list_all (\<lambda>r. length (sr_name r) \<le> 63 \<and> object_name (sr_name r)) rs
     \<and> distinct (map sr_name rs) \<and> set (map sr_name rs) \<inter> names = {}"
proof (induction rs arbitrary: i names errs)
  case (Cons r rs)
  have valid: "snd (IsValidName (sr_name r)) \<longleftrightarrow> length (sr_name r) \<le> 63 \<and> object_name (sr_name r)"
    by (simp add: IsValidName_spec)
  have mono: "storage_loop hostPath j ns rs es = [] \<Longrightarrow> es = []" for j ns es
    using Cons.IH by blast
  show ?case
    using mono Cons.IH by (auto simp: Let_def valid)
qed simp

lemma label_loop_Nil_iff:
  "label_loop labels ls errs = [] \<longleftrightarrow> errs = [] \<and> list_all (\<lambda>l. map_str labels l \<noteq> []) ls"
  by (induction ls arbitrary: errs) auto

lemma allowed_domain_loop_iff: "allowed_domain_loop a ds \<longleftrightarrow> list_ex (HasSuffix a) ds"
  by (induction ds) auto

lemma other_user_loop_iff: "other_user_loop u xs \<longleftrightarrow> list_ex (\<lambda>x. om_uid (user_meta x) \<noteq> om_uid (user_meta u)) xs"
  by (induction xs) auto

lemma member_ref_loop_iff: "member_ref_loop n rs \<longleftrightarrow> list_ex (\<lambda>r. tl_name (omr_ref r) = n) rs"
  by (induction rs) auto

lemma already_member_loop_iff:
  "already_member_loop ns n vs \<longleftrightarrow>
     list_ex (\<lambda>v. references_namespace ns v \<and> list_ex (\<lambda>r. tl_name (omr_ref r) = n) (os_member_refs (organization_spec v))) vs"
  by (induction vs) (auto simp: references_namespace_def member_ref_loop_iff split: option.split)

subsection \<open>Properties\<close>

text \<open>C7 A cluster is admitted exactly when it is owned by an organization (every owner reference of that
  kind has a well-formed API version and one of them is of the group \<open>dockyards.io\<close>), every pod and
  service subnet is a prefix, and no address belongs to two of these subnets, pods and services taken
  together.\<close>

theorem cluster_create_accepted_iff:
  "snd (DockyardsCluster_ValidateCreate L c) = None \<longleftrightarrow>
     list_all (reference_parses (lib_api L)) (om_owner_references (cluster_meta c))
     \<and> list_ex (owned_by_reference (lib_api L) OrganizationKind) (om_owner_references (cluster_meta c))
     \<and> list_all (\<lambda>s. lib_parse_prefix L s \<noteq> None) (cs_pod_subnets (cluster_spec c) @ cs_service_subnets (cluster_spec c))
     \<and> sorted_wrt disjoint (parsed L (cs_pod_subnets (cluster_spec c) @ cs_service_subnets (cluster_spec c)))"
proof -
  let ?pods = "cs_pod_subnets (cluster_spec c)" and ?services = "cs_service_subnets (cluster_spec c)"
  let ?pp = "''unable to parse pod subnet as prefix''" and ?sp = "''unable to parse service subnet as prefix''"
  let ?p = "subnet_loop L ''podSubnets'' ?pp 0 ?pods [] []"
  let ?s = "subnet_loop L ''serviceSubnets'' ?sp 0 ?services (fst ?p) (snd ?p)"
  have fst_p: "fst ?p = parsed L ?pods" by (simp add: subnet_loop_prefixes)
  have snd_p: "snd ?p = [] \<longleftrightarrow> list_all (\<lambda>s. lib_parse_prefix L s \<noteq> None) ?pods \<and> sorted_wrt disjoint (parsed L ?pods)"
    using subnet_loop_Nil_iff [of "[]" L "''podSubnets''" ?pp 0 ?pods "[]"] by simp
  have append: "parsed L ?pods @ parsed L ?services = parsed L (?pods @ ?services)" by (simp add: parsed_def)
  have snd_s: "snd ?s = [] \<longleftrightarrow> list_all (\<lambda>s. lib_parse_prefix L s \<noteq> None) (?pods @ ?services)
                 \<and> sorted_wrt disjoint (parsed L (?pods @ ?services))"
  proof (cases "sorted_wrt disjoint (parsed L ?pods)")
    case True
    then show ?thesis
      using subnet_loop_Nil_iff [of "fst ?p" L "''serviceSubnets''" ?sp 0 ?services "snd ?p"] fst_p snd_p append by auto
  next
    case False
    then have "snd ?s \<noteq> []" using subnet_loop_mono snd_p by blast
    with False show ?thesis by (simp add: append [symmetric] sorted_wrt_append)
  qed
  have "DockyardsCluster_validate L c = None \<longleftrightarrow>
          cluster_owner_loop (lib_api L) (om_owner_references (cluster_meta c)) False = Inr True \<and> snd ?s = []"
    by (auto simp: DockyardsCluster_validate_def Let_def case_prod_unfold split: sum.split)
  then show ?thesis
    unfolding DockyardsCluster_ValidateCreate_def snd_conv cluster_owner_loop_iff snd_s by simp
qed

text \<open>C24 Through any sequence of admitted updates a cluster keeps \<open>allocateInternalIP\<close>, a member keeps the
  user it refers to, and an invitation keeps its address and role.\<close>

theorem immutable_fields_never_change:
  "((cluster_update_accepted L)\<^sup>*\<^sup>* c c' \<longrightarrow>
      cs_allocate_internal_ip (cluster_spec c') = cs_allocate_internal_ip (cluster_spec c))
   \<and> (member_update_accepted\<^sup>*\<^sup>* m m' \<longrightarrow> ms_user_ref (member_spec m') = ms_user_ref (member_spec m))
   \<and> ((invitation_update_accepted L)\<^sup>*\<^sup>* i i' \<longrightarrow>
      (is_email (invitation_spec i'), is_role (invitation_spec i')) = (is_email (invitation_spec i), is_role (invitation_spec i)))"
  using cluster_internal_ip.never_changes member_user_ref.never_changes invitation_email_role.never_changes by blast

definition valid_member :: member where
  "valid_member = zero_member\<lparr>
     member_meta := empty_meta\<lparr>om_labels := make_map [(LabelRoleName, ''Reader''), (LabelUserName, ''u'')]\<rparr>,
     member_spec := \<lparr>ms_role = ''Reader'', ms_user_ref = \<lparr>tl_api_group = None, tl_kind = ''User'', tl_name = ''u''\<rparr>\<rparr>\<rparr>"

lemma immutable_fields_never_change_witness:
  "\<exists>new. member_update_accepted valid_member new \<and> ms_role (member_spec new) = ''User''
         \<and> ms_user_ref (member_spec new) = ms_user_ref (member_spec valid_member)"
proof -
  let ?new = "valid_member\<lparr>member_meta := empty_meta\<lparr>om_labels := make_map [(LabelRoleName, ''User''), (LabelUserName, ''u'')]\<rparr>,
     member_spec := (member_spec valid_member)\<lparr>ms_role := ''User''\<rparr>\<rparr>"
  have "member_update_accepted valid_member ?new"
    by (simp add: member_update_accepted_def DockyardsMember_ValidateUpdate_def DockyardsMember_validate_def
        valid_member_def member_errors_def check_label_def make_map_def Let_def zero_member_def empty_meta_def)
  then have "member_update_accepted\<^sup>*\<^sup>* valid_member ?new" by (rule r_into_rtranclp)
  then show ?thesis
    using immutable_fields_never_change [where m = valid_member and m' = ?new]
      \<open>member_update_accepted valid_member ?new\<close> by (intro exI [of _ ?new]) simp
qed

text \<open>Deleting a cluster is refused exactly when deletion is blocked and the cluster has not expired.\<close>

theorem cluster_delete_refused_iff:
  "snd (fst (run_state (DockyardsCluster_ValidateDelete S c) t)) \<noteq> None \<longleftrightarrow>
     cs_block_deletion (cluster_spec c)
     \<and> \<not> fst (run_state (HasExpired S (Cluster_GetExpiration c)) t)"
  by (simp add: DockyardsCluster_ValidateDelete_def case_prod_unfold)

text \<open>C23 With a steady list of features, a node pool is created exactly when it uses only enabled
  features, its storage resources have distinct names that match the object name pattern and at most
  63 bytes, a control plane does not ask for zero replicas, and it carries an organization and a
  cluster label.\<close>

theorem node_pool_create_accepted_iff:
  assumes "features_are S fs"
  shows "snd (fst (run_state (DockyardsNodePool_ValidateCreate L S p) t)) = None \<longleftrightarrow>
     (np_storage (node_pool_spec p) \<or> np_storage_resources (node_pool_spec p) \<noteq> None \<longrightarrow> enabled fs FeatureStorageRole)
     \<and> (np_load_balancer (node_pool_spec p) \<longrightarrow> enabled fs FeatureLoadBalancerRole)
     \<and> (let rs = (case np_storage_resources (node_pool_spec p) of None \<Rightarrow> [] | Some rs \<Rightarrow> rs) in
        list_all (\<lambda>r. sr_type r = StorageResourceTypeHostPath \<longrightarrow> enabled fs FeatureStorageResourceTypeHostPath) rs
        \<and> list_all (\<lambda>r. length (sr_name r) \<le> 63 \<and> object_name (sr_name r)) rs \<and> distinct (map sr_name rs))
     \<and> \<not> (np_control_plane (node_pool_spec p) \<and> np_replicas (node_pool_spec p) = Some 0)
     \<and> map_str (om_labels (node_pool_meta p)) LabelOrganizationName \<noteq> []
     \<and> map_str (om_labels (node_pool_meta p)) LabelClusterName \<noteq> []"
proof -
  have "snd (fst (run_state (DockyardsNodePool_ValidateCreate L S p) t)) = None \<longleftrightarrow>
          node_pool_errors L (enabled fs FeatureStorageRole) (enabled fs FeatureLoadBalancerRole)
            (enabled fs FeatureImmutableResources) (enabled fs FeatureImmutableStorageResources)
            (enabled fs FeatureStorageResourceTypeHostPath) None p = []"
    by (simp add: DockyardsNodePool_ValidateCreate_def DockyardsNodePool_validate_def run_IsFeatureEnabled [OF assms]
        case_prod_unfold Let_def)
  then show ?thesis
    by (auto simp: node_pool_errors_def Let_def label_loop_Nil_iff storage_loop_Nil_iff nodePoolLabels_def)
qed

definition plain_webhook_lib :: webhook_lib where
  "plain_webhook_lib = \<lparr>lib_api = plain_lib,
     lib_parse_prefix = (\<lambda>s. if s = ''10.0.0.0/8'' then Some (Prefix (V4 0x0A000000) 8)
                              else if s = ''10.1.0.0/16'' then Some (Prefix (V4 0x0A010000) 16) else None),
     lib_prefix_string = (\<lambda>p. ''prefix''),
     lib_parse_address = (\<lambda>s. if s = [] then None else Some s),
     lib_equal_resources = (\<lambda>a b. a = None \<and> b = None),
     lib_equal_storage = (\<lambda>a b. a = b)\<rparr>"

lemma node_pool_create_accepted_iff_witness:
  "snd (fst (run_state (DockyardsNodePool_ValidateCreate plain_webhook_lib empty_server (zero_node_pool\<lparr>node_pool_meta := empty_meta\<lparr>om_labels :=
      make_map [(LabelOrganizationName, ''o''), (LabelClusterName, ''c'')]\<rparr>\<rparr>)) [])) = None"
  by (subst node_pool_create_accepted_iff [of _ "[]"])
     (simp_all add: features_are_def empty_server_def zero_node_pool_def zero_node_pool_spec_def make_map_def Let_def)

text \<open>While the feature \<open>immutable-storage-resources\<close> or \<open>immutable-resources\<close> is enabled, an admitted
  update of a node pool leaves its storage resources equal, and under \<open>immutable-resources\<close> its
  resources too.\<close>

theorem node_pool_resources_immutable:
  assumes "features_are S fs"
    and "snd (fst (run_state (DockyardsNodePool_ValidateUpdate L S old new) t)) = None"
  shows "(enabled fs FeatureImmutableStorageResources \<or> enabled fs FeatureImmutableResources \<longrightarrow>
            lib_equal_storage L (np_storage_resources (node_pool_spec old)) (np_storage_resources (node_pool_spec new)))
         \<and> (enabled fs FeatureImmutableResources \<longrightarrow>
            lib_equal_resources L (np_resources (node_pool_spec old)) (np_resources (node_pool_spec new)))"
proof -
  have "node_pool_errors L (enabled fs FeatureStorageRole) (enabled fs FeatureLoadBalancerRole)
          (enabled fs FeatureImmutableResources) (enabled fs FeatureImmutableStorageResources)
          (enabled fs FeatureStorageResourceTypeHostPath) (Some old) new = []"
    using assms(2)
    by (simp add: DockyardsNodePool_ValidateUpdate_def DockyardsNodePool_validate_def run_IsFeatureEnabled [OF assms(1)]
        case_prod_unfold Let_def split: if_splits)
  then show ?thesis
    by (auto simp: node_pool_errors_def Let_def label_loop_Nil_iff storage_loop_Nil_iff split: if_splits)
qed

definition storage_locked_server :: server where
  "storage_locked_server = empty_server\<lparr>sv_list := \<lambda>t k opts. Inr [KFeature
     \<lparr>feature_meta = empty_meta\<lparr>om_name := FeatureImmutableStorageResources\<rparr>\<rparr>]\<rparr>"

lemma node_pool_resources_immutable_witness:
  "let p = zero_node_pool\<lparr>node_pool_meta := empty_meta\<lparr>om_labels :=
             make_map [(LabelOrganizationName, ''o''), (LabelClusterName, ''c'')]\<rparr>\<rparr>
   in snd (fst (run_state (DockyardsNodePool_ValidateUpdate plain_webhook_lib storage_locked_server p p) [])) = None
      \<and> lib_equal_storage plain_webhook_lib (np_storage_resources (node_pool_spec p)) (np_storage_resources (node_pool_spec p))"
proof -
  let ?p = "zero_node_pool\<lparr>node_pool_meta := empty_meta\<lparr>om_labels :=
             make_map [(LabelOrganizationName, ''o''), (LabelClusterName, ''c'')]\<rparr>\<rparr>"
  let ?fs = "[\<lparr>feature_meta = empty_meta\<lparr>om_name := FeatureImmutableStorageResources\<rparr>\<rparr>]"
  have fs: "features_are storage_locked_server ?fs"
    by (simp add: features_are_def storage_locked_server_def)
  have en: "enabled ?fs FeatureImmutableStorageResources" "\<not> enabled ?fs FeatureImmutableResources"
    by (simp_all add: enabled_def FeatureImmutableStorageResources_def FeatureImmutableResources_def)
  have ok: "snd (fst (run_state (DockyardsNodePool_ValidateUpdate plain_webhook_lib storage_locked_server ?p ?p) [])) = None"
    using en by (simp add: DockyardsNodePool_ValidateUpdate_def DockyardsNodePool_validate_def run_IsFeatureEnabled [OF fs]
        node_pool_errors_def nodePoolLabels_def plain_webhook_lib_def zero_node_pool_def zero_node_pool_spec_def make_map_def Let_def)
  then show ?thesis using node_pool_resources_immutable [OF fs ok] en(1) by (simp add: Let_def)
qed

text \<open>Validating a member panics exactly when its label map is nil and its role or user name is not
  empty: the validator writes the missing labels into the map. After the defaulting webhook the map
  is never nil and the labels match, so validation then neither panics nor warns, and rejects exactly
  a member whose user reference lacks a name or a kind.\<close>

theorem member_defaulting_prevents_panic:
  "(DockyardsMember_validate m = Panic \<longleftrightarrow>
      om_labels (member_meta m) = None \<and> \<not> (ms_role (member_spec m) = [] \<and> tl_name (ms_user_ref (member_spec m)) = []))
   \<and> (case fst (run_state (DockyardsMember_Default S m) t) of
        Ret m' \<Rightarrow> DockyardsMember_validate m' =
          (if tl_name (ms_user_ref (member_spec m)) = [] \<or> tl_kind (ms_user_ref (member_spec m)) = []
           then Fail (NewInvalid (om_name (member_meta m)) (member_errors m)) else Ret [])
      | Fail e \<Rightarrow> fst (run_state (GetOrganizationByNamespaceRef S (om_namespace (member_meta m))) t) = Inl e
      | Panic \<Rightarrow> False)"
proof
  show "DockyardsMember_validate m = Panic \<longleftrightarrow>
      om_labels (member_meta m) = None \<and> \<not> (ms_role (member_spec m) = [] \<and> tl_name (ms_user_ref (member_spec m)) = [])"
    by (cases "om_labels (member_meta m)")
       (auto simp: DockyardsMember_validate_def check_label_def put_label_def Let_def)
next
  obtain r t' where run: "run_state (GetOrganizationByNamespaceRef S (om_namespace (member_meta m))) t = (r, t')"
    by fastforce
  obtain labels where labels: "om_labels (with_labels (member_meta m)) = Some labels"
    by (cases "om_labels (member_meta m)") (auto simp: with_labels_def make_map_def)
  have name: "om_name (with_labels (member_meta m)) = om_name (member_meta m)"
    by (simp add: with_labels_def)
  have errors: "member_errors m \<noteq> [] \<longleftrightarrow> tl_name (ms_user_ref (member_spec m)) = [] \<or> tl_kind (ms_user_ref (member_spec m)) = []"
    by (simp add: member_errors_def Let_def)
  have same: "member_errors (m\<lparr>member_meta := meta\<rparr>) = member_errors m" for meta
    by (simp add: member_errors_def)
  show "case fst (run_state (DockyardsMember_Default S m) t) of
        Ret m' \<Rightarrow> DockyardsMember_validate m' =
          (if tl_name (ms_user_ref (member_spec m)) = [] \<or> tl_kind (ms_user_ref (member_spec m)) = []
           then Fail (NewInvalid (om_name (member_meta m)) (member_errors m)) else Ret [])
      | Fail e \<Rightarrow> fst (run_state (GetOrganizationByNamespaceRef S (om_namespace (member_meta m))) t) = Inl e
      | Panic \<Rightarrow> False"
    using errors labels
    by (cases r)
       (auto simp: DockyardsMember_Default_def run put_label_def DockyardsMember_validate_def check_label_def same name Let_def)
qed



text \<open>A user is admitted exactly when the address parses, no user with another uid is listed under the
  same address, and, if a list of domains is configured and the user has no voucher code, the address
  ends with one of the configured strings. The test is on the bare suffix: an address in
  \<open>evilexample.com\<close> passes for the domain \<open>example.com\<close>.\<close>

theorem user_accepted_iff:
  assumes "\<And>t. sv_list S t AUser (matching_field EmailField (us_email (user_spec u)) []) = Inr (map KUser users)"
  shows "(snd (fst (run_state (DockyardsUser_ValidateCreate L domains S u) t)) = None \<longleftrightarrow>
            (\<exists>address. lib_parse_address L (us_email (user_spec u)) = Some address
              \<and> \<not> list_ex (\<lambda>x. om_uid (user_meta x) \<noteq> om_uid (user_meta u)) users
              \<and> (domains = None \<or> map_has (om_annotations (user_meta u)) AnnotationVoucherCode
                 \<or> (\<exists>ds. domains = Some ds \<and> list_ex (HasSuffix address) ds))))
         \<and> HasSuffix ''eve@evilexample.com'' ''example.com''"
proof -
  have "rk_kind R_user = AUser" "map KUser users = map (rk_wrap R_user) users"
    by (simp_all add: R_user_def)
  then have list: "decode_list R_user (sv_list S t (rk_kind R_user) (matching_field EmailField (us_email (user_spec u)) [])) = Inr users" for t
    using assms by (simp add: user_resource.decode_list_Inr_iff)
  have "snd (fst (run_state (DockyardsUser_ValidateCreate L domains S u) t)) = None \<longleftrightarrow>
            (\<exists>address. lib_parse_address L (us_email (user_spec u)) = Some address
              \<and> \<not> list_ex (\<lambda>x. om_uid (user_meta x) \<noteq> om_uid (user_meta u)) users
              \<and> (domains = None \<or> map_has (om_annotations (user_meta u)) AnnotationVoucherCode
                 \<or> (\<exists>ds. domains = Some ds \<and> list_ex (HasSuffix address) ds)))"
    by (simp add: DockyardsUser_ValidateCreate_def DockyardsUser_validate_def run_k_list list case_prod_unfold
        other_user_loop_iff allowed_domain_loop_iff split: option.split)
  moreover have "HasSuffix ''eve@evilexample.com'' ''example.com''" by (simp add: HasSuffix_def)
  ultimately show ?thesis by blast
qed

lemma user_accepted_iff_witness:
  "snd (fst (run_state (DockyardsUser_ValidateCreate plain_webhook_lib (Some [''example.com'']) empty_server
     (zero_user\<lparr>user_spec := (user_spec zero_user)\<lparr>us_email := ''eve@evilexample.com''\<rparr>\<rparr>)) [])) = None"
  using user_accepted_iff [of empty_server "zero_user\<lparr>user_spec := (user_spec zero_user)\<lparr>us_email := ''eve@evilexample.com''\<rparr>\<rparr>"
      "[]" plain_webhook_lib "Some [''example.com'']" "[]"]
  by (simp add: empty_server_def plain_webhook_lib_def zero_user_def)

text \<open>With a steady list of features an organization is admitted exactly when it skips automatic
  assignment or the feature \<open>organization-auto-assign\<close> is enabled, and it is warned exactly when it
  still lists members in its specification.\<close>

theorem organization_accepted_iff:
  assumes "features_are S fs"
  shows "let r = fst (run_state (DockyardsOrganization_ValidateCreate S v) t) in
           (snd r = None \<longleftrightarrow> os_skip_auto_assign (organization_spec v) \<or> enabled fs FeatureOrganizationAutoAssign)
           \<and> (fst r = [] \<longleftrightarrow> os_member_refs (organization_spec v) = [])"
  by (simp add: DockyardsOrganization_ValidateCreate_def DockyardsOrganization_validate_def
      run_IsFeatureEnabled [OF assms] Let_def)

lemma organization_accepted_iff_witness:
  "snd (fst (run_state (DockyardsOrganization_ValidateCreate empty_server
     (zero_organization\<lparr>organization_spec := (organization_spec zero_organization)\<lparr>os_skip_auto_assign := True\<rparr>\<rparr>)) [])) = None"
  using organization_accepted_iff [of empty_server "[]"
      "zero_organization\<lparr>organization_spec := (organization_spec zero_organization)\<lparr>os_skip_auto_assign := True\<rparr>\<rparr>" "[]"]
  by (simp add: features_are_def empty_server_def Let_def)

end
