(* ===== verification/Endpoints.thy ===== *)
theory Endpoints
  imports Apiutil
begin

text \<open>
  The generic HTTP handlers of \<open>internal/api/v1/handlers/{create,get,list,update,delete}.go\<close> and the
  middleware \<open>require_auth.go\<close>. Every endpoint of the API is one of these functions applied to a
  resource name and an endpoint function \<open>f\<close>; here \<open>f\<close> is an arbitrary computation that makes calls
  of its own. A handler's reply is the sequence of actions on the response writer (\<open>None\<close> when the
  handler panics); the first header written is the status the client sees.

  The request is what the handlers read of it: path values (empty when missing), the subject the
  middleware stored in the context, and the body. JSON coding, the printing of validation errors
  and whether writing a body fails are fields of \<open>http_lib\<close>. Logging is left out.
\<close>

datatype reply_action = WriteHeader nat | WriteBody string

type_synonym reply = "reply_action list option"

record request =
  req_organization_name :: string
  req_cluster_name :: string
  req_resource_name :: string
  req_subject :: "string option"
  req_body :: "goerr + string"

record http_lib =
  lib_cause_field :: "field_error \<Rightarrow> string"
  lib_cause_message :: "field_error \<Rightarrow> string"
  lib_marshal_errors :: "string list \<Rightarrow> goerr + string"
  lib_write_fails :: "string \<Rightarrow> bool"

text \<open>An endpoint function returns a pointer and an error, or panics; one without a result returns only an
  error.\<close>

type_synonym 'r result = "('r option \<times> goerr option) option"
type_synonym failure = "goerr option option"

definition StatusOK :: nat where "StatusOK = 200"
definition StatusCreated :: nat where "StatusCreated = 201"
definition StatusAccepted :: nat where "StatusAccepted = 202"
definition StatusBadRequest :: nat where "StatusBadRequest = 400"
definition StatusUnauthorized :: nat where "StatusUnauthorized = 401"
definition StatusForbidden :: nat where "StatusForbidden = 403"
definition StatusNotFound :: nat where "StatusNotFound = 404"
definition StatusConflict :: nat where "StatusConflict = 409"
definition StatusUnprocessableEntity :: nat where "StatusUnprocessableEntity = 422"
definition StatusInternalServerError :: nat where "StatusInternalServerError = 500"

lemmas status_defs = StatusOK_def StatusCreated_def StatusAccepted_def StatusBadRequest_def
  StatusUnauthorized_def StatusForbidden_def StatusNotFound_def StatusConflict_def
  StatusUnprocessableEntity_def StatusInternalServerError_def

definition status :: "nat \<Rightarrow> reply" where
  "status code = Some [WriteHeader code]"

text \<open>Header, then body; when the write fails the code writes a second header, which the response writer
  ignores. The list handlers only log a failed write.\<close>

definition respond :: "http_lib \<Rightarrow> nat \<Rightarrow> string \<Rightarrow> reply" where
  "respond H code b = Some ([WriteHeader code, WriteBody b]
     @ (if lib_write_fails H b then [WriteHeader StatusInternalServerError] else []))"

definition respond_quietly :: "nat \<Rightarrow> string \<Rightarrow> reply" where
  "respond_quietly code b = Some [WriteHeader code, WriteBody b]"

fun first_header :: "reply_action list \<Rightarrow> nat option" where
  "first_header [] = None"
| "first_header (WriteHeader c # as) = Some c"
| "first_header (WriteBody b # as) = Some 200"

definition reply_status :: "reply \<Rightarrow> nat option" where
  "reply_status r = (case r of None \<Rightarrow> None | Some as \<Rightarrow> first_header as)"

lemma reply_status_simps [simp]:
  "reply_status (status c) = Some c" "reply_status (respond H c b) = Some c"
  "reply_status (respond_quietly c b) = Some c" "reply_status None = None"
  by (simp_all add: reply_status_def status_def respond_def respond_quietly_def)

lemma status_inject [simp]: "status c = status d \<longleftrightarrow> c = d"
  by (simp add: status_def)

subsection \<open>Middleware: the subject\<close>

definition SubjectFrom :: "request \<Rightarrow> goerr + string" where
  "SubjectFrom req =
     (case req_subject req of
        None \<Rightarrow> Inl (Plain ''error fecthing subject from context'')
      | Some sub \<Rightarrow> Inr sub)"

text \<open>A parsed token: its claims when they are registered claims (with the outcome of \<open>GetSubject\<close>), and
  whether it is valid. \<open>jwt.ParseWithClaims\<close>, which checks the signature against the public key, is the
  parameter \<open>parse\<close>.\<close>

record token =
  tk_claims :: "(goerr + string) option"
  tk_valid :: bool

definition append_reply :: "reply_action list \<Rightarrow> reply \<Rightarrow> reply" where
  "append_reply as r = map_option (\<lambda>rest. as @ rest) r"

definition RequireAuth_Handler ::
  "(string \<Rightarrow> goerr + token) \<Rightarrow> string \<Rightarrow> (string \<Rightarrow> (trace, reply) state) \<Rightarrow> (trace, reply) state"
where
  "RequireAuth_Handler parse authorizationHeader nxt =
     (if authorizationHeader = [] then ret (status StatusUnauthorized)
      else (let bearerToken = TrimPrefix authorizationHeader ''Bearer '' in
            case parse bearerToken of
              Inl e \<Rightarrow> ret (status StatusUnauthorized)
            | Inr token \<Rightarrow>
                (let written = (if tk_claims token = None \<and> \<not> tk_valid token then [WriteHeader StatusUnauthorized] else []) in
                 case tk_claims token of
                   None \<Rightarrow> ret None
                 | Some (Inl e) \<Rightarrow> ret (append_reply written (status StatusInternalServerError))
                 | Some (Inr subject) \<Rightarrow> do {
                     r \<leftarrow> nxt subject;
                     ret (append_reply written r)
                   })))"

lemma append_reply_Nil [simp]: "append_reply [] r = r"
  by (cases r) (simp_all add: append_reply_def)

subsection \<open>The parts every handler repeats\<close>

text \<open>Looking up the organization, reading the subject and asking for the review; \<open>k\<close> continues with the
  organization and its namespace.\<close>

definition org_gate ::
  "server \<Rightarrow> string \<Rightarrow> string \<Rightarrow> string \<Rightarrow> request \<Rightarrow> (organization \<Rightarrow> string \<Rightarrow> (trace, reply) state) \<Rightarrow> (trace, reply) state"
where
  "org_gate S res verb name req k = do {
     r \<leftarrow> k_get R_organization S \<lparr>ok_namespace = [], ok_name = req_organization_name req\<rparr>;
     case r of
       Inl e \<Rightarrow>
         if ignore NotFound (Some e) \<noteq> None then ret (status StatusInternalServerError)
         else ret (status StatusUnauthorized)
     | Inr organization \<Rightarrow>
         (case os_namespace_ref (organization_spec organization) of
            None \<Rightarrow> ret (status StatusInternalServerError)
          | Some ns \<Rightarrow>
              (case SubjectFrom req of
                 Inl e \<Rightarrow> ret (status StatusInternalServerError)
               | Inr subject \<Rightarrow> do {
                   allowed \<leftarrow> IsSubjectAllowed S subject
                     \<lparr>ra_namespace = ns, ra_verb = verb, ra_group = GroupVersion_Group, ra_version = [],
                      ra_resource = res, ra_name = name\<rparr>;
                   case allowed of
                     Inl e \<Rightarrow> ret (status StatusInternalServerError)
                   | Inr False \<Rightarrow> ret (status StatusUnauthorized)
                   | Inr True \<Rightarrow> k organization ns
                 }))
   }"

text \<open>The same without an organization.\<close>

definition global_gate ::
  "server \<Rightarrow> string \<Rightarrow> string \<Rightarrow> request \<Rightarrow> (trace, reply) state \<Rightarrow> (trace, reply) state"
where
  "global_gate S res verb req k =
     (case SubjectFrom req of
        Inl e \<Rightarrow> ret (status StatusInternalServerError)
      | Inr subject \<Rightarrow> do {
          allowed \<leftarrow> IsSubjectAllowed S subject
            \<lparr>ra_namespace = [], ra_verb = verb, ra_group = GroupVersion_Group, ra_version = [],
             ra_resource = res, ra_name = req_resource_name req\<rparr>;
          case allowed of
            Inl e \<Rightarrow> ret (status StatusInternalServerError)
          | Inr False \<Rightarrow> ret (status StatusUnauthorized)
          | Inr True \<Rightarrow> k
        })"

text \<open>Looking up the cluster; the two codes differ between handlers.\<close>

definition cluster_gate ::
  "server \<Rightarrow> string \<Rightarrow> request \<Rightarrow> nat \<Rightarrow> nat \<Rightarrow> (cluster \<Rightarrow> (trace, reply) state) \<Rightarrow> (trace, reply) state"
where
  "cluster_gate S ns req onError onNotFound k = do {
     r \<leftarrow> k_get R_cluster S \<lparr>ok_namespace = ns, ok_name = req_cluster_name req\<rparr>;
     case r of
       Inl e \<Rightarrow>
         if ignore NotFound (Some e) \<noteq> None then ret (status onError)
         else ret (status onNotFound)
     | Inr c \<Rightarrow> k c
   }"

definition require :: "string \<Rightarrow> (trace, reply) state \<Rightarrow> (trace, reply) state" where
  "require v k = (if v = [] then ret (status StatusBadRequest) else k)"

definition read_body :: "request \<Rightarrow> (string \<Rightarrow> (trace, reply) state) \<Rightarrow> (trace, reply) state" where
  "read_body req k = (case req_body req of Inl e \<Rightarrow> ret (status StatusInternalServerError) | Inr b \<Rightarrow> k b)"

definition unmarshal_body ::
  "(string \<Rightarrow> goerr + 'q) \<Rightarrow> string \<Rightarrow> ('q \<Rightarrow> (trace, reply) state) \<Rightarrow> (trace, reply) state"
where
  "unmarshal_body unmarshal b k =
     (case unmarshal b of Inl e \<Rightarrow> ret (status StatusInternalServerError) | Inr q \<Rightarrow> k q)"

text \<open>Invalid errors: only a \<open>*StatusError\<close> that is not wrapped and has details is written out.\<close>

definition unprocessable :: "http_lib \<Rightarrow> (field_error \<Rightarrow> string) \<Rightarrow> goerr \<Rightarrow> reply" where
  "unprocessable H line e =
     (case e of
        StatusErr r (Some causes) m \<Rightarrow>
          (case lib_marshal_errors H (map line causes) of
             Inl e' \<Rightarrow> status StatusInternalServerError
           | Inr b \<Rightarrow> respond H StatusUnprocessableEntity b)
      | _ \<Rightarrow> status StatusUnprocessableEntity)"

definition create_line :: "http_lib \<Rightarrow> field_error \<Rightarrow> string" where
  "create_line H c = lib_cause_field H c @ '': '' @ lib_cause_message H c"

subsection \<open>Create\<close>

definition create_cluster_reply ::
  "http_lib \<Rightarrow> ('r \<Rightarrow> string option) \<Rightarrow> ('r option \<Rightarrow> goerr + string) \<Rightarrow> 'r option \<times> goerr option \<Rightarrow> reply"
where
  "create_cluster_reply H as_bytes marshal result =
     (case result of
        (response, Some e) \<Rightarrow>
          if IgnoreClientError (Some e) \<noteq> None then status StatusInternalServerError
          else if has_reason Conflict e \<or> has_reason AlreadyExists e then status StatusConflict
          else unprocessable H (create_line H) e
      | (None, None) \<Rightarrow> None
      | (Some response, None) \<Rightarrow>
          (case as_bytes response of
             Some b \<Rightarrow> respond H StatusCreated b
           | None \<Rightarrow>
               (case marshal (Some response) of
                  Inl e \<Rightarrow> status StatusInternalServerError
                | Inr b \<Rightarrow> respond H StatusCreated b)))"

definition CreateClusterResource ::
  "http_lib \<Rightarrow> (string \<Rightarrow> goerr + 'q) \<Rightarrow> ('r \<Rightarrow> string option) \<Rightarrow> ('r option \<Rightarrow> goerr + string) \<Rightarrow> string
   \<Rightarrow> server \<Rightarrow> (cluster \<Rightarrow> 'q \<Rightarrow> (trace, 'r result) state) \<Rightarrow> request \<Rightarrow> (trace, reply) state"
where
  "CreateClusterResource H unmarshal as_bytes marshal res S f req =
     require (req_organization_name req) (require (req_cluster_name req) (
     org_gate S res ''create'' [] req (\<lambda>organization ns.
     cluster_gate S ns req StatusInternalServerError StatusNotFound (\<lambda>cluster.
     read_body req (\<lambda>b. unmarshal_body unmarshal b (\<lambda>request. do {
       r \<leftarrow> f cluster request;
       ret (Option.bind r (create_cluster_reply H as_bytes marshal))
     }))))))"

definition create_organization_reply ::
  "http_lib \<Rightarrow> ('r option \<Rightarrow> goerr + string) \<Rightarrow> 'r option \<times> goerr option \<Rightarrow> reply"
where
  "create_organization_reply H marshal result =
     (case result of
        (response, Some e) \<Rightarrow>
          if IgnoreClientError (Some e) \<noteq> None then status StatusInternalServerError
          else if has_reason Conflict e \<or> has_reason AlreadyExists e then status StatusConflict
          else unprocessable H (create_line H) e
      | (response, None) \<Rightarrow>
          (case marshal response of
             Inl e \<Rightarrow> status StatusInternalServerError
           | Inr b \<Rightarrow> respond H StatusCreated b))"

definition CreateOrganizationResource ::
  "http_lib \<Rightarrow> (string \<Rightarrow> goerr + 'q) \<Rightarrow> ('r option \<Rightarrow> goerr + string) \<Rightarrow> string
   \<Rightarrow> server \<Rightarrow> (organization \<Rightarrow> 'q \<Rightarrow> (trace, 'r result) state) \<Rightarrow> request \<Rightarrow> (trace, reply) state"
where
  "CreateOrganizationResource H unmarshal marshal res S f req =
     require (req_organization_name req) (
     org_gate S res ''create'' [] req (\<lambda>organization ns.
     read_body req (\<lambda>b. unmarshal_body unmarshal b (\<lambda>request. do {
       r \<leftarrow> f organization request;
       ret (Option.bind r (create_organization_reply H marshal))
     }))))"

definition create_global_reply ::
  "http_lib \<Rightarrow> ('r option \<Rightarrow> goerr + string) \<Rightarrow> 'r option \<times> goerr option \<Rightarrow> reply"
where
  "create_global_reply H marshal result =
     (case result of
        (response, Some e) \<Rightarrow>
          if has_reason Invalid e then unprocessable H (create_line H) e
          else if has_reason Unauthorized e then status StatusUnauthorized
          else if has_reason Forbidden e then status StatusForbidden
          else status StatusInternalServerError
      | (response, None) \<Rightarrow>
          (case marshal response of
             Inl e \<Rightarrow> status StatusInternalServerError
           | Inr b \<Rightarrow> respond H StatusCreated b))"

definition CreateGlobalResource ::
  "http_lib \<Rightarrow> (string \<Rightarrow> goerr + 'q) \<Rightarrow> ('r option \<Rightarrow> goerr + string)
   \<Rightarrow> ('q \<Rightarrow> (trace, 'r result) state) \<Rightarrow> request \<Rightarrow> (trace, reply) state"
where
  "CreateGlobalResource H unmarshal marshal f req =
     read_body req (\<lambda>b. unmarshal_body unmarshal b (\<lambda>request. do {
       r \<leftarrow> f request;
       ret (Option.bind r (create_global_reply H marshal))
     }))"

subsection \<open>Update\<close>

definition update_reply :: "http_lib \<Rightarrow> goerr option \<Rightarrow> reply" where
  "update_reply H err =
     (case err of
        None \<Rightarrow> status StatusAccepted
      | Some e \<Rightarrow>
          if has_reason Forbidden e then status StatusForbidden
          else if has_reason NotFound e then status StatusNotFound
          else if has_reason Invalid e then unprocessable H (lib_cause_message H) e
          else status StatusInternalServerError)"

definition UpdateClusterResource ::
  "http_lib \<Rightarrow> (string \<Rightarrow> goerr + 'q) \<Rightarrow> string
   \<Rightarrow> server \<Rightarrow> (cluster \<Rightarrow> string \<Rightarrow> 'q \<Rightarrow> (trace, failure) state) \<Rightarrow> request \<Rightarrow> (trace, reply) state"
where
  "UpdateClusterResource H unmarshal res S f req =
     require (req_organization_name req) (require (req_cluster_name req) (require (req_resource_name req) (
     org_gate S res ''patch'' [] req (\<lambda>organization ns.
     read_body req (\<lambda>b.
     cluster_gate S ns req StatusInternalServerError StatusNotFound (\<lambda>cluster.
     unmarshal_body unmarshal b (\<lambda>request. do {
       r \<leftarrow> f cluster (req_resource_name req) request;
       ret (Option.bind r (update_reply H))
     })))))))"

definition UpdateOrganizationResource ::
  "http_lib \<Rightarrow> (string \<Rightarrow> goerr + 'q) \<Rightarrow> string
   \<Rightarrow> server \<Rightarrow> (organization \<Rightarrow> string \<Rightarrow> 'q \<Rightarrow> (trace, failure) state) \<Rightarrow> request \<Rightarrow> (trace, reply) state"
where
  "UpdateOrganizationResource H unmarshal res S f req =
     require (req_organization_name req) (require (req_resource_name req) (
     org_gate S res ''patch'' [] req (\<lambda>organization ns.
     read_body req (\<lambda>b. unmarshal_body unmarshal b (\<lambda>request. do {
       r \<leftarrow> f organization (req_resource_name req) request;
       ret (Option.bind r (update_reply H))
     })))))"

definition update_global_reply :: "http_lib \<Rightarrow> goerr option \<Rightarrow> reply" where
  "update_global_reply H err =
     (case err of
        None \<Rightarrow> status StatusAccepted
      | Some e \<Rightarrow>
          if has_reason NotFound e then status StatusNotFound
          else if has_reason Unauthorized e then status StatusUnauthorized
          else if has_reason Invalid e then unprocessable H (lib_cause_message H) e
          else status StatusInternalServerError)"

definition UpdateGlobalResource ::
  "http_lib \<Rightarrow> (string \<Rightarrow> goerr + 'q) \<Rightarrow> string
   \<Rightarrow> server \<Rightarrow> (string \<Rightarrow> 'q \<Rightarrow> (trace, failure) state) \<Rightarrow> request \<Rightarrow> (trace, reply) state"
where
  "UpdateGlobalResource H unmarshal res S f req =
     require (req_resource_name req) (
     global_gate S res ''patch'' req (
     read_body req (\<lambda>b. unmarshal_body unmarshal b (\<lambda>request. do {
       r \<leftarrow> f (req_resource_name req) request;
       ret (Option.bind r (update_global_reply H))
     }))))"

definition update_nameless_reply :: "http_lib \<Rightarrow> goerr option \<Rightarrow> reply" where
  "update_nameless_reply H err =
     (case err of
        None \<Rightarrow> status StatusAccepted
      | Some e \<Rightarrow>
          if has_reason Unauthorized e then status StatusUnauthorized
          else if has_reason Invalid e then unprocessable H (lib_cause_message H) e
          else status StatusInternalServerError)"

definition UpdateNamelessResource ::
  "http_lib \<Rightarrow> (string \<Rightarrow> goerr + 'q) \<Rightarrow> ('q \<Rightarrow> (trace, failure) state) \<Rightarrow> request \<Rightarrow> (trace, reply) state"
where
  "UpdateNamelessResource H unmarshal f req =
     read_body req (\<lambda>b. unmarshal_body unmarshal b (\<lambda>request. do {
       r \<leftarrow> f request;
       ret (Option.bind r (update_nameless_reply H))
     }))"

subsection \<open>Get\<close>

definition get_reply ::
  "http_lib \<Rightarrow> ('r option \<Rightarrow> goerr + string) \<Rightarrow> 'r option \<times> goerr option \<Rightarrow> reply"
where
  "get_reply H marshal result =
     (case result of
        (response, Some e) \<Rightarrow>
          if ignore NotFound (Some e) \<noteq> None then status StatusInternalServerError
          else status StatusNotFound
      | (response, None) \<Rightarrow>
          (case marshal response of
             Inl e \<Rightarrow> status StatusInternalServerError
           | Inr b \<Rightarrow> respond H StatusOK b))"

definition GetClusterResource ::
  "http_lib \<Rightarrow> ('r option \<Rightarrow> goerr + string) \<Rightarrow> string
   \<Rightarrow> server \<Rightarrow> (cluster \<Rightarrow> string \<Rightarrow> (trace, 'r result) state) \<Rightarrow> request \<Rightarrow> (trace, reply) state"
where
  "GetClusterResource H marshal res S f req =
     require (req_organization_name req) (require (req_cluster_name req) (require (req_resource_name req) (
     org_gate S res ''get'' [] req (\<lambda>organization ns.
     cluster_gate S ns req StatusInternalServerError StatusNotFound (\<lambda>cluster. do {
       r \<leftarrow> f cluster (req_resource_name req);
       ret (Option.bind r (get_reply H marshal))
     })))))"

definition GetOrganizationResource ::
  "http_lib \<Rightarrow> ('r option \<Rightarrow> goerr + string) \<Rightarrow> string
   \<Rightarrow> server \<Rightarrow> (organization \<Rightarrow> string \<Rightarrow> (trace, 'r result) state) \<Rightarrow> request \<Rightarrow> (trace, reply) state"
where
  "GetOrganizationResource H marshal res S f req =
     require (req_organization_name req) (require (req_resource_name req) (
     org_gate S res ''get'' [] req (\<lambda>organization ns. do {
       r \<leftarrow> f organization (req_resource_name req);
       ret (Option.bind r (get_reply H marshal))
     })))"

definition GetGlobalResource ::
  "http_lib \<Rightarrow> ('r option \<Rightarrow> goerr + string) \<Rightarrow> string
   \<Rightarrow> server \<Rightarrow> (string \<Rightarrow> (trace, 'r result) state) \<Rightarrow> request \<Rightarrow> (trace, reply) state"
where
  "GetGlobalResource H marshal res S f req =
     require (req_resource_name req) (
     global_gate S res ''get'' req (do {
       r \<leftarrow> f (req_resource_name req);
       ret (Option.bind r (get_reply H marshal))
     }))"

definition get_nameless_reply ::
  "http_lib \<Rightarrow> ('r option \<Rightarrow> goerr + string) \<Rightarrow> 'r option \<times> goerr option \<Rightarrow> reply"
where
  "get_nameless_reply H marshal result =
     (case result of
        (response, Some e) \<Rightarrow>
          if has_reason NotFound e then status StatusNotFound
          else if has_reason Unauthorized e then status StatusUnauthorized
          else status StatusInternalServerError
      | (response, None) \<Rightarrow>
          (case marshal response of
             Inl e \<Rightarrow> status StatusInternalServerError
           | Inr b \<Rightarrow> respond H StatusOK b))"

definition GetNamelessResource ::
  "http_lib \<Rightarrow> ('r option \<Rightarrow> goerr + string) \<Rightarrow> (trace, 'r result) state \<Rightarrow> (trace, reply) state"
where
  "GetNamelessResource H marshal f = do { r \<leftarrow> f; ret (Option.bind r (get_nameless_reply H marshal)) }"

text \<open>\<open>UnprotectedResource\<close> also sets the content type, which is not part of a reply here.\<close>

definition UnprotectedResource ::
  "http_lib \<Rightarrow> ('r option \<Rightarrow> goerr + string) \<Rightarrow> (trace, 'r result) state \<Rightarrow> (trace, reply) state"
where
  "UnprotectedResource H marshal f = do { r \<leftarrow> f; ret (Option.bind r (get_nameless_reply H marshal)) }"

subsection \<open>List\<close>

definition list_reply :: "('r option \<Rightarrow> goerr + string) \<Rightarrow> 'r option \<times> goerr option \<Rightarrow> reply" where
  "list_reply marshal result =
     (case result of
        (response, Some e) \<Rightarrow> status StatusInternalServerError
      | (response, None) \<Rightarrow>
          (case marshal response of
             Inl e \<Rightarrow> status StatusInternalServerError
           | Inr b \<Rightarrow> respond_quietly StatusOK b))"

text \<open>Here an error other than NotFound while reading the cluster is answered with 401 too.\<close>

definition ListClusterResource ::
  "('r option \<Rightarrow> goerr + string) \<Rightarrow> string
   \<Rightarrow> server \<Rightarrow> (cluster \<Rightarrow> (trace, 'r result) state) \<Rightarrow> request \<Rightarrow> (trace, reply) state"
where
  "ListClusterResource marshal res S f req =
     require (req_organization_name req) (require (req_cluster_name req) (
     org_gate S res ''get'' [] req (\<lambda>organization ns.
     cluster_gate S ns req StatusUnauthorized StatusUnauthorized (\<lambda>cluster. do {
       r \<leftarrow> f cluster;
       ret (Option.bind r (list_reply marshal))
     }))))"

definition ListOrganizationResource ::
  "('r option \<Rightarrow> goerr + string) \<Rightarrow> string
   \<Rightarrow> server \<Rightarrow> (organization \<Rightarrow> (trace, 'r result) state) \<Rightarrow> request \<Rightarrow> (trace, reply) state"
where
  "ListOrganizationResource marshal res S f req =
     require (req_organization_name req) (
     org_gate S res ''get'' [] req (\<lambda>organization ns. do {
       r \<leftarrow> f organization;
       ret (Option.bind r (list_reply marshal))
     }))"

definition ListGlobalResource ::
  "('r option \<Rightarrow> goerr + string) \<Rightarrow> (trace, 'r result) state \<Rightarrow> (trace, reply) state"
where
  "ListGlobalResource marshal f = do { r \<leftarrow> f; ret (Option.bind r (list_reply marshal)) }"

subsection \<open>Delete\<close>

definition delete_reply :: "goerr option \<Rightarrow> reply" where
  "delete_reply err =
     (if ignore NotFound err \<noteq> None then status StatusInternalServerError
      else if err_is NotFound err then status StatusNotFound
      else status StatusAccepted)"

definition DeleteClusterResource ::
  "string \<Rightarrow> server \<Rightarrow> (cluster \<Rightarrow> string \<Rightarrow> (trace, failure) state) \<Rightarrow> request \<Rightarrow> (trace, reply) state"
where
  "DeleteClusterResource res S f req =
     require (req_organization_name req) (require (req_cluster_name req) (require (req_resource_name req) (
     org_gate S res ''delete'' [] req (\<lambda>organization ns.
     cluster_gate S ns req StatusInternalServerError StatusUnauthorized (\<lambda>cluster. do {
       r \<leftarrow> f cluster (req_resource_name req);
       ret (Option.bind r delete_reply)
     })))))"

definition DeleteOrganizationResource ::
  "string \<Rightarrow> server \<Rightarrow> (organization \<Rightarrow> string \<Rightarrow> (trace, failure) state) \<Rightarrow> request \<Rightarrow> (trace, reply) state"
where
  "DeleteOrganizationResource res S f req =
     require (req_organization_name req) (require (req_resource_name req) (
     org_gate S res ''delete'' (req_resource_name req) req (\<lambda>organization ns. do {
       r \<leftarrow> f organization (req_resource_name req);
       ret (Option.bind r delete_reply)
     })))"

definition DeleteGlobalResource ::
  "string \<Rightarrow> server \<Rightarrow> (string \<Rightarrow> (trace, failure) state) \<Rightarrow> request \<Rightarrow> (trace, reply) state"
where
  "DeleteGlobalResource res S f req =
     require (req_resource_name req) (
     global_gate S res ''delete'' req (do {
       r \<leftarrow> f (req_resource_name req);
       ret (Option.bind r delete_reply)
     }))"

subsection \<open>What a guarded computation is\<close>

text \<open>
  \<open>guarded reviewed S m\<close>: whenever \<open>m\<close> runs, it either makes no write and replies with an error, or the
  calls it makes begin with reads, then an access review that the server allowed and that is the one
  \<open>reviewed\<close> describes, and everything else comes after it.
\<close>

definition after_review ::
  "(trace \<Rightarrow> trace \<Rightarrow> access_review \<Rightarrow> bool) \<Rightarrow> server \<Rightarrow> trace \<Rightarrow> trace \<Rightarrow> bool"
where
  "after_review reviewed S t new =
     (\<exists>pre rv post. new = pre @ CReview rv # post \<and> read_only pre
        \<and> sv_review S (t @ pre) rv = Inr True \<and> reviewed t pre rv)"

definition guarded :: "(trace \<Rightarrow> trace \<Rightarrow> access_review \<Rightarrow> bool) \<Rightarrow> server \<Rightarrow> (trace, reply) state \<Rightarrow> bool" where
  "guarded reviewed S m =
     (\<forall>t. \<exists>new. snd (run_state m t) = t @ new
        \<and> (read_only new \<and> (\<exists>code. 400 \<le> code \<and> fst (run_state m t) = status code) \<or> after_review reviewed S t new))"

text \<open>The reviews of the two gates: by the request's subject, for the resource and verb of the endpoint, in
  the namespace of the organization the path names (read just before), or in no namespace.\<close>

definition org_reviewed ::
  "string \<Rightarrow> string \<Rightarrow> (request \<Rightarrow> string) \<Rightarrow> server \<Rightarrow> request \<Rightarrow> trace \<Rightarrow> trace \<Rightarrow> access_review \<Rightarrow> bool"
where
  "org_reviewed res verb name S req t pre rv =
     (\<exists>v ns. pre = [CGet AOrganization \<lparr>ok_namespace = [], ok_name = req_organization_name req\<rparr>]
        \<and> sv_get S t AOrganization \<lparr>ok_namespace = [], ok_name = req_organization_name req\<rparr> = Inr (KOrganization v)
        \<and> os_namespace_ref (organization_spec v) = Some ns
        \<and> req_subject req = Some (sar_user rv) \<and> sar_groups rv = [''dockyards:authenticated'']
        \<and> sar_attributes rv = \<lparr>ra_namespace = ns, ra_verb = verb, ra_group = GroupVersion_Group, ra_version = [],
                               ra_resource = res, ra_name = name req\<rparr>)"

definition global_reviewed ::
  "string \<Rightarrow> string \<Rightarrow> server \<Rightarrow> request \<Rightarrow> trace \<Rightarrow> trace \<Rightarrow> access_review \<Rightarrow> bool"
where
  "global_reviewed res verb S req t pre rv =
     (pre = [] \<and> req_subject req = Some (sar_user rv) \<and> sar_groups rv = [''dockyards:authenticated'']
      \<and> sar_attributes rv = \<lparr>ra_namespace = [], ra_verb = verb, ra_group = GroupVersion_Group, ra_version = [],
                             ra_resource = res, ra_name = req_resource_name req\<rparr>)"

lemma guarded_status: "400 \<le> code \<Longrightarrow> guarded reviewed S (ret (status code))"
  by (auto simp: guarded_def read_only_def)

lemma guarded_require: "guarded reviewed S m \<Longrightarrow> guarded reviewed S (require v m)"
  by (simp add: require_def guarded_status status_defs)

lemma appendsD:
  assumes "appends m"
  obtains new where "snd (run_state m t) = t @ new"
  using assms unfolding emits_def by blast

lemma guarded_global_gate:
  assumes "appends k"
  shows "guarded (global_reviewed res verb S req) S (global_gate S res verb req k)"
proof (cases "req_subject req")
  case None
  then show ?thesis by (simp add: global_gate_def SubjectFrom_def guarded_status status_defs)
next
  case (Some subject)
  let ?rv = "\<lparr>sar_user = subject, sar_groups = [''dockyards:authenticated''],
    sar_attributes = \<lparr>ra_namespace = [], ra_verb = verb, ra_group = GroupVersion_Group, ra_version = [],
                      ra_resource = res, ra_name = req_resource_name req\<rparr>\<rparr>"
  show ?thesis
    unfolding guarded_def
  proof (rule allI)
    fix t
    obtain new where new: "snd (run_state k (t @ [CReview ?rv])) = (t @ [CReview ?rv]) @ new"
      using appendsD [OF assms] .
    show "\<exists>new. snd (run_state (global_gate S res verb req k) t) = t @ new
        \<and> (read_only new \<and> (\<exists>code. 400 \<le> code \<and> fst (run_state (global_gate S res verb req k) t) = status code)
           \<or> after_review (global_reviewed res verb S req) S t new)"
    proof (cases "sv_review S t ?rv = Inr True")
      case True
      then show ?thesis
        using Some new
        by (intro exI [of _ "CReview ?rv # new"])
           (simp add: global_gate_def SubjectFrom_def run_IsSubjectAllowed after_review_def global_reviewed_def
             read_only_def Cons_eq_append_conv)
    next
      case False
      then show ?thesis
        using Some
        by (intro exI [of _ "[CReview ?rv]"])
           (auto simp: global_gate_def SubjectFrom_def run_IsSubjectAllowed read_only_def status_defs
             split: sum.split bool.split)
    qed
  qed
qed

lemma guarded_org_gate:
  assumes "\<And>v ns. appends (k v ns)"
  shows "guarded (org_reviewed res verb name S req) S (org_gate S res verb (name req) req k)"
  unfolding guarded_def
proof (rule allI)
  fix t
  let ?m = "org_gate S res verb (name req) req k"
  let ?key = "\<lparr>ok_namespace = [], ok_name = req_organization_name req\<rparr>"
  let ?get = "decode R_organization (sv_get S t AOrganization ?key)"
  have kind: "rk_kind R_organization = AOrganization" and wrap: "rk_wrap R_organization = KOrganization"
    by (simp_all add: R_organization_def)
  let ?goal = "\<exists>new. snd (run_state ?m t) = t @ new
        \<and> (read_only new \<and> (\<exists>code. 400 \<le> code \<and> fst (run_state ?m t) = status code)
           \<or> after_review (org_reviewed res verb name S req) S t new)"
  have early: "?goal" if "run_state ?m t = (status code, t @ new)" "read_only new" "400 \<le> code" for code new
    using that by (intro exI [of _ new]) auto
  show ?goal
  proof (cases ?get)
    case (Inl e)
    then show ?thesis
      by (intro early [of "if ignore NotFound (Some e) \<noteq> None then 500 else 401" "[CGet AOrganization ?key]"])
         (simp_all add: org_gate_def run_k_get kind read_only_def status_defs)
  next
    case (Inr v)
    then have got: "sv_get S t AOrganization ?key = Inr (KOrganization v)"
      using organization_resource.decode_Inr_iff wrap by simp
    show ?thesis
    proof (cases "os_namespace_ref (organization_spec v)")
      case None
      with Inr show ?thesis
        by (intro early [of 500 "[CGet AOrganization ?key]"])
           (simp_all add: org_gate_def run_k_get kind read_only_def status_defs)
    next
      case (Some ns)
      show ?thesis
      proof (cases "req_subject req")
        case None
        with Inr Some show ?thesis
          by (intro early [of 500 "[CGet AOrganization ?key]"])
             (simp_all add: org_gate_def run_k_get kind read_only_def status_defs SubjectFrom_def)
      next
        case subject: (Some subject)
        let ?rv = "\<lparr>sar_user = subject, sar_groups = [''dockyards:authenticated''],
          sar_attributes = \<lparr>ra_namespace = ns, ra_verb = verb, ra_group = GroupVersion_Group, ra_version = [],
                            ra_resource = res, ra_name = name req\<rparr>\<rparr>"
        let ?t = "(t @ [CGet AOrganization ?key]) @ [CReview ?rv]"
        note run = org_gate_def run_k_get kind run_IsSubjectAllowed SubjectFrom_def
        show ?thesis
        proof (cases "sv_review S (t @ [CGet AOrganization ?key]) ?rv = Inr True")
          case True
          obtain new where new: "snd (run_state (k v ns) ?t) = ?t @ new"
            using appendsD [OF assms] .
          have "run_state ?m t = run_state (k v ns) ?t"
            using Inr Some subject True by (simp add: run)
          moreover have "after_review (org_reviewed res verb name S req) S t (CGet AOrganization ?key # CReview ?rv # new)"
            unfolding after_review_def
            using got Some subject True
            by (intro exI [of _ "[CGet AOrganization ?key]"] exI [of _ ?rv] exI [of _ new])
               (simp add: org_reviewed_def read_only_def)
          ultimately show ?thesis
            using new by (intro exI [of _ "CGet AOrganization ?key # CReview ?rv # new"]) simp
        next
          case False
          with Inr Some subject show ?thesis
            by (intro early [of "if isl (sv_review S (t @ [CGet AOrganization ?key]) ?rv) then 500 else 401"
                  "[CGet AOrganization ?key, CReview ?rv]"])
               (auto simp: run read_only_def status_defs split: sum.split bool.split)
        qed
      qed
    qed
  qed
qed


subsection \<open>The handlers are guarded\<close>

lemma require_emits [appends_intros, intro]: "emits P k \<Longrightarrow> emits P (require v k)"
  unfolding require_def by (intro appends_intros)

lemma read_body_emits [appends_intros, intro]: "(\<And>b. emits P (k b)) \<Longrightarrow> emits P (read_body req k)"
  unfolding read_body_def by (intro appends_intros)

lemma unmarshal_body_emits [appends_intros, intro]:
  "(\<And>q. emits P (k q)) \<Longrightarrow> emits P (unmarshal_body unmarshal b k)"
  unfolding unmarshal_body_def by (intro appends_intros)

lemma cluster_gate_emits [appends_intros, intro]:
  "(\<And>key. P (CGet ACluster key)) \<Longrightarrow> (\<And>v. emits P (k v)) \<Longrightarrow> emits P (cluster_gate S ns req onError onNotFound k)"
  unfolding cluster_gate_def by (intro appends_intros) (simp_all add: R_cluster_def)

lemmas guarded_unnamed_org_gate = guarded_org_gate [where name = "\<lambda>_. []"]

text \<open>
  The contract of a protected endpoint: given an endpoint function that makes calls and nothing
  else, the handler is guarded by a review of the request's own subject.
\<close>

locale guarded_handler =
  fixes handler :: "server \<Rightarrow> 'f \<Rightarrow> request \<Rightarrow> (trace, reply) state"
    and endpoint :: "'f \<Rightarrow> bool"
    and reviewed :: "server \<Rightarrow> request \<Rightarrow> trace \<Rightarrow> trace \<Rightarrow> access_review \<Rightarrow> bool"
  assumes handler_guarded: "endpoint f \<Longrightarrow> guarded (reviewed S req) S (handler S f req)"
    and reviewed_subject: "reviewed S req t pre rv \<Longrightarrow> req_subject req = Some (sar_user rv)"
begin

lemma cases:
  assumes "endpoint f" and "run_state (handler S f req) t = (r, t @ new)"
  obtains (refused) code where "read_only new" "r = status code" "400 \<le> code"
    | (allowed) pre rv post where "new = pre @ CReview rv # post" "read_only pre"
        "sv_review S (t @ pre) rv = Inr True" "reviewed S req t pre rv"
  using handler_guarded [OF assms(1), of S req] assms(2)
  unfolding guarded_def after_review_def by (metis fst_conv same_append_eq snd_conv)

lemma success_is_reviewed:
  assumes "endpoint f" and "run_state (handler S f req) t = (r, t @ new)"
    and "reply_status r = Some c" and "c < 400"
  shows "after_review (reviewed S req) S t new"
  using assms(1,2)
proof (cases rule: cases)
  case (refused code)
  with assms(3,4) show ?thesis by simp
next
  case allowed
  then show ?thesis unfolding after_review_def by blast
qed

text \<open>Every write has the allowed review somewhere before it.\<close>

lemma write_is_reviewed:
  assumes "endpoint f" and "run_state (handler S f req) t = (r, t @ before @ w # rest)" and "is_write w"
  obtains pre rv post where "before = pre @ CReview rv # post" "read_only pre"
    "sv_review S (t @ pre) rv = Inr True" "reviewed S req t pre rv" "req_subject req = Some (sar_user rv)"
  using assms(1,2)
proof (cases rule: cases)
  case refused
  with assms(3) show ?thesis by (simp add: read_only_def)
next
  case (allowed pre rv post)
  from allowed(1) obtain us where us: "before = pre @ us \<and> us @ w # rest = CReview rv # post
      \<or> before @ us = pre \<and> w # rest = us @ CReview rv # post"
    by (auto simp: append_eq_append_conv2)
  then show ?thesis
  proof
    assume "before = pre @ us \<and> us @ w # rest = CReview rv # post"
    with assms(3) allowed show ?thesis
      by (cases us) (auto intro: that reviewed_subject)
  next
    assume "before @ us = pre \<and> w # rest = us @ CReview rv # post"
    with assms(3) allowed(2) show ?thesis
      by (cases us) (auto simp: read_only_def)
  qed
qed

text \<open>Nobody gets through when there is no subject or the server allows no review.\<close>

lemma refused_without_permission:
  assumes "endpoint f" and "run_state (handler S f req) t = (r, t @ new)"
    and "req_subject req = None \<or> (\<forall>t rv. sv_review S t rv \<noteq> Inr True)"
  shows "read_only new" and "\<exists>code. r = status code \<and> 400 \<le> code"
  using assms(1,2) by (cases rule: cases; use assms(3) reviewed_subject in fastforce)+

end

lemma org_reviewed_subject: "org_reviewed res verb name S req t pre rv \<Longrightarrow> req_subject req = Some (sar_user rv)"
  by (auto simp: org_reviewed_def)

lemma global_reviewed_subject: "global_reviewed res verb S req t pre rv \<Longrightarrow> req_subject req = Some (sar_user rv)"
  by (auto simp: global_reviewed_def)

lemmas guarded_handler_intros = guarded_require guarded_unnamed_org_gate guarded_org_gate guarded_global_gate
  org_reviewed_subject global_reviewed_subject appends_intros

interpretation create_cluster_endpoint: guarded_handler "CreateClusterResource H um ab ms res" "\<lambda>f. \<forall>c q. appends (f c q)" "org_reviewed res ''create'' (\<lambda>_. [])"
  for H um ab ms res
  unfolding CreateClusterResource_def by unfold_locales (intro guarded_handler_intros; simp)+

interpretation create_organization_endpoint: guarded_handler "CreateOrganizationResource H um ms res" "\<lambda>f. \<forall>c q. appends (f c q)" "org_reviewed res ''create'' (\<lambda>_. [])"
  for H um ms res
  unfolding CreateOrganizationResource_def by unfold_locales (intro guarded_handler_intros; simp)+

interpretation update_cluster_endpoint: guarded_handler "UpdateClusterResource H um res" "\<lambda>f. \<forall>c n q. appends (f c n q)" "org_reviewed res ''patch'' (\<lambda>_. [])"
  for H um res
  unfolding UpdateClusterResource_def by unfold_locales (intro guarded_handler_intros; simp)+

interpretation update_organization_endpoint: guarded_handler "UpdateOrganizationResource H um res" "\<lambda>f. \<forall>c n q. appends (f c n q)" "org_reviewed res ''patch'' (\<lambda>_. [])"
  for H um res
  unfolding UpdateOrganizationResource_def by unfold_locales (intro guarded_handler_intros; simp)+

interpretation update_global_endpoint: guarded_handler "UpdateGlobalResource H um res" "\<lambda>f. \<forall>c q. appends (f c q)" "global_reviewed res ''patch''"
  for H um res
  unfolding UpdateGlobalResource_def by unfold_locales (intro guarded_handler_intros; simp)+

interpretation get_cluster_endpoint: guarded_handler "GetClusterResource H ms res" "\<lambda>f. \<forall>c q. appends (f c q)" "org_reviewed res ''get'' (\<lambda>_. [])"
  for H ms res
  unfolding GetClusterResource_def by unfold_locales (intro guarded_handler_intros; simp)+

interpretation get_organization_endpoint: guarded_handler "GetOrganizationResource H ms res" "\<lambda>f. \<forall>c q. appends (f c q)" "org_reviewed res ''get'' (\<lambda>_. [])"
  for H ms res
  unfolding GetOrganizationResource_def by unfold_locales (intro guarded_handler_intros; simp)+

interpretation get_global_endpoint: guarded_handler "GetGlobalResource H ms res" "\<lambda>f. \<forall>c. appends (f c)" "global_reviewed res ''get''"
  for H ms res
  unfolding GetGlobalResource_def by unfold_locales (intro guarded_handler_intros; simp)+

interpretation list_cluster_endpoint: guarded_handler "ListClusterResource ms res" "\<lambda>f. \<forall>c. appends (f c)" "org_reviewed res ''get'' (\<lambda>_. [])"
  for ms res
  unfolding ListClusterResource_def by unfold_locales (intro guarded_handler_intros; simp)+

interpretation list_organization_endpoint: guarded_handler "ListOrganizationResource ms res" "\<lambda>f. \<forall>c. appends (f c)" "org_reviewed res ''get'' (\<lambda>_. [])"
  for ms res
  unfolding ListOrganizationResource_def by unfold_locales (intro guarded_handler_intros; simp)+

interpretation delete_cluster_endpoint: guarded_handler "DeleteClusterResource res" "\<lambda>f. \<forall>c q. appends (f c q)" "org_reviewed res ''delete'' (\<lambda>_. [])"
  for res
  unfolding DeleteClusterResource_def by unfold_locales (intro guarded_handler_intros; simp)+

interpretation delete_organization_endpoint: guarded_handler "DeleteOrganizationResource res" "\<lambda>f. \<forall>c q. appends (f c q)" "org_reviewed res ''delete'' req_resource_name"
  for res
  unfolding DeleteOrganizationResource_def by unfold_locales (intro guarded_handler_intros; simp)+

interpretation delete_global_endpoint: guarded_handler "DeleteGlobalResource res" "\<lambda>f. \<forall>c. appends (f c)" "global_reviewed res ''delete''"
  for res
  unfolding DeleteGlobalResource_def by unfold_locales (intro guarded_handler_intros; simp)+

subsection \<open>What an endpoint promises\<close>

text \<open>C8 Permission before effect, organizations. For every endpoint below an organization or a cluster, whatever
  the endpoint function does: a run either makes no write and answers with an error, or it first reads
  the organization the path names, then obtains an allowed access review for the request's own subject,
  for the endpoint's resource and verb (create, patch, get or delete) in that organization's namespace,
  and everything else happens after that. Listing asks for the verb get. Only deleting a resource of an
  organization includes the resource's name in the review.\<close>

theorem organization_endpoints_guarded:
  assumes "\<forall>c q. appends (f1 c q)" "\<forall>v q. appends (f2 v q)" "\<forall>c n q. appends (f3 c n q)" "\<forall>v n q. appends (f4 v n q)"
    and "\<forall>c n. appends (f5 c n)" "\<forall>v n. appends (f6 v n)" "\<forall>c. appends (f7 c)" "\<forall>v. appends (f8 v)"
    and "\<forall>c n. appends (f9 c n)" "\<forall>v n. appends (f10 v n)"
  shows "guarded (org_reviewed res ''create'' (\<lambda>_. []) S req) S (CreateClusterResource H um1 ab ms1 res S f1 req)
    \<and> guarded (org_reviewed res ''create'' (\<lambda>_. []) S req) S (CreateOrganizationResource H um2 ms2 res S f2 req)
    \<and> guarded (org_reviewed res ''patch'' (\<lambda>_. []) S req) S (UpdateClusterResource H um3 res S f3 req)
    \<and> guarded (org_reviewed res ''patch'' (\<lambda>_. []) S req) S (UpdateOrganizationResource H um4 res S f4 req)
    \<and> guarded (org_reviewed res ''get'' (\<lambda>_. []) S req) S (GetClusterResource H ms5 res S f5 req)
    \<and> guarded (org_reviewed res ''get'' (\<lambda>_. []) S req) S (GetOrganizationResource H ms6 res S f6 req)
    \<and> guarded (org_reviewed res ''get'' (\<lambda>_. []) S req) S (ListClusterResource ms7 res S f7 req)
    \<and> guarded (org_reviewed res ''get'' (\<lambda>_. []) S req) S (ListOrganizationResource ms8 res S f8 req)
    \<and> guarded (org_reviewed res ''delete'' (\<lambda>_. []) S req) S (DeleteClusterResource res S f9 req)
    \<and> guarded (org_reviewed res ''delete'' req_resource_name S req) S (DeleteOrganizationResource res S f10 req)"
  using assms
  by (blast intro: create_cluster_endpoint.handler_guarded create_organization_endpoint.handler_guarded
      update_cluster_endpoint.handler_guarded update_organization_endpoint.handler_guarded
      get_cluster_endpoint.handler_guarded get_organization_endpoint.handler_guarded
      list_cluster_endpoint.handler_guarded list_organization_endpoint.handler_guarded
      delete_cluster_endpoint.handler_guarded delete_organization_endpoint.handler_guarded)

text \<open>The witness runs a deletion on a server that has no objects: the endpoint function would delete a
  cluster, and no such call is made.\<close>

definition example_lib :: http_lib where
  "example_lib = \<lparr>lib_cause_field = \<lambda>_. ''spec'', lib_cause_message = \<lambda>_. ''invalid'', lib_marshal_errors = \<lambda>es. Inr (concat es),
     lib_write_fails = \<lambda>_. False\<rparr>"

definition example_request :: request where
  "example_request = \<lparr>req_organization_name = ''acme'', req_cluster_name = ''prod'', req_resource_name = ''pool'',
     req_subject = Some ''alice'', req_body = Inr ''{}''\<rparr>"

definition delete_something :: "server \<Rightarrow> 'a \<Rightarrow> 'b \<Rightarrow> (trace, failure) state" where
  "delete_something S a b = do {
     e \<leftarrow> k_delete R_cluster S zero_cluster;
     ret (Some e)
   }"

lemma delete_something_appends: "appends (delete_something S a b)"
  unfolding delete_something_def by (intro appends_intros) simp

lemma organization_endpoints_guarded_witness:
  "guarded (org_reviewed ''clusters'' ''delete'' req_resource_name empty_server example_request) empty_server
     (DeleteOrganizationResource ''clusters'' empty_server (delete_something empty_server) example_request)
   \<and> run_state (DeleteOrganizationResource ''clusters'' empty_server (delete_something empty_server) example_request) []
     = (status 401, [CGet AOrganization \<lparr>ok_namespace = [], ok_name = ''acme''\<rparr>])"
proof
  show "guarded (org_reviewed ''clusters'' ''delete'' req_resource_name empty_server example_request) empty_server
     (DeleteOrganizationResource ''clusters'' empty_server (delete_something empty_server) example_request)"
    by (rule organization_endpoints_guarded [of "\<lambda>_ _. ret None" "\<lambda>_ _. ret None" "\<lambda>_ _ _. ret None" "\<lambda>_ _ _. ret None"
        "\<lambda>_ _. ret None" "\<lambda>_ _. ret None" "\<lambda>_. ret None" "\<lambda>_. ret None" "\<lambda>_ _. ret None" "delete_something empty_server"
        "''clusters''" empty_server example_request, THEN conjunct2, THEN conjunct2, THEN conjunct2, THEN conjunct2, THEN conjunct2, THEN conjunct2, THEN conjunct2, THEN conjunct2, THEN conjunct2])
      (simp_all add: delete_something_appends)
  show "run_state (DeleteOrganizationResource ''clusters'' empty_server (delete_something empty_server) example_request) []
     = (status 401, [CGet AOrganization \<lparr>ok_namespace = [], ok_name = ''acme''\<rparr>])"
    by (simp add: DeleteOrganizationResource_def require_def org_gate_def example_request_def empty_server_def
        R_organization_def k_get_def decode_def ignore_def status_defs)
qed

text \<open>Permission before effect, without an organization: getting, updating and deleting a global resource by
  name is preceded by an allowed review for the request's subject, the endpoint's resource and verb and
  that very name, in no namespace; without it nothing is written and the answer is an error.\<close>

theorem global_endpoints_guarded:
  assumes "\<forall>n q. appends (f1 n q)" "\<forall>n. appends (f2 n)" "\<forall>n. appends (f3 n)"
  shows "guarded (global_reviewed res ''patch'' S req) S (UpdateGlobalResource H um res S f1 req)
    \<and> guarded (global_reviewed res ''get'' S req) S (GetGlobalResource H ms res S f2 req)
    \<and> guarded (global_reviewed res ''delete'' S req) S (DeleteGlobalResource res S f3 req)"
  using assms
  by (blast intro: update_global_endpoint.handler_guarded get_global_endpoint.handler_guarded
      delete_global_endpoint.handler_guarded)

lemma global_endpoints_guarded_witness:
  "guarded (global_reviewed ''organizations'' ''delete'' empty_server example_request) empty_server
     (DeleteGlobalResource ''organizations'' empty_server (delete_something empty_server ()) example_request)"
  by (rule global_endpoints_guarded [of "\<lambda>_ _. ret None" "\<lambda>_. ret None" "delete_something empty_server ()"
      "''organizations''" empty_server example_request, THEN conjunct2, THEN conjunct2])
    (simp_all add: delete_something_appends)

definition succeeded :: "reply \<Rightarrow> bool" where
  "succeeded r = (case reply_status r of None \<Rightarrow> False | Some c \<Rightarrow> c < 400)"

lemma succeeded_simps [simp]:
  "succeeded (status c) \<longleftrightarrow> c < 400" "succeeded (respond H c b) \<longleftrightarrow> c < 400"
  "succeeded (respond_quietly c b) \<longleftrightarrow> c < 400" "\<not> succeeded None"
  by (simp_all add: succeeded_def)

lemma not_succeeded_unprocessable [simp]: "\<not> succeeded (unprocessable H line e)"
  by (auto simp: unprocessable_def status_defs split: goerr.split option.split sum.split)

definition panicked :: "reply \<Rightarrow> bool" where
  "panicked r = (r = None)"

lemma panicked_simps [simp]:
  "\<not> panicked (status c)" "\<not> panicked (respond H c b)" "\<not> panicked (respond_quietly c b)" "panicked None"
  by (simp_all add: panicked_def status_def respond_def respond_quietly_def)

lemma unprocessable_not_panic [simp]: "\<not> panicked (unprocessable H line e)"
  by (auto simp: unprocessable_def split: goerr.split option.split sum.split)

text \<open>A result behind \<open>CreateClusterResource\<close> is sent as it is when it consists of bytes.\<close>

definition encodes :: "('r \<Rightarrow> string option) \<Rightarrow> ('r option \<Rightarrow> goerr + string) \<Rightarrow> 'r \<Rightarrow> bool" where
  "encodes ab ms v = (ab v \<noteq> None \<or> \<not> isl (ms (Some v)))"

lemmas reply_defs = encodes_def create_cluster_reply_def create_organization_reply_def create_global_reply_def update_reply_def
  update_global_reply_def update_nameless_reply_def get_reply_def get_nameless_reply_def list_reply_def delete_reply_def

text \<open>A client is told of success exactly when the endpoint function returned no error and its result could
  be encoded; endpoints without a result answer success exactly when there was no error. The one way a
  handler itself panics is a function behind \<open>CreateClusterResource\<close> that returns neither a result nor
  an error.\<close>

theorem success_iff_no_error:
  "(succeeded (create_cluster_reply H ab ms (r, e)) \<longleftrightarrow>
      e = None \<and> (\<exists>v. r = Some v \<and> encodes ab ms v))
   \<and> (succeeded (create_organization_reply H ms (r, e)) \<longleftrightarrow> e = None \<and> \<not> isl (ms r))
   \<and> (succeeded (create_global_reply H ms (r, e)) \<longleftrightarrow> e = None \<and> \<not> isl (ms r))
   \<and> (succeeded (get_reply H ms (r, e)) \<longleftrightarrow> e = None \<and> \<not> isl (ms r))
   \<and> (succeeded (get_nameless_reply H ms (r, e)) \<longleftrightarrow> e = None \<and> \<not> isl (ms r))
   \<and> (succeeded (list_reply ms (r, e)) \<longleftrightarrow> e = None \<and> \<not> isl (ms r))
   \<and> (succeeded (update_reply H e) \<longleftrightarrow> e = None)
   \<and> (succeeded (update_global_reply H e) \<longleftrightarrow> e = None)
   \<and> (succeeded (update_nameless_reply H e) \<longleftrightarrow> e = None)
   \<and> (succeeded (delete_reply e) \<longleftrightarrow> e = None)
   \<and> (panicked (create_cluster_reply H ab ms (r, e)) \<longleftrightarrow> r = None \<and> e = None)
   \<and> \<not> panicked (create_organization_reply H ms (r, e)) \<and> \<not> panicked (create_global_reply H ms (r, e))
   \<and> \<not> panicked (get_reply H ms (r, e)) \<and> \<not> panicked (get_nameless_reply H ms (r, e))
   \<and> \<not> panicked (list_reply ms (r, e)) \<and> \<not> panicked (update_reply H e)
   \<and> \<not> panicked (update_global_reply H e) \<and> \<not> panicked (update_nameless_reply H e)
   \<and> \<not> panicked (delete_reply e)"
  by (cases e; cases r; intro conjI)
     (simp_all add: reply_defs status_defs ignore_None_iff split: option.split sum.split)

text \<open>An outsider cannot tell whether an organization exists: the answer about one that does not exist and
  the answer about one on which the subject has no permission are the same status 401, and neither run
  gets past the gate.\<close>

theorem organization_existence_hidden:
  assumes "sv_get S t AOrganization \<lparr>ok_namespace = [], ok_name = req_organization_name req\<rparr> = Inl e" "has_reason NotFound e"
    and "sv_get S' t AOrganization \<lparr>ok_namespace = [], ok_name = req_organization_name req\<rparr> = Inr (KOrganization v)"
    and "os_namespace_ref (organization_spec v) = Some ns" "req_subject req = Some subject"
    and "\<forall>rv t. sv_review S' t rv = Inr False"
  shows "fst (run_state (org_gate S res verb name req k) t) = status StatusUnauthorized
     \<and> fst (run_state (org_gate S' res verb name req k) t) = status StatusUnauthorized"
  using assms
  by (simp add: org_gate_def run_k_get run_IsSubjectAllowed R_organization_def decode_def ignore_def SubjectFrom_def)

definition organization_server :: "organization \<Rightarrow> server" where
  "organization_server v = empty_server\<lparr>sv_get := (\<lambda>t k n. Inr (KOrganization v)), sv_review := (\<lambda>t rv. Inr False)\<rparr>"

lemma organization_existence_hidden_witness:
  "fst (run_state (org_gate empty_server ''clusters'' ''get'' [] example_request (\<lambda>v ns. ret None)) []) = status 401
   \<and> fst (run_state (org_gate (organization_server (zero_organization\<lparr>organization_spec := (organization_spec zero_organization)
         \<lparr>os_namespace_ref := Some ''acme-ns''\<rparr>\<rparr>)) ''clusters'' ''get'' [] example_request (\<lambda>v ns. ret None)) []) = status 401"
  using organization_existence_hidden [of empty_server "[]" example_request "StatusErr NotFound None ''not found''"
      "organization_server (zero_organization\<lparr>organization_spec := (organization_spec zero_organization)
         \<lparr>os_namespace_ref := Some ''acme-ns''\<rparr>\<rparr>)" "zero_organization\<lparr>organization_spec := (organization_spec zero_organization)
         \<lparr>os_namespace_ref := Some ''acme-ns''\<rparr>\<rparr>" "''acme-ns''" "''alice''" "''clusters''" "''get''" "[]" "\<lambda>v ns. ret None"]
  by (simp add: empty_server_def organization_server_def example_request_def status_defs)

text \<open>The two outcomes of the middleware. \<open>carries_subject\<close> is the condition it checks.\<close>

definition carries_subject :: "(string \<Rightarrow> goerr + token) \<Rightarrow> string \<Rightarrow> string \<Rightarrow> bool" where
  "carries_subject parse header subject =
     (header \<noteq> [] \<and> (\<exists>token. parse (TrimPrefix header ''Bearer '') = Inr token \<and> tk_claims token = Some (Inr subject)))"

lemma RequireAuth_runs:
  "carries_subject parse header subject \<Longrightarrow>
   run_state (RequireAuth_Handler parse header nxt) t = run_state (nxt subject) t"
  by (auto simp: carries_subject_def RequireAuth_Handler_def split: prod.split)

lemma RequireAuth_refuses:
  assumes "\<nexists>subject. carries_subject parse header subject"
  shows "snd (run_state (RequireAuth_Handler parse header nxt) t) = t"
    and "\<not> succeeded (fst (run_state (RequireAuth_Handler parse header nxt) t))"
  using assms
  by (auto simp: carries_subject_def RequireAuth_Handler_def status_defs append_reply_def status_def succeeded_def
      reply_status_def split: sum.split option.split)

text \<open>No handler without a token: behind \<open>RequireAuth\<close> the handler runs only when the header is there and
  what follows \<open>Bearer\<close> parses to a token with a subject, and then with exactly that subject, on the
  trace as it was. In every other case no call is made, and the request is refused (or the middleware
  panics, on a token whose claims have another type).\<close>

theorem handler_needs_token:
  "(\<exists>token subject. header \<noteq> [] \<and> parse (TrimPrefix header ''Bearer '') = Inr token
      \<and> tk_claims token = Some (Inr subject)
      \<and> run_state (RequireAuth_Handler parse header nxt) t = run_state (nxt subject) t)
   \<or> snd (run_state (RequireAuth_Handler parse header nxt) t) = t
      \<and> \<not> succeeded (fst (run_state (RequireAuth_Handler parse header nxt) t))"
proof (cases "\<exists>subject. carries_subject parse header subject")
  case True
  then show ?thesis
    using RequireAuth_runs [of parse header _ nxt t] by (auto simp: carries_subject_def)
next
  case False
  then show ?thesis using RequireAuth_refuses by blast
qed

text \<open>From the token to the permission: a handler guarded by a review of its request's subject, placed behind
  \<open>RequireAuth\<close>, answers success only if the header carried a token that parses, and the API server
  allowed the endpoint's resource and verb to the subject of that token before anything was written.\<close>

theorem token_subject_is_reviewed:
  assumes "\<And>sub. guarded (org_reviewed res verb name S (req\<lparr>req_subject := Some sub\<rparr>)) S (h (req\<lparr>req_subject := Some sub\<rparr>))"
    and "run_state (RequireAuth_Handler parse header (\<lambda>sub. h (req\<lparr>req_subject := Some sub\<rparr>))) t = (r, t @ new)"
    and "succeeded r"
  shows "\<exists>token pre rv post. parse (TrimPrefix header ''Bearer '') = Inr token
     \<and> tk_claims token = Some (Inr (sar_user rv))
     \<and> new = pre @ CReview rv # post \<and> read_only pre
     \<and> sv_review S (t @ pre) rv = Inr True
     \<and> ra_resource (sar_attributes rv) = res \<and> ra_verb (sar_attributes rv) = verb"
proof -
  let ?m = "\<lambda>sub. h (req\<lparr>req_subject := Some sub\<rparr>)"
  obtain sub where "carries_subject parse header sub"
    using RequireAuth_refuses(2) [of parse header ?m t] assms(2,3) by fastforce
  moreover from this obtain token where token: "parse (TrimPrefix header ''Bearer '') = Inr token"
    "tk_claims token = Some (Inr sub)" by (auto simp: carries_subject_def)
  ultimately have run: "run_state (?m sub) t = (r, t @ new)"
    using RequireAuth_runs [of parse header sub ?m t] assms(2) by simp
  from assms(1) [of sub] run assms(3)
  have "after_review (org_reviewed res verb name S (req\<lparr>req_subject := Some sub\<rparr>)) S t new"
    unfolding guarded_def by (metis fst_conv not_le same_append_eq snd_conv succeeded_simps(1))
  then obtain pre rv post where review: "new = pre @ CReview rv # post" "read_only pre" "sv_review S (t @ pre) rv = Inr True"
    and rv: "org_reviewed res verb name S (req\<lparr>req_subject := Some sub\<rparr>) t pre rv"
    unfolding after_review_def by blast
  from rv have "sub = sar_user rv" "ra_resource (sar_attributes rv) = res" "ra_verb (sar_attributes rv) = verb"
    by (auto simp: org_reviewed_def)
  with token review show ?thesis by blast
qed

definition allowing_server :: server where
  "allowing_server = empty_server\<lparr>sv_get := (\<lambda>t k n. Inr (KOrganization (zero_organization\<lparr>organization_spec :=
     (organization_spec zero_organization)\<lparr>os_namespace_ref := Some ''acme-ns''\<rparr>\<rparr>)))\<rparr>"

definition example_handler :: "request \<Rightarrow> (trace, reply) state" where
  "example_handler =
     GetOrganizationResource example_lib (\<lambda>_. Inr ''{}'') ''clusters'' allowing_server (\<lambda>_ _. ret (Some (Some (), None)))"

definition example_parse :: "string \<Rightarrow> goerr + token" where
  "example_parse b = (if b = ''t0k3n'' then Inr \<lparr>tk_claims = Some (Inr ''alice''), tk_valid = True\<rparr> else Inl (Plain ''malformed''))"

definition example_review :: access_review where
  "example_review = \<lparr>sar_user = ''alice'', sar_groups = [''dockyards:authenticated''],
     sar_attributes = \<lparr>ra_namespace = ''acme-ns'', ra_verb = ''get'', ra_group = GroupVersion_Group, ra_version = [],
       ra_resource = ''clusters'', ra_name = []\<rparr>\<rparr>"

lemma run_example_handler:
  "run_state (example_handler (example_request\<lparr>req_subject := Some ''alice''\<rparr>)) [] =
     (respond example_lib 200 ''{}'',
      [] @ [CGet AOrganization \<lparr>ok_namespace = [], ok_name = ''acme''\<rparr>, CReview example_review])"
  by (simp add: example_handler_def GetOrganizationResource_def require_def org_gate_def example_request_def allowing_server_def
      empty_server_def R_organization_def run_k_get decode_def SubjectFrom_def run_IsSubjectAllowed status_defs get_reply_def
      example_review_def)

lemma token_subject_is_reviewed_witness:
  "\<exists>token pre rv post. example_parse (TrimPrefix ''Bearer t0k3n'' ''Bearer '') = Inr token
     \<and> tk_claims token = Some (Inr (sar_user rv))
     \<and> [CGet AOrganization \<lparr>ok_namespace = [], ok_name = ''acme''\<rparr>, CReview example_review] = pre @ CReview rv # post
     \<and> read_only pre \<and> sv_review allowing_server ([] @ pre) rv = Inr True
     \<and> ra_resource (sar_attributes rv) = ''clusters'' \<and> ra_verb (sar_attributes rv) = ''get''"
proof (rule token_subject_is_reviewed [where name = "\<lambda>_. []" and req = example_request and h = example_handler
      and r = "respond example_lib 200 ''{}''"])
  show "guarded (org_reviewed ''clusters'' ''get'' (\<lambda>_. []) allowing_server (example_request\<lparr>req_subject := Some sub\<rparr>))
      allowing_server (example_handler (example_request\<lparr>req_subject := Some sub\<rparr>))" for sub
    unfolding example_handler_def by (intro get_organization_endpoint.handler_guarded allI appends_intros)
  have "TrimPrefix ''Bearer t0k3n'' ''Bearer '' = ''t0k3n''"
    by (simp add: TrimPrefix_def)
  then show "run_state (RequireAuth_Handler example_parse ''Bearer t0k3n''
      (\<lambda>sub. example_handler (example_request\<lparr>req_subject := Some sub\<rparr>))) [] =
    (respond example_lib 200 ''{}'',
     [] @ [CGet AOrganization \<lparr>ok_namespace = [], ok_name = ''acme''\<rparr>, CReview example_review])"
    by (simp add: RequireAuth_Handler_def example_parse_def run_example_handler)
qed simp

end
