(* ===== verification/Routes.thy ===== *)
theory Routes
  imports Endpoints Authorization
begin

text \<open>
  The route table of \<open>internal/api/v1/handlers/handlers.go\<close> (\<open>RegisterRoutes\<close>), entry by entry in the order of
  the code, and the body validation of \<open>internal/api/v1/middleware/validate_json.go\<close>. Each entry keeps the
  pattern string handed to \<open>ServeMux.Handle\<close>, the token the middleware asks for, the CUE schema, the generic
  handler with its resource, and the name of the endpoint function. Logging and content types are left out.

  \<open>parse_pattern\<close> and \<open>conflicts\<close> follow the documentation of \<open>net/http\<close> patterns (method, literal and
  wildcard segments): registering two patterns that match a common request, neither of them more specific,
  panics.
\<close>

datatype token_kind = Public | AccessToken | RefreshToken

text \<open>The generic handlers, each with its resource argument. Those without an access review do not use it.\<close>

datatype wrapper =
    WCreateCluster string
  | WCreateOrganization string
  | WCreateGlobal string
  | WUpdateCluster string
  | WUpdateOrganization string
  | WUpdateGlobal string
  | WUpdateNameless string
  | WGetCluster string
  | WGetOrganization string
  | WGetGlobal string
  | WGetNameless
  | WListCluster string
  | WListOrganization string
  | WListGlobal string
  | WDeleteCluster string
  | WDeleteOrganization string
  | WDeleteGlobal string
  | WUnprotectedRoute

record route =
  rt_pattern :: string
  rt_token :: token_kind
  rt_schema :: "string option"
  rt_wrapper :: wrapper
  rt_function :: string

abbreviation route :: "string \<Rightarrow> token_kind \<Rightarrow> string option \<Rightarrow> wrapper \<Rightarrow> string \<Rightarrow> route" where
  "route p t s w f \<equiv> \<lparr>rt_pattern = p, rt_token = t, rt_schema = s, rt_wrapper = w, rt_function = f\<rparr>"

definition routes :: "route list" where
  "routes = [
   route ''POST /v1/login'' Public (Some ''#login'')
     (WCreateGlobal ''users'') ''CreateGlobalTokens'',
   route ''POST /v1/refresh'' RefreshToken None
     WGetNameless ''GetGlobalTokens'',
   route ''GET /v1/cluster-options'' AccessToken None
     WGetNameless ''GetClusterOptions'',
   route ''GET /v1/orgs'' AccessToken None
     (WListGlobal ''organizations'') ''ListGlobalOrganizations'',
   route ''POST /v1/orgs'' AccessToken None
     (WCreateGlobal ''organizations'') ''CreateGlobalOrganization'',
   route ''DELETE /v1/orgs/{resourceName}'' AccessToken None
     (WDeleteGlobal ''organizations'') ''DeleteGlobalOrganization'',
   route ''GET /v1/orgs/{resourceName}'' AccessToken None
     (WGetGlobal ''organizations'') ''GetGlobalOrganization'',
   route ''PATCH /v1/orgs/{resourceName}'' AccessToken (Some ''#updateOrganization'')
     (WUpdateGlobal ''organizations'') ''UpdateGlobalOrganization'',
   route ''POST /v1/orgs/{organizationName}/clusters'' AccessToken (Some ''#clusterOptions'')
     (WCreateOrganization ''clusters'') ''CreateOrganizationCluster'',
   route ''GET /v1/whoami'' AccessToken None
     WGetNameless ''GetWhoami'',
   route ''POST /v1/orgs/{organizationName}/credentials'' AccessToken (Some ''#createCredential'')
     (WCreateOrganization ''clusters'') ''CreateOrganizationCredential'',
   route ''GET /v1/credential-templates'' AccessToken None
     (WListGlobal ''credential-templates'') ''ListCredentialTemplates'',
   route ''DELETE /v1/orgs/{organizationName}/credentials/{resourceName}'' AccessToken None
     (WDeleteOrganization ''clusters'') ''DeleteOrganizationCredential'',
   route ''GET /v1/orgs/{organizationName}/credentials'' AccessToken None
     (WListOrganization ''clusters'') ''ListOrganizationCredentials'',
   route ''GET /v1/orgs/{organizationName}/credentials/{resourceName}'' AccessToken None
     (WGetOrganization ''clusters'') ''GetOrganizationCredential'',
   route ''PATCH /v1/orgs/{organizationName}/credentials/{resourceName}'' AccessToken (Some ''#updateCredential'')
     (WUpdateOrganization ''clusters'') ''UpdateOrganizationCredential'',
   route ''POST /v1/orgs/{organizationName}/clusters/{clusterName}/workloads'' AccessToken (Some ''#workloadOptions'')
     (WCreateCluster ''workloads'') ''CreateClusterWorkload'',
   route ''DELETE /v1/orgs/{organizationName}/clusters/{clusterName}/workloads/{resourceName}'' AccessToken None
     (WDeleteCluster ''workloads'') ''DeleteClusterWorkload'',
   route ''PUT /v1/orgs/{organizationName}/clusters/{clusterName}/workloads/{resourceName}'' AccessToken (Some ''#workloadOptions'')
     (WUpdateCluster ''workloads'') ''UpdateClusterWorkload'',
   route ''GET /v1/orgs/{organizationName}/clusters/{clusterName}/workloads'' AccessToken None
     (WListCluster ''workloads'') ''ListClusterWorkloads'',
   route ''GET /v1/orgs/{organizationName}/clusters/{clusterName}/workloads/{resourceName}'' AccessToken None
     (WGetCluster ''workloads'') ''GetClusterWorkload'',
   route ''POST /v1/orgs/{organizationName}/clusters/{clusterName}/node-pools'' AccessToken (Some ''#nodePoolOptions'')
     (WCreateCluster ''nodepools'') ''CreateClusterNodePool'',
   route ''DELETE /v1/orgs/{organizationName}/clusters/{clusterName}/node-pools/{resourceName}'' AccessToken None
     (WDeleteCluster ''nodepools'') ''DeleteClusterNodePool'',
   route ''DELETE /v1/orgs/{organizationName}/clusters/{resourceName}'' AccessToken None
     (WDeleteOrganization ''clusters'') ''DeleteOrganizationCluster'',
   route ''GET /v1/orgs/{organizationName}/clusters/{clusterName}/node-pools/{resourceName}'' AccessToken None
     (WGetCluster ''nodepools'') ''GetClusterNodePool'',
   route ''GET /v1/orgs/{organizationName}/clusters/{clusterName}/node-pools'' AccessToken None
     (WListCluster ''nodepools'') ''ListClusterNodePools'',
   route ''PATCH /v1/orgs/{organizationName}/clusters/{clusterName}/node-pools/{resourceName}'' AccessToken None
     (WUpdateCluster ''nodepools'') ''UpdateClusterNodePool'',
   route ''GET /v1/orgs/{organizationName}/clusters'' AccessToken None
     (WListOrganization ''clusters'') ''ListOrganizationClusters'',
   route ''GET /v1/orgs/{organizationName}/clusters/{resourceName}'' AccessToken None
     (WGetOrganization ''clusters'') ''GetOrganizationCluster'',
   route ''POST /v1/orgs/{organizationName}/clusters/{clusterName}/kubeconfig'' AccessToken None
     (WCreateCluster ''clusters'') ''CreateClusterKubeconfig'',
   route ''POST /v1/orgs/{organizationName}/invitations'' AccessToken (Some ''#createInvitation'')
     (WCreateOrganization ''invitations'') ''CreateOrganizationInvitation'',
   route ''DELETE /v1/orgs/{organizationName}/invitations/{resourceName}'' AccessToken None
     (WDeleteOrganization ''invitations'') ''DeleteOrganizationInvitation'',
   route ''GET /v1/orgs/{organizationName}/invitations'' AccessToken None
     (WListOrganization ''invitations'') ''ListOrganizationInvitations'',
   route ''GET /v1/invitations'' AccessToken None
     (WListGlobal ''invitations'') ''ListGlobalInvitations'',
   route ''DELETE /v1/invitations/{resourceName}'' AccessToken None
     (WDeleteGlobal ''invitations'') ''DeleteGlobalInvitation'',
   route ''PATCH /v1/invitations/{resourceName}'' AccessToken None
     (WUpdateGlobal ''invitations'') ''UpdateGlobalInvitation'',
   route ''GET /v1/orgs/{organizationName}/clusters/{clusterName}/nodes'' AccessToken None
     (WListCluster ''nodes'') ''ListClusterNodes'',
   route ''GET /v1/orgs/{organizationName}/clusters/{clusterName}/nodes/{resourceName}'' AccessToken None
     (WGetCluster ''nodes'') ''GetClusterNode'',
   route ''POST /v1/users'' Public None
     (WCreateGlobal ''users'') ''CreateGlobalUser'',
   route ''PUT /v1/users/{resourceName}'' AccessToken None
     (WUpdateGlobal ''users'') ''UpdateGlobalUser'',
   route ''GET /v1/orgs/{organizationName}/members'' AccessToken None
     (WListOrganization ''members'') ''ListOrganizationMembers'',
   route ''DELETE /v1/orgs/{organizationName}/members/{resourceName}'' AccessToken None
     (WDeleteOrganization ''members'') ''DeleteOrganizationMember'',
   route ''POST /v1/users/{resourceName}/password'' AccessToken None
     (WUpdateGlobal ''users'') ''UpdateUserPassword'',
   route ''POST /v1/verify'' Public (Some ''#verifyOptions'')
     (WUpdateNameless ''verificationrequests'') ''UpdateGlobalVerificationRequest'',
   route ''POST /v1/password-reset-request'' Public (Some ''#passwordResetRequestOptions'')
     (WUpdateNameless ''verificationrequests'') ''CreateGlobalPasswordResetRequest'',
   route ''POST /v1/reset-password'' Public (Some ''#resetPasswordOptions'')
     (WUpdateNameless ''verificationrequests'') ''ResetPassword'',
   route ''GET /v1/cluster-templates'' AccessToken None
     WGetNameless ''ListGlobalClusterTemplates'',
   route ''GET /v1/login-sso'' Public None
     WUnprotectedRoute ''LoginOIDC'',
   route ''GET /v1/callback-sso'' Public None
     WUnprotectedRoute ''Callback''
  ]"

subsection \<open>What a wrapper asks for\<close>

text \<open>The scope of the access review a wrapper makes, with verb and resource, and the path values it
  requires to be non-empty (from the definitions of the wrappers).\<close>

datatype scope = OrganizationScope | GlobalScope

fun review_of :: "wrapper \<Rightarrow> (scope \<times> string \<times> string) option" where
  "review_of (WCreateCluster res) = Some (OrganizationScope, ''create'', res)"
| "review_of (WCreateOrganization res) = Some (OrganizationScope, ''create'', res)"
| "review_of (WCreateGlobal res) = None"
| "review_of (WUpdateCluster res) = Some (OrganizationScope, ''patch'', res)"
| "review_of (WUpdateOrganization res) = Some (OrganizationScope, ''patch'', res)"
| "review_of (WUpdateGlobal res) = Some (GlobalScope, ''patch'', res)"
| "review_of (WUpdateNameless res) = None"
| "review_of (WGetCluster res) = Some (OrganizationScope, ''get'', res)"
| "review_of (WGetOrganization res) = Some (OrganizationScope, ''get'', res)"
| "review_of (WGetGlobal res) = Some (GlobalScope, ''get'', res)"
| "review_of WGetNameless = None"
| "review_of (WListCluster res) = Some (OrganizationScope, ''get'', res)"
| "review_of (WListOrganization res) = Some (OrganizationScope, ''get'', res)"
| "review_of (WListGlobal res) = None"
| "review_of (WDeleteCluster res) = Some (OrganizationScope, ''delete'', res)"
| "review_of (WDeleteOrganization res) = Some (OrganizationScope, ''delete'', res)"
| "review_of (WDeleteGlobal res) = Some (GlobalScope, ''delete'', res)"
| "review_of WUnprotectedRoute = None"

fun path_values :: "wrapper \<Rightarrow> string list" where
  "path_values (WCreateCluster res) = [''organizationName'', ''clusterName'']"
| "path_values (WCreateOrganization res) = [''organizationName'']"
| "path_values (WCreateGlobal res) = []"
| "path_values (WUpdateCluster res) = [''organizationName'', ''clusterName'', ''resourceName'']"
| "path_values (WUpdateOrganization res) = [''organizationName'', ''resourceName'']"
| "path_values (WUpdateGlobal res) = [''resourceName'']"
| "path_values (WUpdateNameless res) = []"
| "path_values (WGetCluster res) = [''organizationName'', ''clusterName'', ''resourceName'']"
| "path_values (WGetOrganization res) = [''organizationName'', ''resourceName'']"
| "path_values (WGetGlobal res) = [''resourceName'']"
| "path_values WGetNameless = []"
| "path_values (WListCluster res) = [''organizationName'', ''clusterName'']"
| "path_values (WListOrganization res) = [''organizationName'']"
| "path_values (WListGlobal res) = []"
| "path_values (WDeleteCluster res) = [''organizationName'', ''clusterName'', ''resourceName'']"
| "path_values (WDeleteOrganization res) = [''organizationName'', ''resourceName'']"
| "path_values (WDeleteGlobal res) = [''resourceName'']"
| "path_values WUnprotectedRoute = []"

subsection \<open>Patterns\<close>

datatype segment = Lit string | Wild string

fun split_at :: "char \<Rightarrow> string \<Rightarrow> string list" where
  "split_at d [] = [[]]"
| "split_at d (c # s) =
     (if c = d then [] # split_at d s
      else (case split_at d s of [] \<Rightarrow> [[c]] | w # ws \<Rightarrow> (c # w) # ws))"

definition parse_segment :: "string \<Rightarrow> segment" where
  "parse_segment s =
     (case s of
        [] \<Rightarrow> Lit []
      | c # n \<Rightarrow> if c = CHR ''{'' then Wild (butlast n) else Lit s)"

text \<open>Method and segments; the piece before the leading slash is dropped.\<close>

definition parse_pattern :: "string \<Rightarrow> string \<times> segment list" where
  "parse_pattern p =
     (case split_at (CHR '' '') p of
        [m, path] \<Rightarrow> (m, map parse_segment (tl (split_at (CHR ''/'') path)))
      | _ \<Rightarrow> ([], []))"

text \<open>A literal segment matches itself, a wildcard any non-empty segment.\<close>

fun segment_matches :: "segment \<Rightarrow> string \<Rightarrow> bool" where
  "segment_matches (Lit a) s = (s = a)"
| "segment_matches (Wild n) s = (s \<noteq> [])"

fun segment_overlap :: "segment \<Rightarrow> segment \<Rightarrow> bool" where
  "segment_overlap (Lit a) (Lit b) = (a = b)"
| "segment_overlap (Lit a) (Wild n) = True"
| "segment_overlap (Wild n) y = True"

fun segment_covers :: "segment \<Rightarrow> segment \<Rightarrow> bool" where
  "segment_covers (Lit a) (Lit b) = (a = b)"
| "segment_covers (Lit a) (Wild n) = False"
| "segment_covers (Wild n) y = True"

definition matches :: "segment list \<Rightarrow> string list \<Rightarrow> bool" where
  "matches p ss = list_all2 segment_matches p ss"

definition overlap :: "segment list \<Rightarrow> segment list \<Rightarrow> bool" where
  "overlap p q = list_all2 segment_overlap p q"

definition covers :: "segment list \<Rightarrow> segment list \<Rightarrow> bool" where
  "covers p q = list_all2 segment_covers p q"

text \<open>Neither of two overlapping patterns is more specific: they match the same paths, or each matches one the
  other does not. No pattern here omits the method.\<close>

definition conflicts :: "string \<times> segment list \<Rightarrow> string \<times> segment list \<Rightarrow> bool" where
  "conflicts x y =
     (fst x = fst y \<and> overlap (snd x) (snd y) \<and> covers (snd x) (snd y) = covers (snd y) (snd x))"

fun pairwise :: "('a \<Rightarrow> 'a \<Rightarrow> bool) \<Rightarrow> 'a list \<Rightarrow> bool" where
  "pairwise R [] = True"
| "pairwise R (x # xs) = (list_all (R x) xs \<and> pairwise R xs)"

fun wildcards :: "segment list \<Rightarrow> string list" where
  "wildcards [] = []"
| "wildcards (Wild n # p) = n # wildcards p"
| "wildcards (Lit a # p) = wildcards p"

abbreviation method_of :: "route \<Rightarrow> string" where
  "method_of rt \<equiv> fst (parse_pattern (rt_pattern rt))"

abbreviation segments_of :: "route \<Rightarrow> segment list" where
  "segments_of rt \<equiv> snd (parse_pattern (rt_pattern rt))"

subsection \<open>Overlap and covering mean what they should\<close>

text \<open>The segments of a pattern: no empty literal.\<close>

definition proper :: "segment list \<Rightarrow> bool" where
  "proper p = list_all (\<lambda>x. x \<noteq> Lit []) p"

lemma segment_overlap_iff:
  "x \<noteq> Lit [] \<Longrightarrow> y \<noteq> Lit [] \<Longrightarrow> segment_overlap x y \<longleftrightarrow> (\<exists>s. segment_matches x s \<and> segment_matches y s)"
  by (cases x; cases y) auto

lemma segment_covers_iff:
  "x \<noteq> Lit [] \<Longrightarrow> y \<noteq> Lit [] \<Longrightarrow> segment_covers x y \<longleftrightarrow> (\<forall>s. segment_matches y s \<longrightarrow> segment_matches x s)"
proof (cases x; cases y)
  fix a n
  assume xy: "x = Lit a" "y = Wild n" and "x \<noteq> Lit []"
  then have "segment_matches y (CHR ''x'' # a) \<and> \<not> segment_matches x (CHR ''x'' # a)" by simp
  then show ?thesis using xy by (metis segment_covers.simps(2))
qed auto

lemma overlap_iff_common_path:
  "proper p \<Longrightarrow> proper q \<Longrightarrow> overlap p q \<longleftrightarrow> (\<exists>ss. matches p ss \<and> matches q ss)"
proof (induction p arbitrary: q)
  case Nil
  then show ?case by (simp add: overlap_def matches_def)
next
  case (Cons x p)
  show ?case
  proof (cases q)
    case Nil
    then show ?thesis by (auto simp: overlap_def matches_def list_all2_Cons1)
  next
    case (Cons y q')
    with Cons.prems Cons.IH [of q'] segment_overlap_iff [of x y] show ?thesis
      by (auto simp: overlap_def matches_def proper_def list_all2_Cons1)
  qed
qed

lemma some_match: "proper p \<Longrightarrow> \<exists>ss. matches p ss"
proof (induction p)
  case (Cons x p)
  have "\<exists>s. segment_matches x s"
    by (cases x) (auto intro: exI [of _ "''x''"])
  with Cons show ?case by (auto simp: proper_def matches_def list_all2_Cons1)
qed (auto simp: matches_def intro: exI [of _ "[]"])

lemma covers_iff_subset:
  "proper p \<Longrightarrow> proper q \<Longrightarrow> covers p q \<longleftrightarrow> (\<forall>ss. matches q ss \<longrightarrow> matches p ss)"
proof (induction p arbitrary: q)
  case Nil
  then show ?case
    using some_match [of q] by (cases q) (auto simp: covers_def matches_def list_all2_Cons1)
next
  case (Cons x p)
  show ?case
  proof (cases q)
    case Nil
    then show ?thesis by (auto simp: covers_def matches_def)
  next
    case q: (Cons y q')
    have proper: "proper q'" "y \<noteq> Lit []" "x \<noteq> Lit []" "proper p" using Cons.prems q by (auto simp: proper_def)
    obtain ss s where some: "matches q' ss" "segment_matches y s"
      using some_match [OF proper(1)] some_match [of "[y]"] proper(2)
      by (auto simp: matches_def proper_def list_all2_Cons1)
    have "(\<forall>ss. matches q ss \<longrightarrow> matches (x # p) ss)
        \<longleftrightarrow> (\<forall>s. segment_matches y s \<longrightarrow> segment_matches x s) \<and> (\<forall>ss. matches q' ss \<longrightarrow> matches p ss)"
      using some by (auto simp: q matches_def list_all2_Cons1)
    with Cons.IH [OF proper(4,1)] segment_covers_iff [OF proper(3,2)] show ?thesis
      by (simp add: q covers_def)
  qed
qed

lemma conflicts_iff:
  assumes "proper (snd x)" "proper (snd y)"
  shows "conflicts x y \<longleftrightarrow>
    fst x = fst y \<and> (\<exists>ss. matches (snd x) ss \<and> matches (snd y) ss)
    \<and> ((\<forall>ss. matches (snd y) ss \<longrightarrow> matches (snd x) ss) \<longleftrightarrow> (\<forall>ss. matches (snd x) ss \<longrightarrow> matches (snd y) ss))"
  using assms by (simp add: conflicts_def overlap_iff_common_path covers_iff_subset)

subsection \<open>The table\<close>

abbreviation path_variables :: "route \<Rightarrow> string list" where
  "path_variables rt \<equiv> wildcards (segments_of rt)"

text \<open>Registration succeeds: no two of the 49 patterns conflict, so \<open>ServeMux\<close> accepts all of them and every
  request has at most one most specific entry. Every path value a generic handler insists on is a
  wildcard of the pattern it is mounted on, so no entry answers 400 to every request, and no wildcard of a
  pattern goes unread.\<close>

theorem routes_register:
  "pairwise (\<lambda>x y. \<not> conflicts x y) (map (\<lambda>rt. parse_pattern (rt_pattern rt)) routes)
   \<and> list_all (\<lambda>rt. proper (segments_of rt) \<and> set (path_variables rt) = set (path_values (rt_wrapper rt))) routes"
  by code_simp

definition below_organization :: "route \<Rightarrow> bool" where
  "below_organization rt = (''organizationName'' \<in> set (path_variables rt))"

definition reviews_organization :: "wrapper \<Rightarrow> bool" where
  "reviews_organization w = (case review_of w of Some (OrganizationScope, verb, res) \<Rightarrow> True | _ \<Rightarrow> False)"

text \<open>What is exposed: every entry below an organization asks for an access token and goes through a handler
  that reviews the subject's access in that organization, and every handler that reviews access is
  behind the access token that gives it a subject. The entries that need no token are exactly seven:
  login, sign-up, verification, the two of the password reset and the two of single sign-on; the refresh
  token opens one entry only.\<close>

theorem routes_protected:
  "list_all (\<lambda>rt. below_organization rt = reviews_organization (rt_wrapper rt)
      \<and> (review_of (rt_wrapper rt) = None \<or> rt_token rt = AccessToken)) routes
   \<and> map rt_pattern (filter (\<lambda>rt. rt_token rt = Public) routes) =
       [''POST /v1/login'', ''POST /v1/users'', ''POST /v1/verify'', ''POST /v1/password-reset-request'',
        ''POST /v1/reset-password'', ''GET /v1/login-sso'', ''GET /v1/callback-sso'']
   \<and> map rt_pattern (filter (\<lambda>rt. rt_token rt = RefreshToken) routes) = [''POST /v1/refresh'']"
  by code_simp

definition level_passes :: "access_level \<Rightarrow> route \<Rightarrow> bool" where
  "level_passes l rt =
     (case review_of (rt_wrapper rt) of
        Some (OrganizationScope, verb, res) \<Rightarrow> permitted l verb res
      | _ \<Rightarrow> False)"

text \<open>What each role of a member can reach below its organization: a \<open>Reader\<close> passes the review of exactly the GET
  entries, a \<open>SuperUser\<close> that of every entry, and the only entries a \<open>User\<close> does not pass are inviting,
  withdrawing an invitation and removing a member.\<close>

theorem route_levels:
  "list_all (\<lambda>rt. level_passes ReaderLevel rt = (method_of rt = ''GET'') \<and> level_passes SuperUserLevel rt)
     (filter below_organization routes)
   \<and> map rt_pattern (filter (\<lambda>rt. below_organization rt \<and> \<not> level_passes UserLevel rt) routes) =
       [''POST /v1/orgs/{organizationName}/invitations'',
        ''DELETE /v1/orgs/{organizationName}/invitations/{resourceName}'',
        ''DELETE /v1/orgs/{organizationName}/members/{resourceName}'']"
  by code_simp

end
