(* ===== verification/Config.thy ===== *)
theory Config
  imports Client
begin

text \<open>
  \<open>api/config/config.go\<close>: the configuration manager, a copy of a config map that a reconciler keeps
  current and lookups read. The manager may be a nil pointer, and so may the pointer to the data it
  holds: \<open>None\<close> each. The swap of the pointer is atomic, so a lookup sees one of the copies stored; the
  state here is the copy stored last. Logging is left out.

  \<open>Split\<close> and \<open>TrimSpace\<close> are those of package \<open>strings\<close> on bytes: an empty separator splits between bytes, and
  white space is the six ASCII characters.
\<close>

record config_manager =
  cm_backing_key :: object_key
  cm_data :: "string gomap option"

definition KeyExternalURL :: string where "KeyExternalURL = ''externalURL''"
definition KeyEnvironmentName :: string where "KeyEnvironmentName = ''environmentName''"
definition KeyPublicNamespace :: string where "KeyPublicNamespace = ''publicNamespace''"

definition NewFakeConfigManager :: "string gomap \<Rightarrow> config_manager" where
  "NewFakeConfigManager data = \<lparr>cm_backing_key = \<lparr>ok_namespace = [], ok_name = []\<rparr>, cm_data = Some data\<rparr>"

text \<open>The result is the error and the manager afterwards. Copying the config map makes a map that is never nil.\<close>

definition copy_data :: "string gomap \<Rightarrow> string gomap" where
  "copy_data m = (case m of None \<Rightarrow> make_map [] | Some f \<Rightarrow> Some f)"

definition ConfigManager_Reconcile ::
  "server \<Rightarrow> config_manager option \<Rightarrow> object_key \<Rightarrow> (trace, goerr option \<times> config_manager option) state"
where
  "ConfigManager_Reconcile S m req =
     (case m of
        None \<Rightarrow> ret (None, None)
      | Some manager \<Rightarrow>
          if req \<noteq> cm_backing_key manager then ret (None, m)
          else do {
            r \<leftarrow> k_get R_config_map S (cm_backing_key manager);
            case r of
              Inl e \<Rightarrow> ret (Some e, m)
            | Inr configMap \<Rightarrow> ret (None, Some (manager\<lparr>cm_data := Some (copy_data (cfg_data configMap))\<rparr>))
          })"

text \<open>A value and whether it is there.\<close>

definition GetValueForKey :: "config_manager option \<Rightarrow> string \<Rightarrow> string \<times> bool" where
  "GetValueForKey m key =
     (case m of
        None \<Rightarrow> ([], False)
      | Some manager \<Rightarrow>
          (case cm_data manager of
             None \<Rightarrow> ([], False)
           | Some config \<Rightarrow> if config = None then ([], False) else (map_str config key, map_has config key)))"

definition GetValueOrDefault :: "config_manager option \<Rightarrow> string \<Rightarrow> string \<Rightarrow> string" where
  "GetValueOrDefault m key defaultValue =
     (if m = None then defaultValue
      else (let (value, found) = GetValueForKey m key in if \<not> found then defaultValue else value))"

subsection \<open>Lists of strings\<close>

text \<open>\<open>Cut sep s\<close>: what precedes the first occurrence of \<open>sep\<close> and what follows it.\<close>

fun Cut :: "string \<Rightarrow> string \<Rightarrow> (string \<times> string) option" where
  "Cut sep [] = (if sep = [] then Some ([], []) else None)"
| "Cut sep (c # s) =
     (if HasPrefix (c # s) sep then Some ([], drop (length sep) (c # s))
      else map_option (\<lambda>(a, b). (c # a, b)) (Cut sep s))"

lemma Cut_Some: "Cut sep s = Some (a, b) \<Longrightarrow> s = a @ sep @ b"
proof (induction s arbitrary: a)
  case (Cons c s)
  show ?case
  proof (cases "HasPrefix (c # s) sep")
    case True
    then obtain t where "c # s = sep @ t" by (auto simp: HasPrefix_iff)
    moreover from True Cons.prems have "a = []" "b = drop (length sep) (c # s)" by simp_all
    ultimately show ?thesis by simp
  next
    case False
    with Cons.prems obtain a' where "Cut sep s = Some (a', b)" "a = c # a'" by auto
    with Cons.IH show ?thesis by simp
  qed
qed (simp split: if_splits)

function Split :: "string \<Rightarrow> string \<Rightarrow> string list" where
  "Split sep s =
     (if sep = [] then map (\<lambda>c. [c]) s
      else (case Cut sep s of None \<Rightarrow> [s] | Some (a, b) \<Rightarrow> a # Split sep b))"
  by pat_completeness auto

termination
proof (relation "measure (\<lambda>(sep, s). length s)", goal_cases)
  case (2 sep s p a b)
  then show ?case using Cut_Some [of sep s a b] by simp
qed simp

declare Split.simps [simp del]

definition is_space :: "char \<Rightarrow> bool" where
  "is_space c = (c \<in> {CHR '' '', CHR 0x09, CHR 0x0A, CHR 0x0B, CHR 0x0C, CHR 0x0D})"

definition TrimSpace :: "string \<Rightarrow> string" where
  "TrimSpace s = rev (dropWhile is_space (rev (dropWhile is_space s)))"

definition GetStringSlice2 :: "config_manager option \<Rightarrow> string \<Rightarrow> string \<Rightarrow> string list option" where
  "GetStringSlice2 m key splitOn =
     (if m = None then None
      else (let (raw, found) = GetValueForKey m key in
            if \<not> found then None else Some (map TrimSpace (Split splitOn raw))))"

definition GetStringSlice :: "config_manager option \<Rightarrow> string \<Rightarrow> string list option" where
  "GetStringSlice m key = (if m = None then None else GetStringSlice2 m key '','')"

definition GetStringSliceOrDefault :: "config_manager option \<Rightarrow> string \<Rightarrow> string list \<Rightarrow> string list" where
  "GetStringSliceOrDefault m key defaultValue =
     (if m = None then defaultValue
      else (case GetStringSlice m key of None \<Rightarrow> defaultValue | Some result \<Rightarrow> result))"

definition GetStringSliceOrDefault2 :: "config_manager option \<Rightarrow> string \<Rightarrow> string \<Rightarrow> string list \<Rightarrow> string list" where
  "GetStringSliceOrDefault2 m key splitOn defaultValue =
     (if m = None then defaultValue
      else (case GetStringSlice2 m key splitOn of None \<Rightarrow> defaultValue | Some result \<Rightarrow> result))"

subsection \<open>Lookups follow the config map\<close>

text \<open>A history of reconcile requests, each with the trace at which it runs.\<close>

fun reconcile_all :: "server \<Rightarrow> config_manager option \<Rightarrow> (object_key \<times> trace) list \<Rightarrow> config_manager option" where
  "reconcile_all S m [] = m"
| "reconcile_all S m ((req, t) # rs) = reconcile_all S (snd (fst (run_state (ConfigManager_Reconcile S m req) t))) rs"

text \<open>The content of the config map at the last request for its key that could read it.\<close>

fun last_read :: "server \<Rightarrow> object_key \<Rightarrow> string gomap option \<Rightarrow> (object_key \<times> trace) list \<Rightarrow> string gomap option" where
  "last_read S key acc [] = acc"
| "last_read S key acc ((req, t) # rs) =
     last_read S key
       (if req = key then (case decode R_config_map (sv_get S t AConfigMap key) of
                             Inl e \<Rightarrow> acc | Inr c \<Rightarrow> Some (cfg_data c)) else acc) rs"

definition data_lookup :: "string gomap option \<Rightarrow> string \<Rightarrow> string option" where
  "data_lookup d key = (case d of None \<Rightarrow> None | Some m \<Rightarrow> map_lookup m key)"

lemma data_lookup_copy: "data_lookup (map_option copy_data d) = data_lookup d"
  by (auto simp: data_lookup_def copy_data_def fun_eq_iff make_map_def split: option.split)

lemma GetValueForKey_lookup:
  "GetValueForKey (Some manager) key =
     (case data_lookup (cm_data manager) key of None \<Rightarrow> ([], False) | Some v \<Rightarrow> (v, True))"
  by (auto simp: GetValueForKey_def data_lookup_def map_has_def split: option.split)

lemma reconcile_all_data:
  assumes "data_lookup (cm_data manager) = data_lookup acc"
  shows "\<exists>manager'. reconcile_all S (Some manager) rs = Some manager' \<and> cm_backing_key manager' = cm_backing_key manager
           \<and> data_lookup (cm_data manager') = data_lookup (last_read S (cm_backing_key manager) acc rs)"
  using assms
proof (induction rs arbitrary: manager acc)
  case (Cons r rs)
  obtain req t where r: "r = (req, t)" by (cases r)
  have kind: "rk_kind R_config_map = AConfigMap" by (simp add: R_config_map_def)
  show ?case
  proof (cases "req = cm_backing_key manager")
    case False
    then show ?thesis using Cons r by (simp add: ConfigManager_Reconcile_def)
  next
    case req: True
    show ?thesis
    proof (cases "decode R_config_map (sv_get S t AConfigMap req)")
      case (Inl e)
      then show ?thesis using Cons r req by (simp add: ConfigManager_Reconcile_def run_k_get kind)
    next
      case (Inr c)
      let ?m = "manager\<lparr>cm_data := Some (copy_data (cfg_data c))\<rparr>"
      have "data_lookup (cm_data ?m) = data_lookup (Some (cfg_data c))"
        using data_lookup_copy [of "Some (cfg_data c)"] by simp
      from Cons.IH [OF this] show ?thesis
        using r req Inr by (simp add: ConfigManager_Reconcile_def run_k_get kind)
    qed
  qed
qed auto

text \<open>C40 Configuration lookups follow the config map: after any history of reconcile requests, a lookup
  answers from the content of the config map at the last request for it that could read it. Requests for
  other config maps and failed reads change nothing, and the default is returned exactly when the key
  is not there.\<close>

theorem config_follows_map:
  "GetValueOrDefault (reconcile_all S (Some \<lparr>cm_backing_key = key, cm_data = None\<rparr>) rs) k defaultValue =
     (case data_lookup (last_read S key None rs) k of None \<Rightarrow> defaultValue | Some v \<Rightarrow> v)"
proof -
  obtain manager where "reconcile_all S (Some \<lparr>cm_backing_key = key, cm_data = None\<rparr>) rs = Some manager"
    and "data_lookup (cm_data manager) = data_lookup (last_read S key None rs)"
    using reconcile_all_data [of "\<lparr>cm_backing_key = key, cm_data = None\<rparr>" None S rs] by auto
  then show ?thesis
    by (simp add: GetValueOrDefault_def GetValueForKey_lookup split: option.split)
qed

text \<open>A list of strings comes back as it was written when it was joined with the separator and no item contains
  the separator or begins or ends with white space.\<close>

fun join_with :: "string \<Rightarrow> string list \<Rightarrow> string" where
  "join_with sep [] = []"
| "join_with sep [s] = s"
| "join_with sep (s # t # ss) = s @ sep @ join_with sep (t # ss)"

lemma Cut_single_None: "c \<notin> set s \<Longrightarrow> Cut [c] s = None"
  by (induction s) (auto simp: HasPrefix_single)

lemma Cut_single_Some: "c \<notin> set s \<Longrightarrow> Cut [c] (s @ c # t) = Some (s, t)"
  by (induction s) (auto simp: HasPrefix_single)

lemma Split_join: "ss \<noteq> [] \<Longrightarrow> \<forall>s \<in> set ss. c \<notin> set s \<Longrightarrow> Split [c] (join_with [c] ss) = ss"
proof (induction "[c]" ss rule: join_with.induct)
  case (2 s)
  then show ?case by (simp add: Split.simps Cut_single_None)
next
  case (3 s t ss)
  then show ?case by (subst Split.simps) (simp add: Cut_single_Some)
qed simp

definition trimmed :: "string \<Rightarrow> bool" where
  "trimmed s = (s = [] \<or> \<not> is_space (hd s) \<and> \<not> is_space (last s))"

lemma TrimSpace_trimmed:
  assumes "trimmed s"
  shows "TrimSpace s = s"
proof -
  have "dropWhile is_space s = s" "dropWhile is_space (rev s) = rev s"
    using assms by (auto simp: trimmed_def dropWhile_eq_self_iff hd_rev)
  then show ?thesis by (simp add: TrimSpace_def)
qed

text \<open>A configured list of strings is read back as it was written: joining trimmed items that contain no comma
  with commas and storing the result, \<open>GetStringSlice\<close> returns the items.\<close>

theorem string_slice_round_trip:
  assumes "ss \<noteq> []" and "\<forall>s \<in> set ss. trimmed s \<and> CHR '','' \<notin> set s"
  shows "GetStringSlice (Some (NewFakeConfigManager (make_map [(key, join_with '','' ss)]))) key = Some ss"
proof -
  have "map TrimSpace ss = ss" using assms(2) by (simp add: map_idI TrimSpace_trimmed)
  then show ?thesis
    using Split_join [OF assms(1), of "CHR '',''"] assms(2)
    by (simp add: GetStringSlice_def GetStringSlice2_def GetValueForKey_lookup NewFakeConfigManager_def data_lookup_def)
qed

lemma string_slice_round_trip_witness:
  "GetStringSlice (Some (NewFakeConfigManager (make_map [(''domains'', ''a.se,b.se'')]))) ''domains'' = Some [''a.se'', ''b.se'']"
  using string_slice_round_trip [of "[''a.se'', ''b.se'']" "''domains''"]
  by (simp add: trimmed_def is_space_def)

end
