(* ===== verification/Conditions.thy ===== *)
theory Conditions
  imports Apiutil
begin

text \<open>
  Status conditions. \<open>meta.FindStatusCondition\<close>, \<open>meta.SetStatusCondition\<close> and \<open>conditions.MarkTrue\<close> and
  \<open>MarkFalse\<close> of fluxcd's runtime package are libraries: the parameter \<open>conditions_lib\<close>. What they document is
  \<open>conditions_documented\<close>: a condition that was set or marked is found under its type with the status, reason and message it was
  given, and no other type is touched. The libraries stamp the time, so they may depend on the moment.
\<close>

definition ConditionTrue :: string where "ConditionTrue = ''True''"
definition ConditionFalse :: string where "ConditionFalse = ''False''"

lemma condition_status_distinct [simp]: "ConditionTrue \<noteq> ConditionFalse" "ConditionFalse \<noteq> ConditionTrue"
  by (simp_all add: ConditionTrue_def ConditionFalse_def)

record conditions_lib =
  cl_find :: "condition list \<Rightarrow> string \<Rightarrow> condition option"
  cl_set :: "trace \<Rightarrow> condition list \<Rightarrow> condition \<Rightarrow> condition list"
  cl_mark :: "trace \<Rightarrow> condition list \<Rightarrow> condition \<Rightarrow> condition list"
  cl_error_text :: "goerr \<Rightarrow> string"

text \<open>A condition without its time.\<close>

definition same_condition :: "condition \<Rightarrow> condition \<Rightarrow> bool" where
  "same_condition c d = (c_type c = c_type d \<and> c_status c = c_status d \<and> c_reason c = c_reason d \<and> c_message c = c_message d)"

definition setter_documented ::
  "(condition list \<Rightarrow> string \<Rightarrow> condition option) \<Rightarrow> (trace \<Rightarrow> condition list \<Rightarrow> condition \<Rightarrow> condition list) \<Rightarrow> bool"
where
  "setter_documented look set_condition =
     ((\<forall>t cs c. \<exists>d. look (set_condition t cs c) (c_type c) = Some d \<and> same_condition c d)
      \<and> (\<forall>t cs c ty. ty \<noteq> c_type c \<longrightarrow> look (set_condition t cs c) ty = look cs ty))"

definition conditions_documented :: "conditions_lib \<Rightarrow> bool" where
  "conditions_documented C =
     (setter_documented (cl_find C) (cl_set C) \<and> setter_documented (cl_find C) (cl_mark C)
      \<and> (\<forall>cs ty c. cl_find C cs ty = Some c \<longrightarrow> c \<in> set cs \<and> c_type c = ty)
      \<and> (\<forall>cs ty. cl_find C cs ty = None \<longrightarrow> ty \<notin> c_type ` set cs))"

text \<open>Whether the condition of a type is there with status True.\<close>

definition is_true :: "conditions_lib \<Rightarrow> condition list \<Rightarrow> string \<Rightarrow> bool" where
  "is_true C cs ty = (case cl_find C cs ty of None \<Rightarrow> False | Some c \<Rightarrow> c_status c = ConditionTrue)"

definition is_false :: "conditions_lib \<Rightarrow> condition list \<Rightarrow> string \<Rightarrow> bool" where
  "is_false C cs ty = (case cl_find C cs ty of None \<Rightarrow> False | Some c \<Rightarrow> c_status c = ConditionFalse)"

lemma find_set_same:
  assumes "setter_documented look set_condition"
  obtains d where "look (set_condition t cs c) (c_type c) = Some d" "same_condition c d"
proof -
  from assms have "\<forall>t cs c. \<exists>d. look (set_condition t cs c) (c_type c) = Some d \<and> same_condition c d"
    unfolding setter_documented_def by (elim conjE)
  with that show thesis by metis
qed

lemma find_set_other:
  "setter_documented look set_condition \<Longrightarrow> ty \<noteq> c_type c \<Longrightarrow> look (set_condition t cs c) ty = look cs ty"
  unfolding setter_documented_def by (elim conjE) simp

lemma find_nil: "conditions_documented C \<Longrightarrow> cl_find C [] ty = None"
  unfolding conditions_documented_def by (metis empty_iff empty_set option.exhaust)

lemma is_true_setter:
  assumes "setter_documented (cl_find C) set_condition"
  shows "is_true C (set_condition t cs c) ty \<longleftrightarrow> (if ty = c_type c then c_status c = ConditionTrue else is_true C cs ty)"
proof (cases "ty = c_type c")
  case True
  obtain d where "cl_find C (set_condition t cs c) (c_type c) = Some d" "same_condition c d"
    using find_set_same [OF assms] .
  with True show ?thesis by (simp add: is_true_def same_condition_def)
qed (simp add: is_true_def find_set_other [OF assms])

lemma conditions_setters:
  assumes "conditions_documented C"
  shows "setter_documented (cl_find C) (cl_set C)" "setter_documented (cl_find C) (cl_mark C)"
  using assms by (simp_all add: conditions_documented_def)

lemmas is_true_set = is_true_setter [OF conditions_setters(1)]
lemmas is_true_mark = is_true_setter [OF conditions_setters(2)]

lemma is_true_nil: "conditions_documented C \<Longrightarrow> \<not> is_true C [] ty"
  by (simp add: is_true_def find_nil)

text \<open>\<open>conditions.MarkTrue\<close> and \<open>MarkFalse\<close>: a condition of the given type, status, reason and message. The time is left to
  the library.\<close>

definition marked :: "string \<Rightarrow> string \<Rightarrow> string \<Rightarrow> string \<Rightarrow> condition" where
  "marked ty st reason message =
     \<lparr>c_type = ty, c_status = st, c_reason = reason, c_message = message, c_transition = 0\<rparr>"

lemma marked_simps [simp]:
  "c_type (marked ty st r m) = ty" "c_status (marked ty st r m) = st" "c_reason (marked ty st r m) = r"
  "c_message (marked ty st r m) = m"
  by (simp_all add: marked_def)

text \<open>A library that keeps a list with one condition for each type, for concrete runs.\<close>

fun put_condition :: "condition list \<Rightarrow> condition \<Rightarrow> condition list" where
  "put_condition [] c = [c]"
| "put_condition (d # ds) c = (if c_type d = c_type c then c # ds else d # put_condition ds c)"

definition plain_conditions :: conditions_lib where
  "plain_conditions = \<lparr>cl_find = (\<lambda>cs ty. find (\<lambda>c. c_type c = ty) cs), cl_set = (\<lambda>t. put_condition), cl_mark = (\<lambda>t. put_condition),
     cl_error_text = (\<lambda>e. [])\<rparr>"

lemma find_put_condition:
  "find (\<lambda>d. c_type d = ty) (put_condition cs c) = (if ty = c_type c then Some c else find (\<lambda>d. c_type d = ty) cs)"
  by (induction cs) auto

lemma plain_conditions_documented: "conditions_documented plain_conditions"
  unfolding conditions_documented_def
proof (intro conjI allI impI)
  fix cs :: "condition list" and ty c
  assume "cl_find plain_conditions cs ty = Some c"
  then show "c \<in> set cs" "c_type c = ty" by (auto simp: plain_conditions_def find_Some_iff)
next
  fix cs :: "condition list" and ty
  assume "cl_find plain_conditions cs ty = None"
  then show "ty \<notin> c_type ` set cs" by (auto simp: plain_conditions_def find_None_iff)
qed (simp_all add: plain_conditions_def setter_documented_def find_put_condition same_condition_def)

end
