(* ===== verification/Accounts.thy ===== *)
theory Accounts
  imports Conditions Indexes Bubblebabble Config
begin

text \<open>
  The account endpoints: \<open>users.go\<close>, \<open>whoami.go\<close>, \<open>login.go\<close>, \<open>jwt.go\<close>, \<open>passwords.go\<close> and \<open>verify.go\<close> of
  \<open>internal/api/v1/handlers\<close>. An endpoint that returns a pointer and an error yields \<open>Ret\<close> of what the pointer points to or
  \<open>Fail e\<close>. The subject of the request (\<open>middleware.SubjectFrom\<close>) is an argument. Password hashing, the signing of tokens,
  the parsing of addresses and the random source are the parameter \<open>account_lib\<close>; the sleeps that
  slow a guesser down are left out.
\<close>

datatype signing_key = AccessKey | RefreshKey

record jwt_claims =
  jc_subject :: string
  jc_expires_at :: gotime

record account_lib =
  al_conditions :: conditions_lib
  al_hash :: "trace \<Rightarrow> string \<Rightarrow> goerr + string"
  al_compare :: "string \<Rightarrow> string \<Rightarrow> goerr option"
  al_sign :: "trace \<Rightarrow> signing_key \<Rightarrow> jwt_claims \<Rightarrow> goerr + string"
  al_parse_address :: "string \<Rightarrow> goerr + string"
  al_rand_read :: "trace \<Rightarrow> nat \<Rightarrow> goerr + string \<times> int"

text \<open>The request and response types of the package \<open>types\<close> of another repository, with the fields used.\<close>

record t_user_options =
  tuo_display_name :: "string option"
  tuo_email :: string
  tuo_password :: string

record t_user =
  tu_created_at :: gotime
  tu_email :: string
  tu_id :: string
  tu_name :: string
  tu_provider_id :: "string option"
  tu_display_name :: "string option"
  tu_updated_at :: "gotime option"

record t_login_options =
  tlo_email :: string
  tlo_password :: string

record t_tokens =
  tt_access_token :: string
  tt_refresh_token :: string

record t_password_options =
  tpo_old_password :: string
  tpo_new_password :: string

record t_reset_password_options =
  tro_reset_code :: string
  tro_new_password :: string

record t_verify_options =
  tvo_type :: string
  tvo_code :: string

text \<open>Durations in nanoseconds.\<close>

definition time_Second :: duration where "time_Second = 1000000000"
definition time_Minute :: duration where "time_Minute = 60 * time_Second"
definition time_Hour :: duration where "time_Hour = 60 * time_Minute"

lemmas time_defs = time_Second_def time_Minute_def time_Hour_def

definition NewUnauthorized :: "string \<Rightarrow> goerr" where
  "NewUnauthorized message = StatusErr Unauthorized None message"

text \<open>\<open>apierrors.NewInternalError\<close>; its only cause, the text of the error, is not kept.\<close>

definition NewInternalError :: "goerr \<Rightarrow> goerr" where
  "NewInternalError e = StatusErr InternalError (Some []) ''Internal error occurred''"

lemma new_error_reasons [simp]:
  "has_reason r (NewUnauthorized m) = (r = Unauthorized)" "has_reason r (NewInternalError e) = (r = InternalError)"
  by (simp_all add: NewUnauthorized_def NewInternalError_def)

text \<open>The key of an object without a namespace.\<close>

definition named :: "string \<Rightarrow> object_key" where
  "named n = \<lparr>ok_namespace = [], ok_name = n\<rparr>"

definition FeatureUserSignUp :: string where "FeatureUserSignUp = ''user-sign-up''"

subsection \<open>Tokens\<close>

definition generateTokens :: "account_lib \<Rightarrow> server \<Rightarrow> user \<Rightarrow> (trace, (goerr, t_tokens) go) state" where
  "generateTokens A S user = do {
     now \<leftarrow> k_now S;
     signed \<leftarrow> observe (\<lambda>t. al_sign A t AccessKey
       \<lparr>jc_subject = om_name (user_meta user), jc_expires_at = now + time_Minute * 30\<rparr>);
     case signed of
       Inl e \<Rightarrow> ret (Fail e)
     | Inr signedAccessToken \<Rightarrow> do {
         now \<leftarrow> k_now S;
         signed \<leftarrow> observe (\<lambda>t. al_sign A t RefreshKey
           \<lparr>jc_subject = om_name (user_meta user), jc_expires_at = now + time_Hour * 2\<rparr>);
         case signed of
           Inl e \<Rightarrow> ret (Fail e)
         | Inr signedRefreshToken \<Rightarrow> ret (Ret \<lparr>tt_access_token = signedAccessToken, tt_refresh_token = signedRefreshToken\<rparr>)
       }
   }"

definition CreateGlobalTokens ::
  "account_lib \<Rightarrow> server \<Rightarrow> t_login_options \<Rightarrow> (trace, (goerr, t_tokens) go) state"
where
  "CreateGlobalTokens A S request =
     go_bind (try_call (k_list R_user S \<lparr>lo_namespace = [], lo_labels = [],
       lo_fields = [(EmailField, tlo_email request), (ProviderIDField, ProviderPrefixDockyards)]\<rparr>)) (\<lambda>users.
     case users of
       [] \<Rightarrow> ret (Fail (NewUnauthorized ''user not found''))
     | user # others \<Rightarrow>
         if others \<noteq> [] then ret (Fail (NewUnauthorized ''expected only one user, but found many''))
         else (case cl_find (al_conditions A) (ust_conditions (user_status user)) ReadyCondition of
             None \<Rightarrow> ret (Fail (NewUnauthorized ''user does not have ready condition''))
           | Some condition \<Rightarrow>
               if c_status condition \<noteq> ConditionTrue
               then ret (Fail (NewUnauthorized ''user does not have ready condition''))
               else (case al_compare A (us_password (user_spec user)) (tlo_password request) of
                   Some e \<Rightarrow> ret (Fail (NewUnauthorized ''error comparing password to hash''))
                 | None \<Rightarrow> do {
                     tokens \<leftarrow> generateTokens A S user;
                     ret (case tokens of Fail e \<Rightarrow> Fail (NewInternalError e) | Ret x \<Rightarrow> Ret x | Panic \<Rightarrow> Panic)
                   })))"

definition GetGlobalTokens :: "account_lib \<Rightarrow> server \<Rightarrow> goerr + string \<Rightarrow> (trace, (goerr, t_tokens) go) state" where
  "GetGlobalTokens A S sub =
     (case sub of
        Inl e \<Rightarrow> ret (Fail e)
      | Inr subject \<Rightarrow> do {
          r \<leftarrow> k_get R_user S (named subject);
          case r of
            Inl e \<Rightarrow> ret (Fail (if has_reason NotFound e then NewUnauthorized ''user not found'' else e))
          | Inr user \<Rightarrow>
              if om_deletion (user_meta user) \<noteq> None then ret (Fail (NewUnauthorized ''user deleted''))
              else generateTokens A S user
        })"

subsection \<open>Users\<close>

definition created_user :: "user \<Rightarrow> t_user" where
  "created_user user = \<lparr>tu_created_at = om_creation (user_meta user), tu_email = us_email (user_spec user),
     tu_id = om_uid (user_meta user), tu_name = om_name (user_meta user),
     tu_provider_id = Some (us_provider_id (user_spec user)),
     tu_display_name = (if us_display_name (user_spec user) \<noteq> [] then Some (us_display_name (user_spec user)) else None),
     tu_updated_at = None\<rparr>"

definition CreateGlobalUser ::
  "account_lib \<Rightarrow> config_manager option \<Rightarrow> server \<Rightarrow> t_user_options \<Rightarrow> (trace, (goerr, t_user) go) state"
where
  "CreateGlobalUser A cfg S request =
     (let publicNamespace = GetValueOrDefault cfg KeyPublicNamespace ''dockyards-public'' in
      go_bind (try_call (IsFeatureEnabled S FeatureUserSignUp publicNamespace)) (\<lambda>enabled.
      if \<not> enabled then ret (Fail (NewForbidden (tuo_email request)))
      else go_bind (try_call (observe (\<lambda>t. al_hash A t (tuo_password request)))) (\<lambda>passwordHash.
      let user = zero_user\<lparr>
            user_meta := empty_meta\<lparr>om_generate_name := ''dockyards-''\<rparr>,
            user_spec := (user_spec zero_user)\<lparr>
              us_duration := Some (time_Hour * 12), us_email := tuo_email request, us_password := passwordHash,
              us_provider_id := ProviderPrefixDockyards,
              us_display_name := (case tuo_display_name request of None \<Rightarrow> [] | Some n \<Rightarrow> n)\<rparr>\<rparr> in
      go_bind (try_call (k_create R_user S user)) (\<lambda>user.
      ret (Ret (created_user user))))))"

definition UpdateGlobalUser ::
  "server \<Rightarrow> goerr + string \<Rightarrow> string \<Rightarrow> t_user_options \<Rightarrow> (trace, (goerr, unit) go) state"
where
  "UpdateGlobalUser S sub userName request =
     (case sub of
        Inl e \<Rightarrow> ret (Fail e)
      | Inr subject \<Rightarrow>
          if userName \<noteq> subject then ret (Fail (NewUnauthorized ''subject must match user name''))
          else go_bind (try_call (k_get R_user S (named userName))) (\<lambda>user.
          let updated = user\<lparr>user_spec := (user_spec user)\<lparr>
                us_display_name := (case tuo_display_name request of None \<Rightarrow> [] | Some n \<Rightarrow> n)\<rparr>\<rparr> in
          go_bind (try_call (k_patch R_user S user updated)) (\<lambda>_. ret (Ret ()))))"

definition GetWhoami :: "conditions_lib \<Rightarrow> server \<Rightarrow> goerr + string \<Rightarrow> (trace, (goerr, t_user) go) state" where
  "GetWhoami C S sub =
     (case sub of
        Inl e \<Rightarrow> ret (Fail e)
      | Inr subject \<Rightarrow>
          go_bind (try_call (k_get R_user S (named subject))) (\<lambda>user.
          ret (Ret \<lparr>tu_created_at = om_creation (user_meta user), tu_email = us_email (user_spec user),
            tu_id = om_uid (user_meta user), tu_name = om_name (user_meta user),
            tu_provider_id = (if us_provider_id (user_spec user) \<noteq> [] then Some (us_provider_id (user_spec user)) else None),
            tu_display_name = (if length (us_display_name (user_spec user)) > 0 then Some (us_display_name (user_spec user)) else None),
            tu_updated_at = map_option c_transition (cl_find C (ust_conditions (user_status user)) ReadyCondition)\<rparr>)))"

subsection \<open>Passwords\<close>

definition set_password :: "string \<Rightarrow> user \<Rightarrow> user" where
  "set_password hash user = user\<lparr>user_spec := (user_spec user)\<lparr>us_password := hash\<rparr>\<rparr>"

definition UpdateUserPassword ::
  "account_lib \<Rightarrow> server \<Rightarrow> goerr + string \<Rightarrow> string \<Rightarrow> t_password_options \<Rightarrow> (trace, (goerr, unit) go) state"
where
  "UpdateUserPassword A S sub userName request =
     (case sub of
        Inl e \<Rightarrow> ret (Fail e)
      | Inr subject \<Rightarrow>
          if userName \<noteq> subject then ret (Fail (NewUnauthorized ''subject must match user name''))
          else go_bind (try_call (k_get R_user S (named userName))) (\<lambda>user.
          if al_compare A (us_password (user_spec user)) (tpo_old_password request) \<noteq> None
          then ret (Fail (NewUnauthorized ''error comparing hash to old password''))
          else go_bind (try_call (observe (\<lambda>t. al_hash A t (tpo_new_password request)))) (\<lambda>hash.
          go_bind (try_call (k_patch R_user S user (set_password hash user))) (\<lambda>_. ret (Ret ())))))"

definition ResetPassword ::
  "account_lib \<Rightarrow> server \<Rightarrow> t_reset_password_options \<Rightarrow> (trace, (goerr, unit) go) state"
where
  "ResetPassword A S request =
     go_bind (try_call (k_list R_verification_request S (matching_field CodeField (tro_reset_code request) []))) (\<lambda>items.
     case items of
       [] \<Rightarrow> ret (Fail (Plain ''could not find verification request''))
     | verificationRequest # others \<Rightarrow>
         if others \<noteq> [] then ret (Fail (Plain ''unexpected multiple verification requests with the same code''))
         else go_bind (try_delete (k_delete R_verification_request S verificationRequest)) (\<lambda>_.
         case VerificationRequest_GetExpiration verificationRequest of
           None \<Rightarrow> ret (Fail (Plain ''password reset request needs an expiration''))
         | Some expiresAt \<Rightarrow> do {
             now \<leftarrow> k_now S;
             if now > expiresAt then ret (Fail (NewUnauthorized ''verification request has expired''))
             else go_bind (try_call (k_get R_user S (named (tl_name (vrs_user_ref (verification_request_spec verificationRequest))))))
               (\<lambda>user.
             go_bind (try_call (observe (\<lambda>t. al_hash A t (tro_new_password request)))) (\<lambda>hash.
             go_bind (try_call (k_patch R_user S user (set_password hash user))) (\<lambda>_. ret (Ret ()))))
           }))"

definition user_owner :: "user \<Rightarrow> owner_ref" where
  "user_owner user = \<lparr>or_api_version = GroupVersion_String, or_kind = UserKind, or_name = om_name (user_meta user),
     or_uid = om_uid (user_meta user), or_controller = None, or_block_owner_deletion = None\<rparr>"

definition local_user_ref :: "user \<Rightarrow> typed_local_ref" where
  "local_user_ref user = \<lparr>tl_api_group = Some GroupVersion_Group, tl_kind = UserKind, tl_name = om_name (user_meta user)\<rparr>"

definition newline :: string where "newline = [CHR 0x0A]"

definition reset_request :: "user \<Rightarrow> string \<Rightarrow> verification_request" where
  "reset_request user resetCode = zero_verification_request\<lparr>
     verification_request_meta := empty_meta\<lparr>om_generate_name := ''password-reset-'', om_owner_references := [user_owner user]\<rparr>,
     verification_request_spec := (verification_request_spec zero_verification_request)\<lparr>
       vrs_code := resetCode, vrs_subject := ''Password Reset'',
       vrs_body_text := ''Here is your password reset code: '' @ resetCode @ ''.'' @ newline
         @ ''If you have not requested a password reset, you can ignore this email.'',
       vrs_duration := Some (10 * time_Minute), vrs_user_ref := local_user_ref user\<rparr>\<rparr>"

definition CreateGlobalPasswordResetRequest :: "account_lib \<Rightarrow> server \<Rightarrow> string \<Rightarrow> (trace, (goerr, unit) go) state" where
  "CreateGlobalPasswordResetRequest A S email =
     go_bind (ret (go_of_sum (al_parse_address A email))) (\<lambda>address.
     go_bind (try_call (k_list R_user S (matching_field EmailField address []))) (\<lambda>users.
     case users of
       [] \<Rightarrow> ret (Ret ())
     | user # others \<Rightarrow>
         if others \<noteq> [] then ret (Fail (Plain ''unexpected multiple users with the same email''))
         else if us_provider_id (user_spec user) \<noteq> ProviderPrefixDockyards
         then ret (Fail (Plain ''cannot reset password of externally managed users''))
         else go_bind (observe (\<lambda>t. RandomWithEntropyOfAtLeast (al_rand_read A t) 32)) (\<lambda>resetCode.
         go_bind (try_call (k_create R_verification_request S (reset_request user resetCode))) (\<lambda>_. ret (Ret ())))))"

subsection \<open>Verification\<close>

definition verified_condition :: condition where
  "verified_condition = \<lparr>c_type = VerifiedCondition, c_status = ConditionTrue, c_reason = VerificationReasonVerified,
     c_message = ''Verified by code'', c_transition = 0\<rparr>"

definition UpdateGlobalVerificationRequest ::
  "account_lib \<Rightarrow> server \<Rightarrow> t_verify_options \<Rightarrow> (trace, (goerr, unit) go) state"
where
  "UpdateGlobalVerificationRequest A S request =
     (if tvo_type request \<noteq> RequestTypeAccount then ret (Fail (NewUnauthorized ''invalid verification type''))
      else go_bind (try_call (k_list R_verification_request S (matching_field CodeField (tvo_code request) []))) (\<lambda>items.
      case items of
        [] \<Rightarrow> ret (Fail (NewUnauthorized ''could not find verification request''))
      | verificationRequest # others \<Rightarrow>
          if others \<noteq> [] then ret (Fail (NewUnauthorized ''unexpected multiple verification requests with the same code''))
          else (case VerificationRequest_GetExpiration verificationRequest of
              None \<Rightarrow> ret (Fail (NewUnauthorized ''account verification request needs an expiration''))
            | Some expiresAt \<Rightarrow> do {
                now \<leftarrow> k_now S;
                if now > expiresAt then ret (Fail (NewUnauthorized ''verification request has expired''))
                else do {
                  conditions \<leftarrow> observe (\<lambda>t. cl_set (al_conditions A) t
                    (VerificationRequest_GetConditions verificationRequest) verified_condition);
                  go_bind (try_call (k_status_patch R_verification_request S verificationRequest
                    (VerificationRequest_SetConditions verificationRequest conditions))) (\<lambda>_. ret (Ret ()))
                }
              })))"

subsection \<open>Who can log in\<close>

text \<open>The users that a log in by email can mean, and what it asks for. \<open>issued\<close>: the two tokens of a user, signed one after the other.\<close>

definition dockyards_users :: "kobject list \<Rightarrow> string \<Rightarrow> user list" where
  "dockyards_users objs email =
     filter (\<lambda>u. us_email (user_spec u) = email \<and> us_provider_id (user_spec u) = ProviderPrefixDockyards)
       (List.map_filter (rk_unwrap R_user) objs)"

definition may_log_in :: "account_lib \<Rightarrow> kobject list \<Rightarrow> t_login_options \<Rightarrow> user \<Rightarrow> bool" where
  "may_log_in A objs request u =
     (dockyards_users objs (tlo_email request) = [u]
      \<and> is_true (al_conditions A) (ust_conditions (user_status u)) ReadyCondition
      \<and> al_compare A (us_password (user_spec u)) (tlo_password request) = None)"

definition issued :: "account_lib \<Rightarrow> server \<Rightarrow> trace \<Rightarrow> user \<Rightarrow> t_tokens \<Rightarrow> bool" where
  "issued A S t u tokens =
     (al_sign A (t @ [CNow]) AccessKey \<lparr>jc_subject = om_name (user_meta u), jc_expires_at = sv_now S t + time_Minute * 30\<rparr>
        = Inr (tt_access_token tokens)
      \<and> al_sign A (t @ [CNow, CNow]) RefreshKey
          \<lparr>jc_subject = om_name (user_meta u), jc_expires_at = sv_now S (t @ [CNow]) + time_Hour * 2\<rparr>
        = Inr (tt_refresh_token tokens))"

lemma generateTokens_issued: "fst (run_state (generateTokens A S u) t) = Ret tokens \<longleftrightarrow> issued A S t u tokens"
  by (cases tokens) (auto simp: generateTokens_def issued_def run_simps split: sum.splits)

definition login_list :: "string \<Rightarrow> list_opts" where
  "login_list email =
     \<lparr>lo_namespace = [], lo_labels = [], lo_fields = [(EmailField, email), (ProviderIDField, ProviderPrefixDockyards)]\<rparr>"

lemma list_login:
  assumes "indexes_at S t objs"
  shows "decode_list R_user (sv_list S t AUser (login_list email)) = Inr (dockyards_users objs email)"
  using user_resource.list_indexed [OF assms, of "login_list email"]
  by (simp add: R_user_simps login_list_def dockyards_users_def)

lemma login_iff:
  assumes "indexes_at S t objs"
  shows "fst (run_state (CreateGlobalTokens A S request) t) = Ret tokens \<longleftrightarrow>
     (\<exists>u. may_log_in A objs request u \<and> issued A S (t @ [CList AUser (login_list (tlo_email request))]) u tokens)"
  unfolding CreateGlobalTokens_def login_list_def [symmetric] run_go_bind
  using list_login [OF assms, of "tlo_email request"]
  by (auto simp: run_simps R_user_simps may_log_in_def is_true_def case_prod_unfold generateTokens_issued [symmetric]
      split: list.splits option.splits go.splits)

text \<open>C6 Logging in: when lists are answered from the objects the API server holds, \<open>CreateGlobalTokens\<close> issues tokens exactly
  when a single Dockyards user has the given email, that user is \<open>Ready\<close> and its password matches; the tokens name that
  user and last thirty minutes and two hours.\<close>

theorem login_accepted_iff:
  assumes "indexes_at S t objs"
  shows "fst (run_state (CreateGlobalTokens A S request) t) = Ret tokens \<longleftrightarrow>
     (\<exists>u. may_log_in A objs request u \<and> issued A S (t @ [CList AUser (login_list (tlo_email request))]) u tokens)"
  by (rule login_iff [OF assms])

subsection \<open>Who can change a password\<close>

text \<open>A password is changed only by the user itself and with the old password: whatever the API server answers, a run of
  \<open>UpdateUserPassword\<close> that writes anything was authenticated as the named user, compared the old password with the stored
  hash, and makes a single patch that replaces the hash and nothing else.\<close>

theorem password_change_needs_old_password:
  assumes "run_state (UpdateUserPassword A S sub userName request) t = (r, t @ new)" and "\<not> read_only new"
  shows "\<exists>u hash. sub = Inr userName \<and> sv_get S t AUser (named userName) = Inr (KUser u)
     \<and> al_compare A (us_password (user_spec u)) (tpo_old_password request) = None
     \<and> al_hash A (t @ [CGet AUser (named userName)]) (tpo_new_password request) = Inr hash
     \<and> new = [CGet AUser (named userName), CPatch (KUser u) (KUser (set_password hash u))]"
  using assms
  by (auto simp: UpdateUserPassword_def run_go_bind run_simps R_user_simps go_of_sum_def
      split: sum.splits if_splits option.splits prod.splits go.splits)

definition requests_of :: "kobject list \<Rightarrow> string \<Rightarrow> verification_request list" where
  "requests_of objs code =
     filter (\<lambda>v. vrs_code (verification_request_spec v) = code) (List.map_filter (rk_unwrap R_verification_request) objs)"

lemma list_requests:
  assumes "indexes_at S t objs"
  shows "decode_list R_verification_request (sv_list S t AVerificationRequest (matching_field CodeField code []))
     = Inr (requests_of objs code)"
  using verification_request_resource.list_indexed [OF assms, of "matching_field CodeField code []"]
  by (simp add: R_verification_request_simps matching_field_def requests_of_def)

text \<open>The calls of a successful reset.\<close>

definition request_user :: "verification_request \<Rightarrow> object_key" where
  "request_user v = named (tl_name (vrs_user_ref (verification_request_spec v)))"

definition reset_calls :: "t_reset_password_options \<Rightarrow> verification_request \<Rightarrow> user \<Rightarrow> string \<Rightarrow> trace" where
  "reset_calls request v u hash =
     [CList AVerificationRequest (matching_field CodeField (tro_reset_code request) []), CDelete (KVerificationRequest v), CNow,
      CGet AUser (request_user v), CPatch (KUser u) (KUser (set_password hash u))]"

text \<open>A reset uses up its code before it changes the password: when \<open>ResetPassword\<close> patches anything, the code belonged to exactly
  one verification request, which has been deleted successfully and has not expired, and the only patch replaces the hash of the user
  which that request names.\<close>

theorem reset_consumes_request:
  assumes "indexes_at S t objs"
    and "run_state (ResetPassword A S request) t = (r, t @ new)" and "CPatch k k' \<in> set new"
  shows "\<exists>v u hash expiry. new = reset_calls request v u hash \<and> requests_of objs (tro_reset_code request) = [v]
     \<and> sv_delete S (t @ take 1 new) (KVerificationRequest v) = None
     \<and> VerificationRequest_GetExpiration v = Some expiry \<and> sv_now S (t @ take 2 new) \<le> expiry
     \<and> sv_get S (t @ take 3 new) AUser (request_user v) = Inr (KUser u)
     \<and> al_hash A (t @ take 4 new) (tro_new_password request) = Inr hash"
  using assms(2,3) list_requests [OF assms(1)]
  by (auto simp: ResetPassword_def request_user_def [symmetric] reset_calls_def run_go_bind run_simps R_user_simps
      R_verification_request_simps go_of_sum_def
      split: sum.splits if_splits option.splits prod.splits go.splits list.splits)

text \<open>The calls of a reset that succeeds.\<close>

lemma reset_succeeds:
  assumes "indexes_at S t objs" and "run_state (ResetPassword A S request) t = (Ret (), t')"
  obtains v u hash where "t' = t @ reset_calls request v u hash" "requests_of objs (tro_reset_code request) = [v]"
  using assms(2) list_requests [OF assms(1)]
  by (auto simp: ResetPassword_def request_user_def [symmetric] reset_calls_def run_go_bind run_simps R_user_simps
      R_verification_request_simps go_of_sum_def
      split: sum.splits if_splits option.splits prod.splits go.splits list.splits)

subsection \<open>Accounts on a server\<close>

text \<open>A library with readable hashes and tokens, and a server with one user, for concrete runs.\<close>

definition plain_accounts :: account_lib where
  "plain_accounts = \<lparr>al_conditions = plain_conditions, al_hash = (\<lambda>t p. Inr (''hash of '' @ p)),
     al_compare = (\<lambda>h p. if h = ''hash of '' @ p then None else Some (Plain ''mismatch'')),
     al_sign = (\<lambda>t k c. Inr (jc_subject c)), al_parse_address = Inr, al_rand_read = (\<lambda>t n. Inr (replicate n CHR ''a'', int n))\<rparr>"

definition bob :: user where
  "bob = zero_user\<lparr>user_meta := empty_meta\<lparr>om_name := ''bob''\<rparr>,
     user_spec := (user_spec zero_user)\<lparr>us_email := ''bob@example.com'', us_password := ''hash of secret'',
       us_provider_id := ProviderPrefixDockyards\<rparr>,
     user_status := (user_status zero_user)\<lparr>ust_conditions := [marked ReadyCondition ConditionTrue [] []]\<rparr>\<rparr>"

definition bob_request :: verification_request where
  "bob_request = zero_verification_request\<lparr>verification_request_meta := empty_meta\<lparr>om_name := ''reset''\<rparr>,
     verification_request_spec := (verification_request_spec zero_verification_request)\<lparr>vrs_code := ''code'',
       vrs_user_ref := local_user_ref bob, vrs_duration := Some 1\<rparr>\<rparr>"

definition bob_server :: server where
  "bob_server = empty_server\<lparr>sv_get := (\<lambda>t k n. Inr (KUser bob)),
     sv_list := answering (\<lambda>t. [KUser bob, KVerificationRequest bob_request])\<rparr>"

lemma bob_indexes: "indexes_at bob_server t [KUser bob, KVerificationRequest bob_request]"
  using indexes_at_answering [of bob_server "\<lambda>t. [KUser bob, KVerificationRequest bob_request]"] by (simp add: bob_server_def)

lemma bob_simps [simp]:
  "us_email (user_spec bob) = ''bob@example.com''" "us_password (user_spec bob) = ''hash of secret''"
  "us_provider_id (user_spec bob) = ProviderPrefixDockyards" "om_name (user_meta bob) = ''bob''"
  "ust_conditions (user_status bob) = [marked ReadyCondition ConditionTrue [] []]"
  "vrs_code (verification_request_spec bob_request) = ''code''" "VerificationRequest_GetExpiration bob_request = Some 1"
  by (simp_all add: bob_def bob_request_def VerificationRequest_GetExpiration_def zero_defs)

lemma bob_objects:
  "dockyards_users [KUser bob, KVerificationRequest bob_request] ''bob@example.com'' = [bob]"
  "requests_of [KUser bob, KVerificationRequest bob_request] ''code'' = [bob_request]"
  by (simp_all add: dockyards_users_def requests_of_def R_user_def R_verification_request_def)

lemma login_accepted_iff_witness:
  "fst (run_state (CreateGlobalTokens plain_accounts bob_server
     \<lparr>tlo_email = ''bob@example.com'', tlo_password = ''secret''\<rparr>) []) = Ret \<lparr>tt_access_token = ''bob'', tt_refresh_token = ''bob''\<rparr>"
proof -
  have "may_log_in plain_accounts [KUser bob, KVerificationRequest bob_request]
      \<lparr>tlo_email = ''bob@example.com'', tlo_password = ''secret''\<rparr> bob"
    by (simp add: may_log_in_def bob_objects plain_accounts_def plain_conditions_def is_true_def)
  moreover have "issued plain_accounts bob_server t bob \<lparr>tt_access_token = ''bob'', tt_refresh_token = ''bob''\<rparr>" for t
    by (simp add: issued_def plain_accounts_def)
  ultimately show ?thesis by (subst login_accepted_iff [OF bob_indexes]) blast
qed

lemma password_change_needs_old_password_witness:
  "\<exists>u hash new. snd (run_state (UpdateUserPassword plain_accounts bob_server (Inr ''bob'') ''bob''
       \<lparr>tpo_old_password = ''secret'', tpo_new_password = ''new''\<rparr>) []) = new
     \<and> new = [CGet AUser (named ''bob''), CPatch (KUser u) (KUser (set_password hash u))]"
proof -
  let ?run = "run_state (UpdateUserPassword plain_accounts bob_server (Inr ''bob'') ''bob''
       \<lparr>tpo_old_password = ''secret'', tpo_new_password = ''new''\<rparr>) []"
  have "\<not> read_only (snd ?run)"
    by (simp add: UpdateUserPassword_def run_go_bind run_simps R_user_simps bob_server_def empty_server_def plain_accounts_def)
  then show ?thesis
    using password_change_needs_old_password [of plain_accounts bob_server "Inr ''bob''" "''bob''"
      "\<lparr>tpo_old_password = ''secret'', tpo_new_password = ''new''\<rparr>" "[]" "fst ?run" "snd ?run"] by auto
qed

lemma bob_reset: "CPatch (KUser bob) (KUser (set_password ''hash of new'' bob)) \<in> set (snd (run_state (ResetPassword plain_accounts bob_server
     \<lparr>tro_reset_code = ''code'', tro_new_password = ''new''\<rparr>) []))"
proof -
  have "decode_list R_verification_request (sv_list bob_server [] AVerificationRequest (matching_field CodeField ''code'' [])) = Inr [bob_request]"
    by (simp add: list_requests [OF bob_indexes] bob_objects)
  moreover have "sv_delete bob_server t k = None" "sv_now bob_server t = 0" "sv_get bob_server t kd key = Inr (KUser bob)"
    "sv_patch bob_server t k k' = Inr k'" for t k k' kd key
    by (simp_all add: bob_server_def empty_server_def)
  ultimately show ?thesis
    by (simp add: ResetPassword_def run_go_bind run_simps R_user_def R_verification_request_def decode_def decode_list_def
        plain_accounts_def)
qed

lemma reset_consumes_request_witness:
  "\<exists>v u hash. snd (run_state (ResetPassword plain_accounts bob_server
       \<lparr>tro_reset_code = ''code'', tro_new_password = ''new''\<rparr>) [])
     = reset_calls \<lparr>tro_reset_code = ''code'', tro_new_password = ''new''\<rparr> v u hash"
  using reset_consumes_request [OF bob_indexes, where t = "[]" and A = plain_accounts and request = "\<lparr>tro_reset_code = ''code'', tro_new_password = ''new''\<rparr>"]
    bob_reset by (metis append_Nil prod.collapse)

end
