(* ===== verification/User_Controller.thy ===== *)
theory User_Controller
  imports Accounts Authorization
begin

text \<open>
  \<open>internal/controller/user_controller.go\<close>: the reconciler of users. It keeps the condition \<open>Ready\<close> of a user, makes and
  removes the verification request of a new user, and writes the role bindings of a verified one. A reconcile function returns a
  result and an error, here \<open>Ret result\<close> or \<open>Fail e\<close>; a helper that changes the user it is given a pointer to returns the
  user as well. A status patch replaces the user by the API server's answer. \<open>readyCondition\<close> points into the
  conditions of the user, so a change of the condition shows in it: it is looked up again where the user may have changed.
\<close>

record ctrl_result =
  requeue_after :: duration

definition no_requeue :: ctrl_result where
  "no_requeue = \<lparr>requeue_after = 0\<rparr>"

definition ready_condition :: "string \<Rightarrow> string \<Rightarrow> string \<Rightarrow> string \<Rightarrow> gotime \<Rightarrow> condition" where
  "ready_condition ty st reason message now =
     \<lparr>c_type = ty, c_status = st, c_reason = reason, c_message = message, c_transition = now\<rparr>"

text \<open>Setting a condition at the current time and patching the status.\<close>

definition patch_condition ::
  "conditions_lib \<Rightarrow> server \<Rightarrow> user \<Rightarrow> (gotime \<Rightarrow> condition) \<Rightarrow> (trace, goerr + user) state"
where
  "patch_condition C S user c = do {
     now \<leftarrow> k_now S;
     conditions \<leftarrow> observe (\<lambda>t. cl_set C t (User_GetConditions user) (c now));
     k_status_patch R_user S user (User_SetConditions user conditions)
   }"

subsection \<open>Users of other providers\<close>

definition reconcileNonDockyardsProvidedUser ::
  "conditions_lib \<Rightarrow> config_manager option \<Rightarrow> server \<Rightarrow> user \<Rightarrow> (trace, (goerr, user) go) state"
where
  "reconcileNonDockyardsProvidedUser C cfg S user =
     (let (publicNamespace, ok) = GetValueForKey cfg KeyPublicNamespace in
      if \<not> ok then ret (Fail (Plain ''publicNamespace has not been configured''))
      else (case Cut ''://'' (us_provider_id (user_spec user)) of
          None \<Rightarrow> ret (Fail (Plain ''user was not provided by dockyards, but their ProviderID format did not match what we expected either''))
        | Some (providerName, after) \<Rightarrow>
            go_bind (try_call (k_get R_identity_provider S \<lparr>ok_namespace = publicNamespace, ok_name = providerName\<rparr>)) (\<lambda>_.
            if cl_find C (User_GetConditions user) ReadyCondition \<noteq> None then ret (Ret user)
            else try_call (patch_condition C S user
              (ready_condition ReadyCondition ConditionTrue VerificationReasonVerified ''Verified by OIDC'')))))"

subsection \<open>Verification requests\<close>

definition sign_up_name :: "user \<Rightarrow> string" where
  "sign_up_name user = ''sign-up-'' @ om_name (user_meta user)"

definition sign_up_request :: "user \<Rightarrow> verification_request" where
  "sign_up_request user = zero_verification_request\<lparr>verification_request_meta :=
     empty_meta\<lparr>om_name := sign_up_name user, om_owner_references := [user_owner user]\<rparr>\<rparr>"

definition verification_text :: "string \<Rightarrow> string" where
  "verification_text code = ''Here is your email verification code: '' @ code @ ''.'' @ newline
     @ ''If you have not created a dockyards account, you can ignore this email.''"

definition verification_request_mutate ::
  "account_lib \<Rightarrow> user \<Rightarrow> verification_request \<Rightarrow> (trace, (goerr, verification_request) go) state"
where
  "verification_request_mutate A user r =
     (let spec = (verification_request_spec r)\<lparr>vrs_subject := ''Email Verification'', vrs_user_ref := local_user_ref user,
            vrs_duration := Some (30 * time_Minute)\<rparr> in
      go_bind (if vrs_code spec = [] then observe (\<lambda>t. RandomWithEntropyOfAtLeast (al_rand_read A t) 32)
               else ret (Ret (vrs_code spec))) (\<lambda>code.
      ret (Ret (r\<lparr>verification_request_spec := spec\<lparr>vrs_code := code, vrs_body_text := verification_text code\<rparr>\<rparr>))))"

definition reconcileVerificationRequest ::
  "account_lib \<Rightarrow> server \<Rightarrow> user \<Rightarrow> (trace, (goerr, verification_request) go) state"
where
  "reconcileVerificationRequest A S user =
     create_or_patch R_verification_request S (sign_up_request user) (verification_request_mutate A user)"

definition reconcileUserVerification :: "account_lib \<Rightarrow> server \<Rightarrow> user \<Rightarrow> (trace, (goerr, user) go) state" where
  "reconcileUserVerification A S user =
     go_bind (reconcileVerificationRequest A S user) (\<lambda>verificationRequest.
     case cl_find (al_conditions A) (VerificationRequest_GetConditions verificationRequest) VerifiedCondition of
       None \<Rightarrow> ret (Ret user)
     | Some verifiedCondition \<Rightarrow>
         if c_status verifiedCondition = ConditionTrue then do {
           conditions \<leftarrow> observe (\<lambda>t. cl_set (al_conditions A) t (User_GetConditions user)
             \<lparr>c_type = ReadyCondition, c_status = c_status verifiedCondition, c_reason = c_reason verifiedCondition,
              c_message = c_message verifiedCondition, c_transition = c_transition verifiedCondition\<rparr>);
           try_call (k_status_patch R_user S user (User_SetConditions user conditions))
         }
         else ret (Ret user))"

subsection \<open>Reconcile\<close>

definition deleteVerificationRequest :: "server \<Rightarrow> user \<Rightarrow> (trace, (goerr, unit) go) state" where
  "deleteVerificationRequest S user = do {
     err \<leftarrow> k_delete R_verification_request S
       (zero_verification_request\<lparr>verification_request_meta := empty_meta\<lparr>om_name := sign_up_name user\<rparr>\<rparr>);
     ret (case err of None \<Rightarrow> Ret () | Some e \<Rightarrow> if \<not> has_reason NotFound e then Fail e else Ret ())
   }"

definition reconcileReadyUser :: "account_lib \<Rightarrow> server \<Rightarrow> user \<Rightarrow> (trace, (goerr, ctrl_result) go) state" where
  "reconcileReadyUser A S user = do {
     r \<leftarrow> ReconcileUserAuthorization S user;
     case r of
       Panic \<Rightarrow> ret Panic
     | Fail e \<Rightarrow> do {
         _ \<leftarrow> patch_condition (al_conditions A) S user (ready_condition UserAuthorizationReadyCondition ConditionFalse
                UserAuthorizationInternalErrorReason (cl_error_text (al_conditions A) e));
         ret (Fail e)
       }
     | Ret _ \<Rightarrow>
         go_bind (try_call (patch_condition (al_conditions A) S user
           (ready_condition UserAuthorizationReadyCondition ConditionTrue ReadyReason []))) (\<lambda>_.
         ret (Ret no_requeue))
   }"

definition UserReconciler_Reconcile ::
  "account_lib \<Rightarrow> config_manager option \<Rightarrow> server \<Rightarrow> object_key \<Rightarrow> (trace, (goerr, ctrl_result) go) state"
where
  "UserReconciler_Reconcile A cfg S req = do {
     r \<leftarrow> k_get R_user S req;
     case r of
       Inl e \<Rightarrow> ret (if has_reason NotFound e then Ret no_requeue else Fail e)
     | Inr user \<Rightarrow>
         go_bind (if \<not> HasPrefix (us_provider_id (user_spec user)) ProviderPrefixDockyards
                  then reconcileNonDockyardsProvidedUser (al_conditions A) cfg S user
                  else ret (Ret user)) (\<lambda>user.
         go_bind (if cl_find (al_conditions A) (User_GetConditions user) ReadyCondition = None
                  then try_call (patch_condition (al_conditions A) S user
                    (ready_condition ReadyCondition ConditionFalse VerificationReasonNotVerified []))
                  else ret (Ret user)) (\<lambda>user.
         case cl_find (al_conditions A) (User_GetConditions user) ReadyCondition of
           None \<Rightarrow> ret Panic
         | Some readyCondition \<Rightarrow>
             go_bind (if HasPrefix (us_provider_id (user_spec user)) ProviderPrefixDockyards
                         \<and> c_status readyCondition = ConditionFalse
                      then reconcileUserVerification A S user else ret (Ret user)) (\<lambda>user.
             let readyCondition = (case cl_find (al_conditions A) (User_GetConditions user) ReadyCondition of
                                     None \<Rightarrow> readyCondition | Some c \<Rightarrow> c) in
             if c_status readyCondition = ConditionTrue
             then go_bind (deleteVerificationRequest S user) (\<lambda>_. reconcileReadyUser A S user)
             else ret (Ret no_requeue))))
   }"

text \<open>Which users a verification request wakes up; the type assertion panics for another object.\<close>

definition verificationReqeuestsToUsers :: "kobject \<Rightarrow> (goerr, object_key list) go" where
  "verificationReqeuestsToUsers obj =
     (case obj of
        KVerificationRequest vr \<Rightarrow>
          (let ref = vrs_user_ref (verification_request_spec vr) in
           if tl_kind ref \<noteq> UserKind \<or> tl_name ref = [] then Ret []
           else Ret [\<lparr>ok_namespace = [], ok_name = tl_name ref\<rparr>])
      | _ \<Rightarrow> Panic)"

subsection \<open>When a user becomes ready\<close>

definition becomes_ready :: "conditions_lib \<Rightarrow> user \<Rightarrow> user \<Rightarrow> bool" where
  "becomes_ready C u u' =
     (HasPrefix (us_provider_id (user_spec u)) ProviderPrefixDockyards
      \<and> is_true C (User_GetConditions u') ReadyCondition \<and> \<not> is_true C (User_GetConditions u) ReadyCondition)"

definition just_verified :: "conditions_lib \<Rightarrow> server \<Rightarrow> user \<Rightarrow> trace \<Rightarrow> bool" where
  "just_verified C S u p =
     (\<exists>p' w r vr. p = p' @ [CCommit w (KVerificationRequest r)]
        \<and> vrs_user_ref (verification_request_spec r) = local_user_ref u
        \<and> sv_commit S p' w (KVerificationRequest r) = Inr (KVerificationRequest vr)
        \<and> is_true C (VerificationRequest_GetConditions vr) VerifiedCondition)"

text \<open>The user a call was answered with, and whether a ready user has been seen.\<close>

definition answered_user :: "server \<Rightarrow> trace \<Rightarrow> call \<Rightarrow> user \<Rightarrow> bool" where
  "answered_user S p c u =
     ((\<exists>key. c = CGet AUser key \<and> sv_get S p AUser key = Inr (KUser u))
      \<or> (\<exists>old new. c = CStatusPatch old new \<and> sv_status_patch S p old new = Inr (KUser u)))"

definition seen_ready :: "conditions_lib \<Rightarrow> server \<Rightarrow> trace \<Rightarrow> bool" where
  "seen_ready C S p =
     (\<exists>p' c post u. p = p' @ c # post \<and> answered_user S p' c u \<and> is_true C (User_GetConditions u) ReadyCondition)"

definition ready_justified :: "conditions_lib \<Rightarrow> server \<Rightarrow> trace \<Rightarrow> call \<Rightarrow> bool" where
  "ready_justified C S p c =
     (case c of
        CStatusPatch (KUser u) (KUser u') \<Rightarrow> becomes_ready C u u' \<longrightarrow> just_verified C S u p
      | CCommit _ (KClusterRole r) \<Rightarrow> seen_ready C S p
      | CCommit _ (KClusterRoleBinding b) \<Rightarrow> seen_ready C S p
      | _ \<Rightarrow> True)"

lemma ready_justified_simps [simp]:
  "ready_justified C S p (CStatusPatch (KUser u) (KUser u')) = (becomes_ready C u u' \<longrightarrow> just_verified C S u p)"
  "ready_justified C S p (CCommit w (KVerificationRequest r))" "ready_justified C S p (CGet kd key)"
  "ready_justified C S p (CFetch w)" "ready_justified C S p (CDelete w)" "ready_justified C S p CNow"
  "seen_ready C S p \<Longrightarrow> ready_justified C S p (CCommit w w')"
  by (auto simp: ready_justified_def split: kobject.splits)

lemma User_conditions_set [simp]: "User_GetConditions (User_SetConditions u cs) = cs"
  by (simp add: User_GetConditions_def User_SetConditions_def)

lemma seen_ready_append [simp]: "seen_ready C S p \<Longrightarrow> seen_ready C S (p @ q)"
  by (force simp: seen_ready_def)

lemma seen_ready_snoc:
  "answered_user S p c u \<Longrightarrow> is_true C (User_GetConditions u) ReadyCondition \<Longrightarrow> seen_ready C S (p @ [c])"
  by (force simp: seen_ready_def)

lemma patch_condition_ok:
  assumes "\<And>p now. J p (CStatusPatch (KUser user) (KUser (User_SetConditions user (cl_set C p (User_GetConditions user) (c now)))))"
    and "\<And>p. J p CNow"
  shows "calls_ok J t (patch_condition C S user c)"
proof -
  let ?u = "User_SetConditions user (cl_set C (t @ [CNow]) (User_GetConditions user) (c (sv_now S t)))"
  show ?thesis
    using assms(1) [of "t @ [CNow]" "sv_now S t"] assms(2)
    by (intro calls_okI [where new = "[CNow, CStatusPatch (KUser user) (KUser ?u)]"])
      (auto simp: patch_condition_def run_simps R_user_simps Cons_eq_append_conv append_eq_Cons_conv)
qed

lemma cluster_role_wrap: "rk_wrap R_cluster_role = KClusterRole" "rk_wrap R_cluster_role_binding = KClusterRoleBinding"
  by (simp_all add: R_cluster_role_def R_cluster_role_binding_def)


fun cluster_role_call :: "call \<Rightarrow> bool" where
  "cluster_role_call (CFetch w) = True"
| "cluster_role_call (CCommit w w') = (kind_of w' \<in> {AClusterRole, AClusterRoleBinding})"
| "cluster_role_call c = False"

lemma user_authorization_calls: "emits cluster_role_call (ReconcileUserAuthorization S user)"
  unfolding ReconcileUserAuthorization_def
  by (intro emits_go_bind emits_ret cluster_role_resource.create_or_patch_emits cluster_role_binding_resource.create_or_patch_emits)
    (auto simp: cluster_role_wrap user_role_mutate_def user_binding_mutate_def)

lemma reconcileReadyUser_ok:
  assumes "conditions_documented (al_conditions A)" and "seen_ready (al_conditions A) S t"
  shows "calls_ok (ready_justified (al_conditions A) S) t (reconcileReadyUser A S user)"
proof -
  have "ready_justified (al_conditions A) S (t @ new) c" if "cluster_role_call c" for new c
    using that assms(2) by (cases c) (auto simp: ready_justified_simps(7))
  then have "calls_ok (ready_justified (al_conditions A) S) t (ReconcileUserAuthorization S user)"
    by (rule calls_ok_emits [OF user_authorization_calls])
  moreover have "UserAuthorizationReadyCondition \<noteq> ReadyCondition"
    by (simp add: UserAuthorizationReadyCondition_def ReadyCondition_def)
  ultimately show ?thesis
    unfolding reconcileReadyUser_def
    by (intro calls_ok_bind calls_ok_go_bind calls_ok_intros patch_condition_ok)
      (simp_all add: becomes_ready_def is_true_set [OF assms(1)] ready_condition_def)
qed

lemma reconcileUserVerification_ok:
  assumes "conditions_documented (al_conditions A)"
  shows "calls_ok (ready_justified (al_conditions A) S) t (reconcileUserVerification A S user)"
  unfolding reconcileUserVerification_def
proof (rule calls_ok_go_bind)
  show "calls_ok (ready_justified (al_conditions A) S) t (reconcileVerificationRequest A S user)"
    unfolding reconcileVerificationRequest_def
    by (rule calls_ok_create_or_patch)
      (auto simp: R_verification_request_simps verification_request_mutate_def Let_def intro!: calls_ok_go_bind calls_ok_intros)
  fix vr t'
  assume run: "run_state (reconcileVerificationRequest A S user) t = (Ret vr, t')"
  have v: "just_verified (al_conditions A) S user t'"
    if "is_true (al_conditions A) (VerificationRequest_GetConditions vr) VerifiedCondition"
    using run that unfolding reconcileVerificationRequest_def run_create_or_patch_any just_verified_def
    by (auto simp: R_verification_request_simps verification_request_mutate_def run_go_bind go_of_sum_def Let_def
      split: sum.splits prod.splits go.splits if_splits)
  show "calls_ok (ready_justified (al_conditions A) S) t'
     (case cl_find (al_conditions A) (VerificationRequest_GetConditions vr) VerifiedCondition of
       None \<Rightarrow> ret (Ret user)
     | Some verifiedCondition \<Rightarrow>
         if c_status verifiedCondition = ConditionTrue then do {
           conditions \<leftarrow> observe (\<lambda>t. cl_set (al_conditions A) t (User_GetConditions user)
             \<lparr>c_type = ReadyCondition, c_status = c_status verifiedCondition, c_reason = c_reason verifiedCondition,
              c_message = c_message verifiedCondition, c_transition = c_transition verifiedCondition\<rparr>);
           try_call (k_status_patch R_user S user (User_SetConditions user conditions))
         }
         else ret (Ret user))"
    by (intro calls_ok_intros calls_ok_bind)
      (auto simp: R_user_simps is_true_def run_simps intro!: v)
qed

lemma patch_condition_answer:
  assumes "run_state (patch_condition C S user c) t = (Inr u, t')"
  shows "is_true C (User_GetConditions u) ReadyCondition \<longrightarrow> seen_ready C S t'"
proof
  assume ready: "is_true C (User_GetConditions u) ReadyCondition"
  obtain w w' where w: "t' = (t @ [CNow]) @ [CStatusPatch w w']" "sv_status_patch S (t @ [CNow]) w w' = Inr (KUser u)"
    using assms by (auto simp: patch_condition_def run_simps R_user_simps)
  then have "answered_user S (t @ [CNow]) (CStatusPatch w w') u" by (auto simp: answered_user_def)
  with ready w(1) show "seen_ready C S t'" by (metis seen_ready_snoc)
qed

lemma patch_condition_seen:
  "fst (run_state (patch_condition C S user c) t) = Inr u \<Longrightarrow> is_true C (User_GetConditions u) ReadyCondition \<Longrightarrow>
     seen_ready C S (snd (run_state (patch_condition C S user c) t))"
  using patch_condition_answer [of C S user c t u] by (metis prod.collapse)

lemma non_dockyards_user_ok:
  assumes "\<not> HasPrefix (us_provider_id (user_spec user)) ProviderPrefixDockyards"
  shows "calls_ok (ready_justified C S) t (reconcileNonDockyardsProvidedUser C cfg S user)"
  unfolding reconcileNonDockyardsProvidedUser_def Let_def case_prod_unfold
  by (intro calls_ok_go_bind calls_ok_intros patch_condition_ok) (auto simp: becomes_ready_def assms)

lemma non_dockyards_user_answer:
  assumes "run_state (reconcileNonDockyardsProvidedUser C cfg S user) t = (Ret u, t')"
    and "is_true C (User_GetConditions user) ReadyCondition \<longrightarrow> seen_ready C S t"
  shows "is_true C (User_GetConditions u) ReadyCondition \<longrightarrow> seen_ready C S t'"
  using assms
  by (auto simp: reconcileNonDockyardsProvidedUser_def run_go_bind run_simps go_of_sum_def
      intro: patch_condition_seen split: prod.splits if_splits option.splits sum.splits go.splits)

lemma user_verification_answer:
  assumes "run_state (reconcileUserVerification A S user) t = (Ret u, t')"
    and "is_true (al_conditions A) (User_GetConditions user) ReadyCondition \<longrightarrow> seen_ready (al_conditions A) S t"
  shows "is_true (al_conditions A) (User_GetConditions u) ReadyCondition \<longrightarrow> seen_ready (al_conditions A) S t'"
proof -
  have "emits (\<lambda>_. True) (reconcileVerificationRequest A S user)"
    unfolding reconcileVerificationRequest_def create_or_patch_def verification_request_mutate_def by (intro appends_intros TrueI)
  then obtain new where new: "snd (run_state (reconcileVerificationRequest A S user) t) = t @ new"
    by (auto simp: emits_def)
  have seen: "seen_ready (al_conditions A) S (q @ [CStatusPatch w w'])"
    if "sv_status_patch S q w w' = Inr (KUser u)" "is_true (al_conditions A) (User_GetConditions u) ReadyCondition" for q w w'
    using that by (intro seen_ready_snoc) (auto simp: answered_user_def)
  show ?thesis
    using assms new seen [of "t @ new"]
    by (auto simp: reconcileUserVerification_def run_go_bind run_simps R_user_simps go_of_sum_def
      split: prod.splits if_splits option.splits sum.splits go.splits)
qed


lemma Reconcile_ready_justified:
  assumes "conditions_documented (al_conditions A)"
  shows "calls_ok (ready_justified (al_conditions A) S) t (UserReconciler_Reconcile A cfg S req)"
proof -
  let ?C = "al_conditions A"
  let ?J = "ready_justified ?C S"
  let ?K = "\<lambda>u t. is_true ?C (User_GetConditions u) ReadyCondition \<longrightarrow> seen_ready ?C S t"
  have last: "calls_ok ?J t (go_bind (deleteVerificationRequest S u) (\<lambda>_. reconcileReadyUser A S u))"
    if "seen_ready ?C S t" for u t
  proof (rule calls_ok_go_bind)
    show "calls_ok ?J t (deleteVerificationRequest S u)"
      unfolding deleteVerificationRequest_def by (intro calls_ok_bind calls_ok_intros) (simp_all add: R_verification_request_simps)
    fix x t'
    assume "run_state (deleteVerificationRequest S u) t = (Ret x, t')"
    with that have "seen_ready ?C S t'" by (auto simp: deleteVerificationRequest_def run_simps)
    then show "calls_ok ?J t' (reconcileReadyUser A S u)" by (rule reconcileReadyUser_ok [OF assms])
  qed
  have first: "?K u t'" if "run_state (k_get R_user S req) t = (Inr u, t')" for u t'
    using that by (auto simp: run_simps R_user_simps answered_user_def intro!: seen_ready_snoc)
  have keep: "seen_ready ?C S ((t @ p) @ q)" if "seen_ready ?C S (t @ p)" for t p q
    using that by (rule seen_ready_append)
  show ?thesis
    unfolding UserReconciler_Reconcile_def Let_def
    apply (intro calls_ok_bind calls_ok_intros, simp)
    apply (rule calls_ok_go_bind_inv [where Q = ?K])
      apply (intro calls_ok_intros non_dockyards_user_ok, assumption)
     apply (auto dest: first non_dockyards_user_answer split: if_splits)[1]
    apply (rule calls_ok_go_bind_inv [where Q = ?K])
      apply (intro calls_ok_intros patch_condition_ok; simp add: becomes_ready_def is_true_set [OF assms] ready_condition_def)
     apply (auto simp: try_call_Ret dest: patch_condition_answer split: if_splits)[1]
    apply (intro calls_ok_intros)
    apply (rule calls_ok_go_bind_inv [where Q = ?K])
      apply (intro calls_ok_intros reconcileUserVerification_ok [OF assms])
     apply (auto dest: user_verification_answer split: if_splits)[1]
    apply (intro calls_ok_intros last)
    apply (auto simp: is_true_def append_assoc [symmetric] simp del: append_assoc intro: keep split: option.splits)
    done
qed

text \<open>A user of the provider Dockyards becomes ready only by verification, and only a ready user gets rights: whatever the API
  server answers, when a run of the user reconciler patches such a user from not \<open>Ready\<close> to \<open>Ready\<close>, the call before stored the
  verification request of that user and was answered with one that has been verified; and when it writes a cluster role or a binding, the
  server has answered with a ready user during this run.\<close>

theorem ready_needs_verification:
  assumes "conditions_documented (al_conditions A)"
    and "run_state (UserReconciler_Reconcile A cfg S req) t = (r, t @ pre @ c # post)"
  shows "ready_justified (al_conditions A) S (t @ pre) c"
  using calls_okD [OF Reconcile_ready_justified [OF assms(1)] assms(2)] .

text \<open>Carol is not ready yet; her verification request has been verified.\<close>

definition carol :: user where
  "carol = zero_user\<lparr>user_meta := empty_meta\<lparr>om_name := ''carol''\<rparr>,
     user_spec := (user_spec zero_user)\<lparr>us_provider_id := ProviderPrefixDockyards\<rparr>,
     user_status := (user_status zero_user)\<lparr>ust_conditions := [marked ReadyCondition ConditionFalse [] []]\<rparr>\<rparr>"

definition carol_request :: verification_request where
  "carol_request = VerificationRequest_SetConditions ((sign_up_request carol)\<lparr>verification_request_spec :=
     (verification_request_spec zero_verification_request)\<lparr>vrs_code := ''code''\<rparr>\<rparr>) [verified_condition]"

definition carol_server :: server where
  "carol_server = empty_server\<lparr>sv_get := (\<lambda>t k n. Inr (KUser carol)), sv_fetch := (\<lambda>t k. Inr (KVerificationRequest carol_request)),
     sv_delete := (\<lambda>t k. Some (Plain ''stop''))\<rparr>"

lemma ready_needs_verification_witness:
  "\<exists>u pre. just_verified plain_conditions carol_server u pre \<and> om_name (user_meta u) = ''carol''"
proof -
  let ?req = "carol_request\<lparr>verification_request_spec := (verification_request_spec carol_request)\<lparr>vrs_subject := ''Email Verification'',
      vrs_user_ref := local_user_ref carol, vrs_duration := Some (30 * time_Minute), vrs_code := ''code'',
      vrs_body_text := verification_text ''code''\<rparr>\<rparr>"
  let ?ready = "User_SetConditions carol [ready_condition ReadyCondition ConditionTrue VerificationReasonVerified ''Verified by code'' 0]"
  let ?pre = "[CGet AUser (named ''carol''), CFetch (KVerificationRequest (sign_up_request carol)),
      CCommit (KVerificationRequest carol_request) (KVerificationRequest ?req)]"
  have prov: "HasPrefix (us_provider_id (user_spec carol)) ProviderPrefixDockyards" by (simp add: carol_def HasPrefix_iff)
  have conds: "User_GetConditions carol = [marked ReadyCondition ConditionFalse [] []]"
    "VerificationRequest_GetConditions ?req = [verified_condition]" "vrs_code (verification_request_spec carol_request) = ''code''"
    by (simp_all add: carol_def carol_request_def User_GetConditions_def VerificationRequest_GetConditions_def
        VerificationRequest_SetConditions_def zero_defs)
  have "run_state (UserReconciler_Reconcile plain_accounts None carol_server (named ''carol'')) []
      = (Fail (Plain ''stop''), [] @ ?pre @ CStatusPatch (KUser carol) (KUser ?ready)
          # [CDelete (KVerificationRequest (zero_verification_request\<lparr>verification_request_meta := empty_meta\<lparr>om_name := sign_up_name ?ready\<rparr>\<rparr>))])"
    using prov conds
    by (simp add: UserReconciler_Reconcile_def reconcileUserVerification_def reconcileVerificationRequest_def run_create_or_patch_any
        deleteVerificationRequest_def verification_request_mutate_def run_go_bind run_simps R_user_simps R_verification_request_simps
        carol_server_def empty_server_def plain_accounts_def plain_conditions_def ready_condition_def verified_condition_def named_def)
  moreover have "becomes_ready plain_conditions carol ?ready"
    by (simp add: becomes_ready_def prov conds is_true_def plain_conditions_def ready_condition_def)
  moreover have "al_conditions plain_accounts = plain_conditions" by (simp add: plain_accounts_def)
  ultimately have "just_verified plain_conditions carol_server carol ([] @ ?pre)"
    using ready_needs_verification [of plain_accounts None carol_server "named ''carol''" "[]"] plain_conditions_documented
    by (metis ready_justified_simps(1))
  moreover have "om_name (user_meta carol) = ''carol''" by (simp add: carol_def)
  ultimately show ?thesis by blast
qed

end
