(* ===== verification/Store.thy ===== *)
theory Store
  imports Indexes
begin

text \<open>
  An executable API server for theorems about sequences of operations: a store of objects, driven by the trace. It does what
  Kubernetes documents of the calls: a create names an object with a \<open>generateName\<close> and stamps its creation time, a patch
  leaves the status alone and a status patch everything else, a list by field is answered by the registered indexes. Names, stamps
  and status are kept apart for users and verification requests, the kinds the account endpoints create and whose status they
  write. Then the objects of one type in a store, and weakest preconditions of computations over a trace.
\<close>

subsection \<open>An API server that stores objects\<close>

record environment =
  env_suffix :: "trace \<Rightarrow> string"
  env_clock :: "trace \<Rightarrow> gotime"

definition stamp_meta :: "environment \<Rightarrow> trace \<Rightarrow> object_meta \<Rightarrow> object_meta" where
  "stamp_meta E t m = m\<lparr>om_name := (if om_name m = [] then om_generate_name m @ env_suffix E t else om_name m),
     om_creation := env_clock E t\<rparr>"

definition stamp :: "environment \<Rightarrow> trace \<Rightarrow> kobject \<Rightarrow> kobject" where
  "stamp E t x =
     (case x of
        KUser u \<Rightarrow> KUser (u\<lparr>user_meta := stamp_meta E t (user_meta u)\<rparr>)
      | KVerificationRequest r \<Rightarrow>
          KVerificationRequest (r\<lparr>verification_request_meta := stamp_meta E t (verification_request_meta r)\<rparr>)
      | _ \<Rightarrow> x)"

text \<open>The first object with the status of the second.\<close>

definition with_status :: "kobject \<Rightarrow> kobject \<Rightarrow> kobject" where
  "with_status x y =
     (case (x, y) of
        (KUser u, KUser v) \<Rightarrow> KUser (u\<lparr>user_status := user_status v\<rparr>)
      | (KVerificationRequest r, KVerificationRequest s) \<Rightarrow>
          KVerificationRequest (r\<lparr>verification_request_status := verification_request_status s\<rparr>)
      | _ \<Rightarrow> x)"

lemma stamp_simps [simp]:
  "stamp E t (KUser u) = KUser (u\<lparr>user_meta := stamp_meta E t (user_meta u)\<rparr>)"
  "stamp E t (KVerificationRequest r) = KVerificationRequest (r\<lparr>verification_request_meta := stamp_meta E t (verification_request_meta r)\<rparr>)"
  "stamp E t (KClusterRole x) = KClusterRole x" "stamp E t (KClusterRoleBinding y) = KClusterRoleBinding y"
  by (simp_all add: stamp_def)

lemma with_status_simps [simp]:
  "with_status (KUser u) (KUser v) = KUser (u\<lparr>user_status := user_status v\<rparr>)"
  "with_status (KVerificationRequest r) (KVerificationRequest s) =
     KVerificationRequest (r\<lparr>verification_request_status := verification_request_status s\<rparr>)"
  "with_status (KClusterRole x) y = KClusterRole x" "with_status (KClusterRoleBinding z) y = KClusterRoleBinding z"
  by (simp_all add: with_status_def)

definition same_object :: "kobject \<Rightarrow> kobject \<Rightarrow> bool" where
  "same_object x y = (kind_of x = kind_of y \<and> key_of x = key_of y)"

definition stored :: "kobject list \<Rightarrow> kind \<Rightarrow> object_key \<Rightarrow> kobject option" where
  "stored objs kd key = find (\<lambda>x. kind_of x = kd \<and> key_of x = key) objs"

definition stored_like :: "kobject list \<Rightarrow> kobject \<Rightarrow> kobject option" where
  "stored_like objs x = stored objs (kind_of x) (key_of x)"

definition replace :: "kobject list \<Rightarrow> kobject \<Rightarrow> kobject list" where
  "replace objs x = map (\<lambda>y. if same_object y x then x else y) objs"

text \<open>What a call stores: the objects after it.\<close>

fun store_call :: "environment \<Rightarrow> trace \<Rightarrow> call \<Rightarrow> kobject list \<Rightarrow> kobject list" where
  "store_call E t (CCreate x) objs =
     (if stored_like objs (stamp E t x) = None then objs @ [stamp E t x] else objs)"
| "store_call E t (CDelete x) objs = filter (\<lambda>y. \<not> same_object y x) objs"
| "store_call E t (CPatch x x') objs =
     (case stored_like objs x' of None \<Rightarrow> objs | Some y \<Rightarrow> replace objs (with_status x' y))"
| "store_call E t (CStatusPatch x x') objs =
     (case stored_like objs x' of None \<Rightarrow> objs | Some y \<Rightarrow> replace objs (with_status y x'))"
| "store_call E t (CCommit x x') objs =
     (case stored_like objs x' of None \<Rightarrow> objs @ [stamp E t x'] | Some y \<Rightarrow> replace objs (with_status x' y))"
| "store_call E t c objs = objs"

fun store_calls :: "environment \<Rightarrow> trace \<Rightarrow> call list \<Rightarrow> kobject list \<Rightarrow> kobject list" where
  "store_calls E t [] objs = objs"
| "store_calls E t (c # cs) objs = store_calls E (t @ [c]) cs (store_call E t c objs)"

definition objects :: "environment \<Rightarrow> kobject list \<Rightarrow> trace \<Rightarrow> kobject list" where
  "objects E objs t = store_calls E [] t objs"

definition not_found :: goerr where
  "not_found = StatusErr NotFound None []"

definition found :: "kobject option \<Rightarrow> goerr + kobject" where
  "found r = (case r of None \<Rightarrow> Inl not_found | Some x \<Rightarrow> Inr x)"

definition store_server :: "environment \<Rightarrow> kobject list \<Rightarrow> server" where
  "store_server E objs = \<lparr>
     sv_get = (\<lambda>t kd key. found (stored (objects E objs t) kd key)),
     sv_list = answering (objects E objs),
     sv_create = (\<lambda>t x. if stored_like (objects E objs t) (stamp E t x) = None then Inr (stamp E t x)
                        else Inl (StatusErr AlreadyExists None [])),
     sv_delete = (\<lambda>t x. if stored_like (objects E objs t) x = None then Some not_found else None),
     sv_patch = (\<lambda>t x x'. found (map_option (with_status x') (stored_like (objects E objs t) x'))),
     sv_status_patch = (\<lambda>t x x'. found (map_option (\<lambda>y. with_status y x') (stored_like (objects E objs t) x'))),
     sv_fetch = (\<lambda>t x. Inr (case stored_like (objects E objs t) x of None \<Rightarrow> x | Some y \<Rightarrow> y)),
     sv_commit = (\<lambda>t x x'. Inr (case stored_like (objects E objs t) x' of None \<Rightarrow> stamp E t x' | Some y \<Rightarrow> with_status x' y)),
     sv_review = (\<lambda>t r. Inr True),
     sv_now = env_clock E,
     sv_new_helper = (\<lambda>t x. None),
     sv_helper = (\<lambda>t x x'. None)\<rparr>"

lemma store_calls_append: "store_calls E t (cs @ ds) objs = store_calls E (t @ cs) ds (store_calls E t cs objs)"
  by (induction cs arbitrary: t objs) simp_all

lemma objects_append: "objects E objs (t @ cs) = store_calls E t cs (objects E objs t)"
  by (simp add: objects_def store_calls_append)

lemma store_indexes: "indexes_at (store_server E objs) t (objects E objs t)"
  by (rule indexes_at_answering) (simp add: store_server_def)

subsection \<open>The resources of one type in a store\<close>

definition resources :: "'o resource_type \<Rightarrow> kobject list \<Rightarrow> 'o list" where
  "resources R objs = List.map_filter (rk_unwrap R) objs"

definition resource_key :: "'o resource_type \<Rightarrow> 'o \<Rightarrow> object_key" where
  "resource_key R v = key_of (rk_wrap R v)"

lemma resources_simps [simp]:
  "resources R [] = []" "resources R (xs @ ys) = resources R xs @ resources R ys"
  by (simp_all add: resources_def List.map_filter_def)

context resource_interface begin

lemma resources_Cons [simp]: "resources R (rk_wrap R v # objs) = v # resources R objs"
  by (simp add: resources_def)

lemma resources_other: "kind_of x \<noteq> rk_kind R \<Longrightarrow> resources R (x # objs) = resources R objs"
  by (cases "rk_unwrap R x") (auto simp: resources_def unwrap_kind)

lemma kind_cases:
  obtains v where "x = rk_wrap R v" | "kind_of x \<noteq> rk_kind R"
  using kind_onto by blast

lemma stored_resource: "stored objs (rk_kind R) key = map_option (rk_wrap R) (find (\<lambda>v. resource_key R v = key) (resources R objs))"
proof (induction objs)
  case (Cons x objs)
  then show ?case
    by (cases x rule: kind_cases) (auto simp: stored_def resource_key_def resources_other)
qed (simp add: stored_def)

lemma stored_like_resource:
  "stored_like objs (rk_wrap R v) = map_option (rk_wrap R) (find (\<lambda>w. resource_key R w = resource_key R v) (resources R objs))"
  by (simp add: stored_like_def stored_resource resource_key_def)

lemma replace_resource:
  "resources R (replace objs (rk_wrap R v)) = map (\<lambda>w. if resource_key R w = resource_key R v then v else w) (resources R objs)"
proof (induction objs)
  case (Cons x objs)
  then show ?case
    by (cases x rule: kind_cases) (auto simp: replace_def same_object_def resource_key_def resources_other)
qed (simp add: replace_def)

lemma replace_other:
  assumes "kind_of y \<noteq> rk_kind R"
  shows "resources R (replace objs y) = resources R objs"
proof (induction objs)
  case (Cons x objs)
  with assms show ?case
    by (cases x rule: kind_cases) (auto simp: replace_def same_object_def resources_other)
qed (simp add: replace_def)

lemma delete_resource:
  "resources R (filter (\<lambda>y. \<not> same_object y (rk_wrap R v)) objs) = filter (\<lambda>w. resource_key R w \<noteq> resource_key R v) (resources R objs)"
proof (induction objs)
  case (Cons x objs)
  then show ?case
    by (cases x rule: kind_cases) (auto simp: same_object_def resource_key_def resources_other)
qed simp

lemma delete_other:
  assumes "kind_of y \<noteq> rk_kind R"
  shows "resources R (filter (\<lambda>x. \<not> same_object x y) objs) = resources R objs"
proof (induction objs)
  case (Cons x objs)
  with assms show ?case
    by (cases x rule: kind_cases) (auto simp: same_object_def resources_other)
qed simp

end

lemma kind_of_stamp [simp]: "kind_of (stamp E t x) = kind_of x"
  by (simp add: stamp_def split: kobject.split)

lemma kind_of_with_status [simp]: "kind_of (with_status x y) = kind_of x"
  by (auto simp: with_status_def split: kobject.split)

text \<open>The kind of the objects a call changes in the store.\<close>

fun changes :: "kind \<Rightarrow> call \<Rightarrow> bool" where
  "changes kd (CCreate x) = (kind_of x = kd)"
| "changes kd (CDelete x) = (kind_of x = kd)"
| "changes kd (CPatch x x') = (kind_of x' = kd)"
| "changes kd (CStatusPatch x x') = (kind_of x' = kd)"
| "changes kd (CCommit x x') = (kind_of x' = kd)"
| "changes kd c = False"

context resource_interface begin

lemma stored_like_kind:
  "stored_like objs x = Some y \<Longrightarrow> kind_of y = kind_of x"
  by (auto simp: stored_like_def stored_def find_Some_iff)

lemma store_call_other:
  assumes "\<not> changes (rk_kind R) c"
  shows "resources R (store_call E t c objs) = resources R objs"
  using assms
  by (cases c) (auto simp: resources_other replace_other delete_other split: option.split dest: stored_like_kind)

lemma store_calls_other:
  "list_all (\<lambda>c. \<not> changes (rk_kind R) c) cs \<Longrightarrow> resources R (store_calls E t cs objs) = resources R objs"
  by (induction cs arbitrary: t objs) (simp_all add: store_call_other)

end

subsection \<open>Weakest preconditions\<close>

text \<open>\<open>wp m P t\<close>: run from \<open>t\<close>, the computation \<open>m\<close> gives a value and a trace with \<open>P\<close>.\<close>

definition wp :: "('s, 'a) state \<Rightarrow> ('a \<Rightarrow> 's \<Rightarrow> bool) \<Rightarrow> 's \<Rightarrow> bool" where
  "wp m P t = P (fst (run_state m t)) (snd (run_state m t))"

lemma wp_simps [simp]:
  "wp (ret a) P t = P a t"
  "wp (State_Monad.bind m f) P t = wp m (\<lambda>a. wp (f a) P) t"
  "wp (observe g) Q t' = Q (g t') t'"
  by (simp_all add: wp_def case_prod_unfold)

lemma wp_go_bind [simp]:
  "wp (go_bind m f) P t = wp m (\<lambda>r t'. case r of Ret a \<Rightarrow> wp (f a) P t' | Fail e \<Rightarrow> P (Fail e) t' | Panic \<Rightarrow> P Panic t') t"
  by (simp add: wp_def run_go_bind case_prod_unfold split: go.split)

lemma wp_try_call [simp]: "wp (try_call m) P t = wp m (\<lambda>r. P (go_of_sum r)) t"
  by (simp add: wp_def run_try_call)

lemma wp_mono: "wp m P t \<Longrightarrow> (\<And>a t'. P a t' \<Longrightarrow> Q a t') \<Longrightarrow> wp m Q t"
  by (simp add: wp_def)

end
