(* ===== verification/Account_Lifecycle.thy ===== *)
theory Account_Lifecycle
  imports User_Controller Store
begin

text \<open>
  The account operations run one after the other against the API server of theory \<open>Store\<close>, which keeps what it is given.
\<close>

subsection \<open>One account among the others\<close>

text \<open>The store holds the users \<open>us\<close> and the requests \<open>rs\<close>, and besides them one account: a user and its sign-up request, if any.\<close>

definition account ::
  "user list \<Rightarrow> verification_request list \<Rightarrow> user \<Rightarrow> verification_request option \<Rightarrow> kobject list \<Rightarrow> bool"
where
  "account us rs u r objs =
     (resources R_user objs = us @ [u]
      \<and> resources R_verification_request objs = rs @ (case r of None \<Rightarrow> [] | Some v \<Rightarrow> [v])
      \<and> (\<forall>w \<in> set us. resource_key R_user w \<noteq> resource_key R_user u)
      \<and> (\<forall>w \<in> set rs. resource_key R_verification_request w \<noteq> named (sign_up_name u))
      \<and> om_namespace (user_meta u) = [] \<and> (\<forall>v. r = Some v \<longrightarrow> resource_key R_verification_request v = named (sign_up_name u)))"

lemma find_snoc: "(\<forall>w \<in> set us. \<not> P w) \<Longrightarrow> find P (us @ [u]) = (if P u then Some u else None)"
  by (induction us) auto

lemma find_fresh: "(\<forall>w \<in> set us. \<not> P w) \<Longrightarrow> find P us = None"
  by (induction us) auto

lemma key_simps [simp]:
  "resource_key R_user u = \<lparr>ok_namespace = om_namespace (user_meta u), ok_name = om_name (user_meta u)\<rparr>"
  "resource_key R_verification_request r =
     \<lparr>ok_namespace = om_namespace (verification_request_meta r), ok_name = om_name (verification_request_meta r)\<rparr>"
  by (simp_all add: resource_key_def R_user_simps R_verification_request_simps key_of_def)

lemma account_user:
  assumes "account us rs u r objs" and "resource_key R_user v = resource_key R_user u"
  shows "stored_like objs (KUser v) = Some (KUser u)" "stored objs AUser (resource_key R_user u) = Some (KUser u)"
  using assms user_resource.stored_like_resource [of objs v] user_resource.stored_resource [of objs "resource_key R_user u"]
  by (simp_all add: account_def R_user_simps find_snoc)

lemma account_request:
  assumes "account us rs u (Some r) objs" and "resource_key R_verification_request v = named (sign_up_name u)"
  shows "stored_like objs (KVerificationRequest v) = Some (KVerificationRequest r)"
  using assms verification_request_resource.stored_like_resource [of objs v]
  by (simp add: account_def R_verification_request_simps find_snoc)

lemma account_no_request:
  assumes "account us rs u None objs" and "resource_key R_verification_request v = named (sign_up_name u)"
  shows "stored_like objs (KVerificationRequest v) = None"
  using assms verification_request_resource.stored_like_resource [of objs v]
  by (simp add: account_def R_verification_request_simps find_fresh)

text \<open>What the calls do to the account.\<close>

fun bystander :: "call \<Rightarrow> bool" where
  "bystander (CCommit x x') = (kind_of x' \<in> {AClusterRole, AClusterRoleBinding})"
| "bystander (CGet k n) = True" | "bystander (CList k l) = True" | "bystander (CFetch x) = True" | "bystander CNow = True"
| "bystander (CReview v) = True" | "bystander c = False"

lemma account_bystander:
  assumes "account us rs u r objs" and "bystander c"
  shows "account us rs u r (store_call E t c objs)"
  using assms(2)
proof (cases c)
  case (CCommit x x')
  with assms(2) have k: "kind_of x' \<noteq> AUser" "kind_of x' \<noteq> AVerificationRequest" by auto
  have "kind_of (stamp E t x') = kind_of x'" "kind_of (with_status x' y) = kind_of x'" for y
    by (auto simp: stamp_def with_status_def split: kobject.split)
  with k assms(1) show ?thesis
    by (auto simp: CCommit account_def R_user_simps R_verification_request_simps user_resource.resources_other
      verification_request_resource.resources_other user_resource.replace_other verification_request_resource.replace_other
      split: option.split)
qed (use assms(1) in auto)

lemma account_status:
  assumes "account us rs u r objs" and "resource_key R_user v = resource_key R_user u"
  shows "account us rs (u\<lparr>user_status := user_status v\<rparr>) r (store_call E t (CStatusPatch x (KUser v)) objs)"
  using assms user_resource.replace_resource [of objs "u\<lparr>user_status := user_status v\<rparr>"]
    verification_request_resource.replace_other [of "KUser (u\<lparr>user_status := user_status v\<rparr>)" objs]
  by (auto simp: account_user [OF assms] account_def R_user_simps R_verification_request_simps sign_up_name_def intro!: map_idI)

lemma account_request_status:
  assumes "account us rs u (Some r) objs" and "resource_key R_verification_request v = named (sign_up_name u)"
  shows "account us rs u (Some (r\<lparr>verification_request_status := verification_request_status v\<rparr>))
     (store_call E t (CStatusPatch x (KVerificationRequest v)) objs)"
  using assms verification_request_resource.replace_resource [of objs "r\<lparr>verification_request_status := verification_request_status v\<rparr>"]
    user_resource.replace_other [of "KVerificationRequest (r\<lparr>verification_request_status := verification_request_status v\<rparr>)" objs]
  by (auto simp: account_request [OF assms] account_def R_user_simps R_verification_request_simps intro!: map_idI)

lemma account_request_commit:
  assumes "account us rs u (Some r) objs" and "resource_key R_verification_request v = named (sign_up_name u)"
  shows "account us rs u (Some (v\<lparr>verification_request_status := verification_request_status r\<rparr>))
     (store_call E t (CCommit x (KVerificationRequest v)) objs)"
  using assms verification_request_resource.replace_resource [of objs "v\<lparr>verification_request_status := verification_request_status r\<rparr>"]
    user_resource.replace_other [of "KVerificationRequest (v\<lparr>verification_request_status := verification_request_status r\<rparr>)" objs]
  by (auto simp: account_request [OF assms] account_def R_user_simps R_verification_request_simps intro!: map_idI)

lemma account_request_created:
  assumes "account us rs u None objs" and "resource_key R_verification_request v = named (sign_up_name u)"
  shows "account us rs u (Some (v\<lparr>verification_request_meta := stamp_meta E t (verification_request_meta v)\<rparr>))
     (store_call E t (CCommit x (KVerificationRequest v)) objs)"
  using assms
  by (auto simp: account_no_request [OF assms] account_def user_resource.resources_other R_user_simps
      verification_request_resource.resources_Cons [unfolded R_verification_request_simps] stamp_meta_def named_def sign_up_name_def)

lemma account_request_deleted:
  assumes "account us rs u r objs" and "resource_key R_verification_request v = named (sign_up_name u)"
  shows "account us rs u None (store_call E t (CDelete (KVerificationRequest v)) objs)"
  using assms verification_request_resource.delete_resource [of v objs]
    user_resource.delete_other [of "KVerificationRequest v" objs]
  by (auto simp: account_def R_user_simps R_verification_request_simps filter_id_conv split: option.splits)

lemma objects_snoc: "objects E objs (t @ [c]) = store_call E t c (objects E objs t)"
  by (simp add: objects_append)

lemma wp_bystander:
  assumes "account us rs u r (objects E objs t)" and "bystander c"
    and "account us rs u r (objects E objs (t @ [c])) \<Longrightarrow> P (answer t) (t @ [c])"
  shows "wp (perform answer c) P t"
  using assms account_bystander [OF assms(1,2)] by (simp add: wp_def objects_snoc)

lemma wp_now:
  assumes "account us rs u r (objects E objs t)"
    and "account us rs u r (objects E objs (t @ [CNow])) \<Longrightarrow> P (env_clock E t) (t @ [CNow])"
  shows "wp (k_now (store_server E objs)) P t"
  unfolding k_now_def
  by (rule wp_bystander [OF assms(1)]) (use assms(2) in \<open>simp_all add: store_server_def\<close>)

lemma wp_get_user:
  assumes "account us rs u r (objects E objs t)" and "n = om_name (user_meta u)"
    and "\<And>t'. account us rs u r (objects E objs t') \<Longrightarrow> P (Inr u) t'"
  shows "wp (k_get R_user (store_server E objs) (named n)) P t"
  unfolding k_get_def wp_simps
  using account_user(2) [OF assms(1) refl] assms(1,2)
  by (intro wp_bystander [OF assms(1)])
    (auto simp: store_server_def found_def named_def R_user_simps account_def intro!: assms(3))

lemma wp_patch_condition:
  assumes "account us rs u r (objects E objs t)"
    and "\<And>t'. account us rs (User_SetConditions u (cl_set C (t @ [CNow]) (User_GetConditions u) (c (env_clock E t)))) r (objects E objs t')
      \<Longrightarrow> P (Inr (User_SetConditions u (cl_set C (t @ [CNow]) (User_GetConditions u) (c (env_clock E t))))) t'"
  shows "wp (patch_condition C (store_server E objs) u c) P t"
proof -
  let ?v = "User_SetConditions u (cl_set C (t @ [CNow]) (User_GetConditions u) (c (env_clock E t)))"
  have v: "u\<lparr>user_status := user_status ?v\<rparr> = ?v" "resource_key R_user ?v = resource_key R_user u"
    by (simp_all add: User_SetConditions_def)
  have a: "account us rs u r (objects E objs (t @ [CNow]))"
    using account_bystander [OF assms(1), of CNow] by (simp add: objects_snoc)
  from account_status [OF a v(2)] have "account us rs ?v r (objects E objs (t @ [CNow, CStatusPatch (KUser u) (KUser ?v)]))"
    by (metis append.assoc append_Cons append_Nil objects_snoc v(1))
  moreover have "sv_status_patch (store_server E objs) (t @ [CNow]) (KUser u) (KUser ?v) = Inr (KUser ?v)"
    using account_user(1) [OF a v(2)] v(1) by (simp add: store_server_def found_def)
  ultimately show ?thesis
    unfolding wp_def patch_condition_def using assms(2)
    by (simp add: run_simps R_user_simps store_server_def)
qed

text \<open>The verification request of the account: made when there is none, otherwise brought up to date.\<close>

definition random_source :: "account_lib \<Rightarrow> bool" where
  "random_source A = (\<forall>t n. \<exists>bytes. al_rand_read A t n = Inr (bytes, int n))"

lemma random_code:
  assumes "random_source A"
  obtains code where "RandomWithEntropyOfAtLeast (al_rand_read A t) 32 = Ret code" "code \<noteq> []"
proof -
  obtain bytes where "al_rand_read A t 4 = Inr (bytes, int 4)"
    using assms unfolding random_source_def by blast
  then have "RandomWithEntropyOfAtLeast (al_rand_read A t) 32 = Ret (''x'' @ babble 1 (map of_char bytes) @ ''x'')"
    by (simp add: RandomWithEntropyOfAtLeast_def BubbleBabble_run(1))
  then show thesis by (rule that) simp
qed

definition asks_for :: "user \<Rightarrow> verification_request \<Rightarrow> bool" where
  "asks_for u r =
     (vrs_duration (verification_request_spec r) = Some (30 * time_Minute)
      \<and> vrs_user_ref (verification_request_spec r) = local_user_ref u)"

text \<open>A request that the reconciler would leave as it is.\<close>

definition completed :: "user \<Rightarrow> verification_request \<Rightarrow> bool" where
  "completed u r =
     (asks_for u r \<and> vrs_code (verification_request_spec r) \<noteq> [] \<and> vrs_subject (verification_request_spec r) = ''Email Verification''
      \<and> vrs_body_text (verification_request_spec r) = verification_text (vrs_code (verification_request_spec r)))"

lemma wp_new_verification_request:
  assumes "account us rs u None (objects E objs t)" and "random_source A"
    and "\<And>r t'. account us rs u (Some r) (objects E objs t') \<Longrightarrow> asks_for u r \<Longrightarrow> completed u r \<Longrightarrow> vrs_code (verification_request_spec r) \<noteq> [] \<Longrightarrow>
      VerificationRequest_GetConditions r = [] \<Longrightarrow> om_creation (verification_request_meta r) \<in> range (env_clock E) \<Longrightarrow> P (Ret r) t'"
  shows "wp (reconcileVerificationRequest A (store_server E objs) u) P t"
proof -
  let ?S = "store_server E objs"
  let ?w = "KVerificationRequest (sign_up_request u)"
  let ?t = "t @ [CFetch ?w]"
  obtain code where code: "RandomWithEntropyOfAtLeast (al_rand_read A ?t) 32 = Ret code" "code \<noteq> []"
    using random_code [OF assms(2)] .
  define v where "v = (sign_up_request u)\<lparr>verification_request_spec := (verification_request_spec zero_verification_request)\<lparr>
      vrs_subject := ''Email Verification'', vrs_user_ref := local_user_ref u, vrs_duration := Some (30 * time_Minute),
      vrs_code := code, vrs_body_text := verification_text code\<rparr>\<rparr>"
  define r where "r = v\<lparr>verification_request_meta := stamp_meta E ?t (verification_request_meta v)\<rparr>"
  have key: "resource_key R_verification_request (sign_up_request u) = named (sign_up_name u)"
    "resource_key R_verification_request v = named (sign_up_name u)"
    by (simp_all add: v_def sign_up_request_def named_def zero_defs)
  have a: "account us rs u None (objects E objs ?t)"
    using account_bystander [OF assms(1), of "CFetch ?w"] by (simp add: objects_snoc)
  have fetch: "sv_fetch ?S t ?w = Inr ?w"
    using account_no_request [OF assms(1) key(1)] by (simp add: store_server_def)
  have mutate: "run_state (verification_request_mutate A u (sign_up_request u)) ?t = (Ret v, ?t)"
    using code by (simp add: verification_request_mutate_def Let_def run_go_bind run_simps sign_up_request_def v_def zero_defs)
  have commit: "sv_commit ?S ?t ?w (KVerificationRequest v) = Inr (KVerificationRequest r)"
    using account_no_request [OF a key(2)] by (simp add: store_server_def r_def)
  have "account us rs u (Some r) (objects E objs (?t @ [CCommit ?w (KVerificationRequest v)]))"
    using account_request_created [OF a key(2), of E ?t ?w] by (simp add: objects_snoc r_def del: append_assoc)
  moreover have "om_creation (verification_request_meta r) \<in> range (env_clock E)" by (simp add: r_def stamp_meta_def)
  moreover have "asks_for u r" "completed u r" "vrs_code (verification_request_spec r) \<noteq> []" "VerificationRequest_GetConditions r = []"
    using code(2) by (simp_all add: r_def v_def asks_for_def completed_def VerificationRequest_GetConditions_def sign_up_request_def zero_defs)
  ultimately show ?thesis
    using assms(3) unfolding wp_def reconcileVerificationRequest_def run_create_or_patch_any
    by (simp add: R_verification_request_simps fetch mutate commit)
qed

lemma wp_stored_verification_request:
  assumes "account us rs u (Some r) (objects E objs t)" and "vrs_code (verification_request_spec r) \<noteq> []"
    and "\<And>r' t'. account us rs u (Some r') (objects E objs t') \<Longrightarrow> verification_request_status r' = verification_request_status r
      \<Longrightarrow> P (Ret r') t'"
  shows "wp (reconcileVerificationRequest A (store_server E objs) u) P t"
proof -
  let ?S = "store_server E objs"
  let ?w = "KVerificationRequest (sign_up_request u)"
  let ?t = "t @ [CFetch ?w]"
  define v where "v = r\<lparr>verification_request_spec := (verification_request_spec r)\<lparr>
      vrs_subject := ''Email Verification'', vrs_user_ref := local_user_ref u, vrs_duration := Some (30 * time_Minute),
      vrs_body_text := verification_text (vrs_code (verification_request_spec r))\<rparr>\<rparr>"
  have key: "resource_key R_verification_request (sign_up_request u) = named (sign_up_name u)"
    by (simp_all add: sign_up_request_def named_def zero_defs)
  have keyv: "resource_key R_verification_request v = named (sign_up_name u)"
    using assms(1) by (simp add: v_def account_def)
  have v: "v\<lparr>verification_request_status := verification_request_status r\<rparr> = v"
    by (simp add: v_def)
  have a: "account us rs u (Some r) (objects E objs ?t)"
    using account_bystander [OF assms(1), of "CFetch ?w"] by (simp add: objects_snoc)
  have fetch: "sv_fetch ?S t ?w = Inr (KVerificationRequest r)"
    using account_request [OF assms(1) key(1)] by (simp add: store_server_def)
  have mutate: "run_state (verification_request_mutate A u r) ?t = (Ret v, ?t)"
    using assms(2) by (simp add: verification_request_mutate_def Let_def run_go_bind run_simps v_def)
  have commit: "sv_commit ?S ?t (KVerificationRequest r) (KVerificationRequest v) = Inr (KVerificationRequest v)"
    using account_request [OF a keyv] v by (simp add: store_server_def)
  have "account us rs u (Some v) (objects E objs (?t @ [CCommit (KVerificationRequest r) (KVerificationRequest v)]))"
    using account_request_commit [OF a keyv, of E ?t "KVerificationRequest r"] v by (simp add: objects_snoc del: append_assoc)
  moreover have "verification_request_status v = verification_request_status r" by (simp add: v_def)
  ultimately show ?thesis
    using assms(3) unfolding wp_def reconcileVerificationRequest_def run_create_or_patch_any
    by (simp add: R_verification_request_simps fetch mutate commit)
qed

subsection \<open>The steps of a sign-up\<close>

text \<open>What the code relies on in its libraries: conditions, the random source, a hash that its password matches, and signing.\<close>

definition account_lib_documented :: "account_lib \<Rightarrow> bool" where
  "account_lib_documented A =
     (conditions_documented (al_conditions A) \<and> random_source A
      \<and> (\<forall>t p. \<exists>h. al_hash A t p = Inr h \<and> al_compare A h p = None) \<and> (\<forall>t k c. \<exists>s. al_sign A t k c = Inr s))"

definition waiting :: "account_lib \<Rightarrow> user \<Rightarrow> bool" where
  "waiting A u = (us_provider_id (user_spec u) = ProviderPrefixDockyards \<and> is_false (al_conditions A) (User_GetConditions u) ReadyCondition)"

lemma is_false_setter:
  assumes "conditions_documented C" and "c_status c = ConditionFalse"
  shows "is_false C (cl_set C t cs c) (c_type c)"
proof -
  obtain d where "cl_find C (cl_set C t cs c) (c_type c) = Some d" "same_condition c d"
    using find_set_same [OF conditions_setters(1) [OF assms(1)]] .
  with assms(2) show ?thesis by (simp add: is_false_def same_condition_def)
qed

definition same_user :: "user \<Rightarrow> user \<Rightarrow> bool" where
  "same_user u v = (user_meta u = user_meta v \<and> user_spec u = user_spec v)"

lemma same_user_set [simp]:
  "same_user u (User_SetConditions v cs) = same_user u v" "same_user (User_SetConditions v cs) u = same_user v u"
  by (simp_all add: same_user_def User_SetConditions_def)

lemma same_user_refl [simp]: "same_user u u" by (simp add: same_user_def)

lemma wp_set_condition:
  assumes "conditions_documented C" and "account us rs u r (objects E objs t)"
    and "\<And>v t' d. account us rs v r (objects E objs t') \<Longrightarrow> same_user u v \<Longrightarrow>
      cl_find C (User_GetConditions v) ty = Some d \<Longrightarrow> c_status d = st \<Longrightarrow> same_condition (ready_condition ty st reason message 0) d \<Longrightarrow>
      (\<forall>ty'. ty' \<noteq> ty \<longrightarrow> cl_find C (User_GetConditions v) ty' = cl_find C (User_GetConditions u) ty') \<Longrightarrow> P (Inr v) t'"
  shows "wp (patch_condition C (store_server E objs) u (ready_condition ty st reason message)) P t"
proof -
  have "\<exists>d. cl_find C (cl_set C q cs (ready_condition ty st reason message now)) ty = Some d \<and> c_status d = st
      \<and> same_condition (ready_condition ty st reason message 0) d"
    "\<forall>ty'. ty' \<noteq> ty \<longrightarrow> cl_find C (cl_set C q cs (ready_condition ty st reason message now)) ty' = cl_find C cs ty'" for q cs now
    using find_set_same [OF conditions_setters(1) [OF assms(1)], of q cs "ready_condition ty st reason message now"]
      find_set_other [OF conditions_setters(1) [OF assms(1)], of _ "ready_condition ty st reason message now" q cs]
    by (auto simp: ready_condition_def same_condition_def)
  then show ?thesis
    using assms(3) by (intro wp_patch_condition [OF assms(2)]) (metis User_conditions_set same_user_refl same_user_set(1))
qed

lemma same_user_simps:
  assumes "same_user u v"
  shows "user_spec v = user_spec u" "user_meta v = user_meta u" "sign_up_name v = sign_up_name u" "local_user_ref v = local_user_ref u"
    "asks_for v = asks_for u" "same_user u w = same_user v w"
    "completed v = completed u"
  using assms by (simp_all add: same_user_def sign_up_name_def local_user_ref_def asks_for_def completed_def fun_eq_iff)

lemma wp_first_reconcile:
  assumes "account_lib_documented A" and "account us rs u None (objects E objs t)"
    and "us_provider_id (user_spec u) = ProviderPrefixDockyards" and "User_GetConditions u = []" and "n = om_name (user_meta u)"
  shows "wp (UserReconciler_Reconcile A cfg (store_server E objs) (named n))
     (\<lambda>r t'. r = Ret no_requeue \<and> (\<exists>u' v. account us rs u' (Some v) (objects E objs t') \<and> same_user u u' \<and> waiting A u'
        \<and> asks_for u v \<and> completed u v \<and> VerificationRequest_GetConditions v = []
        \<and> vrs_code (verification_request_spec v) \<noteq> [] \<and> om_creation (verification_request_meta v) \<in> range (env_clock E))) t"
proof -
  have C: "conditions_documented (al_conditions A)" and rand: "random_source A"
    using assms(1) by (simp_all add: account_lib_documented_def)
  show ?thesis
    unfolding UserReconciler_Reconcile_def wp_simps
    apply (rule wp_get_user [OF assms(2,5)])
    apply (simp add: assms(3,4) find_nil [OF C])
    apply (rule wp_set_condition [OF C], assumption)
    apply (frule same_user_simps(1))
    apply (simp add: assms(3) reconcileUserVerification_def)
    apply (rule wp_new_verification_request [OF _ rand], assumption)
    apply (simp add: find_nil [OF C] waiting_def is_false_def same_user_simps(5,7))
    apply (rule exI, rule exI, rule conjI, assumption, simp add: assms(3))
    done
qed


lemma wp_status_patch:
  assumes "account us rs u r (objects E objs t)" and "same_user u v"
    and "\<And>t'. account us rs v r (objects E objs t') \<Longrightarrow> P (Inr v) t'"
  shows "wp (k_status_patch R_user (store_server E objs) u v) P t"
proof -
  have v: "u\<lparr>user_status := user_status v\<rparr> = v" "resource_key R_user v = resource_key R_user u"
    using assms(2) by (simp_all add: same_user_def)
  have "account us rs v r (objects E objs (t @ [CStatusPatch (KUser u) (KUser v)]))"
    using account_status [OF assms(1) v(2)] v(1) by (simp add: objects_snoc)
  moreover have "sv_status_patch (store_server E objs) t (KUser u) (KUser v) = Inr (KUser v)"
    using account_user(1) [OF assms(1) v(2)] v(1) by (simp add: store_server_def found_def)
  ultimately show ?thesis
    unfolding wp_def using assms(3) by (simp add: run_simps R_user_simps)
qed

lemma stored_like_keeps_kind: "stored_like objs x = Some y \<Longrightarrow> kind_of y = kind_of x"
  by (auto simp: stored_like_def stored_def find_Some_iff)

lemma store_commit_rights:
  "kind_of x' \<in> {AClusterRole, AClusterRoleBinding} \<Longrightarrow> sv_commit (store_server E objs) t x x' = Inr x'"
  by (cases x') (auto simp: store_server_def split: option.split)

lemma store_fetch_kind: "\<exists>y. sv_fetch (store_server E objs) t x = Inr y \<and> kind_of y = kind_of x"
  by (auto simp: store_server_def split: option.split dest: stored_like_keeps_kind)

context resource_interface begin

lemma wp_store_rights:
  assumes "account us rs u r (objects E objs t)" and "rk_kind R \<in> {AClusterRole, AClusterRoleBinding}"
    and "\<And>x t'. account us rs u r (objects E objs t') \<Longrightarrow> P (Ret x) t'"
  shows "wp (create_or_patch R (store_server E objs) v (\<lambda>x. ret (Ret (f x)))) P t"
proof -
  obtain w where w: "decode R (sv_fetch (store_server E objs) t (rk_wrap R v)) = Inr w"
    using store_fetch_kind [of E objs t "rk_wrap R v"] kind_onto by (metis decode_wrapped kind_wrap)
  have "account us rs u r (objects E objs (t @ [CFetch (rk_wrap R v)]))"
    using account_bystander [OF assms(1), of "CFetch (rk_wrap R v)"] by (simp add: objects_snoc)
  from account_bystander [OF this, of "CCommit (rk_wrap R w) (rk_wrap R (f w))"] assms(2)
  have "account us rs u r (objects E objs (t @ [CFetch (rk_wrap R v), CCommit (rk_wrap R w) (rk_wrap R (f w))]))"
    by (metis append.assoc append_Cons append_Nil bystander.simps(1) kind_wrap objects_snoc)
  then show ?thesis
    using assms(2,3) by (simp add: wp_def run_create_or_patch_any w store_commit_rights)
qed

end

lemma wp_user_authorization:
  assumes "account us rs u r (objects E objs t)"
    and "\<And>t'. account us rs u r (objects E objs t') \<Longrightarrow> P (Ret ()) t'"
  shows "wp (ReconcileUserAuthorization (store_server E objs) v) P t"
  unfolding ReconcileUserAuthorization_def user_role_mutate_def user_binding_mutate_def wp_go_bind
  by (rule cluster_role_resource.wp_store_rights [OF assms(1)], simp add: resource_simps)
    (simp, rule cluster_role_binding_resource.wp_store_rights, assumption, simp_all add: resource_simps assms(2))

lemma wp_delete_request:
  assumes "account us rs u (Some r) (objects E objs t)" and "same_user u v"
    and "\<And>t'. account us rs u None (objects E objs t') \<Longrightarrow> P (Ret ()) t'"
  shows "wp (deleteVerificationRequest (store_server E objs) v) P t"
proof -
  let ?w = "zero_verification_request\<lparr>verification_request_meta := empty_meta\<lparr>om_name := sign_up_name v\<rparr>\<rparr>"
  have key: "resource_key R_verification_request ?w = named (sign_up_name u)"
    using same_user_simps(3) [OF assms(2)] by (simp add: named_def zero_defs)
  have "sv_delete (store_server E objs) t (KVerificationRequest ?w) = None"
    using account_request [OF assms(1) key] by (simp add: store_server_def)
  moreover have "account us rs u None (objects E objs (t @ [CDelete (KVerificationRequest ?w)]))"
    using account_request_deleted [OF assms(1) key] by (simp add: objects_snoc)
  ultimately show ?thesis
    using assms(3) by (simp add: deleteVerificationRequest_def wp_def run_simps R_verification_request_simps)
qed


lemma is_true_iff: "is_true C cs ty \<longleftrightarrow> (\<exists>d. cl_find C cs ty = Some d \<and> c_status d = ConditionTrue)"
  by (auto simp: is_true_def split: option.splits)

text \<open>The condition that tells of the role bindings of a ready user.\<close>

definition authorized :: "account_lib \<Rightarrow> user \<Rightarrow> bool" where
  "authorized A u =
     (case cl_find (al_conditions A) (User_GetConditions u) UserAuthorizationReadyCondition of
        None \<Rightarrow> False
      | Some d \<Rightarrow> same_condition (ready_condition UserAuthorizationReadyCondition ConditionTrue ReadyReason [] 0) d)"

lemma wp_ready_user:
  assumes "conditions_documented (al_conditions A)" and "account us rs w (Some v) (objects E objs t)"
    and "is_true (al_conditions A) (User_GetConditions w) ReadyCondition"
  shows "wp (go_bind (deleteVerificationRequest (store_server E objs) w) (\<lambda>_. reconcileReadyUser A (store_server E objs) w))
     (\<lambda>r t'. r = Ret no_requeue \<and> (\<exists>u'. account us rs u' None (objects E objs t') \<and> same_user w u'
        \<and> is_true (al_conditions A) (User_GetConditions u') ReadyCondition \<and> authorized A u')) t"
proof -
  have other: "ReadyCondition \<noteq> UserAuthorizationReadyCondition"
    by (simp add: UserAuthorizationReadyCondition_def ReadyCondition_def)
  show ?thesis
    unfolding wp_go_bind reconcileReadyUser_def
    apply (rule wp_delete_request [OF assms(2) same_user_refl])
    apply simp
    apply (rule wp_user_authorization, assumption)
    apply simp
    apply (rule wp_set_condition [OF assms(1)], assumption)
    using assms(3) other by (auto simp: is_true_iff authorized_def)
qed

lemma wp_second_reconcile:
  assumes "account_lib_documented A" and "account us rs u (Some v) (objects E objs t)" and "waiting A u"
    and "vrs_code (verification_request_spec v) \<noteq> []" and "n = om_name (user_meta u)"
    and "is_true (al_conditions A) (VerificationRequest_GetConditions v) VerifiedCondition"
  shows "wp (UserReconciler_Reconcile A cfg (store_server E objs) (named n))
     (\<lambda>r t'. r = Ret no_requeue \<and> (\<exists>u'. account us rs u' None (objects E objs t') \<and> same_user u u'
        \<and> is_true (al_conditions A) (User_GetConditions u') ReadyCondition \<and> authorized A u')) t"
proof -
  let ?C = "al_conditions A"
  have C: "conditions_documented ?C" using assms(1) by (simp add: account_lib_documented_def)
  obtain c where c: "cl_find ?C (User_GetConditions u) ReadyCondition = Some c" "c_status c = ConditionFalse"
    and prov: "us_provider_id (user_spec u) = ProviderPrefixDockyards"
    using assms(3) by (auto simp: waiting_def is_false_def split: option.splits)
  obtain d where d: "cl_find ?C (VerificationRequest_GetConditions v) VerifiedCondition = Some d" "c_status d = ConditionTrue"
    using assms(6) by (auto simp: is_true_def split: option.splits)
  have ready: "\<exists>d. cl_find ?C (cl_set ?C q cs \<lparr>c_type = ReadyCondition, c_status = ConditionTrue, c_reason = r, c_message = m,
      c_transition = now\<rparr>) ReadyCondition = Some d \<and> c_status d = ConditionTrue" for q cs r m now
    using is_true_set [OF C, of q cs "\<lparr>c_type = ReadyCondition, c_status = ConditionTrue, c_reason = r, c_message = m, c_transition = now\<rparr>" ReadyCondition]
    by (simp add: is_true_iff)
  show ?thesis
    unfolding UserReconciler_Reconcile_def wp_simps
    apply (rule wp_get_user [OF assms(2,5)])
    apply (simp add: c prov reconcileUserVerification_def)
    apply (rule wp_stored_verification_request [OF _ assms(4)], assumption)
    apply (drule arg_cong [of _ _ vrst_conditions])
    apply (simp add: VerificationRequest_GetConditions_def [symmetric] d)
    apply (rule wp_status_patch, assumption, simp)
    apply (cut_tac q = t'a and cs = "User_GetConditions u" and r = "c_reason d" and m = "c_message d" and now = "c_transition d" in ready)
    apply (elim exE conjE)
    apply (simp del: wp_go_bind)
    apply (rule wp_mono, rule wp_ready_user [OF C], assumption)
     apply (simp add: is_true_iff)
    apply simp
    done
qed


subsection \<open>From sign-up to log in\<close>

lemma users_append_list: "objects E objs (t @ [CList k opts]) = objects E objs t"
  by (simp add: objects_snoc)

definition public_namespace :: "config_manager option \<Rightarrow> string" where
  "public_namespace cfg = GetValueOrDefault cfg KeyPublicNamespace ''dockyards-public''"

text \<open>The name the API server gives a user that signs up after \<open>t\<close>.\<close>

definition new_user_name :: "environment \<Rightarrow> config_manager option \<Rightarrow> trace \<Rightarrow> string" where
  "new_user_name E cfg t = ''dockyards-'' @ env_suffix E (t @ [CList AFeature (in_namespace (public_namespace cfg))])"

lemma wp_sign_up:
  assumes "account_lib_documented A"
    and "fst (run_state (IsFeatureEnabled (store_server E objs) FeatureUserSignUp (public_namespace cfg)) t) = Inr True"
    and "n = new_user_name E cfg t"
    and "\<forall>w \<in> set (resources R_user (objects E objs t)). om_name (user_meta w) \<noteq> n"
    and "\<forall>w \<in> set (resources R_verification_request (objects E objs t)). om_name (verification_request_meta w) \<noteq> ''sign-up-'' @ n"
  shows "wp (CreateGlobalUser A cfg (store_server E objs) opts)
     (\<lambda>r t'. \<exists>u. r = Ret (created_user u) \<and> (\<exists>k l d. t' = t @ [CList k l, d])
        \<and> account (resources R_user (objects E objs t)) (resources R_verification_request (objects E objs t)) u None (objects E objs t')
        \<and> om_name (user_meta u) = n \<and> us_provider_id (user_spec u) = ProviderPrefixDockyards \<and> User_GetConditions u = []
        \<and> us_email (user_spec u) = tuo_email opts \<and> al_compare A (us_password (user_spec u)) (tuo_password opts) = None) t"
proof -
  let ?S = "store_server E objs"
  let ?t = "t @ [CList AFeature (in_namespace (public_namespace cfg))]"
  obtain h where h: "al_hash A ?t (tuo_password opts) = Inr h" "al_compare A h (tuo_password opts) = None"
    using assms(1) unfolding account_lib_documented_def by meson
  have enabled: "run_state (IsFeatureEnabled ?S FeatureUserSignUp (public_namespace cfg)) t = (Inr True, ?t)"
    by (rule prod_eqI) (use assms(2) in \<open>auto simp: IsFeatureEnabled_def run_simps resource_simps split: sum.split\<close>)
  define w where "w = zero_user\<lparr>user_meta := empty_meta\<lparr>om_generate_name := ''dockyards-''\<rparr>,
      user_spec := (user_spec zero_user)\<lparr>us_duration := Some (time_Hour * 12), us_email := tuo_email opts, us_password := h,
        us_provider_id := ProviderPrefixDockyards,
        us_display_name := (case tuo_display_name opts of None \<Rightarrow> [] | Some n \<Rightarrow> n)\<rparr>\<rparr>"
  define u where "u = w\<lparr>user_meta := stamp_meta E ?t (user_meta w)\<rparr>"
  have name: "om_name (user_meta u) = n" "om_namespace (user_meta u) = []"
    by (simp_all add: u_def w_def assms(3) new_user_name_def stamp_meta_def zero_defs)
  have fresh: "stored_like (objects E objs t) (KUser u) = None"
    using user_resource.stored_like_resource [of "objects E objs t" u] assms(4) name
    by (auto simp: R_user_simps intro!: find_fresh)
  have stamped: "stamp E ?t (KUser w) = KUser u" by (simp add: u_def)
  have "objects E objs (?t @ [CCreate (KUser w)]) = objects E objs t @ [KUser u]"
    using fresh by (simp add: objects_snoc users_append_list stamped del: append_assoc stamp_simps)
  then have "account (resources R_user (objects E objs t)) (resources R_verification_request (objects E objs t)) u None
      (objects E objs (?t @ [CCreate (KUser w)]))"
    using assms(4,5) name user_resource.resources_Cons [of u "[]"] verification_request_resource.resources_other [of "KUser u" "[]"]
    by (auto simp: account_def R_user_simps R_verification_request_simps sign_up_name_def named_def)
  moreover have "sv_create ?S ?t (KUser w) = Inr (KUser u)"
    using fresh by (simp add: store_server_def users_append_list stamped del: stamp_simps)
  moreover have "us_provider_id (user_spec u) = ProviderPrefixDockyards" "User_GetConditions u = []"
    "us_email (user_spec u) = tuo_email opts" "us_password (user_spec u) = h"
    by (simp_all add: u_def w_def User_GetConditions_def zero_defs)
  ultimately show ?thesis
    using h name
    by (simp add: wp_def CreateGlobalUser_def public_namespace_def [symmetric] run_go_bind run_simps enabled R_user_simps w_def [symmetric]) blast
qed

lemma store_now: "sv_now (store_server E objs) = env_clock E"
  by (simp add: store_server_def)

lemma wp_verify:
  assumes "account_lib_documented A" and "account us rs u (Some v) (objects E objs t)" and "asks_for u v"
    and "requests_of (objects E objs t) code = [v]"
    and "env_clock E (t @ [CList AVerificationRequest (matching_field CodeField code [])])
      \<le> om_creation (verification_request_meta v) + 30 * time_Minute"
  shows "wp (UpdateGlobalVerificationRequest A (store_server E objs) \<lparr>tvo_type = RequestTypeAccount, tvo_code = code\<rparr>)
     (\<lambda>r t'. r = Ret () \<and> (\<exists>v'. account us rs u (Some v') (objects E objs t')
        \<and> t' = t @ [CList AVerificationRequest (matching_field CodeField code []), CNow, CStatusPatch (KVerificationRequest v) (KVerificationRequest v')]
        \<and> verification_request_spec v' = verification_request_spec v
        \<and> is_true (al_conditions A) (VerificationRequest_GetConditions v') VerifiedCondition)) t"
proof -
  let ?S = "store_server E objs" and ?t = "t @ [CList AVerificationRequest (matching_field CodeField code [])]"
  define v' where "v' = VerificationRequest_SetConditions v
     (cl_set (al_conditions A) (t @ [CList AVerificationRequest (matching_field CodeField code []), CNow])
       (VerificationRequest_GetConditions v) verified_condition)"
  have C: "conditions_documented (al_conditions A)" using assms(1) by (simp add: account_lib_documented_def)
  have l: "decode_list R_verification_request (sv_list ?S t AVerificationRequest (matching_field CodeField code [])) = Inr [v]"
    using list_requests [OF store_indexes, of E objs t code] assms(4) by simp
  then have l': "sv_list ?S t AVerificationRequest (matching_field CodeField code []) = Inr [KVerificationRequest v]"
    by (simp add: R_verification_request_simps)
  have expiry: "VerificationRequest_GetExpiration v = Some (om_creation (verification_request_meta v) + 30 * time_Minute)"
    using assms(3) by (simp add: asks_for_def VerificationRequest_GetExpiration_def)
  have same: "v\<lparr>verification_request_status := verification_request_status v'\<rparr> = v'"
    by (simp add: v'_def VerificationRequest_SetConditions_def)
  have key: "resource_key R_verification_request v' = named (sign_up_name u)"
    using assms(2) by (simp add: account_def v'_def VerificationRequest_SetConditions_def)
  have a: "account us rs u (Some v) (objects E objs (?t @ [CNow]))"
    using assms(2) by (simp add: objects_snoc del: append_assoc)
  have "account us rs u (Some v') (objects E objs ((?t @ [CNow]) @ [CStatusPatch (KVerificationRequest v) (KVerificationRequest v')]))"
    using account_request_status [OF a key] same by (simp add: objects_snoc del: append_assoc)
  moreover have "sv_status_patch ?S (?t @ [CNow]) (KVerificationRequest v) (KVerificationRequest v') = Inr (KVerificationRequest v')"
    using account_request [OF a key] same by (simp add: store_server_def found_def)
  moreover have "is_true (al_conditions A) (VerificationRequest_GetConditions v') VerifiedCondition"
    "verification_request_spec v' = verification_request_spec v"
    by (simp_all add: v'_def VerificationRequest_GetConditions_def VerificationRequest_SetConditions_def is_true_set [OF C] verified_condition_def)
  ultimately show ?thesis
    using assms(5) l [unfolded l']
    by (simp add: wp_def UpdateGlobalVerificationRequest_def run_go_bind run_simps R_verification_request_simps(1-5,9) expiry
      v'_def [symmetric] store_now l')
qed


text \<open>The code the new user finds in its mail.\<close>

definition sign_up_code :: "string \<Rightarrow> verification_request list \<Rightarrow> string" where
  "sign_up_code n rs =
     (case find (\<lambda>r. om_name (verification_request_meta r) = ''sign-up-'' @ n) rs of None \<Rightarrow> [] | Some r \<Rightarrow> vrs_code (verification_request_spec r))"

lemma dockyards_users_resources:
  "dockyards_users objs email =
     filter (\<lambda>u. us_email (user_spec u) = email \<and> us_provider_id (user_spec u) = ProviderPrefixDockyards) (resources R_user objs)"
  by (simp add: dockyards_users_def resources_def)

lemma requests_of_resources:
  "requests_of objs code = filter (\<lambda>v. vrs_code (verification_request_spec v) = code) (resources R_verification_request objs)"
  by (simp add: requests_of_def resources_def)

lemma distinct_filter_last:
  "distinct (map f (xs @ [x])) \<Longrightarrow> filter (\<lambda>y. f y = f x) (xs @ [x]) = [x]"
  by (auto simp: filter_empty_conv image_iff)

lemma login_of_account:
  assumes "account us rs u r (objects E objs t)"
    and "\<forall>w \<in> set us. \<not> (us_email (user_spec w) = email \<and> us_provider_id (user_spec w) = ProviderPrefixDockyards)"
    and "us_email (user_spec u) = email" and "us_provider_id (user_spec u) = ProviderPrefixDockyards"
    and "al_compare A (us_password (user_spec u)) pw = None" and "\<forall>t k c. \<exists>s. al_sign A t k c = Inr s"
  shows "(\<exists>tokens. fst (run_state (CreateGlobalTokens A (store_server E objs) \<lparr>tlo_email = email, tlo_password = pw\<rparr>) t) = Ret tokens)
     \<longleftrightarrow> is_true (al_conditions A) (User_GetConditions u) ReadyCondition"
proof -
  have "dockyards_users (objects E objs t) email = [u]"
    using assms(1-4) by (auto simp: dockyards_users_resources account_def filter_empty_conv)
  then have "may_log_in A (objects E objs t) \<lparr>tlo_email = email, tlo_password = pw\<rparr> w
      \<longleftrightarrow> w = u \<and> is_true (al_conditions A) (User_GetConditions u) ReadyCondition" for w
    using assms(5) by (auto simp: may_log_in_def User_GetConditions_def)
  moreover have "\<exists>tokens. issued A S p u tokens" for S p
    using assms(6) unfolding issued_def by (metis t_tokens.select_convs)
  ultimately show ?thesis
    by (simp add: login_iff [OF store_indexes])
qed

lemma sign_up_steps:
  assumes doc: "account_lib_documented A" and S: "S = store_server E objs"
    and enabled: "fst (run_state (IsFeatureEnabled S FeatureUserSignUp (public_namespace cfg)) t0) = Inr True"
    and n: "n = new_user_name E cfg t0"
    and fresh: "\<forall>w \<in> set (resources R_user (objects E objs t0)). om_name (user_meta w) \<noteq> n"
      "\<forall>w \<in> set (resources R_verification_request (objects E objs t0)). om_name (verification_request_meta w) \<noteq> ''sign-up-'' @ n"
    and sign_up: "run_state (CreateGlobalUser A cfg S opts) t0 = (r1, t1)"
    and first: "run_state (UserReconciler_Reconcile A cfg S (named n)) t1 = (r2, t2)"
    and codes: "distinct (map (\<lambda>r. vrs_code (verification_request_spec r)) (resources R_verification_request (objects E objs t2)))"
    and code: "code = sign_up_code n (resources R_verification_request (objects E objs t2))"
    and in_time: "\<forall>r \<in> set (resources R_verification_request (objects E objs t2)). om_name (verification_request_meta r) = ''sign-up-'' @ n \<longrightarrow>
      env_clock E (t2 @ [CList AVerificationRequest (matching_field CodeField code [])]) \<le> om_creation (verification_request_meta r) + 30 * time_Minute"
    and verify: "run_state (UpdateGlobalVerificationRequest A S \<lparr>tvo_type = RequestTypeAccount, tvo_code = code\<rparr>) t2 = (r3, t3)"
    and second: "run_state (UserReconciler_Reconcile A cfg S (named n)) t3 = (r4, t4)"
  shows "\<exists>u1 u2 us rs v. account us rs u1 (Some v) (objects E objs t2) \<and> account us rs u2 None (objects E objs t4)
     \<and> us = resources R_user (objects E objs t0) \<and> same_user u1 u2 \<and> waiting A u1
     \<and> us_email (user_spec u1) = tuo_email opts \<and> al_compare A (us_password (user_spec u1)) (tuo_password opts) = None
     \<and> is_true (al_conditions A) (User_GetConditions u2) ReadyCondition
     \<and> r1 \<noteq> Panic \<and> (\<forall>e. r1 \<noteq> Fail e) \<and> r2 = Ret no_requeue \<and> r3 = Ret () \<and> r4 = Ret no_requeue"
proof -
  let ?us = "resources R_user (objects E objs t0)" and ?rs = "resources R_verification_request (objects E objs t0)"
  from wp_sign_up [OF doc enabled [unfolded S] n fresh, of opts] sign_up [unfolded S]
  obtain u where u: "account ?us ?rs u None (objects E objs t1)" "om_name (user_meta u) = n" "us_provider_id (user_spec u) = ProviderPrefixDockyards"
    "User_GetConditions u = []" "us_email (user_spec u) = tuo_email opts" "al_compare A (us_password (user_spec u)) (tuo_password opts) = None"
    and r1: "r1 = Ret (created_user u)"
    by (auto simp: wp_def)
  from wp_first_reconcile [OF doc u(1,3,4), of n cfg] u(2) first [unfolded S]
  obtain u1 v where v: "account ?us ?rs u1 (Some v) (objects E objs t2)" "same_user u u1" "waiting A u1" "asks_for u v"
    "vrs_code (verification_request_spec v) \<noteq> []" and r2: "r2 = Ret no_requeue"
    by (auto simp: wp_def)
  have reqs: "resources R_verification_request (objects E objs t2) = ?rs @ [v]" and name: "om_name (verification_request_meta v) = ''sign-up-'' @ n"
    using v(1,2) u(2) by (auto simp: account_def named_def sign_up_name_def same_user_def)
  have "code = vrs_code (verification_request_spec v)"
    unfolding code reqs sign_up_code_def using fresh(2) name by (subst find_snoc) auto
  then have one: "requests_of (objects E objs t2) code = [v]"
    using distinct_filter_last [OF codes [unfolded reqs]] by (simp add: requests_of_resources reqs)
  have time: "env_clock E (t2 @ [CList AVerificationRequest (matching_field CodeField code [])])
      \<le> om_creation (verification_request_meta v) + 30 * time_Minute"
    using in_time name by (auto simp: reqs)
  have asks: "asks_for u1 v" using v(4) same_user_simps(5) [OF v(2)] by simp
  from wp_verify [OF doc v(1) asks one time] verify [unfolded S]
  obtain v' where v': "account ?us ?rs u1 (Some v') (objects E objs t3)" "verification_request_spec v' = verification_request_spec v"
    "is_true (al_conditions A) (VerificationRequest_GetConditions v') VerifiedCondition" and r3: "r3 = Ret ()"
    by (auto simp: wp_def)
  have code': "vrs_code (verification_request_spec v') \<noteq> []" and n1: "n = om_name (user_meta u1)"
    using v(2,5) v'(2) u(2) by (auto simp: same_user_def)
  from wp_second_reconcile [OF doc v'(1) v(3) code' n1 v'(3), of cfg] second [unfolded S]
  obtain u2 where u2: "account ?us ?rs u2 None (objects E objs t4)" "same_user u1 u2"
    "is_true (al_conditions A) (User_GetConditions u2) ReadyCondition" and r4: "r4 = Ret no_requeue"
    by (auto simp: wp_def)
  have "us_email (user_spec u1) = tuo_email opts" "al_compare A (us_password (user_spec u1)) (tuo_password opts) = None"
    using u(5,6) v(2) by (auto simp: same_user_def)
  with v(1,3) u2 r1 r2 r3 r4 show ?thesis by blast
qed

text \<open>Dora signs up on an empty server whose clock stands still.\<close>

definition still :: environment where
  "still = \<lparr>env_suffix = (\<lambda>t. ''x''), env_clock = (\<lambda>t. 0)\<rparr>"

definition sign_up_feature :: kobject where
  "sign_up_feature = KFeature \<lparr>feature_meta = empty_meta\<lparr>om_name := FeatureUserSignUp, om_namespace := ''dockyards-public''\<rparr>\<rparr>"

definition dora_server :: server where
  "dora_server = store_server still [sign_up_feature]"

definition dora :: t_user_options where
  "dora = \<lparr>tuo_display_name = None, tuo_email = ''dora@example.com'', tuo_password = ''secret''\<rparr>"

definition dora_name :: string where
  "dora_name = new_user_name still None []"

definition dora_signed_up :: "(goerr, t_user) go \<times> trace" where
  "dora_signed_up = run_state (CreateGlobalUser plain_accounts None dora_server dora) []"

definition dora_reconciled :: "trace \<Rightarrow> (goerr, ctrl_result) go \<times> trace" where
  "dora_reconciled t = run_state (UserReconciler_Reconcile plain_accounts None dora_server (named dora_name)) t"

definition dora_verified :: "trace \<Rightarrow> (goerr, unit) go \<times> trace" where
  "dora_verified t = run_state (UpdateGlobalVerificationRequest plain_accounts dora_server \<lparr>tvo_type = RequestTypeAccount,
     tvo_code = sign_up_code dora_name (resources R_verification_request (objects still [sign_up_feature] t))\<rparr>) t"

lemma plain_accounts_documented: "account_lib_documented plain_accounts"
  by (simp add: account_lib_documented_def random_source_def plain_accounts_def plain_conditions_documented)

lemma still_clock: "env_clock still t = 0"
  by (simp add: still_def)

lemma dora_store: "objects still [sign_up_feature] [] = [sign_up_feature]" "resources R_user [sign_up_feature] = []"
  "resources R_verification_request [sign_up_feature] = []"
  by (simp_all add: objects_def resources_def sign_up_feature_def R_user_def R_verification_request_def)

lemma dora_enabled: "fst (run_state (IsFeatureEnabled dora_server FeatureUserSignUp (public_namespace None)) []) = Inr True"
  by (simp add: IsFeatureEnabled_def run_simps dora_server_def store_server_def answering_def objects_def
      sign_up_feature_def public_namespace_def GetValueOrDefault_def in_namespace_def selected_def R_feature_def decode_list_def)

lemma dora_request:
  assumes "t = snd (dora_reconciled (snd dora_signed_up))"
  shows "\<exists>v. resources R_verification_request (objects still [sign_up_feature] t) = [v] \<and> om_creation (verification_request_meta v) = 0"
proof -
  obtain u where u: "account [] [] u None (objects still [sign_up_feature] (snd dora_signed_up))" "om_name (user_meta u) = dora_name"
    "us_provider_id (user_spec u) = ProviderPrefixDockyards" "User_GetConditions u = []"
    using wp_sign_up [OF plain_accounts_documented dora_enabled [unfolded dora_server_def], of dora_name dora]
    by (auto simp: wp_def dora_store dora_name_def dora_signed_up_def dora_server_def)
  then show ?thesis
    using wp_first_reconcile [OF plain_accounts_documented u(1,3,4), of dora_name None] assms
    by (auto simp: wp_def dora_reconciled_def dora_server_def account_def still_def)
qed

end
