(* ===== verification/Account_Machine.thy ===== *)
theory Account_Machine
  imports Account_Lifecycle
begin

text \<open>
  The accounts as a state machine: any sequence of account requests by anybody, of reconciliations of any users, and of other
  calls that leave users and verification requests alone. The state is the trace, from which the store follows. An invariant of all
  reachable states ties the readiness of a user to the code of its sign-up.
\<close>

datatype account_request =
    SignUp t_user_options
  | Verify t_verify_options
  | LogIn t_login_options
  | Refresh "goerr + string"
  | WhoAmI "goerr + string"
  | Rename "goerr + string" string t_user_options
  | ChangePassword "goerr + string" string t_password_options
  | RequestReset string
  | Reset t_reset_password_options
  | Reconcile object_key

definition account_run :: "account_lib \<Rightarrow> config_manager option \<Rightarrow> server \<Rightarrow> account_request \<Rightarrow> trace \<Rightarrow> trace" where
  "account_run A cfg S request t =
     (case request of
        SignUp opts \<Rightarrow> snd (run_state (CreateGlobalUser A cfg S opts) t)
      | Verify opts \<Rightarrow> snd (run_state (UpdateGlobalVerificationRequest A S opts) t)
      | LogIn opts \<Rightarrow> snd (run_state (CreateGlobalTokens A S opts) t)
      | Refresh sub \<Rightarrow> snd (run_state (GetGlobalTokens A S sub) t)
      | WhoAmI sub \<Rightarrow> snd (run_state (GetWhoami (al_conditions A) S sub) t)
      | Rename sub n opts \<Rightarrow> snd (run_state (UpdateGlobalUser S sub n opts) t)
      | ChangePassword sub n opts \<Rightarrow> snd (run_state (UpdateUserPassword A S sub n opts) t)
      | RequestReset email \<Rightarrow> snd (run_state (CreateGlobalPasswordResetRequest A S email) t)
      | Reset opts \<Rightarrow> snd (run_state (ResetPassword A S opts) t)
      | Reconcile key \<Rightarrow> snd (run_state (UserReconciler_Reconcile A cfg S key) t))"

definition foreign :: "call \<Rightarrow> bool" where
  "foreign c =
     (case c of
        CCreate x \<Rightarrow> kind_of x \<notin> {AUser, AVerificationRequest}
      | CPatch x x' \<Rightarrow> kind_of x' \<notin> {AUser, AVerificationRequest}
      | CStatusPatch x x' \<Rightarrow> kind_of x' \<notin> {AUser, AVerificationRequest}
      | CCommit x x' \<Rightarrow> kind_of x' \<notin> {AUser, AVerificationRequest}
      | _ \<Rightarrow> True)"

inductive reachable :: "account_lib \<Rightarrow> config_manager option \<Rightarrow> server \<Rightarrow> trace \<Rightarrow> bool"
  for A cfg S
where
  start: "reachable A cfg S []"
| request: "reachable A cfg S t \<Longrightarrow> reachable A cfg S (account_run A cfg S request t)"
| elsewhere: "reachable A cfg S t \<Longrightarrow> foreign c \<Longrightarrow> reachable A cfg S (t @ [c])"

subsection \<open>The invariant\<close>

definition by_dockyards :: "user \<Rightarrow> bool" where
  "by_dockyards u = HasPrefix (us_provider_id (user_spec u)) ProviderPrefixDockyards"

definition user_ready :: "account_lib \<Rightarrow> user \<Rightarrow> bool" where
  "user_ready A u = is_true (al_conditions A) (User_GetConditions u) ReadyCondition"

definition request_verified :: "account_lib \<Rightarrow> verification_request \<Rightarrow> bool" where
  "request_verified A r = is_true (al_conditions A) (VerificationRequest_GetConditions r) VerifiedCondition"

text \<open>Somebody entered the code of the request with the given key.\<close>

definition code_entered :: "trace \<Rightarrow> object_key \<Rightarrow> bool" where
  "code_entered t key =
     (\<exists>p r r' post. t = p @ [CList AVerificationRequest (matching_field CodeField (vrs_code (verification_request_spec r')) []), CNow,
         CStatusPatch (KVerificationRequest r) (KVerificationRequest r')] @ post \<and> resource_key R_verification_request r' = key)"

definition users_at :: "environment \<Rightarrow> kobject list \<Rightarrow> trace \<Rightarrow> user list" where
  "users_at E objs t = resources R_user (objects E objs t)"

definition requests_at :: "environment \<Rightarrow> kobject list \<Rightarrow> trace \<Rightarrow> verification_request list" where
  "requests_at E objs t = resources R_verification_request (objects E objs t)"

definition ok_accounts :: "account_lib \<Rightarrow> trace \<Rightarrow> user list \<Rightarrow> verification_request list \<Rightarrow> bool" where
  "ok_accounts A t us rs =
     (distinct (map (resource_key R_user) us) \<and> distinct (map (resource_key R_verification_request) rs)
      \<and> (\<forall>u \<in> set us. by_dockyards u \<longrightarrow> user_ready A u \<longrightarrow> code_entered t (named (sign_up_name u)))
      \<and> (\<forall>r \<in> set rs. request_verified A r \<longrightarrow> code_entered t (resource_key R_verification_request r)))"

definition accounts_ok :: "account_lib \<Rightarrow> environment \<Rightarrow> kobject list \<Rightarrow> trace \<Rightarrow> bool" where
  "accounts_ok A E objs t = ok_accounts A t (users_at E objs t) (requests_at E objs t)"

text \<open>What a call must satisfy in a state with the invariant to keep it.\<close>

definition harmless :: "account_lib \<Rightarrow> environment \<Rightarrow> kobject list \<Rightarrow> trace \<Rightarrow> call \<Rightarrow> bool" where
  "harmless A E objs p c =
     (case c of
        CCreate (KUser u) \<Rightarrow> \<not> user_ready A u
      | CCreate (KVerificationRequest r) \<Rightarrow> \<not> request_verified A r
      | CPatch _ (KUser u) \<Rightarrow>
          (\<exists>y \<in> set (users_at E objs p). resource_key R_user y = resource_key R_user u \<and> by_dockyards y = by_dockyards u)
      | CPatch _ (KVerificationRequest r) \<Rightarrow> False
      | CStatusPatch _ (KUser u) \<Rightarrow>
          (\<exists>y \<in> set (users_at E objs p). resource_key R_user y = resource_key R_user u
             \<and> (by_dockyards y \<longrightarrow> user_ready A u \<longrightarrow> user_ready A y \<or> code_entered p (named (sign_up_name u))))
      | CStatusPatch (KVerificationRequest r) (KVerificationRequest r') \<Rightarrow>
          (\<exists>q. p = q @ [CList AVerificationRequest (matching_field CodeField (vrs_code (verification_request_spec r')) []), CNow])
      | CStatusPatch _ (KVerificationRequest r) \<Rightarrow> False
      | CCommit _ (KUser u) \<Rightarrow> False
      | CCommit _ (KVerificationRequest r) \<Rightarrow>
          (om_name (verification_request_meta r) \<noteq> []
           \<and> (resource_key R_verification_request r \<in> resource_key R_verification_request ` set (requests_at E objs p) \<or> \<not> request_verified A r))
      | _ \<Rightarrow> True)"

lemma code_entered_append: "code_entered t key \<Longrightarrow> code_entered (t @ q) key"
  unfolding code_entered_def by (metis append.assoc)

lemma ok_append: "ok_accounts A t us rs \<Longrightarrow> ok_accounts A (t @ q) us rs"
  by (auto simp: ok_accounts_def code_entered_append)

lemma map_key_replace: "map f (map (\<lambda>w. if f w = f v then v else w) xs) = map f xs"
  by (induction xs) auto

lemma ok_user:
  assumes "ok_accounts A t us rs" and "by_dockyards v \<longrightarrow> user_ready A v \<longrightarrow> code_entered t (named (sign_up_name v))"
  shows "ok_accounts A t (map (\<lambda>w. if resource_key R_user w = resource_key R_user v then v else w) us) rs"
  using assms unfolding ok_accounts_def map_key_replace by auto

lemma ok_request:
  assumes "ok_accounts A t us rs" and "request_verified A v \<longrightarrow> code_entered t (resource_key R_verification_request v)"
  shows "ok_accounts A t us (map (\<lambda>w. if resource_key R_verification_request w = resource_key R_verification_request v then v else w) rs)"
  using assms unfolding ok_accounts_def map_key_replace by auto

lemma ok_new:
  assumes "ok_accounts A t us rs"
  shows "resource_key R_user v \<notin> resource_key R_user ` set us \<Longrightarrow> \<not> user_ready A v \<Longrightarrow> ok_accounts A t (us @ [v]) rs"
    and "resource_key R_verification_request r \<notin> resource_key R_verification_request ` set rs \<Longrightarrow> \<not> request_verified A r \<Longrightarrow> ok_accounts A t us (rs @ [r])"
  using assms by (auto simp: ok_accounts_def simp del: key_simps)

lemma ok_filter: "ok_accounts A t us rs \<Longrightarrow> ok_accounts A t (filter P us) (filter Q rs)"
  by (auto simp: ok_accounts_def distinct_map_filter)

lemma find_distinct: "distinct (map f xs) \<Longrightarrow> y \<in> set xs \<Longrightarrow> find (\<lambda>w. f w = f y) xs = Some y"
  by (induction xs) auto

lemma stored_user:
  assumes "accounts_ok A E objs t" and "y \<in> set (users_at E objs t)" and "resource_key R_user y = resource_key R_user u"
  shows "stored_like (objects E objs t) (KUser u) = Some (KUser y)"
  using assms find_distinct [of "resource_key R_user" "users_at E objs t" y]
    user_resource.stored_like_resource [of "objects E objs t" u]
  by (simp add: accounts_ok_def ok_accounts_def users_at_def R_user_simps del: key_simps)

lemma stored_request:
  assumes "accounts_ok A E objs t" and "y \<in> set (requests_at E objs t)"
    and "resource_key R_verification_request y = resource_key R_verification_request r"
  shows "stored_like (objects E objs t) (KVerificationRequest r) = Some (KVerificationRequest y)"
  using assms find_distinct [of "resource_key R_verification_request" "requests_at E objs t" y]
    verification_request_resource.stored_like_resource [of "objects E objs t" r]
  by (simp add: accounts_ok_def ok_accounts_def requests_at_def R_verification_request_simps del: key_simps)

lemma find_None: "find P xs = None \<longleftrightarrow> (\<forall>x \<in> set xs. \<not> P x)"
  by (auto simp: find_None_iff)

lemma stored_none:
  "stored_like (objects E objs t) (KUser u) = None \<longleftrightarrow> resource_key R_user u \<notin> resource_key R_user ` set (users_at E objs t)"
  "stored_like (objects E objs t) (KVerificationRequest r) = None \<longleftrightarrow>
     resource_key R_verification_request r \<notin> resource_key R_verification_request ` set (requests_at E objs t)"
  using user_resource.stored_like_resource [of "objects E objs t" u] verification_request_resource.stored_like_resource [of "objects E objs t" r]
  by (auto simp: users_at_def requests_at_def R_user_simps R_verification_request_simps find_None image_iff simp del: key_simps)

text \<open>The two lists after a call.\<close>

lemma lists_after_user:
  assumes "objects E objs (t @ [c]) = replace (objects E objs t) (KUser v)"
  shows "users_at E objs (t @ [c]) = map (\<lambda>w. if resource_key R_user w = resource_key R_user v then v else w) (users_at E objs t)"
    and "requests_at E objs (t @ [c]) = requests_at E objs t"
  using user_resource.replace_resource [of "objects E objs t" v] verification_request_resource.replace_other [of "KUser v" "objects E objs t"]
  by (simp_all add: users_at_def requests_at_def assms R_user_simps R_verification_request_simps del: key_simps)

lemma lists_after_request:
  assumes "objects E objs (t @ [c]) = replace (objects E objs t) (KVerificationRequest v)"
  shows "users_at E objs (t @ [c]) = users_at E objs t"
    and "requests_at E objs (t @ [c]) = map (\<lambda>w. if resource_key R_verification_request w = resource_key R_verification_request v then v else w) (requests_at E objs t)"
  using verification_request_resource.replace_resource [of "objects E objs t" v] user_resource.replace_other [of "KVerificationRequest v" "objects E objs t"]
  by (simp_all add: users_at_def requests_at_def assms R_user_simps R_verification_request_simps del: key_simps)

lemma ok_lists_same:
  assumes "accounts_ok A E objs t" and "users_at E objs (t @ [c]) = users_at E objs t" "requests_at E objs (t @ [c]) = requests_at E objs t"
  shows "accounts_ok A E objs (t @ [c])"
  using assms by (simp add: accounts_ok_def ok_append)

lemma delete_keeps:
  assumes "accounts_ok A E objs t"
  shows "accounts_ok A E objs (t @ [CDelete x])"
proof -
  have u: "\<exists>P. users_at E objs (t @ [CDelete x]) = filter P (users_at E objs t)"
    by (cases x rule: user_resource.kind_cases)
      (auto simp: users_at_def objects_snoc user_resource.delete_resource user_resource.delete_other intro: exI [of _ "\<lambda>_. True"])
  have r: "\<exists>Q. requests_at E objs (t @ [CDelete x]) = filter Q (requests_at E objs t)"
    by (cases x rule: verification_request_resource.kind_cases)
      (auto simp: requests_at_def objects_snoc verification_request_resource.delete_resource verification_request_resource.delete_other
        intro: exI [of _ "\<lambda>_. True"])
  from assms u r show ?thesis by (auto simp: accounts_ok_def ok_append ok_filter)
qed

lemma stamp_kind [simp]: "kind_of (stamp E t x) = kind_of x" "kind_of (with_status x y) = kind_of x"
  by (auto simp: stamp_def with_status_def split: kobject.split)

lemma foreign_lists:
  assumes "foreign c" and "\<And>x. c \<noteq> CDelete x"
  shows "users_at E objs (t @ [c]) = users_at E objs t" "requests_at E objs (t @ [c]) = requests_at E objs t"
proof -
  have sk: "kind_of y = kind_of x" if "stored_like os x = Some y" for os x y
    using that by (rule stored_like_keeps_kind)
  have o: "resources R_user (os @ [x]) = resources R_user os" "resources R_verification_request (os @ [x]) = resources R_verification_request os"
    "resources R_user (replace os x) = resources R_user os" "resources R_verification_request (replace os x) = resources R_verification_request os"
    "resources R_user [x] = []" "resources R_verification_request [x] = []"
    if "kind_of x \<notin> {AUser, AVerificationRequest}" for os x
    using that by (auto simp: user_resource.resources_other verification_request_resource.resources_other
        user_resource.replace_other verification_request_resource.replace_other R_user_simps R_verification_request_simps)
  have "users_at E objs (t @ [c]) = users_at E objs t \<and> requests_at E objs (t @ [c]) = requests_at E objs t"
    using assms
    by (cases c) (auto simp: foreign_def users_at_def requests_at_def objects_snoc o dest: sk split: option.split)
  then show "users_at E objs (t @ [c]) = users_at E objs t" "requests_at E objs (t @ [c]) = requests_at E objs t" by simp_all
qed

lemma foreign_keeps: "accounts_ok A E objs t \<Longrightarrow> foreign c \<Longrightarrow> accounts_ok A E objs (t @ [c])"
  by (cases "\<exists>x. c = CDelete x") (auto intro: delete_keeps ok_lists_same foreign_lists)

lemma create_keeps:
  assumes "accounts_ok A E objs t" and "harmless A E objs t (CCreate x)" and "x = KUser u \<or> x = KVerificationRequest r"
  shows "accounts_ok A E objs (t @ [CCreate x])"
proof (cases "stored_like (objects E objs t) (stamp E t x) = None")
  case True
  from assms(3) show ?thesis
  proof
    assume x: "x = KUser u"
    define v where "v = u\<lparr>user_meta := stamp_meta E t (user_meta u)\<rparr>"
    have "user_ready A v = user_ready A u" by (simp add: v_def user_ready_def User_GetConditions_def)
    moreover have "resource_key R_user v \<notin> resource_key R_user ` set (users_at E objs t)"
      using True by (simp add: x v_def [symmetric] stored_none del: key_simps)
    moreover have "users_at E objs (t @ [CCreate x]) = users_at E objs t @ [v]" "requests_at E objs (t @ [CCreate x]) = requests_at E objs t"
      using True user_resource.resources_Cons [of v "[]"] verification_request_resource.resources_other [of "KUser v" "[]"]
      by (simp_all add: x v_def [symmetric] users_at_def requests_at_def objects_snoc R_user_simps R_verification_request_simps)
    ultimately show ?thesis
      using assms(1,2) ok_new(1) [OF ok_append] by (simp add: x accounts_ok_def harmless_def del: key_simps)
  next
    assume x: "x = KVerificationRequest r"
    define v where "v = r\<lparr>verification_request_meta := stamp_meta E t (verification_request_meta r)\<rparr>"
    have "request_verified A v = request_verified A r" by (simp add: v_def request_verified_def VerificationRequest_GetConditions_def)
    moreover have "resource_key R_verification_request v \<notin> resource_key R_verification_request ` set (requests_at E objs t)"
      using True by (simp add: x v_def [symmetric] stored_none del: key_simps)
    moreover have "users_at E objs (t @ [CCreate x]) = users_at E objs t" "requests_at E objs (t @ [CCreate x]) = requests_at E objs t @ [v]"
      using True verification_request_resource.resources_Cons [of v "[]"] user_resource.resources_other [of "KVerificationRequest v" "[]"]
      by (simp_all add: x v_def [symmetric] users_at_def requests_at_def objects_snoc R_user_simps R_verification_request_simps)
    ultimately show ?thesis
      using assms(1,2) ok_new(2) [OF ok_append] by (simp add: x accounts_ok_def harmless_def del: key_simps)
  qed
next
  case False
  then have "objects E objs (t @ [CCreate x]) = objects E objs t" by (simp add: objects_snoc)
  with assms(1) show ?thesis by (simp add: accounts_ok_def users_at_def requests_at_def ok_append)
qed

lemma user_patch_keeps:
  assumes "accounts_ok A E objs t" and "harmless A E objs t (CPatch x (KUser u))"
  shows "accounts_ok A E objs (t @ [CPatch x (KUser u)])"
proof -
  obtain y where y: "y \<in> set (users_at E objs t)" "resource_key R_user y = resource_key R_user u" "by_dockyards y = by_dockyards u"
    using assms(2) by (auto simp: harmless_def simp del: key_simps)
  define v where "v = u\<lparr>user_status := user_status y\<rparr>"
  have v: "by_dockyards v = by_dockyards y" "user_ready A v = user_ready A y" "sign_up_name v = sign_up_name y"
    using y(2,3) by (simp_all add: v_def by_dockyards_def user_ready_def User_GetConditions_def sign_up_name_def)
  have "objects E objs (t @ [CPatch x (KUser u)]) = replace (objects E objs t) (KUser v)"
    by (simp add: objects_snoc stored_user [OF assms(1) y(1,2)] v_def)
  note lists = lists_after_user [OF this]
  have "by_dockyards v \<longrightarrow> user_ready A v \<longrightarrow> code_entered t (named (sign_up_name v))"
    using assms(1) y(1) by (auto simp: v accounts_ok_def ok_accounts_def simp del: key_simps)
  then show ?thesis
    using assms(1) unfolding accounts_ok_def lists by (intro ok_user ok_append) (auto simp: code_entered_append)
qed

lemma user_status_patch_keeps:
  assumes "accounts_ok A E objs t" and "harmless A E objs t (CStatusPatch x (KUser u))"
  shows "accounts_ok A E objs (t @ [CStatusPatch x (KUser u)])"
proof -
  obtain y where y: "y \<in> set (users_at E objs t)" "resource_key R_user y = resource_key R_user u"
    "by_dockyards y \<longrightarrow> user_ready A u \<longrightarrow> user_ready A y \<or> code_entered t (named (sign_up_name u))"
    using assms(2) by (auto simp: harmless_def simp del: key_simps split: kobject.splits)
  define v where "v = y\<lparr>user_status := user_status u\<rparr>"
  have v: "by_dockyards v = by_dockyards y" "user_ready A v = user_ready A u" "sign_up_name v = sign_up_name y" "sign_up_name u = sign_up_name y"
    using y(2) by (simp_all add: v_def by_dockyards_def user_ready_def User_GetConditions_def sign_up_name_def)
  have "objects E objs (t @ [CStatusPatch x (KUser u)]) = replace (objects E objs t) (KUser v)"
    by (simp add: objects_snoc stored_user [OF assms(1) y(1,2)] v_def)
  note lists = lists_after_user [OF this]
  have "by_dockyards v \<longrightarrow> user_ready A v \<longrightarrow> code_entered t (named (sign_up_name v))"
    using assms(1) y(1,3) by (auto simp: v accounts_ok_def ok_accounts_def simp del: key_simps)
  then show ?thesis
    using assms(1) unfolding accounts_ok_def lists by (intro ok_user ok_append) (auto simp: code_entered_append)
qed

lemma stored_requestD:
  assumes "stored_like (objects E objs t) (KVerificationRequest r) = Some z"
  obtains y where "z = KVerificationRequest y" "y \<in> set (requests_at E objs t)"
    "resource_key R_verification_request y = resource_key R_verification_request r"
proof -
  have "map_option KVerificationRequest (find (\<lambda>w. resource_key R_verification_request w = resource_key R_verification_request r)
      (requests_at E objs t)) = Some z"
    using assms verification_request_resource.stored_like_resource [of "objects E objs t" r]
    by (simp add: R_verification_request_simps requests_at_def del: key_simps)
  with that show thesis by (auto simp: find_Some_iff simp del: key_simps)
qed

lemma request_status_patch_keeps:
  assumes "accounts_ok A E objs t" and "harmless A E objs t (CStatusPatch (KVerificationRequest r) (KVerificationRequest r'))"
  shows "accounts_ok A E objs (t @ [CStatusPatch (KVerificationRequest r) (KVerificationRequest r')])"
proof (cases "stored_like (objects E objs t) (KVerificationRequest r')")
  case None
  then show ?thesis
    using assms(1) by (intro ok_lists_same) (simp_all add: users_at_def requests_at_def objects_snoc)
next
  case (Some z)
  then obtain y where y: "z = KVerificationRequest y" "resource_key R_verification_request y = resource_key R_verification_request r'"
    by (rule stored_requestD)
  define v where "v = y\<lparr>verification_request_status := verification_request_status r'\<rparr>"
  have key: "resource_key R_verification_request v = resource_key R_verification_request r'" using y(2) by (simp add: v_def)
  have "objects E objs (t @ [CStatusPatch (KVerificationRequest r) (KVerificationRequest r')]) = replace (objects E objs t) (KVerificationRequest v)"
    by (simp add: objects_snoc Some y(1) v_def)
  note lists = lists_after_request [OF this]
  have "code_entered (t @ [CStatusPatch (KVerificationRequest r) (KVerificationRequest r')]) (resource_key R_verification_request v)"
    using assms(2) unfolding code_entered_def key by (fastforce simp: harmless_def simp del: key_simps)
  then show ?thesis
    using assms(1) unfolding accounts_ok_def lists by (intro ok_request ok_append) auto
qed

lemma request_commit_keeps:
  assumes "accounts_ok A E objs t" and "harmless A E objs t (CCommit x (KVerificationRequest r))"
  shows "accounts_ok A E objs (t @ [CCommit x (KVerificationRequest r)])"
proof (cases "stored_like (objects E objs t) (KVerificationRequest r)")
  case None
  define v where "v = r\<lparr>verification_request_meta := stamp_meta E t (verification_request_meta r)\<rparr>"
  have r: "\<not> request_verified A r" "om_name (verification_request_meta r) \<noteq> []"
    using assms(2) None unfolding harmless_def by (simp_all add: stored_none del: key_simps)
  then have "\<not> request_verified A v" "resource_key R_verification_request v = resource_key R_verification_request r"
    by (simp_all add: v_def request_verified_def VerificationRequest_GetConditions_def stamp_meta_def)
  moreover have "users_at E objs (t @ [CCommit x (KVerificationRequest r)]) = users_at E objs t"
    "requests_at E objs (t @ [CCommit x (KVerificationRequest r)]) = requests_at E objs t @ [v]"
    using None verification_request_resource.resources_Cons [of v "[]"] user_resource.resources_other [of "KVerificationRequest v" "[]"]
    by (simp_all add: v_def [symmetric] users_at_def requests_at_def objects_snoc R_user_simps R_verification_request_simps)
  ultimately show ?thesis
    using assms(1) None ok_new(2) [OF ok_append] by (simp add: accounts_ok_def stored_none del: key_simps)
next
  case (Some z)
  then obtain y where y: "z = KVerificationRequest y" "y \<in> set (requests_at E objs t)"
    "resource_key R_verification_request y = resource_key R_verification_request r"
    by (rule stored_requestD)
  define v where "v = r\<lparr>verification_request_status := verification_request_status y\<rparr>"
  have v: "request_verified A v = request_verified A y" "resource_key R_verification_request v = resource_key R_verification_request y"
    using y(3) by (simp_all add: v_def request_verified_def VerificationRequest_GetConditions_def)
  have "objects E objs (t @ [CCommit x (KVerificationRequest r)]) = replace (objects E objs t) (KVerificationRequest v)"
    by (simp add: objects_snoc Some y(1) v_def)
  note lists = lists_after_request [OF this]
  have "request_verified A v \<longrightarrow> code_entered t (resource_key R_verification_request v)"
    using assms(1) y(2) by (auto simp: v accounts_ok_def ok_accounts_def simp del: key_simps)
  then show ?thesis
    using assms(1) unfolding accounts_ok_def lists by (intro ok_request ok_append) (auto simp: code_entered_append)
qed

lemma harmless_keeps:
  assumes "accounts_ok A E objs t" and "harmless A E objs t c"
  shows "accounts_ok A E objs (t @ [c])"
proof (cases "foreign c")
  case True
  with assms(1) show ?thesis by (rule foreign_keeps)
next
  case False
  have wrapped: "kind_of x = AUser \<Longrightarrow> \<exists>u. x = KUser u" "kind_of x = AVerificationRequest \<Longrightarrow> \<exists>r. x = KVerificationRequest r" for x
    by (cases x; simp)+
  from False consider (create) x u r where "c = CCreate x" "x = KUser u \<or> x = KVerificationRequest r"
    | (patch) x u r where "c = CPatch x (KUser u) \<or> c = CPatch x (KVerificationRequest r)"
    | (status) x u where "c = CStatusPatch x (KUser u)" | (request) x r where "c = CStatusPatch x (KVerificationRequest r)"
    | (commit) x u r where "c = CCommit x (KUser u) \<or> c = CCommit x (KVerificationRequest r)"
    by (cases c) (auto simp: foreign_def dest!: wrapped)
  then show ?thesis
  proof cases
    case create with assms create_keeps show ?thesis by blast
  next
    case patch with assms user_patch_keeps show ?thesis by (auto simp: harmless_def)
  next
    case status with assms user_status_patch_keeps show ?thesis by blast
  next
    case request
    with assms(2) obtain r0 where "x = KVerificationRequest r0" by (cases x) (simp_all add: harmless_def)
    with request assms request_status_patch_keeps show ?thesis by blast
  next
    case commit with assms request_commit_keeps show ?thesis by (auto simp: harmless_def)
  qed
qed

text \<open>A computation whose calls are harmless as long as the invariant holds keeps it.\<close>

definition keeps_accounts :: "account_lib \<Rightarrow> environment \<Rightarrow> kobject list \<Rightarrow> trace \<Rightarrow> call \<Rightarrow> bool" where
  "keeps_accounts A E objs p c = (accounts_ok A E objs p \<longrightarrow> harmless A E objs p c)"

lemma calls_keep:
  assumes "calls_ok (keeps_accounts A E objs) t m" and "accounts_ok A E objs t"
  shows "accounts_ok A E objs (snd (run_state m t))"
proof -
  obtain new where new: "snd (run_state m t) = t @ new"
    "\<And>pre c post. new = pre @ c # post \<Longrightarrow> keeps_accounts A E objs (t @ pre) c"
    using assms(1) by (auto simp: calls_ok_def)
  have "accounts_ok A E objs (t @ q)" if "new = q @ r" for q r
    using that
  proof (induction q arbitrary: r rule: rev_induct)
    case (snoc c q)
    then have "accounts_ok A E objs (t @ q)" "keeps_accounts A E objs (t @ q) c" using new(2) by simp_all
    then show ?case using harmless_keeps [of A E objs "t @ q" c] by (simp add: keeps_accounts_def)
  qed (simp add: assms(2))
  then show ?thesis by (simp add: new(1))
qed


subsection \<open>Every request keeps the invariant\<close>

lemma keeps_simps [simp]:
  "keeps_accounts A E objs p (CGet k key)" "keeps_accounts A E objs p (CList k opts)" "keeps_accounts A E objs p (CFetch x)"
  "keeps_accounts A E objs p CNow" "keeps_accounts A E objs p (CDelete x)" "keeps_accounts A E objs p (CCommit x (KClusterRole y))"
  "keeps_accounts A E objs p (CCommit x (KClusterRoleBinding z))"
  by (simp_all add: keeps_accounts_def harmless_def)

lemma users_unchanged [simp]:
  "users_at E objs (t @ [CGet k key]) = users_at E objs t" "users_at E objs (t @ [CList k opts]) = users_at E objs t"
  "users_at E objs (t @ [CNow]) = users_at E objs t" "users_at E objs (t @ [CFetch x]) = users_at E objs t"
  by (simp_all add: users_at_def objects_snoc)

lemma got_user:
  assumes "run_state (k_get R_user (store_server E objs) key) t = (Inr u, t')"
  shows "u \<in> set (users_at E objs t')" "t' = t @ [CGet AUser key]"
proof -
  show t': "t' = t @ [CGet AUser key]" using assms by (auto simp: run_simps R_user_simps)
  have "found (stored (objects E objs t) AUser key) = Inr (KUser u)"
    using assms by (auto simp: run_simps R_user_simps store_server_def)
  then show "u \<in> set (users_at E objs t')"
    using user_resource.stored_resource [of "objects E objs t" key]
    by (auto simp: found_def t' users_at_def objects_snoc R_user_simps find_Some_iff split: option.splits)
qed

lemma keeps_user_patch:
  assumes "u \<in> set (users_at E objs p)" and "user_meta u' = user_meta u" and "us_provider_id (user_spec u') = us_provider_id (user_spec u)"
  shows "keeps_accounts A E objs p (CPatch x (KUser u'))"
  using assms by (auto simp: keeps_accounts_def harmless_def by_dockyards_def)

lemma harmless_user_status:
  "harmless A E objs p (CStatusPatch x (KUser u)) =
     (\<exists>y \<in> set (users_at E objs p). resource_key R_user y = resource_key R_user u
        \<and> (by_dockyards y \<longrightarrow> user_ready A u \<longrightarrow> user_ready A y \<or> code_entered p (named (sign_up_name u))))"
  by (cases x) (simp_all add: harmless_def del: key_simps)

lemma keeps_user_status:
  assumes "u \<in> set (users_at E objs p)" and "by_dockyards u \<longrightarrow> user_ready A (User_SetConditions u cs) \<longrightarrow> user_ready A u"
  shows "keeps_accounts A E objs p (CStatusPatch x (KUser (User_SetConditions u cs)))"
  using assms by (auto simp: keeps_accounts_def harmless_user_status User_SetConditions_def)

text \<open>Sign-up, verification and the endpoints that read or patch.\<close>

lemma keeps_created_user: "conditions_documented (al_conditions A) \<Longrightarrow> User_GetConditions u = [] \<Longrightarrow> keeps_accounts A E objs p (CCreate (KUser u))"
  by (simp add: keeps_accounts_def harmless_def user_ready_def is_true_nil)

lemma keeps_created_request:
  "conditions_documented (al_conditions A) \<Longrightarrow> VerificationRequest_GetConditions r = [] \<Longrightarrow>
     keeps_accounts A E objs p (CCreate (KVerificationRequest r))"
  by (simp add: keeps_accounts_def harmless_def request_verified_def is_true_nil)

lemma sign_up_keeps:
  assumes "conditions_documented (al_conditions A)"
  shows "calls_ok (keeps_accounts A E objs) t (CreateGlobalUser A cfg S opts)"
  unfolding CreateGlobalUser_def Let_def IsFeatureEnabled_def
  by (intro calls_ok_go_bind calls_ok_bind calls_ok_intros)
    (auto simp: resource_simps intro!: keeps_created_user [OF assms] simp: User_GetConditions_def zero_defs)

lemma reset_request_keeps:
  assumes "conditions_documented (al_conditions A)"
  shows "calls_ok (keeps_accounts A E objs) t (CreateGlobalPasswordResetRequest A S email)"
  unfolding CreateGlobalPasswordResetRequest_def
  by (intro calls_ok_go_bind calls_ok_bind calls_ok_intros)
    (auto simp: resource_simps intro!: keeps_created_request [OF assms] simp: VerificationRequest_GetConditions_def reset_request_def zero_defs)

lemma reading_keeps:
  assumes "emits (\<lambda>c. \<not> is_write c) m"
  shows "calls_ok (keeps_accounts A E objs) t m"
proof (rule calls_ok_emits [OF assms])
  fix new :: trace and c :: call
  assume "\<not> is_write c"
  then show "keeps_accounts A E objs (t @ new) c" by (cases c) (simp_all add: keeps_accounts_def harmless_def)
qed

lemma log_in_reads:
  "emits (\<lambda>c. \<not> is_write c) (CreateGlobalTokens A S opts)" "emits (\<lambda>c. \<not> is_write c) (GetGlobalTokens A S sub)"
  "emits (\<lambda>c. \<not> is_write c) (GetWhoami C S sub)"
  unfolding CreateGlobalTokens_def GetGlobalTokens_def GetWhoami_def generateTokens_def
  by (intro appends_intros; simp)+

lemma rename_keeps: "calls_ok (keeps_accounts A E objs) t (UpdateGlobalUser (store_server E objs) sub n opts)"
  unfolding UpdateGlobalUser_def Let_def
  by (intro calls_ok_go_bind calls_ok_intros)
    (auto simp: R_user_simps try_call_Ret dest!: got_user(1) intro!: keeps_user_patch)

lemma change_password_keeps: "calls_ok (keeps_accounts A E objs) t (UpdateUserPassword A (store_server E objs) sub n opts)"
  unfolding UpdateUserPassword_def set_password_def
  by (intro calls_ok_go_bind calls_ok_intros)
    (auto simp: R_user_simps try_call_Ret dest!: got_user(1) intro!: keeps_user_patch)

lemma reset_keeps: "calls_ok (keeps_accounts A E objs) t (ResetPassword A (store_server E objs) opts)"
  unfolding ResetPassword_def set_password_def
  by (intro calls_ok_go_bind calls_ok_bind calls_ok_intros)
    (auto simp: R_user_simps R_verification_request_simps try_call_Ret dest!: got_user(1) intro!: keeps_user_patch)


lemma go_of_sum_Ret: "go_of_sum r = Ret a \<longleftrightarrow> r = Inr a"
  by (cases r) simp_all

lemma verify_keeps: "calls_ok (keeps_accounts A E objs) t (UpdateGlobalVerificationRequest A (store_server E objs) opts)"
proof -
  let ?list = "matching_field CodeField (tvo_code opts) []"
  have code: "vrs_code (verification_request_spec r) = tvo_code opts"
    if "decode_list R_verification_request (sv_list (store_server E objs) t AVerificationRequest ?list) = Inr [r]" for r
  proof -
    have "requests_of (objects E objs t) (tvo_code opts) = [r]"
      using that list_requests [OF store_indexes, of E objs t "tvo_code opts"] by simp
    then have "r \<in> set (requests_of (objects E objs t) (tvo_code opts))" by simp
    then show ?thesis by (simp add: requests_of_def)
  qed
  have patch: "keeps_accounts A E objs (t @ [CList AVerificationRequest ?list, CNow])
      (CStatusPatch (KVerificationRequest r) (KVerificationRequest (VerificationRequest_SetConditions r cs)))"
    if "vrs_code (verification_request_spec r) = tvo_code opts" for r cs
    using that by (auto simp: keeps_accounts_def harmless_def VerificationRequest_SetConditions_def)
  show ?thesis
    unfolding UpdateGlobalVerificationRequest_def
    by (intro calls_ok_go_bind calls_ok_bind calls_ok_intros)
      (auto simp: R_verification_request_simps(1,2) try_call_Ret run_simps go_of_sum_Ret intro!: patch dest!: code)
qed

lemma status_patched_user:
  assumes "sv_status_patch (store_server E objs) p x (KUser v) = Inr (KUser w)"
  shows "w \<in> set (users_at E objs (p @ [CStatusPatch x (KUser v)]))"
proof -
  obtain z where z: "stored_like (objects E objs p) (KUser v) = Some z" "with_status z (KUser v) = KUser w"
    using assms by (auto simp: store_server_def found_def split: option.splits)
  moreover have "map_option KUser (find (\<lambda>w. resource_key R_user w = resource_key R_user v) (users_at E objs p)) = Some z"
    using z(1) user_resource.stored_like_resource [of "objects E objs p" v] by (simp add: R_user_simps users_at_def del: key_simps)
  then obtain y where y: "z = KUser y" "y \<in> set (users_at E objs p)" "resource_key R_user y = resource_key R_user v"
    by (auto simp: find_Some_iff simp del: key_simps)
  ultimately have w: "w = y\<lparr>user_status := user_status v\<rparr>" "resource_key R_user w = resource_key R_user y" by auto
  have "objects E objs (p @ [CStatusPatch x (KUser v)]) = replace (objects E objs p) (KUser w)"
    using z by (simp add: objects_snoc)
  from lists_after_user(1) [OF this] y w(2) show ?thesis by (force simp del: key_simps)
qed

lemma patch_condition_keeps:
  assumes "u \<in> set (users_at E objs t)"
    and "\<And>q now. by_dockyards u \<longrightarrow> user_ready A (User_SetConditions u (cl_set C q (User_GetConditions u) (c now))) \<longrightarrow> user_ready A u"
  shows "calls_ok (keeps_accounts A E objs) t (patch_condition C (store_server E objs) u c)"
  unfolding patch_condition_def
  by (intro calls_ok_bind calls_ok_intros) (auto simp: run_simps R_user_simps assms intro!: keeps_user_status)

lemma patch_condition_held:
  "run_state (patch_condition C (store_server E objs) u c) t = (Inr v, t') \<Longrightarrow> v \<in> set (users_at E objs t')"
  using status_patched_user [of E objs "t @ [CNow]"] by (auto simp: patch_condition_def run_simps R_user_simps)

lemma patch_condition_answered:
  "fst (run_state (patch_condition C (store_server E objs) u c) t) = Inr v \<Longrightarrow>
     v \<in> set (users_at E objs (snd (run_state (patch_condition C (store_server E objs) u c) t)))"
  using patch_condition_held [of C E objs u c t v] by (cases "run_state (patch_condition C (store_server E objs) u c) t") simp

lemma committed_request:
  assumes "sv_commit (store_server E objs) p x (KVerificationRequest r) = Inr (KVerificationRequest w)" and "om_name (verification_request_meta r) \<noteq> []"
  shows "w \<in> set (requests_at E objs (p @ [CCommit x (KVerificationRequest r)]))"
    and "resource_key R_verification_request w = resource_key R_verification_request r"
    and "users_at E objs (p @ [CCommit x (KVerificationRequest r)]) = users_at E objs p"
proof -
  have "w \<in> set (requests_at E objs (p @ [CCommit x (KVerificationRequest r)]))
      \<and> resource_key R_verification_request w = resource_key R_verification_request r
      \<and> users_at E objs (p @ [CCommit x (KVerificationRequest r)]) = users_at E objs p"
  proof (cases "stored_like (objects E objs p) (KVerificationRequest r)")
    case None
    with assms(1) have w: "w = r\<lparr>verification_request_meta := stamp_meta E p (verification_request_meta r)\<rparr>"
      by (simp add: store_server_def)
    with assms(2) None show ?thesis
      using verification_request_resource.resources_Cons [of w "[]"] user_resource.resources_other [of "KVerificationRequest w" "[]"]
      by (simp add: users_at_def requests_at_def objects_snoc R_user_simps R_verification_request_simps stamp_meta_def)
  next
    case (Some z)
    then obtain y where y: "z = KVerificationRequest y" "y \<in> set (requests_at E objs p)"
      "resource_key R_verification_request y = resource_key R_verification_request r"
      by (rule stored_requestD)
    with assms(1) Some have w: "w = r\<lparr>verification_request_status := verification_request_status y\<rparr>"
      by (simp add: store_server_def)
    have "objects E objs (p @ [CCommit x (KVerificationRequest r)]) = replace (objects E objs p) (KVerificationRequest w)"
      by (simp add: objects_snoc Some y(1) w)
    from lists_after_request [OF this] y w show ?thesis by (force simp: image_iff)
  qed
  then show "w \<in> set (requests_at E objs (p @ [CCommit x (KVerificationRequest r)]))"
    and "resource_key R_verification_request w = resource_key R_verification_request r"
    and "users_at E objs (p @ [CCommit x (KVerificationRequest r)]) = users_at E objs p" by simp_all
qed


text \<open>The verification request of a user: what is fetched, changed and stored.\<close>

lemma mutate_trace:
  assumes "run_state (verification_request_mutate A u r) t = (Ret r', t')"
  shows "t' = t" "verification_request_meta r' = verification_request_meta r" "verification_request_status r' = verification_request_status r"
  using assms by (auto simp: verification_request_mutate_def Let_def run_go_bind run_simps split: if_splits prod.splits go.splits)

lemma sign_up_key: "resource_key R_verification_request (sign_up_request u) = named (sign_up_name u)"
  by (simp add: sign_up_request_def named_def zero_defs)

lemma fetched_request:
  assumes "sv_fetch (store_server E objs) t (KVerificationRequest (sign_up_request u)) = Inr (KVerificationRequest r)"
  shows "r = sign_up_request u \<or> r \<in> set (requests_at E objs t)" "resource_key R_verification_request r = named (sign_up_name u)"
proof -
  have "r = sign_up_request u \<or> r \<in> set (requests_at E objs t) \<and> resource_key R_verification_request r = named (sign_up_name u)"
  proof (cases "stored_like (objects E objs t) (KVerificationRequest (sign_up_request u))")
    case None with assms show ?thesis by (simp add: store_server_def)
  next
    case (Some z)
    with assms have "z = KVerificationRequest r" by (simp add: store_server_def)
    moreover obtain y where "z = KVerificationRequest y" "y \<in> set (requests_at E objs t)"
      "resource_key R_verification_request y = resource_key R_verification_request (sign_up_request u)"
      using Some by (rule stored_requestD)
    ultimately show ?thesis by (simp add: sign_up_key del: key_simps)
  qed
  then show "r = sign_up_request u \<or> r \<in> set (requests_at E objs t)" "resource_key R_verification_request r = named (sign_up_name u)"
    using sign_up_key by auto
qed

lemma requests_unchanged [simp]: "requests_at E objs (t @ [CFetch x]) = requests_at E objs t"
  by (simp add: requests_at_def objects_snoc)

lemma sign_up_nonempty: "named (sign_up_name u) = resource_key R_verification_request r \<Longrightarrow> om_name (verification_request_meta r) \<noteq> []"
  by (auto simp: named_def sign_up_name_def)

lemma request_keeps:
  assumes "conditions_documented (al_conditions A)"
  shows "calls_ok (keeps_accounts A E objs) t (reconcileVerificationRequest A (store_server E objs) u)"
  unfolding reconcileVerificationRequest_def
proof (rule calls_ok_create_or_patch)
  fix r t'
  show "calls_ok (keeps_accounts A E objs) t' (verification_request_mutate A u r)"
    unfolding verification_request_mutate_def Let_def by (intro calls_ok_go_bind calls_ok_intros)
next
  let ?w = "KVerificationRequest (sign_up_request u)"
  fix r r' t'
  assume "decode R_verification_request (sv_fetch (store_server E objs) t (rk_wrap R_verification_request (sign_up_request u))) = Inr r"
    and run: "run_state (verification_request_mutate A u r) (t @ [CFetch (rk_wrap R_verification_request (sign_up_request u))]) = (Ret r', t')"
  then have "sv_fetch (store_server E objs) t ?w = Inr (KVerificationRequest r)" by (simp add: R_verification_request_simps)
  note r = fetched_request [OF this] and r' = mutate_trace [OF run]
  have same: "request_verified A r' = request_verified A r" "resource_key R_verification_request r' = resource_key R_verification_request r"
    using r'(2,3) by (simp_all add: request_verified_def VerificationRequest_GetConditions_def)
  have "\<not> request_verified A (sign_up_request u)"
    by (simp add: request_verified_def VerificationRequest_GetConditions_def sign_up_request_def zero_defs is_true_nil [OF assms])
  moreover have "om_name (verification_request_meta r') \<noteq> []" using r(2) same(2) sign_up_nonempty by metis
  ultimately show "keeps_accounts A E objs t' (CCommit (rk_wrap R_verification_request r) (rk_wrap R_verification_request r'))"
    using r(1) same r'(1) by (auto simp: R_verification_request_simps keeps_accounts_def harmless_def simp del: key_simps)
qed (simp add: R_verification_request_simps)

lemma request_result:
  assumes "run_state (reconcileVerificationRequest A (store_server E objs) u) t = (Ret vr, t')"
  shows "vr \<in> set (requests_at E objs t')" "resource_key R_verification_request vr = named (sign_up_name u)"
    "users_at E objs t' = users_at E objs t"
proof -
  let ?w = "KVerificationRequest (sign_up_request u)" and ?S = "store_server E objs"
  obtain r where r: "sv_fetch ?S t ?w = Inr (KVerificationRequest r)"
    using assms by (auto simp: reconcileVerificationRequest_def run_create_or_patch_any R_verification_request_simps split: sum.splits)
  obtain r' t1 where r': "run_state (verification_request_mutate A u r) (t @ [CFetch ?w]) = (Ret r', t1)"
    "sv_commit ?S t1 (KVerificationRequest r) (KVerificationRequest r') = Inr (KVerificationRequest vr)"
    "t' = t1 @ [CCommit (KVerificationRequest r) (KVerificationRequest r')]"
    using assms by (auto simp: reconcileVerificationRequest_def run_create_or_patch_any R_verification_request_simps r go_of_sum_Ret
      split: prod.splits go.splits)
  note m = mutate_trace [OF r'(1)]
  have key: "resource_key R_verification_request r' = named (sign_up_name u)" using fetched_request(2) [OF r] m(2) by simp
  have "om_name (verification_request_meta r') \<noteq> []" using key sign_up_nonempty by metis
  note c = committed_request [OF r'(2) this]
  from c(1) show "vr \<in> set (requests_at E objs t')" by (simp add: r'(3))
  from c(2) key show "resource_key R_verification_request vr = named (sign_up_name u)" by simp
  from c(3) m(1) show "users_at E objs t' = users_at E objs t" by (simp add: r'(3))
qed

lemma keeps_ready_status:
  assumes "u \<in> set (users_at E objs p)" and "accounts_ok A E objs p \<longrightarrow> code_entered p (named (sign_up_name u))"
  shows "keeps_accounts A E objs p (CStatusPatch x (KUser (User_SetConditions u cs)))"
  using assms by (auto simp: keeps_accounts_def harmless_user_status User_SetConditions_def sign_up_name_def)

lemma verification_keeps:
  assumes "conditions_documented (al_conditions A)" and "u \<in> set (users_at E objs t)"
  shows "calls_ok (keeps_accounts A E objs) t (reconcileUserVerification A (store_server E objs) u)"
  unfolding reconcileUserVerification_def
proof (rule calls_ok_go_bind [OF request_keeps [OF assms(1)]])
  fix vr t'
  assume run: "run_state (reconcileVerificationRequest A (store_server E objs) u) t = (Ret vr, t')"
  note vr = request_result [OF run]
  have entered: "accounts_ok A E objs t' \<longrightarrow> code_entered t' (named (sign_up_name u))"
    if "is_true (al_conditions A) (VerificationRequest_GetConditions vr) VerifiedCondition"
    using that vr(1,2) by (auto simp: accounts_ok_def ok_accounts_def request_verified_def simp del: key_simps)
  have held: "u \<in> set (users_at E objs t')" using assms(2) vr(3) by simp
  show "calls_ok (keeps_accounts A E objs) t'
     (case cl_find (al_conditions A) (VerificationRequest_GetConditions vr) VerifiedCondition of
       None \<Rightarrow> ret (Ret u)
     | Some verifiedCondition \<Rightarrow>
         if c_status verifiedCondition = ConditionTrue then do {
           conditions \<leftarrow> observe (\<lambda>t. cl_set (al_conditions A) t (User_GetConditions u)
             \<lparr>c_type = ReadyCondition, c_status = c_status verifiedCondition, c_reason = c_reason verifiedCondition,
              c_message = c_message verifiedCondition, c_transition = c_transition verifiedCondition\<rparr>);
           try_call (k_status_patch R_user (store_server E objs) u (User_SetConditions u conditions))
         }
         else ret (Ret u))"
    by (intro calls_ok_intros calls_ok_bind)
      (auto simp: R_user_simps run_simps is_true_iff intro!: keeps_ready_status held entered)
qed

lemma verification_held:
  assumes "run_state (reconcileUserVerification A (store_server E objs) u) t = (Ret v, t')" and "u \<in> set (users_at E objs t)"
  shows "v \<in> set (users_at E objs t')"
proof -
  obtain vr t1 where run: "run_state (reconcileVerificationRequest A (store_server E objs) u) t = (Ret vr, t1)"
    using assms(1) by (auto simp: reconcileUserVerification_def run_go_bind split: prod.splits go.splits)
  from request_result(3) [OF run] assms show ?thesis
    using status_patched_user [of E objs t1]
    by (auto simp: reconcileUserVerification_def run_go_bind run run_simps R_user_simps go_of_sum_Ret split: option.splits if_splits)
qed


lemma cluster_role_call_users: "cluster_role_call c \<Longrightarrow> users_at E objs (p @ [c]) = users_at E objs p"
  by (cases c) (auto intro!: foreign_lists(1) simp: foreign_def)

lemma emits_users:
  assumes "emits P m" and "\<And>p c. P c \<Longrightarrow> users_at E objs (p @ [c]) = users_at E objs p"
  shows "users_at E objs (snd (run_state m t)) = users_at E objs t"
proof -
  obtain new where new: "snd (run_state m t) = t @ new" "\<forall>c \<in> set new. P c" using assms(1) unfolding emits_def by blast
  have "users_at E objs (t @ new) = users_at E objs t"
    using new(2)
  proof (induction new rule: rev_induct)
    case (snoc c cs)
    with assms(2) [of c "t @ cs"] show ?case by simp
  qed simp
  with new(1) show ?thesis by simp
qed

lemma ready_user_keeps:
  assumes "conditions_documented (al_conditions A)" and "u \<in> set (users_at E objs t)"
  shows "calls_ok (keeps_accounts A E objs) t (reconcileReadyUser A (store_server E objs) u)"
proof -
  have other: "ReadyCondition \<noteq> UserAuthorizationReadyCondition"
    by (simp add: UserAuthorizationReadyCondition_def ReadyCondition_def)
  have "calls_ok (keeps_accounts A E objs) t (ReconcileUserAuthorization (store_server E objs) u)"
  proof (rule calls_ok_emits [OF user_authorization_calls])
    fix new c assume "cluster_role_call c"
    then show "keeps_accounts A E objs (t @ new) c"
      by (cases c) (auto simp: keeps_accounts_def harmless_def split: kobject.splits)
  qed
  moreover have "u \<in> set (users_at E objs t')" if "run_state (ReconcileUserAuthorization (store_server E objs) u) t = (r, t')" for r t'
  proof -
    have "users_at E objs (snd (run_state (ReconcileUserAuthorization (store_server E objs) u) t)) = users_at E objs t"
      by (rule emits_users [OF user_authorization_calls cluster_role_call_users])
    with that assms(2) show ?thesis by simp
  qed
  ultimately show ?thesis
    unfolding reconcileReadyUser_def
    by (intro calls_ok_bind calls_ok_go_bind calls_ok_intros patch_condition_keeps)
      (auto simp: user_ready_def is_true_set [OF assms(1)] ready_condition_def other)
qed

lemma delete_request_keeps:
  "calls_ok (keeps_accounts A E objs) t (deleteVerificationRequest S u)"
  "run_state (deleteVerificationRequest S u) t = (r, t') \<Longrightarrow> users_at E objs t' = users_at E objs t"
  using user_resource.delete_other [of "KVerificationRequest r0" for r0]
  by (auto simp: deleteVerificationRequest_def R_verification_request_simps R_user_simps run_simps users_at_def objects_snoc
    intro!: calls_ok_bind calls_ok_intros)

lemma reconcile_keeps:
  assumes "conditions_documented (al_conditions A)"
  shows "calls_ok (keeps_accounts A E objs) t (UserReconciler_Reconcile A cfg (store_server E objs) key)"
proof -
  let ?S = "store_server E objs"
  let ?K = "\<lambda>u t. u \<in> set (users_at E objs t)"
  have oidc: "calls_ok (keeps_accounts A E objs) t (reconcileNonDockyardsProvidedUser (al_conditions A) cfg ?S u)"
    if "\<not> HasPrefix (us_provider_id (user_spec u)) ProviderPrefixDockyards" "?K u t" for u t
    unfolding reconcileNonDockyardsProvidedUser_def Let_def case_prod_unfold
    by (intro calls_ok_go_bind calls_ok_intros patch_condition_keeps)
      (use that in \<open>auto simp: by_dockyards_def run_simps\<close>)
  have oidc_held: "?K v t'" if "run_state (reconcileNonDockyardsProvidedUser (al_conditions A) cfg ?S u) t = (Ret v, t')" "?K u t" for u v t t'
    using that by (auto simp: reconcileNonDockyardsProvidedUser_def run_go_bind run_simps go_of_sum_Ret
      intro: patch_condition_answered split: prod.splits if_splits option.splits sum.splits go.splits)
  show ?thesis
    unfolding UserReconciler_Reconcile_def Let_def
    apply (intro calls_ok_bind calls_ok_intros, simp add: R_user_simps)
    apply (rule calls_ok_go_bind_inv [where Q = ?K])
      apply (intro calls_ok_intros oidc, assumption, simp add: got_user)
     apply (auto dest: got_user(1) oidc_held split: if_splits)[1]
    apply (rule calls_ok_go_bind_inv [where Q = ?K])
      apply (intro calls_ok_intros patch_condition_keeps; simp add: user_ready_def is_true_set [OF assms] ready_condition_def)
     apply (auto simp: try_call_Ret dest: patch_condition_held split: if_splits)[1]
    apply (intro calls_ok_intros)
    apply (rule calls_ok_go_bind_inv [where Q = ?K])
      apply (intro calls_ok_intros verification_keeps [OF assms], assumption)
     apply (auto dest: verification_held split: if_splits)[1]
    apply (intro calls_ok_intros calls_ok_go_bind delete_request_keeps(1) ready_user_keeps [OF assms])
    apply (simp add: delete_request_keeps(2))
    done
qed


lemma request_keeps_accounts:
  assumes "conditions_documented (al_conditions A)" and "accounts_ok A E objs t"
  shows "accounts_ok A E objs (account_run A cfg (store_server E objs) request t)"
proof -
  note J = calls_keep [OF _ assms(2)]
  show ?thesis
    by (cases request) (simp_all add: account_run_def J sign_up_keeps [OF assms(1)] verify_keeps reading_keeps log_in_reads
      rename_keeps change_password_keeps reset_request_keeps [OF assms(1)] reset_keeps reconcile_keeps [OF assms(1)])
qed

text \<open>A store without ready Dockyards users and without verified requests.\<close>

definition unused :: "account_lib \<Rightarrow> kobject list \<Rightarrow> bool" where
  "unused A objs =
     (distinct (map (resource_key R_user) (resources R_user objs))
      \<and> distinct (map (resource_key R_verification_request) (resources R_verification_request objs))
      \<and> list_all (\<lambda>u. \<not> (by_dockyards u \<and> user_ready A u)) (resources R_user objs)
      \<and> list_all (\<lambda>r. \<not> request_verified A r) (resources R_verification_request objs))"

lemma reachable_accounts_ok:
  assumes "conditions_documented (al_conditions A)" and "unused A objs" and "reachable A cfg (store_server E objs) t"
  shows "accounts_ok A E objs t"
  using assms(3)
proof (induction rule: reachable.induct)
  case start
  with assms(2) show ?case
    by (auto simp: unused_def accounts_ok_def ok_accounts_def users_at_def requests_at_def objects_def list_all_iff simp del: key_simps)
next
  case (request t request)
  then show ?case by (intro request_keeps_accounts assms(1))
next
  case (elsewhere t c)
  then show ?case by (intro foreign_keeps)
qed

text \<open>C4 Every ready user has entered its code: start from a store without ready Dockyards users and verified requests, and let
  any requests to the account endpoints, reconciliations of users and calls of others that leave users and verification requests
  alone follow one another in any order; in every state reached, a Dockyards user that is \<open>Ready\<close> has the code of its sign-up
  request entered earlier, in a call that listed the requests by this code and then marked it verified.\<close>

theorem ready_users_entered_their_code:
  assumes "conditions_documented (al_conditions A)" and "unused A objs" and "reachable A cfg (store_server E objs) t"
    and "u \<in> set (users_at E objs t)" and "by_dockyards u" and "user_ready A u"
  shows "code_entered t (named (sign_up_name u))"
  using reachable_accounts_ok [OF assms(1-3)] assms(4-6) by (simp add: accounts_ok_def ok_accounts_def)

text \<open>C15 A reset code works once: after a reset that succeeded, no reset with the same code succeeds or changes anything.\<close>

theorem reset_code_works_once:
  assumes "run_state (ResetPassword A (store_server E objs) request) t = (Ret (), t')"
    and "tro_reset_code again = tro_reset_code request"
  shows "run_state (ResetPassword A (store_server E objs) again) t' =
     (Fail (Plain ''could not find verification request''),
      t' @ [CList AVerificationRequest (matching_field CodeField (tro_reset_code request) [])])"
proof -
  let ?code = "tro_reset_code request"
  obtain v u hash where t': "t' = t @ reset_calls request v u hash" and one: "requests_of (objects E objs t) ?code = [v]"
    using reset_succeeds [OF store_indexes assms(1)] .
  have "resources R_verification_request (objects E objs t') = filter (\<lambda>w. resource_key R_verification_request w \<noteq> resource_key R_verification_request v)
      (resources R_verification_request (objects E objs t))"
    using verification_request_resource.delete_resource [of v] verification_request_resource.replace_other [of "KUser w" for w]
    by (auto simp: t' reset_calls_def objects_append R_verification_request_simps with_status_def simp del: key_simps split: option.split kobject.split)
  moreover have "w = v" if "w \<in> set (resources R_verification_request (objects E objs t))" "vrs_code (verification_request_spec w) = ?code" for w
  proof -
    have "w \<in> set (requests_of (objects E objs t) ?code)" using that by (simp add: requests_of_resources)
    then show ?thesis by (simp add: one)
  qed
  ultimately have "requests_of (objects E objs t') ?code = []"
    by (auto simp: requests_of_resources filter_empty_conv simp del: key_simps)
  then show ?thesis
    using list_requests [OF store_indexes, of E objs t' ?code] assms(2)
    by (simp add: ResetPassword_def run_go_bind run_simps R_verification_request_simps(1,2))
qed

text \<open>Dora, who has signed up, and a user who resets its password twice.\<close>

lemma dora_reachable:
  "reachable plain_accounts None dora_server (snd (dora_reconciled (snd (dora_verified (snd (dora_reconciled (snd dora_signed_up)))))))"
proof -
  have run: "reachable plain_accounts None dora_server (snd (dora_reconciled t))" "reachable plain_accounts None dora_server (snd (dora_verified t))"
    if "reachable plain_accounts None dora_server t" for t
    using request [OF that, of "Reconcile (named dora_name)"] request [OF that, of "Verify \<lparr>tvo_type = RequestTypeAccount,
      tvo_code = sign_up_code dora_name (resources R_verification_request (objects still [sign_up_feature] t))\<rparr>"]
    by (simp_all add: account_run_def dora_reconciled_def dora_verified_def)
  have "reachable plain_accounts None dora_server (snd dora_signed_up)"
    using request [OF start, of plain_accounts None dora_server "SignUp dora"] by (simp add: account_run_def dora_signed_up_def)
  then show ?thesis by (intro run)
qed

lemma ready_users_entered_their_code_witness:
  "\<exists>u. user_ready plain_accounts u \<and> code_entered
     (snd (dora_reconciled (snd (dora_verified (snd (dora_reconciled (snd dora_signed_up))))))) (named (sign_up_name u))"
proof -
  let ?t1 = "snd dora_signed_up"
  let ?t2 = "snd (dora_reconciled ?t1)"
  let ?t3 = "snd (dora_verified ?t2)"
  let ?t4 = "snd (dora_reconciled ?t3)"
  obtain v where v: "resources R_verification_request (objects still [sign_up_feature] ?t2) = [v]" "om_creation (verification_request_meta v) = 0"
    using dora_request by blast
  have "\<exists>u1 u2 us rs v. account us rs u1 (Some v) (objects still [sign_up_feature] ?t2) \<and> account us rs u2 None (objects still [sign_up_feature] ?t4)
     \<and> us = resources R_user (objects still [sign_up_feature] []) \<and> same_user u1 u2 \<and> waiting plain_accounts u1
     \<and> us_email (user_spec u1) = tuo_email dora \<and> al_compare plain_accounts (us_password (user_spec u1)) (tuo_password dora) = None
     \<and> is_true (al_conditions plain_accounts) (User_GetConditions u2) ReadyCondition
     \<and> fst dora_signed_up \<noteq> Panic \<and> (\<forall>e. fst dora_signed_up \<noteq> Fail e) \<and> fst (dora_reconciled ?t1) = Ret no_requeue
     \<and> fst (dora_verified ?t2) = Ret () \<and> fst (dora_reconciled ?t3) = Ret no_requeue"
    by (rule sign_up_steps [OF plain_accounts_documented dora_server_def dora_enabled dora_name_def, where ?t1.0 = ?t1 and ?t2.0 = ?t2 and ?t3.0 = ?t3])
      (use v in \<open>simp_all add: dora_store dora_signed_up_def dora_reconciled_def dora_verified_def still_clock time_defs\<close>)
  then obtain u1 u2 us rs where u: "account us rs u2 None (objects still [sign_up_feature] ?t4)" "same_user u1 u2" "waiting plain_accounts u1"
    "user_ready plain_accounts u2" by (auto simp: user_ready_def)
  have "u2 \<in> set (users_at still [sign_up_feature] ?t4)" "by_dockyards u2"
    using u by (auto simp: account_def users_at_def waiting_def same_user_def by_dockyards_def)
  moreover have "conditions_documented (al_conditions plain_accounts)" using plain_accounts_documented by (simp add: account_lib_documented_def)
  moreover have "unused plain_accounts [sign_up_feature]" by (simp add: unused_def dora_store)
  ultimately have "code_entered ?t4 (named (sign_up_name u2))"
    using ready_users_entered_their_code [OF _ _ dora_reachable [unfolded dora_server_def]] u(4) by blast
  with u(4) show ?thesis by blast
qed

lemma reset_code_works_once_witness:
  "fst (run_state (ResetPassword plain_accounts (store_server still [KUser bob, KVerificationRequest bob_request])
       \<lparr>tro_reset_code = ''code'', tro_new_password = ''newer''\<rparr>)
     (snd (run_state (ResetPassword plain_accounts (store_server still [KUser bob, KVerificationRequest bob_request])
       \<lparr>tro_reset_code = ''code'', tro_new_password = ''new''\<rparr>) [])))
   = Fail (Plain ''could not find verification request'')"
proof -
  let ?S = "store_server still [KUser bob, KVerificationRequest bob_request]"
  let ?run = "run_state (ResetPassword plain_accounts ?S \<lparr>tro_reset_code = ''code'', tro_new_password = ''new''\<rparr>) []"
  have "decode_list R_verification_request (sv_list ?S [] AVerificationRequest (matching_field CodeField ''code'' [])) = Inr [bob_request]"
    by (simp add: list_requests [OF store_indexes] bob_objects objects_def)
  then have "fst ?run = Ret ()"
    by (simp add: ResetPassword_def run_go_bind run_simps R_user_def R_verification_request_def decode_def decode_list_def
        plain_accounts_def store_server_def objects_def stored_like_def stored_def found_def store_call.simps store_calls.simps
        same_object_def key_of_def bob_def bob_request_def zero_defs set_password_def empty_meta_def local_user_ref_def still_def VerificationRequest_GetExpiration_def named_def)
  then have "?run = (Ret (), snd ?run)" by (metis prod.collapse)
  from reset_code_works_once [OF this] show ?thesis by simp
qed

end
