(* ===== verification/Controllers.thy ===== *)
theory Controllers
  imports User_Controller
begin

text \<open>
  The other reconcilers of \<open>internal/controller\<close>: organizations, members, invitations, clusters and workloads. Each reads
  its object, changes it in memory and stores the difference when it returns: \<open>patch.NewHelper\<close> at the start and a deferred
  \<open>Helper.Patch\<close> at the end, which replaces the result when it fails. The deferred call also runs when the function panics.
  The version numbers of \<open>blang/semver\<close> and the finalizer functions of controller-runtime are parameters.
\<close>

subsection \<open>The deferred patch\<close>

text \<open>\<open>kerrors.NewAggregate\<close>: an error that hides the reasons of the errors in it; its text is not kept.\<close>

definition aggregate :: "goerr option \<Rightarrow> goerr \<Rightarrow> goerr" where
  "aggregate reterr e = Plain ''aggregate''"

type_synonym 'o body = "(trace, (goerr, ctrl_result) go \<times> 'o) state"

definition with_helper ::
  "'o resource_type \<Rightarrow> server \<Rightarrow> (goerr option \<Rightarrow> goerr \<Rightarrow> goerr) \<Rightarrow> 'o \<Rightarrow> 'o body \<Rightarrow> (trace, (goerr, ctrl_result) go) state"
where
  "with_helper R S combine v body = do {
     e \<leftarrow> k_new_helper R S v;
     case e of
       Some e \<Rightarrow> ret (Fail e)
     | None \<Rightarrow> do {
         x \<leftarrow> body;
         err \<leftarrow> k_helper_patch R S v (snd x);
         ret (case err of
                None \<Rightarrow> fst x
              | Some err \<Rightarrow>
                  (case fst x of Panic \<Rightarrow> Panic | Fail e \<Rightarrow> Fail (combine (Some e) err) | Ret _ \<Rightarrow> Fail (combine None err)))
       }
   }"

text \<open>Reading the object of a request; one that is gone is no error.\<close>

definition reconcile_get ::
  "'o resource_type \<Rightarrow> server \<Rightarrow> object_key \<Rightarrow> ('o \<Rightarrow> (trace, (goerr, ctrl_result) go) state) \<Rightarrow> (trace, (goerr, ctrl_result) go) state"
where
  "reconcile_get R S req k = do {
     r \<leftarrow> k_get R S req;
     case r of
       Inl e \<Rightarrow> ret (if has_reason NotFound e then Ret no_requeue else Fail e)
     | Inr v \<Rightarrow> k v
   }"

text \<open>Requeueing at an expiration.\<close>

definition until_expiration :: "server \<Rightarrow> gotime option \<Rightarrow> 'o \<Rightarrow> 'o body" where
  "until_expiration S expiration v =
     (case expiration of
        None \<Rightarrow> ret (Ret no_requeue, v)
      | Some e \<Rightarrow> do { now \<leftarrow> k_now S; ret (Ret \<lparr>requeue_after = e - now\<rparr>, v) })"

subsection \<open>Members\<close>

definition member_mark :: "conditions_lib \<Rightarrow> member \<Rightarrow> condition \<Rightarrow> (trace, member) state" where
  "member_mark C m c = do {
     conditions \<leftarrow> observe (\<lambda>t. cl_mark C t (Member_GetConditions m) c);
     ret (Member_SetConditions m conditions)
   }"

text \<open>A failed authorization is recorded in a condition and not returned as an error.\<close>

definition member_reconcileAuthorization :: "conditions_lib \<Rightarrow> server \<Rightarrow> member \<Rightarrow> member body" where
  "member_reconcileAuthorization C S m = do {
     r \<leftarrow> ReconcileMemberAuthorization S m;
     case r of
       Panic \<Rightarrow> ret (Panic, m)
     | Fail e \<Rightarrow> do {
         m \<leftarrow> member_mark C m (marked MemberAuthorizationReadyCondition ConditionFalse MemberAuthorizationInternalErrorReason
                (cl_error_text C e));
         ret (Ret no_requeue, m)
       }
     | Ret _ \<Rightarrow> do {
         m \<leftarrow> member_mark C m (marked MemberAuthorizationReadyCondition ConditionTrue ReadyReason []);
         ret (Ret no_requeue, m)
       }
   }"

definition set_label :: "string gomap \<Rightarrow> string \<Rightarrow> string \<Rightarrow> string gomap" where
  "set_label m k v = Some ((case m of None \<Rightarrow> Map.empty | Some f \<Rightarrow> f)(k \<mapsto> v))"

definition label_member :: "organization \<Rightarrow> member \<Rightarrow> member" where
  "label_member organization m = m\<lparr>member_meta := (member_meta m)\<lparr>om_labels :=
     set_label (set_label (set_label (om_labels (member_meta m)) LabelRoleName (ms_role (member_spec m)))
       LabelUserName (tl_name (ms_user_ref (member_spec m)))) LabelOrganizationName (om_name (organization_meta organization))\<rparr>\<rparr>"

definition non_empty :: "string \<Rightarrow> string option" where
  "non_empty s = (if s = [] then None else Some s)"

definition member_reconcileInfo :: "server \<Rightarrow> member \<Rightarrow> member body" where
  "member_reconcileInfo S m = do {
     r \<leftarrow> GetOrganizationByNamespaceRef S (om_namespace (member_meta m));
     case r of
       Inl e \<Rightarrow> ret (Fail e, m)
     | Inr organization \<Rightarrow>
         (let m = label_member organization m in do {
            r \<leftarrow> k_get R_user S (named (tl_name (ms_user_ref (member_spec m))));
            case r of
              Inl e \<Rightarrow> ret (if has_reason NotFound e then Ret \<lparr>requeue_after = 1 * time_Minute\<rparr> else Fail e, m)
            | Inr user \<Rightarrow> ret (Ret no_requeue, m\<lparr>member_status := (member_status m)\<lparr>
                mst_email := non_empty (us_email (user_spec user)),
                mst_display_name := non_empty (us_display_name (user_spec user))\<rparr>\<rparr>)
          })
   }"

text \<open>The results of the two parts are dropped unless they carry an error.\<close>

definition MemberReconciler_Reconcile ::
  "conditions_lib \<Rightarrow> server \<Rightarrow> object_key \<Rightarrow> (trace, (goerr, ctrl_result) go) state"
where
  "MemberReconciler_Reconcile C S req =
     reconcile_get R_member S req (\<lambda>member.
     if om_deletion (member_meta member) \<noteq> None then ret (Ret no_requeue)
     else with_helper R_member S (\<lambda>reterr e. e) member (do {
       x \<leftarrow> member_reconcileAuthorization C S member;
       case x of
         (Ret _, member) \<Rightarrow> do {
           y \<leftarrow> member_reconcileInfo S member;
           ret (case y of (Ret _, member) \<Rightarrow> (Ret no_requeue, member) | _ \<Rightarrow> y)
         }
       | _ \<Rightarrow> ret x
     }))"

subsection \<open>Invitations\<close>

definition InvitationReconciler_Reconcile :: "server \<Rightarrow> object_key \<Rightarrow> (trace, (goerr, ctrl_result) go) state" where
  "InvitationReconciler_Reconcile S req =
     reconcile_get R_invitation S req (\<lambda>invitation. do {
     expired \<leftarrow> HasExpired S (Invitation_GetExpiration invitation);
     go_bind (if expired then try_delete (k_delete R_invitation S invitation) else ret (Ret ())) (\<lambda>_.
     with_helper R_invitation S aggregate invitation (
       let expiration = Invitation_GetExpiration invitation in
       until_expiration S expiration (invitation\<lparr>invitation_status := (invitation_status invitation)\<lparr>ist_expiration := expiration\<rparr>\<rparr>)))
   })"

subsection \<open>Organizations\<close>

record finalizer_lib =
  fl_add :: "string list \<Rightarrow> string \<Rightarrow> string list \<times> bool"
  fl_remove :: "string list \<Rightarrow> string \<Rightarrow> string list"

definition OrganizationFinalizer :: string where
  "OrganizationFinalizer = ''dockyards.io/backend-controller''"

definition organization_mark :: "conditions_lib \<Rightarrow> organization \<Rightarrow> condition \<Rightarrow> (trace, organization) state" where
  "organization_mark C v c = do {
     conditions \<leftarrow> observe (\<lambda>t. cl_mark C t (Organization_GetConditions v) c);
     ret (Organization_SetConditions v conditions)
   }"

definition reconcileRoleBindings :: "conditions_lib \<Rightarrow> server \<Rightarrow> organization \<Rightarrow> organization body" where
  "reconcileRoleBindings C S v = do {
     r \<leftarrow> ReconcileOrganizationAuthorization S v;
     case r of
       Panic \<Rightarrow> ret (Panic, v)
     | Fail e \<Rightarrow> do {
         v \<leftarrow> organization_mark C v (marked RoleBindingsReadyCondition ConditionFalse RoleBindingReconcileFailedReason (cl_error_text C e));
         ret (Fail e, v)
       }
     | Ret _ \<Rightarrow> do {
         v \<leftarrow> organization_mark C v (marked RoleBindingsReadyCondition ConditionTrue ReadyReason []);
         ret (Ret no_requeue, v)
       }
   }"

definition set_finalizers :: "string list \<Rightarrow> organization \<Rightarrow> organization" where
  "set_finalizers fs v = v\<lparr>organization_meta := (organization_meta v)\<lparr>om_finalizers := fs\<rparr>\<rparr>"

definition organization_reconcileDelete :: "finalizer_lib \<Rightarrow> server \<Rightarrow> organization \<Rightarrow> (trace, (goerr, ctrl_result) go) state" where
  "organization_reconcileDelete F S v =
     go_bind (try_call (k_list R_cluster S (matching_field OwnerReferencesField (om_uid (organization_meta v)) []))) (\<lambda>clusters.
     if length clusters \<noteq> 0 then ret (Ret no_requeue)
     else go_bind (try_call (k_patch R_organization S v
            (set_finalizers (fl_remove F (om_finalizers (organization_meta v)) OrganizationFinalizer) v))) (\<lambda>_.
          ret (Ret no_requeue)))"

definition OrganizationReconciler_Reconcile ::
  "conditions_lib \<Rightarrow> finalizer_lib \<Rightarrow> server \<Rightarrow> object_key \<Rightarrow> (trace, (goerr, ctrl_result) go) state"
where
  "OrganizationReconciler_Reconcile C F S req =
     reconcile_get R_organization S req (\<lambda>organization.
     if om_deletion (organization_meta organization) \<noteq> None then organization_reconcileDelete F S organization
     else do {
       expired \<leftarrow> HasExpired S (Organization_GetExpiration organization);
       if expired then do {
         err \<leftarrow> k_delete R_organization S organization;
         case IgnoreInternalError err of
           Some e \<Rightarrow> ret (Fail e)
         | None \<Rightarrow> ret (Ret (if err_is InternalError err then \<lparr>requeue_after = time_Second\<rparr> else no_requeue))
       }
       else with_helper R_organization S aggregate organization (
         let (finalizers, added) = fl_add F (om_finalizers (organization_meta organization)) OrganizationFinalizer;
             organization = set_finalizers finalizers organization in
         if added then ret (Ret no_requeue, organization)
         else if os_namespace_ref (organization_spec organization) = None then ret (Ret no_requeue, organization)
         else do {
           x \<leftarrow> reconcileRoleBindings C S organization;
           case x of
             (Ret _, organization) \<Rightarrow>
               let expiration = Organization_GetExpiration organization in
               until_expiration S expiration
                 (organization\<lparr>organization_status := (organization_status organization)\<lparr>ost_expiration := expiration\<rparr>\<rparr>)
           | _ \<Rightarrow> ret x
         })
     })"

subsection \<open>Workloads\<close>

definition WorkloadReconciler_Reconcile ::
  "conditions_lib \<Rightarrow> server \<Rightarrow> object_key \<Rightarrow> (trace, (goerr, ctrl_result) go) state"
where
  "WorkloadReconciler_Reconcile C S req =
     reconcile_get R_workload S req (\<lambda>workload.
     with_helper R_workload S aggregate workload (do {
       r \<leftarrow> k_list R_workload_inventory S \<lparr>lo_namespace = om_namespace (workload_meta workload),
              lo_labels = [(LabelWorkloadName, om_name (workload_meta workload))], lo_fields = []\<rparr>;
       case r of
         Inl e \<Rightarrow> ret (Fail e, workload)
       | Inr inventories \<Rightarrow> do {
           let workload = workload\<lparr>workload_status := (workload_status workload)\<lparr>wst_urls := concat (map wis_urls inventories)\<rparr>\<rparr>;
           conditions \<leftarrow> observe (\<lambda>t. cl_mark C t (Workload_GetConditions workload)
             (marked WorkloadInventoryReadyCondition ConditionTrue ReadyReason []));
           ret (Ret no_requeue, Workload_SetConditions workload conditions)
         }
     }))"

text \<open>Which object an inventory or a DNS zone wakes up: the one its label names, in its own namespace.\<close>

definition labelled_request :: "string \<Rightarrow> kobject \<Rightarrow> object_key list" where
  "labelled_request label obj =
     (case map_lookup (om_labels (meta_of obj)) label of
        None \<Rightarrow> []
      | Some n \<Rightarrow> [\<lparr>ok_namespace = om_namespace (meta_of obj), ok_name = n\<rparr>])"

definition workloadInventoryToWorkload :: "kobject \<Rightarrow> object_key list" where
  "workloadInventoryToWorkload = labelled_request LabelWorkloadName"

definition dnsZoneToClusters :: "kobject \<Rightarrow> object_key list" where
  "dnsZoneToClusters = labelled_request LabelClusterName"

subsection \<open>Clusters\<close>

text \<open>A version is a value of any type; \<open>sv_gte\<close> and \<open>sv_gt\<close> compare.\<close>

record 'v semver_lib =
  sv_parse_tolerant :: "string \<Rightarrow> goerr + 'v"
  sv_increment_minor :: "'v \<Rightarrow> goerr + 'v"
  sv_gte :: "'v \<Rightarrow> 'v \<Rightarrow> bool"
  sv_gt :: "'v \<Rightarrow> 'v \<Rightarrow> bool"

definition FeatureClusterUpgrades :: string where "FeatureClusterUpgrades = ''cluster-upgrades''"

fun upgrades_loop :: "'v semver_lib \<Rightarrow> 'v \<Rightarrow> 'v \<Rightarrow> string list \<Rightarrow> cluster_upgrade list \<Rightarrow> cluster_upgrade list" where
  "upgrades_loop V currentVersion maxVersionSkew [] upgrades = upgrades"
| "upgrades_loop V currentVersion maxVersionSkew (version # versions) upgrades =
     (case sv_parse_tolerant V version of
        Inl e \<Rightarrow> upgrades_loop V currentVersion maxVersionSkew versions upgrades
      | Inr newVersion \<Rightarrow>
          if sv_gte V currentVersion newVersion then upgrades_loop V currentVersion maxVersionSkew versions upgrades
          else if sv_gt V newVersion maxVersionSkew then upgrades_loop V currentVersion maxVersionSkew versions upgrades
          else upgrades_loop V currentVersion maxVersionSkew versions (upgrades @ [\<lparr>cu_to = version\<rparr>]))"

definition cluster_mark :: "conditions_lib \<Rightarrow> cluster \<Rightarrow> condition \<Rightarrow> (trace, cluster) state" where
  "cluster_mark C c x = do {
     conditions \<leftarrow> observe (\<lambda>t. cl_mark C t (Cluster_GetConditions c) x);
     ret (Cluster_SetConditions c conditions)
   }"

definition set_upgrades :: "cluster_upgrade list \<Rightarrow> cluster \<Rightarrow> cluster" where
  "set_upgrades us c = c\<lparr>cluster_spec := (cluster_spec c)\<lparr>cs_upgrades := us\<rparr>\<rparr>"

definition reconcileClusterUpgrades :: "conditions_lib \<Rightarrow> 'v semver_lib \<Rightarrow> server \<Rightarrow> cluster \<Rightarrow> cluster body" where
  "reconcileClusterUpgrades C V S c =
     (if cs_version (cluster_spec c) = [] then ret (Ret no_requeue, c)
      else do {
        r \<leftarrow> IsFeatureEnabled S FeatureClusterUpgrades [];
        case r of
          Inl e \<Rightarrow> ret (Fail e, c)
        | Inr False \<Rightarrow> ret (Ret no_requeue, set_upgrades [] c)
        | Inr True \<Rightarrow>
            (case sv_parse_tolerant V (cs_version (cluster_spec c)) of
               Inl e \<Rightarrow> do {
                 c \<leftarrow> cluster_mark C c (marked ClusterUpgradesReadyCondition ConditionFalse ClusterUpgradesReconcileFailedReason
                        (cl_error_text C e));
                 ret (Ret no_requeue, c)
               }
             | Inr currentVersion \<Rightarrow> do {
                 r \<leftarrow> GetDefaultRelease S ReleaseTypeKubernetes;
                 case r of
                   Inl e \<Rightarrow> do {
                     c \<leftarrow> cluster_mark C c (marked ClusterUpgradesReadyCondition ConditionFalse ClusterUpgradesReconcileFailedReason
                            (cl_error_text C e));
                     ret (Fail e, c)
                   }
                 | Inr None \<Rightarrow> do {
                     c \<leftarrow> cluster_mark C c (marked ClusterUpgradesReadyCondition ConditionFalse WaitingForDefaultReleaseReason []);
                     ret (Ret no_requeue, c)
                   }
                 | Inr (Some release) \<Rightarrow>
                     (case sv_increment_minor V currentVersion of
                        Inl e \<Rightarrow> ret (Ret no_requeue, c)
                      | Inr nextMinor \<Rightarrow>
                          (case sv_increment_minor V nextMinor of
                             Inl e \<Rightarrow> ret (Ret no_requeue, c)
                           | Inr maxVersionSkew \<Rightarrow> do {
                               let c = set_upgrades (upgrades_loop V currentVersion maxVersionSkew
                                         (rlst_versions (release_status release)) []) c;
                               c \<leftarrow> cluster_mark C c (marked ClusterUpgradesReadyCondition ConditionTrue ReadyReason []);
                               ret (Ret no_requeue, c)
                             }))
               })
      })"

definition reconcileDNSZones :: "server \<Rightarrow> cluster \<Rightarrow> cluster body" where
  "reconcileDNSZones S c = do {
     r \<leftarrow> k_list R_dns_zone S \<lparr>lo_namespace = om_namespace (cluster_meta c),
            lo_labels = [(LabelClusterName, om_name (cluster_meta c))], lo_fields = []\<rparr>;
     case r of
       Inl e \<Rightarrow> ret (Fail e, c)
     | Inr zones \<Rightarrow> ret (Ret no_requeue, c\<lparr>cluster_status := (cluster_status c)\<lparr>cst_dns_zones := map dzs_name zones\<rparr>\<rparr>)
   }"

text \<open>Running one part after another, the way \<open>if err != nil\<close> does.\<close>

definition body_then :: "'o body \<Rightarrow> ('o \<Rightarrow> 'o body) \<Rightarrow> 'o body" where
  "body_then m k = do { x \<leftarrow> m; case x of (Ret _, v) \<Rightarrow> k v | _ \<Rightarrow> ret x }"

definition ClusterReconciler_Reconcile ::
  "conditions_lib \<Rightarrow> 'v semver_lib \<Rightarrow> server \<Rightarrow> object_key \<Rightarrow> (trace, (goerr, ctrl_result) go) state"
where
  "ClusterReconciler_Reconcile C V S req =
     reconcile_get R_cluster S req (\<lambda>cluster. do {
     expired \<leftarrow> HasExpired S (Cluster_GetExpiration cluster);
     if expired \<and> \<not> cs_block_deletion (cluster_spec cluster)
     then go_bind (try_delete (k_delete R_cluster S cluster)) (\<lambda>_. ret (Ret no_requeue))
     else with_helper R_cluster S aggregate cluster (
       body_then (reconcileClusterUpgrades C V S cluster) (\<lambda>cluster.
       body_then (reconcileDNSZones S cluster) (\<lambda>cluster.
       let expiration = Cluster_GetExpiration cluster in
       until_expiration S expiration (cluster\<lparr>cluster_status := (cluster_status cluster)\<lparr>cst_expiration := expiration\<rparr>\<rparr>))))
   })"

subsection \<open>Properties\<close>

text \<open>The object is stored once, at the end, whatever the body does.\<close>

lemma run_with_helper:
  "run_state (with_helper R S combine v body) t =
     (case sv_new_helper S t (rk_wrap R v) of
        Some e \<Rightarrow> (Fail e, t @ [CNewHelper (rk_wrap R v)])
      | None \<Rightarrow>
          (let (x, t') = run_state body (t @ [CNewHelper (rk_wrap R v)]);
               err = sv_helper S t' (rk_wrap R v) (rk_wrap R (snd x))
           in ((case err of
                  None \<Rightarrow> fst x
                | Some err \<Rightarrow>
                    (case fst x of Panic \<Rightarrow> Panic | Fail e \<Rightarrow> Fail (combine (Some e) err) | Ret _ \<Rightarrow> Fail (combine None err))),
               t' @ [CHelper (rk_wrap R v) (rk_wrap R (snd x))])))"
  by (simp add: with_helper_def run_simps Let_def case_prod_unfold split: option.split)

lemma with_helper_emits:
  assumes "P (CNewHelper (rk_wrap R v))" and "emits P body" and "\<And>w. P (CHelper (rk_wrap R v) (rk_wrap R w))"
  shows "emits P (with_helper R S combine v body)"
  unfolding with_helper_def by (intro appends_intros assms)

text \<open>A cluster or organization is deleted when its time is over.\<close>

definition has_expired :: "server \<Rightarrow> trace \<Rightarrow> gotime option \<Rightarrow> bool" where
  "has_expired S t expiration = (case expiration of None \<Rightarrow> False | Some e \<Rightarrow> sv_now S t > e)"

fun is_delete :: "call \<Rightarrow> bool" where
  "is_delete (CDelete x) = True"
| "is_delete c = False"

lemma cluster_body_keeps:
  "emits (\<lambda>c. \<not> is_delete c) (body_then (reconcileClusterUpgrades C V S cluster) (\<lambda>cluster.
       body_then (reconcileDNSZones S cluster) (\<lambda>cluster.
       let expiration = Cluster_GetExpiration cluster in
       until_expiration S expiration (cluster\<lparr>cluster_status := (cluster_status cluster)\<lparr>cst_expiration := expiration\<rparr>\<rparr>))))"
  unfolding body_then_def reconcileClusterUpgrades_def reconcileDNSZones_def until_expiration_def cluster_mark_def IsFeatureEnabled_def
    GetDefaultRelease_def Let_def
  by (intro appends_intros) simp_all

text \<open>C16 A cluster is deleted exactly when its duration is over and nothing blocks it: a run of the cluster reconciler for a cluster that
  the API server has makes a delete call if and only if the cluster has an expiration in the past and \<open>BlockDeletion\<close> is not
  set; then it deletes that cluster and changes nothing.\<close>

theorem cluster_deleted_iff_expired:
  assumes "sv_get S t ACluster req = Inr (KCluster c)" and "run_state (ClusterReconciler_Reconcile C V S req) t = (r, t @ new)"
  shows "if has_expired S (t @ [CGet ACluster req]) (Cluster_GetExpiration c) \<and> \<not> cs_block_deletion (cluster_spec c)
    then new = [CGet ACluster req, CNow, CDelete (KCluster c)]
    else list_all (\<lambda>x. \<not> is_delete x) new"
proof -
  let ?t = "t @ [CGet ACluster req]" and ?due = "has_expired S (t @ [CGet ACluster req]) (Cluster_GetExpiration c) \<and> \<not> cs_block_deletion (cluster_spec c)"
  show ?thesis
  proof (cases ?due)
    case True
    then obtain e where "Cluster_GetExpiration c = Some e" "e < sv_now S ?t" "\<not> cs_block_deletion (cluster_spec c)"
      by (auto simp: has_expired_def split: option.splits)
    with True assms show ?thesis
      by (auto simp: ClusterReconciler_Reconcile_def reconcile_get_def run_simps R_cluster_simps HasExpired_def run_go_bind split: option.splits)
  next
    case False
    have "emits (\<lambda>x. \<not> is_delete x) (with_helper R_cluster S aggregate c (body_then (reconcileClusterUpgrades C V S c) (\<lambda>cluster.
       body_then (reconcileDNSZones S cluster) (\<lambda>cluster.
       let expiration = Cluster_GetExpiration cluster in
       until_expiration S expiration (cluster\<lparr>cluster_status := (cluster_status cluster)\<lparr>cst_expiration := expiration\<rparr>\<rparr>)))))"
      by (rule with_helper_emits [OF _ cluster_body_keeps]) simp_all
    then obtain more where more: "snd (run_state (with_helper R_cluster S aggregate c (body_then (reconcileClusterUpgrades C V S c) (\<lambda>cluster.
       body_then (reconcileDNSZones S cluster) (\<lambda>cluster.
       let expiration = Cluster_GetExpiration cluster in
       until_expiration S expiration (cluster\<lparr>cluster_status := (cluster_status cluster)\<lparr>cst_expiration := expiration\<rparr>\<rparr>)))))
         (if Cluster_GetExpiration c = None then ?t else ?t @ [CNow]))
       = (if Cluster_GetExpiration c = None then ?t else ?t @ [CNow]) @ more" "\<forall>x \<in> set more. \<not> is_delete x"
      unfolding emits_def by meson
    have "t @ new = (if Cluster_GetExpiration c = None then ?t else ?t @ [CNow]) @ more"
      using assms False more(1)
      by (cases "Cluster_GetExpiration c")
        (auto simp: ClusterReconciler_Reconcile_def reconcile_get_def run_simps R_cluster_simps has_expired_def prod_eq_iff split: if_splits)
    with more(2) False show ?thesis by (auto simp: list_all_iff split: if_splits)
  qed
qed


subsection \<open>Upgrades\<close>

text \<open>Versions as \<open>semver\<close> compares them, without pre-releases and build metadata: major, minor and patch number, in lexicographic
  order. Incrementing the minor number clears the patch number.\<close>

type_synonym version = "nat \<times> nat \<times> nat"

definition triple_semver :: "(string \<Rightarrow> goerr + version) \<Rightarrow> version semver_lib" where
  "triple_semver parse = \<lparr>sv_parse_tolerant = parse,
     sv_increment_minor = (\<lambda>(major, minor, patch). Inr (major, minor + 1, 0)),
     sv_gte = (\<lambda>(a, b, c) (a', b', c'). a' < a \<or> a' = a \<and> (b' < b \<or> b' = b \<and> c' \<le> c)),
     sv_gt = (\<lambda>(a, b, c) (a', b', c'). a' < a \<or> a' = a \<and> (b' < b \<or> b' = b \<and> c' < c))\<rparr>"

definition in_upgrade_window :: "version \<Rightarrow> version \<Rightarrow> bool" where
  "in_upgrade_window current new =
     (case (current, new) of
        ((major, minor, patch), (major', minor', patch')) \<Rightarrow>
          major' = major \<and> (minor' = minor \<and> patch < patch' \<or> minor' = minor + 1 \<or> minor' = minor + 2 \<and> patch' = 0))"

definition offered :: "(string \<Rightarrow> goerr + version) \<Rightarrow> version \<Rightarrow> string list \<Rightarrow> cluster_upgrade list" where
  "offered parse current versions =
     map cluster_upgrade.make (filter (\<lambda>v. case parse v of Inl e \<Rightarrow> False | Inr new \<Rightarrow> in_upgrade_window current new) versions)"

lemma upgrades_loop_offered:
  "upgrades_loop (triple_semver parse) (major, minor, patch) (major, minor + 2, 0) versions us
     = us @ offered parse (major, minor, patch) versions"
  by (induction versions arbitrary: us)
    (auto simp: offered_def triple_semver_def in_upgrade_window_def cluster_upgrade.make_def split: sum.splits)



subsection \<open>Organizations and members\<close>

text \<open>C27 An organization waits for its clusters: as long as the API server holds a cluster owned by a deleted organization, reconciling the
  organization writes nothing, so its finalizer stays; without such a cluster, its only write removes the finalizer of the
  controller from it.\<close>

theorem organization_waits_for_clusters:
  assumes "sv_get S t AOrganization req = Inr (KOrganization v)" and "om_deletion (organization_meta v) \<noteq> None"
    and "indexes_at S (t @ [CGet AOrganization req]) objs"
    and "run_state (OrganizationReconciler_Reconcile C F S req) t = (r, t @ new)"
  shows "filter is_write new =
     (if list_ex (\<lambda>x. kind_of x = ACluster \<and> om_uid (organization_meta v) \<in> or_uid ` set (om_owner_references (meta_of x))) objs then []
      else [CPatch (KOrganization v) (KOrganization (set_finalizers (fl_remove F (om_finalizers (organization_meta v)) OrganizationFinalizer) v))])"
proof -
  let ?opts = "matching_field OwnerReferencesField (om_uid (organization_meta v)) []"
  let ?owned = "filter (\<lambda>c. om_uid (organization_meta v) \<in> or_uid ` set (om_owner_references (cluster_meta c))) (List.map_filter (rk_unwrap R_cluster) objs)"
  have l: "decode_list R_cluster (sv_list S (t @ [CGet AOrganization req]) ACluster ?opts) = Inr ?owned"
    using cluster_resource.list_indexed [OF assms(3), of ?opts] by (simp add: R_cluster_simps matching_field_def)
  have owned: "?owned = [] \<longleftrightarrow> \<not> list_ex (\<lambda>x. kind_of x = ACluster \<and> om_uid (organization_meta v) \<in> or_uid ` set (om_owner_references (meta_of x))) objs"
  proof (induction objs)
    case (Cons x objs)
    then show ?case by (cases x) (simp_all add: R_cluster_def)
  qed simp
  show ?thesis
    using assms(1,2,4) l owned [symmetric]
    by (auto simp: OrganizationReconciler_Reconcile_def reconcile_get_def organization_reconcileDelete_def run_go_bind run_simps
        R_organization_simps R_cluster_simps(1) split: sum.splits go.splits)
qed

text \<open>The labels and the information of a member leave its conditions alone.\<close>

lemma member_conditions_simps [simp]:
  "Member_GetConditions (Member_SetConditions m cs) = cs" "Member_GetConditions (label_member v m) = Member_GetConditions m"
  "Member_GetConditions (m\<lparr>member_status := (member_status m)\<lparr>mst_email := e, mst_display_name := d\<rparr>\<rparr>) = Member_GetConditions m"
  by (simp_all add: Member_GetConditions_def Member_SetConditions_def label_member_def)

lemma member_info_conditions: "Member_GetConditions (snd (fst (run_state (member_reconcileInfo S m) t))) = Member_GetConditions m"
  by (auto simp: member_reconcileInfo_def Let_def case_prod_unfold split: sum.split)

lemma member_authorization_condition:
  assumes "conditions_documented C" and "fst (run_state (ReconcileMemberAuthorization S m) t) \<noteq> Panic"
  shows "\<exists>m'. fst (run_state (member_reconcileAuthorization C S m) t) = (Ret no_requeue, m')
     \<and> (is_true C (Member_GetConditions m') MemberAuthorizationReadyCondition \<longleftrightarrow> fst (run_state (ReconcileMemberAuthorization S m) t) = Ret ())"
  using assms(2)
  by (cases "fst (run_state (ReconcileMemberAuthorization S m) t)")
    (simp_all add: member_reconcileAuthorization_def member_mark_def run_simps case_prod_unfold is_true_mark [OF assms(1)])

text \<open>What a member's condition tells: reconciling a member that exists and is not being deleted ends, when the API server lets it start,
  with storing the member, also after errors; the stored member has the condition of its authorization true exactly when the
  authorization succeeded. Its failure is recorded there and not returned, and no reconciliation that returns without an error
  asks for a requeue, although the part that finds no user for the member asks for one after a minute.\<close>

theorem member_condition_tells:
  assumes "conditions_documented C" and "sv_get S t AMember req = Inr (KMember m)" and "om_deletion (member_meta m) = None"
    and "sv_new_helper S (t @ [CGet AMember req]) (KMember m) = None"
    and "run_state (MemberReconciler_Reconcile C S req) t = (r, t')"
    and "authorized = fst (run_state (ReconcileMemberAuthorization S m) (t @ [CGet AMember req, CNewHelper (KMember m)]))"
    and "authorized \<noteq> Panic"
  shows "(\<exists>pre m'. t' = pre @ [CHelper (KMember m) (KMember m')]
       \<and> (is_true C (Member_GetConditions m') MemberAuthorizationReadyCondition \<longleftrightarrow> authorized = Ret ()))
     \<and> (\<forall>x. r = Ret x \<longrightarrow> x = no_requeue)"
proof -
  let ?t = "t @ [CGet AMember req, CNewHelper (KMember m)]"
  obtain m1 where m1: "fst (run_state (member_reconcileAuthorization C S m) ?t) = (Ret no_requeue, m1)"
    "is_true C (Member_GetConditions m1) MemberAuthorizationReadyCondition \<longleftrightarrow> authorized = Ret ()"
    using member_authorization_condition [OF assms(1), of S m ?t] assms(6,7) by auto
  note info = member_info_conditions [of S m1]
  have "is_true C (Member_GetConditions (snd (fst (run_state (member_reconcileInfo S m1) p)))) MemberAuthorizationReadyCondition
      \<longleftrightarrow> authorized = Ret ()" for p
    using m1(2) by (simp add: info)
  with assms(2-5) m1(1) show ?thesis
    by (auto simp: MemberReconciler_Reconcile_def reconcile_get_def run_with_helper run_simps R_member_simps Let_def case_prod_unfold
        split: go.splits option.splits)
qed


subsection \<open>Concrete runs\<close>

definition old_cluster :: cluster where
  "old_cluster = zero_cluster\<lparr>cluster_spec := (cluster_spec zero_cluster)\<lparr>cs_duration := Some 1\<rparr>\<rparr>"

definition late_server :: server where
  "late_server = empty_server\<lparr>sv_get := (\<lambda>t k n. Inr (KCluster old_cluster)), sv_now := (\<lambda>t. 5)\<rparr>"

lemma cluster_deleted_iff_expired_witness:
  "snd (run_state (ClusterReconciler_Reconcile plain_conditions (triple_semver (\<lambda>s. Inr (1, 0, 0))) late_server (named ''c'')) [])
     = [CGet ACluster (named ''c''), CNow, CDelete (KCluster old_cluster)]"
proof -
  let ?run = "run_state (ClusterReconciler_Reconcile plain_conditions (triple_semver (\<lambda>s. Inr (1, 0, 0))) late_server (named ''c'')) []"
  have e: "has_expired late_server ([] @ [CGet ACluster (named ''c'')]) (Cluster_GetExpiration old_cluster) \<and> \<not> cs_block_deletion (cluster_spec old_cluster)"
    by (simp add: has_expired_def late_server_def old_cluster_def Cluster_GetExpiration_def zero_defs)
  have get: "sv_get late_server [] ACluster (named ''c'') = Inr (KCluster old_cluster)" by (simp add: late_server_def)
  have run: "?run = (fst ?run, [] @ snd ?run)" by simp
  show ?thesis using cluster_deleted_iff_expired [OF get run] unfolding if_P [OF e] by simp
qed

definition sample_release :: release where
  "sample_release = \<lparr>release_meta = empty_meta\<lparr>om_annotations := make_map [(AnnotationDefaultRelease, [])]\<rparr>,
     release_spec = \<lparr>rls_type = ReleaseTypeKubernetes, rls_ranges = []\<rparr>,
     release_status = \<lparr>rlst_latest_version = [], rlst_versions = [''1.30.1'', ''1.32.0'', ''1.32.1'', ''x''], rlst_latest_url = None\<rparr>\<rparr>"

definition sample_versions :: "string \<Rightarrow> goerr + version" where
  "sample_versions s = (if s = ''1.30.0'' then Inr (1, 30, 0) else if s = ''1.30.1'' then Inr (1, 30, 1)
     else if s = ''1.32.0'' then Inr (1, 32, 0) else if s = ''1.32.1'' then Inr (1, 32, 1) else Inl (Plain ''no version''))"

definition sample_cluster :: cluster where
  "sample_cluster = zero_cluster\<lparr>cluster_spec := (cluster_spec zero_cluster)\<lparr>cs_version := ''1.30.0''\<rparr>\<rparr>"

definition release_server :: server where
  "release_server = empty_server\<lparr>sv_list := (\<lambda>t k l. Inr (if k = AFeature
     then [KFeature \<lparr>feature_meta = empty_meta\<lparr>om_name := FeatureClusterUpgrades\<rparr>\<rparr>] else [KRelease sample_release]))\<rparr>"

lemma offered_sample:
  "offered sample_versions (1, 30, 0) (rlst_versions (release_status sample_release)) = [\<lparr>cu_to = ''1.30.1''\<rparr>, \<lparr>cu_to = ''1.32.0''\<rparr>]"
  by (simp add: offered_def sample_release_def sample_versions_def in_upgrade_window_def cluster_upgrade.make_def)


definition leaving :: organization where
  "leaving = zero_organization\<lparr>organization_meta := empty_meta\<lparr>om_uid := ''uid'', om_deletion := Some 0\<rparr>\<rparr>"

definition owned_cluster :: cluster where
  "owned_cluster = zero_cluster\<lparr>cluster_meta := empty_meta\<lparr>om_owner_references := [\<lparr>or_api_version = [], or_kind = OrganizationKind,
     or_name = [], or_uid = ''uid'', or_controller = None, or_block_owner_deletion = None\<rparr>]\<rparr>\<rparr>"

definition leaving_server :: server where
  "leaving_server = empty_server\<lparr>sv_get := (\<lambda>t k n. Inr (KOrganization leaving)), sv_list := answering (\<lambda>t. [KCluster owned_cluster])\<rparr>"

definition plain_finalizers :: finalizer_lib where
  "plain_finalizers = \<lparr>fl_add = (\<lambda>fs f. if f \<in> set fs then (fs, False) else (fs @ [f], True)), fl_remove = (\<lambda>fs f. filter (\<lambda>g. g \<noteq> f) fs)\<rparr>"

lemma organization_waits_for_clusters_witness:
  "filter is_write (snd (run_state (OrganizationReconciler_Reconcile plain_conditions plain_finalizers leaving_server (named ''o'')) [])) = []"
proof -
  let ?run = "run_state (OrganizationReconciler_Reconcile plain_conditions plain_finalizers leaving_server (named ''o'')) []"
  have get: "sv_get leaving_server [] AOrganization (named ''o'') = Inr (KOrganization leaving)" by (simp add: leaving_server_def)
  have deletion: "om_deletion (organization_meta leaving) \<noteq> None" by (simp add: leaving_def)
  have objs: "indexes_at leaving_server ([] @ [CGet AOrganization (named ''o'')]) [KCluster owned_cluster]"
    by (rule indexes_at_answering) (simp add: leaving_server_def)
  have run: "?run = (fst ?run, [] @ snd ?run)" by simp
  show ?thesis
    using organization_waits_for_clusters [OF get deletion objs run] by (simp add: leaving_def owned_cluster_def)
qed

definition closed_server :: server where
  "closed_server = empty_server\<lparr>sv_get := (\<lambda>t k n. Inr (KMember zero_member)), sv_fetch := (\<lambda>t x. Inl (Plain ''closed''))\<rparr>"

lemma member_condition_tells_witness:
  "\<exists>m'. CHelper (KMember zero_member) (KMember m') \<in> set (snd (run_state (MemberReconciler_Reconcile plain_conditions closed_server (named ''m'')) []))
     \<and> \<not> is_true plain_conditions (Member_GetConditions m') MemberAuthorizationReadyCondition"
proof -
  let ?run = "run_state (MemberReconciler_Reconcile plain_conditions closed_server (named ''m'')) []"
  let ?auth = "fst (run_state (ReconcileMemberAuthorization closed_server zero_member) ([] @ [CGet AMember (named ''m''), CNewHelper (KMember zero_member)]))"
  have get: "sv_get closed_server [] AMember (named ''m'') = Inr (KMember zero_member)"
    "sv_new_helper closed_server ([] @ [CGet AMember (named ''m'')]) (KMember zero_member) = None"
    by (simp_all add: closed_server_def empty_server_def)
  have deletion: "om_deletion (member_meta zero_member) = None" by (simp add: zero_defs)
  have auth: "?auth = Fail (Plain ''closed'')"
    by (simp add: ReconcileMemberAuthorization_def run_go_bind run_create_or_patch_any closed_server_def decode_def)
  have run: "?run = (fst ?run, snd ?run)" by simp
  obtain pre m' where "snd ?run = pre @ [CHelper (KMember zero_member) (KMember m')]"
    "is_true plain_conditions (Member_GetConditions m') MemberAuthorizationReadyCondition \<longleftrightarrow> ?auth = Ret ()"
    using member_condition_tells [OF plain_conditions_documented get(1) deletion get(2) run refl] auth by auto
  with auth show ?thesis by (intro exI [of _ m']) simp
qed

end
