(* ===== verification/Organizations.thy ===== *)
theory Organizations
  imports Accounts
begin

text \<open>
  Organizations, members and invitations: \<open>orgs.go\<close>, \<open>members.go\<close> and \<open>invitations.go\<close> of \<open>internal/api/v1/handlers\<close>.
  The parsing and printing of durations (package \<open>time\<close>) are the parameter \<open>duration_lib\<close>. Dereferencing the nil namespace reference of an
  organization panics. A loop of the source that makes calls for each element is a recursion in the state monad.
\<close>

record duration_lib =
  dl_parse :: "string \<Rightarrow> goerr + duration"
  dl_string :: "duration \<Rightarrow> string"

record t_organization_options =
  too_display_name :: "string option"
  too_duration :: "string option"
  too_voucher_code :: "string option"
  too_credential_reference_name :: "string option"

record t_organization =
  to_created_at :: gotime
  to_id :: string
  to_name :: string
  to_display_name :: "string option"
  to_deleted_at :: "gotime option"
  to_duration :: "string option"
  to_updated_at :: "gotime option"
  to_condition :: "string option"
  to_provider_id :: "string option"
  to_voucher_code :: "string option"
  to_expires_at :: "gotime option"
  to_credential_reference_name :: "string option"

record t_member =
  tm_created_at :: gotime
  tm_id :: string
  tm_name :: string
  tm_role :: "string option"

record t_invitation_options =
  tio_email :: string
  tio_role :: string
  tio_duration :: "string option"

record t_invitation =
  ti_created_at :: gotime
  ti_id :: string
  ti_name :: string
  ti_role :: string
  ti_email :: "string option"
  ti_duration :: "string option"
  ti_expires_at :: "gotime option"
  ti_organization_name :: "string option"
  ti_organization_display_name :: "string option"

definition t_organization_of :: "organization \<Rightarrow> t_organization" where
  "t_organization_of organization = \<lparr>to_created_at = om_creation (organization_meta organization),
     to_id = om_uid (organization_meta organization), to_name = om_name (organization_meta organization),
     to_display_name = None, to_deleted_at = None, to_duration = None, to_updated_at = None, to_condition = None,
     to_provider_id = None, to_voucher_code = None, to_expires_at = None, to_credential_reference_name = None\<rparr>"

definition display_name_of :: "organization \<Rightarrow> string option" where
  "display_name_of organization =
     (if os_display_name (organization_spec organization) \<noteq> [] then Some (os_display_name (organization_spec organization)) else None)"

text \<open>The namespace of an organization: a nil reference panics.\<close>

definition namespace_of :: "organization \<Rightarrow> (goerr, string) go" where
  "namespace_of organization =
     (case os_namespace_ref (organization_spec organization) of None \<Rightarrow> Panic | Some ns \<Rightarrow> Ret ns)"

definition organization_owner_ref :: "organization \<Rightarrow> owner_ref" where
  "organization_owner_ref organization = \<lparr>or_api_version = GroupVersion_String, or_kind = OrganizationKind,
     or_name = om_name (organization_meta organization), or_uid = om_uid (organization_meta organization),
     or_controller = None, or_block_owner_deletion = None\<rparr>"

text \<open>An optional duration of a request.\<close>

definition parse_duration :: "duration_lib \<Rightarrow> string option \<Rightarrow> (goerr, duration option) go" where
  "parse_duration D v =
     (case v of None \<Rightarrow> Ret None
      | Some s \<Rightarrow> (case dl_parse D s of Inl e \<Rightarrow> Fail e | Inr d \<Rightarrow> Ret (Some d)))"

subsection \<open>Organizations\<close>

definition listed_organization :: "conditions_lib \<Rightarrow> duration_lib \<Rightarrow> organization \<Rightarrow> t_organization" where
  "listed_organization C D organization =
     (let ready = cl_find C (ost_conditions (organization_status organization)) ReadyCondition in
      (t_organization_of organization)\<lparr>
        to_display_name := display_name_of organization,
        to_deleted_at := om_deletion (organization_meta organization),
        to_duration := map_option (dl_string D) (os_duration (organization_spec organization)),
        to_updated_at := map_option c_transition ready,
        to_condition := map_option c_reason ready\<rparr>)"

fun organizations_loop ::
  "conditions_lib \<Rightarrow> duration_lib \<Rightarrow> server \<Rightarrow> member list \<Rightarrow> t_organization list \<Rightarrow> (trace, (goerr, t_organization list) go) state"
where
  "organizations_loop C D S [] organizations = ret (Ret organizations)"
| "organizations_loop C D S (member # members) organizations =
     (case map_lookup (om_labels (member_meta member)) LabelOrganizationName of
        None \<Rightarrow> organizations_loop C D S members organizations
      | Some organizationName \<Rightarrow>
          go_bind (try_call (k_get R_organization S (named organizationName))) (\<lambda>organization.
          organizations_loop C D S members (organizations @ [listed_organization C D organization])))"

definition ListGlobalOrganizations ::
  "conditions_lib \<Rightarrow> duration_lib \<Rightarrow> server \<Rightarrow> goerr + string \<Rightarrow> (trace, (goerr, t_organization list) go) state"
where
  "ListGlobalOrganizations C D S sub =
     (case sub of
        Inl e \<Rightarrow> ret (Fail e)
      | Inr subject \<Rightarrow>
          go_bind (try_call (k_list R_member S \<lparr>lo_namespace = [], lo_labels = [(LabelUserName, subject)], lo_fields = []\<rparr>)) (\<lambda>members.
          organizations_loop C D S members []))"

definition invalid_organization :: goerr where
  "invalid_organization = NewInvalid [] []"

text \<open>The voucher a request names: the code of the one unredeemed voucher with this code in the system namespace.\<close>

definition find_voucher :: "server \<Rightarrow> string \<Rightarrow> string option \<Rightarrow> (trace, (goerr, string option) go) state" where
  "find_voucher S systemNamespace voucherCode =
     (case voucherCode of
        None \<Rightarrow> ret (Ret None)
      | Some code \<Rightarrow>
          go_bind (try_call (k_list R_organization_voucher S (matching_field CodeField code systemNamespace))) (\<lambda>vouchers.
          case vouchers of
            [organizationVoucher] \<Rightarrow>
              if ovst_redeemed (organization_voucher_status organizationVoucher) then ret (Fail invalid_organization)
              else ret (Ret (Some (ovs_code (organization_voucher_spec organizationVoucher))))
          | _ \<Rightarrow> ret (Fail invalid_organization)))"

definition new_organization :: "string \<Rightarrow> string option \<Rightarrow> duration option \<Rightarrow> string option \<Rightarrow> organization" where
  "new_organization ns displayName duration voucher = zero_organization\<lparr>
     organization_meta := empty_meta\<lparr>om_name := ns, om_labels := make_map [(LabelOrganizationName, ns)],
       om_annotations := map_option (\<lambda>code. [AnnotationVoucherCode \<mapsto> code]) voucher\<rparr>,
     organization_spec := (organization_spec zero_organization)\<lparr>
       os_namespace_ref := Some ns, os_provider_id := Some ProviderPrefixDockyards,
       os_display_name := (case displayName of None \<Rightarrow> [] | Some n \<Rightarrow> n), os_duration := duration\<rparr>\<rparr>"

definition new_member :: "string \<Rightarrow> string \<Rightarrow> string \<Rightarrow> string \<Rightarrow> member" where
  "new_member ns organizationName role userName = zero_member\<lparr>
     member_meta := empty_meta\<lparr>om_name := userName, om_namespace := ns,
       om_labels := make_map [(LabelRoleName, role), (LabelOrganizationName, organizationName), (LabelUserName, userName)]\<rparr>,
     member_spec := \<lparr>ms_role = role,
       ms_user_ref = \<lparr>tl_api_group = Some GroupVersion_Group, tl_kind = UserKind, tl_name = userName\<rparr>\<rparr>\<rparr>"

definition CreateGlobalOrganization ::
  "duration_lib \<Rightarrow> server \<Rightarrow> string \<Rightarrow> goerr + string \<Rightarrow> t_organization_options \<Rightarrow> (trace, (goerr, t_organization) go) state"
where
  "CreateGlobalOrganization D S systemNamespace sub request =
     (case sub of
        Inl e \<Rightarrow> ret (Fail e)
      | Inr subject \<Rightarrow>
          go_bind (try_call (k_get R_user S (named subject))) (\<lambda>user.
          go_bind (try_call (k_create R_namespace S \<lparr>nsp_meta = empty_meta\<lparr>om_generate_name := ''dockyards-''\<rparr>\<rparr>)) (\<lambda>namespace.
          let ns = om_name (nsp_meta namespace) in
          go_bind (ret (parse_duration D (too_duration request))) (\<lambda>duration.
          go_bind (find_voucher S systemNamespace (too_voucher_code request)) (\<lambda>voucher.
          go_bind (try_call (k_create R_organization S (new_organization ns (too_display_name request) duration voucher))) (\<lambda>organization.
          let owned = namespace\<lparr>nsp_meta := (nsp_meta namespace)\<lparr>
                om_owner_references := [organization_owner_ref organization],
                om_labels := make_map [(LabelOrganizationName, om_name (organization_meta organization))]\<rparr>\<rparr> in
          go_bind (try_call (k_patch R_namespace S namespace owned)) (\<lambda>namespace.
          let response = (t_organization_of organization)\<lparr>to_display_name := display_name_of organization\<rparr> in
          go_bind (try_call (k_create R_member S (new_member (om_name (nsp_meta namespace)) (om_name (nsp_meta namespace))
            RoleSuperUser (om_name (user_meta user))))) (\<lambda>_.
          ret (Ret response)))))))))"

definition DeleteGlobalOrganization :: "server \<Rightarrow> string \<Rightarrow> (trace, (goerr, unit) go) state" where
  "DeleteGlobalOrganization S resourceName =
     go_bind (try_call (k_get R_organization S (named resourceName))) (\<lambda>organization.
     go_bind (try_delete (k_delete R_organization S organization)) (\<lambda>_. ret (Ret ())))"

definition shown_organization :: "conditions_lib \<Rightarrow> organization \<Rightarrow> t_organization" where
  "shown_organization C organization =
     (let ready = cl_find C (ost_conditions (organization_status organization)) ReadyCondition in
      (t_organization_of organization)\<lparr>
        to_updated_at := map_option c_transition ready,
        to_condition := map_option c_reason ready,
        to_display_name := display_name_of organization,
        to_provider_id := os_provider_id (organization_spec organization),
        to_voucher_code := map_lookup (om_annotations (organization_meta organization)) AnnotationVoucherCode,
        to_expires_at := Organization_GetExpiration organization,
        to_deleted_at := om_deletion (organization_meta organization),
        to_credential_reference_name :=
          map_option (\<lambda>ref. TrimPrefix (tr_name ref) ''credential-'') (os_credential_ref (organization_spec organization))\<rparr>)"

definition GetGlobalOrganization :: "conditions_lib \<Rightarrow> server \<Rightarrow> string \<Rightarrow> (trace, (goerr, t_organization) go) state" where
  "GetGlobalOrganization C S organizationName =
     go_bind (try_call (k_get R_organization S (named organizationName))) (\<lambda>organization.
     ret (Ret (shown_organization C organization)))"

definition UpdateGlobalOrganization ::
  "duration_lib \<Rightarrow> server \<Rightarrow> string \<Rightarrow> t_organization_options \<Rightarrow> (trace, (goerr, unit) go) state"
where
  "UpdateGlobalOrganization D S organizationName request =
     go_bind (try_call (k_get R_organization S (named organizationName))) (\<lambda>organization.
     case os_namespace_ref (organization_spec organization) of
       None \<Rightarrow> ret (Fail (Plain ''qwfp''))
     | Some ns \<Rightarrow>
         let spec = organization_spec organization;
             spec = (case too_display_name request of None \<Rightarrow> spec | Some n \<Rightarrow> spec\<lparr>os_display_name := n\<rparr>);
             spec = (case too_credential_reference_name request of None \<Rightarrow> spec
                     | Some n \<Rightarrow> spec\<lparr>os_credential_ref := Some \<lparr>tr_api_group = None, tr_kind = ''Secret'',
                         tr_name = ''credential-'' @ n, tr_namespace = Some ns\<rparr>\<rparr>) in
         go_bind (ret (parse_duration D (too_duration request))) (\<lambda>duration.
         let spec = (case duration of None \<Rightarrow> spec | Some d \<Rightarrow> spec\<lparr>os_duration := Some d\<rparr>) in
         if too_display_name request = None \<and> too_credential_reference_name request = None \<and> too_duration request = None
         then ret (Ret ())
         else go_bind (try_call (k_patch R_organization S organization (organization\<lparr>organization_spec := spec\<rparr>))) (\<lambda>_.
              ret (Ret ()))))"

subsection \<open>Members\<close>

text \<open>The time shown for a member is the one of the organization.\<close>

fun members_loop ::
  "server \<Rightarrow> organization \<Rightarrow> member list \<Rightarrow> t_member list \<Rightarrow> (trace, (goerr, t_member list) go) state"
where
  "members_loop S organization [] response = ret (Ret response)"
| "members_loop S organization (member # members) response =
     go_bind (try_call (k_get R_user S (named (tl_name (ms_user_ref (member_spec member)))))) (\<lambda>user.
     members_loop S organization members (response @ [\<lparr>tm_created_at = om_creation (organization_meta organization),
       tm_id = om_uid (user_meta user), tm_name = om_name (member_meta member), tm_role = Some (ms_role (member_spec member))\<rparr>]))"

definition ListOrganizationMembers :: "server \<Rightarrow> organization \<Rightarrow> (trace, (goerr, t_member list) go) state" where
  "ListOrganizationMembers S organization =
     go_bind (ret (namespace_of organization)) (\<lambda>ns.
     go_bind (try_call (k_list R_member S (in_namespace ns))) (\<lambda>members.
     members_loop S organization members []))"

definition DeleteOrganizationMember ::
  "server \<Rightarrow> goerr + string \<Rightarrow> organization \<Rightarrow> string \<Rightarrow> (trace, (goerr, unit) go) state"
where
  "DeleteOrganizationMember S sub organization memberName =
     go_bind (ret (namespace_of organization)) (\<lambda>ns.
     go_bind (ret (if memberName = ''@me'' then go_of_sum sub else Ret memberName)) (\<lambda>name.
     go_bind (try_call (k_get R_member S \<lparr>ok_namespace = ns, ok_name = name\<rparr>)) (\<lambda>member.
     go_bind (try_delete (k_delete R_member S member)) (\<lambda>_. ret (Ret ())))))"

subsection \<open>Invitations\<close>

definition new_invitation :: "organization \<Rightarrow> string \<Rightarrow> t_invitation_options \<Rightarrow> duration option \<Rightarrow> invitation" where
  "new_invitation organization ns request duration = zero_invitation\<lparr>
     invitation_meta := empty_meta\<lparr>om_generate_name := ''pending-'', om_namespace := ns,
       om_owner_references := [organization_owner_ref organization],
       om_labels := make_map [(LabelOrganizationName, om_name (organization_meta organization)), (LabelRoleName, tio_role request)]\<rparr>,
     invitation_spec := (invitation_spec zero_invitation)\<lparr>is_email := tio_email request, is_role := tio_role request,
       is_duration := duration\<rparr>\<rparr>"

definition t_invitation_of :: "invitation \<Rightarrow> t_invitation" where
  "t_invitation_of i = \<lparr>ti_created_at = om_creation (invitation_meta i), ti_id = om_uid (invitation_meta i),
     ti_name = om_name (invitation_meta i), ti_role = is_role (invitation_spec i), ti_email = None, ti_duration = None,
     ti_expires_at = None, ti_organization_name = None, ti_organization_display_name = None\<rparr>"

definition CreateOrganizationInvitation ::
  "duration_lib \<Rightarrow> server \<Rightarrow> organization \<Rightarrow> t_invitation_options \<Rightarrow> (trace, (goerr, t_invitation) go) state"
where
  "CreateOrganizationInvitation D S organization request =
     go_bind (ret (namespace_of organization)) (\<lambda>ns.
     go_bind (ret (parse_duration D (tio_duration request))) (\<lambda>duration.
     go_bind (try_call (k_create R_invitation S (new_invitation organization ns request duration))) (\<lambda>invitation.
     ret (Ret (t_invitation_of invitation)))))"

definition DeleteOrganizationInvitation :: "server \<Rightarrow> organization \<Rightarrow> string \<Rightarrow> (trace, (goerr, unit) go) state" where
  "DeleteOrganizationInvitation S organization invitationName =
     go_bind (ret (namespace_of organization)) (\<lambda>ns.
     go_bind (try_call (k_get R_invitation S \<lparr>ok_namespace = ns, ok_name = invitationName\<rparr>)) (\<lambda>invitation.
     go_bind (try_delete (k_delete R_invitation S invitation)) (\<lambda>_. ret (Ret ()))))"

definition listed_invitation :: "duration_lib \<Rightarrow> invitation \<Rightarrow> t_invitation" where
  "listed_invitation D i = (t_invitation_of i)\<lparr>ti_email := Some (is_email (invitation_spec i)),
     ti_duration := map_option (dl_string D) (is_duration (invitation_spec i)),
     ti_expires_at := Invitation_GetExpiration i\<rparr>"

definition ListOrganizationInvitations ::
  "duration_lib \<Rightarrow> server \<Rightarrow> organization \<Rightarrow> (trace, (goerr, t_invitation list) go) state"
where
  "ListOrganizationInvitations D S organization =
     go_bind (ret (namespace_of organization)) (\<lambda>ns.
     go_bind (try_call (k_list R_invitation S (in_namespace ns))) (\<lambda>invitations.
     ret (Ret (map (listed_invitation D) invitations))))"

text \<open>The invitations of the subject that have not expired, with their organizations.\<close>

fun invitations_loop ::
  "api_lib \<Rightarrow> server \<Rightarrow> invitation list \<Rightarrow> t_invitation list \<Rightarrow> (trace, (goerr, t_invitation list) go) state"
where
  "invitations_loop L S [] response = ret (Ret response)"
| "invitations_loop L S (item # items) response = do {
     expired \<leftarrow> HasExpired S (Invitation_GetExpiration item);
     if expired then invitations_loop L S items response
     else do {
       r \<leftarrow> GetOwnerOrganization L S (invitation_meta item);
       case r of
         Inl e \<Rightarrow> if has_reason NotFound e then invitations_loop L S items response else ret (Fail e)
       | Inr organization \<Rightarrow> invitations_loop L S items (response @ [(t_invitation_of item)\<lparr>
           ti_organization_name := Some (om_name (organization_meta organization)),
           ti_organization_display_name := display_name_of organization\<rparr>])
     }
   }"

definition ListGlobalInvitations ::
  "api_lib \<Rightarrow> server \<Rightarrow> goerr + string \<Rightarrow> (trace, (goerr, t_invitation list) go) state"
where
  "ListGlobalInvitations L S sub =
     (case sub of
        Inl e \<Rightarrow> ret (Fail e)
      | Inr subject \<Rightarrow>
          go_bind (try_call (k_get R_user S (named subject))) (\<lambda>user.
          go_bind (try_call (k_list R_invitation S (matching_field EmailField (us_email (user_spec user)) []))) (\<lambda>invitations.
          invitations_loop L S invitations [])))"

text \<open>What \<open>DeleteGlobalInvitation\<close> and \<open>UpdateGlobalInvitation\<close> start with: the organization, the subject's user and the one
  invitation of that user in the organization's namespace.\<close>

definition own_invitation ::
  "server \<Rightarrow> goerr + string \<Rightarrow> string \<Rightarrow> (string \<Rightarrow> user \<Rightarrow> invitation \<Rightarrow> (trace, (goerr, 'a) go) state)
   \<Rightarrow> (trace, (goerr, 'a) go) state"
where
  "own_invitation S sub organizationName k =
     go_bind (try_call (k_get R_organization S (named organizationName))) (\<lambda>organization.
     case sub of
       Inl e \<Rightarrow> ret (Fail e)
     | Inr subject \<Rightarrow>
         go_bind (try_call (k_get R_user S (named subject))) (\<lambda>user.
         go_bind (ret (namespace_of organization)) (\<lambda>ns.
         go_bind (try_call (k_list R_invitation S (matching_field EmailField (us_email (user_spec user)) ns))) (\<lambda>invitations.
         case invitations of
           [invitation] \<Rightarrow> k ns user invitation
         | _ \<Rightarrow> ret (Fail (NewUnauthorized ''unexpected invitations count''))))))"

definition DeleteGlobalInvitation :: "server \<Rightarrow> goerr + string \<Rightarrow> string \<Rightarrow> (trace, (goerr, unit) go) state" where
  "DeleteGlobalInvitation S sub invitationName =
     own_invitation S sub invitationName (\<lambda>ns user invitation.
     go_bind (try_delete (k_delete R_invitation S invitation)) (\<lambda>_. ret (Ret ())))"

text \<open>Accepting an invitation. The options of the request are not used.\<close>

definition UpdateGlobalInvitation :: "server \<Rightarrow> goerr + string \<Rightarrow> string \<Rightarrow> (trace, (goerr, unit) go) state" where
  "UpdateGlobalInvitation S sub organizationName =
     own_invitation S sub organizationName (\<lambda>ns user invitation.
     go_bind (try_call (k_create R_member S (new_member ns organizationName (is_role (invitation_spec invitation))
       (om_name (user_meta user))))) (\<lambda>_.
     go_bind (try_delete (k_delete R_invitation S invitation)) (\<lambda>_. ret (Ret ()))))"

end
