(* ===== verification/Node_Pools.thy ===== *)
theory Node_Pools
  imports Apiutil Names
begin

text \<open>
  The node pool endpoints of \<open>internal/api/v1/handlers/node_pools.go\<close>. The request and response types come from
  the package \<open>types\<close> of another repository; the records here have the fields the source uses, a
  pointer field as an option. A function that returns a pointer and an error yields \<open>Ret (Some x)\<close>,
  \<open>Ret None\<close> for two nils, \<open>Fail e\<close>, or \<open>Panic\<close>.

  \<open>resource.Quantity\<close> is opaque; its parsing, printing, comparison and construction are the parameter
  \<open>quantity_lib\<close>. A Go \<open>int\<close> of a request is an \<open>int\<close>, \<open>int32(n)\<close> is \<open>word_of_int n\<close> and \<open>int(r)\<close> of an \<open>int32\<close> is
  \<open>sint r\<close>. Logging is left out.
\<close>

record quantity_lib =
  ql_parse :: "string \<Rightarrow> goerr + quantity"
  ql_new_decimal :: "int \<Rightarrow> quantity"
  ql_new_binary :: "int \<Rightarrow> quantity"
  ql_string :: "quantity \<Rightarrow> string"
  ql_value :: "quantity \<Rightarrow> int"
  ql_is_zero :: "quantity \<Rightarrow> bool"
  ql_equal :: "quantity \<Rightarrow> quantity \<Rightarrow> bool"
  ql_zero :: quantity

record t_storage_resource =
  tsr_name :: string
  tsr_quantity :: string
  tsr_type :: "string option"

record t_node_pool_options =
  tno_control_plane :: "bool option"
  tno_control_plane_components_only :: "bool option"
  tno_cpu_count :: "int option"
  tno_disk_size :: "string option"
  tno_load_balancer :: "bool option"
  tno_name :: "string option"
  tno_node_labels :: "string gomap option"
  tno_quantity :: "int option"
  tno_ram_size :: "string option"
  tno_storage_resources :: "t_storage_resource list option"

record t_node =
  tn_created_at :: gotime
  tn_id :: string
  tn_name :: string

record t_node_pool =
  tnp_created_at :: gotime
  tnp_deleted_at :: "gotime option"
  tnp_id :: string
  tnp_name :: string
  tnp_cpu_count :: "int option"
  tnp_disk_size :: "string option"
  tnp_ram_size :: "string option"
  tnp_quantity :: "int option"
  tnp_nodes :: "t_node list option"
  tnp_control_plane :: "bool option"
  tnp_load_balancer :: "bool option"
  tnp_control_plane_components_only :: "bool option"
  tnp_storage_resources :: "t_storage_resource list option"

definition maxReplicas :: int where "maxReplicas = 9"

definition NodeKind :: string where "NodeKind = ''Node''"

text \<open>The keys of a resource list.\<close>

definition ResourceCPU :: string where "ResourceCPU = ''cpu''"
definition ResourceStorage :: string where "ResourceStorage = ''storage''"
definition ResourceMemory :: string where "ResourceMemory = ''memory''"

definition resource_or_zero :: "quantity_lib \<Rightarrow> quantity gomap \<Rightarrow> string \<Rightarrow> quantity" where
  "resource_or_zero Q m k = (case map_lookup m k of None \<Rightarrow> ql_zero Q | Some q \<Rightarrow> q)"

text \<open>\<open>apierrors.NewInvalid(kind, "", nil)\<close>.\<close>

definition invalid :: goerr where
  "invalid = NewInvalid [] []"

subsection \<open>Rendering\<close>

definition toV1Node :: "node \<Rightarrow> t_node" where
  "toV1Node n = \<lparr>tn_created_at = om_creation (node_meta n), tn_id = om_uid (node_meta n), tn_name = om_name (node_meta n)\<rparr>"

definition toV1StorageResource :: "quantity_lib \<Rightarrow> storage_resource \<Rightarrow> t_storage_resource" where
  "toV1StorageResource Q r = \<lparr>tsr_name = sr_name r, tsr_quantity = ql_string Q (sr_quantity r),
     tsr_type = (if sr_type r \<noteq> [] then Some (sr_type r) else None)\<rparr>"

definition toV1NodePool :: "quantity_lib \<Rightarrow> node_pool \<Rightarrow> node list option \<Rightarrow> t_node_pool" where
  "toV1NodePool Q p nodes =
     (let spec = node_pool_spec p;
          cpu = resource_or_zero Q (np_resources spec) ResourceCPU;
          storage = resource_or_zero Q (np_resources spec) ResourceStorage;
          memory = resource_or_zero Q (np_resources spec) ResourceMemory
      in \<lparr>tnp_created_at = om_creation (node_pool_meta p), tnp_deleted_at = None,
          tnp_id = om_uid (node_pool_meta p), tnp_name = om_name (node_pool_meta p),
          tnp_cpu_count = (if \<not> ql_is_zero Q cpu then Some (ql_value Q cpu) else None),
          tnp_disk_size = (if \<not> ql_is_zero Q storage then Some (ql_string Q storage) else None),
          tnp_ram_size = (if \<not> ql_is_zero Q memory then Some (ql_string Q memory) else None),
          tnp_quantity = map_option sint (np_replicas spec),
          tnp_nodes = (case nodes of None \<Rightarrow> None | Some ns \<Rightarrow> if length ns > 0 then Some (map toV1Node ns) else None),
          tnp_control_plane = (if np_control_plane spec then Some True else None),
          tnp_load_balancer = (if np_load_balancer spec then Some True else None),
          tnp_control_plane_components_only = (if np_dedicated_role spec then Some True else None),
          tnp_storage_resources = map_option (map (toV1StorageResource Q)) (np_storage_resources spec)\<rparr>)"

subsection \<open>Get, list, delete\<close>

definition matching_label :: "string \<Rightarrow> string \<Rightarrow> string \<Rightarrow> list_opts" where
  "matching_label k v ns = \<lparr>lo_namespace = ns, lo_labels = [(k, v)], lo_fields = []\<rparr>"

text \<open>The nodes are listed by label in all namespaces.\<close>

definition GetClusterNodePool ::
  "quantity_lib \<Rightarrow> server \<Rightarrow> cluster \<Rightarrow> string \<Rightarrow> (trace, (goerr, t_node_pool option) go) state"
where
  "GetClusterNodePool Q S c nodePoolName =
     go_bind (try_call (k_get R_node_pool S \<lparr>ok_namespace = om_namespace (cluster_meta c), ok_name = nodePoolName\<rparr>)) (\<lambda>p.
     go_bind (try_call (k_list R_node S (matching_label LabelNodePoolName (om_name (node_pool_meta p)) []))) (\<lambda>nodes.
     ret (Ret (Some (toV1NodePool Q p (Some nodes))))))"

definition DeleteClusterNodePool :: "server \<Rightarrow> cluster \<Rightarrow> string \<Rightarrow> (trace, (goerr, unit) go) state" where
  "DeleteClusterNodePool S c nodePoolName =
     go_bind (try_call (k_get R_node_pool S \<lparr>ok_namespace = om_namespace (cluster_meta c), ok_name = nodePoolName\<rparr>)) (\<lambda>p.
     go_bind (try_delete (k_delete R_node_pool S p)) (\<lambda>_.
     ret (Ret ())))"

definition listed_node_pool :: "node_pool \<Rightarrow> t_node_pool" where
  "listed_node_pool p = \<lparr>tnp_created_at = om_creation (node_pool_meta p), tnp_deleted_at = om_deletion (node_pool_meta p),
     tnp_id = om_uid (node_pool_meta p), tnp_name = om_name (node_pool_meta p),
     tnp_cpu_count = None, tnp_disk_size = None, tnp_ram_size = None,
     tnp_quantity = map_option sint (np_replicas (node_pool_spec p)), tnp_nodes = None, tnp_control_plane = None,
     tnp_load_balancer = None, tnp_control_plane_components_only = None, tnp_storage_resources = None\<rparr>"

definition ListClusterNodePools :: "server \<Rightarrow> cluster \<Rightarrow> (trace, (goerr, t_node_pool list option) go) state" where
  "ListClusterNodePools S c =
     go_bind (try_call (k_list R_node_pool S
       (matching_label LabelClusterName (om_name (cluster_meta c)) (om_namespace (cluster_meta c))))) (\<lambda>pools.
     ret (Ret (Some (map listed_node_pool pools))))"

subsection \<open>Create\<close>

text \<open>Appending to the storage resources of a specification, which start as nil.\<close>

fun storage_options_loop ::
  "quantity_lib \<Rightarrow> t_storage_resource list \<Rightarrow> storage_resource list option \<Rightarrow> goerr + storage_resource list option"
where
  "storage_options_loop Q [] acc = Inr acc"
| "storage_options_loop Q (r # rs) acc =
     (case ql_parse Q (tsr_quantity r) of
        Inl e \<Rightarrow> Inl e
      | Inr quantity \<Rightarrow>
          storage_options_loop Q rs
            (Some ((case acc of None \<Rightarrow> [] | Some l \<Rightarrow> l)
                   @ [\<lparr>sr_name = tsr_name r, sr_type = (case tsr_type r of None \<Rightarrow> [] | Some t \<Rightarrow> t), sr_quantity = quantity\<rparr>])))"

text \<open>Parsing an optional quantity into a resource list that is not nil.\<close>

definition put_parsed :: "quantity_lib \<Rightarrow> string \<Rightarrow> string option \<Rightarrow> (string \<rightharpoonup> quantity) \<Rightarrow> goerr + (string \<rightharpoonup> quantity)" where
  "put_parsed Q k v m =
     (case v of None \<Rightarrow> Inr m
      | Some s \<Rightarrow> (case ql_parse Q s of Inl e \<Rightarrow> Inl e | Inr q \<Rightarrow> Inr (m(k \<mapsto> q))))"

definition cluster_owner :: "bool option \<Rightarrow> cluster \<Rightarrow> owner_ref" where
  "cluster_owner blocks c = \<lparr>or_api_version = GroupVersion_String, or_kind = ClusterKind, or_name = om_name (cluster_meta c),
     or_uid = om_uid (cluster_meta c), or_controller = None, or_block_owner_deletion = blocks\<rparr>"

definition node_pool_object_meta :: "bool option \<Rightarrow> cluster \<Rightarrow> organization \<Rightarrow> string \<Rightarrow> object_meta" where
  "node_pool_object_meta blocks c organization name = empty_meta\<lparr>om_name := name, om_namespace := om_namespace (cluster_meta c),
     om_owner_references := [cluster_owner blocks c],
     om_labels := make_map [(LabelOrganizationName, om_name (organization_meta organization)),
       (LabelClusterName, om_name (cluster_meta c)), (LabelNodePoolName, name)]\<rparr>"

definition or_false :: "bool option \<Rightarrow> bool" where
  "or_false b = (case b of None \<Rightarrow> False | Some v \<Rightarrow> v)"

definition CreateClusterNodePool ::
  "quantity_lib \<Rightarrow> api_lib \<Rightarrow> server \<Rightarrow> cluster \<Rightarrow> t_node_pool_options \<Rightarrow> (trace, (goerr, t_node_pool option) go) state"
where
  "CreateClusterNodePool Q L S c request =
     (case tno_name request of
        None \<Rightarrow> ret (Ret None)
      | Some requestName \<Rightarrow>
          (case tno_quantity request of
             None \<Rightarrow> ret Panic
           | Some nodePoolQuantity \<Rightarrow>
               if nodePoolQuantity > maxReplicas then ret (Fail invalid)
               else go_bind (ret (go_of_sum (put_parsed Q ResourceMemory (tno_ram_size request) Map.empty))) (\<lambda>resources.
               let resources = (case tno_cpu_count request of None \<Rightarrow> resources
                                | Some n \<Rightarrow> resources(ResourceCPU \<mapsto> ql_new_decimal Q n)) in
               go_bind (ret (go_of_sum (put_parsed Q ResourceStorage (tno_disk_size request) resources))) (\<lambda>resources.
               go_bind (try_call (GetOwnerOrganization L S (cluster_meta c))) (\<lambda>organization.
               let name = om_name (cluster_meta c) @ ''-'' @ requestName in
               go_bind (ret (go_of_sum (case tno_storage_resources request of None \<Rightarrow> Inr None
                                        | Some rs \<Rightarrow> storage_options_loop Q rs None))) (\<lambda>storage.
               let nodePool = zero_node_pool\<lparr>
                     node_pool_meta := node_pool_object_meta None c organization name,
                     node_pool_spec := zero_node_pool_spec\<lparr>
                       np_replicas := Some (word_of_int nodePoolQuantity),
                       np_resources := Some resources,
                       np_control_plane := or_false (tno_control_plane request),
                       np_load_balancer := or_false (tno_load_balancer request),
                       np_dedicated_role := or_false (tno_control_plane_components_only request),
                       np_storage_resources := storage\<rparr>\<rparr> in
               go_bind (try_call (k_create R_node_pool S nodePool)) (\<lambda>created.
               ret (Ret (Some (toV1NodePool Q created None))))))))))"

subsection \<open>Update\<close>

fun nodePoolStorageResourcesFromStorageResources ::
  "quantity_lib \<Rightarrow> t_storage_resource list \<Rightarrow> goerr + storage_resource list"
where
  "nodePoolStorageResourcesFromStorageResources Q [] = Inr []"
| "nodePoolStorageResourcesFromStorageResources Q (item # items) =
     (case ql_parse Q (tsr_quantity item) of
        Inl e \<Rightarrow> Inl e
      | Inr quantity \<Rightarrow>
          (let resourceType = (case tsr_type item of None \<Rightarrow> StorageResourceTypeHostPath | Some t \<Rightarrow> t) in
           if resourceType \<noteq> StorageResourceTypeHostPath then Inl (Plain ''invalid storage type'')
           else if \<not> snd (IsValidName (tsr_name item)) then Inl (Plain (fst (IsValidName (tsr_name item))))
           else (case nodePoolStorageResourcesFromStorageResources Q items of
                   Inl e \<Rightarrow> Inl e
                 | Inr rest \<Rightarrow> Inr (\<lparr>sr_name = tsr_name item, sr_type = resourceType, sr_quantity = quantity\<rparr> # rest))))"

text \<open>Setting a resource in the list of the stored node pool; a nil list panics.\<close>

definition put_resource :: "string \<Rightarrow> quantity \<Rightarrow> node_pool \<Rightarrow> (goerr, node_pool) go" where
  "put_resource k q p =
     (case map_put (np_resources (node_pool_spec p)) k q of
        None \<Rightarrow> Panic
      | Some m \<Rightarrow> Ret (p\<lparr>node_pool_spec := (node_pool_spec p)\<lparr>np_resources := m\<rparr>\<rparr>))"

text \<open>The changes of \<open>UpdateClusterNodePool\<close> to the object it has read, in the order of the code.\<close>

definition set_replicas :: "int option \<Rightarrow> node_pool \<Rightarrow> (goerr, node_pool) go" where
  "set_replicas quantity p =
     (case quantity of
        None \<Rightarrow> Ret p
      | Some replicas \<Rightarrow>
          if replicas \<le> 0 \<or> replicas > maxReplicas then Fail invalid
          else Ret (p\<lparr>node_pool_spec := (node_pool_spec p)\<lparr>np_replicas := Some (word_of_int replicas)\<rparr>\<rparr>))"

definition keep_name :: "string option \<Rightarrow> node_pool \<Rightarrow> (goerr, node_pool) go" where
  "keep_name name p =
     (case name of None \<Rightarrow> Ret p | Some n \<Rightarrow> if om_name (node_pool_meta p) \<noteq> n then Fail invalid else Ret p)"

definition keep_control_plane :: "bool option \<Rightarrow> node_pool \<Rightarrow> (goerr, node_pool) go" where
  "keep_control_plane controlPlane p =
     (case controlPlane of None \<Rightarrow> Ret p
      | Some b \<Rightarrow> if np_control_plane (node_pool_spec p) \<noteq> b then Fail invalid else Ret p)"

definition set_roles :: "t_node_pool_options \<Rightarrow> node_pool \<Rightarrow> (goerr, node_pool) go" where
  "set_roles r p =
     (let spec = node_pool_spec p;
          spec = (case tno_load_balancer r of None \<Rightarrow> spec | Some b \<Rightarrow> spec\<lparr>np_load_balancer := b\<rparr>);
          spec = (case tno_control_plane_components_only r of None \<Rightarrow> spec | Some b \<Rightarrow> spec\<lparr>np_dedicated_role := b\<rparr>)
      in Ret (p\<lparr>node_pool_spec := spec\<rparr>))"

definition set_storage :: "quantity_lib \<Rightarrow> t_storage_resource list option \<Rightarrow> node_pool \<Rightarrow> (goerr, node_pool) go" where
  "set_storage Q storageResources p =
     (case storageResources of
        None \<Rightarrow> Ret p
      | Some rs \<Rightarrow>
          (case nodePoolStorageResourcesFromStorageResources Q rs of
             Inl e \<Rightarrow> Fail invalid
           | Inr storage \<Rightarrow> Ret (p\<lparr>node_pool_spec := (node_pool_spec p)\<lparr>np_storage_resources := Some storage\<rparr>\<rparr>)))"

definition set_cpu :: "quantity_lib \<Rightarrow> int option \<Rightarrow> node_pool \<Rightarrow> (goerr, node_pool) go" where
  "set_cpu Q cpuCount p =
     (case cpuCount of
        None \<Rightarrow> Ret p
      | Some n \<Rightarrow> if n \<le> 0 then Fail invalid else put_resource ResourceCPU (ql_new_decimal Q n) p)"

definition keep_disk :: "quantity_lib \<Rightarrow> string option \<Rightarrow> node_pool \<Rightarrow> (goerr, node_pool) go" where
  "keep_disk Q diskSize p =
     (case diskSize of
        None \<Rightarrow> Ret p
      | Some s \<Rightarrow>
          (case ql_parse Q s of
             Inl e \<Rightarrow> Fail invalid
           | Inr parsedSize \<Rightarrow>
               if \<not> ql_equal Q (resource_or_zero Q (np_resources (node_pool_spec p)) ResourceStorage) parsedSize
               then Fail invalid else Ret p))"

definition set_memory :: "quantity_lib \<Rightarrow> string option \<Rightarrow> node_pool \<Rightarrow> (goerr, node_pool) go" where
  "set_memory Q ramSize p =
     (case ramSize of
        None \<Rightarrow> Ret p
      | Some s \<Rightarrow> (case ql_parse Q s of Inl e \<Rightarrow> Fail invalid | Inr parsedSize \<Rightarrow> put_resource ResourceMemory parsedSize p))"

definition set_quantity :: "int option \<Rightarrow> node_pool \<Rightarrow> (goerr, node_pool) go" where
  "set_quantity quantity p =
     (case quantity of
        None \<Rightarrow> Ret p
      | Some n \<Rightarrow>
          if n > maxReplicas then Fail invalid
          else Ret (p\<lparr>node_pool_spec := (node_pool_spec p)\<lparr>np_replicas := Some (word_of_int n)\<rparr>\<rparr>))"

definition update_node_pool :: "quantity_lib \<Rightarrow> t_node_pool_options \<Rightarrow> node_pool \<Rightarrow> (goerr, node_pool) go" where
  "update_node_pool Q r p =
     go_then (set_replicas (tno_quantity r) p) (\<lambda>p.
     go_then (keep_name (tno_name r) p) (\<lambda>p.
     go_then (keep_control_plane (tno_control_plane r) p) (\<lambda>p.
     go_then (set_roles r p) (\<lambda>p.
     go_then (set_storage Q (tno_storage_resources r) p) (\<lambda>p.
     go_then (set_cpu Q (tno_cpu_count r) p) (\<lambda>p.
     go_then (keep_disk Q (tno_disk_size r) p) (\<lambda>p.
     go_then (set_memory Q (tno_ram_size r) p) (\<lambda>p.
     set_quantity (tno_quantity r) p))))))))"

definition UpdateClusterNodePool ::
  "quantity_lib \<Rightarrow> server \<Rightarrow> cluster \<Rightarrow> string \<Rightarrow> t_node_pool_options \<Rightarrow> (trace, (goerr, unit) go) state"
where
  "UpdateClusterNodePool Q S c nodePoolName patchRequest =
     go_bind (try_call (k_get R_node_pool S \<lparr>ok_namespace = om_namespace (cluster_meta c), ok_name = nodePoolName\<rparr>)) (\<lambda>p.
     go_bind (ret (update_node_pool Q patchRequest p)) (\<lambda>updated.
     go_bind (try_call (k_patch R_node_pool S p updated)) (\<lambda>_.
     ret (Ret ()))))"

subsection \<open>What an update may change\<close>

text \<open>\<open>kept p p'\<close>: identity, status and the fields a request cannot change are those of \<open>p\<close>.\<close>

definition kept :: "node_pool \<Rightarrow> node_pool \<Rightarrow> bool" where
  "kept p p' =
     (node_pool_meta p' = node_pool_meta p \<and> node_pool_status p' = node_pool_status p
      \<and> (let s = node_pool_spec p; s' = node_pool_spec p' in
           np_control_plane s' = np_control_plane s \<and> np_storage s' = np_storage s \<and> np_release_ref s' = np_release_ref s
           \<and> np_security s' = np_security s \<and> np_node_labels s' = np_node_labels s))"

lemma kept_refl [simp]: "kept p p"
  by (simp add: kept_def)

lemma kept_trans: "kept p q \<Longrightarrow> kept q r \<Longrightarrow> kept p r"
  by (simp add: kept_def Let_def)

text \<open>The contract of one step of an update, for the steps that do not touch the number of replicas.\<close>

locale update_step =
  fixes step :: "node_pool \<Rightarrow> (goerr, node_pool) go"
  assumes keeps: "step p = Ret p' \<Longrightarrow> kept p p' \<and> np_replicas (node_pool_spec p') = np_replicas (node_pool_spec p)"
    and panics: "step p = Panic \<Longrightarrow> np_resources (node_pool_spec p) = None"
    and resources: "step p = Ret p' \<Longrightarrow> np_resources (node_pool_spec p) \<noteq> None \<Longrightarrow> np_resources (node_pool_spec p') \<noteq> None"
begin

lemma go_then_RetE:
  assumes "go_then (step p) f = Ret r"
  obtains p' where "step p = Ret p'" "f p' = Ret r" "kept p p'" "np_replicas (node_pool_spec p') = np_replicas (node_pool_spec p)"
  using assms keeps by (cases "step p") (auto simp: go_then_def)

lemma go_then_PanicE:
  assumes "go_then (step p) f = Panic" "np_resources (node_pool_spec p) \<noteq> None"
  obtains p' where "f p' = Panic" "np_resources (node_pool_spec p') \<noteq> None"
proof -
  from assms(1,2) panics [of p] obtain a where a: "step p = Ret a" "f a = Panic"
    by (cases "step p") (auto simp: go_then_def)
  with resources [OF a(1) assms(2)] that show thesis by blast
qed

end

lemmas step_defs = keep_name_def keep_control_plane_def set_roles_def set_storage_def set_cpu_def keep_disk_def
  set_memory_def put_resource_def Let_def map_put_def kept_def

interpretation name_step: update_step "keep_name n" for n
  by unfold_locales (auto simp: step_defs split: option.splits if_splits)

interpretation control_plane_step: update_step "keep_control_plane b" for b
  by unfold_locales (auto simp: step_defs split: option.splits if_splits)

interpretation roles_step: update_step "set_roles r" for r
  by unfold_locales (auto simp: step_defs split: option.splits if_splits)

interpretation storage_step: update_step "set_storage Q rs" for Q rs
  by unfold_locales (auto simp: step_defs split: option.splits if_splits sum.splits)

interpretation cpu_step: update_step "set_cpu Q n" for Q n
  by unfold_locales (auto simp: step_defs split: option.splits if_splits)

interpretation disk_step: update_step "keep_disk Q s" for Q s
  by unfold_locales (auto simp: step_defs split: option.splits if_splits sum.splits)

interpretation memory_step: update_step "set_memory Q s" for Q s
  by unfold_locales (auto simp: step_defs split: option.splits if_splits sum.splits)

lemma set_replicas_Ret:
  assumes "set_replicas n p = Ret p'"
  shows "kept p p'" "np_resources (node_pool_spec p') = np_resources (node_pool_spec p)"
    and "case n of None \<Rightarrow> np_replicas (node_pool_spec p') = np_replicas (node_pool_spec p) | Some k \<Rightarrow> 1 \<le> k \<and> k \<le> maxReplicas"
  using assms by (auto simp: set_replicas_def kept_def split: option.splits if_splits)

lemma set_quantity_Ret:
  assumes "set_quantity n p = Ret p'"
  shows "kept p p'" "np_replicas (node_pool_spec p') =
           (case n of None \<Rightarrow> np_replicas (node_pool_spec p) | Some k \<Rightarrow> Some (word_of_int k))"
  using assms by (auto simp: set_quantity_def kept_def split: option.splits if_splits)

lemma update_node_pool_Ret:
  assumes "update_node_pool Q r p = Ret p'"
  shows "kept p p'"
    and "case tno_quantity r of None \<Rightarrow> np_replicas (node_pool_spec p') = np_replicas (node_pool_spec p)
         | Some k \<Rightarrow> 1 \<le> k \<and> k \<le> maxReplicas \<and> np_replicas (node_pool_spec p') = Some (word_of_int k)"
proof -
  obtain p0 where p0: "set_replicas (tno_quantity r) p = Ret p0"
    using assms by (cases "set_replicas (tno_quantity r) p") (auto simp: update_node_pool_def go_then_def)
  have "go_then (keep_name (tno_name r) p0) (\<lambda>p.
     go_then (keep_control_plane (tno_control_plane r) p) (\<lambda>p.
     go_then (set_roles r p) (\<lambda>p.
     go_then (set_storage Q (tno_storage_resources r) p) (\<lambda>p.
     go_then (set_cpu Q (tno_cpu_count r) p) (\<lambda>p.
     go_then (keep_disk Q (tno_disk_size r) p) (\<lambda>p.
     go_then (set_memory Q (tno_ram_size r) p) (\<lambda>p.
     set_quantity (tno_quantity r) p))))))) = Ret p'"
    using assms p0 by (simp add: update_node_pool_def go_then_def)
  then obtain p7 where last: "set_quantity (tno_quantity r) p7 = Ret p'"
    and p7: "kept p0 p7" "np_replicas (node_pool_spec p7) = np_replicas (node_pool_spec p0)"
    by (elim name_step.go_then_RetE control_plane_step.go_then_RetE roles_step.go_then_RetE storage_step.go_then_RetE
        cpu_step.go_then_RetE disk_step.go_then_RetE memory_step.go_then_RetE) (metis kept_trans)
  note first = set_replicas_Ret [OF p0]
  show "kept p p'" using first(1) p7(1) set_quantity_Ret(1) [OF last] kept_trans by blast
  show "case tno_quantity r of None \<Rightarrow> np_replicas (node_pool_spec p') = np_replicas (node_pool_spec p)
         | Some k \<Rightarrow> 1 \<le> k \<and> k \<le> maxReplicas \<and> np_replicas (node_pool_spec p') = Some (word_of_int k)"
    using first(3) p7(2) set_quantity_Ret(2) [OF last] by (simp split: option.splits)
qed

lemma update_node_pool_Panic:
  assumes "update_node_pool Q r p = Panic"
  shows "np_resources (node_pool_spec p) = None"
proof (rule ccontr)
  assume some: "np_resources (node_pool_spec p) \<noteq> None"
  obtain p0 where p0: "set_replicas (tno_quantity r) p = Ret p0"
    using assms by (cases "set_replicas (tno_quantity r) p")
      (auto simp: update_node_pool_def go_then_def set_replicas_def split: option.splits if_splits)
  have "np_resources (node_pool_spec p0) \<noteq> None" using some set_replicas_Ret(2) [OF p0] by simp
  moreover have "go_then (keep_name (tno_name r) p0) (\<lambda>p.
     go_then (keep_control_plane (tno_control_plane r) p) (\<lambda>p.
     go_then (set_roles r p) (\<lambda>p.
     go_then (set_storage Q (tno_storage_resources r) p) (\<lambda>p.
     go_then (set_cpu Q (tno_cpu_count r) p) (\<lambda>p.
     go_then (keep_disk Q (tno_disk_size r) p) (\<lambda>p.
     go_then (set_memory Q (tno_ram_size r) p) (\<lambda>p.
     set_quantity (tno_quantity r) p))))))) = Panic"
    using assms p0 by (simp add: update_node_pool_def go_then_def)
  ultimately obtain p7 where "set_quantity (tno_quantity r) p7 = Panic"
    by (elim name_step.go_then_PanicE control_plane_step.go_then_PanicE roles_step.go_then_PanicE
        storage_step.go_then_PanicE cpu_step.go_then_PanicE disk_step.go_then_PanicE memory_step.go_then_PanicE) blast
  then show False by (simp add: set_quantity_def split: option.splits if_splits)
qed

lemma replicas_in_range: "1 \<le> k \<Longrightarrow> k \<le> maxReplicas \<Longrightarrow> sint (word_of_int k :: 32 word) = k"
  by (simp add: maxReplicas_def int_word_sint)

subsection \<open>What the endpoints do\<close>

definition node_pool_key :: "cluster \<Rightarrow> string \<Rightarrow> object_key" where
  "node_pool_key c n = \<lparr>ok_namespace = om_namespace (cluster_meta c), ok_name = n\<rparr>"

text \<open>A run of an update: it reads the pool, and patches it only when every change is accepted.\<close>

lemma run_update:
  "run_state (UpdateClusterNodePool Q S c n r) t =
     (case decode R_node_pool (sv_get S t ANodePool (node_pool_key c n)) of
        Inl e \<Rightarrow> (Fail e, t @ [CGet ANodePool (node_pool_key c n)])
      | Inr p \<Rightarrow>
          (case update_node_pool Q r p of
             Ret p' \<Rightarrow>
               (case decode R_node_pool (sv_patch S (t @ [CGet ANodePool (node_pool_key c n)]) (KNodePool p) (KNodePool p')) of
                  Inl e \<Rightarrow> Fail e | Inr q \<Rightarrow> Ret (),
                t @ [CGet ANodePool (node_pool_key c n), CPatch (KNodePool p) (KNodePool p')])
           | Fail e \<Rightarrow> (Fail e, t @ [CGet ANodePool (node_pool_key c n)])
           | Panic \<Rightarrow> (Panic, t @ [CGet ANodePool (node_pool_key c n)])))"
  by (simp add: UpdateClusterNodePool_def run_go_bind run_simps node_pool_key_def R_node_pool_simps split: sum.splits go.splits)

text \<open>\<open>UpdateClusterNodePool\<close> makes at most one write: a patch of the node pool stored under the given name in
  the namespace of the cluster. The patch keeps the pool's identity, status, control-plane flag and the other fields a request
  cannot change, and the number of replicas is the old one, or the requested one, which then lies between 1 and 9 and survives the
  conversion to \<open>int32\<close>.\<close>

theorem node_pool_update_confined:
  assumes "CPatch old new \<in> set (snd (run_state (UpdateClusterNodePool Q S c n r) []))"
  shows "\<exists>p p'. sv_get S [] ANodePool (node_pool_key c n) = Inr (KNodePool p) \<and> old = KNodePool p \<and> new = KNodePool p'
     \<and> filter is_write (snd (run_state (UpdateClusterNodePool Q S c n r) [])) = [CPatch old new] \<and> kept p p'
     \<and> map_option sint (np_replicas (node_pool_spec p')) =
         (case tno_quantity r of None \<Rightarrow> map_option sint (np_replicas (node_pool_spec p)) | Some k \<Rightarrow> Some k)
     \<and> (case tno_quantity r of None \<Rightarrow> True | Some k \<Rightarrow> 1 \<le> k \<and> k \<le> 9)"
proof -
  from assms obtain p p' where stored: "sv_get S [] ANodePool (node_pool_key c n) = Inr (KNodePool p)"
    and new: "update_node_pool Q r p = Ret p'" and "old = KNodePool p" "new = KNodePool p'"
    by (auto simp: run_update R_node_pool_simps split: sum.splits go.splits)
  moreover have "filter is_write (snd (run_state (UpdateClusterNodePool Q S c n r) [])) = [CPatch (KNodePool p) (KNodePool p')]"
    by (simp add: run_update stored new R_node_pool_simps)
  moreover note kept = update_node_pool_Ret [OF new]
  ultimately show ?thesis
    by (auto simp: replicas_in_range maxReplicas_def split: option.splits)
qed

text \<open>Concrete values: a cluster in the namespace \<open>ns\<close>, a pool in it, a library of quantities that compares texts.\<close>

definition text_quantities :: quantity_lib where
  "text_quantities = \<lparr>ql_parse = (\<lambda>s. if s = [] then Inl (Plain ''empty'') else Inr (Quantity s)), ql_new_decimal = (\<lambda>n. Quantity ''n''),
     ql_new_binary = (\<lambda>n. Quantity ''b''), ql_string = (\<lambda>q. case q of Quantity s \<Rightarrow> s), ql_value = (\<lambda>q. 1),
     ql_is_zero = (\<lambda>q. q = Quantity ''0''), ql_equal = (=), ql_zero = Quantity ''0''\<rparr>"

definition example_cluster :: cluster where
  "example_cluster = zero_cluster\<lparr>cluster_meta := empty_meta\<lparr>om_name := ''c'', om_namespace := ''ns''\<rparr>\<rparr>"

definition example_pool :: node_pool where
  "example_pool = zero_node_pool\<lparr>node_pool_meta := empty_meta\<lparr>om_name := ''c-p'', om_namespace := ''ns''\<rparr>\<rparr>"

definition pool_server :: server where
  "pool_server = empty_server\<lparr>sv_get := (\<lambda>t k key. Inr (KNodePool example_pool))\<rparr>"

definition no_options :: t_node_pool_options where
  "no_options = \<lparr>tno_control_plane = None, tno_control_plane_components_only = None, tno_cpu_count = None, tno_disk_size = None,
     tno_load_balancer = None, tno_name = None, tno_node_labels = None, tno_quantity = None, tno_ram_size = None,
     tno_storage_resources = None\<rparr>"

lemmas node_pool_examples = pool_server_def empty_server_def no_options_def example_pool_def text_quantities_def zero_defs
  example_cluster_def

lemma node_pool_update_confined_witness:
  "let r = no_options\<lparr>tno_quantity := Some 3\<rparr>;
       p' = example_pool\<lparr>node_pool_spec := zero_node_pool_spec\<lparr>np_replicas := Some 3\<rparr>\<rparr>
   in CPatch (KNodePool example_pool) (KNodePool p') \<in> set (snd (run_state (UpdateClusterNodePool text_quantities pool_server example_cluster ''c-p'' r) []))
      \<and> (\<exists>p q. KNodePool p' = KNodePool q \<and> KNodePool example_pool = KNodePool p \<and> kept p q)"
proof -
  let ?r = "no_options\<lparr>tno_quantity := Some 3\<rparr>"
  let ?p = "example_pool\<lparr>node_pool_spec := zero_node_pool_spec\<lparr>np_replicas := Some 3\<rparr>\<rparr>"
  have "update_node_pool text_quantities ?r example_pool = Ret ?p"
    by (simp add: update_node_pool_def go_then_def set_replicas_def step_defs set_quantity_def maxReplicas_def node_pool_examples)
  then have patched: "CPatch (KNodePool example_pool) (KNodePool ?p)
      \<in> set (snd (run_state (UpdateClusterNodePool text_quantities pool_server example_cluster ''c-p'' ?r) []))"
    by (simp add: run_update pool_server_def R_node_pool_simps)
  from node_pool_update_confined [OF this] patched show ?thesis by (auto simp: Let_def)
qed

text \<open>The only way \<open>UpdateClusterNodePool\<close> panics is a write to the resource list of a pool that has none: a pool stored without
  resources cannot be given a number of CPUs or a memory size.\<close>

theorem node_pool_update_panics_without_resources:
  assumes "fst (run_state (UpdateClusterNodePool Q S c n r) []) = Panic"
  shows "\<exists>p. sv_get S [] ANodePool (node_pool_key c n) = Inr (KNodePool p) \<and> np_resources (node_pool_spec p) = None
     \<and> (tno_cpu_count r \<noteq> None \<or> tno_ram_size r \<noteq> None)"
proof -
  from assms obtain p where p: "sv_get S [] ANodePool (node_pool_key c n) = Inr (KNodePool p)" "update_node_pool Q r p = Panic"
    by (auto simp: run_update R_node_pool_simps split: sum.splits go.splits)
  have "tno_cpu_count r \<noteq> None \<or> tno_ram_size r \<noteq> None"
  proof (rule ccontr)
    assume "\<not> ?thesis"
    with p(2) show False
      by (auto simp: update_node_pool_def go_then_def set_replicas_def set_quantity_def step_defs split: option.splits if_splits sum.splits)
  qed
  with p update_node_pool_Panic [OF p(2)] show ?thesis by blast
qed

lemma node_pool_update_panics_without_resources_witness:
  "let r = no_options\<lparr>tno_cpu_count := Some 2\<rparr>
   in fst (run_state (UpdateClusterNodePool text_quantities pool_server example_cluster ''c-p'' r) []) = Panic
      \<and> np_resources (node_pool_spec example_pool) = None"
proof -
  have "fst (run_state (UpdateClusterNodePool text_quantities pool_server example_cluster ''c-p'' (no_options\<lparr>tno_cpu_count := Some 2\<rparr>)) []) = Panic"
    by (simp add: run_update update_node_pool_def go_then_def set_replicas_def step_defs set_quantity_def node_pool_examples R_node_pool_simps)
  from this node_pool_update_panics_without_resources [OF this] show ?thesis
    by (auto simp: Let_def pool_server_def)
qed

text \<open>The nodes of \<open>objs\<close> that carry the label of a pool, whatever their namespace.\<close>

definition nodes_labelled :: "string \<Rightarrow> kobject list \<Rightarrow> node list" where
  "nodes_labelled name objs = List.map_filter (rk_unwrap R_node)
     (filter (\<lambda>x. map_lookup (om_labels (meta_of x)) LabelNodePoolName = Some name) objs)"

text \<open>\<open>GetClusterNodePool\<close> shows every node labelled with the name of the pool, in every namespace: the nodes
  of another organization's pool of the same name are shown too.\<close>

theorem node_pool_nodes_of_all_namespaces:
  assumes "lists_from S objs" and "sv_get S [] ANodePool (node_pool_key c n) = Inr (KNodePool p)"
  shows "fst (run_state (GetClusterNodePool Q S c n) []) =
     Ret (Some (toV1NodePool Q p (Some (nodes_labelled (om_name (node_pool_meta p)) objs))))"
proof -
  have "decode_list R_node (sv_list S t ANode (matching_label LabelNodePoolName (om_name (node_pool_meta p)) []))
     = Inr (nodes_labelled (om_name (node_pool_meta p)) objs)" for t
    using node_resource.list_of_objects [OF assms(1), of "matching_label LabelNodePoolName (om_name (node_pool_meta p)) []"]
    by (simp add: matching_label_def selected_def [abs_def] nodes_labelled_def R_node_simps(1))
  with assms(2) show ?thesis
    by (simp add: GetClusterNodePool_def run_go_bind run_simps node_pool_key_def R_node_pool_simps R_node_simps)
qed

definition foreign_node :: node where
  "foreign_node = zero_node\<lparr>node_meta := empty_meta\<lparr>om_name := ''n'', om_namespace := ''other'',
     om_labels := make_map [(LabelNodePoolName, ''c-p'')]\<rparr>\<rparr>"

definition listing_server :: "kobject list \<Rightarrow> server" where
  "listing_server objs = pool_server\<lparr>sv_list := (\<lambda>t kd opts. Inr (filter (\<lambda>x. kind_of x = kd \<and> selected opts x) objs))\<rparr>"

lemma node_pool_nodes_of_all_namespaces_witness:
  "fst (run_state (GetClusterNodePool text_quantities (listing_server [KNode foreign_node]) example_cluster ''c-p'') [])
     = Ret (Some (toV1NodePool text_quantities example_pool (Some [foreign_node])))
   \<and> om_namespace (node_meta foreign_node) \<noteq> om_namespace (cluster_meta example_cluster)"
proof -
  have "lists_from (listing_server [KNode foreign_node]) [KNode foreign_node]"
    by (simp add: lists_from_def listing_server_def)
  moreover have "sv_get (listing_server [KNode foreign_node]) [] ANodePool (node_pool_key example_cluster ''c-p'')
      = Inr (KNodePool example_pool)"
    by (simp add: listing_server_def pool_server_def)
  moreover have "nodes_labelled (om_name (node_pool_meta example_pool)) [KNode foreign_node] = [foreign_node]"
    by (simp add: nodes_labelled_def foreign_node_def example_pool_def R_node_def map_filter_simps)
  ultimately show ?thesis
    using node_pool_nodes_of_all_namespaces [of "listing_server [KNode foreign_node]" "[KNode foreign_node]" example_cluster "''c-p''"
      example_pool text_quantities]
    by (simp add: foreign_node_def node_pool_examples)
qed

end
