(* ===== verification/Clusters.thy ===== *)
theory Clusters
  imports Node_Pools Auth_Config Organizations
begin

text \<open>
  The cluster endpoints of \<open>internal/api/v1/handlers/clusters.go\<close>. A cluster is created in the namespace of
  its organization, then its node pools: those of the request, or those of the named or default cluster template.
  The parsers of the authentication configuration and of the advanced options are those of theory \<open>Auth_Config\<close>.
\<close>

record t_cluster_options =
  tco_name :: string
  tco_node_pool_options :: "t_node_pool_options list option"
  tco_cluster_template_name :: "string option"
  tco_version :: "string option"
  tco_allocate_internal_ip :: "bool option"
  tco_duration :: "string option"
  tco_no_default_network_plugin :: "bool option"
  tco_no_default_ingress_provider :: "bool option"
  tco_pod_subnets :: "string list option"
  tco_service_subnets :: "string list option"
  tco_authentication_config :: "t_authentication_configuration option"
  tco_advanced :: "t_advanced_options option"

record t_cluster =
  tcl_id :: string
  tcl_name :: string
  tcl_created_at :: gotime
  tcl_version :: "string option"
  tcl_deleted_at :: "gotime option"
  tcl_condition :: "string option"
  tcl_updated_at :: "gotime option"
  tcl_node_pools_count :: "nat option"
  tcl_allocate_internal_ip :: "bool option"
  tcl_api_endpoint :: "string option"
  tcl_dns_zones :: "string list option"
  tcl_no_default_network_plugin :: "bool option"
  tcl_no_default_ingress_provider :: "bool option"
  tcl_pod_subnets :: "string list option"
  tcl_service_subnets :: "string list option"
  tcl_authentication_config :: "t_authentication_configuration option"
  tcl_advanced :: "t_advanced_options option"

text \<open>The libraries the file calls.\<close>

record cluster_lib =
  ccl_api :: api_lib
  ccl_conditions :: conditions_lib
  ccl_quantities :: quantity_lib
  ccl_durations :: duration_lib
  ccl_patches :: patch_lib

subsection \<open>Rendering\<close>

text \<open>\<open>%d\<close> of a number, and \<open>net.JoinHostPort\<close>, which brackets a host with a colon.\<close>

function digits :: "nat \<Rightarrow> string" where
  "digits n = (if n < 10 then [char_of (48 + n)] else digits (n div 10) @ [char_of (48 + n mod 10)])"
  by pat_completeness auto

termination
  by (relation "measure id") auto

declare digits.simps [simp del]

definition decimal :: "int \<Rightarrow> string" where
  "decimal n = (if n < 0 then ''-'' @ digits (nat (- n)) else digits (nat n))"

definition JoinHostPort :: "string \<Rightarrow> string \<Rightarrow> string" where
  "JoinHostPort host port =
     (if CHR '':'' \<in> set host then ''['' @ host @ '']:'' @ port else host @ '':'' @ port)"

definition ClusterAPIEndpoint_String :: "cluster_api_endpoint \<Rightarrow> string" where
  "ClusterAPIEndpoint_String e = ''https://'' @ JoinHostPort (ae_host e) (decimal (sint (ae_port e)))"

definition true_only :: "bool \<Rightarrow> bool option" where
  "true_only b = (if b then Some True else None)"

definition longer :: "'a list \<Rightarrow> 'a list option" where
  "longer xs = (if length xs > 0 then Some xs else None)"

definition toV1Cluster :: "cluster_lib \<Rightarrow> cluster \<Rightarrow> node_pool list option \<Rightarrow> t_cluster" where
  "toV1Cluster G c nodePoolList =
     (let condition = cl_find (ccl_conditions G) (cst_conditions (cluster_status c)) ReadyCondition;
          spec = cluster_spec c; st = cluster_status c
      in \<lparr>tcl_id = om_uid (cluster_meta c), tcl_name = om_name (cluster_meta c), tcl_created_at = om_creation (cluster_meta c),
          tcl_version = Some (cst_version st), tcl_deleted_at = om_deletion (cluster_meta c),
          tcl_condition = map_option c_reason condition, tcl_updated_at = map_option c_transition condition,
          tcl_node_pools_count = map_option length nodePoolList,
          tcl_allocate_internal_ip = true_only (cs_allocate_internal_ip spec),
          tcl_api_endpoint = (if ClusterAPIEndpoint_IsValid (cst_api_endpoint st)
                              then Some (ClusterAPIEndpoint_String (cst_api_endpoint st)) else None),
          tcl_dns_zones = longer (cst_dns_zones st),
          tcl_no_default_network_plugin = true_only (cs_no_default_network_plugin spec),
          tcl_no_default_ingress_provider = true_only (cs_no_default_ingress_provider spec),
          tcl_pod_subnets = longer (cs_pod_subnets spec), tcl_service_subnets = longer (cs_service_subnets spec),
          tcl_authentication_config = toAuthenticationConfiguration (cs_authentication_config spec),
          tcl_advanced = toClusterAdvancedOptions (ccl_patches G) (cs_advanced spec)\<rparr>)"

subsection \<open>Node pools of a new cluster\<close>

definition nodePoolOptionsToNodePool ::
  "cluster_lib \<Rightarrow> server \<Rightarrow> t_node_pool_options \<Rightarrow> cluster \<Rightarrow> (trace, (goerr, node_pool) go) state"
where
  "nodePoolOptionsToNodePool G S nodePoolOptions c =
     (case tno_name nodePoolOptions of
        None \<Rightarrow> ret (Fail (Plain ''name must not be nil''))
      | Some optionsName \<Rightarrow>
          (case tno_quantity nodePoolOptions of
             None \<Rightarrow> ret (Fail (Plain ''quantity must not be nil''))
           | Some quantity \<Rightarrow>
               go_bind (try_call (GetOwnerOrganization (ccl_api G) S (cluster_meta c))) (\<lambda>organization.
               let name = om_name (cluster_meta c) @ ''-'' @ optionsName;
                   resources = (case tno_cpu_count nodePoolOptions of None \<Rightarrow> Map.empty
                                | Some n \<Rightarrow> [ResourceCPU \<mapsto> ql_new_binary (ccl_quantities G) n]) in
               go_bind (ret (go_of_sum (put_parsed (ccl_quantities G) ResourceStorage (tno_disk_size nodePoolOptions) resources))) (\<lambda>resources.
               go_bind (ret (go_of_sum (put_parsed (ccl_quantities G) ResourceMemory (tno_ram_size nodePoolOptions) resources))) (\<lambda>resources.
               go_bind (ret (go_of_sum (case tno_storage_resources nodePoolOptions of None \<Rightarrow> Inr None
                                        | Some rs \<Rightarrow> storage_options_loop (ccl_quantities G) rs None))) (\<lambda>storage.
               ret (Ret (zero_node_pool\<lparr>
                 node_pool_meta := node_pool_object_meta (Some True) c organization name,
                 node_pool_spec := zero_node_pool_spec\<lparr>
                   np_replicas := Some (word_of_int quantity),
                   np_control_plane := or_false (tno_control_plane nodePoolOptions),
                   np_load_balancer := or_false (tno_load_balancer nodePoolOptions),
                   np_dedicated_role := or_false (tno_control_plane_components_only nodePoolOptions),
                   np_node_labels := (case tno_node_labels nodePoolOptions of None \<Rightarrow> None | Some l \<Rightarrow> l),
                   np_resources := Some resources,
                   np_storage_resources := storage\<rparr>\<rparr>))))))))"

definition template_node_pool :: "string \<Rightarrow> string \<Rightarrow> cluster \<Rightarrow> node_pool_template \<Rightarrow> node_pool" where
  "template_node_pool organizationName clusterName c template =
     (let meta = npt_meta template;
          name = om_name (cluster_meta c) @ ''-'' @ om_name meta;
          labels = (case om_labels meta of None \<Rightarrow> Map.empty | Some l \<Rightarrow> l)
      in zero_node_pool\<lparr>
           node_pool_meta := meta\<lparr>om_name := name, om_namespace := om_namespace (cluster_meta c),
             om_labels := Some (labels(LabelOrganizationName \<mapsto> organizationName, LabelClusterName \<mapsto> clusterName,
               LabelNodePoolName \<mapsto> name)),
             om_owner_references := [cluster_owner (Some True) c]\<rparr>,
           node_pool_spec := npt_spec template\<rparr>)"

fun create_template_pools :: "server \<Rightarrow> string \<Rightarrow> string \<Rightarrow> cluster \<Rightarrow> node_pool_template list \<Rightarrow> (trace, (goerr, unit) go) state" where
  "create_template_pools S organizationName clusterName c [] = ret (Ret ())"
| "create_template_pools S organizationName clusterName c (template # templates) =
     go_bind (try_call (k_create R_node_pool S (template_node_pool organizationName clusterName c template))) (\<lambda>_.
     create_template_pools S organizationName clusterName c templates)"

fun create_option_pools :: "cluster_lib \<Rightarrow> server \<Rightarrow> cluster \<Rightarrow> t_node_pool_options list \<Rightarrow> (trace, (goerr, unit) go) state" where
  "create_option_pools G S c [] = ret (Ret ())"
| "create_option_pools G S c (nodePoolOptions # rest) =
     go_bind (nodePoolOptionsToNodePool G S nodePoolOptions c) (\<lambda>nodePool.
     go_bind (try_call (k_create R_node_pool S nodePool)) (\<lambda>_.
     create_option_pools G S c rest))"

subsection \<open>Create\<close>

fun options_loop :: "t_node_pool_options list \<Rightarrow> bool" where
  "options_loop [] = True"
| "options_loop (nodePoolOptions # rest) =
     (case tno_name nodePoolOptions of
        None \<Rightarrow> False
      | Some n \<Rightarrow>
          if \<not> snd (IsValidName n) then False
          else (case tno_quantity nodePoolOptions of
                  None \<Rightarrow> False
                | Some q \<Rightarrow> if q > maxReplicas then False else options_loop rest))"

definition request_cluster_spec :: "cluster_lib \<Rightarrow> t_cluster_options \<Rightarrow> duration option \<Rightarrow> cluster_spec \<times> errs" where
  "request_cluster_spec G request duration =
     (let (authentication, errs) =
            parseAuthenticationConfiguration (tco_authentication_config request) [Child ''authentication_config''] (Some []);
          (advanced, errs) = parseAdvancedOptions (ccl_patches G) (tco_advanced request) [Child ''advanced''] errs
      in (zero_cluster_spec\<lparr>
            cs_version := deref [] (tco_version request),
            cs_allocate_internal_ip := or_false (tco_allocate_internal_ip request),
            cs_duration := duration,
            cs_no_default_network_plugin := or_false (tco_no_default_network_plugin request),
            cs_no_default_ingress_provider := or_false (tco_no_default_ingress_provider request),
            cs_pod_subnets := deref [] (tco_pod_subnets request),
            cs_service_subnets := deref [] (tco_service_subnets request),
            cs_authentication_config := authentication,
            cs_advanced := advanced\<rparr>, errs))"

definition new_cluster :: "organization \<Rightarrow> string \<Rightarrow> string \<Rightarrow> cluster_spec \<Rightarrow> cluster" where
  "new_cluster organization ns name spec = zero_cluster\<lparr>
     cluster_meta := empty_meta\<lparr>om_name := name, om_namespace := ns,
       om_labels := make_map [(LabelOrganizationName, om_name (organization_meta organization))],
       om_owner_references := [\<lparr>or_api_version = GroupVersion_String, or_kind = OrganizationKind,
         or_name = om_name (organization_meta organization), or_uid = om_uid (organization_meta organization),
         or_controller = None, or_block_owner_deletion = Some True\<rparr>]\<rparr>,
     cluster_spec := spec\<rparr>"

text \<open>The template a new cluster follows; \<open>None\<close> when there is no default.\<close>

definition find_template :: "server \<Rightarrow> string \<Rightarrow> string option \<Rightarrow> (trace, (goerr, cluster_template option) go) state" where
  "find_template S publicNamespace templateName =
     (case templateName of
        Some n \<Rightarrow> go_bind (try_call (k_get R_cluster_template S \<lparr>ok_namespace = publicNamespace, ok_name = n\<rparr>)) (\<lambda>t. ret (Ret (Some t)))
      | None \<Rightarrow> try_call (GetDefaultClusterTemplate S))"

definition CreateOrganizationCluster ::
  "cluster_lib \<Rightarrow> config_manager option \<Rightarrow> server \<Rightarrow> organization \<Rightarrow> t_cluster_options \<Rightarrow> (trace, (goerr, t_cluster option) go) state"
where
  "CreateOrganizationCluster G cfg S organization request =
     (let publicNamespace = GetValueOrDefault cfg KeyPublicNamespace ''dockyards-public'' in
      if \<not> snd (IsValidName (tco_name request)) then ret (Fail invalid)
      else if tco_node_pool_options request \<noteq> None \<and> tco_cluster_template_name request \<noteq> None then ret (Fail invalid)
      else if \<not> options_loop (deref [] (tco_node_pool_options request)) then ret (Fail invalid)
      else go_bind (ret (namespace_of organization)) (\<lambda>ns.
      go_bind (ret (parse_duration (ccl_durations G) (tco_duration request))) (\<lambda>duration.
      let (spec, errs) = request_cluster_spec G request duration in
      if deref [] errs \<noteq> [] then ret (Fail (NewInvalid [] (deref [] errs)))
      else go_bind (try_call (k_create R_cluster S (new_cluster organization ns (tco_name request) spec))) (\<lambda>cluster.
      go_bind (find_template S publicNamespace (tco_cluster_template_name request)) (\<lambda>template.
      case template of
        None \<Rightarrow> ret (Ret None)
      | Some clusterTemplate \<Rightarrow>
          go_bind (case tco_node_pool_options request of
                     None \<Rightarrow> create_template_pools S (om_name (organization_meta organization)) (tco_name request) cluster
                               (ctm_node_pool_templates clusterTemplate)
                   | Some options \<Rightarrow> create_option_pools G S cluster options) (\<lambda>_.
          ret (Ret (Some (toV1Cluster G cluster None)))))))))"

subsection \<open>Delete, list, get\<close>

definition DeleteOrganizationCluster :: "server \<Rightarrow> organization \<Rightarrow> string \<Rightarrow> (trace, (goerr, unit) go) state" where
  "DeleteOrganizationCluster S organization clusterName =
     go_bind (ret (namespace_of organization)) (\<lambda>ns.
     go_bind (try_call (k_get R_cluster S \<lparr>ok_namespace = ns, ok_name = clusterName\<rparr>)) (\<lambda>cluster.
     go_bind (try_delete (k_delete R_cluster S cluster)) (\<lambda>_. ret (Ret ()))))"

definition listed_cluster :: "conditions_lib \<Rightarrow> cluster \<Rightarrow> t_cluster" where
  "listed_cluster C c =
     (let ready = cl_find C (cst_conditions (cluster_status c)) ReadyCondition in
      \<lparr>tcl_id = om_uid (cluster_meta c), tcl_name = om_name (cluster_meta c), tcl_created_at = om_creation (cluster_meta c),
       tcl_version = None, tcl_deleted_at = om_deletion (cluster_meta c),
       tcl_condition = map_option c_reason ready, tcl_updated_at = map_option c_transition ready,
       tcl_node_pools_count = None, tcl_allocate_internal_ip = None, tcl_api_endpoint = None, tcl_dns_zones = None,
       tcl_no_default_network_plugin = None, tcl_no_default_ingress_provider = None, tcl_pod_subnets = None,
       tcl_service_subnets = None, tcl_authentication_config = None, tcl_advanced = None\<rparr>)"

definition ListOrganizationClusters :: "conditions_lib \<Rightarrow> server \<Rightarrow> organization \<Rightarrow> (trace, (goerr, t_cluster list) go) state" where
  "ListOrganizationClusters C S organization =
     go_bind (ret (namespace_of organization)) (\<lambda>ns.
     go_bind (try_call (k_list R_cluster S (in_namespace ns))) (\<lambda>clusters.
     ret (Ret (map (listed_cluster C) clusters))))"

text \<open>The node pools are counted by label in all namespaces.\<close>

definition GetOrganizationCluster :: "cluster_lib \<Rightarrow> server \<Rightarrow> organization \<Rightarrow> string \<Rightarrow> (trace, (goerr, t_cluster) go) state" where
  "GetOrganizationCluster G S organization clusterName =
     go_bind (ret (namespace_of organization)) (\<lambda>ns.
     go_bind (try_call (k_get R_cluster S \<lparr>ok_namespace = ns, ok_name = clusterName\<rparr>)) (\<lambda>cluster.
     go_bind (try_call (k_list R_node_pool S (matching_label LabelClusterName (om_name (cluster_meta cluster)) []))) (\<lambda>nodePools.
     ret (Ret (toV1Cluster G cluster (Some nodePools))))))"

end
