(* ===== verification/Resources.thy ===== *)
theory Resources
  imports Node_Pools Organizations
begin

text \<open>
  The remaining resources of the HTTP API: \<open>workloads.go\<close>, \<open>credentials.go\<close>, \<open>credential_templates.go\<close>, \<open>nodes.go\<close>,
  \<open>cluster_templates.go\<close> and \<open>cluster_options.go\<close> of \<open>internal/api/v1/handlers\<close>. The input of a workload is a JSON value of any
  type; its coding is the parameter \<open>input_lib\<close>. The data of a secret are bytes, and a response shows \<open>None\<close> for a value that is
  nil.
\<close>

subsection \<open>Workloads\<close>

record 'j input_lib =
  il_marshal :: "'j \<Rightarrow> goerr + string"
  il_unmarshal :: "string \<Rightarrow> goerr + 'j"

record 'j t_workload_options =
  two_name :: "string option"
  two_namespace :: "string option"
  two_workload_template_name :: "string option"
  two_input :: "'j option"

record 'j t_workload =
  tw_created_at :: "gotime option"
  tw_id :: string
  tw_name :: string
  tw_namespace :: "string option"
  tw_workload_template_name :: "string option"
  tw_input :: "'j option"
  tw_urls :: "string list option"
  tw_condition :: "string option"
  tw_updated_at :: "gotime option"
  tw_deleted_at :: "gotime option"

definition marshal_input :: "'j input_lib \<Rightarrow> 'j option \<Rightarrow> (goerr, string option) go" where
  "marshal_input J input =
     (case input of None \<Rightarrow> Ret None
      | Some i \<Rightarrow> (case il_marshal J i of Inl e \<Rightarrow> Fail e | Inr raw \<Rightarrow> Ret (Some raw)))"

definition new_workload ::
  "cluster \<Rightarrow> organization \<Rightarrow> string \<Rightarrow> string \<Rightarrow> string \<Rightarrow> string \<Rightarrow> string option \<Rightarrow> workload"
where
  "new_workload c organization publicNamespace name targetNamespace templateName input = zero_workload\<lparr>
     workload_meta := empty_meta\<lparr>om_name := name, om_namespace := om_namespace (cluster_meta c),
       om_labels := make_map [(LabelOrganizationName, om_name (organization_meta organization)),
         (LabelClusterName, om_name (cluster_meta c)), (LabelWorkloadName, name), (LabelWorkloadTemplateName, templateName)],
       om_owner_references := [cluster_owner None c]\<rparr>,
     workload_spec := (workload_spec zero_workload)\<lparr>ws_provenience := ProvenienceUser, ws_target_namespace := targetNamespace,
       ws_workload_template_ref := Some \<lparr>tr_api_group = None, tr_kind = WorkloadTemplateKind, tr_name = templateName,
         tr_namespace = Some publicNamespace\<rparr>,
       ws_input := input\<rparr>\<rparr>"

definition zero_t_workload :: "'j t_workload" where
  "zero_t_workload = \<lparr>tw_created_at = None, tw_id = [], tw_name = [], tw_namespace = None, tw_workload_template_name = None,
     tw_input = None, tw_urls = None, tw_condition = None, tw_updated_at = None, tw_deleted_at = None\<rparr>"

definition CreateClusterWorkload ::
  "api_lib \<Rightarrow> 'j input_lib \<Rightarrow> config_manager option \<Rightarrow> server \<Rightarrow> cluster \<Rightarrow> 'j t_workload_options
   \<Rightarrow> (trace, (goerr, 'j t_workload) go) state"
where
  "CreateClusterWorkload L J cfg S c request =
     (let publicNamespace = GetValueOrDefault cfg KeyPublicNamespace ''dockyards-public'' in
      case (two_workload_template_name request, two_name request) of
        (Some workloadTemplateName, Some requestName) \<Rightarrow>
          let targetNamespace = (case two_namespace request of None \<Rightarrow> requestName | Some ns \<Rightarrow> ns) in
          go_bind (try_call (GetOwnerOrganization L S (cluster_meta c))) (\<lambda>organization.
          let name = om_name (cluster_meta c) @ ''-'' @ requestName in
          go_bind (ret (marshal_input J (two_input request))) (\<lambda>input.
          go_bind (try_call (k_create R_workload S
            (new_workload c organization publicNamespace name targetNamespace workloadTemplateName input))) (\<lambda>workload.
          ret (Ret (zero_t_workload\<lparr>tw_created_at := Some (om_creation (workload_meta workload)),
            tw_id := om_uid (workload_meta workload), tw_name := om_name (workload_meta workload)\<rparr>)))))
      | _ \<Rightarrow> ret (Fail invalid))"

definition workload_key :: "cluster \<Rightarrow> string \<Rightarrow> object_key" where
  "workload_key c workloadName =
     \<lparr>ok_namespace = om_namespace (cluster_meta c), ok_name = om_name (cluster_meta c) @ ''-'' @ workloadName\<rparr>"

definition DeleteClusterWorkload :: "server \<Rightarrow> cluster \<Rightarrow> string \<Rightarrow> (trace, (goerr, unit) go) state" where
  "DeleteClusterWorkload S c workloadName =
     go_bind (try_call (k_get R_workload S (workload_key c workloadName))) (\<lambda>workload.
     go_bind (try_delete (k_delete R_workload S workload)) (\<lambda>_. ret (Ret ())))"

definition UpdateClusterWorkload ::
  "'j input_lib \<Rightarrow> server \<Rightarrow> cluster \<Rightarrow> string \<Rightarrow> 'j t_workload \<Rightarrow> (trace, (goerr, unit) go) state"
where
  "UpdateClusterWorkload J S c workloadName request =
     go_bind (try_call (k_get R_workload S (workload_key c workloadName))) (\<lambda>workload.
     if ws_provenience (workload_spec workload) \<noteq> ProvenienceUser
     then ret (Fail (NewForbidden (om_name (workload_meta workload))))
     else (case (tw_workload_template_name request, tw_namespace request) of
         (Some templateName, Some requestNamespace) \<Rightarrow>
           (case ws_workload_template_ref (workload_spec workload) of
              None \<Rightarrow> ret Panic
            | Some ref \<Rightarrow>
                if templateName \<noteq> tr_name ref then ret (Fail invalid)
                else go_bind (ret (marshal_input J (tw_input request))) (\<lambda>input.
                go_bind (try_call (k_patch R_workload S workload (workload\<lparr>workload_spec := (workload_spec workload)\<lparr>
                  ws_target_namespace := requestNamespace, ws_input := input\<rparr>\<rparr>))) (\<lambda>_.
                ret (Ret ()))))
       | _ \<Rightarrow> ret (Fail invalid)))"

definition listed_workload :: "conditions_lib \<Rightarrow> cluster \<Rightarrow> workload \<Rightarrow> 'j t_workload" where
  "listed_workload C c w =
     (let ready = cl_find C (Workload_GetConditions w) ReadyCondition in
      zero_t_workload\<lparr>tw_id := om_uid (workload_meta w),
        tw_name := TrimPrefix (om_name (workload_meta w)) (om_name (cluster_meta c) @ ''-''),
        tw_created_at := Some (om_creation (workload_meta w)),
        tw_condition := map_option c_reason ready, tw_updated_at := map_option c_transition ready,
        tw_deleted_at := om_deletion (workload_meta w)\<rparr>)"

definition ListClusterWorkloads :: "conditions_lib \<Rightarrow> server \<Rightarrow> cluster \<Rightarrow> (trace, (goerr, 'j t_workload list) go) state" where
  "ListClusterWorkloads C S c =
     go_bind (try_call (k_list R_workload S
       (matching_label LabelClusterName (om_name (cluster_meta c)) (om_namespace (cluster_meta c))))) (\<lambda>workloads.
     ret (Ret (map (listed_workload C c) workloads)))"

definition GetClusterWorkload ::
  "'j input_lib \<Rightarrow> server \<Rightarrow> cluster \<Rightarrow> string \<Rightarrow> (trace, (goerr, 'j t_workload) go) state"
where
  "GetClusterWorkload J S c workloadName =
     go_bind (try_call (k_get R_workload S (workload_key c workloadName))) (\<lambda>w.
     let response = zero_t_workload\<lparr>tw_id := om_uid (workload_meta w),
           tw_namespace := Some (ws_target_namespace (workload_spec w)),
           tw_name := TrimPrefix (om_name (workload_meta w)) (om_name (cluster_meta c) @ ''-''),
           tw_workload_template_name := map_option tr_name (ws_workload_template_ref (workload_spec w)),
           tw_urls := (if length (wst_urls (workload_status w)) > 0 then Some (wst_urls (workload_status w)) else None)\<rparr> in
     case ws_input (workload_spec w) of
       None \<Rightarrow> ret (Ret response)
     | Some raw \<Rightarrow>
         (case il_unmarshal J raw of
            Inl e \<Rightarrow> ret (Fail e)
          | Inr input \<Rightarrow> ret (Ret (response\<lparr>tw_input := Some input\<rparr>))))"

subsection \<open>Credentials\<close>

record t_credential_options =
  tcr_name :: "string option"
  tcr_credential_template_name :: "string option"
  tcr_data :: "string gomap option"

record t_credential =
  tc_id :: string
  tc_name :: string
  tc_created_at :: "gotime option"
  tc_deleted_at :: "gotime option"
  tc_credential_template_name :: "string option"
  tc_data :: "(string \<rightharpoonup> string option) option"

definition credential_prefix :: string where "credential_prefix = ''credential-''"

definition credential_key :: "string \<Rightarrow> string \<Rightarrow> object_key" where
  "credential_key ns credentialName = \<lparr>ok_namespace = ns, ok_name = credential_prefix @ credentialName\<rparr>"

definition listed_credential :: "secret \<Rightarrow> t_credential" where
  "listed_credential s = \<lparr>tc_id = om_uid (sec_meta s), tc_name = TrimPrefix (om_name (sec_meta s)) credential_prefix,
     tc_created_at = Some (om_creation (sec_meta s)), tc_deleted_at = om_deletion (sec_meta s),
     tc_credential_template_name = map_lookup (om_labels (sec_meta s)) LabelCredentialTemplateName, tc_data = None\<rparr>"

fun credentials_loop :: "secret list \<Rightarrow> t_credential list \<Rightarrow> t_credential list" where
  "credentials_loop [] credentials = credentials"
| "credentials_loop (s # ss) credentials =
     (if sec_type s \<noteq> SecretTypeCredential then credentials_loop ss credentials
      else credentials_loop ss (credentials @ [listed_credential s]))"

definition ListOrganizationCredentials :: "server \<Rightarrow> organization \<Rightarrow> (trace, (goerr, t_credential list) go) state" where
  "ListOrganizationCredentials S organization =
     go_bind (ret (namespace_of organization)) (\<lambda>ns.
     go_bind (try_call (k_list R_secret S (in_namespace ns))) (\<lambda>secrets.
     ret (Ret (credentials_loop secrets []))))"

text \<open>Copying a map into one that is not nil.\<close>

definition copy_into :: "(string \<rightharpoonup> string) \<Rightarrow> string gomap \<Rightarrow> (string \<rightharpoonup> string)" where
  "copy_into m src = (case src of None \<Rightarrow> m | Some f \<Rightarrow> m ++ f)"

definition new_credential :: "organization \<Rightarrow> string \<Rightarrow> string \<Rightarrow> t_credential_options \<Rightarrow> secret" where
  "new_credential organization ns name request = \<lparr>
     sec_meta = empty_meta\<lparr>om_name := credential_prefix @ name, om_namespace := ns,
       om_labels := make_map ((LabelOrganizationName, om_name (organization_meta organization))
         # (case tcr_credential_template_name request of None \<Rightarrow> [] | Some n \<Rightarrow> [(LabelCredentialTemplateName, n)])),
       om_owner_references := [organization_owner_ref organization]\<rparr>,
     sec_type = SecretTypeCredential,
     sec_data = map_option (copy_into Map.empty) (tcr_data request)\<rparr>"

definition CreateOrganizationCredential ::
  "server \<Rightarrow> organization \<Rightarrow> t_credential_options \<Rightarrow> (trace, (goerr, t_credential) go) state"
where
  "CreateOrganizationCredential S organization request =
     (case tcr_name request of
        None \<Rightarrow> ret Panic
      | Some name \<Rightarrow>
          go_bind (ret (namespace_of organization)) (\<lambda>ns.
          go_bind (try_call (k_create R_secret S (new_credential organization ns name request))) (\<lambda>secret.
          ret (Ret \<lparr>tc_id = om_uid (sec_meta secret), tc_name = om_name (sec_meta secret), tc_created_at = None,
            tc_deleted_at = None, tc_credential_template_name = None, tc_data = None\<rparr>))))"

definition DeleteOrganizationCredential :: "server \<Rightarrow> organization \<Rightarrow> string \<Rightarrow> (trace, (goerr, unit) go) state" where
  "DeleteOrganizationCredential S organization credentialName =
     go_bind (ret (namespace_of organization)) (\<lambda>ns.
     go_bind (try_call (k_get R_secret S (credential_key ns credentialName))) (\<lambda>secret.
     if sec_type secret \<noteq> SecretTypeCredential then ret (Fail (NewUnauthorized ''unexpected secret type''))
     else go_bind (try_delete (k_delete R_secret S secret)) (\<lambda>_. ret (Ret ()))))"

text \<open>The keys a credential template declares to be plain text.\<close>

fun plaintext_loop :: "credential_option list \<Rightarrow> string set \<Rightarrow> string set" where
  "plaintext_loop [] keys = keys"
| "plaintext_loop (v # vs) keys = (if co_plaintext v then plaintext_loop vs (insert (co_key v) keys) else plaintext_loop vs keys)"

definition plaintext_keys :: "server \<Rightarrow> string \<Rightarrow> secret \<Rightarrow> (trace, (goerr, string set) go) state" where
  "plaintext_keys S publicNamespace s =
     (case map_lookup (om_labels (sec_meta s)) LabelCredentialTemplateName of
        None \<Rightarrow> ret (Ret {})
      | Some templateName \<Rightarrow> do {
          r \<leftarrow> k_get R_credential_template S \<lparr>ok_namespace = publicNamespace, ok_name = templateName\<rparr>;
          case r of
            Inl e \<Rightarrow> ret (if has_reason NotFound e then Ret {} else Fail e)
          | Inr template \<Rightarrow>
              ret (Ret (plaintext_loop (case cts_options (credential_template_spec template) of None \<Rightarrow> [] | Some vs \<Rightarrow> vs) {}))
        })"

definition GetOrganizationCredential ::
  "config_manager option \<Rightarrow> server \<Rightarrow> organization \<Rightarrow> string \<Rightarrow> (trace, (goerr, t_credential) go) state"
where
  "GetOrganizationCredential cfg S organization credentialName =
     (let publicNamespace = GetValueOrDefault cfg KeyPublicNamespace ''dockyards-public'' in
      go_bind (ret (namespace_of organization)) (\<lambda>ns.
      go_bind (try_call (k_get R_secret S (credential_key ns credentialName))) (\<lambda>secret.
      if sec_type secret \<noteq> SecretTypeCredential then ret (Fail (NewUnauthorized ''unexpected secret type''))
      else go_bind (plaintext_keys S publicNamespace secret) (\<lambda>plaintextKeys.
      ret (Ret \<lparr>tc_id = om_uid (sec_meta secret), tc_name = TrimPrefix (om_name (sec_meta secret)) credential_prefix,
        tc_created_at = Some (om_creation (sec_meta secret)), tc_deleted_at = None,
        tc_credential_template_name = map_lookup (om_labels (sec_meta secret)) LabelCredentialTemplateName,
        tc_data = map_option (\<lambda>data key. map_option (\<lambda>v. if key \<in> plaintextKeys then Some v else None) (data key))
          (sec_data secret)\<rparr>)))))"

definition UpdateOrganizationCredential ::
  "server \<Rightarrow> organization \<Rightarrow> string \<Rightarrow> t_credential_options \<Rightarrow> (trace, (goerr, unit) go) state"
where
  "UpdateOrganizationCredential S organization credentialName request =
     go_bind (ret (namespace_of organization)) (\<lambda>ns.
     go_bind (try_call (k_get R_secret S (credential_key ns credentialName))) (\<lambda>secret.
     case tcr_data request of
       None \<Rightarrow> ret (Ret ())
     | Some new \<Rightarrow>
         go_bind (try_call (k_patch R_secret S secret
           (secret\<lparr>sec_data := Some (copy_into (case sec_data secret of None \<Rightarrow> Map.empty | Some f \<Rightarrow> f) new)\<rparr>))) (\<lambda>_.
         ret (Ret ()))))"

subsection \<open>Credential templates\<close>

record t_credential_option =
  tcv_key :: string
  tcv_default :: "string option"
  tcv_display_name :: "string option"
  tcv_plaintext :: "bool option"
  tcv_type :: "string option"

record t_credential_template =
  tct_name :: string
  tct_options :: "t_credential_option list option"

definition text_or_nil :: "string \<Rightarrow> string option" where
  "text_or_nil s = (if s \<noteq> [] then Some s else None)"

definition to_t_option :: "credential_option \<Rightarrow> t_credential_option" where
  "to_t_option v = \<lparr>tcv_key = co_key v, tcv_default = text_or_nil (co_default v), tcv_display_name = text_or_nil (co_display_name v),
     tcv_plaintext = (if co_plaintext v then Some True else None), tcv_type = text_or_nil (co_type v)\<rparr>"

definition ListCredentialTemplates ::
  "config_manager option \<Rightarrow> server \<Rightarrow> (trace, (goerr, t_credential_template list) go) state"
where
  "ListCredentialTemplates cfg S =
     (let publicNamespace = GetValueOrDefault cfg KeyPublicNamespace ''dockyards-public'' in
      go_bind (try_call (k_list R_credential_template S (in_namespace publicNamespace))) (\<lambda>templates.
      ret (Ret (map (\<lambda>t. \<lparr>tct_name = om_name (credential_template_meta t),
        tct_options = map_option (map to_t_option) (cts_options (credential_template_spec t))\<rparr>) templates))))"

subsection \<open>Nodes\<close>

record t_cluster_node =
  tcn_node :: t_node
  tcn_updated_at :: "gotime option"
  tcn_condition :: "string option"
  tcn_deleted_at :: "gotime option"
  tcn_provider_id :: "string option"
  tcn_system_info :: "node_system_info option"

definition listed_node :: "conditions_lib \<Rightarrow> node \<Rightarrow> t_cluster_node" where
  "listed_node C n =
     (let ready = cl_find C (Node_GetConditions n) ReadyCondition in
      \<lparr>tcn_node = toV1Node n, tcn_updated_at = map_option c_transition ready, tcn_condition = map_option c_reason ready,
       tcn_deleted_at = om_deletion (node_meta n), tcn_provider_id = None, tcn_system_info = None\<rparr>)"

definition ListClusterNodes :: "conditions_lib \<Rightarrow> server \<Rightarrow> cluster \<Rightarrow> (trace, (goerr, t_cluster_node list) go) state" where
  "ListClusterNodes C S c =
     go_bind (try_call (k_list R_node S
       (matching_label LabelClusterName (om_name (cluster_meta c)) (om_namespace (cluster_meta c))))) (\<lambda>nodes.
     ret (Ret (map (listed_node C) nodes)))"

definition GetClusterNode ::
  "conditions_lib \<Rightarrow> server \<Rightarrow> cluster \<Rightarrow> string \<Rightarrow> (trace, (goerr, t_cluster_node) go) state"
where
  "GetClusterNode C S c nodeName =
     go_bind (try_call (k_get R_node S \<lparr>ok_namespace = om_namespace (cluster_meta c), ok_name = nodeName\<rparr>)) (\<lambda>node.
     ret (Ret ((listed_node C node)\<lparr>tcn_provider_id := nd_provider_id (node_spec node),
       tcn_system_info := ndst_system_info (node_status node)\<rparr>)))"

subsection \<open>Cluster templates and options\<close>

record t_cluster_template =
  tcx_name :: string
  tcx_is_default :: bool
  tcx_node_pool_options :: "t_node_pool_options list"

text \<open>The functions \<open>Cpu\<close>, \<open>Memory\<close> and \<open>Storage\<close> of a resource list never return nil, so all three sizes are always shown.\<close>

definition template_options :: "quantity_lib \<Rightarrow> node_pool_template \<Rightarrow> t_node_pool_options" where
  "template_options Q t =
     (let spec = npt_spec t in
      \<lparr>tno_control_plane = (if np_control_plane spec then Some True else None), tno_control_plane_components_only = None,
       tno_cpu_count = Some (ql_value Q (resource_or_zero Q (np_resources spec) ResourceCPU)),
       tno_disk_size = Some (ql_string Q (resource_or_zero Q (np_resources spec) ResourceStorage)),
       tno_load_balancer = None, tno_name = Some (om_name (npt_meta t)), tno_node_labels = None,
       tno_quantity = map_option sint (np_replicas spec),
       tno_ram_size = Some (ql_string Q (resource_or_zero Q (np_resources spec) ResourceMemory)),
       tno_storage_resources = None\<rparr>)"

definition ListGlobalClusterTemplates ::
  "quantity_lib \<Rightarrow> config_manager option \<Rightarrow> server \<Rightarrow> (trace, (goerr, t_cluster_template list) go) state"
where
  "ListGlobalClusterTemplates Q cfg S =
     (let publicNamespace = GetValueOrDefault cfg KeyPublicNamespace ''dockyards-public'' in
      go_bind (try_call (k_list R_cluster_template S (in_namespace publicNamespace))) (\<lambda>templates.
      ret (Ret (map (\<lambda>t. \<lparr>tcx_name = om_name (cluster_template_meta t),
        tcx_is_default = (map_str (om_annotations (cluster_template_meta t)) AnnotationDefaultTemplate = ''true''),
        tcx_node_pool_options = map (template_options Q) (ctm_node_pool_templates t)\<rparr>) templates))))"

record t_options =
  topt_version :: "string list"
  topt_storage_resource_types :: "string list option"

definition FeatureStorageRoleName :: string where "FeatureStorageRoleName = ''storage-role''"
definition FeatureHostPathName :: string where "FeatureHostPathName = ''storage-resource-type-host-path''"

definition GetClusterOptions :: "config_manager option \<Rightarrow> server \<Rightarrow> (trace, (goerr, t_options) go) state" where
  "GetClusterOptions cfg S =
     (let publicNamespace = GetValueOrDefault cfg KeyPublicNamespace ''dockyards-public'' in
      go_bind (try_call (GetDefaultRelease S ReleaseTypeKubernetes)) (\<lambda>release.
      let response = \<lparr>topt_version = (case release of None \<Rightarrow> [] | Some r \<Rightarrow> rlst_versions (release_status r)),
            topt_storage_resource_types = None\<rparr> in
      go_bind (try_call (IsFeatureEnabled S FeatureStorageRoleName publicNamespace)) (\<lambda>storageRole.
      if \<not> storageRole then ret (Ret response)
      else go_bind (try_call (IsFeatureEnabled S FeatureHostPathName publicNamespace)) (\<lambda>hostPath.
      ret (Ret (response\<lparr>topt_storage_resource_types := Some (if hostPath then [StorageResourceTypeHostPath] else [])\<rparr>))))))"

end
