(* ===== verification/Jwt_Keys.thy ===== *)
theory Jwt_Keys
  imports Store
begin

text \<open>
  The signing keys of the tokens: \<open>GetOrGenerateKeys\<close> of \<open>pkg/util/jwt/jwt.go\<close>. The keys are kept PEM-encoded in a secret, generated
  where they are missing, and the public key of the access tokens is published in a config map. The generation of keys and their
  codings are the parameter \<open>key_lib\<close>, over an arbitrary type of keys; the \<open>n\<close>-th key drawn at a moment is \<open>kg_generate t n\<close>.
\<close>

record 'k key_lib =
  kg_generate :: "trace \<Rightarrow> nat \<Rightarrow> goerr + 'k"
  kg_marshal :: "'k \<Rightarrow> goerr + string"
  kg_parse :: "string \<Rightarrow> goerr + 'k"
  kg_pem_encode :: "string \<Rightarrow> string \<Rightarrow> string"
  kg_pem_decode :: "string \<Rightarrow> (string \<times> string) option"
  kg_marshal_public :: "'k \<Rightarrow> goerr + string"

definition AccessTokenPrivateKeyKey :: string where "AccessTokenPrivateKeyKey = ''accessTokenPrivateKey''"
definition RefreshTokenPrivateKeyKey :: string where "RefreshTokenPrivateKeyKey = ''refreshTokenPrivateKey''"
definition AccessTokenPublicKeyKey :: string where "AccessTokenPublicKeyKey = ''accessTokenPublicKey''"

text \<open>\<open>CreateOrPatch\<close> with a callback that also assigns to captured variables: their values are the second component.\<close>

definition create_or_patch_with ::
  "'o resource_type \<Rightarrow> server \<Rightarrow> 'o \<Rightarrow> ('o \<Rightarrow> (trace, (goerr, 'o \<times> 'b) go) state) \<Rightarrow> (trace, (goerr, 'b) go) state"
where
  "create_or_patch_with R S v mutate = do {
     r \<leftarrow> perform (\<lambda>t. sv_fetch S t (rk_wrap R v)) (CFetch (rk_wrap R v));
     case decode R r of
       Inl e \<Rightarrow> ret (Fail e)
     | Inr current \<Rightarrow>
         go_bind (mutate current) (\<lambda>(desired, captured). do {
           w \<leftarrow> perform (\<lambda>t. sv_commit S t (rk_wrap R current) (rk_wrap R desired))
                      (CCommit (rk_wrap R current) (rk_wrap R desired));
           ret (case decode R w of Inl e \<Rightarrow> Fail e | Inr _ \<Rightarrow> Ret captured)
         })
   }"

text \<open>The PEM of a private key in the data of the secret: the one that is there, or a new one, which is added.\<close>

definition stored_key :: "'k key_lib \<Rightarrow> nat \<Rightarrow> string \<Rightarrow> (string \<rightharpoonup> string) \<Rightarrow> (trace, (goerr, string \<times> (string \<rightharpoonup> string)) go) state" where
  "stored_key J n key data =
     (case data key of
        Some pem \<Rightarrow> ret (Ret (pem, data))
      | None \<Rightarrow>
          go_bind (try_call (observe (\<lambda>t. kg_generate J t n))) (\<lambda>k.
          go_bind (ret (go_of_sum (kg_marshal J k))) (\<lambda>b.
          let pem = kg_pem_encode J ''EC PRIVATE KEY'' b in
          ret (Ret (pem, data(key \<mapsto> pem))))))"

definition secret_mutate :: "'k key_lib \<Rightarrow> secret \<Rightarrow> (trace, (goerr, secret \<times> string \<times> string) go) state" where
  "secret_mutate J s =
     go_bind (stored_key J 0 AccessTokenPrivateKeyKey (case sec_data s of None \<Rightarrow> Map.empty | Some d \<Rightarrow> d)) (\<lambda>(access, data).
     go_bind (stored_key J 1 RefreshTokenPrivateKeyKey data) (\<lambda>(refresh, data).
     ret (Ret (s\<lparr>sec_data := Some data\<rparr>, access, refresh))))"

definition parse_private_key :: "'k key_lib \<Rightarrow> string \<Rightarrow> string \<Rightarrow> (goerr, 'k) go" where
  "parse_private_key J message pem =
     (case kg_pem_decode J pem of
        None \<Rightarrow> Fail (Plain message)
      | Some (ty, b) \<Rightarrow> if ty \<noteq> ''EC PRIVATE KEY'' then Fail (Plain message) else go_of_sum (kg_parse J b))"

definition publish_key :: "'k key_lib \<Rightarrow> 'k \<Rightarrow> config_map \<Rightarrow> (trace, (goerr, config_map) go) state" where
  "publish_key J access m =
     go_bind (ret (go_of_sum (kg_marshal_public J access))) (\<lambda>b.
     ret (Ret (m\<lparr>cfg_data := Some ((case cfg_data m of None \<Rightarrow> Map.empty | Some d \<Rightarrow> d)
       (AccessTokenPublicKeyKey \<mapsto> kg_pem_encode J ''PUBLIC KEY'' b))\<rparr>)))"

definition jwt_meta :: "string \<Rightarrow> object_meta" where
  "jwt_meta ns = empty_meta\<lparr>om_name := ''dockyards-backend-jwt'', om_namespace := ns\<rparr>"

definition jwt_secret :: "string \<Rightarrow> secret" where
  "jwt_secret ns = \<lparr>sec_meta = jwt_meta ns, sec_type = [], sec_data = None\<rparr>"

definition jwt_config_map :: "string \<Rightarrow> config_map" where
  "jwt_config_map ns = \<lparr>cfg_meta = jwt_meta ns, cfg_data = None\<rparr>"

definition GetOrGenerateKeys :: "'k key_lib \<Rightarrow> server \<Rightarrow> string \<Rightarrow> (trace, (goerr, 'k \<times> 'k) go) state" where
  "GetOrGenerateKeys J S ns =
     go_bind (create_or_patch_with R_secret S (jwt_secret ns) (secret_mutate J)) (\<lambda>(accessPEM, refreshPEM).
     go_bind (ret (parse_private_key J ''invalid access private key'' accessPEM)) (\<lambda>access.
     go_bind (ret (parse_private_key J ''invalid refresh private key'' refreshPEM)) (\<lambda>refresh.
     go_bind (create_or_patch R_config_map S (jwt_config_map ns) (publish_key J access)) (\<lambda>_.
     ret (Ret (access, refresh))))))"

subsection \<open>Keys over restarts\<close>

lemma secret_key: "resource_key R_secret s = \<lparr>ok_namespace = om_namespace (sec_meta s), ok_name = om_name (sec_meta s)\<rparr>"
  by (simp add: resource_key_def R_secret_simps key_of_def)

text \<open>The secret of the keys in the store.\<close>

definition key_secret :: "environment \<Rightarrow> kobject list \<Rightarrow> string \<Rightarrow> trace \<Rightarrow> secret option" where
  "key_secret E objs ns t = find (\<lambda>s. resource_key R_secret s = resource_key R_secret (jwt_secret ns)) (resources R_secret (objects E objs t))"

lemma fetch_secret:
  "decode R_secret (sv_fetch (store_server E objs) t (KSecret (jwt_secret ns)))
     = Inr (case key_secret E objs ns t of None \<Rightarrow> jwt_secret ns | Some s \<Rightarrow> s)"
  using secret_resource.stored_like_resource [of "objects E objs t" "jwt_secret ns"]
  by (auto simp: store_server_def key_secret_def R_secret_simps(1,2) split: option.split simp del: secret_key)
   (simp_all add: R_secret_simps)

text \<open>Private keys under both names, as they were read or generated.\<close>

definition holds_keys :: "secret \<Rightarrow> string \<times> string \<Rightarrow> bool" where
  "holds_keys s pems =
     (\<exists>d. sec_data s = Some d \<and> d AccessTokenPrivateKeyKey = Some (fst pems) \<and> d RefreshTokenPrivateKeyKey = Some (snd pems))"

lemma stored_key_run:
  assumes "run_state (stored_key J n key data) t = (Ret (pem, data'), t')"
  shows "t' = t \<and> data' key = Some pem \<and> (\<forall>k. k \<noteq> key \<longrightarrow> data' k = data k) \<and> (\<forall>v. data key = Some v \<longrightarrow> pem = v)"
  using assms
  by (auto simp: stored_key_def run_go_bind run_simps go_of_sum_def Let_def split: option.splits sum.splits go.splits prod.splits if_splits)

lemma secret_mutate_run:
  assumes "run_state (secret_mutate J s) t = (Ret (s', pems), t')"
  shows "t' = t \<and> sec_meta s' = sec_meta s \<and> holds_keys s' pems \<and> (\<forall>p. holds_keys s p \<longrightarrow> pems = p)"
  using assms
  by (auto simp: secret_mutate_def run_go_bind holds_keys_def AccessTokenPrivateKeyKey_def RefreshTokenPrivateKeyKey_def
      split: option.splits go.splits prod.splits dest!: stored_key_run)

lemma secret_mutate_again:
  assumes "holds_keys s pems"
  shows "run_state (secret_mutate J s) t = (Ret (s, pems), t)"
  using assms
  by (cases s) (auto simp: secret_mutate_def run_go_bind holds_keys_def stored_key_def)

lemma key_secret_key: "key_secret E objs ns t = Some s \<Longrightarrow> resource_key R_secret s = resource_key R_secret (jwt_secret ns)"
  unfolding key_secret_def by (metis (mono_tags, lifting) find_Some_iff)

lemma find_replaced:
  "find (\<lambda>s. f s = k) (map (\<lambda>s. if f s = k then v else s) xs) = map_option (\<lambda>_. v) (find (\<lambda>s. f s = k) xs)" if "f v = k"
  using that by (induction xs) auto

lemma find_none_append: "find P xs = None \<Longrightarrow> find P (xs @ [v]) = (if P v then Some v else None)"
  by (induction xs) auto

lemma key_secret_committed:
  assumes "resource_key R_secret s = resource_key R_secret (jwt_secret ns)"
  shows "key_secret E objs ns (t @ [CCommit x (KSecret s)]) = Some s"
proof -
  let ?objs = "objects E objs t"
  have stored: "stored_like ?objs (KSecret s) = map_option KSecret (key_secret E objs ns t)"
    using secret_resource.stored_like_resource [of ?objs s] assms by (simp add: key_secret_def R_secret_simps(1,2))
  have status: "with_status (KSecret s) y = KSecret s" "stamp E t (KSecret s) = KSecret s" for y by (simp_all add: with_status_def stamp_def)
  show ?thesis
  proof (cases "key_secret E objs ns t")
    case None
    then have "find (\<lambda>s. resource_key R_secret s = resource_key R_secret (jwt_secret ns)) (resources R_secret ?objs) = None"
      by (simp add: key_secret_def)
    with None stored status assms secret_resource.resources_Cons [of s "[]"] show ?thesis
      by (simp add: key_secret_def objects_append find_none_append R_secret_simps(1,2) del: secret_key)
  next
    case (Some s0)
    then have "find (\<lambda>s. resource_key R_secret s = resource_key R_secret (jwt_secret ns)) (resources R_secret ?objs) = Some s0"
      by (simp add: key_secret_def)
    with Some stored status assms secret_resource.replace_resource [of ?objs s] show ?thesis
      by (simp add: key_secret_def objects_append find_replaced R_secret_simps(1,2) del: secret_key)
  qed
qed

lemma key_secret_kept:
  "list_all (\<lambda>c. \<not> changes ASecret c) cs \<Longrightarrow> key_secret E objs ns (t @ cs) = key_secret E objs ns t"
  using secret_resource.store_calls_other [of cs E t "objects E objs t"]
  by (simp add: key_secret_def objects_append R_secret_simps(1))

lemma fetch_config_map: "\<exists>m. sv_fetch (store_server E objs) t (KConfigMap v) = Inr (KConfigMap m)"
proof -
  have "kind_of y = AConfigMap \<Longrightarrow> \<exists>m. y = KConfigMap m" for y by (cases y) auto
  then show ?thesis
    using config_map_resource.stored_like_kind [of "objects E objs t" "KConfigMap v"]
    by (auto simp: store_server_def split: option.split)
qed

lemma commit_config_map: "\<exists>m. sv_commit (store_server E objs) t x (KConfigMap v) = Inr (KConfigMap m)"
  by (auto simp: store_server_def with_status_def stamp_def split: option.split)

lemma publish_run:
  "(\<exists>m. fst (run_state (create_or_patch R_config_map (store_server E objs) (jwt_config_map ns) (publish_key J k)) t) = Ret m)
     \<longleftrightarrow> (\<exists>b. kg_marshal_public J k = Inr b)"
proof -
  obtain m where "sv_fetch (store_server E objs) t (KConfigMap (jwt_config_map ns)) = Inr (KConfigMap m)"
    using fetch_config_map by blast
  moreover obtain f where "sv_commit (store_server E objs) t' x (KConfigMap v) = Inr (KConfigMap (f t' x v))" for t' x v
    using commit_config_map [of E objs] by metis
  ultimately show ?thesis
    by (cases "kg_marshal_public J k") (auto simp: create_or_patch_def publish_key_def run_simps run_go_bind R_config_map_simps go_of_sum_def)
qed

lemma publish_calls: "emits (\<lambda>c. \<not> changes ASecret c) (create_or_patch R_config_map S (jwt_config_map ns) (publish_key J k))"
  by (rule config_map_resource.create_or_patch_emits) (auto simp: publish_key_def R_config_map_simps(1,2) intro!: appends_intros)

text \<open>A run that returns keys: they are parsed from the secret, which it leaves in the store.\<close>

lemma keys_run:
  assumes "run_state (GetOrGenerateKeys J (store_server E objs) ns) t = (Ret (access, refresh), t')"
  shows "\<exists>s pems b. key_secret E objs ns t' = Some s \<and> holds_keys s pems
    \<and> parse_private_key J ''invalid access private key'' (fst pems) = Ret access
    \<and> parse_private_key J ''invalid refresh private key'' (snd pems) = Ret refresh
    \<and> kg_marshal_public J access = Inr b"
proof -
  let ?S = "store_server E objs"
  let ?t1 = "t @ [CFetch (KSecret (jwt_secret ns))]"
  define s0 where "s0 = (case key_secret E objs ns t of None \<Rightarrow> jwt_secret ns | Some s \<Rightarrow> s)"
  have fetch: "decode R_secret (sv_fetch ?S t (KSecret (jwt_secret ns))) = Inr s0"
    unfolding s0_def by (rule fetch_secret)
  obtain s acc ref t2 where
    mut: "run_state (secret_mutate J s0) ?t1 = (Ret (s, acc, ref), t2)"
    and parse: "parse_private_key J ''invalid access private key'' acc = Ret access"
      "parse_private_key J ''invalid refresh private key'' ref = Ret refresh"
    and pub: "\<exists>m. run_state (create_or_patch R_config_map ?S (jwt_config_map ns) (publish_key J access))
        (t2 @ [CCommit (KSecret s0) (KSecret s)]) = (Ret m, t')"
    using assms fetch
    by (auto simp: GetOrGenerateKeys_def create_or_patch_with_def run_go_bind run_simps R_secret_simps(1,2)
        split: sum.splits go.splits prod.splits)
  have t2: "t2 = ?t1" "sec_meta s = sec_meta s0" "holds_keys s (acc, ref)"
    using secret_mutate_run [OF mut] by auto
  have "resource_key R_secret s0 = resource_key R_secret (jwt_secret ns)"
    by (cases "key_secret E objs ns t") (simp_all add: s0_def key_secret_key)
  then have key: "resource_key R_secret s = resource_key R_secret (jwt_secret ns)"
    using t2(2) by (simp add: secret_key)
  obtain new where new: "t' = (t2 @ [CCommit (KSecret s0) (KSecret s)]) @ new" "list_all (\<lambda>c. \<not> changes ASecret c) new"
    using pub emitsD [OF publish_calls] by (auto simp: list_all_iff elim: emitsD [OF publish_calls])
  have "key_secret E objs ns t' = Some s"
    unfolding new(1) key_secret_kept [OF new(2)] by (rule key_secret_committed [OF key])
  moreover have "\<exists>b. kg_marshal_public J access = Inr b"
    using pub publish_run [of E objs ns J access "t2 @ [CCommit (KSecret s0) (KSecret s)]"] by force
  ultimately show ?thesis using t2(3) parse by (metis fst_conv snd_conv)
qed

lemma commit_secret: "decode R_secret (sv_commit (store_server E objs) p x (KSecret v)) = Inr v"
  by (auto simp: store_server_def with_status_def stamp_def R_secret_simps split: option.split)

text \<open>C19 The keys survive a restart: when \<open>GetOrGenerateKeys\<close> has returned keys, then after any calls that leave secrets alone a second
  run returns the same access key and the same refresh key, so that the tokens signed before remain valid.\<close>

theorem keys_survive_restart:
  assumes "run_state (GetOrGenerateKeys J (store_server E objs) ns) t = (Ret keys, t')"
    and "list_all (\<lambda>c. \<not> changes ASecret c) later"
  shows "fst (run_state (GetOrGenerateKeys J (store_server E objs) ns) (t' @ later)) = Ret keys"
proof -
  let ?S = "store_server E objs"
  obtain access refresh where keys: "keys = (access, refresh)" by (cases keys)
  obtain s pems b where s: "key_secret E objs ns t' = Some s" "holds_keys s pems"
    and parse: "parse_private_key J ''invalid access private key'' (fst pems) = Ret access"
      "parse_private_key J ''invalid refresh private key'' (snd pems) = Ret refresh"
    and pub: "kg_marshal_public J access = Inr b"
    using keys_run [OF assms(1) [unfolded keys]] by (elim exE conjE) (rule that)
  have kept: "key_secret E objs ns (t' @ later) = Some s"
    using key_secret_kept [OF assms(2)] s(1) by (rule trans)
  have fetch: "decode R_secret (sv_fetch ?S (t' @ later) (KSecret (jwt_secret ns))) = Inr s"
    using fetch_secret [of E objs "t' @ later" ns] by (simp only: kept option.case)
  let ?t1 = "(t' @ later) @ [CFetch (KSecret (jwt_secret ns)), CCommit (KSecret s) (KSecret s)]"
  obtain m where publish: "fst (run_state (create_or_patch R_config_map ?S (jwt_config_map ns) (publish_key J access)) ?t1) = Ret m"
    using publish_run [of E objs ns J access ?t1] pub by blast
  have "run_state (create_or_patch_with R_secret ?S (jwt_secret ns) (secret_mutate J)) (t' @ later) = (Ret pems, ?t1)"
    by (simp add: create_or_patch_with_def R_secret_simps(1,2) fetch run_go_bind secret_mutate_again [OF s(2)] commit_secret del: append_assoc)
  then show ?thesis
    using publish
    by (simp add: GetOrGenerateKeys_def run_go_bind parse keys case_prod_unfold split: go.split)
qed

definition plain_keys :: "string key_lib" where
  "plain_keys = \<lparr>kg_generate = (\<lambda>t n. Inr (if n = 0 then ''a'' else ''r'')), kg_marshal = Inr, kg_parse = Inr,
     kg_pem_encode = (\<lambda>ty b. b), kg_pem_decode = (\<lambda>b. Some (''EC PRIVATE KEY'', b)), kg_marshal_public = Inr\<rparr>"

definition quiet :: environment where
  "quiet = \<lparr>env_suffix = (\<lambda>t. []), env_clock = (\<lambda>t. 0)\<rparr>"

lemma plain_keys_generated:
  "\<exists>t'. run_state (GetOrGenerateKeys plain_keys (store_server quiet []) ''ns'') [] = (Ret (''a'', ''r''), t')"
proof -
  let ?S = "store_server quiet []"
  let ?secret = "(jwt_secret ''ns'')\<lparr>sec_data := Some [AccessTokenPrivateKeyKey \<mapsto> ''a'', RefreshTokenPrivateKeyKey \<mapsto> ''r'']\<rparr>"
  let ?t1 = "[CFetch (KSecret (jwt_secret ''ns'')), CCommit (KSecret (jwt_secret ''ns'')) (KSecret ?secret)]"
  have "decode R_secret (sv_fetch ?S [] (KSecret (jwt_secret ''ns''))) = Inr (jwt_secret ''ns'')"
    by (simp add: fetch_secret key_secret_def objects_def)
  moreover have "run_state (secret_mutate plain_keys (jwt_secret ''ns'')) t = (Ret (?secret, ''a'', ''r''), t)" for t
    by (simp add: secret_mutate_def run_go_bind run_simps stored_key_def plain_keys_def jwt_secret_def
        AccessTokenPrivateKeyKey_def RefreshTokenPrivateKeyKey_def)
  ultimately have secret: "run_state (create_or_patch_with R_secret ?S (jwt_secret ''ns'') (secret_mutate plain_keys)) [] = (Ret (''a'', ''r''), ?t1)"
    by (simp add: create_or_patch_with_def R_secret_simps(1,2) run_go_bind commit_secret)
  obtain m where "fst (run_state (create_or_patch R_config_map ?S (jwt_config_map ''ns'') (publish_key plain_keys ''a'')) ?t1) = Ret m"
    using publish_run [of quiet "[]" "''ns''" plain_keys "''a''" ?t1] by (auto simp: plain_keys_def)
  with secret show ?thesis
    by (auto simp: GetOrGenerateKeys_def run_go_bind parse_private_key_def plain_keys_def split: prod.split)
qed

lemma keys_survive_restart_witness:
  "\<exists>t'. fst (run_state (GetOrGenerateKeys plain_keys (store_server quiet []) ''ns'') (t' @ [CNow, CGet AUser \<lparr>ok_namespace = [], ok_name = ''bob''\<rparr>]))
     = Ret (''a'', ''r'')"
proof -
  obtain t' where run: "run_state (GetOrGenerateKeys plain_keys (store_server quiet []) ''ns'') [] = (Ret (''a'', ''r''), t')"
    using plain_keys_generated by blast
  show ?thesis using keys_survive_restart [OF run, of "[CNow, CGet AUser \<lparr>ok_namespace = [], ok_name = ''bob''\<rparr>]"] by auto
qed

end
