(* ===== verification/Kubeconfigs.thy ===== *)
theory Kubeconfigs
  imports Clusters
begin

text \<open>
  The endpoint \<open>CreateClusterKubeconfig\<close> of \<open>internal/api/v1/handlers/kubeconfigs.go\<close>: it signs a client certificate with the
  certificate authority of the cluster and returns a kubeconfig around it. PEM coding, the parsing and creation of
  certificates, the generation of keys and the printing of the kubeconfig are the parameter \<open>kubeconfig_lib\<close>, over arbitrary types
  of certificates \<open>'c\<close>, signing keys \<open>'k\<close> and private keys \<open>'p\<close>. \<open>strings.ToLower\<close> is \<open>ascii_lower\<close> on each
  character; roles are ASCII. The subject of the request is an argument.
\<close>

record t_kubeconfig_options =
  tko_duration :: "string option"

text \<open>The fields of the certificate template that vary; the key usages are constants (client authentication).\<close>

record certificate_template =
  ct_common_name :: string
  ct_organization :: "string list"
  ct_not_before :: gotime
  ct_not_after :: gotime

record kube_cluster =
  kc_server :: string
  kc_certificate_authority_data :: string

record kube_context =
  kx_cluster :: string
  kx_auth_info :: string

record kube_auth_info =
  ka_client_certificate_data :: string
  ka_client_key_data :: string

record kubeconfig =
  kcf_clusters :: "(string \<times> kube_cluster) list"
  kcf_contexts :: "(string \<times> kube_context) list"
  kcf_auth_infos :: "(string \<times> kube_auth_info) list"
  kcf_current_context :: string

record ('c, 'k, 'p) kubeconfig_lib =
  kl_api :: api_lib
  kl_durations :: duration_lib
  kl_pem_decode :: "string \<Rightarrow> string option"
  kl_pem_encode :: "string \<Rightarrow> string \<Rightarrow> string"
  kl_parse_certificate :: "string \<Rightarrow> goerr + 'c"
  kl_not_before :: "'c \<Rightarrow> gotime"
  kl_parse_ec_key :: "string \<Rightarrow> goerr + 'k"
  kl_generate_key :: "trace \<Rightarrow> goerr + 'p"
  kl_create_certificate :: "trace \<Rightarrow> certificate_template \<Rightarrow> 'c \<Rightarrow> 'p \<Rightarrow> 'k \<Rightarrow> goerr + string"
  kl_marshal_key :: "'p \<Rightarrow> string"
  kl_write :: "kubeconfig \<Rightarrow> goerr + string"

definition TLSCertKey :: string where "TLSCertKey = ''tls.crt''"
definition TLSPrivateKeyKey :: string where "TLSPrivateKeyKey = ''tls.key''"

definition max_kubeconfig_duration :: duration where
  "max_kubeconfig_duration = time_Hour * 12"

text \<open>The lifetime asked for: twelve hours unless the request names another one within the bounds.\<close>

definition kubeconfig_duration :: "duration_lib \<Rightarrow> string option \<Rightarrow> goerr + duration" where
  "kubeconfig_duration D requested =
     (case requested of
        None \<Rightarrow> Inr max_kubeconfig_duration
      | Some s \<Rightarrow>
          (case dl_parse D s of
             Inl e \<Rightarrow> Inl e
           | Inr d \<Rightarrow>
               if d > max_kubeconfig_duration
               then Inl (NewInvalid ''kubeconfig'' [FieldInvalid [Child ''duration''] (BadInt d) ''must not be greater than 12 hours''])
               else if d < 0
               then Inl (NewInvalid ''kubeconfig'' [FieldInvalid [Child ''duration''] (BadInt d) ''must not be smaller than 0''])
               else Inr d))"

text \<open>The certificate and the signing key of the cluster's authority. A key that is not PEM makes the code dereference nil.\<close>

definition certificate_authority :: "('c, 'k, 'p) kubeconfig_lib \<Rightarrow> secret \<Rightarrow> (goerr, string \<times> 'c \<times> 'k) go" where
  "certificate_authority K s =
     (case map_lookup (sec_data s) TLSCertKey of
        None \<Rightarrow> Fail (Plain ''cluster certificate authority has no tls certificate'')
      | Some caCertificatePEM \<Rightarrow>
          (case map_lookup (sec_data s) TLSPrivateKeyKey of
             None \<Rightarrow> Fail (Plain ''cluster certificate authority has no tls private key'')
           | Some signingKeyPEM \<Rightarrow>
               (case kl_pem_decode K caCertificatePEM of
                  None \<Rightarrow> Fail (Plain ''unable to decode ca certificate as pem'')
                | Some block \<Rightarrow>
                    (case kl_parse_certificate K block of
                       Inl e \<Rightarrow> Fail e
                     | Inr caCertificate \<Rightarrow>
                         (case kl_pem_decode K signingKeyPEM of
                            None \<Rightarrow> Panic
                          | Some block \<Rightarrow>
                              (case kl_parse_ec_key K block of
                                 Inl e \<Rightarrow> Fail e
                               | Inr signingKey \<Rightarrow> Ret (caCertificatePEM, caCertificate, signingKey)))))))"

text \<open>The first member of the list that is labelled with the user; the zero member when there is none.\<close>

fun find_member :: "string \<Rightarrow> member list \<Rightarrow> member" where
  "find_member userName [] = zero_member"
| "find_member userName (m # ms) =
     (if map_str (om_labels (member_meta m)) LabelUserName = userName then m else find_member userName ms)"

definition user_certificate :: "user \<Rightarrow> member \<Rightarrow> gotime \<Rightarrow> gotime \<Rightarrow> certificate_template" where
  "user_certificate user member notBefore notAfter =
     \<lparr>ct_common_name = om_name (user_meta user),
      ct_organization = [''dockyards:'' @ map ascii_lower (ms_role (member_spec member))],
      ct_not_before = notBefore, ct_not_after = notAfter\<rparr>"

definition client_config :: "cluster \<Rightarrow> organization \<Rightarrow> user \<Rightarrow> string \<Rightarrow> string \<Rightarrow> string \<Rightarrow> kubeconfig" where
  "client_config c organization user caCertificatePEM certificatePEM privateKeyPEM =
     (let userAlias = om_name (user_meta user) @ ''/'' @ om_name (cluster_meta c);
          clusterAlias = om_name (cluster_meta c) @ ''/'' @ om_name (organization_meta organization);
          contextName = userAlias @ ''@'' @ clusterAlias
      in \<lparr>kcf_clusters = [(clusterAlias, \<lparr>kc_server = ClusterAPIEndpoint_String (cst_api_endpoint (cluster_status c)),
            kc_certificate_authority_data = caCertificatePEM\<rparr>)],
          kcf_contexts = [(contextName, \<lparr>kx_cluster = clusterAlias, kx_auth_info = userAlias\<rparr>)],
          kcf_auth_infos = [(userAlias, \<lparr>ka_client_certificate_data = certificatePEM, ka_client_key_data = privateKeyPEM\<rparr>)],
          kcf_current_context = contextName\<rparr>)"

definition CreateClusterKubeconfig ::
  "('c, 'k, 'p) kubeconfig_lib \<Rightarrow> server \<Rightarrow> goerr + string \<Rightarrow> cluster \<Rightarrow> t_kubeconfig_options \<Rightarrow> (trace, (goerr, string) go) state"
where
  "CreateClusterKubeconfig K S sub c request =
     (if \<not> ClusterAPIEndpoint_IsValid (cst_api_endpoint (cluster_status c))
      then ret (Fail (Plain ''cluster does not have a valid api endpoint''))
      else go_bind (ret (go_of_sum (kubeconfig_duration (kl_durations K) (tko_duration request)))) (\<lambda>duration.
      go_bind (try_call (k_get R_secret S \<lparr>ok_namespace = om_namespace (cluster_meta c), ok_name = om_name (cluster_meta c) @ ''-ca''\<rparr>)) (\<lambda>secret.
      go_bind (ret (certificate_authority K secret)) (\<lambda>(caCertificatePEM, caCertificate, signingKey).
      go_bind (ret (go_of_sum sub)) (\<lambda>subject.
      go_bind (try_call (k_get R_user S (named subject))) (\<lambda>user.
      go_bind (try_call (k_list R_member S (in_namespace (om_namespace (user_meta user))))) (\<lambda>members.
      go_bind (try_call (GetOwnerOrganization (kl_api K) S (cluster_meta c))) (\<lambda>organization. do {
        now \<leftarrow> k_now S;
        let tmpl = user_certificate user (find_member (om_name (user_meta user)) members) (kl_not_before K caCertificate) (now + duration);
        go_bind (try_call (observe (kl_generate_key K))) (\<lambda>privateKey.
        go_bind (try_call (observe (\<lambda>t. kl_create_certificate K t tmpl caCertificate privateKey signingKey))) (\<lambda>certificate.
        ret (go_of_sum (kl_write K (client_config c organization user caCertificatePEM
          (kl_pem_encode K ''CERTIFICATE'' certificate)
          (kl_pem_encode K ''RSA PRIVATE KEY'' (kl_marshal_key K privateKey)))))))
      }))))))))"

subsection \<open>What is issued\<close>

definition ca_key :: "cluster \<Rightarrow> object_key" where
  "ca_key c = \<lparr>ok_namespace = om_namespace (cluster_meta c), ok_name = om_name (cluster_meta c) @ ''-ca''\<rparr>"

text \<open>The kubeconfig holds a certificate for the user, created after \<open>t\<close> from the template.\<close>

definition holds_certificate :: "('c, 'k, 'p) kubeconfig_lib \<Rightarrow> trace \<Rightarrow> cluster \<Rightarrow> user \<Rightarrow> certificate_template \<Rightarrow> string \<Rightarrow> bool" where
  "holds_certificate K t c user tmpl config =
     (\<exists>ca p key certificate organization caPEM.
        kl_create_certificate K t tmpl ca p key = Inr certificate \<and> ct_not_before tmpl = kl_not_before K ca
        \<and> kl_write K (client_config c organization user caPEM (kl_pem_encode K ''CERTIFICATE'' certificate)
            (kl_pem_encode K ''RSA PRIVATE KEY'' (kl_marshal_key K p))) = Inr config)"

lemma holds_certificateI:
  "kl_create_certificate K t (user_certificate user m (kl_not_before K ca) na) ca p key = Inr certificate \<Longrightarrow>
   kl_write K (client_config c organization user caPEM (kl_pem_encode K ''CERTIFICATE'' certificate)
     (kl_pem_encode K ''RSA PRIVATE KEY'' (kl_marshal_key K p))) = Inr config \<Longrightarrow>
   \<exists>nb. holds_certificate K t c user (user_certificate user m nb na) config"
  unfolding holds_certificate_def by (intro exI [of _ "kl_not_before K ca"] exI conjI; (assumption | simp add: user_certificate_def))

lemma kubeconfig_duration_bounds:
  "kubeconfig_duration D requested = Inr d \<Longrightarrow> 0 \<le> d \<and> d \<le> max_kubeconfig_duration"
  by (auto simp: kubeconfig_duration_def max_kubeconfig_duration_def time_defs split: option.splits sum.splits if_splits)

lemma kubeconfig_runs:
  assumes "run_state (CreateClusterKubeconfig K S sub c request) t = (Ret config, t')"
  shows "\<exists>subject user members d tl nb. sub = Inr subject \<and> sv_get S (t @ [CGet ASecret (ca_key c)]) AUser (named subject) = Inr (KUser user)
    \<and> decode_list R_member (sv_list S (t @ [CGet ASecret (ca_key c), CGet AUser (named subject)]) AMember
          (in_namespace (om_namespace (user_meta user)))) = Inr members
    \<and> 0 \<le> d \<and> d \<le> max_kubeconfig_duration \<and> t' = tl @ [CNow]
    \<and> holds_certificate K t' c user (user_certificate user (find_member (om_name (user_meta user)) members) nb (sv_now S tl + d)) config"
proof -
  note simps = CreateClusterKubeconfig_def run_go_bind run_simps R_user_simps R_secret_simps R_member_simps go_of_sum_def ca_key_def
  show ?thesis
    using assms
    apply (simp add: simps split: sum.splits if_splits option.splits prod.splits go.splits)
    apply clarify
    apply (drule (1) holds_certificateI)
    apply (drule kubeconfig_duration_bounds)
    apply (elim exE conjE)
    apply (intro exI conjI; (rule refl | assumption)?)
    done
qed

text \<open>C20 A kubeconfig is short-lived and bound to its user: whenever \<open>CreateClusterKubeconfig\<close> returns a kubeconfig, it holds a certificate
  whose common name is that of the user read under the subject of the request, and which expires between the moment of its
  creation and twelve hours later, whatever duration was asked for.\<close>

theorem kubeconfig_lifetime:
  assumes "run_state (CreateClusterKubeconfig K S sub c request) t = (Ret config, t')"
  shows "\<exists>subject user tmpl. sub = Inr subject \<and> sv_get S (t @ [CGet ASecret (ca_key c)]) AUser (named subject) = Inr (KUser user)
     \<and> holds_certificate K t' c user tmpl config \<and> ct_common_name tmpl = om_name (user_meta user)
     \<and> last t' = CNow \<and> sv_now S (butlast t') \<le> ct_not_after tmpl \<and> ct_not_after tmpl \<le> sv_now S (butlast t') + 12 * time_Hour"
proof -
  obtain subject user members d tl nb where sub: "sub = Inr subject" and user: "sv_get S (t @ [CGet ASecret (ca_key c)]) AUser (named subject) = Inr (KUser user)"
    and d: "0 \<le> d" "d \<le> max_kubeconfig_duration" and t': "t' = tl @ [CNow]"
    and holds: "holds_certificate K t' c user (user_certificate user (find_member (om_name (user_meta user)) members) nb (sv_now S tl + d)) config"
    using kubeconfig_runs [OF assms] by metis
  let ?tmpl = "user_certificate user (find_member (om_name (user_meta user)) members) nb (sv_now S tl + d)"
  have "ct_common_name ?tmpl = om_name (user_meta user)" "sv_now S tl \<le> ct_not_after ?tmpl"
    "ct_not_after ?tmpl \<le> sv_now S tl + 12 * time_Hour"
    using d by (simp_all add: user_certificate_def max_kubeconfig_duration_def)
  with sub user t' holds show ?thesis by fastforce
qed

definition all_members :: "kobject list \<Rightarrow> member list" where
  "all_members objs = List.map_filter (rk_unwrap R_member) objs"


subsection \<open>Two organizations\<close>

text \<open>Carol is a super user of one organization and a reader of another one, where she asks for a kubeconfig.\<close>

definition plain_durations :: duration_lib where
  "plain_durations = \<lparr>dl_parse = (\<lambda>s. Inr (int (length s))), dl_string = (\<lambda>d. [])\<rparr>"

definition plain_kubeconfigs :: "(string, string, string) kubeconfig_lib" where
  "plain_kubeconfigs = \<lparr>kl_api = plain_lib, kl_durations = plain_durations, kl_pem_decode = Some, kl_pem_encode = (\<lambda>ty b. b),
     kl_parse_certificate = Inr, kl_not_before = (\<lambda>c. 0), kl_parse_ec_key = Inr, kl_generate_key = (\<lambda>t. Inr ''k''),
     kl_create_certificate = (\<lambda>t tmpl ca p key. Inr (concat (ct_organization tmpl))), kl_marshal_key = (\<lambda>p. p),
     kl_write = (\<lambda>cfg. Inr (concat (map (ka_client_certificate_data \<circ> snd) (kcf_auth_infos cfg))))\<rparr>"

definition carol :: user where
  "carol = zero_user\<lparr>user_meta := empty_meta\<lparr>om_name := ''carol''\<rparr>\<rparr>"

definition carols_member :: "string \<Rightarrow> string \<Rightarrow> member" where
  "carols_member ns role = zero_member\<lparr>
     member_meta := empty_meta\<lparr>om_name := ''carol'', om_namespace := ns, om_labels := Some [LabelUserName \<mapsto> ''carol'']\<rparr>,
     member_spec := (member_spec zero_member)\<lparr>ms_role := role\<rparr>\<rparr>"

definition read_cluster :: cluster where
  "read_cluster = zero_cluster\<lparr>
     cluster_meta := empty_meta\<lparr>om_name := ''c'', om_namespace := ''second'', om_labels := Some [LabelOrganizationName \<mapsto> ''second'']\<rparr>,
     cluster_status := (cluster_status zero_cluster)\<lparr>cst_api_endpoint := \<lparr>ae_host = ''h'', ae_port = 1\<rparr>\<rparr>\<rparr>"

definition carols_objects :: "kobject list" where
  "carols_objects = [KMember (carols_member ''first'' RoleSuperUser), KMember (carols_member ''second'' RoleReader)]"

definition carols_server :: server where
  "carols_server = empty_server\<lparr>
     sv_get := (\<lambda>t kd key. Inr (case kd of AUser \<Rightarrow> KUser carol | AOrganization \<Rightarrow> KOrganization zero_organization
       | _ \<Rightarrow> KSecret \<lparr>sec_meta = empty_meta, sec_type = [], sec_data = Some [TLSCertKey \<mapsto> ''ca'', TLSPrivateKeyKey \<mapsto> ''key'']\<rparr>)),
     sv_list := (\<lambda>t kd opts. Inr (filter (\<lambda>x. kind_of x = kd \<and> selected opts x) carols_objects))\<rparr>"

lemma carols_kubeconfig:
  "\<exists>t'. run_state (CreateClusterKubeconfig plain_kubeconfigs carols_server (Inr ''carol'') read_cluster \<lparr>tko_duration = None\<rparr>) []
     = (Ret ''dockyards:superuser'', t')"
proof -
  have "ClusterAPIEndpoint_IsValid (cst_api_endpoint (cluster_status read_cluster))"
    by (simp add: read_cluster_def ClusterAPIEndpoint_IsValid_def)
  moreover have "sv_get carols_server t kd key = Inr (case kd of AUser \<Rightarrow> KUser carol | AOrganization \<Rightarrow> KOrganization zero_organization
       | _ \<Rightarrow> KSecret \<lparr>sec_meta = empty_meta, sec_type = [], sec_data = Some [TLSCertKey \<mapsto> ''ca'', TLSPrivateKeyKey \<mapsto> ''key'']\<rparr>)" for t kd key
    by (simp add: carols_server_def)
  moreover have "sv_list carols_server t AMember (in_namespace [])
      = Inr [KMember (carols_member ''first'' RoleSuperUser), KMember (carols_member ''second'' RoleReader)]" for t
    by (simp add: carols_server_def carols_objects_def selected_def in_namespace_def)
  moreover have "decode_list R_member (Inr [KMember m, KMember n]) = Inr [m, n]" for m n
    by (simp add: decode_list_def R_member_def)
  moreover have "map ascii_lower RoleSuperUser = ''superuser''"
    by (simp add: RoleSuperUser_def ascii_lower_def char_of_eq_iff)
  ultimately show ?thesis
    by (simp add: Let_def CreateClusterKubeconfig_def run_go_bind run_simps kubeconfig_duration_def certificate_authority_def plain_kubeconfigs_def
        R_user_simps R_secret_simps R_member_simps(1-2) R_organization_simps TLSCertKey_def TLSPrivateKeyKey_def GetOwnerOrganization_def getOwner_def
        read_cluster_def user_certificate_def client_config_def carol_def carols_member_def zero_defs)
qed

lemma kubeconfig_lifetime_witness:
  "\<exists>t' user tmpl. holds_certificate plain_kubeconfigs t' read_cluster user tmpl ''dockyards:superuser''
     \<and> ct_not_after tmpl \<le> sv_now carols_server (butlast t') + 12 * time_Hour"
proof -
  obtain t' where run: "run_state (CreateClusterKubeconfig plain_kubeconfigs carols_server (Inr ''carol'') read_cluster \<lparr>tko_duration = None\<rparr>) []
     = (Ret ''dockyards:superuser'', t')" using carols_kubeconfig by blast
  show ?thesis using kubeconfig_lifetime [OF run] by blast
qed


end
