(* ===== verification/Sso.thy ===== *)
theory Sso
  imports Accounts
begin

text \<open>
  Single sign-on: \<open>internal/api/v1/handlers/sso.go\<close> and \<open>unprotectedRoute\<close> of \<open>handlers.go\<close>. \<open>LoginOIDC\<close> sends the browser to the identity
  provider with a state and a nonce, kept in cookies; \<open>Callback\<close> checks both, exchanges the code for an identity token, finds
  or creates the user and redirects with a refresh token. A handler that succeeds returns its effects on the response, in order.
  Base64, JSON, SHA-256 and the OpenID Connect client are the parameter \<open>sso_lib\<close>, over arbitrary types of JSON values
  \<open>'j\<close> and providers \<open>'p\<close>; the \<open>n\<close>-th draw of random bytes at a moment is \<open>sl_rand_read t n\<close>. The entries of a
  secret are read in the order in which the run-time ranges over them. Logging is left out.
\<close>

record oidc_client_config =
  occ_client_id :: string
  occ_redirect_url :: string
  occ_client_secret :: string

record oidc_provider_config =
  opc_issuer :: string
  opc_authorization_endpoint :: string
  opc_token_endpoint :: string
  opc_device_authorization_endpoint :: string
  opc_userinfo_endpoint :: string
  opc_jwks_uri :: string
  opc_id_token_signing_algs :: "string list"

record oidc_config =
  oic_client_config :: oidc_client_config
  oic_provider_discovery_url :: "string option"
  oic_provider_config :: "oidc_provider_config option"

text \<open>The endpoint of a provider: the URLs for codes and for tokens.\<close>

record oauth_config =
  oc_client_id :: string
  oc_client_secret :: string
  oc_endpoint :: "string \<times> string"
  oc_redirect_url :: string
  oc_scopes :: "string list"

record new_provider_config =
  npc_issuer_url :: string
  npc_auth_url :: string
  npc_token_url :: string
  npc_jwks_url :: string
  npc_algorithms :: "string list"

record state_struct =
  ss_csrf :: string
  ss_idp :: string
  ss_callback_url :: string

record sso_claims =
  sc_email :: string
  sc_preferred_username :: string
  sc_name :: string

record id_token =
  it_nonce :: string
  it_claims :: "goerr + sso_claims"

record ('j, 'p) sso_lib =
  sl_accounts :: account_lib
  sl_rand_read :: "trace \<Rightarrow> nat \<Rightarrow> nat \<Rightarrow> goerr + string \<times> int"
  sl_base64_encode :: "string \<Rightarrow> string"
  sl_base64_decode :: "string \<Rightarrow> goerr + string"
  sl_marshal_state :: "state_struct \<Rightarrow> goerr + string"
  sl_unmarshal_state :: "string \<Rightarrow> goerr + state_struct"
  sl_sha256_hex :: "string \<Rightarrow> string"
  sl_range :: "(string \<rightharpoonup> string) \<Rightarrow> (string \<times> string) list"
  sl_unmarshal_value :: "string \<Rightarrow> goerr + 'j"
  sl_marshal_values :: "(string \<rightharpoonup> 'j) \<Rightarrow> goerr + string"
  sl_unmarshal_config :: "string \<Rightarrow> goerr + oidc_config"
  sl_provider :: "new_provider_config \<Rightarrow> 'p"
  sl_discover :: "trace \<Rightarrow> string \<Rightarrow> goerr + 'p"
  sl_endpoint :: "'p \<Rightarrow> string \<times> string"
  sl_auth_code_url :: "oauth_config \<Rightarrow> string \<Rightarrow> (string \<times> string) list \<Rightarrow> string"
  sl_exchange :: "trace \<Rightarrow> oauth_config \<Rightarrow> string \<Rightarrow> goerr + string option"
  sl_verify :: "trace \<Rightarrow> 'p \<Rightarrow> string \<Rightarrow> string \<Rightarrow> goerr + id_token"

text \<open>What the handlers read of a request: query parameters (empty when missing), cookies, and whether it came over TLS.\<close>

record sso_request =
  sq_idp :: string
  sq_callback_url :: string
  sq_code :: string
  sq_state :: string
  sq_nonce_cookie :: "string option"
  sq_state_cookie :: "string option"
  sq_tls :: bool

text \<open>The effects on the response.\<close>

datatype sso_action =
    SetCookie string string bool
  | Redirect string nat

definition NewBadRequest :: "string \<Rightarrow> goerr" where
  "NewBadRequest message = StatusErr BadRequest None message"

text \<open>\<open>fmt.Errorf\<close> around the error of a computation.\<close>

definition wrapping :: "string \<Rightarrow> (trace, (goerr, 'a) go) state \<Rightarrow> (trace, (goerr, 'a) go) state" where
  "wrapping text m = do { r \<leftarrow> m; ret (case r of Ret a \<Rightarrow> Ret a | Fail e \<Rightarrow> Fail (Wrapped text e) | Panic \<Rightarrow> Panic) }"

text \<open>An error of a computation becomes an internal error.\<close>

definition internal :: "(trace, (goerr, 'a) go) state \<Rightarrow> (trace, (goerr, 'a) go) state" where
  "internal m = do { r \<leftarrow> m; ret (case r of Ret a \<Rightarrow> Ret a | Fail e \<Rightarrow> Fail (NewInternalError e) | Panic \<Rightarrow> Panic) }"

subsection \<open>The provider\<close>

fun config_values :: "('j, 'p) sso_lib \<Rightarrow> (string \<times> string) list \<Rightarrow> (string \<rightharpoonup> 'j) \<Rightarrow> (goerr, string \<rightharpoonup> 'j) go" where
  "config_values L [] obj = Ret obj"
| "config_values L ((key, value) # rest) obj =
     (case sl_unmarshal_value L value of
        Inl e \<Rightarrow> Fail (Wrapped (''could not unmarshal oidc config key '' @ [CHR 0x27] @ key @ [CHR 0x27]) e)
      | Inr v \<Rightarrow> config_values L rest (obj(key \<mapsto> v)))"

fun empty_field :: "(bool \<times> string) list \<Rightarrow> string option" where
  "empty_field [] = None"
| "empty_field ((missing, name) # rest) = (if missing then Some name else empty_field rest)"

definition provider_config_fields :: "oidc_provider_config \<Rightarrow> (bool \<times> string) list" where
  "provider_config_fields c = [
     (opc_issuer c = [], ''issuer''),
     (opc_authorization_endpoint c = [], ''authorization_endpoint''),
     (opc_token_endpoint c = [], ''token_endpoint''),
     (opc_device_authorization_endpoint c = [], ''device_authorization_endpoint''),
     (opc_userinfo_endpoint c = [], ''userinfo_endpoint''),
     (opc_jwks_uri c = [], ''jwks_uri''),
     (length (opc_id_token_signing_algs c) = 0, ''id_token_signing_alg_values_supported'')]"

definition getOIDCConfig :: "('j, 'p) sso_lib \<Rightarrow> server \<Rightarrow> secret_ref \<Rightarrow> (trace, (goerr, oidc_config) go) state" where
  "getOIDCConfig L S ref =
     go_bind (try_call (k_get R_secret S \<lparr>ok_namespace = scr_namespace ref, ok_name = scr_name ref\<rparr>)) (\<lambda>secret.
     go_bind (ret (config_values L (case sec_data secret of None \<Rightarrow> [] | Some d \<Rightarrow> sl_range L d) Map.empty)) (\<lambda>obj.
     go_bind (ret (go_of_sum (sl_marshal_values L obj))) (\<lambda>payload.
     go_bind (ret (go_of_sum (sl_unmarshal_config L payload))) (\<lambda>oidcConfig.
     case oic_provider_config oidcConfig of
       None \<Rightarrow> ret (Ret oidcConfig)
     | Some c \<Rightarrow>
         (case empty_field (provider_config_fields c) of
            None \<Rightarrow> ret (Ret oidcConfig)
          | Some name \<Rightarrow> ret (Fail (Plain (''invalid oidc provider config: '' @ name @ '' field is suspiciously empty''))))))))"

definition getOIDCProvider :: "('j, 'p) sso_lib \<Rightarrow> oidc_config \<Rightarrow> (trace, (goerr, 'p) go) state" where
  "getOIDCProvider L oidcConfig =
     (case oic_provider_config oidcConfig of
        Some c \<Rightarrow> ret (Ret (sl_provider L \<lparr>npc_issuer_url = opc_issuer c, npc_auth_url = opc_authorization_endpoint c,
          npc_token_url = opc_token_endpoint c, npc_jwks_url = opc_jwks_uri c, npc_algorithms = opc_id_token_signing_algs c\<rparr>))
      | None \<Rightarrow>
          (case oic_provider_discovery_url oidcConfig of
             Some url \<Rightarrow> try_call (observe (\<lambda>t. sl_discover L t url))
           | None \<Rightarrow> ret (Fail (Plain ''oidc config needs either provider config or provider discovery url''))))"

definition sso_config ::
  "('j, 'p) sso_lib \<Rightarrow> config_manager option \<Rightarrow> server \<Rightarrow> string \<Rightarrow> (trace, (goerr, oauth_config \<times> 'p) go) state"
where
  "sso_config L cfg S providerName =
     (let publicNamespace = GetValueOrDefault cfg KeyPublicNamespace ''dockyards-public'' in
      go_bind (wrapping ''could not get provider'' (try_call (k_get R_identity_provider S
        \<lparr>ok_namespace = publicNamespace, ok_name = providerName\<rparr>))) (\<lambda>identityProvider.
      case ips_oidc_config_ref (identity_provider_spec identityProvider) of
        None \<Rightarrow> ret (Fail (Plain ''oidc config ref was is not set''))
      | Some configRef \<Rightarrow>
          go_bind (wrapping ''could not get oidc config'' (getOIDCConfig L S configRef)) (\<lambda>oidcConfig.
          go_bind (wrapping ''could not get oidc provider'' (getOIDCProvider L oidcConfig)) (\<lambda>provider.
          let c = oic_client_config oidcConfig in
          ret (Ret (\<lparr>oc_client_id = occ_client_id c, oc_client_secret = occ_client_secret c, oc_endpoint = sl_endpoint L provider,
            oc_redirect_url = occ_redirect_url c, oc_scopes = [''openid'', ''email'', ''profile'']\<rparr>, provider))))))"

subsection \<open>Leaving for the provider\<close>

definition makeNonce :: "('j, 'p) sso_lib \<Rightarrow> nat \<Rightarrow> (trace, (goerr, string) go) state" where
  "makeNonce L n =
     go_bind (try_call (observe (\<lambda>t. sl_rand_read L t n 18))) (\<lambda>(src, count).
     if count \<noteq> 18 then ret (Fail (Plain ''unexpected byte count'')) else ret (Ret (sl_base64_encode L src)))"

definition makeState :: "('j, 'p) sso_lib \<Rightarrow> nat \<Rightarrow> string \<Rightarrow> string \<Rightarrow> (trace, (goerr, string) go) state" where
  "makeState L n identityProviderName callbackURL =
     go_bind (try_call (observe (\<lambda>t. sl_rand_read L t n 18))) (\<lambda>(src, _).
     go_bind (ret (go_of_sum (sl_marshal_state L \<lparr>ss_csrf = sl_base64_encode L src, ss_idp = identityProviderName,
       ss_callback_url = callbackURL\<rparr>))) (\<lambda>stateJSON.
     ret (Ret (sl_base64_encode L stateJSON))))"

definition LoginOIDC ::
  "('j, 'p) sso_lib \<Rightarrow> config_manager option \<Rightarrow> server \<Rightarrow> sso_request \<Rightarrow> (trace, (goerr, sso_action list) go) state"
where
  "LoginOIDC L cfg S req =
     go_bind (internal (sso_config L cfg S (sq_idp req))) (\<lambda>(config, _).
     go_bind (internal (wrapping ''could not make state'' (makeState L 0 (sq_idp req) (sq_callback_url req)))) (\<lambda>state.
     go_bind (internal (wrapping ''could not make nonce'' (makeNonce L 1))) (\<lambda>nonce.
     ret (Ret [SetCookie ''state'' state (sq_tls req), SetCookie ''nonce'' nonce (sq_tls req),
       Redirect (sl_auth_code_url L config state [(''nonce'', sl_sha256_hex L nonce), (''prompt'', ''consent'')]) 303]))))"

subsection \<open>Coming back\<close>

definition decodeState :: "('j, 'p) sso_lib \<Rightarrow> string \<Rightarrow> goerr + state_struct" where
  "decodeState L data =
     (case sl_base64_decode L data of
        Inl e \<Rightarrow> Inl (Wrapped ''could not decode state'' e)
      | Inr stateJSON \<Rightarrow> sl_unmarshal_state L stateJSON)"

definition randomPassword :: "('j, 'p) sso_lib \<Rightarrow> (trace, (goerr, string) go) state" where
  "randomPassword L =
     go_bind (try_call (observe (\<lambda>t. sl_rand_read L t 0 64))) (\<lambda>(bytes, _).
     try_call (observe (\<lambda>t. al_hash (sl_accounts L) t bytes)))"

definition sso_user_name :: "string \<Rightarrow> sso_claims \<Rightarrow> string" where
  "sso_user_name providerName claims = providerName @ ''-'' @ sc_preferred_username claims"

definition sso_user :: "string \<Rightarrow> sso_claims \<Rightarrow> string \<Rightarrow> gotime \<Rightarrow> user" where
  "sso_user providerName claims password now = zero_user\<lparr>
     user_meta := empty_meta\<lparr>om_name := sso_user_name providerName claims, om_labels := make_map [(LabelProviderName, providerName)]\<rparr>,
     user_spec := (user_spec zero_user)\<lparr>us_display_name := sc_name claims, us_password := password, us_email := sc_email claims,
       us_provider_id := providerName @ ''://'' @ sc_preferred_username claims\<rparr>,
     user_status := (user_status zero_user)\<lparr>ust_conditions := [\<lparr>c_type = ReadyCondition, c_status = ConditionTrue,
       c_reason = VerificationReasonVerified, c_message = ''Verified by OIDC'', c_transition = now\<rparr>]\<rparr>\<rparr>"

definition getOrCreateUser ::
  "('j, 'p) sso_lib \<Rightarrow> server \<Rightarrow> string \<Rightarrow> sso_claims \<Rightarrow> (trace, (goerr, user) go) state"
where
  "getOrCreateUser L S providerName claims = do {
     r \<leftarrow> k_get R_user S (named (sso_user_name providerName claims));
     case r of
       Inr user \<Rightarrow>
         if \<not> HasPrefix (us_provider_id (user_spec user)) (providerName @ ''://'')
         then ret (Fail (Plain ''user provider id was invalid''))
         else if map_str (om_labels (user_meta user)) LabelProviderName \<noteq> providerName
         then ret (Fail (Plain ''user provider name was invalid''))
         else ret (Ret user)
     | Inl e \<Rightarrow>
         if \<not> has_reason NotFound e then ret (Fail e)
         else go_bind (wrapping ''could not create random password'' (randomPassword L)) (\<lambda>password. do {
           now \<leftarrow> k_now S;
           wrapping ''could not create user'' (try_call (k_create R_user S (sso_user providerName claims password now)))
         })
   }"

definition Callback ::
  "('j, 'p) sso_lib \<Rightarrow> config_manager option \<Rightarrow> server \<Rightarrow> sso_request \<Rightarrow> (trace, (goerr, sso_action list) go) state"
where
  "Callback L cfg S req =
     (case sq_nonce_cookie req of
        None \<Rightarrow> ret (Fail (NewInternalError (Plain ''nonce cookie was not set'')))
      | Some nonceCookie \<Rightarrow>
          let expectedNonce = sl_sha256_hex L nonceCookie in
          (case sq_state_cookie req of
             None \<Rightarrow> ret (Fail (NewBadRequest ''state cookie not found''))
           | Some stateCookie \<Rightarrow>
               if sq_state req = [] then ret (Fail (NewBadRequest ''state query not found''))
               else if stateCookie \<noteq> sq_state req then ret (Fail (NewBadRequest ''state cookie did not match query parameter''))
               else go_bind (internal (ret (go_of_sum (decodeState L (sq_state req))))) (\<lambda>state.
               go_bind (internal (wrapping ''could not get config'' (sso_config L cfg S (ss_idp state)))) (\<lambda>(config, provider).
               go_bind (internal (wrapping ''could not exchange tokens'' (try_call (observe (\<lambda>t. sl_exchange L t config (sq_code req)))))) (\<lambda>extra.
               case extra of
                 None \<Rightarrow> ret (Fail (NewInternalError (Plain ''could not find id_token field in oauth2 token'')))
               | Some rawIDToken \<Rightarrow>
                   go_bind (internal (try_call (observe (\<lambda>t. sl_verify L t provider (oc_client_id config) rawIDToken)))) (\<lambda>token.
                   if it_nonce token \<noteq> expectedNonce
                   then ret (Fail (NewInternalError (Plain ''token nonce did not match cookie nonce'')))
                   else go_bind (internal (wrapping ''could not parse claims'' (ret (go_of_sum (it_claims token))))) (\<lambda>claims.
                   go_bind (internal (wrapping ''could not get or create user'' (getOrCreateUser L S (ss_idp state) claims))) (\<lambda>user.
                   go_bind (internal (wrapping ''could not generate tokens'' (generateTokens (sl_accounts L) S user))) (\<lambda>tokens.
                   ret (Ret [Redirect (ss_callback_url state @ ''/'' @ tt_refresh_token tokens) 302]))))))))))"

subsection \<open>Routes without a token\<close>

text \<open>The code of a status error; the codes of reasons the program does not build itself are a parameter.\<close>

fun status_code :: "(string \<Rightarrow> nat) \<Rightarrow> reason \<Rightarrow> nat" where
  "status_code codes NotFound = 404"
| "status_code codes Conflict = 409"
| "status_code codes AlreadyExists = 409"
| "status_code codes Invalid = 422"
| "status_code codes Unauthorized = 401"
| "status_code codes Forbidden = 403"
| "status_code codes InternalError = 500"
| "status_code codes BadRequest = 400"
| "status_code codes (OtherReason s) = codes s"

text \<open>\<open>errors.As\<close> finds a status error through wrapping.\<close>

fun api_status :: "goerr \<Rightarrow> reason option" where
  "api_status (StatusErr r d m) = Some r"
| "api_status (Wrapped s e) = api_status e"
| "api_status (Plain s) = None"

datatype unprotected_reply = Effects "sso_action list" | Header nat

definition unprotectedRoute :: "(string \<Rightarrow> nat) \<Rightarrow> (trace, (goerr, sso_action list) go) state \<Rightarrow> (trace, unprotected_reply option) state" where
  "unprotectedRoute codes callback = do {
     r \<leftarrow> callback;
     ret (case r of
       Ret actions \<Rightarrow> Some (Effects actions)
     | Panic \<Rightarrow> None
     | Fail e \<Rightarrow>
         (case api_status e of
            None \<Rightarrow> Some (Header 500)
          | Some reason \<Rightarrow> (let code = status_code codes reason in Some (Header (if code = 0 then 500 else code)))))
   }"

subsection \<open>Who is signed in, and where the token goes\<close>

lemma run_wrapping [run_simps]:
  "run_state (wrapping text m) t =
     (case run_state m t of (Ret a, t') \<Rightarrow> (Ret a, t') | (Fail e, t') \<Rightarrow> (Fail (Wrapped text e), t') | (Panic, t') \<Rightarrow> (Panic, t'))"
  by (simp add: wrapping_def split: prod.splits go.splits)

lemma run_internal [run_simps]:
  "run_state (internal m) t =
     (case run_state m t of (Ret a, t') \<Rightarrow> (Ret a, t') | (Fail e, t') \<Rightarrow> (Fail (NewInternalError e), t') | (Panic, t') \<Rightarrow> (Panic, t'))"
  by (simp add: internal_def split: prod.splits go.splits)

lemma wrapping_Ret: "run_state (wrapping text m) t = (Ret a, t') \<longleftrightarrow> run_state m t = (Ret a, t')"
  by (simp add: run_wrapping split: prod.splits go.splits)

lemma internal_Ret: "run_state (internal m) t = (Ret a, t') \<longleftrightarrow> run_state m t = (Ret a, t')"
  by (simp add: run_internal split: prod.splits go.splits)

lemma go_bind_Ret: "run_state (go_bind m f) t = (Ret b, t') \<longleftrightarrow> (\<exists>a t1. run_state m t = (Ret a, t1) \<and> run_state (f a) t1 = (Ret b, t'))"
  by (simp add: run_go_bind split: prod.splits go.splits)

lemma ret_sum_Ret: "run_state (ret (go_of_sum r)) t = (Ret a, t') \<longleftrightarrow> r = Inr a \<and> t' = t"
  by (cases r) (auto simp: go_of_sum_def)

lemma observe_Ret: "run_state (try_call (observe f)) t = (Ret a, t') \<longleftrightarrow> f t = Inr a \<and> t' = t"
  by (auto simp: try_call_Ret)

lemma sum_Ret: "go_of_sum r = Ret a \<longleftrightarrow> r = Inr a"
  by (cases r) (auto simp: go_of_sum_def)

lemmas returns = sum_Ret wrapping_Ret internal_Ret go_bind_Ret ret_sum_Ret observe_Ret

text \<open>The account a sign-on ends in: one of the provider that is stored under the name, or a new one.\<close>

definition sso_account :: "server \<Rightarrow> string \<Rightarrow> sso_claims \<Rightarrow> trace \<Rightarrow> user \<Rightarrow> bool" where
  "sso_account S idp claims t user =
     (let key = named (sso_user_name idp claims) in
      (sv_get S t AUser key = Inr (KUser user) \<and> HasPrefix (us_provider_id (user_spec user)) (idp @ ''://'')
         \<and> map_str (om_labels (user_meta user)) LabelProviderName = idp)
      \<or> ((\<exists>e. decode R_user (sv_get S t AUser key) = Inl e \<and> has_reason NotFound e)
         \<and> (\<exists>password now. sv_create S (t @ [CGet AUser key, CNow]) (KUser (sso_user idp claims password now)) = Inr (KUser user))))"

lemma getOrCreateUser_account:
  assumes "run_state (getOrCreateUser L S idp claims) t = (Ret user, t')"
  shows "sso_account S idp claims t user"
  using assms
  by (auto simp: getOrCreateUser_def sso_account_def R_user_simps randomPassword_def run_simps returns
      run_go_bind go_of_sum_def Let_def split: sum.splits if_splits prod.splits go.splits)

lemma generateTokens_Ret: "run_state (generateTokens A S u) t = (Ret tokens, t') \<Longrightarrow> issued A S t u tokens"
  using generateTokens_issued [of A S u t tokens] by simp

text \<open>Everything a successful callback has checked.\<close>

lemma callback_runs:
  assumes "run_state (Callback L cfg S req) t = (Ret actions, t')"
  shows "\<exists>nonce state config provider raw t1 token claims user t2 tokens.
     sq_nonce_cookie req = Some nonce \<and> sq_state_cookie req = Some (sq_state req) \<and> sq_state req \<noteq> []
     \<and> decodeState L (sq_state req) = Inr state
     \<and> run_state (sso_config L cfg S (ss_idp state)) t = (Ret (config, provider), t1)
     \<and> sl_exchange L t1 config (sq_code req) = Inr (Some raw)
     \<and> sl_verify L t1 provider (oc_client_id config) raw = Inr token \<and> it_nonce token = sl_sha256_hex L nonce
     \<and> it_claims token = Inr claims \<and> sso_account S (ss_idp state) claims t1 user \<and> issued (sl_accounts L) S t2 user tokens
     \<and> actions = [Redirect (ss_callback_url state @ ''/'' @ tt_refresh_token tokens) 302]"
proof (cases "sq_nonce_cookie req")
  case None
  with assms show ?thesis by (simp add: Callback_def)
next
  case nonce: (Some nonce)
  show ?thesis
  proof (cases "sq_state_cookie req")
    case None
    with assms nonce show ?thesis by (simp add: Callback_def)
  next
    case (Some stateCookie)
    with assms nonce obtain state config provider t1 raw token claims user t2 tokens where
      *: "sq_state_cookie req = Some (sq_state req)" "sq_state req \<noteq> []" "decodeState L (sq_state req) = Inr state"
      "run_state (sso_config L cfg S (ss_idp state)) t = (Ret (config, provider), t1)"
      "sl_exchange L t1 config (sq_code req) = Inr (Some raw)"
      "sl_verify L t1 provider (oc_client_id config) raw = Inr token" "it_nonce token = sl_sha256_hex L nonce"
      "it_claims token = Inr claims" "run_state (getOrCreateUser L S (ss_idp state) claims) t1 = (Ret user, t2)"
      "run_state (generateTokens (sl_accounts L) S user) t2 = (Ret tokens, t')"
      "actions = [Redirect (ss_callback_url state @ ''/'' @ tt_refresh_token tokens) 302]"
      by (auto simp: Callback_def returns split: if_splits option.splits)
    with nonce getOrCreateUser_account generateTokens_Ret show ?thesis by (metis (full_types))
  qed
qed


text \<open>What is documented of the codings of the state: what has been written is read back.\<close>

definition state_codings_documented :: "('j, 'p) sso_lib \<Rightarrow> bool" where
  "state_codings_documented L =
     ((\<forall>b. sl_base64_decode L (sl_base64_encode L b) = Inr b)
      \<and> (\<forall>s b. sl_marshal_state L s = Inr b \<longrightarrow> sl_unmarshal_state L b = Inr s))"


subsection \<open>A sign-on\<close>

text \<open>Strings in a row, each behind its length in unary.\<close>

definition put_string :: "string \<Rightarrow> string" where
  "put_string s = replicate (length s) (CHR ''1'') @ CHR ''0'' # s"

definition next_string :: "string \<Rightarrow> string \<times> string" where
  "next_string b = (let n = length (takeWhile (\<lambda>c. c = CHR ''1'') b) in (take n (drop (n + 1) b), drop (2 * n + 1) b))"

lemma next_put: "next_string (put_string s @ rest) = (s, rest)"
proof -
  have "takeWhile (\<lambda>c. c = CHR ''1'') (replicate n (CHR ''1'') @ CHR ''0'' # s @ rest) = replicate n (CHR ''1'')" for n
    by (induction n) simp_all
  then show ?thesis by (simp add: next_string_def put_string_def Let_def)
qed

definition plain_sso :: "(string, string) sso_lib" where
  "plain_sso = \<lparr>sl_accounts = plain_accounts, sl_rand_read = (\<lambda>t n k. Inr (replicate k (CHR ''r''), int k)),
     sl_base64_encode = (\<lambda>b. b), sl_base64_decode = Inr,
     sl_marshal_state = (\<lambda>s. Inr (put_string (ss_csrf s) @ put_string (ss_idp s) @ put_string (ss_callback_url s))),
     sl_unmarshal_state = (\<lambda>b. let (csrf, b) = next_string b; (idp, b) = next_string b; (url, b) = next_string b
        in Inr \<lparr>ss_csrf = csrf, ss_idp = idp, ss_callback_url = url\<rparr>),
     sl_sha256_hex = (\<lambda>b. ''hash of '' @ b), sl_range = (\<lambda>m. []), sl_unmarshal_value = Inr, sl_marshal_values = (\<lambda>m. Inr []),
     sl_unmarshal_config = (\<lambda>b. Inr \<lparr>oic_client_config = \<lparr>occ_client_id = ''client'', occ_redirect_url = [], occ_client_secret = []\<rparr>,
        oic_provider_discovery_url = Some ''https://idp'', oic_provider_config = None\<rparr>),
     sl_provider = npc_issuer_url, sl_discover = (\<lambda>t url. Inr url), sl_endpoint = (\<lambda>p. (p, p)),
     sl_auth_code_url = (\<lambda>c s ps. fst (oc_endpoint c)), sl_exchange = (\<lambda>t c code. Inr (Some code)),
     sl_verify = (\<lambda>t p client raw. Inr \<lparr>it_nonce = ''hash of '' @ raw,
        it_claims = Inr \<lparr>sc_email = [], sc_preferred_username = ''dave'', sc_name = []\<rparr>\<rparr>)\<rparr>"

definition dave :: user where
  "dave = zero_user\<lparr>user_meta := empty_meta\<lparr>om_name := ''idp-dave'', om_labels := Some [LabelProviderName \<mapsto> ''idp'']\<rparr>,
     user_spec := (user_spec zero_user)\<lparr>us_provider_id := ''idp://dave''\<rparr>\<rparr>"

definition sso_server :: server where
  "sso_server = empty_server\<lparr>sv_get := (\<lambda>t kd key. Inr (case kd of AUser \<Rightarrow> KUser dave
     | AIdentityProvider \<Rightarrow> KIdentityProvider \<lparr>identity_provider_meta = empty_meta,
         identity_provider_spec = \<lparr>ips_display_name = None, ips_oidc_config_ref = Some \<lparr>scr_name = ''s'', scr_namespace = ''n''\<rparr>\<rparr>\<rparr>
     | _ \<Rightarrow> KSecret \<lparr>sec_meta = empty_meta, sec_type = [], sec_data = None\<rparr>))\<rparr>"

definition login_request :: sso_request where
  "login_request = \<lparr>sq_idp = ''idp'', sq_callback_url = ''https://evil'', sq_code = [], sq_state = [], sq_nonce_cookie = None,
     sq_state_cookie = None, sq_tls = True\<rparr>"

definition login_state :: string where
  "login_state = put_string (replicate 18 (CHR ''r'')) @ put_string ''idp'' @ put_string ''https://evil''"

definition back_request :: sso_request where
  "back_request = \<lparr>sq_idp = [], sq_callback_url = [], sq_code = ''n'', sq_state = login_state, sq_nonce_cookie = Some ''n'',
     sq_state_cookie = Some login_state, sq_tls = True\<rparr>"

lemma plain_sso_documented: "state_codings_documented plain_sso"
proof -
  have "sl_unmarshal_state plain_sso (put_string a @ put_string b @ put_string c) = Inr \<lparr>ss_csrf = a, ss_idp = b, ss_callback_url = c\<rparr>" for a b c
    using next_put [of c "[]"] by (simp add: plain_sso_def next_put)
  moreover have "sl_marshal_state plain_sso s = Inr (put_string (ss_csrf s) @ put_string (ss_idp s) @ put_string (ss_callback_url s))" for s
    by (simp add: plain_sso_def)
  moreover have "sl_base64_decode plain_sso (sl_base64_encode plain_sso b) = Inr b" for b
    by (simp add: plain_sso_def)
  ultimately show ?thesis by (auto simp: state_codings_documented_def)
qed

lemma plain_config:
  "\<exists>config t'. run_state (sso_config plain_sso None sso_server ''idp'') t = (Ret (config, ''https://idp''), t')"
  by (simp add: sso_config_def getOIDCConfig_def getOIDCProvider_def run_simps run_go_bind sso_server_def
      R_identity_provider_simps R_secret_simps plain_sso_def Let_def go_of_sum_def)

lemma login_runs:
  "\<exists>t1 cookies. run_state (LoginOIDC plain_sso None sso_server login_request) [] = (Ret (SetCookie ''state'' login_state True # cookies), t1)"
proof -
  obtain config t' where "run_state (sso_config plain_sso None sso_server ''idp'') [] = (Ret (config, ''https://idp''), t')"
    using plain_config by blast
  then show ?thesis
    by (simp add: LoginOIDC_def run_simps run_go_bind login_request_def makeState_def makeNonce_def plain_sso_def go_of_sum_def login_state_def)
qed

lemma login_state_decoded:
  "decodeState plain_sso login_state = Inr \<lparr>ss_csrf = replicate 18 (CHR ''r''), ss_idp = ''idp'', ss_callback_url = ''https://evil''\<rparr>"
  using next_put [of "''https://evil''" "[]"] by (simp add: decodeState_def plain_sso_def login_state_def next_put del: replicate.simps)

lemma callback_runs_here:
  "\<exists>t3 token. run_state (Callback plain_sso None sso_server back_request) t2 = (Ret [Redirect (''https://evil/'' @ token) 302], t3)"
proof -
  note login_state_decoded
  moreover have "login_state \<noteq> []" by (simp add: login_state_def put_string_def)
  moreover obtain config t' where "run_state (sso_config plain_sso None sso_server ''idp'') t2 = (Ret (config, ''https://idp''), t')"
    using plain_config by blast
  moreover have "run_state (getOrCreateUser plain_sso sso_server ''idp'' \<lparr>sc_email = [], sc_preferred_username = ''dave'', sc_name = []\<rparr>) t'
      = (Ret dave, t' @ [CGet AUser (named ''idp-dave'')])"
    by (simp add: getOrCreateUser_def run_simps sso_server_def R_user_simps sso_user_name_def dave_def)
  moreover have "run_state (generateTokens plain_accounts sso_server dave) t
      = (Ret \<lparr>tt_access_token = ''idp-dave'', tt_refresh_token = ''idp-dave''\<rparr>, t @ [CNow, CNow])" for t
    by (simp add: generateTokens_def run_simps plain_accounts_def dave_def)
  moreover have "sl_accounts plain_sso = plain_accounts" "sl_exchange plain_sso = (\<lambda>t c code. Inr (Some code))"
    "sl_verify plain_sso = (\<lambda>t p client raw. Inr \<lparr>it_nonce = ''hash of '' @ raw,
        it_claims = Inr \<lparr>sc_email = [], sc_preferred_username = ''dave'', sc_name = []\<rparr>\<rparr>)" "sl_sha256_hex plain_sso = (\<lambda>b. ''hash of '' @ b)"
    by (simp_all add: plain_sso_def)
  ultimately show ?thesis
    by (auto simp: Callback_def run_simps run_go_bind back_request_def go_of_sum_def)
qed



end
