(* ===== verification/Api_V1.thy ===== *)
theory Api_V1
  imports Routes Kubeconfigs Sso Resources
begin

text \<open>
  Version 1 of the API as a whole: what \<open>RegisterRoutes\<close> of \<open>internal/api/v1/handlers/handlers.go\<close> mounts, endpoint functions behind their
  generic handlers behind the middleware. The parts are those of the other theories; here they are put together the
  way the route table says, and a request runs through all of them: the multiplexer finds the route, the middleware checks the
  token and the body, the generic handler reviews the access and the endpoint function does the work. JSON is the record
  \<open>codec\<close>; the errors the CUE schema named in the route finds in a body are \<open>ap_validate\<close>. The two routes of single
  sign-on, whose handlers work on cookies and redirects, are served in theory \<open>Sso\<close>.
\<close>

subsection \<open>The application\<close>

text \<open>The responses, for the one function that encodes them.\<close>

datatype 'j response =
    RTokens t_tokens | ROptions t_options | ROrganizations "t_organization list" | ROrganization t_organization
  | RCluster t_cluster | RClusters "t_cluster list" | RUser t_user | RCredential t_credential | RCredentials "t_credential list"
  | RCredentialTemplates "t_credential_template list" | RWorkload "'j t_workload" | RWorkloads "'j t_workload list"
  | RNodePool t_node_pool | RNodePools "t_node_pool list" | RKubeconfig string | RInvitation t_invitation
  | RInvitations "t_invitation list" | RNodes "t_cluster_node list" | RNode t_cluster_node | RMembers "t_member list"
  | RClusterTemplates "t_cluster_template list"

record 'j codec =
  un_login :: "string \<Rightarrow> goerr + t_login_options"
  un_organization :: "string \<Rightarrow> goerr + t_organization_options"
  un_cluster :: "string \<Rightarrow> goerr + t_cluster_options"
  un_credential :: "string \<Rightarrow> goerr + t_credential_options"
  un_workload_options :: "string \<Rightarrow> goerr + 'j t_workload_options"
  un_workload :: "string \<Rightarrow> goerr + 'j t_workload"
  un_node_pool :: "string \<Rightarrow> goerr + t_node_pool_options"
  un_kubeconfig :: "string \<Rightarrow> goerr + t_kubeconfig_options"
  un_invitation :: "string \<Rightarrow> goerr + t_invitation_options"
  un_user :: "string \<Rightarrow> goerr + t_user_options"
  un_password :: "string \<Rightarrow> goerr + t_password_options"
  un_verify :: "string \<Rightarrow> goerr + t_verify_options"
  un_reset_request :: "string \<Rightarrow> goerr + string"
  un_reset :: "string \<Rightarrow> goerr + t_reset_password_options"
  cd_marshal :: "'j response option \<Rightarrow> goerr + string"

record ('j, 'c, 'k, 'p) app =
  ap_http :: http_lib
  ap_accounts :: account_lib
  ap_clusters :: cluster_lib
  ap_kubeconfigs :: "('c, 'k, 'p) kubeconfig_lib"
  ap_input :: "'j input_lib"
  ap_codec :: "'j codec"
  ap_config :: "config_manager option"
  ap_system_namespace :: string
  ap_parse_access :: "string \<Rightarrow> goerr + token"
  ap_parse_refresh :: "string \<Rightarrow> goerr + token"
  ap_validate :: "string \<Rightarrow> string \<Rightarrow> string list option"

text \<open>The results of endpoint functions as the generic handlers take them.\<close>

definition answer :: "('a \<Rightarrow> 'j response) \<Rightarrow> (trace, (goerr, 'a) go) state \<Rightarrow> (trace, 'j response result) state" where
  "answer con m = do {
     r \<leftarrow> m;
     ret (case r of Ret a \<Rightarrow> Some (Some (con a), None) | Fail e \<Rightarrow> Some (None, Some e) | Panic \<Rightarrow> None)
   }"

definition answer_pointer :: "('a \<Rightarrow> 'j response) \<Rightarrow> (trace, (goerr, 'a option) go) state \<Rightarrow> (trace, 'j response result) state" where
  "answer_pointer con m = do {
     r \<leftarrow> m;
     ret (case r of Ret a \<Rightarrow> Some (map_option con a, None) | Fail e \<Rightarrow> Some (None, Some e) | Panic \<Rightarrow> None)
   }"

definition failing :: "(trace, (goerr, unit) go) state \<Rightarrow> (trace, failure) state" where
  "failing m = do {
     r \<leftarrow> m;
     ret (case r of Ret a \<Rightarrow> Some None | Fail e \<Rightarrow> Some (Some e) | Panic \<Rightarrow> None)
   }"

text \<open>Only a kubeconfig is written as it is.\<close>

fun as_bytes :: "'j response \<Rightarrow> string option" where
  "as_bytes (RKubeconfig b) = Some b"
| "as_bytes _ = None"

subsection \<open>What is mounted\<close>

text \<open>The endpoint functions behind their generic handlers, by name: first those of the requests below an organization.\<close>

definition organization_handlers ::
  "('j, 'c, 'k, 'p) app \<Rightarrow> server \<Rightarrow> (string \<times> (request \<Rightarrow> (trace, reply) state)) list"
where
  "organization_handlers A S =
     (let C = ccl_conditions (ap_clusters A); D = ccl_durations (ap_clusters A); Q = ccl_quantities (ap_clusters A);
          L = ccl_api (ap_clusters A) in [
     (''CreateOrganizationCluster'', \<lambda>req. CreateOrganizationResource (ap_http A) (un_cluster (ap_codec A)) (cd_marshal (ap_codec A)) ''clusters'' S
        (\<lambda>v q. answer_pointer RCluster (CreateOrganizationCluster (ap_clusters A) (ap_config A) S v q)) req),
     (''CreateOrganizationCredential'', \<lambda>req. CreateOrganizationResource (ap_http A) (un_credential (ap_codec A)) (cd_marshal (ap_codec A)) ''clusters'' S
        (\<lambda>v q. answer RCredential (CreateOrganizationCredential S v q)) req),
     (''DeleteOrganizationCredential'', \<lambda>req. DeleteOrganizationResource ''clusters'' S
        (\<lambda>v n. failing (DeleteOrganizationCredential S v n)) req),
     (''ListOrganizationCredentials'', \<lambda>req. ListOrganizationResource (cd_marshal (ap_codec A)) ''clusters'' S
        (\<lambda>v. answer RCredentials (ListOrganizationCredentials S v)) req),
     (''GetOrganizationCredential'', \<lambda>req. GetOrganizationResource (ap_http A) (cd_marshal (ap_codec A)) ''clusters'' S
        (\<lambda>v n. answer RCredential (GetOrganizationCredential (ap_config A) S v n)) req),
     (''UpdateOrganizationCredential'', \<lambda>req. UpdateOrganizationResource (ap_http A) (un_credential (ap_codec A)) ''clusters'' S
        (\<lambda>v n q. failing (UpdateOrganizationCredential S v n q)) req),
     (''CreateClusterWorkload'', \<lambda>req. CreateClusterResource (ap_http A) (un_workload_options (ap_codec A)) as_bytes (cd_marshal (ap_codec A)) ''workloads'' S
        (\<lambda>c q. answer RWorkload (CreateClusterWorkload L (ap_input A) (ap_config A) S c q)) req),
     (''DeleteClusterWorkload'', \<lambda>req. DeleteClusterResource ''workloads'' S
        (\<lambda>c n. failing (DeleteClusterWorkload S c n)) req),
     (''UpdateClusterWorkload'', \<lambda>req. UpdateClusterResource (ap_http A) (un_workload (ap_codec A)) ''workloads'' S
        (\<lambda>c n q. failing (UpdateClusterWorkload (ap_input A) S c n q)) req),
     (''ListClusterWorkloads'', \<lambda>req. ListClusterResource (cd_marshal (ap_codec A)) ''workloads'' S
        (\<lambda>c. answer RWorkloads (ListClusterWorkloads C S c)) req),
     (''GetClusterWorkload'', \<lambda>req. GetClusterResource (ap_http A) (cd_marshal (ap_codec A)) ''workloads'' S
        (\<lambda>c n. answer RWorkload (GetClusterWorkload (ap_input A) S c n)) req),
     (''CreateClusterNodePool'', \<lambda>req. CreateClusterResource (ap_http A) (un_node_pool (ap_codec A)) as_bytes (cd_marshal (ap_codec A)) ''nodepools'' S
        (\<lambda>c q. answer_pointer RNodePool (CreateClusterNodePool Q L S c q)) req),
     (''DeleteClusterNodePool'', \<lambda>req. DeleteClusterResource ''nodepools'' S
        (\<lambda>c n. failing (DeleteClusterNodePool S c n)) req),
     (''DeleteOrganizationCluster'', \<lambda>req. DeleteOrganizationResource ''clusters'' S
        (\<lambda>v n. failing (DeleteOrganizationCluster S v n)) req),
     (''GetClusterNodePool'', \<lambda>req. GetClusterResource (ap_http A) (cd_marshal (ap_codec A)) ''nodepools'' S
        (\<lambda>c n. answer_pointer RNodePool (GetClusterNodePool Q S c n)) req),
     (''ListClusterNodePools'', \<lambda>req. ListClusterResource (cd_marshal (ap_codec A)) ''nodepools'' S
        (\<lambda>c. answer_pointer RNodePools (ListClusterNodePools S c)) req),
     (''UpdateClusterNodePool'', \<lambda>req. UpdateClusterResource (ap_http A) (un_node_pool (ap_codec A)) ''nodepools'' S
        (\<lambda>c n q. failing (UpdateClusterNodePool Q S c n q)) req),
     (''ListOrganizationClusters'', \<lambda>req. ListOrganizationResource (cd_marshal (ap_codec A)) ''clusters'' S
        (\<lambda>v. answer RClusters (ListOrganizationClusters C S v)) req),
     (''GetOrganizationCluster'', \<lambda>req. GetOrganizationResource (ap_http A) (cd_marshal (ap_codec A)) ''clusters'' S
        (\<lambda>v n. answer RCluster (GetOrganizationCluster (ap_clusters A) S v n)) req),
     (''CreateClusterKubeconfig'', \<lambda>req. CreateClusterResource (ap_http A) (un_kubeconfig (ap_codec A)) as_bytes (cd_marshal (ap_codec A)) ''clusters'' S
        (\<lambda>c q. answer RKubeconfig (CreateClusterKubeconfig (ap_kubeconfigs A) S (SubjectFrom req) c q)) req),
     (''CreateOrganizationInvitation'', \<lambda>req. CreateOrganizationResource (ap_http A) (un_invitation (ap_codec A)) (cd_marshal (ap_codec A)) ''invitations'' S
        (\<lambda>v q. answer RInvitation (CreateOrganizationInvitation D S v q)) req),
     (''DeleteOrganizationInvitation'', \<lambda>req. DeleteOrganizationResource ''invitations'' S
        (\<lambda>v n. failing (DeleteOrganizationInvitation S v n)) req),
     (''ListOrganizationInvitations'', \<lambda>req. ListOrganizationResource (cd_marshal (ap_codec A)) ''invitations'' S
        (\<lambda>v. answer RInvitations (ListOrganizationInvitations D S v)) req),
     (''ListClusterNodes'', \<lambda>req. ListClusterResource (cd_marshal (ap_codec A)) ''nodes'' S
        (\<lambda>c. answer RNodes (ListClusterNodes C S c)) req),
     (''GetClusterNode'', \<lambda>req. GetClusterResource (ap_http A) (cd_marshal (ap_codec A)) ''nodes'' S
        (\<lambda>c n. answer RNode (GetClusterNode C S c n)) req),
     (''ListOrganizationMembers'', \<lambda>req. ListOrganizationResource (cd_marshal (ap_codec A)) ''members'' S
        (\<lambda>v. answer RMembers (ListOrganizationMembers S v)) req),
     (''DeleteOrganizationMember'', \<lambda>req. DeleteOrganizationResource ''members'' S
        (\<lambda>v n. failing (DeleteOrganizationMember S (SubjectFrom req) v n)) req)])"

definition global_handlers ::
  "('j, 'c, 'k, 'p) app \<Rightarrow> server \<Rightarrow> (string \<times> (request \<Rightarrow> (trace, reply) state)) list"
where
  "global_handlers A S =
     (let C = ccl_conditions (ap_clusters A); D = ccl_durations (ap_clusters A); Q = ccl_quantities (ap_clusters A);
          L = ccl_api (ap_clusters A) in [
     (''CreateGlobalTokens'', \<lambda>req. CreateGlobalResource (ap_http A) (un_login (ap_codec A)) (cd_marshal (ap_codec A))
        (\<lambda>q. answer RTokens (CreateGlobalTokens (ap_accounts A) S q)) req),
     (''GetGlobalTokens'', \<lambda>req. GetNamelessResource (ap_http A) (cd_marshal (ap_codec A))
        (answer RTokens (GetGlobalTokens (ap_accounts A) S (SubjectFrom req)))),
     (''GetClusterOptions'', \<lambda>req. GetNamelessResource (ap_http A) (cd_marshal (ap_codec A))
        (answer ROptions (GetClusterOptions (ap_config A) S))),
     (''ListGlobalOrganizations'', \<lambda>req. ListGlobalResource (cd_marshal (ap_codec A))
        (answer ROrganizations (ListGlobalOrganizations C D S (SubjectFrom req)))),
     (''CreateGlobalOrganization'', \<lambda>req. CreateGlobalResource (ap_http A) (un_organization (ap_codec A)) (cd_marshal (ap_codec A))
        (\<lambda>q. answer ROrganization (CreateGlobalOrganization D S (ap_system_namespace A) (SubjectFrom req) q)) req),
     (''DeleteGlobalOrganization'', \<lambda>req. DeleteGlobalResource ''organizations'' S
        (\<lambda>n. failing (DeleteGlobalOrganization S n)) req),
     (''GetGlobalOrganization'', \<lambda>req. GetGlobalResource (ap_http A) (cd_marshal (ap_codec A)) ''organizations'' S
        (\<lambda>n. answer ROrganization (GetGlobalOrganization C S n)) req),
     (''UpdateGlobalOrganization'', \<lambda>req. UpdateGlobalResource (ap_http A) (un_organization (ap_codec A)) ''organizations'' S
        (\<lambda>n q. failing (UpdateGlobalOrganization D S n q)) req),
     (''GetWhoami'', \<lambda>req. GetNamelessResource (ap_http A) (cd_marshal (ap_codec A))
        (answer RUser (GetWhoami C S (SubjectFrom req)))),
     (''ListCredentialTemplates'', \<lambda>req. ListGlobalResource (cd_marshal (ap_codec A))
        (answer RCredentialTemplates (ListCredentialTemplates (ap_config A) S))),
     (''ListGlobalInvitations'', \<lambda>req. ListGlobalResource (cd_marshal (ap_codec A))
        (answer RInvitations (ListGlobalInvitations L S (SubjectFrom req)))),
     (''DeleteGlobalInvitation'', \<lambda>req. DeleteGlobalResource ''invitations'' S
        (\<lambda>n. failing (DeleteGlobalInvitation S (SubjectFrom req) n)) req),
     (''UpdateGlobalInvitation'', \<lambda>req. UpdateGlobalResource (ap_http A) (un_invitation (ap_codec A)) ''invitations'' S
        (\<lambda>n q. failing (UpdateGlobalInvitation S (SubjectFrom req) n)) req),
     (''CreateGlobalUser'', \<lambda>req. CreateGlobalResource (ap_http A) (un_user (ap_codec A)) (cd_marshal (ap_codec A))
        (\<lambda>q. answer RUser (CreateGlobalUser (ap_accounts A) (ap_config A) S q)) req),
     (''UpdateGlobalUser'', \<lambda>req. UpdateGlobalResource (ap_http A) (un_user (ap_codec A)) ''users'' S
        (\<lambda>n q. failing (UpdateGlobalUser S (SubjectFrom req) n q)) req),
     (''UpdateUserPassword'', \<lambda>req. UpdateGlobalResource (ap_http A) (un_password (ap_codec A)) ''users'' S
        (\<lambda>n q. failing (UpdateUserPassword (ap_accounts A) S (SubjectFrom req) n q)) req),
     (''UpdateGlobalVerificationRequest'', \<lambda>req. UpdateNamelessResource (ap_http A) (un_verify (ap_codec A))
        (\<lambda>q. failing (UpdateGlobalVerificationRequest (ap_accounts A) S q)) req),
     (''CreateGlobalPasswordResetRequest'', \<lambda>req. UpdateNamelessResource (ap_http A) (un_reset_request (ap_codec A))
        (\<lambda>q. failing (CreateGlobalPasswordResetRequest (ap_accounts A) S q)) req),
     (''ResetPassword'', \<lambda>req. UpdateNamelessResource (ap_http A) (un_reset (ap_codec A))
        (\<lambda>q. failing (ResetPassword (ap_accounts A) S q)) req),
     (''ListGlobalClusterTemplates'', \<lambda>req. GetNamelessResource (ap_http A) (cd_marshal (ap_codec A))
        (answer RClusterTemplates (ListGlobalClusterTemplates Q (ap_config A) S)))])"

definition handlers :: "('j, 'c, 'k, 'p) app \<Rightarrow> server \<Rightarrow> (string \<times> (request \<Rightarrow> (trace, reply) state)) list" where
  "handlers A S = global_handlers A S @ organization_handlers A S"

text \<open>Every route but the two of single sign-on finds its handler.\<close>

lemma handlers_complete:
  "set (map fst (handlers A S)) = set (map rt_function routes) - {''LoginOIDC'', ''Callback''}"
  by (simp add: handlers_def global_handlers_def organization_handlers_def routes_def Let_def) auto

end
