(* ===== verification/Api_V2.thy ===== *)
theory Api_V2
  imports Endpoints
begin

text \<open>
  The second version of the API, \<open>internal/api/v2\<close>: reading any custom resource by group, version, kind and namespace. The handlers look up
  the custom resource definition, ask for an access review and read the objects without a Go type. Definitions and objects
  are not of the types of theory \<open>Client\<close>, so the events of a handler are the calls of that theory and the dynamic reads beside them. The
  reads, JSON and the parsing of label selectors are the parameter \<open>dynamic_api\<close>, over an arbitrary type of objects
  \<open>'u\<close>; \<open>parse\<close> is \<open>jwt.ParseWithClaims\<close> with the access key, with the outcome of \<open>GetSubject\<close>.
\<close>

record group_version_kind =
  gvk_group :: string
  gvk_version :: string
  gvk_kind :: string

record custom_definition =
  cd_kind :: string
  cd_plural :: string

datatype event =
    Api call
  | GetDefinition object_key
  | GetObject group_version_kind object_key
  | ListObjects group_version_kind list_opts

record 'u dynamic_api =
  dy_definition :: "event list \<Rightarrow> object_key \<Rightarrow> goerr + custom_definition"
  dy_get :: "event list \<Rightarrow> group_version_kind \<Rightarrow> object_key \<Rightarrow> goerr + 'u"
  dy_list :: "event list \<Rightarrow> group_version_kind \<Rightarrow> list_opts \<Rightarrow> goerr + 'u list"
  dy_no_match :: "goerr \<Rightarrow> bool"
  dy_marshal :: "'u \<Rightarrow> goerr + string"
  dy_marshal_list :: "'u list \<Rightarrow> goerr + string"
  dy_selector :: "string \<Rightarrow> goerr + (string \<times> string) list"

record v2_request =
  vr_authorization :: string
  vr_group :: string
  vr_version :: string
  vr_kind :: string
  vr_namespace :: string
  vr_name :: string
  vr_label_selector :: string

text \<open>A computation over calls, as one over events.\<close>

fun api_calls :: "event list \<Rightarrow> trace" where
  "api_calls [] = []"
| "api_calls (Api c # es) = c # api_calls es"
| "api_calls (_ # es) = api_calls es"

definition with_events :: "(trace, 'a) state \<Rightarrow> (event list, 'a) state" where
  "with_events m = State (\<lambda>es.
     let (a, t) = run_state m (api_calls es) in (a, es @ map Api (drop (length (api_calls es)) t)))"

definition subjectFrom :: "(string \<Rightarrow> goerr + (goerr + string)) \<Rightarrow> v2_request \<Rightarrow> goerr + string" where
  "subjectFrom parse req =
     (case parse (TrimPrefix (vr_authorization req) ''Bearer '') of Inl e \<Rightarrow> Inl e | Inr subject \<Rightarrow> subject)"

definition definition_key :: "v2_request \<Rightarrow> object_key" where
  "definition_key req = \<lparr>ok_namespace = [], ok_name = vr_kind req @ ''.'' @ vr_group req\<rparr>"

definition request_kind :: "v2_request \<Rightarrow> custom_definition \<Rightarrow> group_version_kind" where
  "request_kind req d = \<lparr>gvk_group = vr_group req, gvk_version = vr_version req, gvk_kind = cd_kind d\<rparr>"

text \<open>The attributes both handlers ask for, with the name of the object or without one.\<close>

definition request_attributes :: "v2_request \<Rightarrow> custom_definition \<Rightarrow> string \<Rightarrow> resource_attributes" where
  "request_attributes req d name = \<lparr>ra_namespace = vr_namespace req, ra_verb = ''list'', ra_group = vr_group req,
     ra_version = vr_version req, ra_resource = cd_plural d, ra_name = name\<rparr>"

text \<open>Writing the encoded answer; the header is implicit unless the write fails.\<close>

definition write_json :: "http_lib \<Rightarrow> goerr + string \<Rightarrow> reply" where
  "write_json H encoded =
     (case encoded of
        Inl e \<Rightarrow> status StatusInternalServerError
      | Inr b \<Rightarrow> Some (WriteBody b # (if lib_write_fails H b then [WriteHeader StatusInternalServerError] else [])))"

definition GetNamespacedResource ::
  "http_lib \<Rightarrow> 'u dynamic_api \<Rightarrow> (string \<Rightarrow> goerr + (goerr + string)) \<Rightarrow> server \<Rightarrow> v2_request \<Rightarrow> (event list, reply) state"
where
  "GetNamespacedResource H D parse S req =
     (case subjectFrom parse req of
        Inl e \<Rightarrow> ret (status StatusInternalServerError)
      | Inr subject \<Rightarrow> do {
          r \<leftarrow> perform (\<lambda>es. dy_definition D es (definition_key req)) (GetDefinition (definition_key req));
          case r of
            Inl e \<Rightarrow> ret (status StatusUnauthorized)
          | Inr d \<Rightarrow> do {
              allowed \<leftarrow> with_events (IsSubjectAllowed S subject (request_attributes req d (vr_name req)));
              case allowed of
                Inl e \<Rightarrow> ret (status StatusInternalServerError)
              | Inr False \<Rightarrow> ret (status StatusUnauthorized)
              | Inr True \<Rightarrow> do {
                  let key = \<lparr>ok_namespace = vr_namespace req, ok_name = vr_name req\<rparr>;
                  u \<leftarrow> perform (\<lambda>es. dy_get D es (request_kind req d) key) (GetObject (request_kind req d) key);
                  case u of
                    Inl e \<Rightarrow> if has_reason NotFound e \<or> dy_no_match D e then ret (status StatusNotFound)
                             else ret (status StatusInternalServerError)
                  | Inr object \<Rightarrow> ret (write_json H (dy_marshal D object))
                }
            }
        })"

text \<open>A label selector that does not parse makes the handler panic.\<close>

definition list_options :: "'u dynamic_api \<Rightarrow> v2_request \<Rightarrow> list_opts option" where
  "list_options D req =
     (if vr_label_selector req = [] then Some (in_namespace (vr_namespace req))
      else (case dy_selector D (vr_label_selector req) of
              Inl e \<Rightarrow> None
            | Inr requirements \<Rightarrow> Some ((in_namespace (vr_namespace req))\<lparr>lo_labels := requirements\<rparr>)))"

definition ListNamespacedResource ::
  "http_lib \<Rightarrow> 'u dynamic_api \<Rightarrow> (string \<Rightarrow> goerr + (goerr + string)) \<Rightarrow> server \<Rightarrow> v2_request \<Rightarrow> (event list, reply) state"
where
  "ListNamespacedResource H D parse S req =
     (case subjectFrom parse req of
        Inl e \<Rightarrow> ret (status StatusInternalServerError)
      | Inr subject \<Rightarrow> do {
          r \<leftarrow> perform (\<lambda>es. dy_definition D es (definition_key req)) (GetDefinition (definition_key req));
          case r of
            Inl e \<Rightarrow> ret (status StatusInternalServerError)
          | Inr d \<Rightarrow> do {
              allowed \<leftarrow> with_events (IsSubjectAllowed S subject (request_attributes req d []));
              case allowed of
                Inl e \<Rightarrow> ret (status StatusInternalServerError)
              | Inr False \<Rightarrow> ret (status StatusUnauthorized)
              | Inr True \<Rightarrow>
                  (case list_options D req of
                     None \<Rightarrow> ret None
                   | Some opts \<Rightarrow> do {
                       u \<leftarrow> perform (\<lambda>es. dy_list D es (request_kind req d) opts) (ListObjects (request_kind req d) opts);
                       case u of
                         Inl e \<Rightarrow> if dy_no_match D e then ret (status StatusNotFound) else ret (status StatusInternalServerError)
                       | Inr objects \<Rightarrow> ret (write_json H (dy_marshal_list D objects))
                     })
            }
        })"

subsection \<open>Permission before reading\<close>

definition v2_review :: "string \<Rightarrow> resource_attributes \<Rightarrow> access_review" where
  "v2_review subject attributes = \<lparr>sar_user = subject, sar_groups = [''dockyards:authenticated''], sar_attributes = attributes\<rparr>"

lemma run_reviewed [run_simps]:
  "run_state (with_events (IsSubjectAllowed S subject attributes)) es =
     (sv_review S (api_calls es) (v2_review subject attributes), es @ [Api (CReview (v2_review subject attributes))])"
  by (simp add: with_events_def run_IsSubjectAllowed v2_review_def)

text \<open>The events before an object is read: the definition is found, and the access review for the subject of the token is answered
  with yes.\<close>

definition may_read ::
  "'u dynamic_api \<Rightarrow> (string \<Rightarrow> goerr + (goerr + string)) \<Rightarrow> server \<Rightarrow> v2_request \<Rightarrow> string \<Rightarrow> event list \<Rightarrow> event list
   \<Rightarrow> custom_definition \<Rightarrow> bool"
where
  "may_read D parse S req name es before d =
     (\<exists>subject. parse (TrimPrefix (vr_authorization req) ''Bearer '') = Inr (Inr subject)
        \<and> dy_definition D es (definition_key req) = Inr d
        \<and> before = [GetDefinition (definition_key req), Api (CReview (v2_review subject (request_attributes req d name)))]
        \<and> sv_review S (api_calls (es @ [GetDefinition (definition_key req)])) (v2_review subject (request_attributes req d name)) = Inr True)"

fun reads_object :: "event \<Rightarrow> bool" where
  "reads_object (GetObject k n) = True"
| "reads_object (ListObjects k l) = True"
| "reads_object _ = False"

lemma get_reads:
  assumes "run_state (GetNamespacedResource H D parse S req) es = (reply, es @ new)" and "e \<in> set new" and "reads_object e"
  shows "\<exists>d. new = [GetDefinition (definition_key req), Api (CReview (v2_review (projr (subjectFrom parse req)) (request_attributes req d (vr_name req)))), e]
     \<and> may_read D parse S req (vr_name req) es (butlast new) d
     \<and> e = GetObject (request_kind req d) \<lparr>ok_namespace = vr_namespace req, ok_name = vr_name req\<rparr>"
proof -
  obtain subject where subject: "parse (TrimPrefix (vr_authorization req) ''Bearer '') = Inr (Inr subject)"
    using assms by (auto simp: GetNamespacedResource_def subjectFrom_def split: sum.splits)
  then have from_token: "subjectFrom parse req = Inr subject" by (simp add: subjectFrom_def)
  show ?thesis
    using assms
    by (auto simp: GetNamespacedResource_def from_token may_read_def subject run_simps Let_def split: sum.splits if_splits bool.splits)
qed

lemma list_reads:
  assumes "run_state (ListNamespacedResource H D parse S req) es = (reply, es @ new)" and "e \<in> set new" and "reads_object e"
  shows "\<exists>d opts. new = [GetDefinition (definition_key req), Api (CReview (v2_review (projr (subjectFrom parse req)) (request_attributes req d []))), e]
     \<and> may_read D parse S req [] es (butlast new) d
     \<and> e = ListObjects (request_kind req d) opts \<and> lo_namespace opts = vr_namespace req"
proof -
  obtain subject where subject: "parse (TrimPrefix (vr_authorization req) ''Bearer '') = Inr (Inr subject)"
    using assms by (auto simp: ListNamespacedResource_def subjectFrom_def split: sum.splits)
  then have from_token: "subjectFrom parse req = Inr subject" by (simp add: subjectFrom_def)
  have "lo_namespace opts = vr_namespace req" if "list_options D req = Some opts" for opts
    using that by (auto simp: list_options_def in_namespace_def split: if_splits sum.splits)
  then show ?thesis
    using assms
    by (auto simp: ListNamespacedResource_def from_token may_read_def subject run_simps split: sum.splits if_splits bool.splits option.splits)
qed


text \<open>Alice reads one cluster.\<close>

definition plain_dynamic :: "string dynamic_api" where
  "plain_dynamic = \<lparr>dy_definition = (\<lambda>es k. Inr \<lparr>cd_kind = ''Cluster'', cd_plural = ''clusters''\<rparr>),
     dy_get = (\<lambda>es g k. Inr (ok_name k)), dy_list = (\<lambda>es g opts. Inr []), dy_no_match = (\<lambda>e. False), dy_marshal = Inr,
     dy_marshal_list = (\<lambda>us. Inr (concat us)), dy_selector = (\<lambda>s. Inr [])\<rparr>"

definition cluster_request :: v2_request where
  "cluster_request = \<lparr>vr_authorization = ''Bearer alice'', vr_group = ''dockyards.io'', vr_version = ''v1alpha3'', vr_kind = ''clusters'',
     vr_namespace = ''ns'', vr_name = ''c'', vr_label_selector = []\<rparr>"


end
