(* ===== verification/Server.thy ===== *)
theory Server
  imports Api_V1
begin

text \<open>
  A request through the whole server: the multiplexer of \<open>net/http\<close> as it is documented finds the route and binds the wildcards of its
  pattern, then the middleware in the order \<open>RegisterRoutes\<close> nests it (token, body validation) and the handler of theory
  \<open>Api_V1\<close>. The body validation is \<open>internal/api/v1/middleware/validate_json.go\<close>; what the CUE schema says of a body is the field
  \<open>ap_validate\<close> of the application (\<open>None\<close> when the body is fine). Logging and content types follow in theory \<open>Middleware\<close>.
\<close>

record http_request =
  hr_method :: string
  hr_path :: "string list"
  hr_authorization :: string
  hr_body :: "goerr + string"
  hr_sso :: sso_request

subsection \<open>The multiplexer\<close>

text \<open>A pattern for \<open>GET\<close> also serves \<open>HEAD\<close>.\<close>

definition method_matches :: "string \<Rightarrow> string \<Rightarrow> bool" where
  "method_matches m method = (m = method \<or> m = ''GET'' \<and> method = ''HEAD'')"

definition route_matches :: "http_request \<Rightarrow> route \<Rightarrow> bool" where
  "route_matches hr rt = (method_matches (method_of rt) (hr_method hr) \<and> matches (segments_of rt) (hr_path hr))"

definition find_route :: "http_request \<Rightarrow> route option" where
  "find_route hr = find (route_matches hr) routes"

definition path_known :: "http_request \<Rightarrow> bool" where
  "path_known hr = list_ex (\<lambda>rt. matches (segments_of rt) (hr_path hr)) routes"

text \<open>\<open>r.PathValue\<close>: empty for a name that is no wildcard of the pattern.\<close>

fun path_value :: "segment list \<Rightarrow> string list \<Rightarrow> string \<Rightarrow> string" where
  "path_value (Wild n # p) (s # ss) name = (if n = name then s else path_value p ss name)"
| "path_value (Lit a # p) (s # ss) name = path_value p ss name"
| "path_value p ss name = []"

definition bound_request :: "route \<Rightarrow> http_request \<Rightarrow> request" where
  "bound_request rt hr = \<lparr>
     req_organization_name = path_value (segments_of rt) (hr_path hr) ''organizationName'',
     req_cluster_name = path_value (segments_of rt) (hr_path hr) ''clusterName'',
     req_resource_name = path_value (segments_of rt) (hr_path hr) ''resourceName'',
     req_subject = None, req_body = hr_body hr\<rparr>"

subsection \<open>The middleware\<close>

definition validate_ServeHTTP ::
  "http_lib \<Rightarrow> (string \<Rightarrow> string list option) \<Rightarrow> (request \<Rightarrow> (trace, reply) state) \<Rightarrow> request \<Rightarrow> (trace, reply) state"
where
  "validate_ServeHTTP H validate nxt req =
     (case req_body req of
        Inl e \<Rightarrow> ret (status StatusInternalServerError)
      | Inr body \<Rightarrow>
          (case validate body of
             None \<Rightarrow> nxt (req\<lparr>req_body := Inr body\<rparr>)
           | Some entityErrors \<Rightarrow>
               (case lib_marshal_errors H entityErrors of
                  Inl e \<Rightarrow> ret (status StatusInternalServerError)
                | Inr b \<Rightarrow> ret (respond H StatusUnprocessableEntity b))))"

definition with_schema ::
  "('j, 'c, 'k, 'p) app \<Rightarrow> string option \<Rightarrow> (request \<Rightarrow> (trace, reply) state) \<Rightarrow> request \<Rightarrow> (trace, reply) state"
where
  "with_schema A schema nxt =
     (case schema of None \<Rightarrow> nxt | Some name \<Rightarrow> validate_ServeHTTP (ap_http A) (ap_validate A name) nxt)"

definition with_token ::
  "('j, 'c, 'k, 'p) app \<Rightarrow> token_kind \<Rightarrow> string \<Rightarrow> (request \<Rightarrow> (trace, reply) state) \<Rightarrow> request \<Rightarrow> (trace, reply) state"
where
  "with_token A kind authorization nxt req =
     (case kind of
        Public \<Rightarrow> nxt req
      | AccessToken \<Rightarrow> RequireAuth_Handler (ap_parse_access A) authorization (\<lambda>subject. nxt (req\<lparr>req_subject := Some subject\<rparr>))
      | RefreshToken \<Rightarrow> RequireAuth_Handler (ap_parse_refresh A) authorization (\<lambda>subject. nxt (req\<lparr>req_subject := Some subject\<rparr>)))"

subsection \<open>A request\<close>

datatype served = Served reply | SignOn "unprotected_reply option"

definition serve_route ::
  "('j, 'c, 'k, 'p) app \<Rightarrow> server \<Rightarrow> route \<Rightarrow> (request \<Rightarrow> (trace, reply) state) \<Rightarrow> http_request \<Rightarrow> (trace, reply) state"
where
  "serve_route A S rt handler hr =
     with_token A (rt_token rt) (hr_authorization hr) (with_schema A (rt_schema rt) handler) (bound_request rt hr)"

definition serve ::
  "('j, 'c, 'k, 'p) app \<Rightarrow> ('v, 'o) sso_lib \<Rightarrow> (string \<Rightarrow> nat) \<Rightarrow> server \<Rightarrow> http_request \<Rightarrow> (trace, served) state"
where
  "serve A L codes S hr =
     (case find_route hr of
        None \<Rightarrow> ret (Served (if path_known hr then respond_quietly 405 (''Method Not Allowed'' @ [CHR 0x0A])
          else respond_quietly StatusNotFound (''404 page not found'' @ [CHR 0x0A])))
      | Some rt \<Rightarrow>
          (case map_of (handlers A S) (rt_function rt) of
             Some handler \<Rightarrow> do { r \<leftarrow> serve_route A S rt handler hr; ret (Served r) }
           | None \<Rightarrow> do {
               r \<leftarrow> unprotectedRoute codes
                 ((if rt_function rt = ''LoginOIDC'' then LoginOIDC else Callback) L (ap_config A) S (hr_sso hr));
               ret (SignOn r)
             }))"

end
