(* ===== verification/Tenancy.thy ===== *)
theory Tenancy
  imports Server
begin

text \<open>
  Organizations do not reach into each other. Every route below an organization is a generic handler around an endpoint function; the
  handler looks the organization up and reviews the subject's access, and the endpoint function works with the namespace of that
  organization. Here each endpoint function is shown to stay in the namespace it is given, and the whole server with them.
  The API server is arbitrary but for \<open>keeps_keys\<close>: it answers a get with an object of the key asked for and creates an object in the
  namespace named, as Kubernetes documents.
\<close>

named_theorems tenancy \<open>rules for computations that stay in a namespace\<close>

definition keeps_keys :: "server \<Rightarrow> bool" where
  "keeps_keys S =
     ((\<forall>t kd key x. sv_get S t kd key = Inr x \<longrightarrow> key_of x = key)
      \<and> (\<forall>t x y. sv_create S t x = Inr y \<longrightarrow> om_namespace (meta_of y) = om_namespace (meta_of x)))"

lemma keeps_getD: "keeps_keys S \<Longrightarrow> sv_get S t kd key = Inr x \<Longrightarrow> key_of x = key"
  by (auto simp: keeps_keys_def)

text \<open>Organizations and users are cluster-scoped, templates are published to everyone.\<close>

fun shared_kind :: "kind \<Rightarrow> bool" where
  "shared_kind AOrganization = True"
| "shared_kind AUser = True"
| "shared_kind AClusterTemplate = True"
| "shared_kind ACredentialTemplate = True"
| "shared_kind kd = False"

text \<open>A call that reads or writes objects of an organization.\<close>

fun touches :: "call \<Rightarrow> bool" where
  "touches (CGet kd key) = (\<not> shared_kind kd)"
| "touches (CList kd opts) = (\<not> shared_kind kd)"
| "touches (CReview rv) = False"
| "touches CNow = False"
| "touches c = True"

text \<open>The objects a call writes are in the namespace; with \<open>reads\<close>, those it reads are too.\<close>

fun stays_in :: "bool \<Rightarrow> string \<Rightarrow> call \<Rightarrow> bool" where
  "stays_in reads ns (CGet kd key) = (\<not> reads \<or> shared_kind kd \<or> ok_namespace key = ns)"
| "stays_in reads ns (CList kd opts) = (\<not> reads \<or> shared_kind kd \<or> lo_namespace opts = ns)"
| "stays_in reads ns (CFetch x) = (\<not> reads \<or> om_namespace (meta_of x) = ns)"
| "stays_in reads ns (CNewHelper x) = (om_namespace (meta_of x) = ns)"
| "stays_in reads ns (CCreate x) = (om_namespace (meta_of x) = ns)"
| "stays_in reads ns (CDelete x) = (om_namespace (meta_of x) = ns)"
| "stays_in reads ns (CPatch x y) = (om_namespace (meta_of x) = ns \<and> om_namespace (meta_of y) = ns)"
| "stays_in reads ns (CStatusPatch x y) = (om_namespace (meta_of x) = ns \<and> om_namespace (meta_of y) = ns)"
| "stays_in reads ns (CCommit x y) = (om_namespace (meta_of x) = ns \<and> om_namespace (meta_of y) = ns)"
| "stays_in reads ns (CHelper x y) = (om_namespace (meta_of x) = ns \<and> om_namespace (meta_of y) = ns)"
| "stays_in reads ns (CReview rv) = True"
| "stays_in reads ns CNow = True"

subsection \<open>Rules\<close>

lemmas [tenancy] = emits_ret emits_if emits_case_sum emits_case_prod emits_Let emits_case_go emits_case_list

lemma emits_case_option_eq [tenancy]:
  "(r = None \<Longrightarrow> emits P m) \<Longrightarrow> (\<And>a. r = Some a \<Longrightarrow> emits P (g a)) \<Longrightarrow> emits P (case r of None \<Rightarrow> m | Some a \<Rightarrow> g a)"
  by (cases r) simp_all

lemma emits_bind_pure [tenancy]: "(\<And>a. r = Ret a \<Longrightarrow> emits P (f a)) \<Longrightarrow> emits P (go_bind (ret r) f)"
  by (cases r) simp_all

lemma emits_bind_any [tenancy]:
  "P (CList (rk_kind R) opts) \<Longrightarrow> (\<And>vs. emits P (f vs)) \<Longrightarrow> emits P (go_bind (try_call (k_list R S opts)) f)"
  "P (CPatch (rk_wrap R u) (rk_wrap R v)) \<Longrightarrow> (\<And>w. emits P (h w)) \<Longrightarrow> emits P (go_bind (try_call (k_patch R S u v)) h)"
  "P (CDelete (rk_wrap R v)) \<Longrightarrow> emits P (g ()) \<Longrightarrow> emits P (go_bind (try_delete (k_delete R S v)) g)"
  by (intro emits_go_bind_result appends_intros; simp)+

context resource_interface begin

lemma bind_get:
  assumes "keeps_keys S" and "P (CGet (rk_kind R) key)" and "\<And>v. key_of (rk_wrap R v) = key \<Longrightarrow> emits P (f v)"
  shows "emits P (go_bind (try_call (k_get R S key)) f)"
proof (rule emits_go_bind_result)
  show "emits P (try_call (k_get R S key))" using assms(2) by (intro appends_intros)
  fix v t t'
  assume "run_state (try_call (k_get R S key)) t = (Ret v, t')"
  then have "sv_get S t (rk_kind R) key = Inr (rk_wrap R v)" by (simp add: try_call_Ret run_k_get decode_Inr_iff)
  with assms(1,3) show "emits P (f v)" by (auto simp: keeps_keys_def)
qed

lemma bind_create:
  assumes "keeps_keys S" and "P (CCreate (rk_wrap R v))"
    and "\<And>w. om_namespace (meta_of (rk_wrap R w)) = om_namespace (meta_of (rk_wrap R v)) \<Longrightarrow> emits P (f w)"
  shows "emits P (go_bind (try_call (k_create R S v)) f)"
proof (rule emits_go_bind_result)
  show "emits P (try_call (k_create R S v))" using assms(2) by (intro appends_intros)
  fix w t t'
  assume "run_state (try_call (k_create R S v)) t = (Ret w, t')"
  then have "sv_create S t (rk_wrap R v) = Inr (rk_wrap R w)" by (simp add: try_call_Ret run_k_create decode_Inr_iff)
  with assms(1,3) show "emits P (f w)" by (auto simp: keeps_keys_def)
qed

end

lemmas [tenancy] = organization_resource.bind_get cluster_resource.bind_get node_pool_resource.bind_get cluster_template_resource.bind_get
  member_resource.bind_get user_resource.bind_get invitation_resource.bind_get workload_resource.bind_get node_resource.bind_get
  secret_resource.bind_get credential_template_resource.bind_get
  cluster_resource.bind_create node_pool_resource.bind_create member_resource.bind_create invitation_resource.bind_create
  workload_resource.bind_create secret_resource.bind_create

lemma bind_owner [tenancy]:
  "(\<And>key. P (CGet AOrganization key)) \<Longrightarrow> (\<And>v. emits P (f v)) \<Longrightarrow> emits P (go_bind (try_call (GetOwnerOrganization L S m)) f)"
  unfolding GetOwnerOrganization_def
  by (intro emits_go_bind_result appends_intros) (simp_all add: R_organization_simps)

subsection \<open>The endpoint functions\<close>

lemmas tenancy_simps = resource_defs key_of_def namespace_of_def in_namespace_def matching_label_def workload_key_def credential_key_def

text \<open>Those of organizations, for an organization with the namespace \<open>ns\<close>.\<close>

lemma organization_endpoints_stay:
  assumes "keeps_keys S" and "os_namespace_ref (organization_spec v) = Some ns"
  shows "emits (stays_in b ns) (DeleteOrganizationCredential S v n)"
    "emits (stays_in b ns) (ListOrganizationCredentials S v)"
    "emits (stays_in b ns) (UpdateOrganizationCredential S v n creq)"
    "emits (stays_in b ns) (CreateOrganizationCredential S v creq)"
    "emits (stays_in b ns) (DeleteOrganizationCluster S v n)"
    "emits (stays_in b ns) (ListOrganizationClusters C S v)"
    "emits (stays_in b ns) (CreateOrganizationInvitation D S v ireq)"
    "emits (stays_in b ns) (DeleteOrganizationInvitation S v n)"
    "emits (stays_in b ns) (ListOrganizationInvitations D S v)"
    "emits (stays_in b ns) (DeleteOrganizationMember S sub v n)"
    "emits (stays_in False ns) (GetOrganizationCluster G S v n)"
  using assms(2)
  by (unfold DeleteOrganizationCredential_def ListOrganizationCredentials_def UpdateOrganizationCredential_def CreateOrganizationCredential_def
      DeleteOrganizationCluster_def ListOrganizationClusters_def CreateOrganizationInvitation_def DeleteOrganizationInvitation_def
      ListOrganizationInvitations_def DeleteOrganizationMember_def GetOrganizationCluster_def;
      intro tenancy assms(1);
      auto simp: tenancy_simps new_credential_def new_invitation_def)+

lemma plaintext_keys_stay: "emits (stays_in b ns) (plaintext_keys S public s)"
  unfolding plaintext_keys_def by (intro appends_intros) (simp add: R_credential_template_simps)

lemma emits_plaintext [tenancy]:
  "(\<And>ks. emits (stays_in b ns) (f ks)) \<Longrightarrow> emits (stays_in b ns) (go_bind (plaintext_keys S public s) f)"
  by (intro emits_go_bind plaintext_keys_stay)

lemma credential_stays:
  assumes "keeps_keys S" and "os_namespace_ref (organization_spec v) = Some ns"
  shows "emits (stays_in b ns) (GetOrganizationCredential cfg S v n)"
  using assms(2) unfolding GetOrganizationCredential_def
  by (intro tenancy assms(1)) (auto simp: tenancy_simps)

lemma members_loop_stays: "emits (stays_in b ns) (members_loop S v ms acc)"
proof (induction ms arbitrary: acc)
  case (Cons m ms)
  then show ?case by (simp, intro emits_go_bind appends_intros) (simp_all add: R_user_simps)
qed simp

lemma members_stay:
  assumes "os_namespace_ref (organization_spec v) = Some ns"
  shows "emits (stays_in b ns) (ListOrganizationMembers S v)"
  using assms unfolding ListOrganizationMembers_def
  by (intro tenancy members_loop_stays) (auto simp: tenancy_simps)

text \<open>Those of clusters, for a cluster in the namespace \<open>ns\<close>.\<close>

lemma cluster_endpoints_stay:
  assumes "keeps_keys S" and "om_namespace (cluster_meta c) = ns"
  shows "emits (stays_in b ns) (CreateClusterWorkload L J cfg S c wopts)"
    "emits (stays_in b ns) (DeleteClusterWorkload S c n)"
    "emits (stays_in b ns) (UpdateClusterWorkload J S c n wreq)"
    "emits (stays_in b ns) (ListClusterWorkloads C S c)"
    "emits (stays_in b ns) (GetClusterWorkload J S c n)"
    "emits (stays_in b ns) (CreateClusterNodePool Q L S c popts)"
    "emits (stays_in b ns) (DeleteClusterNodePool S c n)"
    "emits (stays_in b ns) (ListClusterNodePools S c)"
    "emits (stays_in b ns) (ListClusterNodes C S c)"
    "emits (stays_in b ns) (GetClusterNode C S c n)"
    "emits (stays_in False ns) (GetClusterNodePool Q S c n)"
  using assms(2)
  by (unfold CreateClusterWorkload_def DeleteClusterWorkload_def UpdateClusterWorkload_def ListClusterWorkloads_def GetClusterWorkload_def
      CreateClusterNodePool_def DeleteClusterNodePool_def ListClusterNodePools_def ListClusterNodes_def GetClusterNode_def GetClusterNodePool_def;
      intro tenancy assms(1);
      auto simp: tenancy_simps new_workload_def node_pool_object_meta_def)+

lemma node_pool_update_stays:
  assumes "keeps_keys S" and "om_namespace (cluster_meta c) = ns"
  shows "emits (stays_in b ns) (UpdateClusterNodePool Q S c n popts)"
  unfolding UpdateClusterNodePool_def
proof (intro tenancy assms(1))
  fix p updated
  assume "key_of (rk_wrap R_node_pool p) = \<lparr>ok_namespace = om_namespace (cluster_meta c), ok_name = n\<rparr>" "update_node_pool Q popts p = Ret updated"
  then show "stays_in b ns (CPatch (rk_wrap R_node_pool p) (rk_wrap R_node_pool updated))"
    using assms(2) by (auto simp: tenancy_simps kept_def dest!: update_node_pool_Ret(1))
qed (simp add: tenancy_simps assms(2))

text \<open>The node pools of a new cluster are in the namespace of the cluster the server returned.\<close>

lemma template_pools_stay:
  assumes "keeps_keys S" and "om_namespace (cluster_meta c) = ns"
  shows "emits (stays_in b ns) (create_template_pools S on cn c ts)"
proof (induction ts)
  case (Cons t ts)
  then show ?case
    using assms(2) by (simp, intro tenancy assms(1)) (simp_all add: tenancy_simps template_node_pool_def Let_def)
qed simp

lemma node_pool_options_stay: "emits (stays_in b ns) (nodePoolOptionsToNodePool G S q c)"
  unfolding nodePoolOptionsToNodePool_def by (intro tenancy) (simp_all add: tenancy_simps)

lemma node_pool_options_namespace:
  "run_state (nodePoolOptionsToNodePool G S q c) t = (Ret p, t') \<Longrightarrow> om_namespace (node_pool_meta p) = om_namespace (cluster_meta c)"
  by (auto simp: nodePoolOptionsToNodePool_def go_bind_Ret Let_def node_pool_object_meta_def split: option.splits)

lemma option_pools_stay:
  assumes "keeps_keys S" and "om_namespace (cluster_meta c) = ns"
  shows "emits (stays_in b ns) (create_option_pools G S c qs)"
proof (induction qs)
  case (Cons q qs)
  have "emits (stays_in b ns) (go_bind (try_call (k_create R_node_pool S p)) (\<lambda>_. create_option_pools G S c qs))"
    if "run_state (nodePoolOptionsToNodePool G S q c) t = (Ret p, t')" for p t t'
    using node_pool_options_namespace [OF that] assms(2) Cons.IH
    by (intro tenancy assms(1)) (simp_all add: tenancy_simps)
  then show ?case by (simp add: emits_go_bind_result [OF node_pool_options_stay])
qed simp

lemma find_template_stays: "emits (stays_in b ns) (find_template S public n)"
  unfolding find_template_def GetDefaultClusterTemplate_def by (intro tenancy appends_intros) (simp_all add: tenancy_simps)

lemma cluster_creation_stays:
  assumes "keeps_keys S" and ns: "os_namespace_ref (organization_spec v) = Some ns"
  shows "emits (stays_in b ns) (CreateOrganizationCluster G cfg S v request)"
  unfolding CreateOrganizationCluster_def
  by (intro tenancy assms(1) emits_go_bind [OF find_template_stays] emits_go_bind template_pools_stay option_pools_stay)
     (use ns in \<open>auto simp: tenancy_simps new_cluster_def\<close>)

lemma kubeconfig_stays: "emits (stays_in False ns) (CreateClusterKubeconfig K S sub c q)"
  unfolding CreateClusterKubeconfig_def GetOwnerOrganization_def by (intro appends_intros) (simp_all add: resource_defs)

subsection \<open>The handlers\<close>

abbreviation organization_key :: "string \<Rightarrow> object_key" where
  "organization_key name \<equiv> \<lparr>ok_namespace = [], ok_name = name\<rparr>"

text \<open>The calls \<open>new\<close> of a request after \<open>t\<close>: the organization of the request is read, the subject's access in its namespace is reviewed and
  allowed, and what follows stays in that namespace.\<close>

definition admitted :: "server \<Rightarrow> string \<Rightarrow> string \<Rightarrow> bool \<Rightarrow> trace \<Rightarrow> trace \<Rightarrow> bool" where
  "admitted S name subject reads t new =
     (\<exists>v ns rv rest. new = CGet AOrganization (organization_key name) # CReview rv # rest
        \<and> sv_get S t AOrganization (organization_key name) = Inr (KOrganization v)
        \<and> os_namespace_ref (organization_spec v) = Some ns
        \<and> sar_user rv = subject \<and> ra_namespace (sar_attributes rv) = ns
        \<and> sv_review S (t @ [CGet AOrganization (organization_key name)]) rv = Inr True
        \<and> list_all (stays_in reads ns) rest)"

definition gated :: "server \<Rightarrow> request \<Rightarrow> bool \<Rightarrow> (trace, reply) state \<Rightarrow> bool" where
  "gated S req reads m =
     (\<forall>t. \<exists>new. snd (run_state m t) = t @ new
        \<and> (list_all (\<lambda>c. \<not> touches c) new
           \<or> (\<exists>subject. req_subject req = Some subject \<and> admitted S (req_organization_name req) subject reads t new)))"

lemma gatedI:
  assumes "\<And>t. snd (run_state m t) = t @ new t"
    and "\<And>t. list_all (\<lambda>c. \<not> touches c) (new t) \<or> (\<exists>subject. req_subject req = Some subject \<and> admitted S (req_organization_name req) subject reads t (new t))"
  shows "gated S req reads m"
  using assms unfolding gated_def by blast

lemma gated_ret [simp]: "gated S req reads (ret a)"
  by (rule gatedI [where new = "\<lambda>t. []"]) simp_all

lemma gated_require: "gated S req reads m \<Longrightarrow> gated S req reads (require s m)"
  by (simp add: require_def)

lemma gated_org_gate:
  assumes "\<And>v ns. os_namespace_ref (organization_spec v) = Some ns \<Longrightarrow> emits (stays_in reads ns) (k v ns)"
  shows "gated S req reads (org_gate S res verb name req k)"
  unfolding gated_def
proof
  fix t
  let ?m = "org_gate S res verb name req k"
  let ?get = "CGet AOrganization (organization_key (req_organization_name req))"
  let ?goal = "\<exists>new. snd (run_state ?m t) = t @ new \<and> (list_all (\<lambda>c. \<not> touches c) new
    \<or> (\<exists>subject. req_subject req = Some subject \<and> admitted S (req_organization_name req) subject reads t new))"
  have run: "run_state (k_get R_organization S (organization_key (req_organization_name req))) t
      = (decode R_organization (sv_get S t AOrganization (organization_key (req_organization_name req))), t @ [?get])"
    by (simp add: run_k_get R_organization_simps)
  show ?goal
  proof (cases "\<exists>v ns subject. decode R_organization (sv_get S t AOrganization (organization_key (req_organization_name req))) = Inr v
      \<and> os_namespace_ref (organization_spec v) = Some ns \<and> req_subject req = Some subject")
    case False
    then have "snd (run_state ?m t) = t @ [?get]"
      by (auto simp: org_gate_def run SubjectFrom_def split: sum.split option.split)
    then show ?thesis by (intro exI [of _ "[?get]"]) simp
  next
    case True
    then obtain v ns subject where v: "decode R_organization (sv_get S t AOrganization (organization_key (req_organization_name req))) = Inr v"
      "os_namespace_ref (organization_spec v) = Some ns" "req_subject req = Some subject" by blast
    let ?rv = "\<lparr>sar_user = subject, sar_groups = [''dockyards:authenticated''],
      sar_attributes = \<lparr>ra_namespace = ns, ra_verb = verb, ra_group = GroupVersion_Group, ra_version = [], ra_resource = res, ra_name = name\<rparr>\<rparr>"
    let ?review = "sv_review S (t @ [?get]) ?rv"
    show ?thesis
    proof (cases "?review = Inr True")
      case False
      then have "snd (run_state ?m t) = t @ [?get, CReview ?rv]"
        using v by (auto simp: org_gate_def run SubjectFrom_def run_IsSubjectAllowed split: sum.split bool.split)
      then show ?thesis by (intro exI [of _ "[?get, CReview ?rv]"]) simp
    next
      case allowed: True
      obtain rest where rest: "snd (run_state (k v ns) (t @ [?get, CReview ?rv])) = (t @ [?get, CReview ?rv]) @ rest"
        "\<forall>c \<in> set rest. stays_in reads ns c"
        using assms [OF v(2)] unfolding emits_def by blast
      have "snd (run_state ?m t) = t @ ?get # CReview ?rv # rest"
        using v allowed rest(1) by (simp add: org_gate_def run SubjectFrom_def run_IsSubjectAllowed)
      moreover have "admitted S (req_organization_name req) subject reads t (?get # CReview ?rv # rest)"
        using v allowed rest(2) unfolding admitted_def
        by (intro exI [of _ v] exI [of _ ns] exI [of _ ?rv] exI [of _ rest]) (simp add: R_organization_simps list_all_iff)
      ultimately show ?thesis using v(3) by blast
    qed
  qed
qed

lemma cluster_gate_stays:
  assumes "keeps_keys S" and "\<And>c. om_namespace (cluster_meta c) = ns \<Longrightarrow> emits (stays_in reads ns) (k c)"
  shows "emits (stays_in reads ns) (cluster_gate S ns req onError onNotFound k)"
  unfolding cluster_gate_def
proof (rule emits_bind_result)
  fix r t t'
  assume "run_state (k_get R_cluster S \<lparr>ok_namespace = ns, ok_name = req_cluster_name req\<rparr>) t = (r, t')"
  then have "om_namespace (cluster_meta c) = ns" if "r = Inr c" for c
    using that keeps_getD [OF assms(1)] by (fastforce simp: run_k_get R_cluster_simps key_of_def)
  with assms(2) show "emits (stays_in reads ns) (case r of Inl e \<Rightarrow> if ignore NotFound (Some e) \<noteq> None then ret (status onError) else ret (status onNotFound)
      | Inr c \<Rightarrow> k c)"
    by (auto split: sum.split)
qed (auto simp: R_cluster_simps intro!: appends_intros)

text \<open>The contract of a handler below an organization: around an endpoint function that stays in the namespace of the organization (or of
  the cluster) it is gated.\<close>

locale organization_handler =
  fixes handler :: "server \<Rightarrow> 'f \<Rightarrow> request \<Rightarrow> (trace, reply) state"
    and confined :: "bool \<Rightarrow> 'f \<Rightarrow> bool"
  assumes handler_gated: "keeps_keys S \<Longrightarrow> confined reads f \<Longrightarrow> gated S req reads (handler S f req)"

definition for_organization :: "bool \<Rightarrow> (organization \<Rightarrow> (trace, 'a) state) \<Rightarrow> bool" where
  "for_organization reads f = (\<forall>v ns. os_namespace_ref (organization_spec v) = Some ns \<longrightarrow> emits (stays_in reads ns) (f v))"

definition for_cluster :: "bool \<Rightarrow> (cluster \<Rightarrow> (trace, 'a) state) \<Rightarrow> bool" where
  "for_cluster reads f = (\<forall>c. emits (stays_in reads (om_namespace (cluster_meta c))) (f c))"

lemmas handler_rules = gated_require gated_org_gate cluster_gate_stays require_emits read_body_emits unmarshal_body_emits emits_bind emits_ret

interpretation create_cluster: organization_handler
  "\<lambda>S f. CreateClusterResource H unmarshal as_bytes marshal res S f" "\<lambda>reads f. \<forall>q. for_cluster reads (\<lambda>c. f c q)"
  by unfold_locales (auto simp: CreateClusterResource_def for_cluster_def intro!: handler_rules)

interpretation update_cluster: organization_handler
  "\<lambda>S f. UpdateClusterResource H unmarshal res S f" "\<lambda>reads f. \<forall>n q. for_cluster reads (\<lambda>c. f c n q)"
  by unfold_locales (auto simp: UpdateClusterResource_def for_cluster_def intro!: handler_rules)

interpretation get_cluster: organization_handler
  "\<lambda>S f. GetClusterResource H marshal res S f" "\<lambda>reads f. \<forall>n. for_cluster reads (\<lambda>c. f c n)"
  by unfold_locales (auto simp: GetClusterResource_def for_cluster_def intro!: handler_rules)

interpretation list_cluster: organization_handler
  "\<lambda>S f. ListClusterResource marshal res S f" "\<lambda>reads f. for_cluster reads f"
  by unfold_locales (auto simp: ListClusterResource_def for_cluster_def intro!: handler_rules)

interpretation delete_cluster: organization_handler
  "\<lambda>S f. DeleteClusterResource res S f" "\<lambda>reads f. \<forall>n. for_cluster reads (\<lambda>c. f c n)"
  by unfold_locales (auto simp: DeleteClusterResource_def for_cluster_def intro!: handler_rules)

interpretation create_organization: organization_handler
  "\<lambda>S f. CreateOrganizationResource H unmarshal marshal res S f" "\<lambda>reads f. \<forall>q. for_organization reads (\<lambda>v. f v q)"
  by unfold_locales (auto simp: CreateOrganizationResource_def for_organization_def intro!: handler_rules)

interpretation update_organization: organization_handler
  "\<lambda>S f. UpdateOrganizationResource H unmarshal res S f" "\<lambda>reads f. \<forall>n q. for_organization reads (\<lambda>v. f v n q)"
  by unfold_locales (auto simp: UpdateOrganizationResource_def for_organization_def intro!: handler_rules)

interpretation get_organization: organization_handler
  "\<lambda>S f. GetOrganizationResource H marshal res S f" "\<lambda>reads f. \<forall>n. for_organization reads (\<lambda>v. f v n)"
  by unfold_locales (auto simp: GetOrganizationResource_def for_organization_def intro!: handler_rules)

interpretation list_organization: organization_handler
  "\<lambda>S f. ListOrganizationResource marshal res S f" "\<lambda>reads f. for_organization reads f"
  by unfold_locales (auto simp: ListOrganizationResource_def for_organization_def intro!: handler_rules)

interpretation delete_organization: organization_handler
  "\<lambda>S f. DeleteOrganizationResource res S f" "\<lambda>reads f. \<forall>n. for_organization reads (\<lambda>v. f v n)"
  by unfold_locales (auto simp: DeleteOrganizationResource_def for_organization_def intro!: handler_rules)

subsection \<open>Every route\<close>

lemma emits_answers [tenancy]:
  "emits P m \<Longrightarrow> emits P (answer con m)" "emits P p \<Longrightarrow> emits P (answer_pointer con' p)" "emits P d \<Longrightarrow> emits P (failing d)"
  by (auto simp: answer_def answer_pointer_def failing_def intro!: appends_intros)

text \<open>The endpoint functions that also list objects of all namespaces: the nodes of a node pool, the node pools of a cluster, the members of
  a user.\<close>

definition reads_elsewhere :: "string list" where
  "reads_elsewhere = [''GetClusterNodePool'', ''GetOrganizationCluster'', ''CreateClusterKubeconfig'']"

lemma organization_handlers_gated:
  assumes "keeps_keys S"
  shows "list_all (\<lambda>(n, h). \<forall>req. gated S req (n \<notin> set reads_elsewhere) (h req)) (organization_handlers A S)"
  unfolding organization_handlers_def Let_def reads_elsewhere_def
  by (simp, intro conjI allI;
      intro create_cluster.handler_gated update_cluster.handler_gated get_cluster.handler_gated list_cluster.handler_gated
        delete_cluster.handler_gated create_organization.handler_gated update_organization.handler_gated
        get_organization.handler_gated list_organization.handler_gated delete_organization.handler_gated assms;
      simp only: for_cluster_def for_organization_def; intro allI impI emits_answers;
      intro organization_endpoints_stay cluster_endpoints_stay credential_stays members_stay node_pool_update_stays
        cluster_creation_stays kubeconfig_stays assms refl; assumption)

text \<open>The endpoint functions below an organization, by name.\<close>

definition organization_functions :: "string list" where
  "organization_functions =
     [''CreateOrganizationCluster'', ''CreateOrganizationCredential'', ''DeleteOrganizationCredential'', ''ListOrganizationCredentials'',
     ''GetOrganizationCredential'', ''UpdateOrganizationCredential'', ''CreateClusterWorkload'', ''DeleteClusterWorkload'',
     ''UpdateClusterWorkload'', ''ListClusterWorkloads'', ''GetClusterWorkload'', ''CreateClusterNodePool'', ''DeleteClusterNodePool'',
     ''DeleteOrganizationCluster'', ''GetClusterNodePool'', ''ListClusterNodePools'', ''UpdateClusterNodePool'', ''ListOrganizationClusters'',
     ''GetOrganizationCluster'', ''CreateClusterKubeconfig'', ''CreateOrganizationInvitation'', ''DeleteOrganizationInvitation'',
     ''ListOrganizationInvitations'', ''ListClusterNodes'', ''GetClusterNode'', ''ListOrganizationMembers'', ''DeleteOrganizationMember'']"

lemma organization_handlers_names: "map fst (organization_handlers A S) = organization_functions"
  by (simp add: organization_handlers_def organization_functions_def Let_def)

lemma global_handlers_names: "list_all (\<lambda>n. n \<notin> set organization_functions) (map fst (global_handlers A S))"
  by (simp add: global_handlers_def organization_functions_def Let_def)

lemma organization_routes:
  "list_all (\<lambda>rt. rt_token rt = AccessToken \<and> rt_function rt \<in> set organization_functions) (filter below_organization routes)"
  by code_simp

lemma organization_handler_found:
  assumes "find_route hr = Some rt" and "below_organization rt"
  obtains handler where "map_of (handlers A S) (rt_function rt) = Some handler" "rt_token rt = AccessToken"
    "(rt_function rt, handler) \<in> set (organization_handlers A S)"
proof -
  have "rt \<in> set routes" using assms(1) by (auto simp: find_route_def find_Some_iff)
  then have rt: "rt_token rt = AccessToken" "rt_function rt \<in> set organization_functions"
    using assms(2) organization_routes by (auto simp: list_all_iff)
  then have "map_of (global_handlers A S) (rt_function rt) = None"
    using global_handlers_names [of A S] by (auto simp: list_all_iff map_of_eq_None_iff)
  moreover from rt(2) obtain handler where "map_of (organization_handlers A S) (rt_function rt) = Some handler"
    using organization_handlers_names [of A S] by (metis map_of_eq_None_iff not_None_eq set_map)
  ultimately show ?thesis
    using rt(1) by (intro that [of handler]) (auto simp: handlers_def map_add_def dest: map_of_SomeD)
qed

lemma with_schema_runs:
  obtains r where "run_state (with_schema A schema nxt req) t = (r, t)"
  | "run_state (with_schema A schema nxt req) t = run_state (nxt req) t"
proof (cases schema)
  case (Some name)
  show ?thesis
  proof (cases "req_body req")
    case (Inr body)
    then have same: "req\<lparr>req_body := Inr body\<rparr> = req" by simp
    show ?thesis
      using Some Inr that by (cases "ap_validate A name body"; cases "lib_marshal_errors (ap_http A) (the (ap_validate A name body))")
        (simp_all add: with_schema_def validate_ServeHTTP_def same)
  qed (use Some that in \<open>simp add: with_schema_def validate_ServeHTTP_def\<close>)
qed (use that in \<open>simp add: with_schema_def\<close>)

lemma with_schema_gated: "gated S req reads (nxt req) \<Longrightarrow> gated S req reads (with_schema A schema nxt req)"
  unfolding gated_def
proof
  fix t
  assume gated: "\<forall>t. \<exists>new. snd (run_state (nxt req) t) = t @ new
        \<and> (list_all (\<lambda>c. \<not> touches c) new
           \<or> (\<exists>subject. req_subject req = Some subject \<and> admitted S (req_organization_name req) subject reads t new))"
  show "\<exists>new. snd (run_state (with_schema A schema nxt req) t) = t @ new
        \<and> (list_all (\<lambda>c. \<not> touches c) new
           \<or> (\<exists>subject. req_subject req = Some subject \<and> admitted S (req_organization_name req) subject reads t new))"
    by (rule with_schema_runs [of A schema nxt req t]) (use gated in \<open>auto intro: exI [of _ "[]"]\<close>)
qed


text \<open>C12 No token, no effect: a request to any route that is not public, without a token of the kind the route asks for, makes no call at all and
  is refused.\<close>

theorem token_required:
  assumes "find_route hr = Some rt" and "rt_token rt \<noteq> Public"
    and "\<nexists>subject. carries_subject (if rt_token rt = RefreshToken then ap_parse_refresh A else ap_parse_access A) (hr_authorization hr) subject"
  shows "\<exists>r. run_state (serve A L codes S hr) t = (Served r, t) \<and> \<not> succeeded r"
proof -
  let ?parse = "if rt_token rt = RefreshToken then ap_parse_refresh A else ap_parse_access A"
  have rt: "rt \<in> set routes" using assms(1) by (auto simp: find_route_def find_Some_iff)
  have "list_all (\<lambda>rt. rt_token rt = Public \<or> rt_function rt \<notin> {''LoginOIDC'', ''Callback''}) routes" by code_simp
  with rt assms(2) have "rt_function rt \<in> set (map fst (handlers A S))"
    by (simp only: handlers_complete) (auto simp: list_all_iff)
  then obtain handler where handler: "map_of (handlers A S) (rt_function rt) = Some handler"
    by (metis map_of_eq_None_iff not_None_eq set_map)
  let ?body = "\<lambda>sub. with_schema A (rt_schema rt) handler ((bound_request rt hr)\<lparr>req_subject := Some sub\<rparr>)"
  have "serve_route A S rt handler hr = RequireAuth_Handler ?parse (hr_authorization hr) ?body"
    using assms(2) by (cases "rt_token rt") (simp_all add: serve_route_def with_token_def)
  then show ?thesis
    using RequireAuth_refuses [OF assms(3), of ?body t]
    by (auto simp: serve_def assms(1) handler case_prod_unfold)
qed

subsection \<open>A request, run\<close>

definition plain_codec :: "string codec" where
  "plain_codec = \<lparr>
     un_login = (\<lambda>s. Inl (Plain ''syntax'')), un_organization = (\<lambda>s. Inl (Plain ''syntax'')), un_cluster = (\<lambda>s. Inl
     (Plain ''syntax'')), un_credential = (\<lambda>s. Inl (Plain ''syntax'')), un_workload_options = (\<lambda>s. Inl (Plain ''syntax'')),
     un_workload = (\<lambda>s. Inl (Plain ''syntax'')), un_node_pool = (\<lambda>s. Inl (Plain ''syntax'')), un_kubeconfig = (\<lambda>s. Inl
     (Plain ''syntax'')), un_invitation = (\<lambda>s. Inl (Plain ''syntax'')), un_user = (\<lambda>s. Inl (Plain ''syntax'')), un_password =
     (\<lambda>s. Inl (Plain ''syntax'')), un_verify = (\<lambda>s. Inl (Plain ''syntax'')), un_reset_request = (\<lambda>s. Inl (Plain
     ''syntax'')), un_reset = (\<lambda>s. Inl (Plain ''syntax'')), cd_marshal = (\<lambda>r. Inr [])\<rparr>"

text \<open>Tokens are the names of their subjects.\<close>

definition plain_app :: "(string, string, string, string) app" where
  "plain_app = \<lparr>ap_http = example_lib, ap_accounts = plain_accounts,
     ap_clusters = \<lparr>ccl_api = plain_lib, ccl_conditions = plain_conditions, ccl_quantities = text_quantities,
       ccl_durations = plain_durations, ccl_patches = object_patch_lib\<rparr>,
     ap_kubeconfigs = plain_kubeconfigs, ap_input = \<lparr>il_marshal = Inr, il_unmarshal = Inr\<rparr>, ap_codec = plain_codec, ap_config = None,
     ap_system_namespace = ''system'', ap_parse_access = (\<lambda>s. Inr \<lparr>tk_claims = Some (Inr s), tk_valid = True\<rparr>),
     ap_parse_refresh = (\<lambda>s. Inl (Plain ''signature'')), ap_validate = (\<lambda>name body. None)\<rparr>"

definition tenant_server :: server where
  "tenant_server = empty_server\<lparr>sv_get := (\<lambda>t kd key.
     (case kd of
        AOrganization \<Rightarrow> Inr (KOrganization (zero_organization\<lparr>
          organization_meta := empty_meta\<lparr>om_name := ok_name key, om_namespace := ok_namespace key\<rparr>,
          organization_spec := (organization_spec zero_organization)\<lparr>os_namespace_ref := Some ''acme-ns''\<rparr>\<rparr>))
      | ACluster \<Rightarrow> Inr (KCluster (zero_cluster\<lparr>cluster_meta := empty_meta\<lparr>om_name := ok_name key, om_namespace := ok_namespace key\<rparr>\<rparr>))
      | _ \<Rightarrow> Inl (StatusErr NotFound None ''not found'')))\<rparr>"

definition delete_request :: http_request where
  "delete_request = \<lparr>hr_method = ''DELETE'', hr_path = [''v1'', ''orgs'', ''acme'', ''clusters'', ''c''],
     hr_authorization = ''Bearer alice'', hr_body = Inr [], hr_sso = login_request\<rparr>"

definition delete_route :: route where
  "delete_route = route ''DELETE /v1/orgs/{organizationName}/clusters/{resourceName}'' AccessToken None
     (WDeleteOrganization ''clusters'') ''DeleteOrganizationCluster''"

lemma tenant_server_keeps_keys: "keeps_keys tenant_server"
  by (auto simp: keeps_keys_def tenant_server_def empty_server_def key_of_def split: kind.splits)

lemma delete_request_found: "find_route delete_request = Some delete_route" "below_organization delete_route"
  by code_simp+

lemma delete_bound:
  "bound_request delete_route delete_request = \<lparr>req_organization_name = ''acme'', req_cluster_name = [], req_resource_name = ''c'',
     req_subject = None, req_body = Inr []\<rparr>"
  by code_simp

definition delete_review :: access_review where
  "delete_review = \<lparr>sar_user = ''alice'', sar_groups = [''dockyards:authenticated''], sar_attributes = \<lparr>ra_namespace = ''acme-ns'',
     ra_verb = ''delete'', ra_group = GroupVersion_Group, ra_version = [], ra_resource = ''clusters'', ra_name = ''c''\<rparr>\<rparr>"

lemma delete_handler:
  "map_of (handlers A S) (rt_function delete_route) =
     Some (\<lambda>req. DeleteOrganizationResource ''clusters'' S (\<lambda>v n. failing (DeleteOrganizationCluster S v n)) req)"
  by (simp add: handlers_def global_handlers_def organization_handlers_def Let_def delete_route_def)

lemma delete_subject: "carries_subject (ap_parse_access plain_app) (hr_authorization delete_request) ''alice''"
  by (simp add: carries_subject_def plain_app_def delete_request_def TrimPrefix_def)

lemma delete_runs:
  "\<exists>r. run_state (serve plain_app plain_sso (\<lambda>s. 0) tenant_server delete_request) [] =
     (r, [CGet AOrganization (organization_key ''acme''), CReview delete_review,
          CGet ACluster \<lparr>ok_namespace = ''acme-ns'', ok_name = ''c''\<rparr>,
          CDelete (KCluster (zero_cluster\<lparr>cluster_meta := empty_meta\<lparr>om_name := ''c'', om_namespace := ''acme-ns''\<rparr>\<rparr>))])"
proof -
  have review: "sv_review tenant_server t rv = Inr True" "sv_delete tenant_server t x = None" for t rv x
    by (simp_all add: tenant_server_def empty_server_def)
  have get: "sv_get tenant_server t AOrganization (organization_key ''acme'') = Inr (KOrganization (zero_organization\<lparr>
        organization_meta := empty_meta\<lparr>om_name := ''acme'', om_namespace := []\<rparr>,
        organization_spec := (organization_spec zero_organization)\<lparr>os_namespace_ref := Some ''acme-ns''\<rparr>\<rparr>))"
    "sv_get tenant_server t ACluster \<lparr>ok_namespace = ''acme-ns'', ok_name = ''c''\<rparr> = Inr (KCluster (zero_cluster\<lparr>
        cluster_meta := empty_meta\<lparr>om_name := ''c'', om_namespace := ''acme-ns''\<rparr>\<rparr>))" for t
    by (simp_all add: tenant_server_def)
  have "rt_token delete_route = AccessToken" "rt_schema delete_route = None" by (simp_all add: delete_route_def)
  then show ?thesis
    by (simp add: serve_def delete_request_found delete_handler serve_route_def with_token_def with_schema_def delete_bound
        RequireAuth_runs [OF delete_subject] DeleteOrganizationResource_def require_def org_gate_def run_simps get review R_organization_simps
        SubjectFrom_def run_IsSubjectAllowed failing_def DeleteOrganizationCluster_def namespace_of_def run_go_bind R_cluster_simps
        delete_review_def case_prod_unfold)
qed


lemma token_required_witness:
  "\<exists>r. run_state (serve plain_app plain_sso (\<lambda>s. 0) tenant_server (delete_request\<lparr>hr_authorization := []\<rparr>)) [] = (Served r, []) \<and> \<not> succeeded r"
proof -
  have "find_route (delete_request\<lparr>hr_authorization := []\<rparr>) = Some delete_route" by code_simp
  moreover have "rt_token delete_route = AccessToken" by code_simp
  ultimately show ?thesis
    by (intro token_required [where rt = delete_route]) (simp_all add: carries_subject_def)
qed

end
