(* ===== verification/Well_Formed.thy ===== *)
theory Well_Formed
  imports Server
begin

text \<open>
  What every call of the server looks like, whatever the API server answers and whatever the libraries compute. A patch or status
  patch sends the difference between two objects of one kind with one key (the client would otherwise address another object than the
  one that was read), and a list that selects by a field does so on a field whose index is registered at start-up (theory
  \<open>Indexes\<close>): a list on any other field is an error of the client. An object that is created names the owners it has, and none
  of them as its controller.
\<close>

text \<open>\<open>metav1.GetControllerOf\<close>: the owner reference that is marked as the controller.\<close>

definition controller_of :: "object_meta \<Rightarrow> owner_ref option" where
  "controller_of m = find (\<lambda>r. or_controller r = Some True) (om_owner_references m)"

fun well_formed :: "call \<Rightarrow> bool" where
  "well_formed (CPatch x y) = (kind_of x = kind_of y \<and> key_of x = key_of y)"
| "well_formed (CStatusPatch x y) = (kind_of x = kind_of y \<and> key_of x = key_of y)"
| "well_formed (CCommit x y) = (kind_of x = kind_of y \<and> key_of x = key_of y)"
| "well_formed (CHelper x y) = (kind_of x = kind_of y \<and> key_of x = key_of y)"
| "well_formed (CCreate x) = (controller_of (meta_of x) = None)"
| "well_formed (CList kd opts) = indexed_call (CList kd opts)"
| "well_formed c = True"

lemmas well_formed_simps = resource_defs key_of_def in_namespace_def matching_label_def matching_field_def list_all_opts_def

text \<open>Nothing the code creates has a controller.\<close>

lemma controller_of_simps [simp]:
  "controller_of empty_meta = None"
  "controller_of (m\<lparr>om_owner_references := []\<rparr>) = None"
  "controller_of (m\<lparr>om_owner_references := r # rs\<rparr>) = (if or_controller r = Some True then Some r else controller_of (m\<lparr>om_owner_references := rs\<rparr>))"
  "controller_of (m\<lparr>om_name := n\<rparr>) = controller_of m" "controller_of (m\<lparr>om_namespace := n\<rparr>) = controller_of m"
  "controller_of (m\<lparr>om_generate_name := n\<rparr>) = controller_of m" "controller_of (m\<lparr>om_labels := ls\<rparr>) = controller_of m"
  "controller_of (m\<lparr>om_annotations := ls\<rparr>) = controller_of m"
  by (simp_all add: controller_of_def empty_meta_def)

lemma owners_no_controllers [simp]:
  "or_controller (cluster_owner b c) = None" "or_controller (organization_owner_ref v) = None" "or_controller (user_owner u) = None"
  by (simp_all add: cluster_owner_def organization_owner_ref_def user_owner_def)

lemma created_unowned [simp]:
  "controller_of (sec_meta (new_credential v ns name creq)) = None"
  "controller_of (workload_meta (new_workload c a ns name target template input)) = None"
  "controller_of (node_pool_meta (template_node_pool on cn c pool_template)) = None"
  "controller_of (node_pool_object_meta b c v n) = None"
  "controller_of (cluster_meta (new_cluster v ns n spec)) = None"
  "controller_of (organization_meta (new_organization ns display duration voucher)) = None"
  "controller_of (member_meta (new_member ns on role u)) = None"
  "controller_of (invitation_meta (new_invitation v ns ireq dur)) = None"
  "controller_of (verification_request_meta (reset_request usr code)) = None"
  "controller_of (user_meta (sso_user provider claims password now)) = None"
  by (simp_all add: new_credential_def new_workload_def template_node_pool_def node_pool_object_meta_def new_cluster_def new_organization_def
      new_member_def new_invitation_def reset_request_def sso_user_def Let_def)

lemma lookups_well_formed [appends_intros]:
  "emits well_formed (GetOwnerOrganization L S m)" "emits well_formed (IsFeatureEnabled S f ns)" "emits well_formed (GetDefaultClusterTemplate S)"
  "emits well_formed (GetDefaultRelease S ty)"
  unfolding GetDefaultRelease_def GetOwnerOrganization_def IsFeatureEnabled_def GetDefaultClusterTemplate_def
  by (intro appends_intros; simp add: well_formed_simps)+

lemma organization_endpoints_well_formed:
  "emits well_formed (DeleteOrganizationCredential S v n)"
  "emits well_formed (ListOrganizationCredentials S v)"
  "emits well_formed (UpdateOrganizationCredential S v n creq)"
  "emits well_formed (CreateOrganizationCredential S v creq)"
  "emits well_formed (GetOrganizationCredential cfg S v n)"
  "emits well_formed (DeleteOrganizationCluster S v n)"
  "emits well_formed (ListOrganizationClusters C S v)"
  "emits well_formed (GetOrganizationCluster G S v n)"
  "emits well_formed (CreateOrganizationInvitation D S v ireq)"
  "emits well_formed (DeleteOrganizationInvitation S v n)"
  "emits well_formed (ListOrganizationInvitations D S v)"
  "emits well_formed (DeleteOrganizationMember S sub v n)"
  by (unfold DeleteOrganizationCredential_def ListOrganizationCredentials_def UpdateOrganizationCredential_def CreateOrganizationCredential_def
      GetOrganizationCredential_def plaintext_keys_def DeleteOrganizationCluster_def ListOrganizationClusters_def GetOrganizationCluster_def
      CreateOrganizationInvitation_def DeleteOrganizationInvitation_def ListOrganizationInvitations_def DeleteOrganizationMember_def;
      intro appends_intros; simp add: well_formed_simps)+

lemma cluster_endpoints_well_formed:
  "emits well_formed (CreateClusterWorkload L J cfg S c wopts)"
  "emits well_formed (DeleteClusterWorkload S c n)"
  "emits well_formed (UpdateClusterWorkload J S c n wreq)"
  "emits well_formed (ListClusterWorkloads C S c)"
  "emits well_formed (GetClusterWorkload J S c n)"
  "emits well_formed (CreateClusterNodePool Q L S c popts)"
  "emits well_formed (DeleteClusterNodePool S c n)"
  "emits well_formed (ListClusterNodePools S c)"
  "emits well_formed (GetClusterNodePool Q S c n)"
  "emits well_formed (ListClusterNodes C S c)"
  "emits well_formed (GetClusterNode C S c n)"
  "emits well_formed (CreateClusterKubeconfig K S sub c kopts)"
  by (unfold CreateClusterWorkload_def DeleteClusterWorkload_def UpdateClusterWorkload_def ListClusterWorkloads_def GetClusterWorkload_def
      CreateClusterNodePool_def DeleteClusterNodePool_def ListClusterNodePools_def GetClusterNodePool_def ListClusterNodes_def GetClusterNode_def
      CreateClusterKubeconfig_def;
      intro appends_intros; simp add: well_formed_simps)+

lemma node_pool_update_well_formed: "emits well_formed (UpdateClusterNodePool Q S c n popts)"
proof -
  have patch: "emits well_formed (go_bind (ret (update_node_pool Q popts p)) (\<lambda>updated.
      go_bind (try_call (k_patch R_node_pool S p updated)) (\<lambda>_. ret (Ret ()))))" for p
    by (cases "update_node_pool Q popts p")
       (auto simp: well_formed_simps kept_def dest!: update_node_pool_Ret(1) intro!: appends_intros)
  show ?thesis
    unfolding UpdateClusterNodePool_def
  proof (rule emits_go_bind)
    show "emits well_formed (try_call (k_get R_node_pool S \<lparr>ok_namespace = om_namespace (cluster_meta c), ok_name = n\<rparr>))"
      by (intro appends_intros) simp
  qed (rule patch)
qed

lemma node_pool_options_well_formed [appends_intros]: "emits well_formed (nodePoolOptionsToNodePool G S q c)"
  unfolding nodePoolOptionsToNodePool_def by (intro appends_intros)

lemma template_pools_well_formed [appends_intros]: "emits well_formed (create_template_pools S on cn c ts)"
  by (induction ts) (auto simp: R_node_pool_def intro!: appends_intros)

lemma node_pool_options_unowned:
  "run_state (nodePoolOptionsToNodePool G S q c) t = (Ret p, t') \<Longrightarrow> controller_of (node_pool_meta p) = None"
  by (auto simp: nodePoolOptionsToNodePool_def go_bind_Ret Let_def split: option.splits)

lemma option_pools_well_formed [appends_intros]: "emits well_formed (create_option_pools G S c qs)"
proof (induction qs)
  case (Cons q qs)
  have "emits well_formed (go_bind (try_call (k_create R_node_pool S p)) (\<lambda>_. create_option_pools G S c qs))"
    if "run_state (nodePoolOptionsToNodePool G S q c) t = (Ret p, t')" for p t t'
    using node_pool_options_unowned [OF that] Cons.IH by (intro appends_intros) (simp_all add: well_formed_simps)
  then show ?case by (simp add: emits_go_bind_result [OF node_pool_options_well_formed])
qed simp

lemma cluster_creation_well_formed: "emits well_formed (CreateOrganizationCluster G cfg S v request)"
  unfolding CreateOrganizationCluster_def find_template_def by (intro appends_intros) (simp_all add: well_formed_simps)

lemma members_well_formed [appends_intros]: "emits well_formed (members_loop S v ms acc)"
  by (induction ms arbitrary: acc) (auto simp: well_formed_simps intro!: appends_intros)

lemma member_list_well_formed: "emits well_formed (ListOrganizationMembers S v)"
  unfolding ListOrganizationMembers_def by (intro appends_intros) (simp_all add: well_formed_simps)

lemma organizations_well_formed [appends_intros]: "emits well_formed (organizations_loop C D S ms acc)"
  by (induction ms arbitrary: acc) (auto simp: well_formed_simps intro!: appends_intros)

lemma invitations_well_formed [appends_intros]: "emits well_formed (invitations_loop L S is acc)"
  by (induction "is" arbitrary: acc) (auto simp: HasExpired_def intro!: appends_intros)

lemma tokens_well_formed [appends_intros]: "emits well_formed (generateTokens A S u)"
  unfolding generateTokens_def by (intro appends_intros) simp_all

lemma account_endpoints_well_formed:
  "emits well_formed (CreateGlobalTokens A S lopts)"
  "emits well_formed (GetGlobalTokens A S sub)"
  "emits well_formed (CreateGlobalUser A cfg S uopts)"
  "emits well_formed (UpdateGlobalUser S sub n uopts)"
  "emits well_formed (GetWhoami C S sub)"
  "emits well_formed (UpdateUserPassword A S sub n password)"
  "emits well_formed (ResetPassword A S reset)"
  "emits well_formed (CreateGlobalPasswordResetRequest A S email)"
  "emits well_formed (UpdateGlobalVerificationRequest A S vopts)"
  by (unfold CreateGlobalTokens_def GetGlobalTokens_def CreateGlobalUser_def UpdateGlobalUser_def GetWhoami_def UpdateUserPassword_def
      ResetPassword_def CreateGlobalPasswordResetRequest_def UpdateGlobalVerificationRequest_def;
      intro appends_intros; simp add: well_formed_simps VerificationRequest_SetConditions_def set_password_def)+

lemma global_endpoints_well_formed:
  "emits well_formed (ListGlobalOrganizations C D S sub)"
  "emits well_formed (CreateGlobalOrganization D S ns sub oopts)"
  "emits well_formed (DeleteGlobalOrganization S n)"
  "emits well_formed (GetGlobalOrganization C S n)"
  "emits well_formed (UpdateGlobalOrganization D S n oopts)"
  "emits well_formed (ListGlobalInvitations L S sub)"
  "emits well_formed (DeleteGlobalInvitation S sub n)"
  "emits well_formed (UpdateGlobalInvitation S sub n)"
  "emits well_formed (ListCredentialTemplates cfg S)"
  "emits well_formed (GetClusterOptions cfg S)"
  "emits well_formed (ListGlobalClusterTemplates Q cfg S)"
  by (unfold ListGlobalOrganizations_def CreateGlobalOrganization_def find_voucher_def DeleteGlobalOrganization_def GetGlobalOrganization_def
      UpdateGlobalOrganization_def ListGlobalInvitations_def DeleteGlobalInvitation_def UpdateGlobalInvitation_def own_invitation_def
      ListCredentialTemplates_def GetClusterOptions_def ListGlobalClusterTemplates_def;
      intro appends_intros; simp add: well_formed_simps)+

subsection \<open>Every route\<close>

lemma gates_emit [appends_intros]:
  "(\<And>key. P (CGet AOrganization key)) \<Longrightarrow> (\<And>rv. P (CReview rv)) \<Longrightarrow> (\<And>v ns. emits P (k v ns)) \<Longrightarrow> emits P (org_gate S res verb name req k)"
  "(\<And>rv. P (CReview rv)) \<Longrightarrow> emits P m \<Longrightarrow> emits P (global_gate S res verb req m)"
  unfolding org_gate_def global_gate_def IsSubjectAllowed_def k_review_def by (intro appends_intros; simp add: R_organization_simps)+

lemmas handler_defs = CreateClusterResource_def CreateOrganizationResource_def CreateGlobalResource_def UpdateClusterResource_def
  UpdateOrganizationResource_def UpdateGlobalResource_def UpdateNamelessResource_def GetClusterResource_def GetOrganizationResource_def
  GetGlobalResource_def GetNamelessResource_def ListClusterResource_def ListOrganizationResource_def ListGlobalResource_def
  DeleteClusterResource_def DeleteOrganizationResource_def DeleteGlobalResource_def answer_def answer_pointer_def failing_def

lemma handlers_well_formed: "list_all (\<lambda>(n, h). \<forall>req. emits well_formed (h req)) (handlers A S)"
  unfolding handlers_def organization_handlers_def global_handlers_def Let_def handler_defs
  by (simp, intro conjI allI appends_intros organization_endpoints_well_formed cluster_endpoints_well_formed node_pool_update_well_formed
      cluster_creation_well_formed member_list_well_formed account_endpoints_well_formed global_endpoints_well_formed) simp_all

lemma wrapped_emits [appends_intros]:
  "emits P m \<Longrightarrow> emits P (wrapping message m)" "emits P m \<Longrightarrow> emits P (internal m)"
  unfolding wrapping_def internal_def by (auto intro!: appends_intros)

lemma sso_well_formed:
  "emits well_formed (LoginOIDC L cfg S q)" "emits well_formed (Callback L cfg S q)"
proof -
  have config: "emits well_formed (sso_config L cfg S name)" for name
    unfolding sso_config_def getOIDCConfig_def getOIDCProvider_def Let_def
    by (intro appends_intros) (simp_all add: well_formed_simps)
  have user: "emits well_formed (getOrCreateUser L S p claims)" for p claims
    unfolding getOrCreateUser_def randomPassword_def by (intro appends_intros) (simp_all add: well_formed_simps)
  show "emits well_formed (LoginOIDC L cfg S q)"
    unfolding LoginOIDC_def makeState_def makeNonce_def by (intro appends_intros config)
  show "emits well_formed (Callback L cfg S q)"
    unfolding Callback_def Let_def by (intro appends_intros config user)
qed

lemma middleware_emits:
  "(\<And>q. emits P (nxt q)) \<Longrightarrow> emits P (with_schema A schema nxt req)"
  "(\<And>q. emits P (nxt q)) \<Longrightarrow> emits P (with_token A kind authorization nxt req)"
  unfolding with_schema_def with_token_def validate_ServeHTTP_def RequireAuth_Handler_def
  by (auto intro!: appends_intros split: option.split token_kind.split)

lemma serve_well_formed: "emits well_formed (serve A L codes S hr)"
proof (cases "find_route hr")
  case (Some rt)
  show ?thesis
  proof (cases "map_of (handlers A S) (rt_function rt)")
    case handler: (Some handler)
    then have "emits well_formed (handler req)" for req
      using handlers_well_formed [of A S] by (auto simp: list_all_iff dest!: map_of_SomeD)
    then show ?thesis
      by (auto simp: serve_def Some handler serve_route_def intro!: appends_intros middleware_emits)
  next
    case None
    then show ?thesis
      by (auto simp: serve_def Some unprotectedRoute_def sso_well_formed intro!: appends_intros)
  qed
qed (simp add: serve_def)

text \<open>C26 Every request, through any route and whatever the API server and the libraries answer, makes only well-formed calls: patches and status
  patches between two objects of one kind and key, lists whose fields are indexed, and new objects without a controller.\<close>

theorem calls_well_formed: "emits well_formed (serve A L codes S hr)"
  by (rule serve_well_formed)

end
