(* ===== verification/Requeue.thy ===== *)
theory Requeue
  imports Controllers Store
begin

text \<open>
  The loop around a reconciler. The work queue of controller-runtime, as it is documented, runs \<open>Reconcile\<close> again after a positive
  \<open>RequeueAfter\<close> or an error, and otherwise not until something changes. \<open>drive\<close> is this loop for one object; it may run
  forever, so it is a partial function and that it ends is what is proved. Time passes between two rounds as the parameter
  \<open>wait\<close> says, which may contain calls of others.
\<close>

definition requeued :: "(goerr, ctrl_result) go \<Rightarrow> duration option" where
  "requeued r =
     (case r of
        Ret x \<Rightarrow> if requeue_after x > 0 then Some (requeue_after x) else None
      | Fail e \<Rightarrow> Some 0
      | Panic \<Rightarrow> Some 0)"

partial_function (option) drive ::
  "(trace \<Rightarrow> duration \<Rightarrow> trace) \<Rightarrow> (trace, (goerr, ctrl_result) go) state \<Rightarrow> trace \<Rightarrow> trace option"
where
  "drive wait m t =
     (case requeued (fst (run_state m t)) of
        None \<Rightarrow> Some (snd (run_state m t))
      | Some d \<Rightarrow> drive wait m (wait (snd (run_state m t)) d))"

text \<open>Time does not go back, and waiting takes longer than asked for; nobody else writes invitations meanwhile.\<close>

definition clock_monotone :: "environment \<Rightarrow> bool" where
  "clock_monotone E = (\<forall>t u. env_clock E t \<le> env_clock E (t @ u))"

definition timer :: "environment \<Rightarrow> (trace \<Rightarrow> duration \<Rightarrow> trace) \<Rightarrow> bool" where
  "timer E wait =
     (\<forall>t d. \<exists>u. wait t d = t @ u \<and> list_all (\<lambda>c. \<not> changes AInvitation c) u \<and> env_clock E t + max d 0 < env_clock E (t @ u))"

text \<open>A store whose patch helper may fail at any time.\<close>

definition flaky_store :: "environment \<Rightarrow> kobject list \<Rightarrow> (trace \<Rightarrow> goerr option) \<Rightarrow> server" where
  "flaky_store E objs fails = (store_server E objs)\<lparr>sv_new_helper := (\<lambda>t x. fails t), sv_helper := (\<lambda>t x x'. fails t)\<rparr>"

lemma flaky_store_simps [simp]:
  "sv_get (flaky_store E objs fails) = sv_get (store_server E objs)" "sv_now (flaky_store E objs fails) = env_clock E"
  "sv_delete (flaky_store E objs fails) = sv_delete (store_server E objs)"
  "sv_new_helper (flaky_store E objs fails) t x = fails t" "sv_helper (flaky_store E objs fails) t x x' = fails t"
  by (simp_all add: flaky_store_def store_server_def)

abbreviation invitation_at :: "environment \<Rightarrow> kobject list \<Rightarrow> object_key \<Rightarrow> trace \<Rightarrow> kobject option" where
  "invitation_at E objs key t \<equiv> stored (objects E objs t) AInvitation key"

lemma invitation_kept:
  assumes "list_all (\<lambda>c. \<not> changes AInvitation c) u"
  shows "invitation_at E objs key (t @ u) = invitation_at E objs key t"
proof -
  have "resources R_invitation (objects E objs (t @ u)) = resources R_invitation (objects E objs t)"
    using assms by (simp add: objects_append invitation_resource.store_calls_other R_invitation_simps(1))
  then show ?thesis
    using invitation_resource.stored_resource [of "objects E objs (t @ u)" key] invitation_resource.stored_resource [of "objects E objs t" key]
    by (simp add: R_invitation_simps(1))
qed

lemma invitation_deleted:
  assumes "invitation_at E objs key t = Some (KInvitation i)"
  shows "invitation_at E objs key (t @ [CDelete (KInvitation i)]) = None"
proof -
  have "key_of (KInvitation i) = key" using assms by (auto simp: stored_def find_Some_iff)
  then show ?thesis by (auto simp: objects_append stored_def find_None_iff same_object_def)
qed

subsection \<open>One round\<close>

text \<open>The invitation is gone: the round ends the loop.\<close>

lemma round_gone:
  assumes "invitation_at E objs key t = None"
  shows "run_state (InvitationReconciler_Reconcile (flaky_store E objs fails) key) t = (Ret no_requeue, t @ [CGet AInvitation key])"
  using assms
  by (simp add: InvitationReconciler_Reconcile_def reconcile_get_def run_simps R_invitation_simps store_server_def found_def not_found_def)

definition invitation_round :: "environment \<Rightarrow> (trace \<Rightarrow> goerr option) \<Rightarrow> object_key \<Rightarrow> invitation \<Rightarrow> gotime \<Rightarrow> trace \<Rightarrow> (goerr, ctrl_result) go \<times> trace" where
  "invitation_round E fails key i e t =
     (let i' = i\<lparr>invitation_status := (invitation_status i)\<lparr>ist_expiration := Some e\<rparr>\<rparr> in
      case fails t of
        Some err \<Rightarrow> (Fail err, t @ [CNewHelper (KInvitation i)])
      | None \<Rightarrow>
          (let t' = t @ [CNewHelper (KInvitation i), CNow] in
           case fails t' of
             Some err \<Rightarrow> (Fail (aggregate None err), t' @ [CHelper (KInvitation i) (KInvitation i')])
           | None \<Rightarrow> (Ret \<lparr>requeue_after = e - env_clock E (t @ [CNewHelper (KInvitation i)])\<rparr>, t' @ [CHelper (KInvitation i) (KInvitation i')])))"

lemma round_found:
  assumes "invitation_at E objs key t = Some (KInvitation i)" and "Invitation_GetExpiration i = Some e"
  shows "run_state (InvitationReconciler_Reconcile (flaky_store E objs fails) key) t =
    invitation_round E fails key i e (t @ [CGet AInvitation key, CNow] @ (if e < env_clock E (t @ [CGet AInvitation key]) then [CDelete (KInvitation i)] else []))"
proof -
  let ?S = "flaky_store E objs fails"
  have get: "decode R_invitation (sv_get (store_server E objs) t AInvitation key) = Inr i"
    using assms(1) by (simp add: store_server_def found_def R_invitation_simps)
  have "key_of (KInvitation i) = key" using assms(1) by (auto simp: stored_def find_Some_iff)
  moreover have "invitation_at E objs key (t @ [CGet AInvitation key, CNow]) = Some (KInvitation i)"
    using assms(1) by (subst invitation_kept) simp_all
  ultimately have delete: "sv_delete (store_server E objs) (t @ [CGet AInvitation key, CNow]) (KInvitation i) = None"
    by (simp add: store_server_def stored_like_def)
  show ?thesis
    by (simp add: InvitationReconciler_Reconcile_def reconcile_get_def run_simps R_invitation_simps(1,2) get assms(2) run_go_bind delete
        run_with_helper invitation_round_def Let_def until_expiration_def split: option.split)
qed

lemma invitation_round_quiet:
  obtains u r where "invitation_round E fails key i e t = (r, t @ u)" "list_all (\<lambda>c. \<not> changes AInvitation c) u"
    "requeued r \<noteq> None
     \<or> (\<exists>i'. u = [CNewHelper (KInvitation i), CNow, CHelper (KInvitation i) (KInvitation i')] \<and> e \<le> env_clock E (t @ [CNewHelper (KInvitation i)]))"
  by (cases "fails t"; cases "fails (t @ [CNewHelper (KInvitation i), CNow])")
     (auto simp: invitation_round_def Let_def requeued_def)

subsection \<open>The loop\<close>

lemma drive_gone:
  assumes "invitation_at E objs key t = None"
  shows "drive wait (InvitationReconciler_Reconcile (flaky_store E objs fails) key) t = Some (t @ [CGet AInvitation key])"
  by (subst drive.simps) (simp add: round_gone [OF assms] requeued_def no_requeue_def)

lemma gone_after_get: "invitation_at E objs key t = None \<Longrightarrow> invitation_at E objs key (t @ [CGet AInvitation key]) = None"
  by (subst invitation_kept) simp_all

lemma drive_expired:
  assumes "timer E wait" and "invitation_at E objs key t = Some (KInvitation i)" and "Invitation_GetExpiration i = Some e"
    and "e < env_clock E (t @ [CGet AInvitation key])"
  shows "\<exists>t'. drive wait (InvitationReconciler_Reconcile (flaky_store E objs fails) key) t = Some t' \<and> invitation_at E objs key t' = None"
proof -
  let ?m = "InvitationReconciler_Reconcile (flaky_store E objs fails) key"
  let ?t = "t @ [CGet AInvitation key, CNow] @ [CDelete (KInvitation i)]"
  have "invitation_at E objs key (t @ [CGet AInvitation key, CNow]) = Some (KInvitation i)"
    using assms(2) by (subst invitation_kept) simp_all
  from invitation_deleted [OF this] have gone: "invitation_at E objs key ?t = None" by simp
  obtain u r where round: "invitation_round E fails key i e ?t = (r, ?t @ u)" and quiet: "list_all (\<lambda>c. \<not> changes AInvitation c) u"
    by (rule invitation_round_quiet [of E fails key i e ?t])
  have run: "run_state ?m t = (r, ?t @ u)"
    using round_found [OF assms(2,3), of fails] assms(4) round by simp
  have still: "invitation_at E objs key (?t @ u) = None" using gone invitation_kept [OF quiet] by metis
  show ?thesis
  proof (cases "requeued r")
    case None
    then show ?thesis using run still by (subst drive.simps) simp
  next
    case (Some d)
    obtain w where w: "wait (?t @ u) d = (?t @ u) @ w" "list_all (\<lambda>c. \<not> changes AInvitation c) w"
      using assms(1) unfolding timer_def by blast
    have "invitation_at E objs key ((?t @ u) @ w) = None" using still invitation_kept [OF w(2)] by metis
    note drive_gone [OF this, of wait fails] gone_after_get [OF this]
    then show ?thesis using run Some w(1) by (subst drive.simps) simp
  qed
qed

text \<open>The last round read the clock when the invitation had not expired, and again when it had.\<close>

definition straddled :: "environment \<Rightarrow> object_key \<Rightarrow> invitation \<Rightarrow> gotime \<Rightarrow> trace \<Rightarrow> bool" where
  "straddled E key i e t =
     (\<exists>p i'. t = p @ [CGet AInvitation key, CNow, CNewHelper (KInvitation i), CNow, CHelper (KInvitation i) (KInvitation i')]
        \<and> env_clock E (p @ [CGet AInvitation key]) \<le> e
        \<and> e \<le> env_clock E (p @ [CGet AInvitation key, CNow, CNewHelper (KInvitation i)]))"

text \<open>C25 An invitation with a duration does not stay: the loop around its reconciler ends, however often the patch helper fails and whenever it
  is started, and leaves the invitation deleted. The one exception is a last round that found the invitation not yet expired and
  then, reading the clock again for the time to wait, expired: it asks for a wait that is not positive, which the queue takes as
  no wait at all.\<close>

theorem invitation_loop_ends:
  assumes "clock_monotone E" and "timer E wait"
    and "invitation_at E objs key t = Some (KInvitation i)" and "Invitation_GetExpiration i = Some e"
  shows "\<exists>t'. drive wait (InvitationReconciler_Reconcile (flaky_store E objs fails) key) t = Some t'
    \<and> (invitation_at E objs key t' = None \<or> straddled E key i e t')"
  using assms(3)
proof (induction "nat (e + 1 - env_clock E t)" arbitrary: t rule: less_induct)
  case less
  let ?m = "InvitationReconciler_Reconcile (flaky_store E objs fails) key" and ?get = "t @ [CGet AInvitation key]"
  show ?case
  proof (cases "e < env_clock E ?get")
    case True
    then show ?thesis using drive_expired [OF assms(2) less.prems assms(4)] by blast
  next
    case False
    let ?t = "t @ [CGet AInvitation key, CNow]"
    obtain u r where round: "invitation_round E fails key i e ?t = (r, ?t @ u)" and quiet: "list_all (\<lambda>c. \<not> changes AInvitation c) u"
      and last: "requeued r \<noteq> None \<or> (\<exists>i'. u = [CNewHelper (KInvitation i), CNow, CHelper (KInvitation i) (KInvitation i')]
        \<and> e \<le> env_clock E (?t @ [CNewHelper (KInvitation i)]))"
      by (rule invitation_round_quiet [of E fails key i e ?t])
    have run: "run_state ?m t = (r, ?t @ u)"
      using round_found [OF less.prems assms(4), of fails] False round by simp
    show ?thesis
    proof (cases "requeued r")
      case None
      with last False have "straddled E key i e (?t @ u)" unfolding straddled_def by (auto intro!: exI [of _ t])
      then show ?thesis using run None by (subst drive.simps) simp
    next
      case (Some d)
      let ?p = "?t @ u"
      obtain w where w: "wait ?p d = ?p @ w" "list_all (\<lambda>c. \<not> changes AInvitation c) w" "env_clock E ?p < env_clock E (?p @ w)"
        using assms(2) unfolding timer_def by fastforce
      have "env_clock E t \<le> env_clock E ?p" "env_clock E t \<le> env_clock E ?get"
        using assms(1) unfolding clock_monotone_def by (metis append_assoc)+
      with w(3) False have "nat (e + 1 - env_clock E (?p @ w)) < nat (e + 1 - env_clock E t)" by linarith
      moreover have "invitation_at E objs key (?p @ w) = Some (KInvitation i)"
        using less.prems quiet w(2) by (simp add: invitation_kept)
      ultimately obtain t' where "drive wait ?m (?p @ w) = Some t'" "invitation_at E objs key t' = None \<or> straddled E key i e t'"
        using less.hyps by blast
      then show ?thesis using run Some w(1) by (subst drive.simps) simp
    qed
  qed
qed

text \<open>A clock that counts the calls, a wait of other calls, and a patch helper that fails at first.\<close>

definition counting :: environment where
  "counting = \<lparr>env_suffix = (\<lambda>t. []), env_clock = (\<lambda>t. int (length t))\<rparr>"

definition idle :: "trace \<Rightarrow> duration \<Rightarrow> trace" where
  "idle t d = t @ replicate (nat d + 1) CNow"

definition pending_invitation :: invitation where
  "pending_invitation = zero_invitation\<lparr>invitation_meta := empty_meta\<lparr>om_name := ''i'', om_namespace := ''n''\<rparr>,
     invitation_spec := (invitation_spec zero_invitation)\<lparr>is_duration := Some 30\<rparr>\<rparr>"

definition pending_key :: object_key where
  "pending_key = \<lparr>ok_namespace = ''n'', ok_name = ''i''\<rparr>"

definition failing_twice :: "trace \<Rightarrow> goerr option" where
  "failing_twice t = (if length t < 9 then Some (Plain ''conflict'') else None)"

lemma invitation_loop_ends_witness:
  "\<exists>t'. drive idle (InvitationReconciler_Reconcile (flaky_store counting [KInvitation pending_invitation] failing_twice) pending_key) [] = Some t'
    \<and> (invitation_at counting [KInvitation pending_invitation] pending_key t' = None \<or> straddled counting pending_key pending_invitation 30 t')"
proof -
  have "clock_monotone counting" by (simp add: clock_monotone_def counting_def)
  moreover have "timer counting idle"
    unfolding timer_def
  proof (intro allI exI conjI)
    fix t and d :: duration
    show "idle t d = t @ replicate (nat d + 1) CNow" by (simp add: idle_def)
    show "list_all (\<lambda>c. \<not> changes AInvitation c) (replicate (nat d + 1) CNow)" by (simp add: list_all_iff)
    show "env_clock counting t + max d 0 < env_clock counting (t @ replicate (nat d + 1) CNow)" by (simp add: counting_def max_def)
  qed
  moreover have "invitation_at counting [KInvitation pending_invitation] pending_key [] = Some (KInvitation pending_invitation)"
    by (simp add: objects_def stored_def key_of_def pending_invitation_def pending_key_def)
  moreover have "Invitation_GetExpiration pending_invitation = Some 30"
    by (simp add: Invitation_GetExpiration_def pending_invitation_def zero_defs)
  ultimately show ?thesis by (rule invitation_loop_ends)
qed

end
