(* ===== verification/Joining.thy ===== *)
theory Joining
  imports Organizations Authorization Store
begin

text \<open>
  Joining an organization: from an invitation to what its receiver may do. \<open>UpdateGlobalInvitation\<close> of
  \<open>internal/api/v1/handlers/invitations.go\<close> turns an invitation into a member, the controller of members reconciles it
  (\<open>ReconcileMemberAuthorization\<close>), and access reviews are answered from the role bindings this writes.
\<close>

definition accepting_calls :: "string \<Rightarrow> string \<Rightarrow> string \<Rightarrow> user \<Rightarrow> invitation \<Rightarrow> call list" where
  "accepting_calls ns organizationName subject user i =
     [CGet AOrganization (named organizationName), CGet AUser (named subject),
      CList AInvitation (matching_field EmailField (us_email (user_spec user)) ns),
      CCreate (KMember (new_member ns organizationName (is_role (invitation_spec i)) (om_name (user_meta user)))),
      CDelete (KInvitation i)]"

lemma accepting_runs:
  assumes "run_state (UpdateGlobalInvitation S (Inr subject) organizationName) t = (Ret (), t')"
  obtains v ns user i where
    "sv_get S t AOrganization (named organizationName) = Inr (KOrganization v)"
    "os_namespace_ref (organization_spec v) = Some ns"
    "sv_get S (t @ take 1 (accepting_calls ns organizationName subject user i)) AUser (named subject) = Inr (KUser user)"
    "sv_list S (t @ take 2 (accepting_calls ns organizationName subject user i)) AInvitation
       (matching_field EmailField (us_email (user_spec user)) ns) = Inr [KInvitation i]"
    "t' = t @ accepting_calls ns organizationName subject user i"
  using assms
  by (auto simp: UpdateGlobalInvitation_def own_invitation_def run_go_bind run_simps R_organization_simps R_user_simps R_invitation_simps
      R_member_simps namespace_of_def accepting_calls_def go_of_sum_def
      intro!: that split: prod.splits go.splits sum.splits option.splits list.splits)

text \<open>C11 An invitation gives its role and nothing else: when a user accepts an invitation to an organization, there was exactly one invitation
  for the user's email in the organization's namespace, exactly one member was created there, for this user and with the role of the invitation,
  and that invitation was deleted; the clock is not read, so the time of the invitation may be over. Once the member has been reconciled,
  the user is allowed in that namespace exactly what the invited role permits, and to leave.\<close>

theorem invitation_gives_its_role:
  assumes "run_state (UpdateGlobalInvitation S (Inr subject) organizationName) t = (Ret (), t')" and "cooperative R"
  shows "\<exists>v ns user i. sv_get S t AOrganization (named organizationName) = Inr (KOrganization v)
    \<and> os_namespace_ref (organization_spec v) = Some ns
    \<and> sv_get S (t @ take 1 (accepting_calls ns organizationName subject user i)) AUser (named subject) = Inr (KUser user)
    \<and> sv_list S (t @ take 2 (accepting_calls ns organizationName subject user i)) AInvitation
        (matching_field EmailField (us_email (user_spec user)) ns) = Inr [KInvitation i]
    \<and> t' = t @ accepting_calls ns organizationName subject user i
    \<and> (let m = new_member ns organizationName (is_role (invitation_spec i)) (om_name (user_meta user)) in
         fst (member_reconciled R m) = Ret ()
         \<and> namespace_allows (snd (member_reconciled R m)) ns (om_name (user_meta user)) verb res name
             = (permitted (level_of_role (is_role (invitation_spec i))) verb res \<or> may_leave m verb res name))"
proof -
  obtain v ns user i where accepted: "sv_get S t AOrganization (named organizationName) = Inr (KOrganization v)"
    "os_namespace_ref (organization_spec v) = Some ns"
    "sv_get S (t @ take 1 (accepting_calls ns organizationName subject user i)) AUser (named subject) = Inr (KUser user)"
    "sv_list S (t @ take 2 (accepting_calls ns organizationName subject user i)) AInvitation
       (matching_field EmailField (us_email (user_spec user)) ns) = Inr [KInvitation i]"
    "t' = t @ accepting_calls ns organizationName subject user i"
    by (rule accepting_runs [OF assms(1)])
  let ?m = "new_member ns organizationName (is_role (invitation_spec i)) (om_name (user_meta user))"
  have "member_namespace ?m = ns" "member_user ?m = om_name (user_meta user)" "ms_role (member_spec ?m) = is_role (invitation_spec i)"
    by (simp_all add: new_member_def)
  with member_reconciled_allows [OF assms(2), of ?m] accepted show ?thesis
    by (intro exI [of _ v] exI [of _ ns] exI [of _ user] exI [of _ i]) (simp add: Let_def)
qed

text \<open>An invitation whose time was over long ago.\<close>

definition eve :: user where
  "eve = zero_user\<lparr>user_meta := empty_meta\<lparr>om_name := ''eve''\<rparr>, user_spec := (user_spec zero_user)\<lparr>us_email := ''e@x''\<rparr>\<rparr>"

definition old_invitation :: invitation where
  "old_invitation = zero_invitation\<lparr>invitation_meta := empty_meta\<lparr>om_name := ''i'', om_namespace := ''acme-ns''\<rparr>,
     invitation_spec := (invitation_spec zero_invitation)\<lparr>is_email := ''e@x'', is_role := RoleUser, is_duration := Some 1\<rparr>\<rparr>"

definition inviting_server :: server where
  "inviting_server = empty_server\<lparr>
     sv_get := (\<lambda>t kd key. Inr (case kd of AUser \<Rightarrow> KUser eve
       | _ \<Rightarrow> KOrganization (zero_organization\<lparr>organization_spec := (organization_spec zero_organization)\<lparr>os_namespace_ref := Some ''acme-ns''\<rparr>\<rparr>))),
     sv_list := (\<lambda>t kd opts. Inr [KInvitation old_invitation]), sv_now := (\<lambda>t. 1000)\<rparr>"

lemma old_invitation_accepted:
  "run_state (UpdateGlobalInvitation inviting_server (Inr ''eve'') ''acme'') [] = (Ret (), accepting_calls ''acme-ns'' ''acme'' ''eve'' eve old_invitation)"
proof -
  have "decode_list R_invitation (Inr [KInvitation i]) = Inr [i]" for i
    using R_invitation_simps(8) [of "[i]"] by simp
  then show ?thesis
    by (simp add: UpdateGlobalInvitation_def own_invitation_def run_go_bind run_simps R_organization_simps R_user_simps R_invitation_simps(1-5)
        R_member_simps namespace_of_def accepting_calls_def inviting_server_def empty_server_def)
qed

lemma invitation_gives_its_role_witness:
  "namespace_allows (snd (member_reconciled empty_server (new_member ''acme-ns'' ''acme'' RoleUser ''eve''))) ''acme-ns'' ''eve'' ''delete'' ''clusters'' ''c''
   \<and> \<not> namespace_allows (snd (member_reconciled empty_server (new_member ''acme-ns'' ''acme'' RoleUser ''eve''))) ''acme-ns'' ''eve'' ''delete'' ''members'' ''m''"
proof -
  have names: "om_name (user_meta eve) = ''eve''" "is_role (invitation_spec old_invitation) = RoleUser" "us_email (user_spec eve) = ''e@x''"
    by (simp_all add: eve_def old_invitation_def)
  have same: "ns = ''acme-ns'' \<and> i = old_invitation \<and> user = eve"
    if "accepting_calls ''acme-ns'' ''acme'' ''eve'' eve old_invitation = accepting_calls ns ''acme'' ''eve'' user i"
      "sv_get inviting_server t' AUser key = Inr (KUser user)" for ns user i t' key
    using that by (simp add: accepting_calls_def matching_field_def inviting_server_def)
  have levels: "permitted (level_of_role RoleUser) ''delete'' ''clusters''" "\<not> permitted (level_of_role RoleUser) ''delete'' ''members''"
    by (simp_all add: level_of_role_def)
  have "\<not> may_leave m ''delete'' ''clusters'' n" for m n by (simp add: may_leave_def)
  moreover have "\<not> may_leave (new_member ''acme-ns'' ''acme'' RoleUser ''eve'') ''delete'' ''members'' ''m''"
    by (simp add: may_leave_def new_member_def)
  ultimately show ?thesis
    using invitation_gives_its_role [OF old_invitation_accepted empty_server_cooperative, where verb = "''delete''" and res = "''clusters''" and name = "''c''"]
      invitation_gives_its_role [OF old_invitation_accepted empty_server_cooperative, where verb = "''delete''" and res = "''members''" and name = "''m''"]
      levels by (auto simp: Let_def names dest!: same)
qed

end
