(* ===== verification/Metrics.thy ===== *)
theory Metrics
  imports Store Apiutil
begin

text \<open>
  \<open>internal/metrics/metrics.go\<close>: \<open>NewPrometheusMetrics\<close> with its options, and \<open>CollectMetrics\<close>, which \<open>main.go\<close> runs on every tick of a
  timer. As the Prometheus client documents, a vector is a map from label values to a number, empty after \<open>Reset\<close>; \<open>With\<close> panics unless
  it is given exactly the labels the vector was declared with, and \<open>MustRegister\<close> panics for a second vector with the same name. The methods of
  a nil logger, registry or client panic. What a registry holds is kept as the list of its vectors when they were registered.
\<close>

subsection \<open>Vectors\<close>

record metric_vec =
  mv_name :: string
  mv_labels :: "string list"
  mv_values :: "string list \<rightharpoonup> int"

definition new_vec :: "string \<Rightarrow> string list \<Rightarrow> metric_vec" where
  "new_vec name labels = \<lparr>mv_name = name, mv_labels = labels, mv_values = Map.empty\<rparr>"

definition vec_reset :: "metric_vec \<Rightarrow> metric_vec" where
  "vec_reset g = g\<lparr>mv_values := Map.empty\<rparr>"

text \<open>The label values in the declared order.\<close>

definition vec_with :: "metric_vec \<Rightarrow> (string \<times> string) list \<Rightarrow> string list option" where
  "vec_with g labels = (if length labels = length (mv_labels g) then those (map (map_of labels) (mv_labels g)) else None)"

definition vec_set :: "metric_vec \<Rightarrow> (string \<times> string) list \<Rightarrow> int \<Rightarrow> (goerr, metric_vec) go" where
  "vec_set g labels x = (case vec_with g labels of None \<Rightarrow> Panic | Some l \<Rightarrow> Ret (g\<lparr>mv_values := (mv_values g)(l \<mapsto> x)\<rparr>))"

definition vec_inc :: "metric_vec \<Rightarrow> (string \<times> string) list \<Rightarrow> (goerr, metric_vec) go" where
  "vec_inc g labels =
     (case vec_with g labels of
        None \<Rightarrow> Panic
      | Some l \<Rightarrow> Ret (g\<lparr>mv_values := (mv_values g)(l \<mapsto> (case mv_values g l of None \<Rightarrow> 0 | Some x \<Rightarrow> x) + 1)\<rparr>))"

definition must_register :: "metric_vec list option \<Rightarrow> metric_vec \<Rightarrow> (goerr, metric_vec list option) go" where
  "must_register registry g =
     (case registry of
        None \<Rightarrow> Panic
      | Some vs \<Rightarrow> if mv_name g \<in> mv_name ` set vs then Panic else Ret (Some (vs @ [g])))"

subsection \<open>The metrics of the program\<close>

record prometheus_metrics =
  pm_logger :: "slog option"
  pm_registry :: "metric_vec list option"
  organization_metric :: metric_vec
  user_metric :: metric_vec
  credential_metric :: metric_vec
  pm_client :: "server option"
  cluster_metric :: metric_vec

type_synonym metrics_option = "prometheus_metrics \<Rightarrow> prometheus_metrics"

definition Metrics_WithLogger :: "slog option \<Rightarrow> metrics_option" where
  "Metrics_WithLogger logger m = m\<lparr>pm_logger := logger\<rparr>"

definition WithPrometheusRegistry :: "metric_vec list option \<Rightarrow> metrics_option" where
  "WithPrometheusRegistry registry m = m\<lparr>pm_registry := registry\<rparr>"

definition Metrics_WithManager :: "server option \<Rightarrow> metrics_option" where
  "Metrics_WithManager controllerClient m = m\<lparr>pm_client := controllerClient\<rparr>"

text \<open>\<open>debug.BuildInfo\<close>.\<close>

record build_info =
  bi_go_version :: string
  bi_settings :: "(string \<times> string) list"

fun revision_loop :: "(string \<times> string) list \<Rightarrow> string \<Rightarrow> string" where
  "revision_loop [] revision = revision"
| "revision_loop ((key, value) # settings) revision = revision_loop settings (if key = ''vcs.revision'' then value else revision)"

definition register :: "prometheus_metrics \<Rightarrow> metric_vec \<Rightarrow> (goerr, prometheus_metrics) go" where
  "register m g =
     (case must_register (pm_registry m) g of Ret r \<Rightarrow> Ret (m\<lparr>pm_registry := r\<rparr>) | Fail e \<Rightarrow> Fail e | Panic \<Rightarrow> Panic)"

definition NewPrometheusMetrics :: "build_info option \<Rightarrow> metrics_option list \<Rightarrow> (goerr, prometheus_metrics) go" where
  "NewPrometheusMetrics buildInfo options =
     (let organizationMetric = new_vec ''dockyards_backend_organization'' [''name''];
          userMetric = new_vec ''dockyards_backend_user'' [''name''];
          credentialMetric = new_vec ''dockyards_backend_credential'' [''name'', ''organization_name''];
          clusterMetric = new_vec ''dockyards_backend_cluster'' [''name'', ''organization_name''];
          m = fold (\<lambda>option. option) options \<lparr>pm_logger = None, pm_registry = None, organization_metric = organizationMetric,
                user_metric = userMetric, credential_metric = credentialMetric, pm_client = None, cluster_metric = clusterMetric\<rparr> in
      go_then (register m (organization_metric m)) (\<lambda>m.
      go_then (register m (user_metric m)) (\<lambda>m.
      go_then (register m (credential_metric m)) (\<lambda>m.
      go_then (register m (cluster_metric m)) (\<lambda>m.
      case buildInfo of
        None \<Rightarrow> Ret m
      | Some info \<Rightarrow>
          (let buildMetric = new_vec ''dockyards_backend_build_info'' [''goversion'', ''revision''];
               revision = revision_loop (bi_settings info) ''(unknown)'' in
           go_then (vec_inc buildMetric [(''goversion'', bi_go_version info), (''revision'', revision)]) (\<lambda>buildMetric.
           register m buildMetric)))))))"

subsection \<open>Collecting\<close>

fun name_gauge_loop :: "('o \<Rightarrow> object_meta) \<Rightarrow> 'o list \<Rightarrow> metric_vec \<Rightarrow> (goerr, metric_vec) go" where
  "name_gauge_loop meta [] g = Ret g"
| "name_gauge_loop meta (x # xs) g = go_then (vec_set g [(''name'', om_name (meta x))] 1) (name_gauge_loop meta xs)"

fun owner_gauge_loop ::
  "api_lib \<Rightarrow> server \<Rightarrow> ('o \<Rightarrow> object_meta) \<Rightarrow> 'o list \<Rightarrow> metric_vec \<Rightarrow> (trace, (goerr, metric_vec) go) state"
where
  "owner_gauge_loop L S meta [] g = ret (Ret g)"
| "owner_gauge_loop L S meta (x # xs) g = do {
     r \<leftarrow> GetOwnerOrganization L S (meta x);
     case r of
       Inl e \<Rightarrow> owner_gauge_loop L S meta xs g
     | Inr v \<Rightarrow>
         go_bind (ret (vec_set g [(''name'', om_name (meta x)), (''organization_name'', om_name (organization_meta v))] 1)) (\<lambda>g.
         owner_gauge_loop L S meta xs g)
   }"

text \<open>A run returns the metrics and the error, if any.\<close>

definition CollectMetrics ::
  "api_lib \<Rightarrow> prometheus_metrics \<Rightarrow> (trace, (goerr, goerr option \<times> prometheus_metrics) go) state"
where
  "CollectMetrics L m =
     (case pm_logger m of
        None \<Rightarrow> ret Panic
      | Some logger \<Rightarrow>
     (case pm_client m of
        None \<Rightarrow> ret Panic
      | Some S \<Rightarrow> do {
     organizations \<leftarrow> k_list R_organization S list_all_opts;
     case organizations of
       Inl e \<Rightarrow> ret (Ret (Some e, m))
     | Inr os \<Rightarrow>
         go_bind (ret (name_gauge_loop organization_meta os (vec_reset (organization_metric m)))) (\<lambda>g. do {
         m \<leftarrow> ret (m\<lparr>organization_metric := g, user_metric := vec_reset (user_metric m)\<rparr>);
         users \<leftarrow> k_list R_user S list_all_opts;
         case users of
           Inl e \<Rightarrow> ret (Ret (Some e, m))
         | Inr us \<Rightarrow>
             go_bind (ret (name_gauge_loop user_meta us (user_metric m))) (\<lambda>g. do {
             m \<leftarrow> ret (m\<lparr>user_metric := g, credential_metric := vec_reset (credential_metric m)\<rparr>);
             secrets \<leftarrow> k_list R_secret S (matching_field SecretTypeField SecretTypeCredential []);
             case secrets of
               Inl e \<Rightarrow> ret (Ret (Some e, m))
             | Inr ss \<Rightarrow>
                 go_bind (owner_gauge_loop L S sec_meta ss (credential_metric m)) (\<lambda>g. do {
                 m \<leftarrow> ret (m\<lparr>credential_metric := g\<rparr>);
                 clusters \<leftarrow> k_list R_cluster S list_all_opts;
                 go_bind (owner_gauge_loop L S cluster_meta (case clusters of Inl e \<Rightarrow> [] | Inr cs \<Rightarrow> cs) (vec_reset (cluster_metric m))) (\<lambda>g.
                 ret (Ret (None, m\<lparr>cluster_metric := g\<rparr>)))
               })
           })
       })
   }))"

subsection \<open>Vectors as they were declared\<close>

text \<open>The value one for exactly these labels.\<close>

definition showing :: "string list set \<Rightarrow> string list \<rightharpoonup> int" where
  "showing ls = (\<lambda>l. if l \<in> ls then Some 1 else None)"

lemma showing_simps [simp]:
  "showing {} = Map.empty" "m ++ showing {} = m" "m(l \<mapsto> 1) ++ showing ls = m ++ showing (insert l ls)"
  by (auto simp: showing_def map_add_def fun_eq_iff split: option.splits)

lemma vec_set_declared:
  "mv_labels g = [''name''] \<Longrightarrow> vec_set g [(''name'', n)] x = Ret (g\<lparr>mv_values := (mv_values g)([n] \<mapsto> x)\<rparr>)"
  "mv_labels g = [''name'', ''organization_name''] \<Longrightarrow>
     vec_set g [(''name'', n), (''organization_name'', v)] x = Ret (g\<lparr>mv_values := (mv_values g)([n, v] \<mapsto> x)\<rparr>)"
  by (simp_all add: vec_set_def vec_with_def)

lemma name_gauge_loop_declared:
  "mv_labels g = [''name''] \<Longrightarrow>
     name_gauge_loop meta xs g = Ret (g\<lparr>mv_values := mv_values g ++ showing ((\<lambda>x. [om_name (meta x)]) ` set xs)\<rparr>)"
  by (induction xs arbitrary: g) (simp_all add: vec_set_declared)

lemma wp_owner_gauge_loop:
  assumes "mv_labels g = [''name'', ''organization_name'']"
    and "\<And>ls t'. P (Ret (g\<lparr>mv_values := mv_values g ++ showing ls\<rparr>)) t'"
  shows "wp (owner_gauge_loop L S meta xs g) P t"
  using assms
proof (induction xs arbitrary: g t)
  case Nil
  from Nil(2) [of "{}"] show ?case by simp
next
  case (Cons x xs)
  have skip: "wp (owner_gauge_loop L S meta xs g) P t'" for t'
    using Cons.prems by (intro Cons.IH) simp_all
  have add: "wp (owner_gauge_loop L S meta xs (g\<lparr>mv_values := (mv_values g)(l \<mapsto> 1)\<rparr>)) P t'" for l t'
  proof (rule Cons.IH)
    fix ls t'
    show "P (Ret (g\<lparr>mv_values := (mv_values g)(l \<mapsto> 1)\<rparr>\<lparr>mv_values := mv_values (g\<lparr>mv_values := (mv_values g)(l \<mapsto> 1)\<rparr>) ++ showing ls\<rparr>)) t'"
      using Cons.prems(2) [of "insert l ls" t'] by (simp del: fun_upd_apply)
  qed (use Cons.prems(1) in simp)
  show ?case
    using skip add Cons.prems(1) by (auto simp: wp_def case_prod_unfold vec_set_declared split: sum.split)
qed

definition declared :: "prometheus_metrics \<Rightarrow> bool" where
  "declared m =
     (mv_labels (organization_metric m) = [''name''] \<and> mv_labels (user_metric m) = [''name'']
      \<and> mv_labels (credential_metric m) = [''name'', ''organization_name'']
      \<and> mv_labels (cluster_metric m) = [''name'', ''organization_name''])"

lemma vec_reset_simps [simp]: "mv_labels (vec_reset g) = mv_labels g" "mv_values (vec_reset g) = Map.empty"
  "vec_reset g\<lparr>mv_values := f\<rparr> = g\<lparr>mv_values := f\<rparr>"
  by (simp_all add: vec_reset_def)

subsection \<open>New metrics\<close>

text \<open>The metrics with the options \<open>main.go\<close> gives.\<close>

abbreviation main_metrics :: "build_info option \<Rightarrow> slog \<Rightarrow> metric_vec list \<Rightarrow> server \<Rightarrow> (goerr, prometheus_metrics) go" where
  "main_metrics buildInfo logger registry S \<equiv> NewPrometheusMetrics buildInfo
     [Metrics_WithLogger (Some logger), WithPrometheusRegistry (Some registry), Metrics_WithManager (Some S)]"

definition gauges :: "metric_vec list" where
  "gauges = [new_vec ''dockyards_backend_organization'' [''name''], new_vec ''dockyards_backend_user'' [''name''],
     new_vec ''dockyards_backend_credential'' [''name'', ''organization_name''], new_vec ''dockyards_backend_cluster'' [''name'', ''organization_name'']]"

definition build_vec :: "build_info \<Rightarrow> metric_vec" where
  "build_vec info = (new_vec ''dockyards_backend_build_info'' [''goversion'', ''revision''])\<lparr>mv_values :=
     [[bi_go_version info, revision_loop (bi_settings info) ''(unknown)''] \<mapsto> 1]\<rparr>"

lemma new_metrics:
  assumes "main_metrics buildInfo logger registry S = Ret m"
  shows "declared m" "pm_logger m = Some logger" "pm_client m = Some S"
    "pm_registry m = Some (registry @ gauges @ (case buildInfo of None \<Rightarrow> [] | Some info \<Rightarrow> [build_vec info]))"
  using assms
  by (auto simp: NewPrometheusMetrics_def register_def must_register_def go_then_def Metrics_WithLogger_def WithPrometheusRegistry_def
      Metrics_WithManager_def new_vec_def declared_def gauges_def build_vec_def vec_inc_def vec_with_def Let_def
      split: if_splits option.splits go.splits)

lemma new_metrics_ready:
  assumes "mv_name ` set registry \<inter> mv_name ` set (gauges @ [build_vec info]) = {}"
  shows "\<exists>m. main_metrics (Some info) logger registry S = Ret m"
  using assms
  by (auto simp: NewPrometheusMetrics_def register_def must_register_def Metrics_WithLogger_def WithPrometheusRegistry_def
      Metrics_WithManager_def new_vec_def gauges_def build_vec_def vec_inc_def vec_with_def Let_def image_iff)

text \<open>Without a registry, or with the same registry again, the program panics.\<close>

lemma new_metrics_twice:
  assumes "main_metrics buildInfo logger registry S = Ret m"
  shows "NewPrometheusMetrics buildInfo' [WithPrometheusRegistry (pm_registry m)] = Panic" "NewPrometheusMetrics buildInfo' [] = Panic"
  using new_metrics(4) [OF assms]
  by (simp_all add: NewPrometheusMetrics_def register_def must_register_def WithPrometheusRegistry_def gauges_def new_vec_def Let_def)

subsection \<open>Collecting again and again\<close>

inductive collected :: "api_lib \<Rightarrow> prometheus_metrics \<Rightarrow> prometheus_metrics \<Rightarrow> bool" for L m0 where
  new: "collected L m0 m0"
| again: "collected L m0 m \<Longrightarrow> run_state (CollectMetrics L m) t = (Ret (e, m'), t') \<Longrightarrow> collected L m0 m'"

lemma collect_declared:
  assumes "declared m" "pm_logger m = Some logger" "pm_client m = Some S"
  shows "wp (CollectMetrics L m) (\<lambda>r t'. \<exists>e m'. r = Ret (e, m') \<and> declared m' \<and> pm_logger m' = Some logger \<and> pm_client m' = Some S) t"
proof -
  have list: "wp (k_list R S opts) P t" if "\<And>r t'. P r t'" for R :: "'o resource_type" and opts P t
    using that by (simp add: wp_def)
  note labels = assms(1) [unfolded declared_def]
  show ?thesis
    unfolding CollectMetrics_def assms(2,3) option.case wp_simps
    apply (rule list)
    subgoal for organizations
      apply (cases organizations; simp add: assms name_gauge_loop_declared labels)
      apply (rule list)
      subgoal for os users
        apply (cases users; simp add: declared_def name_gauge_loop_declared labels assms(2,3))
        apply (rule list)
        subgoal for us secrets
          apply (cases secrets; simp add: labels assms(2,3))
          apply (rule wp_owner_gauge_loop; simp add: labels)
          apply (rule list)
          apply (simp only: wp_go_bind)
          apply (rule wp_owner_gauge_loop; simp add: labels assms(2,3))
          done
        done
      done
    done
qed

lemma collected_declared:
  assumes "collected L m0 m" "main_metrics buildInfo logger registry S = Ret m0"
  shows "declared m \<and> pm_logger m = Some logger \<and> pm_client m = Some S"
  using assms(1)
proof induction
  case new
  from new_metrics [OF assms(2)] show ?case by simp
next
  case (again m t e m' t')
  then show ?case using collect_declared [of m logger S L t] by (auto simp: wp_def)
qed

subsection \<open>What the gauges show\<close>

definition owner_labels :: "(object_meta \<Rightarrow> goerr + organization) \<Rightarrow> object_meta \<Rightarrow> string list set" where
  "owner_labels owner m = (case owner m of Inl e \<Rightarrow> {} | Inr v \<Rightarrow> {[om_name m, om_name (organization_meta v)]})"

text \<open>From now on nothing changes: a read gives the same whenever it is made, and a list is answered from the same objects.\<close>

definition settled :: "server \<Rightarrow> kobject list \<Rightarrow> trace \<Rightarrow> bool" where
  "settled S objs t = (\<forall>u. indexes_at S (t @ u) objs \<and> sv_get S (t @ u) = sv_get S t)"

lemma settled_later: "settled S objs t \<Longrightarrow> settled S objs (t @ u)"
  unfolding settled_def by (metis append_assoc)

definition owner_of :: "api_lib \<Rightarrow> server \<Rightarrow> trace \<Rightarrow> object_meta \<Rightarrow> goerr + organization" where
  "owner_of L S t m = fst (run_state (GetOwnerOrganization L S m) t)"

lemma owner_settled:
  assumes "settled S objs t"
  shows "owner_of L S (t @ u) m = owner_of L S t m"
proof -
  have get: "sv_get S (t @ v) = sv_get S t" for v using assms by (simp add: settled_def)
  show ?thesis
    using get [of "u @ v" for v] get by (simp add: owner_of_def GetOwnerOrganization_def getOwner_def run_simps Let_def split: sum.split)
qed

lemma wp_owner_settled:
  assumes "settled S objs t" and "mv_labels g = [''name'', ''organization_name'']"
    and "\<And>v. P (Ret (g\<lparr>mv_values := mv_values g ++ showing (\<Union>x \<in> set xs. owner_labels (owner_of L S t) (meta x))\<rparr>)) (t @ v)"
  shows "wp (owner_gauge_loop L S meta xs g) P (t @ u)"
  using assms(2,3)
proof (induction xs arbitrary: g u)
  case Nil
  from Nil(2) [of u] show ?case by simp
next
  case (Cons x xs)
  obtain r t' where run: "run_state (GetOwnerOrganization L S (meta x)) (t @ u) = (r, t')" by fastforce
  have "appends (GetOwnerOrganization L S (meta x))"
    unfolding GetOwnerOrganization_def by (intro appends_intros) simp_all
  from emitsD [OF this run] obtain new where t': "t' = (t @ u) @ new" by blast
  have r: "r = owner_of L S t (meta x)"
    using owner_settled [OF assms(1), of L u "meta x"] run by (simp add: owner_of_def)
  show ?case
  proof (cases r)
    case (Inl e)
    have "owner_labels (owner_of L S t) (meta x) = {}" using Inl by (simp add: owner_labels_def flip: r)
    then have "wp (owner_gauge_loop L S meta xs g) P (t @ u @ new)"
      using Cons.prems by (intro Cons.IH) simp_all
    then show ?thesis using run t' Inl by (simp add: wp_def)
  next
    case (Inr v)
    let ?l = "[om_name (meta x), om_name (organization_meta v)]"
    let ?g = "g\<lparr>mv_values := (mv_values g)(?l \<mapsto> 1)\<rparr>" and ?ls = "\<Union>x \<in> set xs. owner_labels (owner_of L S t) (meta x)"
    have "wp (owner_gauge_loop L S meta xs ?g) P (t @ u @ new)"
    proof (rule Cons.IH)
      fix v'
      have "(\<Union>y \<in> set (x # xs). owner_labels (owner_of L S t) (meta y)) = insert ?l ?ls"
        using Inr by (simp add: owner_labels_def [of _ "meta x"] flip: r)
      with Cons.prems(2) [of v'] show "P (Ret (?g\<lparr>mv_values := mv_values ?g ++ showing ?ls\<rparr>)) (t @ v')"
        by (simp del: fun_upd_apply set_simps)
    qed (use Cons.prems(1) in simp)
    then show ?thesis using run t' Inr Cons.prems(1) by (simp add: wp_def vec_set_declared)
  qed
qed

text \<open>The lists the collector reads.\<close>

lemma listed_everything:
  assumes "indexes_at S t objs"
  shows "decode_list R_organization (sv_list S t AOrganization list_all_opts) = Inr (resources R_organization objs)"
    and "decode_list R_user (sv_list S t AUser list_all_opts) = Inr (resources R_user objs)"
    and "decode_list R_cluster (sv_list S t ACluster list_all_opts) = Inr (resources R_cluster objs)"
    and "decode_list R_secret (sv_list S t ASecret (matching_field SecretTypeField SecretTypeCredential []))
      = Inr (filter (\<lambda>s. sec_type s = SecretTypeCredential) (resources R_secret objs))"
proof -
  have field: "field_matches (KSecret s) (SecretTypeField, v) = (sec_type s = v)" for s v
    by (auto simp: field_matches_def BySecretType_def)
  note * = organization_resource.list_indexed [OF assms] user_resource.list_indexed [OF assms] cluster_resource.list_indexed [OF assms]
    secret_resource.list_indexed [OF assms]
  show "decode_list R_organization (sv_list S t AOrganization list_all_opts) = Inr (resources R_organization objs)"
    "decode_list R_user (sv_list S t AUser list_all_opts) = Inr (resources R_user objs)"
    "decode_list R_cluster (sv_list S t ACluster list_all_opts) = Inr (resources R_cluster objs)"
    "decode_list R_secret (sv_list S t ASecret (matching_field SecretTypeField SecretTypeCredential []))
      = Inr (filter (\<lambda>s. sec_type s = SecretTypeCredential) (resources R_secret objs))"
    using *(1) [of list_all_opts] *(2) [of list_all_opts] *(3) [of list_all_opts]
      *(4) [of "matching_field SecretTypeField SecretTypeCredential []"]
    by (simp_all add: resources_def R_organization_simps R_user_simps R_cluster_simps R_secret_simps list_all_opts_def matching_field_def
        field)
qed

definition shown :: "api_lib \<Rightarrow> server \<Rightarrow> trace \<Rightarrow> kobject list \<Rightarrow> prometheus_metrics \<Rightarrow> prometheus_metrics" where
  "shown L S t objs m = m\<lparr>
     organization_metric := organization_metric m\<lparr>mv_values := showing ((\<lambda>v. [om_name (organization_meta v)]) ` set (resources R_organization objs))\<rparr>,
     user_metric := user_metric m\<lparr>mv_values := showing ((\<lambda>u. [om_name (user_meta u)]) ` set (resources R_user objs))\<rparr>,
     credential_metric := credential_metric m\<lparr>mv_values := showing
       (\<Union>s \<in> {s \<in> set (resources R_secret objs). sec_type s = SecretTypeCredential}. owner_labels (owner_of L S t) (sec_meta s))\<rparr>,
     cluster_metric := cluster_metric m\<lparr>mv_values := showing (\<Union>c \<in> set (resources R_cluster objs). owner_labels (owner_of L S t) (cluster_meta c))\<rparr>\<rparr>"

lemma collect_settled:
  assumes "declared m" "pm_logger m = Some logger" "pm_client m = Some S" and settled: "settled S objs t"
  shows "wp (CollectMetrics L m) (\<lambda>r t'. r = Ret (None, shown L S t objs m)) (t @ u)"
proof -
  have list: "wp (k_list R S opts) P (t @ u)"
    if "decode_list R (sv_list S (t @ u) (rk_kind R) opts) = Inr vs" "\<And>v. P (Inr vs) (t @ v)" for R :: "'o resource_type" and opts vs P u
    using that(1) that(2) [of "u @ [CList (rk_kind R) opts]"] by (simp add: wp_def run_simps)
  have at: "indexes_at S (t @ v) objs" for v using settled by (simp add: settled_def)
  note listed = listed_everything [OF at]
  note labels = assms(1) [unfolded declared_def]
  show ?thesis
    unfolding CollectMetrics_def assms(2,3) option.case wp_simps
    apply (rule list, simp add: R_organization_simps(1) listed(1))
    apply (simp add: name_gauge_loop_declared labels)
    apply (rule list, simp add: R_user_simps(1) listed(2))
    apply (simp add: name_gauge_loop_declared labels)
    apply (rule list, simp add: R_secret_simps(1) listed(4))
    apply simp
    apply (rule wp_owner_settled [OF settled], simp add: labels)
    apply simp
    apply (rule list, simp add: R_cluster_simps(1) listed(3))
    apply (simp only: wp_go_bind)
    apply (rule wp_owner_settled [OF settled], simp add: labels)
    apply (simp add: shown_def)
    done
qed

text \<open>C34 The gauges show the objects: the metrics that the program makes at its start never panic when they are collected, however often, because
  every vector is given the labels it was declared with; and collected while nothing changes, they show, whatever they showed before, the name
  of every organization and of every user, and of every secret of the credential type and every cluster together with the name
  of the organization that owns it, and nothing else; a credential or cluster whose owner cannot be looked up is left out. No error is returned.\<close>

theorem metrics_show_the_objects:
  assumes "NewPrometheusMetrics buildInfo [Metrics_WithLogger (Some logger), WithPrometheusRegistry (Some registry), Metrics_WithManager (Some S)] = Ret m0"
    and "collected L m0 m"
  shows "fst (run_state (CollectMetrics L m) t) \<noteq> Panic
    \<and> (settled S objs t \<longrightarrow> fst (run_state (CollectMetrics L m) t) = Ret (None, m\<lparr>
      organization_metric := organization_metric m\<lparr>mv_values := showing ((\<lambda>v. [om_name (organization_meta v)]) ` set (resources R_organization objs))\<rparr>,
      user_metric := user_metric m\<lparr>mv_values := showing ((\<lambda>u. [om_name (user_meta u)]) ` set (resources R_user objs))\<rparr>,
      credential_metric := credential_metric m\<lparr>mv_values := showing
        (\<Union>s \<in> {s \<in> set (resources R_secret objs). sec_type s = SecretTypeCredential}. owner_labels (owner_of L S t) (sec_meta s))\<rparr>,
      cluster_metric := cluster_metric m\<lparr>mv_values := showing
        (\<Union>c \<in> set (resources R_cluster objs). owner_labels (owner_of L S t) (cluster_meta c))\<rparr>\<rparr>))"
proof -
  have m: "declared m" "pm_logger m = Some logger" "pm_client m = Some S"
    using collected_declared [OF assms(2,1)] by simp_all
  show ?thesis
    using collect_declared [OF m, of L t] collect_settled [OF m, of objs t L "[]"] by (auto simp: wp_def shown_def)
qed

text \<open>An organization with a credential and a cluster, and a cluster of nobody.\<close>

definition acme_organization :: organization where
  "acme_organization = zero_organization\<lparr>organization_meta := empty_meta\<lparr>om_name := ''acme''\<rparr>\<rparr>"

definition in_acme :: "string \<Rightarrow> object_meta" where
  "in_acme n = empty_meta\<lparr>om_name := n, om_namespace := ''ns'', om_labels := Some [LabelOrganizationName \<mapsto> ''acme'']\<rparr>"

definition acme_objects :: "kobject list" where
  "acme_objects = [KOrganization acme_organization, KSecret \<lparr>sec_meta = in_acme ''cloud'', sec_type = SecretTypeCredential, sec_data = None\<rparr>,
     KSecret \<lparr>sec_meta = in_acme ''token'', sec_type = ''Opaque'', sec_data = None\<rparr>,
     KCluster (zero_cluster\<lparr>cluster_meta := in_acme ''c1''\<rparr>), KCluster (zero_cluster\<lparr>cluster_meta := empty_meta\<lparr>om_name := ''lost''\<rparr>\<rparr>)]"

definition acme_metrics_server :: server where
  "acme_metrics_server = empty_server\<lparr>sv_get := (\<lambda>t kd key. Inr (KOrganization acme_organization)), sv_list := answering (\<lambda>t. acme_objects)\<rparr>"

definition acme_metrics :: prometheus_metrics where
  "acme_metrics = (case main_metrics None [] [] acme_metrics_server of Ret m \<Rightarrow> m)"

lemma acme_owners:
  "owner_labels (owner_of plain_lib acme_metrics_server t) (in_acme n) = {[n, ''acme'']}"
  "owner_labels (owner_of plain_lib acme_metrics_server t) (empty_meta\<lparr>om_name := n\<rparr>) = {}"
  by (simp_all add: owner_labels_def owner_of_def GetOwnerOrganization_def getOwner_def Let_def run_simps in_acme_def map_str_def map_lookup_def
      acme_metrics_server_def LabelOrganizationName_def R_organization_simps FindOwnerReference_def empty_meta_def acme_organization_def)

lemma metrics_show_the_objects_witness:
  "case fst (run_state (CollectMetrics plain_lib acme_metrics) []) of
     Ret (e, m) \<Rightarrow> e = None \<and> mv_values (organization_metric m) = showing {[''acme'']} \<and> mv_values (user_metric m) = Map.empty
       \<and> mv_values (credential_metric m) = showing {[''cloud'', ''acme'']} \<and> mv_values (cluster_metric m) = showing {[''c1'', ''acme'']}
   | _ \<Rightarrow> False"
proof -
  have new: "main_metrics None [] [] acme_metrics_server = Ret acme_metrics"
    by (simp add: acme_metrics_def NewPrometheusMetrics_def register_def must_register_def Metrics_WithLogger_def WithPrometheusRegistry_def
      Metrics_WithManager_def new_vec_def Let_def)
  have lists: "sv_list acme_metrics_server = answering (\<lambda>t. acme_objects)" by (simp add: acme_metrics_server_def)
  have "settled acme_metrics_server acme_objects []"
    using indexes_at_answering [OF lists] by (simp add: settled_def acme_metrics_server_def)
  note shown = metrics_show_the_objects [OF new collected.new, of plain_lib "[]" acme_objects, THEN conjunct2, rule_format, OF this]
  have "resources R_organization acme_objects = [acme_organization]" "resources R_user acme_objects = []"
    "resources R_cluster acme_objects = [zero_cluster\<lparr>cluster_meta := in_acme ''c1''\<rparr>, zero_cluster\<lparr>cluster_meta := empty_meta\<lparr>om_name := ''lost''\<rparr>\<rparr>]"
    "filter (\<lambda>s. sec_type s = SecretTypeCredential) (resources R_secret acme_objects)
       = [\<lparr>sec_meta = in_acme ''cloud'', sec_type = SecretTypeCredential, sec_data = None\<rparr>]"
    by (simp_all add: resources_def acme_objects_def map_filter_simps resource_defs SecretTypeCredential_def)
  with shown show ?thesis by (simp add: acme_owners acme_organization_def flip: set_filter)
qed

end
