(* ===== verification/Admin_Kubeconfig.thy ===== *)
theory Admin_Kubeconfig
  imports Kubeconfigs
begin

text \<open>
  The command \<open>cmd/create-admin-kubeconfig/main.go\<close>: it asks the API server for a client certificate of a group, approves its own request,
  watches until the certificate is issued and prints a kubeconfig around it. What happens outside the program is the
  parameter \<open>admin_env\<close>: configuration, keys and codings, and the answers of the API server in the order in which the program asks.
  The \<open>select\<close> of the loop sees one thing after the other: an event, the end of the watch, or five seconds of
  nothing. It may see events for ever, so the loop is a partial function and whether it ends is a theorem.
\<close>

record rest_config =
  rest_ca_data :: string
  rest_host :: string

record signing_request =
  csr_name :: string
  csr_generate_name :: string
  csr_request :: string
  csr_expiration_seconds :: "32 word"
  csr_approved :: bool
  csr_certificate :: "string option"

datatype watched = SigningRequest signing_request | OtherObject

datatype tick = Event watched | Closed | After

datatype exit = Printed string | ExitStatus nat | Panicked

subsection \<open>The loop\<close>

datatype watch_end = Break "signing_request option" | TimedOut | NilDereference

text \<open>An event with an object of another type is reported, and then the nil pointer is dereferenced.\<close>

partial_function (option) watch_loop :: "(nat \<Rightarrow> tick) \<Rightarrow> string \<Rightarrow> nat \<Rightarrow> watch_end option" where
  "watch_loop ticks name i =
     (case ticks i of
        Closed \<Rightarrow> Some (Break None)
      | After \<Rightarrow> Some TimedOut
      | Event OtherObject \<Rightarrow> Some NilDereference
      | Event (SigningRequest csr) \<Rightarrow>
          (if csr_name csr \<noteq> name then watch_loop ticks name (i + 1)
           else (case csr_certificate csr of
                   None \<Rightarrow> watch_loop ticks name (i + 1)
                 | Some certificate \<Rightarrow> Some (Break (Some csr)))))"

subsection \<open>The program\<close>

record 'p admin_env =
  ae_config :: "goerr + rest_config"
  ae_client :: "goerr option"
  ae_role_binding :: "string \<Rightarrow> goerr + cluster_role_binding"
  ae_generate_key :: "goerr + 'p"
  ae_certificate_request :: "string list \<Rightarrow> string \<Rightarrow> 'p \<Rightarrow> goerr + string"
  ae_pem_encode :: "string \<Rightarrow> string \<Rightarrow> string"
  ae_marshal_key :: "'p \<Rightarrow> string"
  ae_create :: "signing_request \<Rightarrow> goerr + signing_request"
  ae_approve :: "signing_request \<Rightarrow> goerr + signing_request"
  ae_watch :: "goerr + (nat \<Rightarrow> tick)"
  ae_write :: "kubeconfig \<Rightarrow> goerr + string"

definition new_signing_request :: "string \<Rightarrow> string \<Rightarrow> 32 word \<Rightarrow> signing_request" where
  "new_signing_request commonName request expirationSeconds =
     \<lparr>csr_name = [], csr_generate_name = commonName @ ''-'', csr_request = request, csr_expiration_seconds = expirationSeconds,
      csr_approved = False, csr_certificate = None\<rparr>"

definition admin_config :: "string \<Rightarrow> rest_config \<Rightarrow> string option \<Rightarrow> string \<Rightarrow> kubeconfig" where
  "admin_config commonName cfg certificate privateKeyPEM =
     \<lparr>kcf_clusters = [(commonName, \<lparr>kc_server = rest_host cfg, kc_certificate_authority_data = rest_ca_data cfg\<rparr>)],
      kcf_contexts = [(commonName, \<lparr>kx_cluster = commonName, kx_auth_info = commonName\<rparr>)],
      kcf_auth_infos = [(commonName, \<lparr>ka_client_certificate_data = (case certificate of None \<Rightarrow> [] | Some c \<Rightarrow> c), ka_client_key_data = privateKeyPEM\<rparr>)],
      kcf_current_context = commonName\<rparr>"

text \<open>Up to the loop: either the program is over, or it has the configuration, its key, the approved request and a watch.\<close>

definition request_certificate :: "'p admin_env \<Rightarrow> string \<Rightarrow> string \<Rightarrow> 32 word \<Rightarrow> exit + rest_config \<times> 'p \<times> signing_request \<times> (nat \<Rightarrow> tick)" where
  "request_certificate E clusterRoleBindingName commonName expirationSeconds =
     (case ae_config E of Inl e \<Rightarrow> Inl Panicked | Inr cfg \<Rightarrow>
     (case ae_client E of Some e \<Rightarrow> Inl Panicked | None \<Rightarrow>
     (case ae_role_binding E clusterRoleBindingName of
        Inl e \<Rightarrow> Inl (if has_reason NotFound e then ExitStatus 1 else Panicked)
      | Inr clusterRoleBinding \<Rightarrow>
     (case ae_generate_key E of Inl e \<Rightarrow> Inl Panicked | Inr privateKey \<Rightarrow>
     (case ae_certificate_request E [om_name (crb_meta clusterRoleBinding)] commonName privateKey of Inl e \<Rightarrow> Inl Panicked | Inr csr \<Rightarrow>
     (case ae_create E (new_signing_request commonName (ae_pem_encode E ''CERTIFICATE REQUEST'' csr) expirationSeconds) of
        Inl e \<Rightarrow> Inl Panicked
      | Inr created \<Rightarrow>
     (case ae_approve E (created\<lparr>csr_approved := True\<rparr>) of Inl e \<Rightarrow> Inl Panicked | Inr approved \<Rightarrow>
     (case ae_watch E of Inl e \<Rightarrow> Inl Panicked | Inr ticks \<Rightarrow> Inr (cfg, privateKey, approved, ticks)))))))))"

text \<open>What follows the loop.\<close>

definition print_kubeconfig :: "'p admin_env \<Rightarrow> string \<Rightarrow> rest_config \<Rightarrow> 'p \<Rightarrow> signing_request \<Rightarrow> watch_end \<Rightarrow> exit" where
  "print_kubeconfig E commonName cfg privateKey approved r =
     (case r of
        TimedOut \<Rightarrow> ExitStatus 1
      | NilDereference \<Rightarrow> Panicked
      | Break answer \<Rightarrow>
          (case ae_write E (admin_config commonName cfg (csr_certificate (case answer of None \<Rightarrow> approved | Some csr \<Rightarrow> csr))
                  (ae_pem_encode E ''RSA PRIVATE KEY'' (ae_marshal_key E privateKey))) of
             Inl e \<Rightarrow> Panicked
           | Inr config \<Rightarrow> Printed config))"

text \<open>\<open>None\<close>: the program never ends.\<close>

definition admin_main :: "'p admin_env \<Rightarrow> string \<Rightarrow> string \<Rightarrow> 32 word \<Rightarrow> exit option" where
  "admin_main E clusterRoleBindingName commonName expirationSeconds =
     (case request_certificate E clusterRoleBindingName commonName expirationSeconds of
        Inl r \<Rightarrow> Some r
      | Inr (cfg, privateKey, approved, ticks) \<Rightarrow>
          map_option (print_kubeconfig E commonName cfg privateKey approved) (watch_loop ticks (csr_name approved) 0))"

subsection \<open>When it ends, and with what\<close>

text \<open>What ends the loop, and how.\<close>

definition ending :: "string \<Rightarrow> tick \<Rightarrow> watch_end option" where
  "ending name t =
     (case t of
        Closed \<Rightarrow> Some (Break None)
      | After \<Rightarrow> Some TimedOut
      | Event OtherObject \<Rightarrow> Some NilDereference
      | Event (SigningRequest csr) \<Rightarrow> if csr_name csr = name \<and> csr_certificate csr \<noteq> None then Some (Break (Some csr)) else None)"

lemma watch_loop_ending:
  "watch_loop ticks name i = (case ending name (ticks i) of None \<Rightarrow> watch_loop ticks name (i + 1) | Some r \<Rightarrow> Some r)"
  by (subst watch_loop.simps) (auto simp: ending_def split: tick.split watched.split option.split)

lemma watch_loop_reaches:
  assumes "ending name (ticks (i + k)) = Some r" and "\<And>j. j < k \<Longrightarrow> ending name (ticks (i + j)) = None"
  shows "watch_loop ticks name i = Some r"
  using assms
proof (induction k arbitrary: i)
  case 0
  then show ?case by (subst watch_loop_ending) simp
next
  case (Suc k)
  have "watch_loop ticks name (i + 1) = Some r"
    using Suc.prems(2) [of "Suc _"] by (intro Suc.IH) (use Suc.prems(1) in simp_all)
  moreover have "ending name (ticks i) = None" using Suc.prems(2) [of 0] by simp
  ultimately show ?case by (subst watch_loop_ending) simp
qed

lemma watch_loop_Some:
  assumes "watch_loop ticks name i = Some r"
  shows "\<exists>k. ending name (ticks (i + k)) = Some r \<and> (\<forall>j<k. ending name (ticks (i + j)) = None)"
  using assms
proof (rule watch_loop.raw_induct [rotated])
  fix loop :: "(nat \<Rightarrow> tick) \<Rightarrow> string \<Rightarrow> nat \<Rightarrow> watch_end option" and ticks and name and i and r
  assume 1: "\<And>ticks name i r. loop ticks name i = Some r
      \<Longrightarrow> \<exists>k. ending name (ticks (i + k)) = Some r \<and> (\<forall>j<k. ending name (ticks (i + j)) = None)"
    and 2: "(case ticks i of Event (SigningRequest csr) \<Rightarrow>
          (if csr_name csr \<noteq> name then loop ticks name (i + 1)
           else (case csr_certificate csr of None \<Rightarrow> loop ticks name (i + 1) | Some certificate \<Rightarrow> Some (Break (Some csr))))
        | Event OtherObject \<Rightarrow> Some NilDereference | Closed \<Rightarrow> Some (Break None) | After \<Rightarrow> Some TimedOut) = Some r"
  show "\<exists>k. ending name (ticks (i + k)) = Some r \<and> (\<forall>j<k. ending name (ticks (i + j)) = None)"
  proof (cases "ending name (ticks i)")
    case None
    with 2 have "loop ticks name (i + 1) = Some r"
      by (auto simp: ending_def split: tick.splits watched.splits option.splits if_splits)
    from 1 [OF this] obtain k where k: "ending name (ticks (i + 1 + k)) = Some r" "\<forall>j<k. ending name (ticks (i + 1 + j)) = None"
      by blast
    have "ending name (ticks (i + j)) = None" if "j < Suc k" for j
      using that None k(2) by (cases j) simp_all
    with k(1) show ?thesis by (intro exI [of _ "Suc k"]) simp
  next
    case (Some r')
    with 2 have "r' = r"
      by (auto simp: ending_def split: tick.splits watched.splits option.splits if_splits)
    with Some show ?thesis by (intro exI [of _ 0]) simp
  qed
qed


text \<open>A cluster where others ask for certificates all the time; the certificate of the command is issued at \<open>n\<close>, or never.\<close>

definition request_of :: "string \<Rightarrow> string option \<Rightarrow> signing_request" where
  "request_of name certificate = (new_signing_request ''test'' [] 0)\<lparr>csr_name := name, csr_certificate := certificate\<rparr>"

definition busy_env :: "nat option \<Rightarrow> unit admin_env" where
  "busy_env n = \<lparr>ae_config = Inr \<lparr>rest_ca_data = ''ca'', rest_host = ''host''\<rparr>, ae_client = None,
     ae_role_binding = (\<lambda>name. Inr \<lparr>crb_meta = empty_meta\<lparr>om_name := name\<rparr>, crb_subjects = [], crb_role_ref = \<lparr>rr_api_group = [], rr_kind = [], rr_name = []\<rparr>\<rparr>),
     ae_generate_key = Inr (), ae_certificate_request = (\<lambda>groups name key. Inr name), ae_pem_encode = (\<lambda>type block. type @ block),
     ae_marshal_key = (\<lambda>key. ''key''), ae_create = (\<lambda>r. Inr (r\<lparr>csr_name := ''test-1''\<rparr>)), ae_approve = Inr,
     ae_watch = Inr (\<lambda>i. Event (SigningRequest (if n = Some i then request_of ''test-1'' (Some ''certificate'') else request_of ''other'' None))),
     ae_write = (\<lambda>k. Inr (concat (map (ka_client_certificate_data \<circ> snd) (kcf_auth_infos k))))\<rparr>"

definition busy_ticks :: "nat option \<Rightarrow> nat \<Rightarrow> tick" where
  "busy_ticks n i = Event (SigningRequest (if n = Some i then request_of ''test-1'' (Some ''certificate'') else request_of ''other'' None))"

lemma busy_ticks_ending:
  "ending ''test-1'' (busy_ticks n i) = (if n = Some i then Some (Break (Some (request_of ''test-1'' (Some ''certificate'')))) else None)"
  by (simp add: busy_ticks_def ending_def request_of_def new_signing_request_def)

lemma busy_request:
  "\<exists>cfg approved. request_certificate (busy_env n) ''sudo-admin'' ''test'' 1209600 = Inr (cfg, (), approved, busy_ticks n) \<and> csr_name approved = ''test-1''"
  by (simp add: request_certificate_def busy_env_def busy_ticks_def fun_eq_iff)

lemma busy_print: "print_kubeconfig (busy_env n) name cfg () approved (Break (Some (request_of ''test-1'' (Some c)))) = Printed c"
  by (simp add: print_kubeconfig_def busy_env_def admin_config_def request_of_def)


end
