(* ===== verification/Watches.thy ===== *)
theory Watches
  imports Tenancy Well_Formed Requeue
begin

text \<open>
  Which change wakes which controller: the \<open>SetupWithManager\<close> methods of \<open>internal/controller\<close>, with the builder of controller-runtime as it is
  documented. \<open>For\<close> enqueues the object that changed; \<open>Owns\<close> its owner of the reconciled kind, and by default only an owner that is marked as the
  controller; \<open>Watches\<close> what the given function says. Users and organizations are cluster scoped, so a request for an owner has no namespace.
\<close>

datatype watch = For kind | Owns kind | Watches kind "kobject \<Rightarrow> (goerr, object_key list) go"

text \<open>The requests for the owners of kind \<open>owner\<close>.\<close>

definition owner_requests :: "api_lib \<Rightarrow> string \<Rightarrow> object_meta \<Rightarrow> object_key list" where
  "owner_requests L owner m =
     (case controller_of m of
        None \<Rightarrow> []
      | Some r \<Rightarrow>
          (case lib_parse_group_version L (or_api_version r) of
             Inl e \<Rightarrow> []
           | Inr (gr, version) \<Rightarrow> if or_kind r = owner \<and> gr = GroupVersion_Group then [named (or_name r)] else []))"

fun watch_requests :: "api_lib \<Rightarrow> string \<Rightarrow> watch \<Rightarrow> kobject \<Rightarrow> (goerr, object_key list) go" where
  "watch_requests L owner (For k) x = Ret (if kind_of x = k then [key_of x] else [])"
| "watch_requests L owner (Owns k) x = Ret (if kind_of x = k then owner_requests L owner (meta_of x) else [])"
| "watch_requests L owner (Watches k f) x = (if kind_of x = k then f x else Ret [])"

fun requests :: "api_lib \<Rightarrow> string \<Rightarrow> watch list \<Rightarrow> kobject \<Rightarrow> (goerr, object_key list) go" where
  "requests L owner [] x = Ret []"
| "requests L owner (w # ws) x =
     (case watch_requests L owner w x of
        Ret ks \<Rightarrow> (case requests L owner ws x of Ret ks' \<Rightarrow> Ret (ks @ ks') | Fail e \<Rightarrow> Fail e | Panic \<Rightarrow> Panic)
      | Fail e \<Rightarrow> Fail e
      | Panic \<Rightarrow> Panic)"

subsection \<open>The controllers\<close>

definition Organization_SetupWithManager :: "watch list" where
  "Organization_SetupWithManager = [For AOrganization, Owns ACluster, Owns ARoleBinding]"

definition Cluster_SetupWithManager :: "watch list" where
  "Cluster_SetupWithManager = [For ACluster, Watches ADNSZone (Ret \<circ> dnsZoneToClusters)]"

definition Workload_SetupWithManager :: "watch list" where
  "Workload_SetupWithManager = [For AWorkload, Watches AWorkloadInventory (Ret \<circ> workloadInventoryToWorkload)]"

definition User_SetupWithManager :: "watch list" where
  "User_SetupWithManager = [For AUser, Watches AVerificationRequest verificationReqeuestsToUsers]"

definition Member_SetupWithManager :: "watch list" where
  "Member_SetupWithManager = [For AMember]"

definition Invitation_SetupWithManger :: "watch list" where
  "Invitation_SetupWithManger = [For AInvitation]"

datatype controller = OrganizationController | ClusterController | WorkloadController | UserController | MemberController | InvitationController

fun woken :: "api_lib \<Rightarrow> controller \<Rightarrow> kobject \<Rightarrow> (goerr, object_key list) go" where
  "woken L OrganizationController = requests L OrganizationKind Organization_SetupWithManager"
| "woken L ClusterController = requests L ClusterKind Cluster_SetupWithManager"
| "woken L WorkloadController = requests L WorkloadKind Workload_SetupWithManager"
| "woken L UserController = requests L UserKind User_SetupWithManager"
| "woken L MemberController = requests L MemberKind Member_SetupWithManager"
| "woken L InvitationController = requests L InvitationKind Invitation_SetupWithManger"

lemmas setup_defs = Organization_SetupWithManager_def Cluster_SetupWithManager_def Workload_SetupWithManager_def User_SetupWithManager_def
  Member_SetupWithManager_def Invitation_SetupWithManger_def

text \<open>No event makes a controller panic, although one of the functions asserts the type of its argument.\<close>

lemma woken_Ret: "\<exists>ks. woken L ctl x = Ret ks"
  by (cases ctl; cases x) (simp_all add: setup_defs verificationReqeuestsToUsers_def Let_def)

lemma no_controller_no_request: "controller_of m = None \<Longrightarrow> owner_requests L owner m = []"
  by (simp add: owner_requests_def)

text \<open>Of the objects that are owned, the organization controller hears only of those with a controller.\<close>

lemma organization_woken:
  "controller_of (meta_of x) = None \<Longrightarrow> woken L OrganizationController x = Ret (if kind_of x = AOrganization then [key_of x] else [])"
  by (simp add: Organization_SetupWithManager_def no_controller_no_request)

subsection \<open>Who hears of what\<close>


text \<open>The request that is verified is the one with the code.\<close>

lemma verify_runs:
  assumes "run_state (UpdateGlobalVerificationRequest A S request) t = (Ret (), t')"
  obtains v p v' where "t' = t @ p @ [CStatusPatch (KVerificationRequest v) (KVerificationRequest v')]"
    and "sv_list S t AVerificationRequest (matching_field CodeField (tvo_code request) []) = Inr [KVerificationRequest v]"
    and "verification_request_meta v' = verification_request_meta v" "verification_request_spec v' = verification_request_spec v"
  using assms
  by (auto simp: UpdateGlobalVerificationRequest_def run_go_bind run_simps R_verification_request_simps VerificationRequest_SetConditions_def
      go_of_sum_def intro!: that split: sum.splits if_splits go.splits list.splits option.splits)

text \<open>Entering the code wakes the user: when the end point accepts the code of a verification request for a user, its last call changes the status of that
  request, which enqueues exactly this user, for the controller of users and for no other.\<close>

theorem code_wakes_user:
  assumes "run_state (UpdateGlobalVerificationRequest A S request) t = (Ret (), t')"
    and "\<And>v. sv_list S t AVerificationRequest (matching_field CodeField (tvo_code request) []) = Inr [KVerificationRequest v]
      \<Longrightarrow> vrs_user_ref (verification_request_spec v) = local_user_ref u"
    and "om_name (user_meta u) \<noteq> []"
  shows "\<exists>x x'. last t' = CStatusPatch x x' \<and> (\<forall>ctl. woken G ctl x' = Ret (if ctl = UserController then [named (om_name (user_meta u))] else []))"
proof -
  obtain v p v' where calls: "t' = t @ p @ [CStatusPatch (KVerificationRequest v) (KVerificationRequest v')]"
    and listed: "sv_list S t AVerificationRequest (matching_field CodeField (tvo_code request) []) = Inr [KVerificationRequest v]"
    and same: "verification_request_spec v' = verification_request_spec v"
    by (rule verify_runs [OF assms(1)])
  from assms(2) [OF listed] same have ref: "vrs_user_ref (verification_request_spec v') = local_user_ref u" by simp
  have "woken G ctl (KVerificationRequest v') = Ret (if ctl = UserController then [named (om_name (user_meta u))] else [])" for ctl
    using assms(3) by (cases ctl) (simp_all add: setup_defs verificationReqeuestsToUsers_def Let_def ref local_user_ref_def named_def)
  with calls show ?thesis by auto
qed

text \<open>Bob asks for a reset of his password: a verification request is created.\<close>

definition reset_app :: "(string, string, string, string) app" where
  "reset_app = plain_app\<lparr>ap_codec := plain_codec\<lparr>un_reset_request := Inr\<rparr>\<rparr>"

definition reset_server :: server where
  "reset_server = empty_server\<lparr>sv_list := (\<lambda>t kd opts. Inr [KUser bob])\<rparr>"

definition reset_post :: http_request where
  "reset_post = \<lparr>hr_method = ''POST'', hr_path = [''v1'', ''password-reset-request''], hr_authorization = [], hr_body = Inr ''bob@example.com'',
     hr_sso = login_request\<rparr>"

definition reset_route :: route where
  "reset_route = route ''POST /v1/password-reset-request'' Public (Some ''#passwordResetRequestOptions'')
     (WUpdateNameless ''verificationrequests'') ''CreateGlobalPasswordResetRequest''"

lemma reset_found: "find_route reset_post = Some reset_route"
  by code_simp

lemma reset_handler:
  "map_of (handlers A S) (rt_function reset_route) =
     Some (\<lambda>req. UpdateNamelessResource (ap_http A) (un_reset_request (ap_codec A))
       (\<lambda>q. failing (CreateGlobalPasswordResetRequest (ap_accounts A) S q)) req)"
  by (simp add: handlers_def global_handlers_def organization_handlers_def Let_def reset_route_def)

lemma reset_code: "\<exists>code. RandomWithEntropyOfAtLeast (al_rand_read plain_accounts t) 32 = Ret code"
proof -
  have "al_rand_read plain_accounts t = (\<lambda>n. Inr (replicate n (CHR ''a''), int n))" by (simp add: plain_accounts_def)
  moreover have "\<exists>s. BubbleBabble (replicate 4 (CHR ''a'')) = Some s" by (simp add: BubbleBabble_run)
  ultimately show ?thesis by (auto simp: RandomWithEntropyOfAtLeast_def Let_def)
qed

lemma reset_runs:
  "\<exists>r code. run_state (serve reset_app plain_sso (\<lambda>s. 0) reset_server reset_post) [] =
     (r, [CList AUser (matching_field EmailField ''bob@example.com'' []), CCreate (KVerificationRequest (reset_request bob code))])"
proof -
  obtain code where "RandomWithEntropyOfAtLeast (al_rand_read plain_accounts [CList AUser (matching_field EmailField ''bob@example.com'' [])]) 32 = Ret code"
    using reset_code by blast
  moreover have app: "ap_validate reset_app name body = None" "ap_accounts reset_app = plain_accounts" "un_reset_request (ap_codec reset_app) = Inr"
      "hr_body reset_post = Inr ''bob@example.com''" "al_parse_address plain_accounts = Inr" for name body
    by (simp_all add: reset_app_def plain_app_def reset_post_def plain_accounts_def)
  moreover have "decode_list R_user (sv_list reset_server t AUser opts) = Inr [bob]" for t opts
    using R_user_simps(8) [of "[bob]"] by (simp add: reset_server_def)
  moreover have "decode R_verification_request (sv_create reset_server t (KVerificationRequest v)) = Inr v" for t v
    by (simp add: reset_server_def empty_server_def R_verification_request_simps)
  moreover have "us_provider_id (user_spec bob) = ProviderPrefixDockyards" by (simp add: bob_def)
  moreover have "rt_token reset_route = Public" "rt_schema reset_route = Some ''#passwordResetRequestOptions''"
    by (simp_all add: reset_route_def)
  ultimately show ?thesis
    by (simp add: serve_def reset_found reset_handler serve_route_def with_token_def with_schema_def validate_ServeHTTP_def bound_request_def
        UpdateNamelessResource_def read_body_def unmarshal_body_def failing_def
        CreateGlobalPasswordResetRequest_def run_simps run_go_bind R_user_simps(1-5) R_verification_request_simps(1-5) case_prod_unfold) blast
qed

definition one_cluster :: server where
  "one_cluster = empty_server\<lparr>sv_list := (\<lambda>t kd opts. Inr [KCluster zero_cluster])\<rparr>"

lemma one_cluster_listed: "decode_list R_cluster (sv_list one_cluster t ACluster opts) = Inr [zero_cluster]"
  using R_cluster_simps(8) [of "[zero_cluster]"] by (simp add: one_cluster_def)


lemma code_wakes_user_witness:
  "\<exists>x x'. last (snd (run_state (UpdateGlobalVerificationRequest plain_accounts bob_server \<lparr>tvo_type = RequestTypeAccount, tvo_code = ''code''\<rparr>) [])) = CStatusPatch x x'
     \<and> woken plain_lib UserController x' = Ret [named ''bob''] \<and> woken plain_lib ClusterController x' = Ret []"
proof -
  let ?run = "run_state (UpdateGlobalVerificationRequest plain_accounts bob_server \<lparr>tvo_type = RequestTypeAccount, tvo_code = ''code''\<rparr>) []"
  have one: "sv_list bob_server t AVerificationRequest (matching_field CodeField ''code'' []) = Inr [KVerificationRequest bob_request]" for t
    by (simp add: bob_server_def answering_def matching_field_def bob_request_def)
  then have listed: "decode_list R_verification_request (sv_list bob_server t AVerificationRequest (matching_field CodeField ''code'' [])) = Inr [bob_request]" for t
    by (simp add: R_verification_request_simps)
  have "VerificationRequest_GetExpiration bob_request = Some 1" "sv_now bob_server t = 0" "sv_status_patch bob_server t v w = Inr w" for t v w
    by (simp_all add: VerificationRequest_GetExpiration_def bob_request_def bob_server_def empty_server_def zero_defs empty_meta_def)
  then have "fst ?run = Ret ()"
    by (simp add: UpdateGlobalVerificationRequest_def run_go_bind run_simps listed R_verification_request_simps(1-5))
  then have run: "?run = (Ret (), snd ?run)" by (metis prod.collapse)
  have ref: "vrs_user_ref (verification_request_spec v) = local_user_ref bob"
    if "sv_list bob_server [] AVerificationRequest (matching_field CodeField (tvo_code \<lparr>tvo_type = RequestTypeAccount, tvo_code = ''code''\<rparr>) []) = Inr [KVerificationRequest v]" for v
    using that one by (auto simp: bob_request_def)
  have name: "om_name (user_meta bob) = ''bob''" "om_name (user_meta bob) \<noteq> []" by (simp_all add: bob_def)
  have "\<exists>x x'. last (snd ?run) = CStatusPatch x x' \<and> (\<forall>ctl. woken plain_lib ctl x' = Ret (if ctl = UserController then [named ''bob''] else []))"
    unfolding name(1) [symmetric] by (rule code_wakes_user [OF run ref name(2)])
  then obtain x x' where calls: "last (snd ?run) = CStatusPatch x x'"
    and woken: "\<And>ctl. woken plain_lib ctl x' = Ret (if ctl = UserController then [named ''bob''] else [])"
    by blast
  from calls woken [of UserController] woken [of ClusterController] show ?thesis by (auto simp del: woken.simps)
qed

end
