(* ===== verification/Work_Queue.thy ===== *)
theory Work_Queue
  imports Account_Lifecycle Watches
begin

text \<open>
  The controller of users driven by events. Every call that changes the store is an event for the objects it changes (theory \<open>Watches\<close> says whom they
  wake), the work queue of controller-runtime keeps each key once, and a worker takes the first key, runs \<open>Reconcile\<close> and adds the keys its own
  calls wake, and the key itself when a requeue is asked for (\<open>Requeue\<close>). Whether the queue drains is a theorem, so the loop is a partial function.
\<close>

subsection \<open>Events\<close>

definition user_requests :: "api_lib \<Rightarrow> kobject \<Rightarrow> object_key list" where
  "user_requests G x = (case woken G UserController x of Ret ks \<Rightarrow> ks | _ \<Rightarrow> [])"

text \<open>An object that appears, changes or goes: its old and its new version.\<close>

definition wakes :: "api_lib \<Rightarrow> kobject list \<Rightarrow> kobject list \<Rightarrow> object_key list" where
  "wakes G objs objs' = concat (map (user_requests G) (filter (\<lambda>x. x \<notin> set objs) objs' @ filter (\<lambda>x. x \<notin> set objs') objs))"

fun woken_by :: "api_lib \<Rightarrow> environment \<Rightarrow> trace \<Rightarrow> call list \<Rightarrow> kobject list \<Rightarrow> object_key list" where
  "woken_by G E t [] objs = []"
| "woken_by G E t (c # cs) objs = wakes G objs (store_call E t c objs) @ woken_by G E (t @ [c]) cs (store_call E t c objs)"

text \<open>What the calls between two traces wake.\<close>

definition woken_between :: "api_lib \<Rightarrow> environment \<Rightarrow> kobject list \<Rightarrow> trace \<Rightarrow> trace \<Rightarrow> object_key list" where
  "woken_between G E objs t t' = woken_by G E t (drop (length t) t') (objects E objs t)"

subsection \<open>The queue\<close>

definition enqueue :: "object_key list \<Rightarrow> object_key list \<Rightarrow> object_key list" where
  "enqueue q ks = q @ filter (\<lambda>k. k \<notin> set q) (remdups ks)"

partial_function (option) work ::
  "api_lib \<Rightarrow> account_lib \<Rightarrow> config_manager option \<Rightarrow> environment \<Rightarrow> kobject list \<Rightarrow> object_key list \<Rightarrow> trace \<Rightarrow> trace option"
where
  "work G A cfg E objs q t =
     (case q of
        [] \<Rightarrow> Some t
      | key # rest \<Rightarrow>
          (let (r, t') = run_state (UserReconciler_Reconcile A cfg (store_server E objs) key) t;
               again = (case requeued r of None \<Rightarrow> [] | Some d \<Rightarrow> [key])
           in work G A cfg E objs (enqueue (enqueue rest (woken_between G E objs t t')) again) t'))"

subsection \<open>Calls about one account\<close>

lemma woken_by_append: "woken_by G E t (cs @ ds) objs = woken_by G E t cs objs @ woken_by G E (t @ cs) ds (store_calls E t cs objs)"
  by (induction cs arbitrary: t objs) simp_all

lemma woken_between_append:
  "woken_between G E objs t (t @ cs @ ds) = woken_between G E objs t (t @ cs) @ woken_between G E objs (t @ cs) (t @ cs @ ds)"
  using woken_by_append [of G E t cs ds "objects E objs t"] by (simp add: woken_between_def objects_append flip: append_assoc)

lemma user_requests_simps [simp]:
  "user_requests G (KUser u) = [resource_key R_user u]"
  "user_requests G (KVerificationRequest r) =
     (let ref = vrs_user_ref (verification_request_spec r) in if tl_kind ref \<noteq> UserKind \<or> tl_name ref = [] then [] else [named (tl_name ref)])"
  by (simp_all add: user_requests_def User_SetupWithManager_def verificationReqeuestsToUsers_def Let_def key_of_def named_def)

lemma user_requests_other:
  "kind_of x \<noteq> AUser \<Longrightarrow> kind_of x \<noteq> AVerificationRequest \<Longrightarrow> user_requests G x = []"
  by (cases x) (simp_all add: user_requests_def User_SetupWithManager_def)

text \<open>Only the users and the verification requests matter.\<close>

lemma set_resources_user: "KUser u \<in> set objs \<longleftrightarrow> u \<in> set (resources R_user objs)"
  by (induction objs) (auto simp: resources_def List.map_filter_def R_user_def split: kobject.splits)

lemma set_resources_request: "KVerificationRequest r \<in> set objs \<longleftrightarrow> r \<in> set (resources R_verification_request objs)"
  by (induction objs) (auto simp: resources_def List.map_filter_def R_verification_request_def split: kobject.splits)

lemma set_wakes:
  "set (wakes G objs objs') = (\<Union>x \<in> (set objs' - set objs) \<union> (set objs - set objs'). set (user_requests G x))"
  by (auto simp: wakes_def)

lemma wakes_iff:
  "k \<in> set (wakes G objs objs') \<longleftrightarrow>
     (\<exists>u. (u \<in> set (resources R_user objs)) \<noteq> (u \<in> set (resources R_user objs')) \<and> k = resource_key R_user u)
     \<or> (\<exists>r. (r \<in> set (resources R_verification_request objs)) \<noteq> (r \<in> set (resources R_verification_request objs'))
          \<and> k \<in> set (user_requests G (KVerificationRequest r)))"
proof -
  have "(\<exists>x. (x \<in> set objs) \<noteq> (x \<in> set objs') \<and> k \<in> set (user_requests G x)) \<longleftrightarrow>
     (\<exists>u. (KUser u \<in> set objs) \<noteq> (KUser u \<in> set objs') \<and> k = resource_key R_user u)
     \<or> (\<exists>r. (KVerificationRequest r \<in> set objs) \<noteq> (KVerificationRequest r \<in> set objs') \<and> k \<in> set (user_requests G (KVerificationRequest r)))"
    (is "?l = ?r")
  proof
    assume ?l
    then obtain x where x: "(x \<in> set objs) \<noteq> (x \<in> set objs')" "k \<in> set (user_requests G x)" by blast
    then have "kind_of x = AUser \<or> kind_of x = AVerificationRequest" using user_requests_other [of x G] by fastforce
    with x show ?r by (cases x) auto
  next
    assume ?r
    then show ?l by (elim disjE exE conjE) (metis list.set_intros(1) user_requests_simps(1), metis)
  qed
  then show ?thesis by (simp only: set_wakes set_resources_user set_resources_request) blast
qed

lemma wakes_same:
  assumes "resources R_user objs' = resources R_user objs" "resources R_verification_request objs' = resources R_verification_request objs"
  shows "wakes G objs objs' = []"
proof -
  have "k \<notin> set (wakes G objs objs')" for k using assms by (simp add: wakes_iff)
  then show ?thesis by (metis list.set_intros(1) neq_Nil_conv)
qed

text \<open>The account with the name \<open>n\<close> is there, and its request is for it.\<close>

definition refers :: "string \<Rightarrow> verification_request \<Rightarrow> bool" where
  "refers n r = (vrs_user_ref (verification_request_spec r) = \<lparr>tl_api_group = Some GroupVersion_Group, tl_kind = UserKind, tl_name = n\<rparr>)"

definition account_there :: "user list \<Rightarrow> verification_request list \<Rightarrow> string \<Rightarrow> kobject list \<Rightarrow> bool" where
  "account_there us rs n objs = (\<exists>u r. account us rs u r objs \<and> om_name (user_meta u) = n \<and> (\<forall>v. r = Some v \<longrightarrow> refers n v))"

lemma account_there_wakes:
  assumes "account_there us rs n objs" and "account_there us rs n objs'" and "k \<in> set (wakes G objs objs')"
  shows "k = named n"
proof -
  obtain u r u' r' where u: "account us rs u r objs" "om_name (user_meta u) = n" "\<And>v. r = Some v \<Longrightarrow> refers n v"
    and u': "account us rs u' r' objs'" "om_name (user_meta u') = n" "\<And>v. r' = Some v \<Longrightarrow> refers n v"
    using assms(1,2) unfolding account_there_def by metis
  then have ns: "om_namespace (user_meta u) = []" "om_namespace (user_meta u') = []" by (simp_all add: account_def)
  have "resource_key R_user w = named n" if "(w \<in> set (resources R_user objs)) \<noteq> (w \<in> set (resources R_user objs'))" for w
    using that u(1,2) u'(1,2) ns by (auto simp: account_def named_def)
  moreover have "refers n v" if "(v \<in> set (resources R_verification_request objs)) \<noteq> (v \<in> set (resources R_verification_request objs'))" for v
    using that u(1,3) u'(1,3) by (auto simp: account_def split: option.splits)
  ultimately show ?thesis
    using assms(3) unfolding wakes_iff by (auto simp: refers_def Let_def split: if_splits)
qed

text \<open>Calls that leave it there.\<close>

fun about_call :: "string \<Rightarrow> call \<Rightarrow> bool" where
  "about_call n (CStatusPatch x (KUser v)) = (resource_key R_user v = named n)"
| "about_call n (CStatusPatch x (KVerificationRequest v)) = (resource_key R_verification_request v = named (''sign-up-'' @ n))"
| "about_call n (CCommit x (KVerificationRequest v)) = (resource_key R_verification_request v = named (''sign-up-'' @ n) \<and> refers n v)"
| "about_call n (CDelete (KVerificationRequest v)) = (resource_key R_verification_request v = named (''sign-up-'' @ n))"
| "about_call n c = bystander c"

lemma account_there_step:
  assumes "account_there us rs n objs" and "about_call n c"
  shows "account_there us rs n (store_call E t c objs)"
proof -
  obtain u r where a: "account us rs u r objs" and n: "om_name (user_meta u) = n" and r: "\<And>v. r = Some v \<Longrightarrow> refers n v"
    using assms(1) unfolding account_there_def by metis
  have ns: "om_namespace (user_meta u) = []" and sign_up: "sign_up_name u = ''sign-up-'' @ n"
    using a n by (simp_all add: account_def sign_up_name_def)
  have status: "account_there us rs n (store_call E t (CStatusPatch x (KUser v)) objs)" if "resource_key R_user v = named n" for x v
  proof -
    have "account us rs (u\<lparr>user_status := user_status v\<rparr>) r (store_call E t (CStatusPatch x (KUser v)) objs)"
      by (rule account_status [OF a]) (use that n ns in \<open>simp add: named_def\<close>)
    moreover have "om_name (user_meta (u\<lparr>user_status := user_status v\<rparr>)) = n" using n by simp
    ultimately show ?thesis using r unfolding account_there_def by blast
  qed
  have request: "account_there us rs n (store_call E t (CStatusPatch x (KVerificationRequest v)) objs)"
    if "resource_key R_verification_request v = named (''sign-up-'' @ n)" for x v
  proof (cases r)
    case None
    have "stored_like objs (KVerificationRequest v) = None"
      by (rule account_no_request [OF a [unfolded None]]) (use that sign_up in simp)
    with a n r show ?thesis by (auto simp: account_there_def)
  next
    case (Some w)
    have "account us rs u (Some (w\<lparr>verification_request_status := verification_request_status v\<rparr>)) (store_call E t (CStatusPatch x (KVerificationRequest v)) objs)"
      by (rule account_request_status [OF a [unfolded Some]]) (use that sign_up in simp)
    moreover have "refers n (w\<lparr>verification_request_status := verification_request_status v\<rparr>)" using r [OF Some] by (simp add: refers_def)
    ultimately show ?thesis using n unfolding account_there_def by blast
  qed
  have commit: "account_there us rs n (store_call E t (CCommit x (KVerificationRequest v)) objs)"
    if "resource_key R_verification_request v = named (''sign-up-'' @ n)" "refers n v" for x v
  proof (cases r)
    case None
    have "account us rs u (Some (v\<lparr>verification_request_meta := stamp_meta E t (verification_request_meta v)\<rparr>)) (store_call E t (CCommit x (KVerificationRequest v)) objs)"
      by (rule account_request_created [OF a [unfolded None]]) (use that sign_up in simp)
    moreover have "refers n (v\<lparr>verification_request_meta := stamp_meta E t (verification_request_meta v)\<rparr>)" using that by (simp add: refers_def)
    ultimately show ?thesis using n unfolding account_there_def by blast
  next
    case (Some w)
    have "account us rs u (Some (v\<lparr>verification_request_status := verification_request_status w\<rparr>)) (store_call E t (CCommit x (KVerificationRequest v)) objs)"
      by (rule account_request_commit [OF a [unfolded Some]]) (use that sign_up in simp)
    moreover have "refers n (v\<lparr>verification_request_status := verification_request_status w\<rparr>)" using that by (simp add: refers_def)
    ultimately show ?thesis using n unfolding account_there_def by blast
  qed
  have delete: "account_there us rs n (store_call E t (CDelete (KVerificationRequest v)) objs)"
    if "resource_key R_verification_request v = named (''sign-up-'' @ n)" for v
    using account_request_deleted [OF a, of v E t] that n sign_up unfolding account_there_def by auto
  have "account_there us rs n (store_call E t c objs)" if "bystander c"
    using account_bystander [OF a that] n r unfolding account_there_def by blast
  with assms(2) status request commit delete show ?thesis
    by (cases "(n, c)" rule: about_call.cases) auto
qed

lemma account_there_woken:
  assumes "account_there us rs n objs" and "list_all (about_call n) cs"
  shows "set (woken_by G E t cs objs) \<subseteq> {named n}"
  using assms
proof (induction cs arbitrary: t objs)
  case (Cons c cs)
  then have step: "account_there us rs n (store_call E t c objs)" by (simp add: account_there_step)
  have "set (wakes G objs (store_call E t c objs)) \<subseteq> {named n}"
    using account_there_wakes [OF Cons.prems(1) step] by blast
  with Cons.IH [OF step] Cons.prems show ?case by simp
qed simp

subsection \<open>The reconciler calls about its account only\<close>

context resource_interface begin

lemma create_or_patch_emits_fetched:
  assumes "P (CFetch (rk_wrap R v))"
    and "\<And>w t. sv_fetch S t (rk_wrap R v) = Inr (rk_wrap R w) \<Longrightarrow> emits P (mutate w)"
    and "\<And>w t t' x t''. sv_fetch S t (rk_wrap R v) = Inr (rk_wrap R w) \<Longrightarrow> run_state (mutate w) t' = (Ret x, t'') \<Longrightarrow> P (CCommit (rk_wrap R w) (rk_wrap R x))"
  shows "emits P (create_or_patch R S v mutate)"
  unfolding create_or_patch_def
proof (rule emits_bind_result)
  show "emits P (perform (\<lambda>t. sv_fetch S t (rk_wrap R v)) (CFetch (rk_wrap R v)))" using assms(1) by (rule emits_perform)
  fix r t t'
  assume "run_state (perform (\<lambda>t. sv_fetch S t (rk_wrap R v)) (CFetch (rk_wrap R v))) t = (r, t')"
  then have r: "r = sv_fetch S t (rk_wrap R v)" by simp
  show "emits P (case decode R r of Inl e \<Rightarrow> ret (Fail e) | Inr current \<Rightarrow> do {
         m \<leftarrow> mutate current;
         case m of
           Ret desired \<Rightarrow> do {
             w \<leftarrow> perform (\<lambda>t. sv_commit S t (rk_wrap R current) (rk_wrap R desired)) (CCommit (rk_wrap R current) (rk_wrap R desired));
             ret (go_of_sum (decode R w))
           }
         | Fail e \<Rightarrow> ret (Fail e)
         | Panic \<Rightarrow> ret Panic })"
  proof (cases "decode R r")
    case (Inr w)
    then have fetched: "sv_fetch S t (rk_wrap R v) = Inr (rk_wrap R w)" by (simp add: r decode_Inr_iff)
    have "emits P (case m of Ret desired \<Rightarrow> do {
             w \<leftarrow> perform (\<lambda>t. sv_commit S t (rk_wrap R w) (rk_wrap R desired)) (CCommit (rk_wrap R w) (rk_wrap R desired));
             ret (go_of_sum (decode R w)) } | Fail e \<Rightarrow> ret (Fail e) | Panic \<Rightarrow> ret Panic)"
      if "run_state (mutate w) u = (m, u')" for m u u'
      using assms(3) [OF fetched] that by (cases m) (auto intro!: appends_intros)
    then show ?thesis using assms(2) [OF fetched] by (simp add: Inr emits_bind_result)
  qed simp
qed

end

text \<open>The user a worker has in its hands is the one with the key it was given.\<close>

abbreviation in_hand :: "string \<Rightarrow> user \<Rightarrow> bool" where
  "in_hand n u \<equiv> resource_key R_user u = named n"

lemma stored_like_key: "stored_like objs x = Some y \<Longrightarrow> key_of y = key_of x"
  by (auto simp: stored_like_def stored_def find_Some_iff)

lemma got_in_hand:
  assumes "run_state (k_get R_user (store_server E objs) (named n)) t = (Inr u, t')"
  shows "in_hand n u"
proof -
  from assms have "stored (objects E objs t) AUser (named n) = Some (KUser u)"
    by (auto simp: run_simps R_user_simps store_server_def found_def split: option.splits)
  then have "key_of (KUser u) = named n" unfolding stored_def find_Some_iff by metis
  then show ?thesis by (simp add: key_of_def)
qed

lemma status_answer:
  assumes "sv_status_patch (store_server E objs) t x (KUser v) = Inr (KUser w)"
  shows "resource_key R_user w = resource_key R_user v"
proof -
  obtain y where y: "stored_like (objects E objs t) (KUser v) = Some y" "with_status y (KUser v) = KUser w"
    using assms by (auto simp: store_server_def found_def split: option.splits)
  from stored_like_keeps_kind [OF y(1)] obtain u where "y = KUser u" by (cases y) auto
  with y stored_like_key [OF y(1)] show ?thesis by (auto simp: key_of_def)
qed

lemma patch_condition_about:
  assumes "in_hand n u"
  shows "emits (about_call n) (patch_condition C S u c)"
    and "go_of_sum (fst (run_state (patch_condition C (store_server E objs) u c) t)) = Ret v \<Longrightarrow> in_hand n v"
proof -
  have key: "resource_key R_user (User_SetConditions u cs) = named n" for cs using assms by (simp add: User_SetConditions_def)
  then show "emits (about_call n) (patch_condition C S u c)"
    unfolding patch_condition_def by (intro appends_intros) (simp_all add: R_user_simps)
  assume "go_of_sum (fst (run_state (patch_condition C (store_server E objs) u c) t)) = Ret v"
  then have "\<exists>q cs. sv_status_patch (store_server E objs) q (KUser u) (KUser (User_SetConditions u cs)) = Inr (KUser v)"
    by (auto simp: patch_condition_def run_simps R_user_simps go_of_sum_def split: sum.splits)
  with status_answer key show "in_hand n v" by metis
qed

lemma request_about:
  assumes "in_hand n u"
  shows "emits (about_call n) (reconcileVerificationRequest A (store_server E objs) u)"
  unfolding reconcileVerificationRequest_def
proof (rule verification_request_resource.create_or_patch_emits_fetched)
  have u: "om_name (user_meta u) = n" using assms by (simp add: named_def)
  show "about_call n (CFetch (rk_wrap R_verification_request (sign_up_request u)))" by simp
  show "emits (about_call n) (verification_request_mutate A u w)" for w
    unfolding verification_request_mutate_def Let_def by (intro appends_intros)
  fix w t t' x t''
  assume w: "sv_fetch (store_server E objs) t (rk_wrap R_verification_request (sign_up_request u)) = Inr (rk_wrap R_verification_request w)"
    and x: "run_state (verification_request_mutate A u w) t' = (Ret x, t'')"
  have "key_of (KVerificationRequest w) = key_of (KVerificationRequest (sign_up_request u))"
    using w by (auto simp: store_server_def R_verification_request_simps split: option.splits dest: stored_like_key)
  then have "resource_key R_verification_request w = named (''sign-up-'' @ n)"
    using u by (simp add: key_of_def sign_up_request_def sign_up_name_def named_def zero_defs empty_meta_def)
  moreover have "verification_request_meta x = verification_request_meta w \<and> vrs_user_ref (verification_request_spec x) = local_user_ref u"
    using x by (auto simp: verification_request_mutate_def Let_def run_go_bind run_simps split: if_splits go.splits)
  ultimately show "about_call n (CCommit (rk_wrap R_verification_request w) (rk_wrap R_verification_request x))"
    using u by (simp add: R_verification_request_simps refers_def local_user_ref_def)
qed

text \<open>The calls a function makes, and what it returns when it returns.\<close>

definition handles :: "(call \<Rightarrow> bool) \<Rightarrow> ('a \<Rightarrow> bool) \<Rightarrow> (trace, (goerr, 'a) go) state \<Rightarrow> bool" where
  "handles P Q m = (emits P m \<and> (\<forall>t v t'. run_state m t = (Ret v, t') \<longrightarrow> Q v))"

lemma handles_go_bind: "handles P Q m \<Longrightarrow> (\<And>v. Q v \<Longrightarrow> handles P R (f v)) \<Longrightarrow> handles P R (go_bind m f)"
  unfolding handles_def
  by (auto simp: run_go_bind run_simps intro!: emits_go_bind_result split: go.splits prod.splits)

lemma handles_ret: "(\<And>v. r = Ret v \<Longrightarrow> Q v) \<Longrightarrow> handles P Q (ret r)"
  by (auto simp: handles_def)

lemma handles_if: "(b \<Longrightarrow> handles P Q m) \<Longrightarrow> (\<not> b \<Longrightarrow> handles P Q m') \<Longrightarrow> handles P Q (if b then m else m')"
  by simp

lemma handles_option: "(x = None \<Longrightarrow> handles P Q m) \<Longrightarrow> (\<And>v. x = Some v \<Longrightarrow> handles P Q (f v)) \<Longrightarrow> handles P Q (case x of None \<Rightarrow> m | Some v \<Rightarrow> f v)"
  by (cases x) simp_all

lemma handles_prod: "(\<And>x y. handles P Q (f x y)) \<Longrightarrow> handles P Q (case p of (x, y) \<Rightarrow> f x y)"
  by (cases p) simp

lemma handles_Let: "handles P Q (f x) \<Longrightarrow> handles P Q (Let x f)"
  by simp

lemma handles_emits: "emits P m \<Longrightarrow> handles P (\<lambda>_. True) m"
  by (simp add: handles_def)

lemmas handles_rules = handles_ret handles_if handles_option handles_prod handles_Let

lemma patch_condition_handles: "in_hand n u \<Longrightarrow> handles (about_call n) (in_hand n) (try_call (patch_condition C (store_server E objs) u c))"
  unfolding handles_def run_try_call prod.inject using patch_condition_about try_call_emits by blast

lemma other_provider_handles:
  "in_hand n u \<Longrightarrow> handles (about_call n) (in_hand n) (reconcileNonDockyardsProvidedUser C cfg (store_server E objs) u)"
  unfolding reconcileNonDockyardsProvidedUser_def
  by (intro handles_rules handles_go_bind [OF handles_emits] patch_condition_handles appends_intros) (simp_all del: key_simps)

lemma verification_handles:
  assumes "in_hand n u"
  shows "handles (about_call n) (in_hand n) (reconcileUserVerification A (store_server E objs) u)"
proof -
  have key: "resource_key R_user (User_SetConditions u cs) = named n" for cs using assms by (simp add: User_SetConditions_def)
  have "handles (about_call n) (in_hand n) (do {
      conditions \<leftarrow> observe f;
      try_call (k_status_patch R_user (store_server E objs) u (User_SetConditions u conditions)) })" for f
    using key by (auto simp del: key_simps simp: handles_def run_simps R_user_simps go_of_sum_def dest!: status_answer
      split: sum.splits intro!: appends_intros)
  then show ?thesis
    unfolding reconcileUserVerification_def
    by (intro handles_go_bind [OF handles_emits] request_about [OF assms] handles_rules) (use assms in simp_all)
qed

lemma ready_about:
  assumes "in_hand n u"
  shows "emits (about_call n) (reconcileReadyUser A S u)"
    and "emits (about_call n) (deleteVerificationRequest S u)"
proof -
  have "about_call n (CCommit x x')" if "kind_of x' \<in> {AClusterRole, AClusterRoleBinding}" for x x'
    using that by (cases x') auto
  then have "about_call n c" if "cluster_role_call c" for c using that by (cases c) auto
  then have "emits (about_call n) (ReconcileUserAuthorization S u)"
    by (rule emits_mono [OF user_authorization_calls])
  then show "emits (about_call n) (reconcileReadyUser A S u)"
    unfolding reconcileReadyUser_def by (intro appends_intros patch_condition_about(1) [OF assms]) 
  show "emits (about_call n) (deleteVerificationRequest S u)"
    unfolding deleteVerificationRequest_def
    by (intro appends_intros) (use assms in \<open>simp add: R_verification_request_simps sign_up_name_def named_def zero_defs empty_meta_def\<close>)
qed

lemma ready_handles:
  assumes "in_hand n u"
  shows "handles (about_call n) (\<lambda>_. True) (go_bind (deleteVerificationRequest S u) (\<lambda>_. reconcileReadyUser A S u))"
  by (intro handles_emits emits_go_bind ready_about assms)

lemma handlesD: "handles P Q m \<Longrightarrow> emits P m"
  by (simp add: handles_def)

lemma reconcile_about: "emits (about_call n) (UserReconciler_Reconcile A cfg (store_server E objs) (named n))"
  unfolding UserReconciler_Reconcile_def
proof (rule emits_bind_result, goal_cases)
  case (2 r t t')
  show ?case
  proof (cases r)
    case (Inr u)
    with 2 got_in_hand have u: "in_hand n u" by metis
    show ?thesis
      unfolding Inr sum.case
      apply (rule handlesD [where Q = "\<lambda>_. True"])
      apply (rule handles_go_bind [where Q = "in_hand n"])
       apply (intro handles_if other_provider_handles handles_ret; use u in \<open>simp del: key_simps\<close>)
      apply (rule handles_go_bind [where Q = "in_hand n"])
       apply (intro handles_if patch_condition_handles handles_ret; simp del: key_simps)
      apply (rule handles_option, rule handles_ret, simp)
      apply (rule handles_go_bind [where Q = "in_hand n"])
       apply (intro handles_if verification_handles handles_ret; simp del: key_simps)
      apply (intro handles_Let handles_if ready_handles handles_ret; simp del: key_simps)
      done
  qed simp
qed (auto intro!: appends_intros)

subsection \<open>Rounds\<close>

lemma woken_by_round:
  assumes "account_there us rs n (objects E objs t)" and "run_state (UserReconciler_Reconcile A cfg (store_server E objs) (named n)) t = (r, t')"
  shows "set (woken_between G E objs t t') \<subseteq> {named n}"
proof -
  obtain new where "t' = t @ new" "\<forall>c \<in> set new. about_call n c"
    using emitsD [OF reconcile_about assms(2)] .
  then show ?thesis
    using account_there_woken [OF assms(1)] by (simp add: woken_between_def list_all_iff)
qed

lemma enqueue_one: "set ks \<subseteq> {k} \<Longrightarrow> enqueue [] ks = (if ks = [] then [] else [k])"
proof (induction ks)
  case (Cons a ks)
  then show ?case by (cases ks) (auto simp: enqueue_def)
qed (simp add: enqueue_def)

lemma work_done: "work G A cfg E objs [] t = Some t"
  by (subst work.simps) simp

lemma work_round:
  assumes "run_state (UserReconciler_Reconcile A cfg (store_server E objs) key) t = (Ret no_requeue, t')"
  shows "work G A cfg E objs [key] t = work G A cfg E objs (enqueue [] (woken_between G E objs t t')) t'"
  by (subst work.simps) (simp add: assms requeued_def no_requeue_def enqueue_def)

text \<open>Calls that leave an account as it is wake nobody.\<close>

lemma still_calls:
  assumes "account us rs u r objs"
    and "\<And>c objs t. c \<in> set cs \<Longrightarrow> account us rs u r objs \<Longrightarrow> account us rs u r (store_call E t c objs)"
  shows "woken_by G E t cs objs = [] \<and> account us rs u r (store_calls E t cs objs)"
  using assms
proof (induction cs arbitrary: objs t)
  case (Cons c cs)
  have next_one: "account us rs u r (store_call E t c objs)" using Cons.prems by simp
  then have "wakes G objs (store_call E t c objs) = []"
    using Cons.prems(1) by (intro wakes_same) (simp_all add: account_def)
  then show ?case using Cons.IH [OF next_one] Cons.prems(2) by simp
qed simp

lemma still_round:
  assumes "account us rs u r (objects E objs t)"
    and "\<And>c objs q. c \<in> set cs \<Longrightarrow> account us rs u r objs \<Longrightarrow> account us rs u r (store_call E q c objs)"
  shows "woken_between G E objs t (t @ cs) = []" "account us rs u r (objects E objs (t @ cs))"
  using still_calls [OF assms, where G = G] by (simp_all add: woken_between_def objects_append)

text \<open>A user that waits for its code and has a complete request.\<close>

lemma waiting_round:
  assumes C: "conditions_documented (al_conditions A)" and a: "account us rs u (Some v) (objects E objs t)" and w: "waiting A u"
    and v: "completed u v" "cl_find (al_conditions A) (VerificationRequest_GetConditions v) VerifiedCondition = None"
    and n: "n = om_name (user_meta u)"
  obtains cs where "run_state (UserReconciler_Reconcile A cfg (store_server E objs) (named n)) t = (Ret no_requeue, t @ cs)"
    "woken_between G E objs t (t @ cs) = []" "account us rs u (Some v) (objects E objs (t @ cs))"
proof -
  let ?S = "store_server E objs" and ?w = "KVerificationRequest (sign_up_request u)" and ?v = "KVerificationRequest v"
  let ?g = "CGet AUser (named n)"
  let ?cs = "[?g, CFetch ?w, CCommit ?v ?v]"
  have key: "resource_key R_verification_request (sign_up_request u) = named (sign_up_name u)"
    by (simp add: sign_up_request_def named_def zero_defs)
  have keyv: "resource_key R_verification_request v = named (sign_up_name u)" using a by (simp add: account_def)
  have same: "v\<lparr>verification_request_status := verification_request_status v\<rparr> = v" by simp
  have a1: "account us rs u (Some v) (objects E objs (t @ [?g]))" and a2: "account us rs u (Some v) (objects E objs (t @ [?g, CFetch ?w]))"
    using a by (simp_all add: objects_append)
  obtain c where c: "cl_find (al_conditions A) (User_GetConditions u) ReadyCondition = Some c" "c_status c = ConditionFalse"
    and prov: "us_provider_id (user_spec u) = ProviderPrefixDockyards"
    using w by (auto simp: waiting_def is_false_def split: option.splits)
  have get: "sv_get ?S t AUser (named n) = Inr (KUser u)"
    using account_user(2) [OF a refl] a n by (simp add: store_server_def found_def named_def account_def)
  have spec: "(verification_request_spec v)\<lparr>vrs_subject := ''Email Verification'', vrs_user_ref := local_user_ref u, vrs_duration := Some (30 * time_Minute),
      vrs_code := vrs_code (verification_request_spec v), vrs_body_text := verification_text (vrs_code (verification_request_spec v))\<rparr>
    = verification_request_spec v"
    using v(1) by (simp add: completed_def asks_for_def)
  have mutate: "run_state (verification_request_mutate A u v) q = (Ret v, q)" for q
    using v(1) spec by (simp add: verification_request_mutate_def Let_def run_go_bind run_simps completed_def)
  have fetch: "sv_fetch ?S (t @ [?g]) ?w = Inr ?v"
    using account_request [OF a1 key] by (simp add: store_server_def)
  have commit: "sv_commit ?S (t @ [?g, CFetch ?w]) ?v ?v = Inr ?v"
    using account_request [OF a2 keyv] same by (simp add: store_server_def)
  have request: "run_state (reconcileVerificationRequest A ?S u) (t @ [?g]) = (Ret v, t @ ?cs)"
    unfolding reconcileVerificationRequest_def run_create_or_patch_any
    by (simp add: R_verification_request_simps fetch mutate commit)
  have "run_state (UserReconciler_Reconcile A cfg ?S (named n)) t = (Ret no_requeue, t @ ?cs)"
    by (simp add: UserReconciler_Reconcile_def reconcileUserVerification_def run_go_bind run_simps R_user_simps get prov c request v(2))
  moreover have "account us rs u (Some v) (store_call E q c os)" if "c \<in> set ?cs" "account us rs u (Some v) os" for c q os
    using that account_request_commit [OF that(2) keyv, of E q ?v] same account_bystander [OF that(2)] by auto
  ultimately show thesis using still_round [OF a] by (intro that) blast+
qed

text \<open>A ready user whose role bindings have been written.\<close>

definition conditions_kept :: "conditions_lib \<Rightarrow> bool" where
  "conditions_kept C = (\<forall>t cs c d. cl_find C cs (c_type c) = Some d \<and> same_condition c d \<longrightarrow> cl_set C t cs c = cs)"

lemma ready_round:
  assumes C: "conditions_kept (al_conditions A)" and a: "account us rs u None (objects E objs t)"
    and ready: "is_true (al_conditions A) (User_GetConditions u) ReadyCondition" "authorized A u"
    and prov: "us_provider_id (user_spec u) = ProviderPrefixDockyards" and n: "n = om_name (user_meta u)"
  obtains cs where "run_state (UserReconciler_Reconcile A cfg (store_server E objs) (named n)) t = (Ret no_requeue, t @ cs)"
    "woken_between G E objs t (t @ cs) = []" "account us rs u None (objects E objs (t @ cs))"
proof -
  let ?S = "store_server E objs" and ?w = "zero_verification_request\<lparr>verification_request_meta := empty_meta\<lparr>om_name := sign_up_name u\<rparr>\<rparr>"
  let ?g = "CGet AUser (named n)" and ?d = "CDelete (KVerificationRequest ?w)"
  obtain c where c: "cl_find (al_conditions A) (User_GetConditions u) ReadyCondition = Some c" "c_status c = ConditionTrue"
    using ready(1) by (auto simp: is_true_iff)
  obtain d where d: "cl_find (al_conditions A) (User_GetConditions u) UserAuthorizationReadyCondition = Some d"
    "same_condition (ready_condition UserAuthorizationReadyCondition ConditionTrue ReadyReason [] 0) d"
    using ready(2) by (auto simp: authorized_def split: option.splits)
  have key: "resource_key R_verification_request ?w = named (sign_up_name u)" by (simp add: named_def zero_defs)
  have get: "sv_get ?S t AUser (named n) = Inr (KUser u)"
    using account_user(2) [OF a refl] a n by (simp add: store_server_def found_def named_def account_def)
  have a1: "account us rs u None (objects E objs (t @ [?g]))" and a2: "account us rs u None (objects E objs (t @ [?g, ?d]))"
    using a account_request_deleted [OF a key] by (simp_all add: objects_append)
  have delete: "run_state (deleteVerificationRequest ?S u) (t @ [?g]) = (Ret (), t @ [?g, ?d])"
    using account_no_request [OF a1 key] by (simp add: deleteVerificationRequest_def run_simps R_verification_request_simps store_server_def not_found_def)
  obtain cs where cs: "run_state (ReconcileUserAuthorization ?S u) (t @ [?g, ?d]) = (Ret (), t @ [?g, ?d] @ cs)" "\<forall>c \<in> set cs. cluster_role_call c"
    and a3: "account us rs u None (objects E objs (t @ [?g, ?d] @ cs))"
  proof -
    from wp_user_authorization [OF a2, of "\<lambda>r t'. r = Ret () \<and> account us rs u None (objects E objs t')" u]
    obtain t' where run: "run_state (ReconcileUserAuthorization ?S u) (t @ [?g, ?d]) = (Ret (), t')" and "account us rs u None (objects E objs t')"
      by (cases "run_state (ReconcileUserAuthorization ?S u) (t @ [?g, ?d])") (auto simp: wp_def)
    moreover obtain new where "t' = (t @ [?g, ?d]) @ new" "\<forall>c \<in> set new. cluster_role_call c"
      using emitsD [OF user_authorization_calls run] .
    ultimately show thesis using that by simp
  qed
  have set: "cl_set (al_conditions A) q (User_GetConditions u) (ready_condition UserAuthorizationReadyCondition ConditionTrue ReadyReason [] now)
      = User_GetConditions u" for q now
    using C d unfolding conditions_kept_def by (simp add: ready_condition_def same_condition_def)
  have u: "User_SetConditions u (User_GetConditions u) = u" "u\<lparr>user_status := user_status u\<rparr> = u"
    by (simp_all add: User_SetConditions_def User_GetConditions_def)
  let ?q = "t @ [?g, ?d] @ cs" and ?p = "[CNow, CStatusPatch (KUser u) (KUser u)]"
  have "account us rs u None (objects E objs (?q @ [CNow]))" using a3 by (simp add: objects_snoc del: append_assoc)
  from account_user(1) [OF this refl]
  have patch: "run_state (patch_condition (al_conditions A) ?S u (ready_condition UserAuthorizationReadyCondition ConditionTrue ReadyReason [])) ?q
      = (Inr u, ?q @ ?p)"
    using u by (simp add: patch_condition_def run_simps R_user_simps set store_server_def found_def)
  have "run_state (UserReconciler_Reconcile A cfg ?S (named n)) t = (Ret no_requeue, t @ ([?g, ?d] @ cs @ ?p))"
    using cs(1) patch
    by (simp add: UserReconciler_Reconcile_def reconcileReadyUser_def run_go_bind run_simps R_user_simps get prov c delete)
  moreover have "account us rs u None (store_call E q c os)" if "c \<in> set ([?g, ?d] @ cs @ ?p)" "account us rs u None os" for c q os
  proof -
    have "account us rs u None (store_call E q (CStatusPatch (KUser u) (KUser u)) os)"
      using account_status [OF that(2) refl, of E q "KUser u"] u by simp
    moreover have "bystander c" if "cluster_role_call c" for c using that by (cases c) auto
    ultimately show ?thesis
      using that cs(2) account_request_deleted [OF that(2) key] account_bystander [OF that(2)] by auto
  qed
  ultimately show thesis using still_round [OF a] by (intro that) blast+
qed

subsection \<open>Signing up\<close>

lemma account_thereI:
  "account us rs u r objs \<Longrightarrow> om_name (user_meta u) = n \<Longrightarrow> (\<And>v. r = Some v \<Longrightarrow> asks_for u v) \<Longrightarrow> account_there us rs n objs"
  unfolding account_there_def refers_def asks_for_def local_user_ref_def by blast

lemma waiting_drains:
  assumes "conditions_documented (al_conditions A)" "account us rs u (Some v) (objects E objs t)" "waiting A u" "completed u v"
    "cl_find (al_conditions A) (VerificationRequest_GetConditions v) VerifiedCondition = None" "n = om_name (user_meta u)"
    and q: "q = [] \<or> q = [named n]"
  shows "\<exists>t'. work G A cfg E objs q t = Some t' \<and> account us rs u (Some v) (objects E objs t')"
  using q
proof
  assume "q = [named n]"
  obtain cs where "run_state (UserReconciler_Reconcile A cfg (store_server E objs) (named n)) t = (Ret no_requeue, t @ cs)"
    "woken_between G E objs t (t @ cs) = []" and a: "account us rs u (Some v) (objects E objs (t @ cs))"
    using waiting_round [OF assms(1-6)] .
  then have "work G A cfg E objs q t = Some (t @ cs)"
    using \<open>q = [named n]\<close> by (simp add: work_round work_done enqueue_def)
  with a show ?thesis by blast
qed (use assms(2) in \<open>auto simp: work_done\<close>)

lemma ready_drains:
  assumes "conditions_kept (al_conditions A)" "account us rs u None (objects E objs t)"
    "is_true (al_conditions A) (User_GetConditions u) ReadyCondition" "authorized A u" "us_provider_id (user_spec u) = ProviderPrefixDockyards"
    "n = om_name (user_meta u)" and q: "q = [] \<or> q = [named n]"
  shows "\<exists>t'. work G A cfg E objs q t = Some t' \<and> account us rs u None (objects E objs t')"
  using q
proof
  assume "q = [named n]"
  obtain cs where "run_state (UserReconciler_Reconcile A cfg (store_server E objs) (named n)) t = (Ret no_requeue, t @ cs)"
    "woken_between G E objs t (t @ cs) = []" and a: "account us rs u None (objects E objs (t @ cs))"
    using ready_round [OF assms(1-6)] .
  then have "work G A cfg E objs q t = Some (t @ cs)"
    using \<open>q = [named n]\<close> by (simp add: work_round work_done enqueue_def)
  with a show ?thesis by blast
qed (use assms(2) in \<open>auto simp: work_done\<close>)

text \<open>A new user: the controller makes its request and rests.\<close>

lemma new_user_drains:
  assumes doc: "account_lib_documented A" and a: "account us rs u None (objects E objs t)"
    and u: "us_provider_id (user_spec u) = ProviderPrefixDockyards" "User_GetConditions u = []" "n = om_name (user_meta u)"
  shows "\<exists>t' u' v. work G A cfg E objs [named n] t = Some t' \<and> account us rs u' (Some v) (objects E objs t') \<and> same_user u u' \<and> waiting A u'
     \<and> asks_for u' v \<and> vrs_code (verification_request_spec v) \<noteq> [] \<and> VerificationRequest_GetConditions v = []
     \<and> om_creation (verification_request_meta v) \<in> range (env_clock E)"
proof -
  have C: "conditions_documented (al_conditions A)" using doc by (simp add: account_lib_documented_def)
  obtain r t1 where run: "run_state (UserReconciler_Reconcile A cfg (store_server E objs) (named n)) t = (r, t1)" by fastforce
  from wp_first_reconcile [OF doc a u, of cfg] run
  obtain u' v where v: "account us rs u' (Some v) (objects E objs t1)" "same_user u u'" "waiting A u'" "asks_for u v" "completed u v"
    "VerificationRequest_GetConditions v = []" "vrs_code (verification_request_spec v) \<noteq> []"
    "om_creation (verification_request_meta v) \<in> range (env_clock E)" and r: "r = Ret no_requeue"
    by (auto simp: wp_def)
  let ?q = "enqueue [] (woken_between G E objs t t1)"
  have "?q = [] \<or> ?q = [named n]"
    using enqueue_one [OF woken_by_round [OF account_thereI [OF a u(3) [symmetric]] run]] by simp
  moreover have "completed u' v" "asks_for u' v" "n = om_name (user_meta u')"
    using v(2,4,5) u(3) by (simp_all add: same_user_simps)
  moreover have "cl_find (al_conditions A) (VerificationRequest_GetConditions v) VerifiedCondition = None"
    using v(6) find_nil [OF C] by simp
  ultimately obtain t' where "work G A cfg E objs ?q t1 = Some t'" "account us rs u' (Some v) (objects E objs t')"
    using waiting_drains [OF C v(1,3)] by blast
  with v \<open>asks_for u' v\<close> show ?thesis using run r by (auto simp: work_round)
qed

text \<open>A user whose code has been entered: the controller makes it ready and rests.\<close>

lemma verified_user_drains:
  assumes doc: "account_lib_documented A" and kept: "conditions_kept (al_conditions A)"
    and a: "account us rs u (Some v) (objects E objs t)" and w: "waiting A u" and n: "n = om_name (user_meta u)"
    and v: "vrs_code (verification_request_spec v) \<noteq> []" "asks_for u v"
      "is_true (al_conditions A) (VerificationRequest_GetConditions v) VerifiedCondition"
  shows "\<exists>t' u'. work G A cfg E objs [named n] t = Some t' \<and> account us rs u' None (objects E objs t') \<and> same_user u u'
     \<and> is_true (al_conditions A) (User_GetConditions u') ReadyCondition"
proof -
  obtain r t1 where run: "run_state (UserReconciler_Reconcile A cfg (store_server E objs) (named n)) t = (r, t1)" by fastforce
  from wp_second_reconcile [OF doc a w v(1) n v(3), of cfg] run
  obtain u' where u': "account us rs u' None (objects E objs t1)" "same_user u u'"
    "is_true (al_conditions A) (User_GetConditions u') ReadyCondition" "authorized A u'" and r: "r = Ret no_requeue"
    by (auto simp: wp_def)
  let ?q = "enqueue [] (woken_between G E objs t t1)"
  have "?q = [] \<or> ?q = [named n]"
    using enqueue_one [OF woken_by_round [OF account_thereI [OF a n [symmetric]] run]] v(2) by simp
  moreover have "us_provider_id (user_spec u') = ProviderPrefixDockyards" "n = om_name (user_meta u')"
    using u'(2) w n by (simp_all add: same_user_def waiting_def)
  ultimately obtain t' where "work G A cfg E objs ?q t1 = Some t'" "account us rs u' None (objects E objs t')"
    using ready_drains [OF kept u'(1,3,4)] by blast
  with u' show ?thesis using run r by (auto simp: work_round)
qed

text \<open>Signing up and entering the code wake the user.\<close>

lemma enqueue_woken: "set ks = {k} \<Longrightarrow> enqueue [] ks = [k]"
  by (cases ks) (simp_all add: enqueue_one)

lemma sign_up_wakes:
  assumes "account us rs u None (objects E objs (t @ [CList k l, d]))" and "resources R_user (objects E objs t) = us"
    and "resources R_verification_request (objects E objs t) = rs"
  shows "enqueue [] (woken_between G E objs t (t @ [CList k l, d])) = [resource_key R_user u]"
proof (rule enqueue_woken)
  let ?objs = "objects E objs t" and ?objs' = "objects E objs (t @ [CList k l, d])"
  have split: "woken_between G E objs t (t @ [CList k l, d]) = wakes G ?objs ?objs @ wakes G ?objs ?objs'"
    by (simp add: woken_between_def objects_append)
  have "resources R_user ?objs' = us @ [u]" "resources R_verification_request ?objs' = rs" "u \<notin> set us"
    using assms(1) by (auto simp: account_def)
  then have "x \<in> set (wakes G ?objs ?objs') \<longleftrightarrow> x = resource_key R_user u" for x
    using assms(2,3) by (auto simp: wakes_iff simp del: key_simps)
  then show "set (woken_between G E objs t (t @ [CList k l, d])) = {resource_key R_user u}"
    unfolding split by (auto simp: wakes_same)
qed

lemma code_wakes:
  assumes "account us rs u (Some v) (objects E objs t)" and "account us rs u (Some v') (objects E objs (t @ [CList k l, CNow, d]))"
    and "v \<noteq> v'" "asks_for u v" "asks_for u v'" "om_name (user_meta u) \<noteq> []"
  shows "enqueue [] (woken_between G E objs t (t @ [CList k l, CNow, d])) = [named (om_name (user_meta u))]"
proof (rule enqueue_woken)
  let ?objs = "objects E objs t" and ?objs' = "objects E objs (t @ [CList k l, CNow, d])"
  have split: "woken_between G E objs t (t @ [CList k l, CNow, d]) = wakes G ?objs ?objs @ wakes G ?objs ?objs @ wakes G ?objs ?objs'"
    by (simp add: woken_between_def objects_append)
  have "v \<notin> set rs" "v' \<notin> set rs" using assms(1,2) by (auto simp: account_def)
  moreover have "resources R_user ?objs' = resources R_user ?objs" "resources R_verification_request ?objs = rs @ [v]"
    "resources R_verification_request ?objs' = rs @ [v']"
    using assms(1,2) by (auto simp: account_def)
  moreover have "user_requests G (KVerificationRequest w) = [named (om_name (user_meta u))]" if "w = v \<or> w = v'" for w
    using that assms(4-6) by (auto simp: asks_for_def local_user_ref_def)
  ultimately have "x \<in> set (wakes G ?objs ?objs') \<longleftrightarrow> x = named (om_name (user_meta u))" for x
    using assms(3) by (auto simp: wakes_iff simp del: key_simps user_requests_simps)
  then show "set (woken_between G E objs t (t @ [CList k l, CNow, d])) = {named (om_name (user_meta u))}"
    unfolding split by (auto simp: wakes_same)
qed

lemma sign_up_drains:
  assumes doc: "account_lib_documented A"
    and enabled: "fst (run_state (IsFeatureEnabled (store_server E objs) FeatureUserSignUp (public_namespace cfg)) t0) = Inr True"
    and n: "n = new_user_name E cfg t0"
    and fresh: "\<forall>w \<in> set (resources R_user (objects E objs t0)). om_name (user_meta w) \<noteq> n"
      "\<forall>w \<in> set (resources R_verification_request (objects E objs t0)). om_name (verification_request_meta w) \<noteq> ''sign-up-'' @ n"
    and sign_up: "run_state (CreateGlobalUser A cfg (store_server E objs) opts) t0 = (r1, t1)"
  shows "\<exists>t2 u v. work G A cfg E objs (enqueue [] (woken_between G E objs t0 t1)) t1 = Some t2
     \<and> account (resources R_user (objects E objs t0)) (resources R_verification_request (objects E objs t0)) u (Some v) (objects E objs t2)
     \<and> om_name (user_meta u) = n \<and> waiting A u \<and> us_email (user_spec u) = tuo_email opts
     \<and> al_compare A (us_password (user_spec u)) (tuo_password opts) = None
     \<and> asks_for u v \<and> vrs_code (verification_request_spec v) \<noteq> [] \<and> VerificationRequest_GetConditions v = []
     \<and> om_creation (verification_request_meta v) \<in> range (env_clock E)"
proof -
  let ?us = "resources R_user (objects E objs t0)" and ?rs = "resources R_verification_request (objects E objs t0)"
  from wp_sign_up [OF doc enabled n fresh, of opts] sign_up
  obtain u k l d where u: "account ?us ?rs u None (objects E objs t1)" "om_name (user_meta u) = n"
    "us_provider_id (user_spec u) = ProviderPrefixDockyards" "User_GetConditions u = []" "us_email (user_spec u) = tuo_email opts"
    "al_compare A (us_password (user_spec u)) (tuo_password opts) = None" and t1: "t1 = t0 @ [CList k l, d]"
    by (auto simp: wp_def)
  have "enqueue [] (woken_between G E objs t0 t1) = [named n]"
    using sign_up_wakes [OF u(1) [unfolded t1] refl refl] u(1,2) by (simp add: t1 account_def named_def)
  with new_user_drains [OF doc u(1,3,4) u(2) [symmetric], of G cfg]
  obtain t2 u' v where t2: "work G A cfg E objs (enqueue [] (woken_between G E objs t0 t1)) t1 = Some t2"
    and u': "account ?us ?rs u' (Some v) (objects E objs t2)" "same_user u u'" "waiting A u'"
    and v: "asks_for u' v" "vrs_code (verification_request_spec v) \<noteq> []" "VerificationRequest_GetConditions v = []"
      "om_creation (verification_request_meta v) \<in> range (env_clock E)"
    by auto
  have "om_name (user_meta u') = n" "us_email (user_spec u') = tuo_email opts"
    "al_compare A (us_password (user_spec u')) (tuo_password opts) = None"
    using u(2,5,6) u'(2) by (simp_all add: same_user_def)
  with t2 u'(1,3) v show ?thesis by blast
qed

text \<open>Entering the code in time: the controller makes the user ready and rests.\<close>

lemma code_drains:
  assumes doc: "account_lib_documented A" and kept: "conditions_kept (al_conditions A)"
    and v: "account us rs u (Some v) (objects E objs t)" "om_name (user_meta u) = n" "waiting A u" "n \<noteq> []"
    and asks: "asks_for u v" "vrs_code (verification_request_spec v) \<noteq> []" "VerificationRequest_GetConditions v = []"
    and fresh: "\<forall>w \<in> set rs. om_name (verification_request_meta w) \<noteq> ''sign-up-'' @ n"
    and codes: "distinct (map (\<lambda>r. vrs_code (verification_request_spec r)) (resources R_verification_request (objects E objs t)))"
    and code: "code = sign_up_code n (resources R_verification_request (objects E objs t))"
    and in_time: "\<forall>r \<in> set (resources R_verification_request (objects E objs t)). om_name (verification_request_meta r) = ''sign-up-'' @ n \<longrightarrow>
      env_clock E (t @ [CList AVerificationRequest (matching_field CodeField code [])]) \<le> om_creation (verification_request_meta r) + 30 * time_Minute"
    and verify: "run_state (UpdateGlobalVerificationRequest A (store_server E objs) \<lparr>tvo_type = RequestTypeAccount, tvo_code = code\<rparr>) t = (r, t')"
  shows "\<exists>t2 u'. work G A cfg E objs (enqueue [] (woken_between G E objs t t')) t' = Some t2
     \<and> account us rs u' None (objects E objs t2) \<and> same_user u u' \<and> is_true (al_conditions A) (User_GetConditions u') ReadyCondition"
proof -
  have C: "conditions_documented (al_conditions A)" using doc by (simp add: account_lib_documented_def)
  have reqs: "resources R_verification_request (objects E objs t) = rs @ [v]" and name: "om_name (verification_request_meta v) = ''sign-up-'' @ n"
    using v(1,2) by (auto simp: account_def named_def sign_up_name_def)
  have "code = vrs_code (verification_request_spec v)"
    unfolding code reqs sign_up_code_def using fresh name by (subst find_snoc) auto
  then have one: "requests_of (objects E objs t) code = [v]"
    using distinct_filter_last [OF codes [unfolded reqs]] by (simp add: requests_of_resources reqs)
  have time: "env_clock E (t @ [CList AVerificationRequest (matching_field CodeField code [])])
      \<le> om_creation (verification_request_meta v) + 30 * time_Minute"
    using in_time name by (auto simp: reqs)
  from wp_verify [OF doc v(1) asks(1) one time] verify
  obtain v' where v': "account us rs u (Some v') (objects E objs t')" "verification_request_spec v' = verification_request_spec v"
    "is_true (al_conditions A) (VerificationRequest_GetConditions v') VerifiedCondition"
    and t': "t' = t @ [CList AVerificationRequest (matching_field CodeField code []), CNow, CStatusPatch (KVerificationRequest v) (KVerificationRequest v')]"
    by (auto simp: wp_def)
  have differ: "v \<noteq> v'" using asks(3) v'(3) find_nil [OF C] by (auto simp: is_true_def)
  have asks': "asks_for u v'" "vrs_code (verification_request_spec v') \<noteq> []" using asks v'(2) by (simp_all add: asks_for_def)
  have "enqueue [] (woken_between G E objs t t') = [named n]"
    using code_wakes [OF v(1) v'(1) [unfolded t'] differ asks(1) asks'(1)] v(2,4) by (simp add: t')
  then show ?thesis using verified_user_drains [OF doc kept v'(1) v(3) v(2) [symmetric] asks'(2,1) v'(3)] by simp
qed


text \<open>Dora again, with a setter of conditions that leaves an unchanged condition alone.\<close>

definition steady_conditions :: conditions_lib where
  "steady_conditions = plain_conditions\<lparr>cl_set := (\<lambda>t cs c.
     (case find (\<lambda>d. c_type d = c_type c) cs of
        None \<Rightarrow> put_condition cs c
      | Some d \<Rightarrow> if same_condition c d then cs else put_condition cs c))\<rparr>"

definition steady_accounts :: account_lib where
  "steady_accounts = plain_accounts\<lparr>al_conditions := steady_conditions\<rparr>"

lemma steady_conditions_documented: "conditions_documented steady_conditions" "conditions_kept steady_conditions"
proof -
  have "setter_documented (cl_find steady_conditions) (cl_set steady_conditions)"
    by (auto simp: setter_documented_def steady_conditions_def plain_conditions_def find_put_condition same_condition_def split: option.split)
  with plain_conditions_documented show "conditions_documented steady_conditions"
    by (simp add: conditions_documented_def steady_conditions_def)
  show "conditions_kept steady_conditions"
    by (auto simp: conditions_kept_def steady_conditions_def plain_conditions_def)
qed

lemma steady_accounts_documented: "account_lib_documented steady_accounts" "conditions_kept (al_conditions steady_accounts)"
  using plain_accounts_documented steady_conditions_documented by (simp_all add: account_lib_documented_def random_source_def steady_accounts_def)

lemma dora_signs_up:
  assumes "run_state (CreateGlobalUser steady_accounts None dora_server dora) [] = (r1, t1)"
    and "work plain_lib steady_accounts None still [sign_up_feature] (enqueue [] (woken_between plain_lib still [sign_up_feature] [] t1)) t1 = Some t2"
  shows "\<exists>v. resources R_verification_request (objects still [sign_up_feature] t2) = [v] \<and> om_creation (verification_request_meta v) = 0"
  using sign_up_drains [OF steady_accounts_documented(1) dora_enabled [unfolded dora_server_def] dora_name_def _ _ assms(1) [unfolded dora_server_def],
      of plain_lib] assms(2)
  by (auto simp: dora_store account_def still_clock)


end
