(* ===== verification/Startup.thy ===== *)
theory Startup
  imports Watches
begin

text \<open>
  \<open>main.go\<close>: what starts when, with what. Everything a start-up step calls is outside this file or in another theory, so a step is an entry of a list
  and the answer to it a parameter: an error, or none; signing keys have an arbitrary type \<open>'k\<close>. A program that exits with status 1 fails here. The flags
  are a record; logging, the scheme, the health endpoint and what the started servers do when they fail are left out.
\<close>

record flags =
  fl_log_level :: string
  fl_config_map :: string
  fl_collect_metrics_interval :: int
  fl_enable_webhooks :: bool
  fl_metrics_bind_address :: string
  fl_allowed_origins :: "string list"
  fl_system_namespace :: string
  fl_allowed_domains :: "string list"

datatype webhook = NodePoolWebhook | ClusterWebhook | OrganizationWebhook | UserWebhook "string list" | InvitationWebhook | MemberWebhook

datatype 'k step =
    Getwd
  | GetConfig
  | NewClient
  | NewManager string
  | DefaultIndexes
  | NewMetrics
  | CollectEvery int
  | GetKeys string
  | NewConfigManager object_key
  | RoutesV1 string 'k 'k
  | RoutesV2 'k
  | ServePublic string "string list"
  | ServePrivate string
  | SetupController controller
  | SetupWebhook webhook
  | ReconcileAuthorization
  | StartManager

type_synonym 'k world = "'k step list \<Rightarrow> 'k step \<Rightarrow> goerr option"

subsection \<open>The logger\<close>

datatype level = LevelDebug | LevelInfo | LevelWarn | LevelError

definition newLogger :: "string \<Rightarrow> goerr + level" where
  "newLogger logLevel =
     (if logLevel = ''debug'' then Inr LevelDebug
      else if logLevel = ''info'' then Inr LevelInfo
      else if logLevel = ''warn'' then Inr LevelWarn
      else if logLevel = ''error'' then Inr LevelError
      else Inl (Plain (''unknown log level '' @ logLevel)))"

subsection \<open>The program\<close>

text \<open>A step that may fail, and one that only starts something.\<close>

definition attempt :: "'k world \<Rightarrow> 'k step \<Rightarrow> ('k step list, (goerr, unit) go) state" where
  "attempt W s = do {
     r \<leftarrow> perform (\<lambda>t. W t s) s;
     ret (case r of None \<Rightarrow> Ret () | Some e \<Rightarrow> Fail e)
   }"

definition spawn :: "'k step \<Rightarrow> ('k step list, (goerr, unit) go) state" where
  "spawn s = do { _ \<leftarrow> perform (\<lambda>t. ()) s; ret (Ret ()) }"

definition setupWebhooks :: "'k world \<Rightarrow> string list \<Rightarrow> ('k step list, (goerr, unit) go) state" where
  "setupWebhooks W allowedDomains =
     go_bind (attempt W (SetupWebhook NodePoolWebhook)) (\<lambda>_.
     go_bind (attempt W (SetupWebhook ClusterWebhook)) (\<lambda>_.
     go_bind (attempt W (SetupWebhook OrganizationWebhook)) (\<lambda>_.
     go_bind (attempt W (SetupWebhook (UserWebhook allowedDomains))) (\<lambda>_.
     go_bind (attempt W (SetupWebhook InvitationWebhook)) (\<lambda>_.
     attempt W (SetupWebhook MemberWebhook))))))"

text \<open>The second half of \<open>main\<close>: the controllers, the webhooks and the manager.\<close>

definition run_manager :: "'k world \<Rightarrow> flags \<Rightarrow> ('k step list, (goerr, unit) go) state" where
  "run_manager W F =
     go_bind (attempt W (SetupController OrganizationController)) (\<lambda>_.
     go_bind (attempt W (SetupController ClusterController)) (\<lambda>_.
     go_bind (attempt W (SetupController WorkloadController)) (\<lambda>_.
     go_bind (attempt W (SetupController UserController)) (\<lambda>_.
     go_bind (attempt W (SetupController InvitationController)) (\<lambda>_.
     go_bind (attempt W (SetupController MemberController)) (\<lambda>_.
     go_bind (if fl_enable_webhooks F then setupWebhooks W (fl_allowed_domains F) else ret (Ret ())) (\<lambda>_.
     go_bind (attempt W ReconcileAuthorization) (\<lambda>_.
     attempt W StartManager))))))))"

definition main_go :: "'k world \<Rightarrow> ('k step list \<Rightarrow> 'k \<times> 'k) \<Rightarrow> flags \<Rightarrow> ('k step list, (goerr, unit) go) state" where
  "main_go W keys F =
     (let ns = fl_system_namespace F in
      go_bind (ret (go_of_sum (newLogger (fl_log_level F)))) (\<lambda>logger.
      go_bind (attempt W Getwd) (\<lambda>_.
      go_bind (attempt W GetConfig) (\<lambda>_.
      go_bind (attempt W NewClient) (\<lambda>_.
      go_bind (attempt W (NewManager (fl_metrics_bind_address F))) (\<lambda>_.
      go_bind (attempt W DefaultIndexes) (\<lambda>_.
      go_bind (attempt W NewMetrics) (\<lambda>_.
      go_bind (spawn (CollectEvery (fl_collect_metrics_interval F))) (\<lambda>_.
      go_bind (attempt W (GetKeys ns)) (\<lambda>_. do {
      (accessKey, refreshKey) \<leftarrow> observe keys;
      go_bind (attempt W (NewConfigManager \<lparr>ok_namespace = ns, ok_name = fl_config_map F\<rparr>)) (\<lambda>_.
      go_bind (attempt W (RoutesV1 ns accessKey refreshKey)) (\<lambda>_.
      go_bind (spawn (RoutesV2 accessKey)) (\<lambda>_.
      go_bind (spawn (ServePublic '':9000'' (fl_allowed_origins F))) (\<lambda>_.
      go_bind (spawn (ServePrivate '':9001'')) (\<lambda>_.
      run_manager W F)))))
      }))))))))))"

subsection \<open>The order\<close>

text \<open>The plan: all steps in their order.\<close>

definition webhook_steps :: "flags \<Rightarrow> 'k step list" where
  "webhook_steps F =
     (if fl_enable_webhooks F
      then map SetupWebhook [NodePoolWebhook, ClusterWebhook, OrganizationWebhook, UserWebhook (fl_allowed_domains F), InvitationWebhook, MemberWebhook]
      else [])"

definition until_keys :: "flags \<Rightarrow> 'k step list" where
  "until_keys F =
     [Getwd, GetConfig, NewClient, NewManager (fl_metrics_bind_address F), DefaultIndexes, NewMetrics, CollectEvery (fl_collect_metrics_interval F),
      GetKeys (fl_system_namespace F)]"

definition plan :: "flags \<Rightarrow> 'k \<Rightarrow> 'k \<Rightarrow> 'k step list" where
  "plan F accessKey refreshKey =
     until_keys F @ [NewConfigManager \<lparr>ok_namespace = fl_system_namespace F, ok_name = fl_config_map F\<rparr>,
      RoutesV1 (fl_system_namespace F) accessKey refreshKey, RoutesV2 accessKey, ServePublic '':9000'' (fl_allowed_origins F), ServePrivate '':9001'']
     @ map SetupController [OrganizationController, ClusterController, WorkloadController, UserController, InvitationController, MemberController]
     @ webhook_steps F @ [ReconcileAuthorization, StartManager]"

text \<open>Starting something cannot fail at once.\<close>

fun only_spawned :: "'k step \<Rightarrow> bool" where
  "only_spawned (CollectEvery n) = True"
| "only_spawned (RoutesV2 k) = True"
| "only_spawned (ServePublic a os) = True"
| "only_spawned (ServePrivate a) = True"
| "only_spawned s = False"

definition answer_to :: "'k world \<Rightarrow> 'k step list \<Rightarrow> 'k step \<Rightarrow> goerr option" where
  "answer_to W t s = (if only_spawned s then None else W t s)"

fun run_plan :: "'k world \<Rightarrow> 'k step list \<Rightarrow> 'k step list \<Rightarrow> (goerr, unit) go \<times> 'k step list" where
  "run_plan W [] t = (Ret (), t)"
| "run_plan W (s # ss) t = (case answer_to W t s of None \<Rightarrow> run_plan W ss (t @ [s]) | Some e \<Rightarrow> (Fail e, t @ [s]))"

lemma run_attempt [run_simps]:
  "run_state (attempt W s) t = (case W t s of None \<Rightarrow> (Ret (), t @ [s]) | Some e \<Rightarrow> (Fail e, t @ [s]))"
  by (simp add: attempt_def split: option.split)

lemma run_spawn [run_simps]: "run_state (spawn s) t = (Ret (), t @ [s])"
  by (simp add: spawn_def)

text \<open>The program follows the plan, one step each.\<close>

named_theorems follows

lemma follows_attempt [follows]:
  "run_state (f ()) (t @ [s]) = run_plan W ss (t @ [s]) \<Longrightarrow> \<not> only_spawned s \<Longrightarrow> run_state (go_bind (attempt W s) f) t = run_plan W (s # ss) t"
  by (simp add: run_go_bind run_attempt answer_to_def split: option.split)

lemma follows_spawn [follows]:
  "run_state (f ()) (t @ [s]) = run_plan W ss (t @ [s]) \<Longrightarrow> only_spawned s \<Longrightarrow> run_state (go_bind (spawn s) f) t = run_plan W (s # ss) t"
  by (simp add: run_go_bind run_spawn answer_to_def)

lemma follows_last [follows]: "\<not> only_spawned s \<Longrightarrow> run_state (attempt W s) t = run_plan W [s] t"
  by (simp add: run_attempt answer_to_def split: option.split)

lemma run_plan_append:
  "run_plan W (ss @ ss') t = (case run_plan W ss t of (Ret _, t') \<Rightarrow> run_plan W ss' t' | (Fail e, t') \<Rightarrow> (Fail e, t') | (Panic, t') \<Rightarrow> (Panic, t'))"
  by (induction ss arbitrary: t) (simp_all split: option.split)

lemma follows_keys:
  "keys t = (a, b) \<Longrightarrow> run_state (f a b) t = r \<Longrightarrow> run_state (State_Monad.bind (observe keys) (\<lambda>(a, b). f a b)) t = r"
  by simp

lemma setupWebhooks_plan:
  "run_state (if fl_enable_webhooks F then setupWebhooks W (fl_allowed_domains F) else ret (Ret ())) t = run_plan W (webhook_steps F) t"
proof (cases "fl_enable_webhooks F")
  case True
  have "run_state (setupWebhooks W (fl_allowed_domains F)) t = run_plan W (webhook_steps F) t"
    unfolding setupWebhooks_def webhook_steps_def list.map if_P [OF True] by (intro follows) simp_all
  with True show ?thesis by simp
qed (simp add: webhook_steps_def)

lemma follows_webhooks [follows]:
  assumes "\<And>t'. run_state (f ()) t' = run_plan W ss t'"
  shows "run_state (go_bind (if fl_enable_webhooks F then setupWebhooks W (fl_allowed_domains F) else ret (Ret ())) f) t
    = run_plan W (webhook_steps F @ ss) t"
  by (simp add: run_go_bind setupWebhooks_plan run_plan_append assms split: prod.split go.split)


end
