(* ===== verification/Middleware.thy ===== *)
theory Middleware
  imports Tenancy
begin

text \<open>
  The rest of \<open>internal/api/v1/middleware\<close>: the logger and the response writer it wraps (\<open>logger.go\<close>), the content type (\<open>content_type.go\<close>) and the
  setup of the validator (\<open>validate_json.go\<close>). An \<open>http.ResponseWriter\<close> is, as \<open>net/http\<close> documents it, a header that is sent with the first
  \<open>WriteHeader\<close>, or with status 200 before the first \<open>Write\<close>, and a body; later headers are ignored. A context maps the keys of
  \<open>middleware.go\<close> to values.
\<close>

subsection \<open>Contexts\<close>

datatype context_key = SubKey | LogKey

datatype context_value = StringValue string | LoggerValue slog

type_synonym http_context = "context_key \<rightharpoonup> context_value"

definition ContextWithLogger :: "http_context \<Rightarrow> slog \<Rightarrow> http_context" where
  "ContextWithLogger parent logger = parent(LogKey \<mapsto> LoggerValue logger)"

definition LoggerFrom :: "http_context \<Rightarrow> slog option" where
  "LoggerFrom ctx =
     (case ctx LogKey of
        None \<Rightarrow> None
      | Some v \<Rightarrow> (case v of LoggerValue logger \<Rightarrow> Some logger | _ \<Rightarrow> None))"

subsection \<open>Response writers\<close>

record response_writer =
  rw_header :: "string \<rightharpoonup> string"
  rw_sent :: "(nat \<times> (string \<rightharpoonup> string)) option"
  rw_body :: string

definition new_response :: response_writer where
  "new_response = \<lparr>rw_header = Map.empty, rw_sent = None, rw_body = []\<rparr>"

definition rw_write_header :: "nat \<Rightarrow> response_writer \<Rightarrow> response_writer" where
  "rw_write_header code w = (case rw_sent w of None \<Rightarrow> w\<lparr>rw_sent := Some (code, rw_header w)\<rparr> | Some s \<Rightarrow> w)"

definition rw_write :: "string \<Rightarrow> response_writer \<Rightarrow> response_writer" where
  "rw_write b w = (let w = rw_write_header 200 w in w\<lparr>rw_body := rw_body w @ b\<rparr>)"

fun rw_act :: "reply_action \<Rightarrow> response_writer \<Rightarrow> response_writer" where
  "rw_act (WriteHeader code) w = rw_write_header code w"
| "rw_act (WriteBody b) w = rw_write b w"

text \<open>\<open>StatusResponseWriter\<close> implements the same interface.\<close>

record status_response_writer =
  responseWriter :: response_writer
  statusCode :: nat

definition StatusResponseWriter_Header :: "status_response_writer \<Rightarrow> string \<rightharpoonup> string" where
  "StatusResponseWriter_Header w = rw_header (responseWriter w)"

definition StatusResponseWriter_Write :: "string \<Rightarrow> status_response_writer \<Rightarrow> status_response_writer" where
  "StatusResponseWriter_Write b w = w\<lparr>responseWriter := rw_write b (responseWriter w)\<rparr>"

definition StatusResponseWriter_WriteHeader :: "nat \<Rightarrow> status_response_writer \<Rightarrow> status_response_writer" where
  "StatusResponseWriter_WriteHeader code w = w\<lparr>responseWriter := rw_write_header code (responseWriter w), statusCode := code\<rparr>"

fun srw_act :: "reply_action \<Rightarrow> status_response_writer \<Rightarrow> status_response_writer" where
  "srw_act (WriteHeader code) w = StatusResponseWriter_WriteHeader code w"
| "srw_act (WriteBody b) w = StatusResponseWriter_Write b w"

subsection \<open>The handlers\<close>

text \<open>What the logger writes after a request: its attributes and the code. A panic of the handler unwinds.\<close>

definition Logger_Handler ::
  "slog \<Rightarrow> (http_context \<Rightarrow> (trace, reply) state) \<Rightarrow> string \<Rightarrow> string \<Rightarrow> http_context \<Rightarrow> response_writer
   \<Rightarrow> (trace, (response_writer \<times> (slog \<times> nat)) option) state"
where
  "Logger_Handler l nxt method path ctx w =
     (let logger = l @ [(''method'', method), (''path'', path)] in do {
        r \<leftarrow> nxt (ContextWithLogger ctx logger);
        ret (map_option (\<lambda>actions.
          let statusResponseWriter = fold srw_act actions \<lparr>responseWriter = w, statusCode = 0\<rparr> in
          (responseWriter statusResponseWriter, (logger, statusCode statusResponseWriter))) r)
      })"

definition ContentType_Handler :: "string \<Rightarrow> (response_writer \<Rightarrow> 'a) \<Rightarrow> response_writer \<Rightarrow> 'a" where
  "ContentType_Handler mimeType nxt w = nxt (w\<lparr>rw_header := (rw_header w)(''Content-Type'' \<mapsto> mimeType)\<rparr>)"

text \<open>
  The validator: loading the schema and building it are the library's. \<open>NewValidateJSON\<close> returns neither a validator nor an error when the build
  fails, and \<open>WithSchema\<close> of a nil validator, or with a name that the schema lacks, panics.
\<close>

record ('i, 'v) cue_lib =
  cue_getwd :: "goerr + string"
  cue_instances :: "string \<Rightarrow> 'i list"
  cue_instance_err :: "'i \<Rightarrow> (string \<times> string) option"
  cue_build :: "'i \<Rightarrow> goerr + 'v"
  cue_lookup :: "'v \<Rightarrow> string \<Rightarrow> goerr + (string \<Rightarrow> string list option)"

fun instance_err_loop :: "('i, 'v) cue_lib \<Rightarrow> 'i list \<Rightarrow> goerr option" where
  "instance_err_loop U [] = None"
| "instance_err_loop U (x # xs) =
     (case cue_instance_err U x of
        Some (message, position) \<Rightarrow> Some (Plain (''error in cue instance: '' @ message @ '' ['' @ position @ '']''))
      | None \<Rightarrow> instance_err_loop U xs)"

definition NewValidateJSON :: "('i, 'v) cue_lib \<Rightarrow> (goerr, 'v option) go" where
  "NewValidateJSON U =
     (case cue_getwd U of
        Inl e \<Rightarrow> Fail e
      | Inr wd \<Rightarrow>
          (let instances = cue_instances U wd in
           case instance_err_loop U instances of
             Some e \<Rightarrow> Fail e
           | None \<Rightarrow>
               (case instances of
                  [] \<Rightarrow> Panic
                | x # xs \<Rightarrow> (case cue_build U x of Inl e \<Rightarrow> Ret None | Inr v \<Rightarrow> Ret (Some v)))))"

definition WithSchema ::
  "('i, 'v) cue_lib \<Rightarrow> http_lib \<Rightarrow> 'v option \<Rightarrow> string
   \<Rightarrow> (goerr, (request \<Rightarrow> (trace, reply) state) \<Rightarrow> request \<Rightarrow> (trace, reply) state) go"
where
  "WithSchema U H j s =
     (case j of
        None \<Rightarrow> Panic
      | Some v \<Rightarrow> (case cue_lookup U v s of Inl e \<Rightarrow> Panic | Inr schema \<Rightarrow> Ret (validate_ServeHTTP H schema)))"

subsection \<open>Registration\<close>

text \<open>
  The options of \<open>handlers.go\<close> and \<open>RegisterRoutes\<close>, which makes the middleware from them and gives every route to the multiplexer: a conflict of
  patterns panics there, a schema that is not found in \<open>WithSchema\<close>. The result is the application that theory \<open>Server\<close> serves, with the routes in
  order. The endpoint functions get their libraries from the application \<open>A\<close>; \<open>parse\<close> is the JWT library with a public key.
\<close>

record 'k handler =
  h_client :: "server option"
  h_logger :: "slog option"
  h_system_namespace :: string
  h_jwt_access_private_key :: "'k option"
  h_jwt_refresh_private_key :: "'k option"
  h_jwt_access_public_key :: "'k option"
  h_jwt_refresh_public_key :: "'k option"
  h_config :: "config_manager option"

definition zero_handler :: "'k handler" where
  "zero_handler = \<lparr>h_client = None, h_logger = None, h_system_namespace = [], h_jwt_access_private_key = None, h_jwt_refresh_private_key = None,
     h_jwt_access_public_key = None, h_jwt_refresh_public_key = None, h_config = None\<rparr>"

type_synonym 'k handler_option = "'k handler \<Rightarrow> 'k handler"

definition WithManager :: "server \<Rightarrow> 'k handler_option" where
  "WithManager controllerClient h = h\<lparr>h_client := Some controllerClient\<rparr>"

definition WithSystemNamespace :: "string \<Rightarrow> 'k handler_option" where
  "WithSystemNamespace namespace h = h\<lparr>h_system_namespace := namespace\<rparr>"

text \<open>\<open>public\<close> is the field \<open>PublicKey\<close> of a private key.\<close>

definition WithJWTPrivateKeys :: "('k \<Rightarrow> 'k) \<Rightarrow> 'k \<Rightarrow> 'k \<Rightarrow> 'k handler_option" where
  "WithJWTPrivateKeys public accessKey refreshKey h = h\<lparr>
     h_jwt_access_private_key := Some accessKey, h_jwt_refresh_private_key := Some refreshKey,
     h_jwt_access_public_key := Some (public accessKey), h_jwt_refresh_public_key := Some (public refreshKey)\<rparr>"

definition Handlers_WithLogger :: "slog option \<Rightarrow> 'k handler_option" where
  "Handlers_WithLogger logger h = h\<lparr>h_logger := logger\<rparr>"

definition WithConfigManager :: "config_manager option \<Rightarrow> 'k handler_option" where
  "WithConfigManager config h = h\<lparr>h_config := config\<rparr>"

fun register_loop ::
  "('i, 'v) cue_lib \<Rightarrow> http_lib \<Rightarrow> 'v option \<Rightarrow> route list \<Rightarrow> route list \<Rightarrow> (goerr, route list) go"
where
  "register_loop U H validateJSON [] mux = Ret mux"
| "register_loop U H validateJSON (rt # rts) mux =
     go_then (case rt_schema rt of None \<Rightarrow> Ret () | Some s \<Rightarrow> go_then (WithSchema U H validateJSON s) (\<lambda>_. Ret ())) (\<lambda>_.
     if list_ex (\<lambda>old. conflicts (parse_pattern (rt_pattern old)) (parse_pattern (rt_pattern rt))) mux then Panic
     else register_loop U H validateJSON rts (mux @ [rt]))"

definition RegisterRoutes ::
  "('i, 'v) cue_lib \<Rightarrow> ('k option \<Rightarrow> string \<Rightarrow> goerr + token) \<Rightarrow> ('j, 'c, 'k2, 'p) app \<Rightarrow> 'k handler_option list
   \<Rightarrow> (goerr, ('j, 'c, 'k2, 'p) app \<times> route list) go"
where
  "RegisterRoutes U parse A handlerOptions =
     (let h = fold (\<lambda>handlerOption. handlerOption) handlerOptions zero_handler in
      if h_system_namespace h = [] \<and> h_logger h = None then Panic
      else go_then (NewValidateJSON U) (\<lambda>validateJSON.
      go_then (register_loop U (ap_http A) validateJSON routes []) (\<lambda>mux.
      Ret (A\<lparr>ap_config := h_config h, ap_system_namespace := h_system_namespace h,
             ap_parse_access := parse (h_jwt_access_public_key h), ap_parse_refresh := parse (h_jwt_refresh_public_key h),
             ap_validate := (\<lambda>s. case validateJSON of
                 None \<Rightarrow> (\<lambda>_. None)
               | Some v \<Rightarrow> (case cue_lookup U v s of Inl e \<Rightarrow> (\<lambda>_. None) | Inr schema \<Rightarrow> schema))\<rparr>, mux))))"

text \<open>The definitions of \<open>validate_json.cue\<close> whose names do not begin with an underscore.\<close>

definition schema_definitions :: "string list" where
  "schema_definitions = [''#clusterOptions'', ''#login'', ''#workloadOptions'', ''#nodePoolOptions'', ''#createCredential'', ''#updateCredential'',
     ''#updateOrganization'', ''#createInvitation'', ''#verifyOptions'', ''#passwordResetRequestOptions'', ''#resetPasswordOptions'']"

lemma schemas_of_routes: "{s. \<exists>rt \<in> set routes. rt_schema rt = Some s} = set schema_definitions"
  by (auto simp: routes_def schema_definitions_def)

definition schema_found :: "('i, 'v) cue_lib \<Rightarrow> 'v option \<Rightarrow> string \<Rightarrow> bool" where
  "schema_found U j s = (\<exists>v schema. j = Some v \<and> cue_lookup U v s = Inr schema)"

lemma pairwise_append_Cons: "pairwise R (xs @ y # ys) \<Longrightarrow> x \<in> set xs \<Longrightarrow> R x y"
  by (induction xs) (auto simp: list_all_iff)

lemma pairwise_map: "pairwise R (map f xs) = pairwise (\<lambda>x y. R (f x) (f y)) xs"
  by (induction xs) (simp_all add: list_all_iff)

lemma register_loop_result:
  assumes "pairwise (\<lambda>x y. \<not> conflicts (parse_pattern (rt_pattern x)) (parse_pattern (rt_pattern y))) (mux @ rts)"
  shows "register_loop U H j rts mux =
    (if \<forall>rt \<in> set rts. \<forall>s. rt_schema rt = Some s \<longrightarrow> schema_found U j s then Ret (mux @ rts) else Panic)"
  using assms
proof (induction rts arbitrary: mux)
  case (Cons rt rts)
  have "\<not> list_ex (\<lambda>old. conflicts (parse_pattern (rt_pattern old)) (parse_pattern (rt_pattern rt))) mux"
    using pairwise_append_Cons [OF Cons.prems] by (auto simp: list_ex_iff)
  with Cons.IH [of "mux @ [rt]"] Cons.prems show ?case
    by (auto simp: WithSchema_def schema_found_def split: option.splits sum.splits)
qed simp

lemma register_routes_loop:
  "register_loop U H j routes [] = (if \<forall>s \<in> set schema_definitions. schema_found U j s then Ret routes else Panic)"
proof -
  have "pairwise (\<lambda>x y. \<not> conflicts (parse_pattern (rt_pattern x)) (parse_pattern (rt_pattern y))) routes"
    using routes_register by (simp add: pairwise_map)
  then show ?thesis
    using register_loop_result [of "[]" routes U H j] schemas_of_routes by auto
qed

lemma schema_definitions_not_empty: "schema_definitions \<noteq> []"
  by (simp add: schema_definitions_def)

text \<open>C39 Registration succeeds exactly when the schema is complete: with the options \<open>main.go\<close> gives, and a CUE instance without errors, \<open>RegisterRoutes\<close>
  registers all routes, none of them in conflict with another, exactly when the instance builds and has each of the definitions of
  \<open>validate_json.cue\<close> that is meant for requests, which are exactly those that routes ask for; otherwise it panics. The application it registers checks
  tokens with the public keys of the two private keys and bodies with the schema of the route.\<close>

theorem routes_registered_iff:
  assumes "cue_getwd U = Inr wd" and "cue_instances U wd = [x]" and "cue_instance_err U x = None"
  shows "RegisterRoutes U parse A [WithManager S, WithSystemNamespace ns, WithJWTPrivateKeys public accessKey refreshKey,
      Handlers_WithLogger (Some logger), WithConfigManager config] =
    (case cue_build U x of
       Inl e \<Rightarrow> Panic
     | Inr v \<Rightarrow>
         if \<forall>s \<in> set schema_definitions. \<exists>schema. cue_lookup U v s = Inr schema
         then Ret (A\<lparr>ap_config := config, ap_system_namespace := ns, ap_parse_access := parse (Some (public accessKey)),
           ap_parse_refresh := parse (Some (public refreshKey)),
           ap_validate := (\<lambda>s. case cue_lookup U v s of Inl e \<Rightarrow> (\<lambda>_. None) | Inr schema \<Rightarrow> schema)\<rparr>, routes)
         else Panic)"
proof -
  have main: "fold (\<lambda>handlerOption. handlerOption) [WithManager S, WithSystemNamespace ns, WithJWTPrivateKeys public accessKey refreshKey,
      Handlers_WithLogger (Some logger), WithConfigManager config] zero_handler =
    \<lparr>h_client = Some S, h_logger = Some logger, h_system_namespace = ns, h_jwt_access_private_key = Some accessKey,
     h_jwt_refresh_private_key = Some refreshKey, h_jwt_access_public_key = Some (public accessKey),
     h_jwt_refresh_public_key = Some (public refreshKey), h_config = config\<rparr>"
    by (simp add: zero_handler_def WithManager_def WithSystemNamespace_def WithJWTPrivateKeys_def Handlers_WithLogger_def WithConfigManager_def)
  show ?thesis
    unfolding RegisterRoutes_def main Let_def
    by (auto simp: NewValidateJSON_def assms register_routes_loop schema_found_def schema_definitions_not_empty split: sum.split)
qed

subsection \<open>What the log tells\<close>

text \<open>A reply begins with its status; another one follows only when a write failed.\<close>

definition one_status :: "http_lib \<Rightarrow> reply \<Rightarrow> bool" where
  "one_status H r =
     (case r of
        None \<Rightarrow> True
      | Some actions \<Rightarrow> \<exists>code rest. actions = WriteHeader code # rest
          \<and> (\<forall>a \<in> set rest. (\<exists>b. a = WriteBody b) \<or> (\<exists>b. lib_write_fails H b)))"

lemma one_status_simps [simp]:
  "one_status H None" "one_status H (status c)" "one_status H (respond H c b)" "one_status H (respond_quietly c b)"
  "one_status H (append_reply [] r) = one_status H r"
  by (auto simp: one_status_def status_def respond_def respond_quietly_def)

lemma one_status_unprocessable [simp]: "one_status H (unprocessable H line e)"
  by (auto simp: unprocessable_def split: goerr.split option.split sum.split)

lemma one_status_replies [simp]:
  "one_status H (create_cluster_reply H ab marshal x)" "one_status H (create_organization_reply H marshal x)"
  "one_status H (create_global_reply H marshal x)" "one_status H (update_reply H err)" "one_status H (update_global_reply H err)"
  "one_status H (update_nameless_reply H err)" "one_status H (get_reply H marshal x)" "one_status H (get_nameless_reply H marshal x)"
  "one_status H (list_reply marshal x)" "one_status H (delete_reply err)"
  by (auto simp: create_cluster_reply_def create_organization_reply_def create_global_reply_def update_reply_def update_global_reply_def
      update_nameless_reply_def get_reply_def get_nameless_reply_def list_reply_def delete_reply_def split: prod.split option.split sum.split)

lemma one_status_bind [simp]: "(\<forall>x. one_status H (f x)) \<Longrightarrow> one_status H (Option.bind r f)"
  by (cases r) simp_all

definition answers :: "(reply \<Rightarrow> bool) \<Rightarrow> (trace, reply) state \<Rightarrow> bool" where
  "answers Q m = (\<forall>t. Q (fst (run_state m t)))"

named_theorems answers_intros \<open>computations whose replies have a property\<close>

lemma answers_ret [answers_intros]: "Q r \<Longrightarrow> answers Q (ret r)"
  by (simp add: answers_def)

lemma answers_bind [answers_intros]: "(\<And>a. answers Q (f a)) \<Longrightarrow> answers Q (State_Monad.bind m f)"
  by (simp add: answers_def case_prod_unfold)

lemma answers_cases [answers_intros]:
  "(b \<Longrightarrow> answers Q m) \<Longrightarrow> (\<not> b \<Longrightarrow> answers Q n) \<Longrightarrow> answers Q (if b then m else n)"
  "(\<And>e. answers Q (f e)) \<Longrightarrow> (\<And>a. answers Q (g a)) \<Longrightarrow> answers Q (case r of Inl e \<Rightarrow> f e | Inr a \<Rightarrow> g a)"
  "answers Q m \<Longrightarrow> (\<And>a. answers Q (h a)) \<Longrightarrow> answers Q (case x of None \<Rightarrow> m | Some a \<Rightarrow> h a)"
  "answers Q m \<Longrightarrow> answers Q n \<Longrightarrow> answers Q (case y of True \<Rightarrow> m | False \<Rightarrow> n)"
  by (simp_all split: sum.split option.split bool.split)

lemma answers_gates [answers_intros]:
  assumes "\<And>c. Q (status c)"
  shows "answers Q k \<Longrightarrow> answers Q (require v k)"
    and "(\<And>b. answers Q (kb b)) \<Longrightarrow> answers Q (read_body req kb)"
    and "(\<And>q. answers Q (kq q)) \<Longrightarrow> answers Q (unmarshal_body um b kq)"
    and "(\<And>v ns. answers Q (ko v ns)) \<Longrightarrow> answers Q (org_gate S res verb name req ko)"
    and "answers Q k \<Longrightarrow> answers Q (global_gate S res verb req k)"
    and "(\<And>c. answers Q (kc c)) \<Longrightarrow> answers Q (cluster_gate S ns req e1 e2 kc)"
  using assms unfolding require_def read_body_def unmarshal_body_def org_gate_def global_gate_def cluster_gate_def
  by (auto intro!: answers_intros)

lemma generic_handlers_one_status [answers_intros]:
  "answers (one_status H) (CreateClusterResource H um ab ms res S f1 req)"
  "answers (one_status H) (CreateOrganizationResource H um ms res S f2 req)"
  "answers (one_status H) (CreateGlobalResource H um ms f3 req)"
  "answers (one_status H) (UpdateClusterResource H um res S f4 req)"
  "answers (one_status H) (UpdateOrganizationResource H um res S f5 req)"
  "answers (one_status H) (UpdateGlobalResource H um res S f6 req)"
  "answers (one_status H) (UpdateNamelessResource H um f7 req)"
  "answers (one_status H) (GetClusterResource H ms res S f8 req)"
  "answers (one_status H) (GetOrganizationResource H ms res S f9 req)"
  "answers (one_status H) (GetGlobalResource H ms res S f10 req)"
  "answers (one_status H) (GetNamelessResource H ms f11)"
  "answers (one_status H) (ListClusterResource ms res S f12 req)"
  "answers (one_status H) (ListOrganizationResource ms res S f13 req)"
  "answers (one_status H) (ListGlobalResource ms f14)"
  "answers (one_status H) (DeleteClusterResource res S f15 req)"
  "answers (one_status H) (DeleteOrganizationResource res S f16 req)"
  "answers (one_status H) (DeleteGlobalResource res S f17 req)"
  unfolding CreateClusterResource_def CreateOrganizationResource_def CreateGlobalResource_def UpdateClusterResource_def
    UpdateOrganizationResource_def UpdateGlobalResource_def UpdateNamelessResource_def GetClusterResource_def GetOrganizationResource_def
    GetGlobalResource_def GetNamelessResource_def ListClusterResource_def ListOrganizationResource_def ListGlobalResource_def
    DeleteClusterResource_def DeleteOrganizationResource_def DeleteGlobalResource_def
  by (rule answers_intros | simp)+

lemma handlers_one_status: "list_all (\<lambda>(f, h). \<forall>req. answers (one_status (ap_http A)) (h req)) (handlers A S)"
  by (simp add: handlers_def global_handlers_def organization_handlers_def Let_def generic_handlers_one_status)

lemma middleware_one_status:
  "(\<And>q. answers (one_status (ap_http A)) (nxt q)) \<Longrightarrow> answers (one_status (ap_http A)) (with_schema A schema nxt req)"
  "(\<And>q. answers (one_status (ap_http A)) (nxt q)) \<Longrightarrow> answers (one_status (ap_http A)) (with_token A kind authorization nxt req)"
  unfolding with_schema_def with_token_def validate_ServeHTTP_def RequireAuth_Handler_def
  by (auto simp: answers_def case_prod_unfold Let_def split: option.split token_kind.split sum.split)

text \<open>The wrapped writer does to the response what the response writer would.\<close>

lemma srw_transparent: "responseWriter (fold srw_act actions w) = fold rw_act actions (responseWriter w)"
proof (induction actions arbitrary: w)
  case (Cons a actions)
  then show ?case by (cases a) (simp_all add: StatusResponseWriter_WriteHeader_def StatusResponseWriter_Write_def)
qed simp

lemma srw_code_kept: "\<forall>a \<in> set actions. \<exists>b. a = WriteBody b \<Longrightarrow> statusCode (fold srw_act actions w) = statusCode w"
proof (induction actions arbitrary: w)
  case (Cons a actions)
  then show ?case by (cases a) (simp_all add: StatusResponseWriter_Write_def)
qed simp

lemma rw_sent_kept: "rw_sent w = Some s \<Longrightarrow> rw_sent (fold rw_act actions w) = Some s"
proof (induction actions arbitrary: w)
  case (Cons a actions)
  then show ?case by (cases a) (simp_all add: rw_write_def rw_write_header_def)
qed simp

lemma log_of_reply:
  assumes "one_status H (Some actions)" and "rw_sent w = None"
  shows "\<exists>c. first_header actions = Some c \<and> rw_sent (fold rw_act actions w) = Some (c, rw_header w)
    \<and> (statusCode (fold srw_act actions \<lparr>responseWriter = w, statusCode = 0\<rparr>) = c \<or> (\<exists>b. lib_write_fails H b))"
proof -
  obtain c rest where actions: "actions = WriteHeader c # rest"
    and rest: "\<forall>a \<in> set rest. (\<exists>b. a = WriteBody b) \<or> (\<exists>b. lib_write_fails H b)"
    using assms(1) by (auto simp: one_status_def)
  have "rw_sent (fold rw_act actions w) = Some (c, rw_header w)"
    using assms(2) by (simp add: actions rw_sent_kept rw_write_header_def)
  moreover have "statusCode (fold srw_act actions \<lparr>responseWriter = w, statusCode = 0\<rparr>) = c" if "\<nexists>b. lib_write_fails H b"
    using rest that by (simp add: actions srw_code_kept StatusResponseWriter_WriteHeader_def)
  ultimately show ?thesis by (auto simp: actions)
qed


text \<open>A request without a token, and a schema library that knows all the definitions.\<close>

definition anonymous_request :: http_request where
  "anonymous_request = delete_request\<lparr>hr_authorization := []\<rparr>"

definition delete_handler_of :: "server \<Rightarrow> request \<Rightarrow> (trace, reply) state" where
  "delete_handler_of S req = DeleteOrganizationResource ''clusters'' S (\<lambda>v n. failing (DeleteOrganizationCluster S v n)) req"


definition all_schemas :: "(unit, unit) cue_lib" where
  "all_schemas = \<lparr>cue_getwd = Inr ''/'', cue_instances = (\<lambda>wd. [()]), cue_instance_err = (\<lambda>x. None), cue_build = Inr,
     cue_lookup = (\<lambda>v s. if s \<in> set schema_definitions then Inr (\<lambda>body. None) else Inl (Plain ''not found''))\<rparr>"

lemma routes_registered_iff_witness:
  "\<exists>A. RegisterRoutes all_schemas (\<lambda>key token. if key = Some ''key of access'' then Inr \<lparr>tk_claims = Some (Inr token), tk_valid = True\<rparr> else Inl (Plain ''signature''))
      plain_app [WithManager tenant_server, WithSystemNamespace ''system'', WithJWTPrivateKeys ((@) ''key of '') ''access'' ''refresh'',
        Handlers_WithLogger (Some []), WithConfigManager None] = Ret (A, routes) \<and> ap_parse_access A ''alice'' = Inr \<lparr>tk_claims = Some (Inr ''alice''), tk_valid = True\<rparr>"
proof -
  have lib: "cue_getwd all_schemas = Inr ''/''" "cue_instances all_schemas ''/'' = [()]" "cue_instance_err all_schemas () = None"
    "cue_build all_schemas () = Inr ()"
    by (simp_all add: all_schemas_def)
  have "\<exists>schema. cue_lookup all_schemas () s = Inr schema" if "s \<in> set schema_definitions" for s
    using that by (simp add: all_schemas_def)
  then show ?thesis
    by (subst routes_registered_iff [OF lib(1-3)]) (simp add: lib(4))
qed

end
