(* ===== verification/Remaining_Types.thy ===== *)
theory Remaining_Types
  imports Names Webhooks Accounts Controllers Resources
begin

text \<open>
  What is left of \<open>api/v1alpha3\<close> and \<open>api/featurenames\<close>: constants and resource types that the modelled code does not use, with the accessor methods
  that make the types \<open>Conditionable\<close>, and what must hold of all the names together.
\<close>

named_theorems remaining_consts \<open>values of the remaining constants\<close>

subsection \<open>Constants\<close>

definition LabelReleaseName :: string where [remaining_consts]: "LabelReleaseName = ''dockyards.io/release-name''"

definition LabelNamespaceName :: string where [remaining_consts]: "LabelNamespaceName = ''dockyards.io/namespace-name''"

definition ProvenienceDockyards :: string where [remaining_consts]: "ProvenienceDockyards = ''Dockyards''"

definition AnnotationIgnoreDeployments :: string where [remaining_consts]: "AnnotationIgnoreDeployments = ''dockyards.io/ignore-deployments''"

definition AnnotationSkipRemediation :: string where [remaining_consts]: "AnnotationSkipRemediation = ''dockyards.io/skip-remediation''"

definition DeletingReason :: string where [remaining_consts]: "DeletingReason = ''Deleting''"

definition DeletedReason :: string where [remaining_consts]: "DeletedReason = ''Deleted''"

definition CloudProjectAssignedReason :: string where [remaining_consts]: "CloudProjectAssignedReason = ''CloudProjectAssigned''"

definition WorkloadTemplateReconciledCondition :: string where [remaining_consts]: "WorkloadTemplateReconciledCondition = ''WorkloadTemplateReconciled''"

definition ReconcilingCondition :: string where [remaining_consts]: "ReconcilingCondition = ''Reconciling''"

definition ClusterTemplateKind :: string where [remaining_consts]: "ClusterTemplateKind = ''ClusterTemplate''"

definition CredentialTemplateKind :: string where [remaining_consts]: "CredentialTemplateKind = ''CredentialTemplate''"

definition DNSZoneKind :: string where [remaining_consts]: "DNSZoneKind = ''DNSZone''"

definition DNSZoneClaimKind :: string where [remaining_consts]: "DNSZoneClaimKind = ''DNSZoneClaim''"

definition FeatureKind :: string where [remaining_consts]: "FeatureKind = ''Feature''"

definition IdentityProviderKind :: string where [remaining_consts]: "IdentityProviderKind = ''IdentityProvider''"

definition OrganizationVoucherKind :: string where [remaining_consts]: "OrganizationVoucherKind = ''OrganizationVoucher''"

definition ReleaseKind :: string where [remaining_consts]: "ReleaseKind = ''Release''"

definition VerificationRequestKind :: string where [remaining_consts]: "VerificationRequestKind = ''VerificationRequest''"

definition WorkloadInventoryKind :: string where [remaining_consts]: "WorkloadInventoryKind = ''WorkloadInventory''"

definition WorktreeKind :: string where [remaining_consts]: "WorktreeKind = ''Worktree''"

definition WorkloadTemplateTypeCue :: string where [remaining_consts]: "WorkloadTemplateTypeCue = ''dockyards.io/cue''"

definition ReleaseTypeTalosInstaller :: string where [remaining_consts]: "ReleaseTypeTalosInstaller = ''TalosInstaller''"

definition FeatureTalosconfig :: string where [remaining_consts]: "FeatureTalosconfig = ''talosconfig''"

definition FeatureMetrics :: string where [remaining_consts]: "FeatureMetrics = ''metrics''"

definition FeatureSafespringElasticNetworks :: string where [remaining_consts]: "FeatureSafespringElasticNetworks = ''safespring-elastic-networks''"

definition FeatureCostEstimates :: string where [remaining_consts]: "FeatureCostEstimates = ''cost-estimates''"

definition FeatureAPIExplanations :: string where [remaining_consts]: "FeatureAPIExplanations = ''api-explanations''"

definition FeatureDNSZones :: string where [remaining_consts]: "FeatureDNSZones = ''dns-zones''"

definition FeatureAPIEquivalents :: string where [remaining_consts]: "FeatureAPIEquivalents = ''api-equivalents''"

definition FeatureCloudDirectorAPITokens :: string where [remaining_consts]: "FeatureCloudDirectorAPITokens = ''cloud-director-api-tokens''"

definition FeatureWorkloads :: string where [remaining_consts]: "FeatureWorkloads = ''workloads''"

subsection \<open>Resource types\<close>

record worktree_status =
  wtst_conditions :: "condition list"
  wtst_url :: "string option"
  wtst_reference_name :: "string option"
  wtst_commit_hash :: "string option"

record worktree =
  worktree_meta :: object_meta
  wts_files :: "string gomap"
  worktree_status :: worktree_status

definition Worktree_GetConditions :: "worktree \<Rightarrow> condition list" where
  "Worktree_GetConditions w = wtst_conditions (worktree_status w)"

definition Worktree_SetConditions :: "worktree \<Rightarrow> condition list \<Rightarrow> worktree" where
  "Worktree_SetConditions w conditions = w\<lparr>worktree_status := (worktree_status w)\<lparr>wtst_conditions := conditions\<rparr>\<rparr>"

record dns_zone_claim_status =
  dcst_conditions :: "condition list"
  dcst_dns_zone_ref :: "typed_local_ref option"

record dns_zone_claim =
  dns_zone_claim_meta :: object_meta
  dns_zone_claim_status :: dns_zone_claim_status

definition DNSZoneClaim_GetConditions :: "dns_zone_claim \<Rightarrow> condition list" where
  "DNSZoneClaim_GetConditions c = dcst_conditions (dns_zone_claim_status c)"

definition DNSZoneClaim_SetConditions :: "dns_zone_claim \<Rightarrow> condition list \<Rightarrow> dns_zone_claim" where
  "DNSZoneClaim_SetConditions c conditions = c\<lparr>dns_zone_claim_status := (dns_zone_claim_status c)\<lparr>dcst_conditions := conditions\<rparr>\<rparr>"

text \<open>JSON values are kept as their text.\<close>

record workload_template_spec =
  wkts_source :: string
  wkts_type :: string

record workload_template_status =
  wktst_input_schema :: "string option"

record workload_template_resource =
  workload_template_resource_meta :: object_meta
  workload_template_resource_spec :: workload_template_spec
  workload_template_resource_status :: workload_template_status

definition Deployment_GetConditions :: "deployment \<Rightarrow> condition list" where
  "Deployment_GetConditions d = dst_conditions (deployment_status d)"

definition Deployment_SetConditions :: "deployment \<Rightarrow> condition list \<Rightarrow> deployment" where
  "Deployment_SetConditions d conditions = d\<lparr>deployment_status := (deployment_status d)\<lparr>dst_conditions := conditions\<rparr>\<rparr>"

definition HelmDeployment_GetConditions :: "helm_deployment \<Rightarrow> condition list" where
  "HelmDeployment_GetConditions d = hdst_conditions d"

definition HelmDeployment_SetConditions :: "helm_deployment \<Rightarrow> condition list \<Rightarrow> helm_deployment" where
  "HelmDeployment_SetConditions d conditions = d\<lparr>hdst_conditions := conditions\<rparr>"

definition KustomizeDeployment_GetConditions :: "kustomize_deployment \<Rightarrow> condition list" where
  "KustomizeDeployment_GetConditions d = kdst_conditions d"

definition KustomizeDeployment_SetConditions :: "kustomize_deployment \<Rightarrow> condition list \<Rightarrow> kustomize_deployment" where
  "KustomizeDeployment_SetConditions d conditions = d\<lparr>kdst_conditions := conditions\<rparr>"

definition ContainerImageDeployment_GetConditions :: "container_image_deployment \<Rightarrow> condition list" where
  "ContainerImageDeployment_GetConditions d = cdst_conditions d"

definition ContainerImageDeployment_SetConditions :: "container_image_deployment \<Rightarrow> condition list \<Rightarrow> container_image_deployment" where
  "ContainerImageDeployment_SetConditions d conditions = d\<lparr>cdst_conditions := conditions\<rparr>"

interpretation worktree_conditions: conditionable Worktree_GetConditions Worktree_SetConditions
  by unfold_locales (simp_all add: Worktree_GetConditions_def Worktree_SetConditions_def)

interpretation dns_zone_claim_conditions: conditionable DNSZoneClaim_GetConditions DNSZoneClaim_SetConditions
  by unfold_locales (simp_all add: DNSZoneClaim_GetConditions_def DNSZoneClaim_SetConditions_def)

interpretation deployment_conditions: conditionable Deployment_GetConditions Deployment_SetConditions
  by unfold_locales (simp_all add: Deployment_GetConditions_def Deployment_SetConditions_def)

interpretation helm_deployment_conditions: conditionable HelmDeployment_GetConditions HelmDeployment_SetConditions
  by unfold_locales (simp_all add: HelmDeployment_GetConditions_def HelmDeployment_SetConditions_def)

interpretation kustomize_deployment_conditions: conditionable KustomizeDeployment_GetConditions KustomizeDeployment_SetConditions
  by unfold_locales (simp_all add: KustomizeDeployment_GetConditions_def KustomizeDeployment_SetConditions_def)

interpretation container_image_deployment_conditions:
  conditionable ContainerImageDeployment_GetConditions ContainerImageDeployment_SetConditions
  by unfold_locales (simp_all add: ContainerImageDeployment_GetConditions_def ContainerImageDeployment_SetConditions_def)

subsection \<open>All the names\<close>

text \<open>A feature is an object of that name, and a scheme has one type for a kind.\<close>

definition feature_names :: "string list" where
  "feature_names = [FeatureLoadBalancerRole, FeatureStorageRole, FeatureTalosconfig, FeatureMetrics, FeatureSafespringElasticNetworks,
     FeatureOrganizationAutoAssign, FeatureCostEstimates, FeatureAPIExplanations, FeatureDNSZones, FeatureAPIEquivalents, FeatureClusterUpgrades,
     FeatureImmutableResources, FeatureCloudDirectorAPITokens, FeatureWorkloads, FeatureImmutableStorageResources, FeatureUserSignUp,
     FeatureStorageResourceTypeHostPath]"

lemma feature_names_usable: "distinct feature_names \<and> list_all (\<lambda>n. snd (IsValidName n)) feature_names"
  by code_simp

definition resource_kinds :: "string list" where
  "resource_kinds = [ClusterKind, ClusterTemplateKind, ContainerImageDeploymentKind, CredentialTemplateKind, DeploymentKind, DNSZoneKind, DNSZoneClaimKind,
     FeatureKind, HelmDeploymentKind, IdentityProviderKind, InvitationKind, KustomizeDeploymentKind, MemberKind, NodeKind, NodePoolKind, OrganizationKind,
     OrganizationVoucherKind, ReleaseKind, UserKind, VerificationRequestKind, WorkloadKind, WorkloadInventoryKind, WorkloadTemplateKind, WorktreeKind]"

lemma resource_kinds_distinct: "distinct resource_kinds"
  by code_simp

text \<open>Two labels have one name.\<close>

definition name_labels :: "string list" where
  "name_labels = [LabelOrganizationName, LabelClusterName, LabelNodePoolName, LabelNodeName, LabelDeploymentName, LabelHelmDeploymentName,
     LabelContainerImageDeployment, LabelKustomizeDeploymentName, LabelReleaseName, LabelCredentialTemplateName, LabelWorkloadName,
     LabelWorkloadTemplateName, LabelNamespaceName, LabelUserName, LabelMemberName, LabelRoleName, LabelProviderName]"

lemma labels_collide:
  "LabelContainerImageDeployment = LabelHelmDeploymentName \<and> distinct (remove1 LabelContainerImageDeployment name_labels)"
  by code_simp

end
