(* ===== verification/Spec2Isabelle.thy ===== *)
theory Spec2Isabelle
  imports Apiutil Authorization Auth_Config Names Bubblebabble Webhooks Endpoints Routes
    Config Indexes Accounts User_Controller Account_Machine Controllers Organizations Node_Pools Clusters Resources
    Jwt_Keys Api_V1 Api_V2 Tenancy Well_Formed Requeue Joining Metrics Admin_Kubeconfig Watches Work_Queue Startup Middleware Remaining_Types
begin

text \<open>
  A verification development for dockyards-backend, the API server of Dockyards: organizations of users who run
  clusters, kept as custom resources in a Kubernetes API server.

  \<^bold>\<open>How the program is put together.\<close> A request passes the middleware of \<open>internal/api/v1/middleware\<close>
  (a JWT gives its subject), a generic handler of \<open>internal/api/v1/handlers/{create,get,list,update,delete}.go\<close>
  (it looks up the organization, asks the API server for an access review and encodes the answer) and
  an endpoint function. The access reviews are answered from role bindings which
  \<open>pkg/authorization/authorization.go\<close> writes for the cluster as a whole, for organizations, members and users.
  Every resource the endpoints or controllers write passes an admission webhook of \<open>internal/webhooks\<close>.

  \<^bold>\<open>The theories.\<close>
  \<^item> \<open>Prelude\<close>: Go strings, maps and outcomes; computations over a trace of calls, with the rules for
    \<open>emits\<close> (what a computation may append to the trace).
  \<^item> \<open>Kube_Types\<close>, \<open>Api_Types\<close>, \<open>Remaining_Types\<close>: object metadata and RBAC types; the structs and constants of
    \<open>api/v1alpha3\<close> and \<open>api/featurenames\<close>. Locales \<open>expirable\<close> and \<open>conditionable\<close> are the Go interfaces of these names.
  \<^item> \<open>Client\<close>: errors and the Kubernetes client. The API server is not part of the repository; it is a
    record \<open>server\<close> of functions of the whole sequence of earlier calls, and every theorem quantifies
    over it, so other clients may act between any two calls. The locale \<open>resource_interface\<close> ties each
    resource type to its kind and is interpreted for every one of them.
  \<^item> \<open>Apiutil\<close>: \<open>api/apiutil/apiutil.go\<close>, all functions. Owner lookup, feature and default lookups (instances of
    the locale \<open>first_match\<close>), error classification, workload references as a refinement of a map.
  \<^item> \<open>Authorization\<close>: all reconcilers of \<open>authorization.go\<close> with their callbacks, and the meaning of
    the objects they write (rules, roles, bindings as Kubernetes documents them). Lemmas: what a member,
    an organization and a second reconciliation give access to, and that a reconciliation stays within
    the member's own objects whatever the server answers.
  \<^item> \<open>Auth_Config\<close>: the parsers and printers of authentication configurations and advanced options in
    \<open>handlers/clusters.go\<close>. Every parser keeps the contract of the locale \<open>parser\<close> (errors are only
    appended, and the result does not depend on those already there); round trips and the inputs they lose.
  \<^item> \<open>Names\<close>, \<open>Bubblebabble\<close>: \<open>pkg/util/name\<close> against the object name pattern; \<open>pkg/util/bubblebabble\<close> with
    a decoder, buffer bounds and 64-bit arithmetic.
  \<^item> \<open>Prefixes\<close>, \<open>Webhooks\<close>: IP prefixes as \<open>net/netip\<close> documents them, and the six admission webhooks:
    acceptance criteria, immutability over sequences of updates (locale \<open>immutable_field\<close>), panics.
  \<^item> \<open>Endpoints\<close>: the generic handlers and \<open>RequireAuth\<close>. The locale \<open>guarded_handler\<close> is the contract of
    an endpoint that must be permitted, interpreted for all thirteen handlers with a review.
  \<^item> \<open>Routes\<close>: the table of \<open>handlers.go\<close>, pattern conflicts, which entries are exposed and which level of
    member reaches which entry.
  \<^item> \<open>Config\<close>: \<open>internal/config\<close>, the configuration manager and its typed reads.
  \<^item> \<open>Indexes\<close>: \<open>api/v1alpha3/index\<close> and the registration of the field indexes in \<open>main.go\<close>; what a list by an
    indexed field returns.
  \<^item> \<open>Conditions\<close>: the conditions library of cluster-api as a parameter (\<open>conditions_lib\<close>) with its documented
    laws, and the helpers of the code on top of it.
  \<^item> \<open>Accounts\<close>, \<open>User_Controller\<close>: users, log in, tokens, passwords and verification requests as the end points
    and the user controller handle them.
  \<^item> \<open>Store\<close>: an executable API server that keeps objects, as Kubernetes documents it (names and creation times, the
    status subresource, lists by registered indexes), and weakest preconditions of computations over a trace.
  \<^item> \<open>Account_Lifecycle\<close>: sign up, verification and log in as one sequence over a store. \<open>Work_Queue\<close>: the controller of users driven by the
    events of the calls; its queue drains, and sign-ups reach their goal. \<open>Account_Machine\<close>: the accounts as a state machine
    whose steps are the end points and the controller, any of them at any time, and its invariant by rule induction: who is ready
    has entered a code.
  \<^item> \<open>Organizations\<close>: end points for organizations, members and invitations. \<open>Joining\<close>: from an invitation through the member it becomes
    to what its receiver may do.
  \<^item> \<open>Controllers\<close>: the reconcilers of members, invitations, organizations, workloads and clusters. \<open>Requeue\<close>: the work queue around a
    reconciler, as a partial function, and that the one of invitations ends. \<open>Watches\<close>: which change wakes which controller.
  \<^item> \<open>Clusters\<close>, \<open>Node_Pools\<close>, \<open>Resources\<close>: end points for clusters, node pools, workloads, credentials, templates,
    nodes and options. \<open>Kubeconfigs\<close>: signing client certificates for clusters.
  \<^item> \<open>Sso\<close>: the log in through an identity provider, \<open>handlers/sso.go\<close>. \<open>Jwt_Keys\<close>: \<open>pkg/util/jwt\<close>, the signing keys and that they
    survive restarts.
  \<^item> \<open>Api_V1\<close>: which function \<open>RegisterRoutes\<close> puts behind which route. \<open>Server\<close>: a request through the multiplexer, the token, the validation of
    the body and its handler. \<open>Middleware\<close>: \<open>RegisterRoutes\<close> with the options of \<open>main.go\<close>, the validator it needs, and the logger around every
    route. \<open>Tenancy\<close>: a request below one organization touches objects of its namespace only, after a
    review there (locale \<open>organization_handler\<close>). \<open>Well_Formed\<close>: what every call of the server looks like.
  \<^item> \<open>Api_V2\<close>: the second version of the API, which reads any resource that a definition describes.
  \<^item> \<open>Metrics\<close>: \<open>internal/metrics\<close>, the vectors and what they show. \<open>Admin_Kubeconfig\<close>: the command \<open>create-admin-kubeconfig\<close>, whose watch may last for
    ever. \<open>Startup\<close>: \<open>main.go\<close>, what starts in which order.
  \<^item> This theory: from a member's role through the written role bindings and the access review to what its
    requests can do.

  \<^bold>\<open>Reasoning.\<close> Three small logics carry the proofs. \<open>emits P m\<close> says that every call a computation makes satisfies \<open>P\<close>, whatever the server
  answers; its rules follow the shape of the code. \<open>calls_ok\<close> does the same with the trace before each call. \<open>wp m P t\<close> follows one
  run. The collections \<open>appends_intros\<close>, \<open>calls_ok_intros\<close>, \<open>run_simps\<close>, \<open>resource_simps\<close> and \<open>tenancy\<close> hold their rules.

  \<^bold>\<open>Errors, panics, loops.\<close> An error is a value of \<open>goerr\<close> in a sum, a panic is \<open>Panic\<close>, or \<open>None\<close> in a reply;
  every early return of the source is a branch. The loops over lists are structural recursions, so
  they terminate and no fuel is needed; the encoder of \<open>Bubblebabble\<close> recurses over the remaining input. Three loops may run for ever and are
  partial functions whose value is then \<open>None\<close>: the requeues of one object (\<open>Requeue.drive\<close>), the queue of the controller of users
  (\<open>Work_Queue.work\<close>) and the watch of the command (\<open>Admin_Kubeconfig.watch_loop\<close>); when they end is what is proved of them.
  Go's \<open>int\<close> in \<open>RandomWithEntropyOfAtLeast\<close> wraps at 64 bits, an \<open>int32\<close> field is a \<open>32 word\<close>.

  \<^bold>\<open>Parameters.\<close> What the code calls outside the repository is an argument: the API server (\<open>server\<close>), parsing
  of API versions, addresses and JSON, printing of references (\<open>api_lib\<close>, \<open>webhook_lib\<close>, \<open>patch_lib\<close>,
  \<open>http_lib\<close>, \<open>account_lib\<close>, \<open>kubeconfig_lib\<close>, \<open>sso_lib\<close>), the JWT parser, the CUE schemas and the random source. A theorem that relies on their
  documented behaviour says so in a named hypothesis: \<open>cooperative\<close> (CreateOrPatch finds the object under its key and
  stores what the callback returns), \<open>features_are\<close> and \<open>lists_from\<close> (lists do not change between calls), \<open>indexes_at\<close> (a list by field
  is answered by the registered index), \<open>keeps_keys\<close> (an answer has the key and the namespace that was asked for),
  \<open>conditions_documented\<close>, \<open>conditions_kept\<close>, \<open>account_lib_documented\<close>, \<open>state_codings_documented\<close> (laws of the libraries), \<open>store_server\<close> (the server is the store),
  \<open>clock_monotone\<close> and \<open>timer\<close> (time passes). Versions in the upgrade window (\<open>triple_semver\<close>) have no pre-release part.

  \<^bold>\<open>Not modelled.\<close> What is logged besides the status; the flag library; list types, which only hold items, and the registration of types with a
  scheme; generated deep copies (\<open>zz_generated.deepcopy.go\<close>: values have no aliases here, so a copy is the value itself); test support
  (\<open>pkg/testing\<close>), which starts an API server for tests.
\<close>

subsection \<open>From a member's role to what its requests can do\<close>

text \<open>An API server that answers access reviews from the role bindings written in \<open>t0\<close> and in every other
  respect is the server \<open>S\<close>.\<close>

definition review_allowed :: "trace \<Rightarrow> access_review \<Rightarrow> bool" where
  "review_allowed t0 rv =
     namespace_allows t0 (ra_namespace (sar_attributes rv)) (sar_user rv) (ra_verb (sar_attributes rv))
       (ra_resource (sar_attributes rv)) (ra_name (sar_attributes rv))"

definition reviewing :: "server \<Rightarrow> trace \<Rightarrow> server" where
  "reviewing S t0 = S\<lparr>sv_review := (\<lambda>t rv. Inr (review_allowed t0 rv))\<rparr>"

lemma reviewing_simps [simp]:
  "sv_get (reviewing S t0) = sv_get S" "sv_review (reviewing S t0) t rv = Inr (review_allowed t0 rv)"
  by (simp_all add: reviewing_def)

definition member_review :: "member \<Rightarrow> string \<Rightarrow> string \<Rightarrow> string \<Rightarrow> access_review" where
  "member_review m verb res name = \<lparr>sar_user = member_user m, sar_groups = [''dockyards:authenticated''],
     sar_attributes = \<lparr>ra_namespace = member_namespace m, ra_verb = verb, ra_group = GroupVersion_Group, ra_version = [],
       ra_resource = res, ra_name = name\<rparr>\<rparr>"

text \<open>C10 From role to request: once the cluster-wide roles and a member have been reconciled, a request of the
  member's user below its organization reaches the endpoint exactly when the member's role permits verb
  and resource, or the member removes itself; otherwise it is answered with 401 right after the
  review. The reviews are answered from the role bindings the reconciliation wrote.\<close>

theorem member_reaches_endpoint:
  assumes "cooperative S"
    and "sv_get R t AOrganization \<lparr>ok_namespace = [], ok_name = req_organization_name req\<rparr> = Inr (KOrganization v)"
    and "os_namespace_ref (organization_spec v) = Some (member_namespace m)"
    and "req_subject req = Some (member_user m)"
  shows "let t' = t @ [CGet AOrganization \<lparr>ok_namespace = [], ok_name = req_organization_name req\<rparr>,
                 CReview (member_review m verb res name)] in
     run_state (org_gate (reviewing R (snd (member_reconciled S m))) res verb name req k) t =
       (if permitted (level_of_role (ms_role (member_spec m))) verb res \<or> may_leave m verb res name
        then run_state (k v (member_namespace m)) t'
        else (status StatusUnauthorized, t'))"
proof -
  have kind: "rk_kind R_organization = AOrganization" and wrap: "rk_wrap R_organization = KOrganization"
    by (simp_all add: R_organization_def)
  have "decode R_organization (Inr (KOrganization v)) = Inr v"
    using organization_resource.decode_wrapped wrap by metis
  then show ?thesis
    using assms(2-4)
    by (simp add: Let_def org_gate_def run_k_get kind SubjectFrom_def run_IsSubjectAllowed review_allowed_def member_review_def
      member_reconciled_allows(2) [OF assms(1)])
qed

text \<open>C2 A \<open>Reader\<close> cannot change anything: after reconciling a member whose role is \<open>Reader\<close>, no request of its
  user to a creating, updating or deleting endpoint of its organization or of a cluster in it writes
  anything or is answered with success, whatever the endpoint function would do; removing itself from
  the organization is the exception.\<close>

theorem reader_cannot_write:
  assumes "cooperative S" and "ms_role (member_spec m) = RoleReader" and "om_name (member_meta m) \<noteq> []"
    and "req_subject req = Some (member_user m)"
    and "\<And>t v. sv_get R t AOrganization \<lparr>ok_namespace = [], ok_name = req_organization_name req\<rparr> = Inr (KOrganization v)
           \<Longrightarrow> os_namespace_ref (organization_spec v) = Some (member_namespace m)"
    and "\<not> may_leave m ''delete'' res (req_resource_name req)"
    and f: "\<forall>c q. appends (f1 c q)" "\<forall>v q. appends (f2 v q)" "\<forall>c n q. appends (f3 c n q)" "\<forall>v n q. appends (f4 v n q)"
      "\<forall>c n. appends (f5 c n)" "\<forall>v n. appends (f6 v n)"
    and h: "h \<in> {CreateClusterResource H um1 ab ms1 res R' f1 req, CreateOrganizationResource H um2 ms2 res R' f2 req,
      UpdateClusterResource H um3 res R' f3 req, UpdateOrganizationResource H um4 res R' f4 req,
      DeleteClusterResource res R' f5 req, DeleteOrganizationResource res R' f6 req}"
    and R': "R' = reviewing R (snd (member_reconciled S m))"
    and run: "run_state h t = (r, t @ new)"
  shows "read_only new \<and> \<not> succeeded r"
proof -
  obtain verb name where verb: "verb \<in> {''create'', ''patch'', ''delete''}"
    and name: "name = (\<lambda>_. []) \<or> verb = ''delete'' \<and> name = req_resource_name"
    and guard: "guarded (org_reviewed res verb name R' req) R' h"
    using h f by (auto intro: create_cluster_endpoint.handler_guarded create_organization_endpoint.handler_guarded
      update_cluster_endpoint.handler_guarded update_organization_endpoint.handler_guarded
      delete_cluster_endpoint.handler_guarded delete_organization_endpoint.handler_guarded)
  have "\<not> after_review (org_reviewed res verb name R' req) R' t new"
  proof
    assume "after_review (org_reviewed res verb name R' req) R' t new"
    then obtain pre rv where allowed: "review_allowed (snd (member_reconciled S m)) rv"
      and rv: "org_reviewed res verb name R' req t pre rv"
      unfolding after_review_def R' by auto
    from rv assms(4,5) have "rv = member_review m verb res (name req)"
      by (auto simp: org_reviewed_def member_review_def R')
    with allowed have "permitted ReaderLevel verb res \<or> may_leave m verb res (name req)"
      using member_reconciled_allows(2) [OF assms(1)] assms(2)
      by (simp add: review_allowed_def member_review_def level_of_role_def)
    with verb name assms(3,6) show False
      by (auto simp: may_leave_def)
  qed
  with guard run show ?thesis
    unfolding guarded_def by (metis fst_conv not_less same_append_eq snd_conv succeeded_simps(1))
qed

text \<open>Alice, a reader of the organization whose namespace is \<open>acme-ns\<close>, tries to delete a cluster.\<close>

definition acme :: organization where
  "acme = zero_organization\<lparr>organization_spec := (organization_spec zero_organization)\<lparr>os_namespace_ref := Some ''acme-ns''\<rparr>\<rparr>"

definition alice :: "string \<Rightarrow> member" where
  "alice role = zero_member\<lparr>
     member_meta := empty_meta\<lparr>om_name := ''m1'', om_namespace := ''acme-ns''\<rparr>,
     member_spec := (member_spec zero_member)\<lparr>ms_role := role, ms_user_ref := (ms_user_ref (member_spec zero_member))\<lparr>tl_name := ''alice''\<rparr>\<rparr>\<rparr>"

definition alice_server :: "string \<Rightarrow> server" where
  "alice_server role = reviewing (organization_server acme) (snd (member_reconciled empty_server (alice role)))"

definition alice_deletes :: "string \<Rightarrow> reply \<times> trace" where
  "alice_deletes role = run_state (DeleteOrganizationResource ''clusters'' (alice_server role)
     (delete_something (alice_server role)) example_request) []"

lemma acme_server: "sv_get (organization_server acme) t kd key = Inr (KOrganization acme)"
  by (simp add: organization_server_def)

lemma acme_namespace: "os_namespace_ref (organization_spec acme) = Some ''acme-ns''"
  by (simp add: acme_def)

lemma alice_simps [simp]:
  "member_user (alice role) = ''alice''" "member_namespace (alice role) = ''acme-ns''"
  "om_name (member_meta (alice role)) = ''m1''" "ms_role (member_spec (alice role)) = role"
  by (simp_all add: alice_def)

lemma example_request_simps [simp]:
  "req_subject example_request = Some ''alice''" "req_resource_name example_request = ''pool''"
  "req_organization_name example_request = ''acme''"
  by (simp_all add: example_request_def)

lemma member_reaches_endpoint_witness:
  "let t' = [CGet AOrganization \<lparr>ok_namespace = [], ok_name = ''acme''\<rparr>, CReview (member_review (alice RoleUser) ''delete'' ''clusters'' ''pool'')]
   in run_state (org_gate (alice_server RoleUser) ''clusters'' ''delete'' ''pool'' example_request (\<lambda>v ns. ret (status 202))) []
        = (status 202, t')"
  using member_reaches_endpoint [OF empty_server_cooperative, of "organization_server acme" "[]" example_request acme
      "alice RoleUser" "''delete''" "''clusters''" "''pool''" "\<lambda>v ns. ret (status 202)"]
  by (simp add: acme_server acme_namespace alice_server_def level_of_role_def)

lemma reader_cannot_write_witness:
  "read_only (snd (alice_deletes RoleReader)) \<and> \<not> succeeded (fst (alice_deletes RoleReader))"
proof (rule reader_cannot_write [OF empty_server_cooperative, where m = "alice RoleReader" and req = example_request
      and res = "''clusters''" and R = "organization_server acme" and t = "[]"
      and ?f1.0 = "\<lambda>_ _. ret None" and ?f2.0 = "\<lambda>_ _. ret None" and ?f3.0 = "\<lambda>_ _ _. ret None" and ?f4.0 = "\<lambda>_ _ _. ret None"
      and ?f5.0 = "\<lambda>_ _. ret None" and ?f6.0 = "delete_something (alice_server RoleReader)"
      and R' = "alice_server RoleReader"
      and h = "DeleteOrganizationResource ''clusters'' (alice_server RoleReader) (delete_something (alice_server RoleReader)) example_request"])
  show "run_state (DeleteOrganizationResource ''clusters'' (alice_server RoleReader)
     (delete_something (alice_server RoleReader)) example_request) [] = (fst (alice_deletes RoleReader), [] @ snd (alice_deletes RoleReader))"
    by (simp add: alice_deletes_def)
qed (simp_all add: acme_server acme_namespace alice_server_def may_leave_def delete_something_appends)

end
